(* ===== verification/Prelude.thy ===== *)
theory Prelude
  imports Main
begin

text \<open>
  Shared vocabulary of the development: the parts of Go's \<open>strings\<close> package the sources
  use (a Go string is a byte sequence, here \<^typ>\<open>string\<close>), and the effect type of the
  services. A Go function that talks to a repository, a policy store or a clock becomes a
  function from a world to a result and a new world; its error return is the left summand.
  The combinators below are the three shapes in which the Go code chains such calls.
\<close>

named_theorems io_simps \<open>unfolding rules for the effect combinators\<close>
named_theorems io_intros \<open>rules that lift an invariant through the effect combinators\<close>

section \<open>Strings\<close>

definition HasPrefix :: "string \<Rightarrow> string \<Rightarrow> bool" where
  "HasPrefix s p = (take (length p) s = p)"

definition HasSuffix :: "string \<Rightarrow> string \<Rightarrow> bool" where
  "HasSuffix s p = HasPrefix (rev s) (rev p)"

definition TrimPrefix :: "string \<Rightarrow> string \<Rightarrow> string" where
  "TrimPrefix s p = (if HasPrefix s p then drop (length p) s else s)"

definition TrimSuffix :: "string \<Rightarrow> string \<Rightarrow> string" where
  "TrimSuffix s p = (if HasSuffix s p then take (length s - length p) s else s)"

text \<open>\<open>strings.ContainsAny\<close> with a set of ASCII bytes, and \<open>strings.Contains\<close>.\<close>

definition ContainsAny :: "string \<Rightarrow> string \<Rightarrow> bool" where
  "ContainsAny s cs = list_ex (\<lambda>c. c \<in> set cs) s"

fun ContainsStr :: "string \<Rightarrow> string \<Rightarrow> bool" where
  "ContainsStr [] p = (p = [])"
| "ContainsStr (c # s) p = (HasPrefix (c # s) p \<or> ContainsStr s p)"

text \<open>\<open>strings.Split\<close> with a one-byte separator: always at least one piece.\<close>

fun split_on :: "char \<Rightarrow> string \<Rightarrow> string list" where
  "split_on c [] = [[]]"
| "split_on c (x # xs) =
     (if x = c then [] # split_on c xs
      else (case split_on c xs of [] \<Rightarrow> [[x]] | p # ps \<Rightarrow> (x # p) # ps))"

fun join_with :: "char \<Rightarrow> string list \<Rightarrow> string" where
  "join_with c [] = []"
| "join_with c [p] = p"
| "join_with c (p # q # ps) = p @ c # join_with c (q # ps)"

text \<open>
  \<open>strings.TrimSpace\<close> removes leading and trailing Unicode white space: the ASCII space
  and tab to carriage return, and the UTF-8 encodings of the other code points for which
  \<open>unicode.IsSpace\<close> holds.
\<close>

definition space_encodings :: "string list" where
  "space_encodings =
     [[CHR '' ''], [CHR 0x09], [CHR 0x0A], [CHR 0x0B], [CHR 0x0C], [CHR 0x0D],
      [CHR 0xC2, CHR 0x85], [CHR 0xC2, CHR 0xA0], [CHR 0xE1, CHR 0x9A, CHR 0x80],
      [CHR 0xE2, CHR 0x80, CHR 0x80], [CHR 0xE2, CHR 0x80, CHR 0x81],
      [CHR 0xE2, CHR 0x80, CHR 0x82], [CHR 0xE2, CHR 0x80, CHR 0x83],
      [CHR 0xE2, CHR 0x80, CHR 0x84], [CHR 0xE2, CHR 0x80, CHR 0x85],
      [CHR 0xE2, CHR 0x80, CHR 0x86], [CHR 0xE2, CHR 0x80, CHR 0x87],
      [CHR 0xE2, CHR 0x80, CHR 0x88], [CHR 0xE2, CHR 0x80, CHR 0x89],
      [CHR 0xE2, CHR 0x80, CHR 0x8A], [CHR 0xE2, CHR 0x80, CHR 0xA8],
      [CHR 0xE2, CHR 0x80, CHR 0xA9], [CHR 0xE2, CHR 0x80, CHR 0xAF],
      [CHR 0xE2, CHR 0x81, CHR 0x9F], [CHR 0xE3, CHR 0x80, CHR 0x80]]"

fun strip_left :: "string list \<Rightarrow> nat \<Rightarrow> string \<Rightarrow> string" where
  "strip_left ws 0 s = s"
| "strip_left ws (Suc n) s =
     (case find (HasPrefix s) ws of
        None \<Rightarrow> s
      | Some p \<Rightarrow> strip_left ws n (drop (length p) s))"

definition TrimSpace :: "string \<Rightarrow> string" where
  "TrimSpace s =
     (let l = strip_left space_encodings (length s) s
      in rev (strip_left (map rev space_encodings) (length l) (rev l)))"

text \<open>The decimal text of a number, as \<open>%d\<close> prints it.\<close>

fun nat_str :: "nat \<Rightarrow> string" where
  "nat_str n = (if n < 10 then [char_of (48 + n)] else nat_str (n div 10) @ [char_of (48 + n mod 10)])"

declare nat_str.simps [simp del]

lemma HasPrefix_iff: "HasPrefix s p \<longleftrightarrow> (\<exists>t. s = p @ t)"
  unfolding HasPrefix_def by (metis append_eq_conv_conj append_take_drop_id)

lemma HasPrefix_append [simp]: "HasPrefix (p @ s) p"
  by (simp add: HasPrefix_def)

lemma HasSuffix_append [simp]: "HasSuffix (s @ p) p"
  by (simp add: HasSuffix_def)

lemma ContainsAny_iff: "ContainsAny s cs \<longleftrightarrow> (\<exists>c \<in> set s. c \<in> set cs)"
  by (auto simp: ContainsAny_def list_ex_iff)

lemma ContainsAny_Nil [simp]: "\<not> ContainsAny [] cs"
  by (simp add: ContainsAny_def)

lemma ContainsStr_iff: "ContainsStr s p \<longleftrightarrow> (\<exists>a b. s = a @ p @ b)"
proof (induction s)
  case Nil
  then show ?case by auto
next
  case (Cons c s)
  show ?case
  proof
    assume "ContainsStr (c # s) p"
    then consider "HasPrefix (c # s) p" | "ContainsStr s p" by auto
    then show "\<exists>a b. c # s = a @ p @ b"
    proof cases
      case 1
      then obtain t where "c # s = p @ t" by (auto simp: HasPrefix_iff)
      then show ?thesis by (metis append_Nil)
    next
      case 2
      then obtain a b where "s = a @ p @ b" using Cons.IH by auto
      then have "c # s = (c # a) @ p @ b" by simp
      then show ?thesis by blast
    qed
  next
    assume "\<exists>a b. c # s = a @ p @ b"
    then obtain a b where ab: "c # s = a @ p @ b" by auto
    show "ContainsStr (c # s) p"
    proof (cases a)
      case Nil
      with ab have "HasPrefix (c # s) p" unfolding HasPrefix_iff by auto
      then show ?thesis by simp
    next
      case (Cons x a')
      with ab have "s = a' @ p @ b" by simp
      with Cons.IH show ?thesis by auto
    qed
  qed
qed

lemma split_on_not_Nil [simp]: "split_on c s \<noteq> []"
  by (induction s) (auto split: list.splits)

lemma split_on_no_sep [simp]: "c \<notin> set s \<Longrightarrow> split_on c s = [s]"
  by (induction s) auto

lemma split_on_append_sep [simp]:
  "c \<notin> set a \<Longrightarrow> split_on c (a @ c # b) = a # split_on c b"
  by (induction a) auto

lemma join_with_Cons: "join_with c ((x # p) # ps) = x # join_with c (p # ps)"
  by (cases ps) auto

lemma join_split [simp]: "join_with c (split_on c s) = s"
proof (induction s)
  case Nil
  then show ?case by simp
next
  case (Cons x xs)
  then show ?case by (cases "split_on c xs") (auto simp: join_with_Cons)
qed

lemma split_on_pieces_no_sep: "p \<in> set (split_on c s) \<Longrightarrow> c \<notin> set p"
proof (induction s arbitrary: p)
  case Nil
  then show ?case by simp
next
  case (Cons x xs)
  then show ?case by (cases "split_on c xs") (auto split: if_splits)
qed

lemma split_on_pieces_subset: "p \<in> set (split_on c s) \<Longrightarrow> set p \<subseteq> set s"
proof (induction s arbitrary: p)
  case Nil
  then show ?case by simp
next
  case (Cons x xs)
  from Cons.IH have IH: "set q \<subseteq> set xs" if "q \<in> set (split_on c xs)" for q using that .
  show ?case
  proof (cases "split_on c xs")
    case Nil
    then show ?thesis by simp
  next
    case (Cons q qs)
    with IH have "set q \<subseteq> set xs" "\<And>q'. q' \<in> set qs \<Longrightarrow> set q' \<subseteq> set xs" by auto
    with Cons \<open>p \<in> set (split_on c (x # xs))\<close> show ?thesis by (fastforce split: if_splits)
  qed
qed

lemma length_split_on: "length (split_on c s) = Suc (count_list s c)"
proof (induction s)
  case Nil
  then show ?case by simp
next
  case (Cons x xs)
  then show ?case by (cases "split_on c xs") auto
qed

section \<open>Effects\<close>

type_synonym ('w, 'e, 'a) io = "'w \<Rightarrow> ('e + 'a) \<times> 'w"

definition ret :: "'a \<Rightarrow> ('w, 'e, 'a) io" where
  "ret x = (\<lambda>w. (Inr x, w))"

definition fail :: "'e \<Rightarrow> ('w, 'e, 'a) io" where
  "fail e = (\<lambda>w. (Inl e, w))"

text \<open>
  \<open>x, err := m; if err != nil { return g(err) }; k(x)\<close>: the usual Go sequence. \<open>pass m k\<close>
  is the same with the error returned as it is.
\<close>

definition trying :: "('w, 'e, 'a) io \<Rightarrow> ('e \<Rightarrow> 'f) \<Rightarrow> ('a \<Rightarrow> ('w, 'f, 'b) io) \<Rightarrow> ('w, 'f, 'b) io" where
  "trying m g k = (\<lambda>w. case m w of
       (Inl e, w') \<Rightarrow> (Inl (g e), w')
     | (Inr x, w') \<Rightarrow> k x w')"

definition pass :: "('w, 'e, 'a) io \<Rightarrow> ('a \<Rightarrow> ('w, 'e, 'b) io) \<Rightarrow> ('w, 'e, 'b) io" where
  "pass m k = trying m (\<lambda>e. e) k"

text \<open>A call whose result, error or value, is inspected by what follows.\<close>

definition observe :: "('w \<Rightarrow> 'a \<times> 'w) \<Rightarrow> ('a \<Rightarrow> ('w, 'e, 'b) io) \<Rightarrow> ('w, 'e, 'b) io" where
  "observe m k = (\<lambda>w. case m w of (x, w') \<Rightarrow> k x w')"

text \<open>An early return on a pure condition.\<close>

definition guarded :: "'e option \<Rightarrow> ('w, 'e, 'b) io \<Rightarrow> ('w, 'e, 'b) io" where
  "guarded oe k = (case oe of Some e \<Rightarrow> fail e | None \<Rightarrow> k)"

text \<open>
  \<open>defer func() { if retErr != nil { if e := rb(); e != nil { retErr = g(retErr, e) } } }()\<close>
  around the rest \<open>m\<close> of a function body.
\<close>

definition deferring :: "('w, 'e, 'u) io \<Rightarrow> ('e \<Rightarrow> 'e \<Rightarrow> 'e) \<Rightarrow> ('w, 'e, 'a) io \<Rightarrow> ('w, 'e, 'a) io" where
  "deferring rb g m = (\<lambda>w. case m w of
       (Inr x, w') \<Rightarrow> (Inr x, w')
     | (Inl e, w') \<Rightarrow> (case rb w' of
           (Inl e', w'') \<Rightarrow> (Inl (g e e'), w'')
         | (Inr _, w'') \<Rightarrow> (Inl e, w'')))"

lemma ret_apply [simp, io_simps]: "ret x w = (Inr x, w)"
  by (simp add: ret_def)

lemma fail_apply [simp, io_simps]: "fail e w = (Inl e, w)"
  by (simp add: fail_def)

lemma trying_apply [io_simps]:
  "trying m g k w = (case m w of (Inl e, w') \<Rightarrow> (Inl (g e), w') | (Inr x, w') \<Rightarrow> k x w')"
  by (simp add: trying_def)

lemma pass_apply [io_simps]:
  "pass m k w = (case m w of (Inl e, w') \<Rightarrow> (Inl e, w') | (Inr x, w') \<Rightarrow> k x w')"
  by (simp add: pass_def trying_def)

lemma observe_apply [io_simps]: "observe m k w = (case m w of (x, w') \<Rightarrow> k x w')"
  by (simp add: observe_def)

lemma guarded_simps [simp, io_simps]:
  "guarded None k = k"
  "guarded (Some e) k = fail e"
  by (simp_all add: guarded_def)

lemma deferring_apply [io_simps]:
  "deferring rb g m w = (case m w of
       (Inr x, w') \<Rightarrow> (Inr x, w')
     | (Inl e, w') \<Rightarrow> (case rb w' of
           (Inl e', w'') \<Rightarrow> (Inl (g e e'), w'')
         | (Inr _, w'') \<Rightarrow> (Inl e, w'')))"
  by (simp add: deferring_def)

text \<open>Inversion: how a chained call can have returned a value.\<close>

lemma trying_InrD:
  "trying m g k w = (Inr y, w') \<Longrightarrow> \<exists>x w1. m w = (Inr x, w1) \<and> k x w1 = (Inr y, w')"
  by (auto simp: trying_def split: prod.splits sum.splits)

lemma pass_InrD:
  "pass m k w = (Inr y, w') \<Longrightarrow> \<exists>x w1. m w = (Inr x, w1) \<and> k x w1 = (Inr y, w')"
  by (auto simp: pass_def dest: trying_InrD)

lemma guarded_InrD: "guarded oe k w = (Inr y, w') \<Longrightarrow> oe = None \<and> k w = (Inr y, w')"
  by (cases oe) auto

lemma deferring_InrD: "deferring rb g m w = (Inr y, w') \<Longrightarrow> m w = (Inr y, w')"
  by (auto simp: deferring_def split: prod.splits sum.splits)

text \<open>
  \<open>keeps I m\<close>: the call \<open>m\<close> preserves the predicate \<open>I\<close> on worlds, whether it
  returns a value or an error.
\<close>

definition keeps :: "('w \<Rightarrow> bool) \<Rightarrow> ('w \<Rightarrow> 'r \<times> 'w) \<Rightarrow> bool" where
  "keeps I m \<longleftrightarrow> (\<forall>w. I w \<longrightarrow> I (snd (m w)))"

lemma keepsI: "(\<And>w. I w \<Longrightarrow> I (snd (m w))) \<Longrightarrow> keeps I m"
  by (simp add: keeps_def)

lemma keepsD: "keeps I m \<Longrightarrow> I w \<Longrightarrow> m w = (r, w') \<Longrightarrow> I w'"
  unfolding keeps_def by (metis snd_conv)

lemma keeps_ret [io_intros]: "keeps I (ret x)"
  by (simp add: keeps_def)

lemma keeps_fail [io_intros]: "keeps I (fail e)"
  by (simp add: keeps_def)

lemma keeps_trying [io_intros]:
  "keeps I m \<Longrightarrow> (\<And>x. keeps I (k x)) \<Longrightarrow> keeps I (trying m g k)"
  by (auto simp: keeps_def trying_def split: prod.splits sum.splits) (metis snd_conv)?

lemma keeps_pass [io_intros]:
  "keeps I m \<Longrightarrow> (\<And>x. keeps I (k x)) \<Longrightarrow> keeps I (pass m k)"
  by (simp add: pass_def keeps_trying)

lemma keeps_observe [io_intros]:
  "keeps I m \<Longrightarrow> (\<And>x. keeps I (k x)) \<Longrightarrow> keeps I (observe m k)"
  by (auto simp: keeps_def observe_def split: prod.splits) (metis snd_conv)?

lemma keeps_guarded [io_intros]: "keeps I k \<Longrightarrow> keeps I (guarded oe k)"
  by (cases oe) (auto intro: keeps_fail)

lemma keeps_if [io_intros]:
  "keeps I a \<Longrightarrow> keeps I b \<Longrightarrow> keeps I (if c then a else b)"
  by simp

lemma keeps_case_option [io_intros]:
  "keeps I a \<Longrightarrow> (\<And>x. keeps I (b x)) \<Longrightarrow> keeps I (case c of None \<Rightarrow> a | Some x \<Rightarrow> b x)"
  by (cases c) auto

lemma keeps_case_sum [io_intros]:
  "(\<And>x. keeps I (a x)) \<Longrightarrow> (\<And>x. keeps I (b x)) \<Longrightarrow> keeps I (case c of Inl x \<Rightarrow> a x | Inr x \<Rightarrow> b x)"
  by (cases c) auto

lemma keeps_case_prod [io_intros]:
  "(\<And>x y. keeps I (a x y)) \<Longrightarrow> keeps I (case c of (x, y) \<Rightarrow> a x y)"
  by (cases c) auto

lemma keeps_deferring [io_intros]:
  "keeps I rb \<Longrightarrow> keeps I m \<Longrightarrow> keeps I (deferring rb g m)"
  by (auto simp: keeps_def deferring_def split: prod.splits sum.splits) (metis snd_conv)?

text \<open>
  \<open>effect view m P\<close>: seen through \<open>view\<close>, the call changes the state as \<open>P\<close> says when it
  returns a value, and not at all when it returns an error.
\<close>

definition effect :: "('w \<Rightarrow> 's) \<Rightarrow> ('w, 'e, 'a) io \<Rightarrow> ('s \<Rightarrow> 'a \<Rightarrow> 's \<Rightarrow> bool) \<Rightarrow> bool" where
  "effect view m P \<longleftrightarrow> (\<forall>w r w'. m w = (r, w') \<longrightarrow>
     (case r of Inl _ \<Rightarrow> view w' = view w | Inr x \<Rightarrow> P (view w) x (view w')))"

lemma effectI:
  assumes "\<And>w e w'. m w = (Inl e, w') \<Longrightarrow> view w' = view w"
    and "\<And>w x w'. m w = (Inr x, w') \<Longrightarrow> P (view w) x (view w')"
  shows "effect view m P"
  using assms unfolding effect_def by (auto split: sum.splits)

lemma effect_InlD: "effect view m P \<Longrightarrow> m w = (Inl e, w') \<Longrightarrow> view w' = view w"
  unfolding effect_def by fastforce

lemma effect_InrD: "effect view m P \<Longrightarrow> m w = (Inr x, w') \<Longrightarrow> P (view w) x (view w')"
  unfolding effect_def by fastforce

lemma effect_mono: "effect view m P \<Longrightarrow> (\<And>s x s'. P s x s' \<Longrightarrow> Q s x s') \<Longrightarrow> effect view m Q"
  by (auto intro!: effectI dest: effect_InlD effect_InrD)

text \<open>A call on a part of a larger world.\<close>

definition lifted :: "('w \<Rightarrow> 's) \<Rightarrow> ('s \<Rightarrow> 'w \<Rightarrow> 'w) \<Rightarrow> ('s, 'e, 'a) io \<Rightarrow> ('w, 'e, 'a) io" where
  "lifted get put m w = (case m (get w) of (r, s') \<Rightarrow> (r, put s' w))"

lemma lifted_eq: "lifted get put m w = (r, w') \<longleftrightarrow> (\<exists>s'. m (get w) = (r, s') \<and> w' = put s' w)"
  by (auto simp: lifted_def split: prod.splits)

lemma effect_lifted:
  "effect view m P \<Longrightarrow> (\<And>s w. get (put s w) = s) \<Longrightarrow> effect (view \<circ> get) (lifted get put m) P"
  by (rule effectI) (auto simp: lifted_eq elim: effect_InlD effect_InrD)

text \<open>\<open>frames v m\<close>: the call does not change the part \<open>v\<close> of the world.\<close>

definition frames :: "('w \<Rightarrow> 's) \<Rightarrow> ('w \<Rightarrow> 'r \<times> 'w) \<Rightarrow> bool" where
  "frames v m \<longleftrightarrow> (\<forall>w r w'. m w = (r, w') \<longrightarrow> v w' = v w)"

lemma framesD: "frames v m \<Longrightarrow> m w = (r, w') \<Longrightarrow> v w' = v w"
  unfolding frames_def by blast

lemma frames_lifted: "(\<And>s w. v (put s w) = v w) \<Longrightarrow> frames v (lifted get put m)"
  unfolding frames_def by (auto simp: lifted_eq)

lemma effect_trying_ret [io_intros]: "effect view m P \<Longrightarrow> effect view (trying m g ret) P"
  by (rule effectI) (auto simp: trying_apply split: prod.splits sum.splits dest: effect_InlD effect_InrD)

lemma effect_observe [io_intros]:
  assumes "frames view n" "\<And>x. effect view (k x) P"
  shows "effect view (observe n k) P"
proof (rule effectI)
  fix w e w' assume "observe n k w = (Inl e, w')"
  then obtain x w1 where "n w = (x, w1)" "k x w1 = (Inl e, w')" by (auto simp: observe_apply split: prod.splits)
  then show "view w' = view w" using framesD [OF assms(1)] effect_InlD [OF assms(2)] by metis
next
  fix w y w' assume "observe n k w = (Inr y, w')"
  then obtain x w1 where "n w = (x, w1)" "k x w1 = (Inr y, w')" by (auto simp: observe_apply split: prod.splits)
  then show "P (view w) y (view w')" using framesD [OF assms(1)] effect_InrD [OF assms(2)] by metis
qed

lemma frames_trying_ret [io_intros]: "frames v m \<Longrightarrow> frames v (trying m g ret)"
  unfolding frames_def by (auto simp: trying_apply split: prod.splits sum.splits)

lemma frames_observe [io_intros]:
  assumes "frames v n" "\<And>x. frames v (k x)"
  shows "frames v (observe n k)"
  unfolding frames_def
proof (intro allI impI)
  fix w r w' assume "observe n k w = (r, w')"
  then obtain x w1 where "n w = (x, w1)" "k x w1 = (r, w')" by (auto simp: observe_apply split: prod.splits)
  then show "v w' = v w" using framesD [OF assms(1)] framesD [OF assms(2)] by metis
qed

lemma frames_keeps: "(\<And>x. keeps (\<lambda>w. v w = x) m) \<Longrightarrow> frames v m"
  unfolding frames_def using keepsD [of "\<lambda>u. v u = v w" m w for w] by blast

lemma effect_trying:
  assumes "frames view m" "\<And>x. effect view (k x) P"
  shows "effect view (trying m g k) P"
proof (rule effectI)
  fix w e w' assume "trying m g k w = (Inl e, w')"
  then consider e0 where "m w = (Inl e0, w')" | x w1 where "m w = (Inr x, w1)" "k x w1 = (Inl e, w')"
    by (auto simp: trying_apply split: prod.splits sum.splits)
  then show "view w' = view w"
    by cases (use framesD [OF assms(1)] effect_InlD [OF assms(2)] in metis)+
next
  fix w y w' assume "trying m g k w = (Inr y, w')"
  then obtain x w1 where "m w = (Inr x, w1)" "k x w1 = (Inr y, w')" by (auto dest: trying_InrD)
  then show "P (view w) y (view w')" using framesD [OF assms(1)] effect_InrD [OF assms(2)] by metis
qed

lemma effect_pass: "frames view m \<Longrightarrow> (\<And>x. effect view (k x) P) \<Longrightarrow> effect view (pass m k) P"
  unfolding pass_def by (rule effect_trying)

lemma frames_basic: "frames v (fail e)" "frames v (ret x)" "frames v (Pair r)"
  by (simp_all add: frames_def)

lemma frames_trying: "frames v m \<Longrightarrow> (\<And>x. frames v (k x)) \<Longrightarrow> frames v (trying m g k)"
  by (auto simp: frames_def trying_apply split: prod.splits sum.splits)

lemma frames_pass: "frames v m \<Longrightarrow> (\<And>x. frames v (k x)) \<Longrightarrow> frames v (pass m k)"
  unfolding pass_def by (rule frames_trying)

lemma frames_if: "frames v a \<Longrightarrow> frames v b \<Longrightarrow> frames v (if c then a else b)"
  by simp

lemmas frames_rules = frames_trying frames_pass frames_if frames_basic

end
