(* ===== verification/Errors.thy ===== *)
theory Errors
  imports Prelude
begin

text \<open>
  The error values of \<open>pkg/errors\<close>. An error is a chain of layers, each with a message and
  an optional inner error. The Go type of the outermost layer (\<open>customError\<close> or one of the
  nestable types of \<open>error_types.go\<close>) decides the HTTP status, so it is kept as the layer's
  kind. \<open>Foreign\<close> stands for an error value that does not implement the package's \<open>Error\<close>
  interface (\<open>fmt.Errorf\<close>, a driver error) and wraps no other error; a nil error is
  \<^term>\<open>None\<close>.
\<close>

datatype ekind =
    CustomErr | RequestErr | AuthNErr | AuthZErr | InternalErr | ServiceErr | MediaTypeErr
  | NotFoundErr

datatype gerror = GErr ekind string "gerror option" | Foreign string

fun ErrorStr :: "gerror \<Rightarrow> string" where
  "ErrorStr (GErr k m None) = m"
| "ErrorStr (GErr k m (Some e)) = m @ '' : '' @ ErrorStr e"
| "ErrorStr (Foreign m) = m"

fun Msg :: "gerror \<Rightarrow> string" where
  "Msg (GErr k m c) = m"
| "Msg (Foreign m) = m"

text \<open>The constructors \<open>New\<close>, \<open>NewRequestError\<close>, ...: a single layer.\<close>

definition New :: "string \<Rightarrow> gerror" where
  "New text = GErr CustomErr text None"

definition NewRequestError :: "string \<Rightarrow> gerror" where
  "NewRequestError m = GErr RequestErr m None"

definition NewAuthNError :: "string \<Rightarrow> gerror" where
  "NewAuthNError m = GErr AuthNErr m None"

definition NewAuthZError :: "string \<Rightarrow> gerror" where
  "NewAuthZError m = GErr AuthZErr m None"

definition NewInternalError :: gerror where
  "NewInternalError = GErr InternalErr ''internal server error'' None"

definition NewServiceError :: "string \<Rightarrow> gerror" where
  "NewServiceError m = GErr ServiceErr m None"

definition NewMediaTypeError :: "string \<Rightarrow> gerror" where
  "NewMediaTypeError m = GErr MediaTypeErr m None"

definition NewNotFoundError :: "string \<Rightarrow> gerror" where
  "NewNotFoundError m = GErr NotFoundErr m None"

text \<open>The type switch \<open>err.(nestableError)\<close>: every type but \<open>customError\<close> and foreign ones.\<close>

fun isNestable :: "gerror \<Rightarrow> bool" where
  "isNestable (GErr k m c) = (k \<noteq> CustomErr)"
| "isNestable (Foreign m) = False"

definition cast :: "gerror \<Rightarrow> gerror" where
  "cast e = (case e of GErr k m c \<Rightarrow> e | Foreign m \<Rightarrow> GErr CustomErr m None)"

text \<open>
  \<open>Wrap\<close> and \<open>Embed\<close> call each other: embedding an error into a layer wraps it around what
  the layer already holds. \<open>Embed\<close> is only called on nestable errors; on a foreign one, which
  has no such method, it is the identity here and is never reached.
\<close>

function Wrap :: "gerror \<Rightarrow> gerror \<Rightarrow> gerror"
  and Embed :: "gerror \<Rightarrow> gerror \<Rightarrow> gerror" where
  "Wrap w e =
     (if isNestable e then Embed e w
      else if isNestable w then Embed w e
      else GErr CustomErr (ErrorStr w) (Some (cast e)))"
| "Embed (GErr k m None) e = GErr k m (Some e)"
| "Embed (GErr k m (Some c)) e = GErr k m (Some (Wrap e c))"
| "Embed (Foreign m) e = Foreign m"
  by pat_completeness auto
termination
  by (relation "measure (\<lambda>x. case x of
        Inl (w, e) \<Rightarrow> Suc (2 * (size w + size e))
      | Inr (w, e) \<Rightarrow> 2 * (size w + size e))") auto

declare Wrap.simps [simp del]

text \<open>\<open>Wrap\<close> on possibly nil errors, as declared: a nil argument returns the wrapper.\<close>

definition WrapOpt :: "gerror option \<Rightarrow> gerror option \<Rightarrow> gerror option" where
  "WrapOpt wrapper err =
     (case wrapper of None \<Rightarrow> None
      | Some w \<Rightarrow> (case err of None \<Rightarrow> Some w | Some e \<Rightarrow> Some (Wrap w e)))"

text \<open>
  \<open>Contains(e1, e2)\<close> walks the layers of \<open>e1\<close> and compares each layer's message with the
  whole text of \<open>e2\<close>. For a foreign \<open>e1\<close> that wraps nothing, \<open>errors.Is\<close> holds only of the
  same value, which has the same text.
\<close>

fun Contains :: "gerror \<Rightarrow> gerror \<Rightarrow> bool" where
  "Contains (GErr k m None) t = (m = ErrorStr t)"
| "Contains (GErr k m (Some c)) t = (m = ErrorStr t \<or> Contains c t)"
| "Contains (Foreign m) t = (m = ErrorStr t)"

definition ContainsOpt :: "gerror option \<Rightarrow> gerror option \<Rightarrow> bool" where
  "ContainsOpt e1 e2 =
     (case (e1, e2) of
        (Some a, Some b) \<Rightarrow> Contains a b
      | (None, None) \<Rightarrow> True
      | _ \<Rightarrow> False)"

fun Unwrap :: "gerror \<Rightarrow> gerror option \<times> gerror" where
  "Unwrap (GErr k m None) = (None, New m)"
| "Unwrap (GErr k m (Some c)) = (Some (New m), c)"
| "Unwrap (Foreign m) = (None, Foreign m)"

text \<open>
  \<open>api/http/common.go\<close>, \<open>EncodeError\<close>: the status code by the type of the error, and the
  message written as the JSON body (nothing for internal and untyped errors). SDK errors,
  which only the SDK client produces, are left out.
\<close>

fun errKind :: "gerror \<Rightarrow> ekind" where
  "errKind (GErr k m c) = k"
| "errKind (Foreign m) = CustomErr"

definition EncodeError :: "gerror \<Rightarrow> nat \<times> string option" where
  "EncodeError e =
     (case errKind e of
        RequestErr \<Rightarrow> (400, Some (Msg e))
      | AuthNErr \<Rightarrow> (401, Some (Msg e))
      | AuthZErr \<Rightarrow> (403, Some (Msg e))
      | MediaTypeErr \<Rightarrow> (415, Some (Msg e))
      | ServiceErr \<Rightarrow> (422, Some (Msg e))
      | NotFoundErr \<Rightarrow> (404, Some (Msg e))
      | InternalErr \<Rightarrow> (500, None)
      | CustomErr \<Rightarrow> (500, None))"

section \<open>Sentinel errors\<close>

text \<open>The package-level error variables of \<open>pkg/errors/service/types.go\<close> ...\<close>

definition svcErrAuthentication :: gerror where "svcErrAuthentication = NewAuthNError ''failed to perform authentication over the entity''"
definition svcErrLogin :: gerror where "svcErrLogin = NewAuthNError ''invalid credentials''"
definition svcErrAuthorization :: gerror where "svcErrAuthorization = NewAuthZError ''failed to perform authorization over the entity''"
definition svcErrDomainAuthorization :: gerror where "svcErrDomainAuthorization = NewAuthZError ''failed to perform authorization over the domain''"
definition svcErrUnauthorizedPAT :: gerror where "svcErrUnauthorizedPAT = NewAuthZError ''failed to authorize PAT''"
definition svcErrSuperAdminAction :: gerror where "svcErrSuperAdminAction = NewAuthZError ''not authorized to perform admin action''"
definition svcErrCreateEntity :: gerror where "svcErrCreateEntity = NewServiceError ''failed to create entity''"
definition svcErrRemoveEntity :: gerror where "svcErrRemoveEntity = NewServiceError ''failed to remove entity''"
definition svcErrViewEntity :: gerror where "svcErrViewEntity = NewServiceError ''view entity failed''"
definition svcErrUpdateEntity :: gerror where "svcErrUpdateEntity = NewServiceError ''update entity failed''"
definition svcErrAddPolicies :: gerror where "svcErrAddPolicies = NewServiceError ''failed to add policies''"
definition svcErrStatusAlreadyAssigned :: gerror where "svcErrStatusAlreadyAssigned = NewServiceError ''status already assigned''"
definition svcErrInvalidStatus :: gerror where "svcErrInvalidStatus = NewRequestError ''invalid status''"
definition svcErrIssueProviderID :: gerror where "svcErrIssueProviderID = NewServiceError ''failed to issue unique ID from id provider''"
definition svcErrRollbackRepo :: gerror where "svcErrRollbackRepo = New ''failed to rollback repo''"
definition errRouteNotAvailable :: gerror where "errRouteNotAvailable = NewRequestError ''route not available''"
definition pkgErrRollbackTx :: gerror where "pkgErrRollbackTx = New ''failed to rollback transaction''"
definition svcErrDeletePolicies :: gerror where "svcErrDeletePolicies = NewServiceError ''failed to remove policies''"
definition svcErrMalformedEntity :: gerror where "svcErrMalformedEntity = New ''malformed entity specification''"
definition svcErrNotFound :: gerror where "svcErrNotFound = NewNotFoundError ''entity not found''"
definition svcErrConflict :: gerror where "svcErrConflict = NewRequestError ''entity already exists''"
definition svcErrInvalidPolicy :: gerror where "svcErrInvalidPolicy = New ''invalid policy''"
definition svcErrRetainOneMember :: gerror where "svcErrRetainOneMember = New ''must retain at least one member''"

text \<open>... of \<open>pkg/errors/repository/types.go\<close> ...\<close>

definition repoErrMalformedEntity :: gerror where "repoErrMalformedEntity = New ''malformed entity specification''"
definition repoErrNotFound :: gerror where "repoErrNotFound = NewNotFoundError ''entity not found''"
definition repoErrConflict :: gerror where "repoErrConflict = New ''entity already exists''"
definition repoErrCreateEntity :: gerror where "repoErrCreateEntity = New ''failed to create entity in the db''"
definition repoErrViewEntity :: gerror where "repoErrViewEntity = New ''view entity failed''"
definition repoErrUpdateEntity :: gerror where "repoErrUpdateEntity = New ''update entity failed''"
definition repoErrRemoveEntity :: gerror where "repoErrRemoveEntity = New ''failed to remove entity''"
definition repoErrFailedOpDB :: gerror where "repoErrFailedOpDB = New ''operation on db element failed''"

text \<open>... and of \<open>auth/keys.go\<close>, made by the standard library's \<open>errors.New\<close>.\<close>

definition ErrKeyExpired :: gerror where "ErrKeyExpired = Foreign ''use of expired key''"

text \<open>... and of \<open>pkg/errors/types.go\<close>.\<close>

definition errMalformedEntity :: gerror where "errMalformedEntity = NewRequestError ''malformed entity specification''"

section \<open>Properties\<close>

text \<open>A sentinel is a single layer: what every package-level error variable is.\<close>

fun isLeaf :: "gerror \<Rightarrow> bool" where
  "isLeaf (GErr k m c) = (c = None)"
| "isLeaf (Foreign m) = True"

lemma ErrorStr_leaf [simp]: "isLeaf e \<Longrightarrow> ErrorStr e = Msg e"
  by (cases e) auto

lemma Contains_cast [simp]: "Contains (cast e) t = Contains e t"
  by (cases e) (auto simp: cast_def)

lemma Embed_leaf [simp]: "isLeaf w \<Longrightarrow> isNestable w \<Longrightarrow> Embed w e = GErr (errKind w) (Msg w) (Some e)"
  by (cases w) auto

lemma errKind_Embed [simp]: "errKind (Embed w e) = errKind w"
  by (cases "(w, e)" rule: Embed.cases) auto

lemma isNestable_iff: "isNestable e \<longleftrightarrow> errKind e \<noteq> CustomErr"
  by (cases e) auto

lemma Msg_Embed [simp]: "Msg (Embed w e) = Msg w"
  by (cases "(w, e)" rule: Embed.cases) auto

lemma errKind_Wrap: "errKind (Wrap w e) = (if isNestable e then errKind e else errKind w)"
  by (simp add: Wrap.simps isNestable_iff)

lemma Msg_Wrap:
  "Msg (Wrap w e) = (if isNestable e then Msg e else if isNestable w then Msg w else ErrorStr w)"
  by (simp add: Wrap.simps)

lemma isNestable_Wrap [simp]: "isNestable (Wrap w e) \<longleftrightarrow> isNestable e \<or> isNestable w"
  by (simp add: isNestable_iff errKind_Wrap)

text \<open>Wrapping with a sentinel adds exactly one layer to what \<open>Contains\<close> finds.\<close>

lemma Contains_Wrap_leaf:
  "isLeaf w \<Longrightarrow> Contains (Wrap w e) t \<longleftrightarrow> Msg w = ErrorStr t \<or> Contains e t"
proof (induction e)
  case (GErr k m c)
  show ?case
  proof (cases "k = CustomErr")
    case True
    with GErr.prems show ?thesis by (auto simp: Wrap.simps cast_def)
  next
    case False
    show ?thesis
    proof (cases c)
      case None
      with False GErr.prems show ?thesis by (cases w) (auto simp: Wrap.simps)
    next
      case (Some c')
      with GErr.IH [of c'] GErr.prems False show ?thesis by (auto simp: Wrap.simps)
    qed
  qed
next
  case (Foreign m)
  then show ?case by (auto simp: Wrap.simps cast_def)
qed

text \<open>
  A service call wraps the error it received once per call layer. Seen from the HTTP
  boundary only the innermost typed error matters.
\<close>

definition wrapAll :: "gerror list \<Rightarrow> gerror \<Rightarrow> gerror" where
  "wrapAll ws e = foldr Wrap ws e"

lemma wrapAll_simps [simp]:
  "wrapAll [] e = e"
  "wrapAll (w # ws) e = Wrap w (wrapAll ws e)"
  by (simp_all add: wrapAll_def)

lemma isNestable_wrapAll: "isNestable (wrapAll ws e) \<longleftrightarrow> isNestable e \<or> list_ex isNestable ws"
  by (induction ws) auto

lemma errKind_wrapAll:
  "errKind (wrapAll ws e) =
     (case find isNestable (e # rev ws) of None \<Rightarrow> CustomErr | Some x \<Rightarrow> errKind x)"
proof (induction ws)
  case Nil
  then show ?case by (simp add: isNestable_iff)
next
  case (Cons w ws)
  have fa: "find isNestable (xs @ [w]) =
      (case find isNestable xs of None \<Rightarrow> (if isNestable w then Some w else None) | Some x \<Rightarrow> Some x)" for xs
    by (induction xs) auto
  show ?case
  proof (cases "find isNestable (e # rev ws)")
    case None
    then have "\<not> isNestable (wrapAll ws e)"
      by (auto simp: isNestable_wrapAll find_None_iff list_ex_iff split: if_splits)
    with None show ?thesis
      by (cases "isNestable w") (auto simp: errKind_Wrap fa isNestable_iff [of w] split: if_splits)
  next
    case (Some x)
    then have "isNestable x" unfolding find_Some_iff by auto
    moreover from Some Cons.IH have "errKind (wrapAll ws e) = errKind x" by simp
    ultimately have "isNestable (wrapAll ws e)"
      by (simp add: isNestable_iff [of x] isNestable_iff [of "wrapAll ws e"])
    with Some Cons.IH show ?thesis by (auto simp: errKind_Wrap fa split: if_splits)
  qed
qed

lemma Contains_wrapAll:
  "list_all isLeaf ws \<Longrightarrow>
   Contains (wrapAll ws e) t \<longleftrightarrow> (\<exists>w \<in> set ws. Msg w = ErrorStr t) \<or> Contains e t"
  by (induction ws) (auto simp: Contains_Wrap_leaf)

lemma fst_EncodeError:
  "fst (EncodeError e) = (case errKind e of
      RequestErr \<Rightarrow> 400 | AuthNErr \<Rightarrow> 401 | AuthZErr \<Rightarrow> 403 | MediaTypeErr \<Rightarrow> 415
    | ServiceErr \<Rightarrow> 422 | NotFoundErr \<Rightarrow> 404 | InternalErr \<Rightarrow> 500 | CustomErr \<Rightarrow> 500)"
  by (simp add: EncodeError_def split: ekind.splits)

text \<open>However many layers wrap an error on its way to the HTTP boundary, the status code
  \<open>EncodeError\<close> writes is that of the innermost typed error: the error itself if it is typed,
  otherwise the closest typed wrapper, and 500 if there is none.\<close>

lemma wrapped_error_status:
  "fst (EncodeError (wrapAll ws e)) =
     (case find isNestable (e # rev ws) of None \<Rightarrow> 500 | Some x \<Rightarrow> fst (EncodeError x))"
  by (simp add: fst_EncodeError errKind_wrapAll split: option.splits)

text \<open>Wrapping an error with any number of sentinel errors (the single-layer package variables)
  keeps everything \<open>Contains\<close> could find in it and adds exactly the sentinels.\<close>

lemma wrapped_error_contains:
  assumes "list_all isLeaf ws"
  shows "Contains (wrapAll ws e) t \<longleftrightarrow> (\<exists>w \<in> set ws. Msg w = ErrorStr t) \<or> Contains e t"
  using assms by (rule Contains_wrapAll)

text \<open>A wrapper that is itself a chain of untyped errors is flattened into one message: wrapping
  with it makes \<open>Contains\<close> blind to the chain's own outer layer, although the documentation says
  that any layer is inspected.\<close>

lemma untyped_wrapper_chain_is_flattened:
  assumes "isLeaf a" and "\<not> isNestable a" and "\<not> isNestable b" and "\<not> isNestable e"
  shows "Contains (Wrap a b) a \<and> (Contains (Wrap (Wrap a b) e) a \<longleftrightarrow> Contains e a)"
  using assms by (simp add: Wrap.simps [of a b] Wrap.simps [of _ e])

end
