(* ===== verification/Topics.thy ===== *)
theory Topics
  imports Errors
begin

text \<open>
  The topic grammar of the platform, \<open>pkg/messaging/topics.go\<close>: the index-based parser
  \<open>ParseTopic\<close>, the subtopic filters for publishing and subscribing, the encoders, the
  resolution of routes to identifiers and the cached parser the broker uses. Results of the
  pure parsers are sums: every error return of the source carries empty strings and
  \<open>InvalidType\<close>. The cached parser returns the full five values, because there the
  topic type that accompanies an error differs between a hit and a miss.
\<close>

section \<open>Constants and data\<close>

datatype TopicType = InvalidType | MessageType | HealthType

definition ErrMalformedTopic :: gerror where "ErrMalformedTopic = New ''malformed topic''"
definition ErrMalformedSubtopic :: gerror where "ErrMalformedSubtopic = New ''malformed subtopic''"
definition ErrEmptyRouteID :: gerror where "ErrEmptyRouteID = New ''empty route or id''"
definition ErrFailedResolveDomain :: gerror where "ErrFailedResolveDomain = New ''failed to resolve domain route''"
definition ErrFailedResolveChannel :: gerror where "ErrFailedResolveChannel = New ''failed to resolve channel route''"

definition MsgTopicPrefix :: char where "MsgTopicPrefix = CHR ''m''"
definition ChannelTopicPrefix :: char where "ChannelTopicPrefix = CHR ''c''"
definition HealthTopicPrefix :: string where "HealthTopicPrefix = ''hc''"

definition mqttWildcards :: string where "mqttWildcards = ''+#''"
definition natsWildcards :: string where "natsWildcards = ''*>''"
definition subtopicInvalidChars :: string where "subtopicInvalidChars = '' ''"

type_synonym parsed = "string \<times> string \<times> string \<times> TopicType"

section \<open>Parsing a topic\<close>

text \<open>
  \<open>for i := pos; i <= n-3; i++\<close>: the first position at or after \<open>i\<close> where \<open>"/c/"\<close> starts.
\<close>

function find_channel_sep :: "string \<Rightarrow> nat \<Rightarrow> nat option" where
  "find_channel_sep topic i =
     (if i + 3 \<le> length topic
      then if topic ! i = CHR ''/'' \<and> topic ! (i + 1) = ChannelTopicPrefix \<and> topic ! (i + 2) = CHR ''/''
           then Some i else find_channel_sep topic (Suc i)
      else None)"
  by pat_completeness auto
termination
  by (relation "measure (\<lambda>(t, i). length t - i)") auto

text \<open>\<open>for i := pos; i < n; i++\<close>: the first position of a slash at or after \<open>i\<close>.\<close>

function find_slash :: "string \<Rightarrow> nat \<Rightarrow> nat option" where
  "find_slash topic i =
     (if i < length topic
      then if topic ! i = CHR ''/'' then Some i else find_slash topic (Suc i)
      else None)"
  by pat_completeness auto
termination
  by (relation "measure (\<lambda>(t, i). length t - i)") auto

declare find_channel_sep.simps [simp del] find_slash.simps [simp del]

text \<open>\<open>topic[a:b]\<close> for \<open>a \<le> b \<le> n\<close>.\<close>

definition slice :: "string \<Rightarrow> nat \<Rightarrow> nat \<Rightarrow> string" where
  "slice s a b = take (b - a) (drop a s)"

text \<open>
  The two branches of \<open>ParseTopic\<close>, each from the offset \<open>start\<close> (1 behind a leading slash):
  \<open>hc/<domain_id>\<close> and \<open>m/<domain_id>/c/<channel_id>[/<subtopic>]\<close>.
\<close>

definition parse_health :: "string \<Rightarrow> nat \<Rightarrow> gerror + parsed" where
  "parse_health topic start =
     (if length topic = start + 3 then Inl ErrMalformedTopic
      else case find_slash topic (start + 3) of
          Some _ \<Rightarrow> Inl ErrMalformedTopic
        | None \<Rightarrow> Inr (drop (start + 3) topic, [], [], HealthType))"

definition parse_channel :: "string \<Rightarrow> string \<Rightarrow> nat \<Rightarrow> gerror + parsed" where
  "parse_channel topic domainID pos =
     (if pos \<ge> length topic then Inl ErrMalformedTopic
      else
        let (chanID, subtopic) =
          (case find_slash topic pos of
             None \<Rightarrow> (drop pos topic, [])
           | Some sl \<Rightarrow> (slice topic pos sl, drop (sl + 1) topic))
        in if chanID = [] then Inl ErrMalformedTopic
           else Inr (domainID, chanID, subtopic, MessageType))"

definition parse_message :: "string \<Rightarrow> nat \<Rightarrow> gerror + parsed" where
  "parse_message topic start =
     (if length topic < start + 5 then Inl ErrMalformedTopic
      else if topic ! start \<noteq> MsgTopicPrefix \<or> topic ! (start + 1) \<noteq> CHR ''/'' then Inl ErrMalformedTopic
      else
        let pos = start + 2 in
        (case find_channel_sep topic pos of
           None \<Rightarrow> Inl ErrMalformedTopic
         | Some cp \<Rightarrow>
             if cp - pos = 0 then Inl ErrMalformedTopic
             else parse_channel topic (slice topic pos cp) (cp + 3)))"

definition ParseTopic :: "string \<Rightarrow> gerror + parsed" where
  "ParseTopic topic =
     (let n = length topic;
          start = (if n > 0 \<and> topic ! 0 = CHR ''/'' then 1 else 0)
      in if n \<le> start then Inl ErrMalformedTopic
         else if n > start + 3 \<and> slice topic start (start + 2) = HealthTopicPrefix
         then parse_health topic start
         else parse_message topic start)"

section \<open>Subtopics\<close>

text \<open>
  \<open>url.PathUnescape\<close>: every \<open>%\<close> must be followed by two hexadecimal digits, which are
  replaced by the byte they denote; all other bytes stay. The error names the offending
  bytes (the quoting of them in the Go error text is left out).
\<close>

definition hexval :: "char \<Rightarrow> nat option" where
  "hexval c =
     (let n = of_char c :: nat in
      if 48 \<le> n \<and> n \<le> 57 then Some (n - 48)
      else if 97 \<le> n \<and> n \<le> 102 then Some (n - 87)
      else if 65 \<le> n \<and> n \<le> 70 then Some (n - 55)
      else None)"

fun PathUnescape :: "string \<Rightarrow> gerror + string" where
  "PathUnescape [] = Inr []"
| "PathUnescape (c # s) =
     (if c = CHR ''%'' then
        (case s of
           a # b # r \<Rightarrow>
             (case (hexval a, hexval b) of
                (Some x, Some y) \<Rightarrow>
                  (case PathUnescape r of
                     Inl e \<Rightarrow> Inl e
                   | Inr r' \<Rightarrow> Inr (char_of (16 * x + y) # r'))
              | _ \<Rightarrow> Inl (Foreign (''invalid URL escape '' @ [c, a, b])))
         | _ \<Rightarrow> Inl (Foreign (''invalid URL escape '' @ c # s)))
      else (case PathUnescape s of Inl e \<Rightarrow> Inl e | Inr s' \<Rightarrow> Inr (c # s')))"

definition formatSubtopic :: "string \<Rightarrow> gerror + string" where
  "formatSubtopic subtopic =
     (case PathUnescape subtopic of
        Inl e \<Rightarrow> Inl e
      | Inr s \<Rightarrow> Inr (TrimSpace (TrimSuffix (TrimPrefix s ''/'') ''/'')))"

definition ParsePublishSubtopic :: "string \<Rightarrow> gerror + string" where
  "ParsePublishSubtopic subtopic =
     (if subtopic = [] then Inr subtopic
      else case formatSubtopic subtopic of
        Inl err \<Rightarrow> Inl (Wrap ErrMalformedSubtopic err)
      | Inr s \<Rightarrow>
          if ContainsAny s (subtopicInvalidChars @ mqttWildcards @ natsWildcards) then Inl ErrMalformedSubtopic
          else if ContainsStr s ''//'' then Inl ErrMalformedSubtopic
          else Inr s)"

definition ParseSubscribeSubtopic :: "string \<Rightarrow> gerror + string" where
  "ParseSubscribeSubtopic subtopic =
     (if subtopic = [] then Inr []
      else case formatSubtopic subtopic of
        Inl err \<Rightarrow> Inl (Wrap ErrMalformedSubtopic err)
      | Inr s \<Rightarrow>
          if ContainsAny s (subtopicInvalidChars @ natsWildcards) then Inl ErrMalformedSubtopic
          else if ContainsStr s ''//'' then Inl ErrMalformedSubtopic
          else if list_ex (\<lambda>elem. length elem > 1 \<and> ContainsAny elem mqttWildcards) (split_on (CHR ''/'') s)
          then Inl ErrMalformedSubtopic
          else Inr s)"

definition ParsePublishTopic :: "string \<Rightarrow> gerror + parsed" where
  "ParsePublishTopic topic =
     (case ParseTopic topic of
        Inl err \<Rightarrow> Inl err
      | Inr (domainID, chanID, subtopic, topicType) \<Rightarrow>
          (case ParsePublishSubtopic subtopic of
             Inl err \<Rightarrow> Inl (Wrap ErrMalformedTopic err)
           | Inr s \<Rightarrow> Inr (domainID, chanID, s, topicType)))"

definition ParseSubscribeTopic :: "string \<Rightarrow> gerror + parsed" where
  "ParseSubscribeTopic topic =
     (case ParseTopic topic of
        Inl err \<Rightarrow> Inl err
      | Inr (domainID, chanID, subtopic, topicType) \<Rightarrow>
          (case ParseSubscribeSubtopic subtopic of
             Inl err \<Rightarrow> Inl (Wrap ErrMalformedTopic err)
           | Inr s \<Rightarrow> Inr (domainID, chanID, s, topicType)))"

section \<open>Encoding\<close>

text \<open>The fields of the protobuf message the encoders read.\<close>

record Message =
  Channel :: string
  Domain :: string
  Subtopic :: string

definition EncodeTopicSuffix :: "string \<Rightarrow> string \<Rightarrow> string \<Rightarrow> string" where
  "EncodeTopicSuffix domainID channelID subtopic =
     (let subject = domainID @ ''/'' @ [ChannelTopicPrefix] @ ''/'' @ channelID
      in if subtopic \<noteq> [] then subject @ ''/'' @ subtopic else subject)"

definition EncodeTopic :: "string \<Rightarrow> string \<Rightarrow> string \<Rightarrow> string" where
  "EncodeTopic domainID channelID subtopic =
     [MsgTopicPrefix] @ ''/'' @ EncodeTopicSuffix domainID channelID subtopic"

definition EncodeMessageTopic :: "Message \<Rightarrow> string" where
  "EncodeMessageTopic m = EncodeTopicSuffix (Domain m) (Channel m) (Subtopic m)"

definition EncodeMessageMQTTTopic :: "Message \<Rightarrow> string" where
  "EncodeMessageMQTTTopic m = EncodeTopic (Domain m) (Channel m) (Subtopic m)"

definition encodeAdapterTopic :: "string \<Rightarrow> string \<Rightarrow> string \<Rightarrow> TopicType \<Rightarrow> string" where
  "encodeAdapterTopic dmn channel subtopic topicType =
     (case topicType of
        HealthType \<Rightarrow> HealthTopicPrefix @ ''/'' @ dmn
      | _ \<Rightarrow>
          let topic = [MsgTopicPrefix] @ ''/'' @ dmn @ ''/'' @ [ChannelTopicPrefix] @ ''/'' @ channel
          in if subtopic \<noteq> [] then topic @ ''/'' @ subtopic else topic)"

section \<open>Resolving routes\<close>

text \<open>
  The resolver talks to the domains and channels services and to a UUID library, which are
  parameters: \<open>fromString s\<close> is the canonical text of the UUID denoted by \<open>s\<close> or an error,
  \<open>domainByRoute\<close> and \<open>channelByRoute\<close> are the \<open>RetrieveIDByRoute\<close> calls.
\<close>

record resolver =
  fromString :: "string \<Rightarrow> gerror + string"
  domainByRoute :: "string \<Rightarrow> gerror + string"
  channelByRoute :: "string \<Rightarrow> string \<Rightarrow> gerror + string"

text \<open>
  \<open>if id.String() != extID || err != nil { return err }; return nil\<close>: on a parse error the
  identifier is the nil UUID and the error is returned; when the parse succeeds \<open>err\<close> is
  nil on both branches.
\<close>

definition validateUUID :: "resolver \<Rightarrow> string \<Rightarrow> gerror option" where
  "validateUUID r extID =
     (let (idString, err) = (case fromString r extID of
            Inl e \<Rightarrow> (''00000000-0000-0000-0000-000000000000'', Some e)
          | Inr s \<Rightarrow> (s, None))
      in if idString \<noteq> extID \<or> err \<noteq> None then err else None)"

definition resolveDomain :: "resolver \<Rightarrow> string \<Rightarrow> gerror + (string \<times> bool)" where
  "resolveDomain r dmn =
     (if validateUUID r dmn = None then Inr (dmn, False)
      else case domainByRoute r dmn of Inl err \<Rightarrow> Inl err | Inr i \<Rightarrow> Inr (i, True))"

definition resolveChannel :: "resolver \<Rightarrow> string \<Rightarrow> string \<Rightarrow> gerror + (string \<times> bool)" where
  "resolveChannel r channel domainID =
     (if validateUUID r channel = None then Inr (channel, False)
      else case channelByRoute r channel domainID of Inl err \<Rightarrow> Inl err | Inr i \<Rightarrow> Inr (i, True))"

definition Resolve :: "resolver \<Rightarrow> string \<Rightarrow> string \<Rightarrow> gerror + (string \<times> string \<times> bool)" where
  "Resolve r dmn channel =
     (if dmn = [] then Inl ErrEmptyRouteID
      else case resolveDomain r dmn of
        Inl err \<Rightarrow> Inl (Wrap ErrFailedResolveDomain err)
      | Inr (domainID, isDomainRoute) \<Rightarrow>
          if channel = [] then Inr (domainID, [], isDomainRoute)
          else case resolveChannel r channel domainID of
            Inl err \<Rightarrow> Inl (Wrap ErrFailedResolveChannel err)
          | Inr (channelID, isChannelRoute) \<Rightarrow> Inr (domainID, channelID, isDomainRoute \<or> isChannelRoute))"

definition ResolveTopic :: "resolver \<Rightarrow> string \<Rightarrow> gerror + string" where
  "ResolveTopic r topic =
     (case ParseTopic topic of
        Inl err \<Rightarrow> Inl (Wrap ErrMalformedTopic err)
      | Inr (dmn, channel, subtopic, topicType) \<Rightarrow>
          (case Resolve r dmn channel of
             Inl err \<Rightarrow> Inl err
           | Inr (domainID, channelID, _) \<Rightarrow> Inr (encodeAdapterTopic domainID channelID subtopic topicType)))"

section \<open>The cached parser\<close>

text \<open>
  \<open>parser.cache\<close> is a third-party cache: \<open>cacheGet\<close> and \<open>cacheSet\<close> are parameters over an
  abstract cache state. An entry may be dropped at any time.
\<close>

record parsedTopic =
  pt_domainID :: string
  pt_channelID :: string
  pt_subtopic :: string
  pt_err :: "gerror option"

record 'c cache_ops =
  cacheGet :: "'c \<Rightarrow> string \<Rightarrow> parsedTopic option"
  cacheSet :: "string \<Rightarrow> parsedTopic \<Rightarrow> 'c \<Rightarrow> 'c"

type_synonym topic_result = "string \<times> string \<times> string \<times> TopicType \<times> gerror option"

definition costFunc :: "parsedTopic \<Rightarrow> int" where
  "costFunc val =
     (let errLen = (case pt_err val of None \<Rightarrow> 0 | Some e \<Rightarrow> length (ErrorStr e))
      in int (length (pt_domainID val) + length (pt_channelID val) + length (pt_subtopic val) + errLen))"

definition saveToCache ::
  "'c cache_ops \<Rightarrow> string \<Rightarrow> string \<Rightarrow> string \<Rightarrow> string \<Rightarrow> gerror option \<Rightarrow> 'c \<Rightarrow> 'c" where
  "saveToCache p topic domainID channelID subtopic err =
     cacheSet p topic
       \<lparr>pt_domainID = domainID, pt_channelID = channelID, pt_subtopic = subtopic, pt_err = err\<rparr>"

definition parser_ParsePublishTopic ::
  "'c cache_ops \<Rightarrow> resolver \<Rightarrow> string \<Rightarrow> bool \<Rightarrow> 'c \<Rightarrow> topic_result \<times> 'c" where
  "parser_ParsePublishTopic p r topic resolve c =
     (case cacheGet p c topic of
        Some val \<Rightarrow> ((pt_domainID val, pt_channelID val, pt_subtopic val, MessageType, pt_err val), c)
      | None \<Rightarrow>
          (case ParsePublishTopic topic of
             Inl err \<Rightarrow> (([], [], [], InvalidType, Some err), saveToCache p topic [] [] [] (Some err) c)
           | Inr (domainID, channelID, subtopic, topicType) \<Rightarrow>
               (case (if resolve then Resolve r domainID channelID else Inr (domainID, channelID, False)) of
                  Inl err \<Rightarrow> (([], [], [], InvalidType, Some err), c)
                | Inr (domainID', channelID', isRoute) \<Rightarrow>
                    ((domainID', channelID', subtopic, topicType, None),
                     if \<not> isRoute \<and> topicType = MessageType
                     then saveToCache p topic domainID' channelID' subtopic None c else c))))"

definition parser_ParseSubscribeTopic :: "resolver \<Rightarrow> string \<Rightarrow> bool \<Rightarrow> topic_result" where
  "parser_ParseSubscribeTopic r topic resolve =
     (case ParseSubscribeTopic topic of
        Inl err \<Rightarrow> ([], [], [], InvalidType, Some err)
      | Inr (domainID, channelID, subtopic, topicType) \<Rightarrow>
          (case (if resolve then Resolve r domainID channelID else Inr (domainID, channelID, False)) of
             Inl err \<Rightarrow> ([], [], [], InvalidType, Some err)
           | Inr (domainID', channelID', _) \<Rightarrow> (domainID', channelID', subtopic, topicType, None)))"

section \<open>The scanning loops\<close>

text \<open>
  Reference version of both loops: the offset of the first occurrence of a pattern, by
  recursion on the text.
\<close>

fun index_of :: "string \<Rightarrow> string \<Rightarrow> nat option" where
  "index_of p [] = (if p = [] then Some 0 else None)"
| "index_of p (x # xs) = (if HasPrefix (x # xs) p then Some 0 else map_option Suc (index_of p xs))"

lemma index_of_Some_iff:
  "index_of p s = Some k \<longleftrightarrow> k \<le> length s \<and> HasPrefix (drop k s) p \<and> (\<forall>j<k. \<not> HasPrefix (drop j s) p)"
proof (induction p s arbitrary: k rule: index_of.induct)
  case (1 p)
  then show ?case by (auto simp: HasPrefix_def)
next
  case (2 p x xs)
  show ?case
  proof (cases "HasPrefix (x # xs) p")
    case True
    then show ?thesis by (cases k) auto
  next
    case False
    with 2 show ?thesis by (cases k) (auto simp: All_less_Suc2)
  qed
qed

lemma index_of_None_iff: "index_of p s = None \<longleftrightarrow> \<not> ContainsStr s p"
  by (induction p s rule: index_of.induct) auto

lemma find_slash_index:
  "i \<le> length t \<Longrightarrow> find_slash t i = map_option ((+) i) (index_of ''/'' (drop i t))"
proof (induction t i rule: find_slash.induct)
  case (1 t i)
  show ?case
  proof (cases "i < length t")
    case True
    then have d: "drop i t = t ! i # drop (Suc i) t" by (rule Cons_nth_drop_Suc [symmetric])
    show ?thesis
    proof (cases "t ! i = CHR ''/''")
      case True
      with d \<open>i < length t\<close> show ?thesis by (simp add: find_slash.simps [of t i] HasPrefix_def)
    next
      case False
      with "1.IH" d \<open>i < length t\<close> show ?thesis
        by (simp add: find_slash.simps [of t i] HasPrefix_def option.map_comp comp_def)
    qed
  next
    case False
    with "1.prems" show ?thesis by (subst find_slash.simps) simp
  qed
qed

lemma HasPrefix_sep_nth:
  assumes "i + 3 \<le> length t"
  shows "HasPrefix (drop i t) ''/c/'' \<longleftrightarrow>
    t ! i = CHR ''/'' \<and> t ! (i + 1) = ChannelTopicPrefix \<and> t ! (i + 2) = CHR ''/''"
proof -
  have "drop i t = t ! i # t ! (i + 1) # t ! (i + 2) # drop (i + 3) t"
    using assms by (simp add: Cons_nth_drop_Suc numeral_3_eq_3)
  then show ?thesis by (simp add: HasPrefix_def ChannelTopicPrefix_def)
qed

lemma find_channel_sep_index:
  "i \<le> length t \<Longrightarrow> find_channel_sep t i = map_option ((+) i) (index_of ''/c/'' (drop i t))"
proof (induction t i rule: find_channel_sep.induct)
  case (1 t i)
  show ?case
  proof (cases "i + 3 \<le> length t")
    case True
    then have d: "drop i t = t ! i # drop (Suc i) t" by (simp add: Cons_nth_drop_Suc)
    show ?thesis
    proof (cases "HasPrefix (drop i t) ''/c/''")
      case hp: True
      with HasPrefix_sep_nth [OF True] True have "find_channel_sep t i = Some i"
        by (subst find_channel_sep.simps) simp
      with hp d show ?thesis by simp
    next
      case hp: False
      with HasPrefix_sep_nth [OF True] True have "find_channel_sep t i = find_channel_sep t (Suc i)"
        by (subst find_channel_sep.simps) auto
      with hp d True "1.IH" HasPrefix_sep_nth [OF True] show ?thesis
        by (simp add: option.map_comp comp_def)
    qed
  next
    case False
    have "\<not> ContainsStr (drop i t) ''/c/''"
    proof
      assume "ContainsStr (drop i t) ''/c/''"
      then obtain a b where "drop i t = a @ ''/c/'' @ b" by (auto simp: ContainsStr_iff)
      then have "length (drop i t) \<ge> 3" by simp
      with False show False by simp
    qed
    then have "index_of ''/c/'' (drop i t) = None" by (simp add: index_of_None_iff)
    with False show ?thesis by (simp add: find_channel_sep.simps [of t i])
  qed
qed

section \<open>The grammar accepted by the parser\<close>

lemma HasPrefix_drop_sep_append:
  assumes "j < length d"
  shows "HasPrefix (drop j (d @ ''/c/'' @ r)) ''/c/'' \<longleftrightarrow> HasPrefix (drop j (d @ ''/c'')) ''/c/''"
proof -
  have "take 3 (drop j (d @ ''/c/'' @ r)) = take 3 (drop j (d @ ''/c''))"
    using assms by (cases "length d - j \<ge> 2") (auto simp: take_Cons' not_le less_2_cases_iff)
  moreover have "length ''/c/'' = 3" by simp
  ultimately show ?thesis unfolding HasPrefix_def by metis
qed

lemma HasPrefix_length: "HasPrefix s p \<Longrightarrow> length p \<le> length s"
  by (auto simp: HasPrefix_iff)

lemma ContainsStr_drop: "ContainsStr s p \<longleftrightarrow> (\<exists>j \<le> length s. HasPrefix (drop j s) p)"
proof (induction s)
  case Nil
  then show ?case by (auto simp: HasPrefix_def)
next
  case (Cons x s)
  have "(\<exists>j \<le> Suc (length s). HasPrefix (drop j (x # s)) p) \<longleftrightarrow>
        HasPrefix (x # s) p \<or> (\<exists>j \<le> length s. HasPrefix (drop j s) p)"
    by (metis Suc_le_mono drop0 drop_Suc_Cons le0 not0_implies_Suc)
  with Cons show ?case by simp
qed

text \<open>The first \<open>"/c/"\<close> of a text, as a decomposition of the text.\<close>

lemma index_of_sep_iff:
  "index_of ''/c/'' s = Some k \<longleftrightarrow>
     (\<exists>d r. s = d @ ''/c/'' @ r \<and> length d = k \<and> \<not> ContainsStr (d @ ''/c'') ''/c/'')"
  (is "?l \<longleftrightarrow> ?r")
proof
  assume ?l
  then have k: "k \<le> length s" "HasPrefix (drop k s) ''/c/''" "\<forall>j<k. \<not> HasPrefix (drop j s) ''/c/''"
    by (auto simp: index_of_Some_iff)
  then obtain r where r: "drop k s = ''/c/'' @ r" by (auto simp: HasPrefix_iff)
  define d where "d = take k s"
  have s: "s = d @ ''/c/'' @ r" using r unfolding d_def by (metis append_take_drop_id)
  have l: "length d = k" using k(1) by (simp add: d_def)
  have "\<not> HasPrefix (drop j (d @ ''/c'')) ''/c/''" if "j \<le> length (d @ ''/c'')" for j
  proof (cases "j < length d")
    case True
    with k(3) l s HasPrefix_drop_sep_append show ?thesis by metis
  next
    case False
    then have "length (drop j (d @ ''/c'')) < length ''/c/''" by simp
    then show ?thesis using HasPrefix_length not_le by blast
  qed
  then have "\<not> ContainsStr (d @ ''/c'') ''/c/''" by (auto simp: ContainsStr_drop)
  with s l show ?r by blast
next
  assume ?r
  then obtain d r where s: "s = d @ ''/c/'' @ r" and l: "length d = k"
    and n: "\<not> ContainsStr (d @ ''/c'') ''/c/''" by blast
  have "\<not> HasPrefix (drop j s) ''/c/''" if "j < k" for j
  proof -
    from that l have "j \<le> length (d @ ''/c'')" by simp
    with n have "\<not> HasPrefix (drop j (d @ ''/c'')) ''/c/''" unfolding ContainsStr_drop by blast
    with that l s HasPrefix_drop_sep_append show ?thesis by metis
  qed
  moreover have "HasPrefix (drop k s) ''/c/''" using s l by (simp add: HasPrefix_def)
  ultimately show ?l using s l by (simp add: index_of_Some_iff)
qed

lemma index_of_slash:
  "index_of ''/'' s =
     (if CHR ''/'' \<in> set s then Some (length (takeWhile (\<lambda>c. c \<noteq> CHR ''/'') s)) else None)"
  by (induction s) (auto simp: HasPrefix_def)

lemma index_of_slash_SomeD:
  assumes "index_of ''/'' s = Some k"
  shows "\<exists>a b. s = a @ CHR ''/'' # b \<and> length a = k \<and> CHR ''/'' \<notin> set a"
proof -
  from assms have k: "k = length (takeWhile (\<lambda>c. c \<noteq> CHR ''/'') s)" and m: "CHR ''/'' \<in> set s"
    by (auto simp: index_of_slash split: if_splits)
  from m obtain a b where ab: "s = a @ CHR ''/'' # b" "CHR ''/'' \<notin> set a"
    by (meson split_list_first)
  have "takeWhile (\<lambda>c. c \<noteq> CHR ''/'') s = a"
    unfolding ab(1) by (subst takeWhile_append2) (use ab(2) in auto)
  with k have "length a = k" by simp
  with ab show ?thesis by blast
qed

lemma index_of_slash_append:
  "CHR ''/'' \<notin> set a \<Longrightarrow> index_of ''/'' (a @ CHR ''/'' # b) = Some (length a)"
  unfolding index_of_slash by (subst takeWhile_append2) auto

lemma index_of_slash_None_iff: "index_of ''/'' s = None \<longleftrightarrow> CHR ''/'' \<notin> set s"
  by (simp add: index_of_slash)

text \<open>
  Reference parser: what remains after the optional leading slash, taken apart by the
  position of patterns instead of by running indices.
\<close>

definition parse_body :: "string \<Rightarrow> gerror + parsed" where
  "parse_body u =
     (if u = [] then Inl ErrMalformedTopic
      else if length u > 3 \<and> take 2 u = ''hc'' then
        (if CHR ''/'' \<in> set (drop 3 u) then Inl ErrMalformedTopic
         else Inr (drop 3 u, [], [], HealthType))
      else if length u < 5 \<or> take 2 u \<noteq> ''m/'' then Inl ErrMalformedTopic
      else case index_of ''/c/'' (drop 2 u) of
          None \<Rightarrow> Inl ErrMalformedTopic
        | Some k \<Rightarrow>
            let d = take k (drop 2 u); r = drop (k + 5) u in
            if d = [] \<or> r = [] \<or> hd r = CHR ''/'' then Inl ErrMalformedTopic
            else Inr (d, takeWhile (\<lambda>c. c \<noteq> CHR ''/'') r,
                      tl (dropWhile (\<lambda>c. c \<noteq> CHR ''/'') r), MessageType))"

definition strip_lead :: "string \<Rightarrow> string" where
  "strip_lead t = (case t of c # u \<Rightarrow> if c = CHR ''/'' then u else t | [] \<Rightarrow> [])"

lemma no_slash_While:
  assumes "CHR ''/'' \<notin> set r"
  shows "takeWhile (\<lambda>c. c \<noteq> CHR ''/'') r = r" and "dropWhile (\<lambda>c. c \<noteq> CHR ''/'') r = []"
  using assms by (auto simp: takeWhile_eq_all_conv)

lemma channel_split:
  "(case map_option ((+) i) (index_of ''/'' (drop i t)) of
      None \<Rightarrow> (drop i t, [])
    | Some sl \<Rightarrow> (slice t i sl, drop (sl + 1) t)) =
   (takeWhile (\<lambda>c. c \<noteq> CHR ''/'') (drop i t), tl (dropWhile (\<lambda>c. c \<noteq> CHR ''/'') (drop i t)))"
proof (cases "index_of ''/'' (drop i t)")
  case None
  then have "CHR ''/'' \<notin> set (drop i t)" by (simp add: index_of_slash_None_iff)
  with None show ?thesis by (simp add: no_slash_While)
next
  case (Some k)
  from index_of_slash_SomeD [OF this] obtain a b where
    ab: "drop i t = a @ CHR ''/'' # b" "length a = k" "CHR ''/'' \<notin> set a" by blast
  have tw: "takeWhile (\<lambda>c. c \<noteq> CHR ''/'') (drop i t) = a"
    unfolding ab(1) by (subst takeWhile_append2) (use ab(3) in auto)
  have dw: "dropWhile (\<lambda>c. c \<noteq> CHR ''/'') (drop i t) = CHR ''/'' # b"
    unfolding ab(1) by (subst dropWhile_append2) (use ab(3) in auto)
  have "slice t i (i + k) = a" using ab(1,2) by (simp add: slice_def)
  moreover have "drop (i + k + 1) t = drop (k + 1) (drop i t)" by (simp add: ac_simps)
  then have "drop (i + k + 1) t = b" using ab(1,2) by simp
  ultimately show ?thesis using Some tw dw by simp
qed

lemma parse_health_eq:
  assumes t: "t = lead @ u" and n: "length u > 3"
  shows "parse_health t (length lead) =
    (if CHR ''/'' \<in> set (drop 3 u) then Inl ErrMalformedTopic else Inr (drop 3 u, [], [], HealthType))"
proof -
  have "find_slash t (length lead + 3) = map_option ((+) (length lead + 3)) (index_of ''/'' (drop 3 u))"
    using t n by (simp add: find_slash_index)
  then show ?thesis
    using t n index_of_slash_None_iff [of "drop 3 u"] by (auto simp: parse_health_def split: option.splits)
qed

lemma parse_channel_eq:
  "parse_channel t d i =
     (let r = drop i t in
      if r = [] \<or> hd r = CHR ''/'' then Inl ErrMalformedTopic
      else Inr (d, takeWhile (\<lambda>c. c \<noteq> CHR ''/'') r, tl (dropWhile (\<lambda>c. c \<noteq> CHR ''/'') r), MessageType))"
proof (cases "i \<ge> length t")
  case True
  then show ?thesis by (simp add: parse_channel_def)
next
  case False
  then have "find_slash t i = map_option ((+) i) (index_of ''/'' (drop i t))"
    by (simp add: find_slash_index)
  moreover have "takeWhile (\<lambda>c. c \<noteq> CHR ''/'') (drop i t) = [] \<longleftrightarrow> hd (drop i t) = CHR ''/''"
    using False by (cases "drop i t") auto
  ultimately show ?thesis
    using False channel_split [of i t] by (simp add: parse_channel_def Let_def)
qed

lemma parse_message_eq:
  assumes t: "t = lead @ u"
  shows "parse_message t (length lead) =
    (if length u < 5 \<or> take 2 u \<noteq> ''m/'' then Inl ErrMalformedTopic
     else case index_of ''/c/'' (drop 2 u) of
          None \<Rightarrow> Inl ErrMalformedTopic
        | Some k \<Rightarrow> if k = 0 then Inl ErrMalformedTopic
            else parse_channel t (take k (drop 2 u)) (length lead + (k + 5)))"
proof (cases "length u < 5")
  case True
  with t show ?thesis by (simp add: parse_message_def)
next
  case False
  then obtain a b v where u: "u = a # b # v" by (cases u; cases "tl u") auto
  have fc: "find_channel_sep t (length lead + 2) =
      map_option ((+) (length lead + 2)) (index_of ''/c/'' (drop 2 u))"
    using t False by (simp add: find_channel_sep_index)
  have sl: "slice t (length lead + 2) (length lead + 2 + k) = take k (drop 2 u)" for k
    using t by (simp add: slice_def)
  have hd: "t ! length lead = a" "t ! (length lead + 1) = b" "take 2 u = [a, b]"
    using t u by (simp_all add: nth_append)
  show ?thesis
  proof (cases "[a, b] = ''m/''")
    case True
    have "parse_message t (length lead) =
      (case map_option ((+) (length lead + 2)) (index_of ''/c/'' (drop 2 u)) of
         None \<Rightarrow> Inl ErrMalformedTopic
       | Some cp \<Rightarrow> if cp - (length lead + 2) = 0 then Inl ErrMalformedTopic
           else parse_channel t (slice t (length lead + 2) cp) (cp + 3))"
      unfolding parse_message_def Let_def fc hd using True False t by (simp add: MsgTopicPrefix_def)
    then show ?thesis
      using True False hd(3) sl
      by (cases "index_of ''/c/'' (drop 2 u)") (simp_all add: ac_simps)
  next
    case neq: False
    with False hd t show ?thesis by (auto simp: parse_message_def MsgTopicPrefix_def)
  qed
qed

lemma ParseTopic_body: "ParseTopic t = parse_body (strip_lead t)"
proof -
  define lead where "lead = (if length t > 0 \<and> t ! 0 = CHR ''/'' then ''/'' else [])"
  define u where "u = strip_lead t"
  have t: "t = lead @ u" by (cases t) (auto simp: lead_def u_def strip_lead_def)
  have st: "(if length t > 0 \<and> t ! 0 = CHR ''/'' then 1 else 0) = length lead" by (simp add: lead_def)
  have sl: "slice t (length lead) (length lead + 2) = take 2 u" using t by (simp add: slice_def)
  have dr: "drop (length lead + j) t = drop j u" for j using t by simp
  have n: "length t = length lead + length u" using t by simp
  have "ParseTopic t =
     (if u = [] then Inl ErrMalformedTopic
      else if length u > 3 \<and> take 2 u = ''hc'' then parse_health t (length lead)
      else parse_message t (length lead))"
    unfolding ParseTopic_def Let_def st sl HealthTopicPrefix_def using n by simp
  also have "\<dots> = parse_body u"
    using parse_health_eq [OF t]
    by (auto simp: parse_body_def parse_message_eq [OF t] parse_channel_eq dr Let_def split: option.splits)
  finally show ?thesis by (simp add: u_def)
qed

text \<open>
  The message branch after the optional leading slash: \<open>m/<domain>/c/<channel>[/<subtopic>]\<close>,
  where the domain ends at the first \<open>"/c/"\<close> and the channel at the next slash.
\<close>

definition message_topic :: "string \<Rightarrow> string \<Rightarrow> string \<Rightarrow> string \<Rightarrow> bool" where
  "message_topic u d c s \<longleftrightarrow>
     d \<noteq> [] \<and> \<not> ContainsStr (d @ ''/c'') ''/c/'' \<and> c \<noteq> [] \<and> CHR ''/'' \<notin> set c \<and>
     (u = ''m/'' @ d @ ''/c/'' @ c \<and> s = [] \<or> u = ''m/'' @ d @ ''/c/'' @ c @ ''/'' @ s)"

lemma takeWhile_tl_split:
  "c = takeWhile (\<lambda>c. c \<noteq> CHR ''/'') r \<and> s = tl (dropWhile (\<lambda>c. c \<noteq> CHR ''/'') r) \<longleftrightarrow>
     CHR ''/'' \<notin> set c \<and> (r = c \<and> s = [] \<or> r = c @ ''/'' @ s)"
proof
  assume l: "c = takeWhile (\<lambda>c. c \<noteq> CHR ''/'') r \<and> s = tl (dropWhile (\<lambda>c. c \<noteq> CHR ''/'') r)"
  then have "CHR ''/'' \<notin> set c" by (auto dest: set_takeWhileD)
  moreover have "r = c \<and> s = [] \<or> r = c @ ''/'' @ s"
  proof (cases "CHR ''/'' \<in> set r")
    case True
    then obtain a b where ab: "r = a @ CHR ''/'' # b" "CHR ''/'' \<notin> set a" by (meson split_list_first)
    have "c = a" unfolding conjunct1 [OF l] ab(1) by (subst takeWhile_append2) (use ab(2) in auto)
    moreover have "s = b" unfolding conjunct2 [OF l] ab(1) by (subst dropWhile_append2) (use ab(2) in auto)
    ultimately show ?thesis using ab by simp
  next
    case False
    with l show ?thesis by (simp add: no_slash_While)
  qed
  ultimately show "CHR ''/'' \<notin> set c \<and> (r = c \<and> s = [] \<or> r = c @ ''/'' @ s)" by blast
next
  assume r: "CHR ''/'' \<notin> set c \<and> (r = c \<and> s = [] \<or> r = c @ ''/'' @ s)"
  have "takeWhile (\<lambda>c. c \<noteq> CHR ''/'') (c @ ''/'' @ s) = c"
    by (subst takeWhile_append2) (use r in auto)
  moreover have "dropWhile (\<lambda>c. c \<noteq> CHR ''/'') (c @ ''/'' @ s) = ''/'' @ s"
    by (subst dropWhile_append2) (use r in auto)
  ultimately show "c = takeWhile (\<lambda>c. c \<noteq> CHR ''/'') r \<and> s = tl (dropWhile (\<lambda>c. c \<noteq> CHR ''/'') r)"
    using r by (auto simp: no_slash_While)
qed

lemma drop_to_channel: "drop (length d + 5) (''m/'' @ d @ ''/c/'' @ r) = r"
  by (simp add: numeral_eq_Suc)

lemma parse_body_message_iff:
  "parse_body u = Inr (d, c, s, MessageType) \<longleftrightarrow> message_topic u d c s" (is "?l \<longleftrightarrow> ?r")
proof
  assume l: ?l
  then obtain k where u2: "take 2 u = ''m/''" and k: "index_of ''/c/'' (drop 2 u) = Some k"
    and d: "d = take k (drop 2 u)" "d \<noteq> []" and r: "drop (k + 5) u \<noteq> []" "hd (drop (k + 5) u) \<noteq> CHR ''/''"
    and cs: "c = takeWhile (\<lambda>c. c \<noteq> CHR ''/'') (drop (k + 5) u)"
            "s = tl (dropWhile (\<lambda>c. c \<noteq> CHR ''/'') (drop (k + 5) u))"
    by (auto simp: parse_body_def Let_def split: if_splits option.splits)
  from k obtain d' r' where dec: "drop 2 u = d' @ ''/c/'' @ r'" and "length d' = k"
    and nc: "\<not> ContainsStr (d' @ ''/c'') ''/c/''" by (auto simp: index_of_sep_iff)
  then have dd: "d' = d" using d by simp
  have u: "u = ''m/'' @ d @ ''/c/'' @ r'" using u2 dec dd by (metis append_take_drop_id)
  have "drop (k + 5) u = r'" using u \<open>length d' = k\<close> dd drop_to_channel by blast
  with cs r have "CHR ''/'' \<notin> set c \<and> (r' = c \<and> s = [] \<or> r' = c @ ''/'' @ s)" and "c \<noteq> []"
    using takeWhile_tl_split [of c r' s] by (auto simp: takeWhile_eq_Nil_iff)
  with u nc dd d show ?r by (auto simp: message_topic_def)
next
  assume r: ?r
  then obtain r' where u: "u = ''m/'' @ d @ ''/c/'' @ r'" and r': "r' = c \<and> s = [] \<or> r' = c @ ''/'' @ s"
    and w: "d \<noteq> []" "\<not> ContainsStr (d @ ''/c'') ''/c/''" "c \<noteq> []" "CHR ''/'' \<notin> set c"
    by (auto simp: message_topic_def)
  have "index_of ''/c/'' (drop 2 u) = Some (length d)"
    unfolding index_of_sep_iff using u w by auto
  moreover have "r' \<noteq> []" "hd r' \<noteq> CHR ''/''" using r' w by (cases c; auto)+
  moreover have "drop (length d + 5) u = r'" using u drop_to_channel by blast
  moreover have "c = takeWhile (\<lambda>c. c \<noteq> CHR ''/'') r' \<and> s = tl (dropWhile (\<lambda>c. c \<noteq> CHR ''/'') r')"
    using r' w by (simp only: takeWhile_tl_split) simp
  ultimately show ?l using u w by (auto simp: parse_body_def Let_def)
qed

lemma parse_body_health_iff:
  "parse_body u = Inr (d, c, s, HealthType) \<longleftrightarrow>
     c = [] \<and> s = [] \<and> d \<noteq> [] \<and> CHR ''/'' \<notin> set d \<and> (\<exists>x. u = ''hc'' @ x # d)"
proof (cases "length u > 3 \<and> take 2 u = ''hc''")
  case True
  then obtain x d' where u: "u = ''hc'' @ x # d'" and "d' \<noteq> []"
    by (cases u; cases "tl u"; cases "tl (tl u)") auto
  then show ?thesis by (auto simp: parse_body_def)
next
  case False
  then have "parse_body u \<noteq> Inr (d, c, s, HealthType)"
    by (auto simp: parse_body_def Let_def split: if_splits option.splits)
  moreover from False have "\<not> (d \<noteq> [] \<and> (\<exists>x. u = ''hc'' @ x # d))" by auto
  ultimately show ?thesis by blast
qed

lemma parse_body_not_invalid: "parse_body u \<noteq> Inr (d, c, s, InvalidType)"
  by (auto simp: parse_body_def Let_def split: if_splits option.splits)

lemma ParseTopic_Inl: "ParseTopic t = Inl e \<Longrightarrow> e = ErrMalformedTopic"
  by (auto simp: ParseTopic_body parse_body_def Let_def split: if_splits option.splits)

lemma no_slash_no_sep: "CHR ''/'' \<notin> set d \<Longrightarrow> \<not> ContainsStr (d @ ''/c'') ''/c/''"
proof
  assume n: "CHR ''/'' \<notin> set d" and "ContainsStr (d @ ''/c'') ''/c/''"
  then obtain a b where "d @ ''/c'' = a @ ''/c/'' @ b" by (auto simp: ContainsStr_iff)
  then have "count_list (d @ ''/c'') (CHR ''/'') = count_list (a @ ''/c/'' @ b) (CHR ''/'')" by simp
  moreover from n have "count_list d (CHR ''/'') = 0" by (simp add: count_list_0_iff)
  ultimately show False by simp
qed

section \<open>Subtopics and the two parsers\<close>

lemma ParsePublishSubtopic_InrD:
  "ParsePublishSubtopic s = Inr r \<Longrightarrow>
     \<not> ContainsAny r '' +#*>'' \<and> \<not> ContainsStr r ''//''"
  by (auto simp: ParsePublishSubtopic_def subtopicInvalidChars_def mqttWildcards_def natsWildcards_def
      split: sum.splits if_splits)

lemma publish_imp_subscribe_subtopic:
  assumes "ParsePublishSubtopic s = Inr r"
  shows "ParseSubscribeSubtopic s = Inr r"
proof (cases "s = []")
  case True
  with assms show ?thesis by (simp add: ParsePublishSubtopic_def ParseSubscribeSubtopic_def)
next
  case False
  with assms have f: "formatSubtopic s = Inr r" and b: "\<not> ContainsAny r '' +#*>''" "\<not> ContainsStr r ''//''"
    using ParsePublishSubtopic_InrD [OF assms]
    by (auto simp: ParsePublishSubtopic_def split: sum.splits if_splits)
  have "\<not> ContainsAny e mqttWildcards" if "e \<in> set (split_on (CHR ''/'') r)" for e
  proof -
    have "set e \<subseteq> set r" using that by (rule split_on_pieces_subset)
    with b(1) show ?thesis by (auto simp: ContainsAny_iff mqttWildcards_def)
  qed
  then have "\<not> list_ex (\<lambda>elem. length elem > 1 \<and> ContainsAny elem mqttWildcards) (split_on (CHR ''/'') r)"
    by (auto simp: list_ex_iff)
  with f b False show ?thesis
    by (auto simp: ParseSubscribeSubtopic_def ContainsAny_iff subtopicInvalidChars_def natsWildcards_def)
qed

lemma ParsePublishTopic_Inr_iff:
  "ParsePublishTopic t = Inr (d, c, s, ty) \<longleftrightarrow>
     (\<exists>s0. ParseTopic t = Inr (d, c, s0, ty) \<and> ParsePublishSubtopic s0 = Inr s)"
  by (auto simp: ParsePublishTopic_def split: sum.splits)

lemma ParseSubscribeTopic_Inr_iff:
  "ParseSubscribeTopic t = Inr (d, c, s, ty) \<longleftrightarrow>
     (\<exists>s0. ParseTopic t = Inr (d, c, s0, ty) \<and> ParseSubscribeSubtopic s0 = Inr s)"
  by (auto simp: ParseSubscribeTopic_def split: sum.splits)

text \<open>Encoders agree, and parsing undoes encoding.\<close>

lemma encodeAdapterTopic_message: "encodeAdapterTopic d c s MessageType = EncodeTopic d c s"
  by (simp add: encodeAdapterTopic_def EncodeTopic_def EncodeTopicSuffix_def Let_def)

lemma strip_lead_m [simp]: "strip_lead (CHR ''m'' # u) = CHR ''m'' # u"
  by (simp add: strip_lead_def)

lemma ParseTopic_EncodeTopic:
  assumes "d \<noteq> []" "\<not> ContainsStr (d @ ''/c'') ''/c/''" "c \<noteq> []" "CHR ''/'' \<notin> set c"
  shows "ParseTopic (EncodeTopic d c s) = Inr (d, c, s, MessageType)"
proof -
  have "message_topic (EncodeTopic d c s) d c s"
    using assms by (auto simp: message_topic_def EncodeTopic_def EncodeTopicSuffix_def Let_def
        MsgTopicPrefix_def ChannelTopicPrefix_def)
  moreover have "strip_lead (EncodeTopic d c s) = EncodeTopic d c s"
    by (simp add: EncodeTopic_def MsgTopicPrefix_def)
  ultimately show ?thesis by (simp add: ParseTopic_body parse_body_message_iff)
qed

lemma ParseTopic_encode_health:
  "d \<noteq> [] \<Longrightarrow> CHR ''/'' \<notin> set d \<Longrightarrow>
   ParseTopic (encodeAdapterTopic d c s HealthType) = Inr (d, [], [], HealthType)"
  by (simp add: ParseTopic_body parse_body_health_iff encodeAdapterTopic_def HealthTopicPrefix_def
      strip_lead_def)

section \<open>Resolution\<close>

lemma validateUUID_None_iff: "validateUUID r x = None \<longleftrightarrow> (\<exists>y. fromString r x = Inr y)"
  by (auto simp: validateUUID_def split: sum.splits)

lemma Resolve_not_route:
  "Resolve r d c = Inr (d', c', False) \<Longrightarrow> d' = d \<and> c' = c"
  by (auto simp: Resolve_def resolveDomain_def resolveChannel_def split: if_splits sum.splits)

lemma Resolve_ids:
  "d \<noteq> [] \<Longrightarrow> validateUUID r d = None \<Longrightarrow> c = [] \<or> validateUUID r c = None \<Longrightarrow>
   Resolve r d c = Inr (d, c, False)"
  by (auto simp: Resolve_def resolveDomain_def resolveChannel_def)

lemma Resolve_not_routeD:
  "Resolve r d c = Inr (d', c', False) \<Longrightarrow>
     d \<noteq> [] \<and> validateUUID r d = None \<and> (c = [] \<or> validateUUID r c = None)"
  by (auto simp: Resolve_def resolveDomain_def resolveChannel_def split: if_splits sum.splits)

text \<open>
  What the resolver relies on of the services it calls: identifiers are UUID texts, which
  are not empty and hold no slash.
\<close>

definition resolver_ok :: "resolver \<Rightarrow> bool" where
  "resolver_ok r \<longleftrightarrow>
     (\<forall>x y. fromString r x = Inr y \<longrightarrow> x \<noteq> [] \<and> CHR ''/'' \<notin> set x) \<and>
     (\<forall>x i. domainByRoute r x = Inr i \<longrightarrow> (\<exists>y. fromString r i = Inr y)) \<and>
     (\<forall>x d i. channelByRoute r x d = Inr i \<longrightarrow> (\<exists>y. fromString r i = Inr y))"

lemma Resolve_returns_ids:
  assumes "resolver_ok r" and "Resolve r d c = Inr (d', c', b)"
  shows "validateUUID r d' = None \<and> d' \<noteq> [] \<and> CHR ''/'' \<notin> set d' \<and>
     (if c = [] then c' = [] else validateUUID r c' = None \<and> c' \<noteq> [] \<and> CHR ''/'' \<notin> set c')"
proof -
  have "validateUUID r d' = None \<and> (if c = [] then c' = [] else validateUUID r c' = None)"
    using assms
    by (auto simp: Resolve_def resolveDomain_def resolveChannel_def resolver_ok_def validateUUID_None_iff
        split: if_splits sum.splits)
  moreover have "x \<noteq> [] \<and> CHR ''/'' \<notin> set x" if "validateUUID r x = None" for x
    using that assms(1) unfolding validateUUID_None_iff resolver_ok_def by blast
  ultimately show ?thesis by auto
qed

section \<open>The cache\<close>

text \<open>
  What the parser relies on of the cache library: a lookup returns a value stored under that
  key earlier, or nothing.
\<close>

definition lossy_cache :: "'c cache_ops \<Rightarrow> bool" where
  "lossy_cache p \<longleftrightarrow>
     (\<forall>c k v k' v'. cacheGet p (cacheSet p k v c) k' = Some v' \<longrightarrow>
        k' = k \<and> v' = v \<or> cacheGet p c k' = Some v')"

text \<open>The result of a call that finds nothing in the cache.\<close>

definition publish_result :: "resolver \<Rightarrow> string \<Rightarrow> bool \<Rightarrow> topic_result" where
  "publish_result r topic resolve =
     (case ParsePublishTopic topic of
        Inl err \<Rightarrow> ([], [], [], InvalidType, Some err)
      | Inr (d, c, s, ty) \<Rightarrow>
          (case (if resolve then Resolve r d c else Inr (d, c, False)) of
             Inl err \<Rightarrow> ([], [], [], InvalidType, Some err)
           | Inr (d', c', _) \<Rightarrow> (d', c', s, ty, None)))"

text \<open>An entry that calls with the resolve setting \<open>b\<close> store.\<close>

definition entry_ok :: "(string \<Rightarrow> gerror + string) \<Rightarrow> bool \<Rightarrow> string \<Rightarrow> parsedTopic \<Rightarrow> bool" where
  "entry_ok fs b t v \<longleftrightarrow>
     (case ParsePublishTopic t of
        Inl e \<Rightarrow> v = \<lparr>pt_domainID = [], pt_channelID = [], pt_subtopic = [], pt_err = Some e\<rparr>
      | Inr (d, c, s, ty) \<Rightarrow>
          v = \<lparr>pt_domainID = d, pt_channelID = c, pt_subtopic = s, pt_err = None\<rparr> \<and>
          ty = MessageType \<and> (b \<longrightarrow> d \<noteq> [] \<and> (\<exists>y. fs d = Inr y) \<and> (\<exists>y. fs c = Inr y)))"

definition cache_ok :: "'c cache_ops \<Rightarrow> (string \<Rightarrow> gerror + string) \<Rightarrow> bool \<Rightarrow> 'c \<Rightarrow> bool" where
  "cache_ok p fs b c \<longleftrightarrow> (\<forall>t v. cacheGet p c t = Some v \<longrightarrow> entry_ok fs b t v)"

text \<open>The caches that calls with one resolve setting produce from an empty one.\<close>

inductive reached_cache :: "'c cache_ops \<Rightarrow> (string \<Rightarrow> gerror + string) \<Rightarrow> bool \<Rightarrow> 'c \<Rightarrow> bool"
  for p fs b where
  rc_empty: "(\<And>t. cacheGet p c t = None) \<Longrightarrow> reached_cache p fs b c"
| rc_publish: "reached_cache p fs b c \<Longrightarrow> fromString r = fs \<Longrightarrow>
     reached_cache p fs b (snd (parser_ParsePublishTopic p r t b c))"

text \<open>The callers of the broker resolve routes.\<close>

abbreviation reachable_cache :: "'c cache_ops \<Rightarrow> (string \<Rightarrow> gerror + string) \<Rightarrow> 'c \<Rightarrow> bool" where
  "reachable_cache p fs \<equiv> reached_cache p fs True"

lemma ParseTopic_channel_nonempty: "ParseTopic t = Inr (d, c, s, MessageType) \<Longrightarrow> d \<noteq> [] \<and> c \<noteq> []"
  by (auto simp: ParseTopic_body parse_body_message_iff message_topic_def)

lemma cache_ok_set:
  "lossy_cache p \<Longrightarrow> cache_ok p fs b c \<Longrightarrow> entry_ok fs b t v \<Longrightarrow> cache_ok p fs b (cacheSet p t v c)"
  unfolding cache_ok_def lossy_cache_def by blast

lemma cache_ok_publish:
  assumes l: "lossy_cache p" and c: "cache_ok p fs b c" and f: "fromString r = fs"
  shows "cache_ok p fs b (snd (parser_ParsePublishTopic p r t b c))"
proof (cases "cacheGet p c t")
  case (Some v)
  with c show ?thesis by (simp add: parser_ParsePublishTopic_def)
next
  case None
  show ?thesis
  proof (cases "ParsePublishTopic t")
    case (Inl e)
    with None c show ?thesis
      by (auto simp: parser_ParsePublishTopic_def saveToCache_def entry_ok_def intro!: cache_ok_set [OF l])
  next
    case (Inr x)
    obtain d ch s ty where x: "x = (d, ch, s, ty)" by (cases x) auto
    let ?R = "if b then Resolve r d ch else Inr (d, ch, False)"
    show ?thesis
    proof (cases "\<exists>d' c'. ?R = Inr (d', c', False) \<and> ty = MessageType")
      case False
      with None c Inr x show ?thesis
        by (auto simp: parser_ParsePublishTopic_def split: sum.splits prod.splits)
    next
      case True
      then obtain d' c' where R: "?R = Inr (d', c', False)" "ty = MessageType" by blast
      then have [simp]: "d' = d" "c' = ch" using Resolve_not_route by (auto split: if_splits)
      have "ch \<noteq> []" using Inr x R(2) ParseTopic_channel_nonempty
        by (auto simp: ParsePublishTopic_Inr_iff)
      then have "entry_ok fs b t \<lparr>pt_domainID = d, pt_channelID = ch, pt_subtopic = s, pt_err = None\<rparr>"
        using Inr x R Resolve_not_routeD [of r d ch] f by (cases b) (auto simp: entry_ok_def validateUUID_None_iff)
      with None c Inr x R show ?thesis
        by (auto simp: parser_ParsePublishTopic_def saveToCache_def intro!: cache_ok_set [OF l])
    qed
  qed
qed

lemma reachable_cache_ok:
  assumes "lossy_cache p" and "reached_cache p fs b c"
  shows "cache_ok p fs b c"
  using assms(2)
proof (induction rule: reached_cache.induct)
  case (rc_empty c)
  then show ?case by (simp add: cache_ok_def)
next
  case (rc_publish c r t)
  with assms(1) show ?case by (blast intro: cache_ok_publish)
qed

lemma hit_agrees:
  assumes "cache_ok p (fromString r) b c" and "cacheGet p c t = Some v"
    and "publish_result r t b = (d, ch, s, ty, err)"
  shows "(pt_domainID v, pt_channelID v, pt_subtopic v, pt_err v) = (d, ch, s, err) \<and>
         (err = None \<longrightarrow> ty = MessageType)"
proof -
  from assms(1,2) have e: "entry_ok (fromString r) b t v" by (auto simp: cache_ok_def)
  show ?thesis
  proof (cases "ParsePublishTopic t")
    case (Inl a)
    with e assms(3) show ?thesis by (auto simp: entry_ok_def publish_result_def)
  next
    case (Inr x)
    obtain d0 c0 s0 ty0 where x: "x = (d0, c0, s0, ty0)" by (cases x) auto
    from e Inr x have v: "v = \<lparr>pt_domainID = d0, pt_channelID = c0, pt_subtopic = s0, pt_err = None\<rparr>"
      and ids: "ty0 = MessageType" "b \<Longrightarrow> d0 \<noteq> [] \<and> validateUUID r d0 = None \<and> validateUUID r c0 = None"
      by (auto simp: entry_ok_def validateUUID_None_iff)
    then have "(if b then Resolve r d0 c0 else Inr (d0, c0, False)) = Inr (d0, c0, False)" by (simp add: Resolve_ids)
    with assms(3) Inr x v ids show ?thesis by (auto simp: publish_result_def)
  qed
qed

lemma miss_agrees:
  "cacheGet p c t = None \<Longrightarrow> fst (parser_ParsePublishTopic p r t b c) = publish_result r t b"
  by (auto simp: parser_ParsePublishTopic_def publish_result_def split: sum.splits prod.splits)

lemma cached_parser_result:
  assumes "lossy_cache p" and "reached_cache p (fromString r) b c"
    and "fst (parser_ParsePublishTopic p r t b c) = (d, ch, s, ty, err)"
  shows "\<exists>ty'. publish_result r t b = (d, ch, s, ty', err) \<and> (err = None \<longrightarrow> ty' = ty)"
proof (cases "cacheGet p c t")
  case None
  with assms(3) miss_agrees show ?thesis by metis
next
  case (Some v)
  obtain d' ch' s' ty' err' where P: "publish_result r t b = (d', ch', s', ty', err')"
    by (metis surj_pair)
  from assms(3) Some have "ty = MessageType" "(d, ch, s, err) = (pt_domainID v, pt_channelID v, pt_subtopic v, pt_err v)"
    by (auto simp: parser_ParsePublishTopic_def)
  with hit_agrees [OF reachable_cache_ok [OF assms(1,2)] Some P] P show ?thesis by auto
qed

section \<open>Correctness of the topic parser\<close>

text \<open>C27: \<open>ParseTopic\<close> classifies a text as a message topic with domain \<open>d\<close>, channel \<open>c\<close> and
  subtopic \<open>s\<close> exactly when, after an optional leading slash, it reads
  \<open>m/d/c/c\<close> or \<open>m/d/c/c/s\<close> with \<open>d\<close> ending at the first \<open>/c/\<close>, \<open>c\<close> nonempty and without a slash:
  the index arithmetic of the scanning loops accepts the documented grammar and nothing else.\<close>

theorem ParseTopic_message_grammar:
  "ParseTopic t = Inr (d, c, s, MessageType) \<longleftrightarrow> message_topic (strip_lead t) d c s"
  by (simp add: ParseTopic_body parse_body_message_iff)

text \<open>\<open>ParseTopic\<close> classifies a text as a healthcheck topic of domain \<open>d\<close> exactly when, after
  an optional leading slash, it is \<open>hc\<close>, one arbitrary byte, and a nonempty \<open>d\<close> without a slash.
  The byte between \<open>hc\<close> and the domain is never compared with the slash of the documented
  format \<open>hc/<domain_id>\<close>.\<close>

lemma ParseTopic_health_grammar:
  "ParseTopic t = Inr (d, c, s, HealthType) \<longleftrightarrow>
     c = [] \<and> s = [] \<and> d \<noteq> [] \<and> CHR ''/'' \<notin> set d \<and> (\<exists>x. strip_lead t = ''hc'' @ x # d)"
  by (simp add: ParseTopic_body parse_body_health_iff)

text \<open>C28: Round trip: publishing on the topic that \<open>EncodeMessageMQTTTopic\<close> builds for a message
  whose identifiers hold no slash and whose subtopic is already in accepted form parses back
  to the message's domain, channel and subtopic.\<close>

theorem publish_topic_roundtrip:
  assumes "Domain m \<noteq> []" and "CHR ''/'' \<notin> set (Domain m)"
    and "Channel m \<noteq> []" and "CHR ''/'' \<notin> set (Channel m)"
    and "ParsePublishSubtopic (Subtopic m) = Inr (Subtopic m)"
  shows "ParsePublishTopic (EncodeMessageMQTTTopic m) = Inr (Domain m, Channel m, Subtopic m, MessageType)"
  using assms no_slash_no_sep
  by (auto simp: ParsePublishTopic_Inr_iff EncodeMessageMQTTTopic_def ParseTopic_EncodeTopic)

theorem publish_topic_roundtrip_witness:
  "ParsePublishTopic (EncodeMessageMQTTTopic \<lparr>Channel = ''ch'', Domain = ''dm'', Subtopic = ''a/b''\<rparr>) =
     Inr (''dm'', ''ch'', ''a/b'', MessageType)"
proof -
  have "ParsePublishSubtopic ''a/b'' = Inr ''a/b''" by code_simp
  then show ?thesis
    using publish_topic_roundtrip [of "\<lparr>Channel = ''ch'', Domain = ''dm'', Subtopic = ''a/b''\<rparr>"] by simp
qed

text \<open>Every topic a client may publish to, it may also name in a subscription, and both parsers
  read the same domain, channel and subtopic from it.\<close>

lemma publish_topic_is_subscribable:
  assumes "ParsePublishTopic t = Inr (d, c, s, ty)"
  shows "ParseSubscribeTopic t = Inr (d, c, s, ty)"
  using assms publish_imp_subscribe_subtopic
  by (auto simp: ParsePublishTopic_Inr_iff ParseSubscribeTopic_Inr_iff)

text \<open>A subtopic accepted for publishing holds no space, no MQTT or NATS wildcard and no empty
  inner level; a subtopic accepted for subscribing holds an MQTT wildcard only as a whole level.\<close>

lemma accepted_subtopics:
  "(ParsePublishSubtopic s = Inr r \<longrightarrow> \<not> ContainsAny r '' +#*>'' \<and> \<not> ContainsStr r ''//'') \<and>
   (ParseSubscribeSubtopic s = Inr r \<longrightarrow>
      \<not> ContainsAny r '' *>'' \<and> \<not> ContainsStr r ''//'' \<and>
      (\<forall>e \<in> set (split_on (CHR ''/'') r). ContainsAny e ''+#'' \<longrightarrow> length e = 1))"
proof (intro conjI impI)
  assume "ParseSubscribeSubtopic s = Inr r"
  then have sub: "r = [] \<or> \<not> ContainsAny r '' *>'' \<and> \<not> ContainsStr r ''//'' \<and>
     \<not> list_ex (\<lambda>elem. length elem > 1 \<and> ContainsAny elem ''+#'') (split_on (CHR ''/'') r)"
    by (auto simp: ParseSubscribeSubtopic_def subtopicInvalidChars_def mqttWildcards_def natsWildcards_def
        split: sum.splits if_splits)
  then show "\<not> ContainsAny r '' *>''" "\<not> ContainsStr r ''//''" by auto
  have "length e = 1" if "e \<in> set (split_on (CHR ''/'') r)" "ContainsAny e ''+#''" for e
    using sub that by (cases e) (auto simp: list_ex_iff)
  then show "\<forall>e \<in> set (split_on (CHR ''/'') r). ContainsAny e ''+#'' \<longrightarrow> length e = 1" by blast
qed (auto dest: ParsePublishSubtopic_InrD)

text \<open>Resolution is idempotent: with domains and channels services that return UUIDs, the
  topic \<open>ResolveTopic\<close> returns contains identifiers only and resolves to itself.\<close>

lemma ResolveTopic_idempotent:
  assumes ok: "resolver_ok r" and res: "ResolveTopic r t = Inr t'"
  shows "ResolveTopic r t' = Inr t'"
proof -
  from res obtain d c s ty d' c' b where P: "ParseTopic t = Inr (d, c, s, ty)"
    and R: "Resolve r d c = Inr (d', c', b)" and t': "t' = encodeAdapterTopic d' c' s ty"
    by (auto simp: ResolveTopic_def split: sum.splits)
  from Resolve_returns_ids [OF ok R]
  have ids: "d' \<noteq> []" "validateUUID r d' = None" "CHR ''/'' \<notin> set d'"
    "c = [] \<longrightarrow> c' = []" "c \<noteq> [] \<longrightarrow> validateUUID r c' = None \<and> c' \<noteq> [] \<and> CHR ''/'' \<notin> set c'" by auto
  show ?thesis
  proof (cases ty)
    case InvalidType
    with P show ?thesis using parse_body_not_invalid by (simp add: ParseTopic_body)
  next
    case MessageType
    with P have "c \<noteq> []" using ParseTopic_channel_nonempty by blast
    with ids have "ParseTopic t' = Inr (d', c', s, MessageType)" and "Resolve r d' c' = Inr (d', c', False)"
      unfolding t' MessageType encodeAdapterTopic_message
      by (auto simp: ParseTopic_EncodeTopic no_slash_no_sep Resolve_ids)
    then show ?thesis using t' MessageType by (simp add: ResolveTopic_def)
  next
    case HealthType
    with P have cs: "c = []" "s = []" by (auto simp: ParseTopic_body parse_body_health_iff)
    with ids have "ParseTopic t' = Inr (d', [], [], HealthType)"
      and "Resolve r d' [] = Inr (d', [], False)" and "c' = []"
      unfolding t' HealthType by (auto simp: ParseTopic_encode_health Resolve_ids)
    then show ?thesis using t' HealthType cs by (simp add: ResolveTopic_def)
  qed
qed

definition example_resolver :: resolver where
  "example_resolver =
     \<lparr>fromString = (\<lambda>x. if x = ''u1'' \<or> x = ''u2'' then Inr x else Inl (Foreign ''uuid: incorrect UUID'')),
      domainByRoute = (\<lambda>x. if x = ''home'' then Inr ''u1'' else Inl svcErrNotFound),
      channelByRoute = (\<lambda>x d. if x = ''temp'' \<and> d = ''u1'' then Inr ''u2'' else Inl svcErrNotFound)\<rparr>"

lemma example_resolver_ok: "resolver_ok example_resolver"
  by (auto simp: resolver_ok_def example_resolver_def split: if_splits)

text \<open>C29: The cache is transparent for callers that all resolve routes or all do not: in every cache state
  that publish calls with this one setting can produce, whatever the cache library drops, the cached
  parser returns the domain, channel, subtopic and error a fresh parse (and resolution) would return, and
  the same topic type whenever there is no error. (A cached error comes with the type of a message
  topic, a fresh one with the invalid type.)\<close>

theorem cached_parser_transparent:
  assumes "lossy_cache p" and "reached_cache p (fromString r) b c"
    and "fst (parser_ParsePublishTopic p r t b c) = (d, ch, s, ty, err)"
  shows "\<exists>ty'. publish_result r t b = (d, ch, s, ty', err) \<and> (err = None \<longrightarrow> ty' = ty)"
  using assms by (rule cached_parser_result)

definition map_cache :: "(string \<Rightarrow> parsedTopic option) cache_ops" where
  "map_cache = \<lparr>cacheGet = (\<lambda>c k. c k), cacheSet = (\<lambda>k v c. c(k \<mapsto> v))\<rparr>"

theorem cached_parser_transparent_witness:
  "\<exists>ty'. publish_result example_resolver ''m/u1/c/u2'' True = (''u1'', ''u2'', [], ty', None) \<and>
     ty' = MessageType"
proof -
  have l: "lossy_cache map_cache" by (auto simp: lossy_cache_def map_cache_def split: if_splits)
  let ?c = "snd (parser_ParsePublishTopic map_cache example_resolver ''m/u1/c/u2'' True Map.empty)"
  have r: "reachable_cache map_cache (fromString example_resolver) ?c"
    by (rule rc_publish, rule rc_empty) (simp_all add: map_cache_def)
  have f: "fst (parser_ParsePublishTopic map_cache example_resolver ''m/u1/c/u2'' True ?c) =
      (''u1'', ''u2'', [], MessageType, None)" by code_simp
  show ?thesis using cached_parser_transparent [OF l r f] by auto
qed

text \<open>The cache is not transparent when callers differ: an entry stored by a call without
  resolution is returned unresolved to a later call that asks for resolution, even if the
  topic names routes.\<close>

lemma unresolved_entry_served_to_resolving_caller:
  assumes "ParsePublishTopic t = Inr (d, ch, s, MessageType)" and "cacheGet p c t = None"
    and "\<And>v. cacheGet p (cacheSet p t v c) t = Some v"
  shows "fst (parser_ParsePublishTopic p r t True (snd (parser_ParsePublishTopic p r t False c))) =
     (d, ch, s, MessageType, None)"
  using assms by (simp add: parser_ParsePublishTopic_def saveToCache_def)

end
