(* ===== verification/Base64.thy ===== *)
theory Base64
  imports Errors
begin

text \<open>
  \<open>base64.StdEncoding\<close> of the Go standard library, which personal access tokens and the
  client credentials are packed with: the padded encoding over the standard alphabet, and its
  decoder, which skips line breaks, wants whole groups of four with the padding at the end,
  and does not check the unused bits of the last group.
\<close>

definition b64char :: "nat \<Rightarrow> char" where
  "b64char n =
     (if n < 26 then char_of (n + 65) else if n < 52 then char_of (n + 71)
      else if n < 62 then char_of (n - 4) else if n = 62 then CHR ''+'' else CHR ''/'')"

definition b64val :: "char \<Rightarrow> nat option" where
  "b64val c =
     (let n = of_char c :: nat in
      if 65 \<le> n \<and> n \<le> 90 then Some (n - 65)
      else if 97 \<le> n \<and> n \<le> 122 then Some (n - 71)
      else if 48 \<le> n \<and> n \<le> 57 then Some (n + 4)
      else if c = CHR ''+'' then Some 62
      else if c = CHR ''/'' then Some 63
      else None)"

fun EncodeToString :: "string \<Rightarrow> string" where
  "EncodeToString [] = []"
| "EncodeToString [x] =
     (let n = of_char x * 16 in [b64char (n div 64), b64char (n mod 64), CHR ''='', CHR ''=''])"
| "EncodeToString [x, y] =
     (let n = (of_char x * 256 + of_char y) * 4
      in [b64char (n div 4096), b64char (n div 64 mod 64), b64char (n mod 64), CHR ''=''])"
| "EncodeToString (x # y # z # r) =
     (let n = of_char x * 65536 + of_char y * 256 + of_char z
      in b64char (n div 262144) # b64char (n div 4096 mod 64) # b64char (n div 64 mod 64) #
         b64char (n mod 64) # EncodeToString r)"

fun decode_quads :: "string \<Rightarrow> string option" where
  "decode_quads [] = Some []"
| "decode_quads (a # b # c # d # r) =
     (case (b64val a, b64val b) of
        (Some va, Some vb) \<Rightarrow>
          if c = CHR ''='' then
            (if d = CHR ''='' \<and> r = [] then Some [char_of ((va * 64 + vb) div 16)] else None)
          else (case b64val c of
              None \<Rightarrow> None
            | Some vc \<Rightarrow>
                if d = CHR ''='' then
                  (if r = [] then
                     let n = ((va * 64 + vb) * 64 + vc) div 4 in Some [char_of (n div 256), char_of (n mod 256)]
                   else None)
                else (case b64val d of
                    None \<Rightarrow> None
                  | Some vd \<Rightarrow>
                      let n = ((va * 64 + vb) * 64 + vc) * 64 + vd in
                      map_option (\<lambda>t. char_of (n div 65536) # char_of (n div 256 mod 256) # char_of (n mod 256) # t)
                        (decode_quads r)))
      | _ \<Rightarrow> None)"
| "decode_quads _ = None"

text \<open>The position in the text of a corrupt-input error is left out.\<close>

definition DecodeString :: "string \<Rightarrow> gerror + string" where
  "DecodeString s =
     (case decode_quads (filter (\<lambda>c. c \<noteq> CHR 0x0A \<and> c \<noteq> CHR 0x0D) s) of
        None \<Rightarrow> Inl (Foreign ''illegal base64 data'')
      | Some r \<Rightarrow> Inr r)"

lemma char_le: "of_char c \<le> (255 :: nat)"
  using nat_of_char_less_256 [of c] by linarith

lemma b64char_code:
  "n < 64 \<Longrightarrow> of_char (b64char n) =
     (if n < 26 then n + 65 else if n < 52 then n + 71 else if n < 62 then n - 4
      else if n = 62 then 43 else 47 :: nat)"
  by (simp add: b64char_def)

lemma b64char_props:
  assumes "n < 64"
  shows "b64val (b64char n) = Some n"
    and "b64char n \<notin> {CHR ''='', CHR ''_'', CHR '':'', CHR 0x0A, CHR 0x0D}"
proof -
  have "b64char n = CHR ''+''" if "n = 62" using that by (simp add: b64char_def)
  moreover have "b64char n = CHR ''/''" if "n = 63" using that by (simp add: b64char_def)
  ultimately show "b64val (b64char n) = Some n"
    using assms b64char_code [OF assms]
    by (cases "n = 62"; cases "n = 63") (auto simp: b64val_def Let_def split: if_splits)
  have "of_char (b64char n) \<notin> (of_char ` {CHR ''='', CHR ''_'', CHR '':'', CHR 0x0A, CHR 0x0D} :: nat set)"
    using assms by (auto simp: b64char_code)
  then show "b64char n \<notin> {CHR ''='', CHR ''_'', CHR '':'', CHR 0x0A, CHR 0x0D}" by blast
qed

lemma EncodeToString_alphabet: "set (EncodeToString s) \<subseteq> insert (CHR ''='') (b64char ` {..<64})"
proof (induction s rule: EncodeToString.induct)
  case (2 x)
  have "of_char x * 16 div 64 < (64::nat)" using nat_of_char_less_256 [of x] by linarith
  then show ?case by (simp add: Let_def)
next
  case (3 x y)
  have "(of_char x * 256 + of_char y) * 4 div 4096 < (64::nat)"
    by (rule less_mult_imp_div_less) (use char_le [of x] char_le [of y] in auto)
  then show ?case by (simp add: Let_def)
next
  case (4 x y z r)
  have "(of_char x * 65536 + of_char y * 256 + of_char z) div 262144 < (64::nat)"
    using nat_of_char_less_256 [of x] nat_of_char_less_256 [of y] nat_of_char_less_256 [of z] by linarith
  with "4.IH" show ?case by (simp add: Let_def)
qed simp

lemma EncodeToString_chars:
  assumes "c \<in> {CHR ''_'', CHR '':'', CHR 0x0A, CHR 0x0D}"
  shows "c \<notin> set (EncodeToString s)"
proof
  assume "c \<in> set (EncodeToString s)"
  with EncodeToString_alphabet consider "c = CHR ''=''" | n where "n < 64" "c = b64char n" by blast
  then show False
  proof cases
    case 2
    with b64char_props(2) [of n] assms show ?thesis by auto
  qed (use assms in auto)
qed

lemma quad_join:
  fixes n :: nat
  shows "((n div 262144 * 64 + n div 4096 mod 64) * 64 + n div 64 mod 64) * 64 + n mod 64 = n"
proof -
  have "n div 262144 = n div 4096 div 64" "n div 4096 = n div 64 div 64"
    by (simp_all add: div_mult2_eq [symmetric])
  then show ?thesis by (metis div_mult_mod_eq)
qed

lemma decode_quads_Encode: "decode_quads (EncodeToString s) = Some s"
proof (induction s rule: EncodeToString.induct)
  case 1
  then show ?case by simp
next
  case (2 x)
  define n where "n = (of_char x * 16 :: nat)"
  have E: "EncodeToString [x] = [b64char (n div 64), b64char (n mod 64), CHR ''='', CHR ''='']"
    by (simp add: n_def Let_def)
  have "n div 64 < 64" unfolding n_def using nat_of_char_less_256 [of x] by linarith
  moreover have "n div 16 = of_char x" by (simp add: n_def)
  ultimately show ?case unfolding E by (simp add: b64char_props)
next
  case (3 x y)
  define n where "n = ((of_char x * 256 + of_char y) * 4 :: nat)"
  have E: "EncodeToString [x, y] =
      [b64char (n div 4096), b64char (n div 64 mod 64), b64char (n mod 64), CHR ''='']"
    by (simp add: n_def Let_def)
  have "n div 4096 < 64" unfolding n_def
    by (rule less_mult_imp_div_less) (use char_le [of x] char_le [of y] in auto)
  moreover have "n div 4096 = n div 64 div 64" by (simp add: div_mult2_eq [symmetric])
  then have "(n div 4096 * 64 + n div 64 mod 64) * 64 + n mod 64 = n" by (metis div_mult_mod_eq)
  moreover have "b64char (n mod 64) \<noteq> CHR ''=''" using b64char_props(2) [of "n mod 64"] by simp
  moreover have "n div 4 div 256 = of_char x" "n div 4 mod 256 = of_char y"
    unfolding n_def using nat_of_char_less_256 [of y] by simp_all
  moreover from this have "char_of (n div 4) = y" by (metis char_of_mod_256 char_of_char)
  ultimately show ?case unfolding E by (simp add: Let_def b64char_props)
next
  case (4 x y z r)
  define n where "n = (of_char x * 65536 + of_char y * 256 + of_char z :: nat)"
  have E: "EncodeToString (x # y # z # r) =
      b64char (n div 262144) # b64char (n div 4096 mod 64) # b64char (n div 64 mod 64) #
      b64char (n mod 64) # EncodeToString r"
    by (simp add: n_def Let_def)
  have l: "n div 262144 < 64" unfolding n_def
    by (rule less_mult_imp_div_less) (use char_le [of x] char_le [of y] char_le [of z] in auto)
  have ne: "b64char (n mod 64) \<noteq> CHR ''=''" "b64char (n div 64 mod 64) \<noteq> CHR ''=''"
    using b64char_props(2) [of "n mod 64"] b64char_props(2) [of "n div 64 mod 64"] by simp_all
  define m where "m = (of_char x * 256 + of_char y :: nat)"
  have n2: "n = m * 256 + of_char z" by (simp add: n_def m_def)
  have nz: "n mod 256 = of_char z" and nm: "n div 256 = m" unfolding n2 by simp_all
  have my: "m mod 256 = of_char y" and mx: "m div 256 = of_char x" unfolding m_def by simp_all
  have "n div 65536 = n div 256 div 256" by (simp add: div_mult2_eq [symmetric])
  with nm mx have "char_of (n div 65536) = x" by simp
  moreover have "char_of (n div 256) = y" using nm my by (metis char_of_mod_256 char_of_char)
  moreover have "char_of n = z" using nz by (metis char_of_mod_256 char_of_char)
  ultimately show ?case unfolding E using l ne quad_join [of n] "4.IH" by (simp add: Let_def b64char_props)
qed

lemma DecodeString_Encode [simp]: "DecodeString (EncodeToString s) = Inr s"
proof -
  have "filter (\<lambda>c. c \<noteq> CHR 0x0A \<and> c \<noteq> CHR 0x0D) (EncodeToString s) = EncodeToString s"
    using EncodeToString_chars [of _ s] by (auto simp: filter_id_conv)
  then show ?thesis by (simp add: DecodeString_def decode_quads_Encode)
qed

end
