(* ===== verification/Authn.thy ===== *)
theory Authn
  imports Base64
begin

text \<open>
  \<open>pkg/authn/authn.go\<close>: the session a request runs under and the packing of client
  credentials into one token, \<open>Basic\<close> or \<open>Domain\<close> followed by the base64 text of
  \<open>id:key\<close>.
\<close>

datatype TokenType = AccessToken | PersonalAccessTokenType

datatype SessionRole = SessionNoRole | SessionUserRole | SessionSuperAdminRole

record Session =
  s_Type :: TokenType
  s_PatID :: string
  s_UserID :: string
  s_DomainID :: string
  s_DomainUserID :: string
  s_SuperAdmin :: bool
  s_Verified :: bool
  s_Role :: SessionRole

datatype AuthPrefix = UnknownAuth | BasicAuth | DomainAuth

definition authPrefixStrings :: "(AuthPrefix \<times> string) list" where
  "authPrefixStrings = [(UnknownAuth, ''Unknown''), (BasicAuth, ''Basic''), (DomainAuth, ''Domain'')]"

fun AuthPrefix_String :: "AuthPrefix \<Rightarrow> string" where
  "AuthPrefix_String UnknownAuth = ''Unknown''"
| "AuthPrefix_String BasicAuth = ''Basic''"
| "AuthPrefix_String DomainAuth = ''Domain''"

definition ErrNotEncoded :: gerror where
  "ErrNotEncoded = Foreign ''token is not encoded with suffix''"

text \<open>\<open>strings.Cut(s, ":")\<close>: before, after, found.\<close>

fun Cut :: "string \<Rightarrow> char \<Rightarrow> string \<times> string \<times> bool" where
  "Cut [] c = ([], [], False)"
| "Cut (x # xs) c =
     (if x = c then ([], xs, True) else (case Cut xs c of (a, b, f) \<Rightarrow> (x # a, b, f)))"

text \<open>All four return values are kept: a failed decoding returns the stripped token as the id.\<close>

definition AuthUnpack :: "string \<Rightarrow> AuthPrefix \<times> string \<times> string \<times> gerror option" where
  "AuthUnpack token =
     (let (auth, token') =
        (case find (\<lambda>(a, pref). HasPrefix token pref) authPrefixStrings of
           None \<Rightarrow> (UnknownAuth, token)
         | Some (a, pref) \<Rightarrow> (a, drop (length pref) token))
      in case DecodeString token' of
           Inl err \<Rightarrow> (UnknownAuth, token', [], Some err)
         | Inr payload \<Rightarrow>
             (case Cut payload (CHR '':'') of (i, key, found) \<Rightarrow>
                if \<not> found then (auth, i, key, Some ErrNotEncoded) else (auth, i, key, None)))"

definition AuthPack :: "AuthPrefix \<Rightarrow> string \<Rightarrow> string \<Rightarrow> string" where
  "AuthPack prefix i key = AuthPrefix_String prefix @ EncodeToString (i @ '':'' @ key)"

lemma Cut_append: "c \<notin> set a \<Longrightarrow> Cut (a @ c # b) c = (a, b, True)"
  by (induction a) auto

lemma find_own_prefix:
  "find (\<lambda>(a, pref). HasPrefix (AuthPrefix_String p @ t) pref) authPrefixStrings = Some (p, AuthPrefix_String p)"
  by (cases p) (simp_all add: authPrefixStrings_def HasPrefix_def)

text \<open>Credentials survive packing: unpacking a packed token returns its scheme, identifier and
  key without an error whenever the identifier holds no colon.\<close>

lemma AuthUnpack_AuthPack:
  assumes "CHR '':'' \<notin> set i"
  shows "AuthUnpack (AuthPack p i key) = (p, i, key, None)"
  using assms by (simp add: AuthUnpack_def AuthPack_def find_own_prefix Cut_append)

end
