(* ===== verification/Connections.thy ===== *)
theory Connections
  imports Errors "HOL-Library.Word"
begin

text \<open>
  \<open>pkg/connections/type.go\<close>: the kind of a connection between a client and a channel, a
  \<open>uint8\<close> that is read from wider integers and from text.
\<close>

type_synonym ConnType = "8 word"

definition InvalidConn :: ConnType where "InvalidConn = 0"
definition Publish :: ConnType where "Publish = 1"
definition Subscribe :: ConnType where "Subscribe = 2"

definition errInvalidConnType :: gerror where "errInvalidConnType = New ''invalid connection type''"

definition unknownConnType :: "ConnType \<Rightarrow> string" where
  "unknownConnType c = ''Unknown connection type '' @ nat_str (unat c)"

definition CheckConnType :: "ConnType \<Rightarrow> gerror option" where
  "CheckConnType c =
     (if c = Publish then None
      else if c = Subscribe then None
      else Some (Foreign (unknownConnType c)))"

definition ConnType_String :: "ConnType \<Rightarrow> string" where
  "ConnType_String c =
     (if c = Publish then ''Publish''
      else if c = Subscribe then ''Subscribe''
      else unknownConnType c)"

definition ConnType_Permission :: "ConnType \<Rightarrow> gerror + string" where
  "ConnType_Permission c =
     (if c = Publish then Inr ''publish_permission''
      else if c = Subscribe then Inr ''subscribe_permission''
      else Inl (Foreign (unknownConnType c)))"

text \<open>\<open>NewType(c uint)\<close>: the conversion to \<open>ConnType\<close> keeps the low eight bits.\<close>

definition NewType :: "64 word \<Rightarrow> gerror + ConnType" where
  "NewType c =
     (case CheckConnType (ucast c) of
        Some err \<Rightarrow> Inl err
      | None \<Rightarrow> Inr (ucast c))"

text \<open>
  \<open>strings.ToLower\<close> on the texts that can equal one of the two names: ASCII capitals, and the
  capital I with dot above (the bytes C4 B0), whose lower case is the letter i.
\<close>

fun ToLowerName :: "string \<Rightarrow> string" where
  "ToLowerName [] = []"
| "ToLowerName (c # s) =
     (if c = CHR 0xC4 \<and> (case s of d # _ \<Rightarrow> d = CHR 0xB0 | [] \<Rightarrow> False) then CHR ''i'' # ToLowerName (tl s)
      else (let n = of_char c :: nat in if 65 \<le> n \<and> n \<le> 90 then char_of (n + 32) else c) # ToLowerName s)"

definition ParseConnType :: "string \<Rightarrow> gerror + ConnType" where
  "ParseConnType c =
     (if ToLowerName c = ''publish'' then Inr Publish
      else if ToLowerName c = ''subscribe'' then Inr Subscribe
      else Inl (Wrap errInvalidConnType (Foreign c)))"

text \<open>\<open>NewType\<close> accepts an integer exactly when its low byte is 1 or 2, and then returns that
  byte: values that differ by a multiple of 256 are not told apart.\<close>

lemma NewType_low_byte:
  "NewType c = Inr t \<longleftrightarrow> unat t = unat c mod 256 \<and> (unat t = 1 \<or> unat t = 2)"
proof -
  have u: "unat (ucast c :: ConnType) = unat c mod 256"
    by (simp add: unsigned_ucast_eq unsigned_take_bit_eq take_bit_eq_mod)
  have "unat Publish = 1" "unat Subscribe = 2" by (simp_all add: Publish_def Subscribe_def)
  with u show ?thesis
    by (auto simp: NewType_def CheckConnType_def word_unat_eq_iff split: option.splits if_splits)
qed

text \<open>Text form and permission of a connection type are consistent: a valid type parses back
  from its own text, and exactly the valid types have a permission.\<close>

lemma ConnType_text_roundtrip:
  "(CheckConnType c = None \<longleftrightarrow> ParseConnType (ConnType_String c) = Inr c) \<and>
   (CheckConnType c = None \<longleftrightarrow> (\<exists>p. ConnType_Permission c = Inr p))"
proof -
  have "CheckConnType c = None \<longleftrightarrow> c = Publish \<or> c = Subscribe"
    by (simp add: CheckConnType_def)
  moreover have "ParseConnType (ConnType_String c) = Inr c \<longleftrightarrow> c = Publish \<or> c = Subscribe"
  proof (cases "c = Publish \<or> c = Subscribe")
    case True
    moreover have "Subscribe \<noteq> Publish" by (simp add: Publish_def Subscribe_def)
    moreover have "ToLowerName ''Publish'' = ''publish''" "ToLowerName ''Subscribe'' = ''subscribe''"
      by code_simp+
    ultimately show ?thesis by (auto simp: ConnType_String_def ParseConnType_def)
  next
    case False
    then show ?thesis by (auto simp: ConnType_String_def ParseConnType_def unknownConnType_def Let_def)
  qed
  moreover have "(\<exists>p. ConnType_Permission c = Inr p) \<longleftrightarrow> c = Publish \<or> c = Subscribe"
    by (simp add: ConnType_Permission_def)
  ultimately show ?thesis by blast
qed

end
