(* ===== verification/FluxMQ.thy ===== *)
theory FluxMQ
  imports Topics Authn Connections
begin

text \<open>
  The broker's gate, \<open>fluxmq/api/grpc/server.go\<close>: authentication of a connecting client and
  authorization of every publish and subscribe, on top of the cached topic parser, and the
  topic and queue names of \<open>pkg/messaging/fluxmq/topic.go\<close>. The clients and channels
  services are reached over gRPC and are arguments here.
\<close>

section \<open>Errors at the broker boundary\<close>

definition ErrMissingID :: gerror where "ErrMissingID = NewRequestError ''missing entity id''"

datatype ConnectCode = CodeInvalidArgument | CodeUnauthenticated | CodePermissionDenied | CodeInternal

text \<open>\<open>err == apiutil.ErrMissingID\<close> compares pointers in Go and values here.\<close>

definition shouldDenyAuthorize :: "gerror \<Rightarrow> bool" where
  "shouldDenyAuthorize err =
     (Contains err svcErrAuthorization \<or> Contains err svcErrNotFound \<or> Contains err errMalformedEntity \<or>
      Contains err ErrMalformedTopic \<or> err = ErrMissingID \<or>
      ContainsStr (ErrorStr err) (ErrorStr svcErrNotFound))"

definition encodeError :: "gerror \<Rightarrow> ConnectCode \<times> gerror" where
  "encodeError err =
     (if Contains err errMalformedEntity \<or> err = ErrMissingID then (CodeInvalidArgument, err)
      else if Contains err svcErrAuthentication \<or> Contains err ErrKeyExpired then (CodeUnauthenticated, err)
      else if Contains err svcErrAuthorization then (CodePermissionDenied, err)
      else if Contains err ErrMalformedTopic then (CodeInvalidArgument, err)
      else (CodeInternal, err))"

section \<open>Authentication\<close>

record AuthnReq =
  r_Username :: string
  r_Password :: string
  r_ClientId :: string

definition shouldTryDomainAuth :: "AuthnReq \<Rightarrow> string \<Rightarrow> string \<Rightarrow> bool" where
  "shouldTryDomainAuth msg username password =
     (if username = [] \<or> password = [] then False else HasPrefix (r_ClientId msg) ''http:'')"

text \<open>\<open>authenticate token\<close> is the clients service: whether the token is authentic, and whose it is.\<close>

definition Authenticate ::
  "(string \<Rightarrow> gerror + (bool \<times> string)) \<Rightarrow> AuthnReq \<Rightarrow> (ConnectCode \<times> gerror) + (bool \<times> string)" where
  "Authenticate authenticate req =
     (let username = r_Username req; password = r_Password req in
      case authenticate (AuthPack BasicAuth username password) of
        Inr res \<Rightarrow> Inr res
      | Inl err \<Rightarrow>
          if \<not> shouldTryDomainAuth req username password then Inl (encodeError err)
          else (case authenticate (AuthPack DomainAuth username password) of
                  Inl err' \<Rightarrow> Inl (encodeError err')
                | Inr res \<Rightarrow> Inr res))"

section \<open>Authorization\<close>

record AuthzReq =
  a_Type :: "32 word"
  a_ClientId :: string
  a_ClientType :: string
  a_ChannelId :: string
  a_DomainId :: string

text \<open>What \<open>Authorize\<close> does with the parsed topic: a connect error or the \<open>Authorized\<close> flag.\<close>

definition authorizeParsed ::
  "(AuthzReq \<Rightarrow> gerror + bool) \<Rightarrow> ConnType \<Rightarrow> string \<Rightarrow> topic_result \<Rightarrow> (ConnectCode \<times> gerror) + bool" where
  "authorizeParsed channelsAuthorize connType externalId res =
     (case res of (domainID, channelID, _, topicType, parseErr) \<Rightarrow>
        (case parseErr of
           Some err \<Rightarrow> if shouldDenyAuthorize err then Inr False else Inl (encodeError err)
         | None \<Rightarrow>
             if topicType = HealthType then Inr True
             else (case channelsAuthorize
                       \<lparr>a_Type = ucast connType, a_ClientId = externalId, a_ClientType = ''client'',
                        a_ChannelId = channelID, a_DomainId = domainID\<rparr> of
                     Inl err \<Rightarrow> if shouldDenyAuthorize err then Inr False else Inl (encodeError err)
                   | Inr authorized \<Rightarrow> Inr authorized)))"

text \<open>The requested action is a 32-bit enum value, converted to the eight-bit \<open>ConnType\<close>.\<close>

definition Authorize ::
  "'c cache_ops \<Rightarrow> resolver \<Rightarrow> (AuthzReq \<Rightarrow> gerror + bool) \<Rightarrow> 32 word \<Rightarrow> string \<Rightarrow> string \<Rightarrow> 'c \<Rightarrow>
   ((ConnectCode \<times> gerror) + bool) \<times> 'c" where
  "Authorize p r channelsAuthorize action externalId topic c =
     (let connType = ucast action :: ConnType in
      case CheckConnType connType of
        Some err \<Rightarrow> (Inl (encodeError err), c)
      | None \<Rightarrow>
          (case (if connType = Publish then parser_ParsePublishTopic p r topic True c
                 else (parser_ParseSubscribeTopic r topic True, c)) of
             (res, c') \<Rightarrow> (authorizeParsed channelsAuthorize connType externalId res, c')))"

section \<open>Topic and queue names\<close>

definition queuePrefix :: string where "queuePrefix = ''$queue/''"
definition msgPrefix :: string where "msgPrefix = ''m''"

definition streamFilter :: "string \<Rightarrow> string \<Rightarrow> string" where
  "streamFilter pfx topic0 =
     (let topic = TrimSpace topic0 in
      if topic = [] \<or> topic = ''#'' then ''#''
      else if topic = pfx then ''#''
      else
        let topic1 = (if HasPrefix topic (pfx @ ''/'') then TrimPrefix topic (pfx @ ''/'') else topic);
            topic2 = TrimPrefix (TrimSpace topic1) ''/''
        in if topic2 = [] then ''#'' else topic2)"

definition topicFilter :: "string \<Rightarrow> string \<Rightarrow> string" where
  "topicFilter pfx topic0 =
     (let topic = TrimSpace topic0 in
      if topic = [] \<or> topic = ''#'' then pfx @ ''/#''
      else if topic = pfx then pfx @ ''/#''
      else
        let topic1 = (if HasPrefix topic (pfx @ ''/'') then TrimPrefix topic (pfx @ ''/'') else topic);
            topic2 = TrimPrefix (TrimSpace topic1) ''/''
        in if topic2 = [] \<or> topic2 = ''#'' then pfx @ ''/#'' else pfx @ ''/'' @ topic2)"

definition queueFilter :: "string \<Rightarrow> string \<Rightarrow> string" where
  "queueFilter pfx topic =
     (let path = streamFilter pfx topic in
      if path = ''#'' then queuePrefix @ pfx @ ''/#'' else queuePrefix @ pfx @ ''/'' @ path)"

definition queueTopic :: "string \<Rightarrow> string \<Rightarrow> string" where
  "queueTopic pfx topic0 =
     (let topic = TrimPrefix (TrimSpace topic0) ''/'' in
      if topic = [] then queuePrefix @ pfx else queuePrefix @ pfx @ ''/'' @ topic)"

definition parseMQTTTopic :: "string \<Rightarrow> string \<Rightarrow> gerror + (string \<times> string \<times> string)" where
  "parseMQTTTopic pfx topic0 =
     (let topic = TrimPrefix (TrimSpace topic0) ''/'' in
      if \<not> HasPrefix topic (pfx @ ''/'') then Inl ErrMalformedTopic
      else
        let normalized = msgPrefix @ ''/'' @ TrimPrefix topic (pfx @ ''/'') in
        (case ParseSubscribeTopic normalized of
           Inl err \<Rightarrow> Inl err
         | Inr (domainID, channelID, subtopic, _) \<Rightarrow> Inr (domainID, channelID, subtopic)))"

definition nameReplacer :: "string \<Rightarrow> string" where
  "nameReplacer s = map (\<lambda>c. if c \<in> set (CHR 0x5C # '' .*>/+#'') then CHR ''_'' else c) s"

definition formatConsumerName :: "string \<Rightarrow> string \<Rightarrow> string" where
  "formatConsumerName topic i = nameReplacer topic @ ''-'' @ nameReplacer i"

section \<open>Correctness of the gate\<close>

definition channel_request :: "ConnType \<Rightarrow> string \<Rightarrow> string \<Rightarrow> string \<Rightarrow> AuthzReq" where
  "channel_request ct externalId channelID domainID =
     \<lparr>a_Type = ucast ct, a_ClientId = externalId, a_ClientType = ''client'',
      a_ChannelId = channelID, a_DomainId = domainID\<rparr>"

lemma CheckConnType_None_iff: "CheckConnType ct = None \<longleftrightarrow> ct = Publish \<or> ct = Subscribe"
  by (simp add: CheckConnType_def)

lemma Publish_neq_Subscribe [simp]: "Publish \<noteq> Subscribe"
  by (simp add: Publish_def Subscribe_def)

text \<open>What a request of the given connection type parses to, without the cache.\<close>

definition request_result :: "resolver \<Rightarrow> ConnType \<Rightarrow> string \<Rightarrow> topic_result" where
  "request_result r ct topic =
     (if ct = Publish then publish_result r topic True else parser_ParseSubscribeTopic r topic True)"

lemma authorizeParsed_True_iff:
  "authorizeParsed chA ct ext (d, ch, s, ty, err) = Inr True \<longleftrightarrow>
     err = None \<and> (ty = HealthType \<or> chA (channel_request ct ext ch d) = Inr True)"
  by (simp add: authorizeParsed_def channel_request_def split: option.splits sum.splits)

lemma Authorize_True_iff:
  "fst (Authorize p r chA action ext topic c) = Inr True \<longleftrightarrow>
     (let ct = ucast action :: ConnType in
      (ct = Publish \<or> ct = Subscribe) \<and>
      (\<exists>d ch s ty. fst (if ct = Publish then parser_ParsePublishTopic p r topic True c
                       else (parser_ParseSubscribeTopic r topic True, c)) = (d, ch, s, ty, None) \<and>
         (ty = HealthType \<or> chA (channel_request ct ext ch d) = Inr True)))"
proof (cases "CheckConnType (ucast action)")
  case (Some e)
  then have "\<not> (ucast action = Publish \<or> ucast action = Subscribe)"
    by (metis CheckConnType_None_iff option.distinct(1))
  with Some show ?thesis by (simp add: Authorize_def Let_def)
next
  case None
  then have ct: "ucast action = Publish \<or> ucast action = Subscribe" by (simp add: CheckConnType_None_iff)
  obtain d ch s ty err c' where P: "(if ucast action = Publish then parser_ParsePublishTopic p r topic True c
      else (parser_ParseSubscribeTopic r topic True, c)) = ((d, ch, s, ty, err), c')"
    by (metis surj_pair)
  have "fst (Authorize p r chA action ext topic c) = authorizeParsed chA (ucast action) ext (d, ch, s, ty, err)"
    unfolding Authorize_def Let_def None P by simp
  with ct show ?thesis unfolding Let_def P by (auto simp: authorizeParsed_True_iff)
qed

lemma cached_publish_iff:
  assumes l: "lossy_cache p" and c: "reachable_cache p (fromString r) c"
  shows "fst (parser_ParsePublishTopic p r topic True c) = (d, ch, s, ty, None) \<longleftrightarrow>
    publish_result r topic True = (d, ch, s, ty, None)"
proof
  assume "fst (parser_ParsePublishTopic p r topic True c) = (d, ch, s, ty, None)"
  then show "publish_result r topic True = (d, ch, s, ty, None)"
    using cached_parser_result [OF l c] by fastforce
next
  assume P: "publish_result r topic True = (d, ch, s, ty, None)"
  obtain d' ch' s' ty' err' where F: "fst (parser_ParsePublishTopic p r topic True c) = (d', ch', s', ty', err')"
    by (metis surj_pair)
  show "fst (parser_ParsePublishTopic p r topic True c) = (d, ch, s, ty, None)"
    using cached_parser_result [OF l c F] P F by auto
qed

lemma authorize_decision:
  assumes l: "lossy_cache p" and c: "reachable_cache p (fromString r) c"
  shows "fst (Authorize p r chA action ext topic c) = Inr True \<longleftrightarrow>
    (let ct = ucast action :: ConnType in
     (ct = Publish \<or> ct = Subscribe) \<and>
     (\<exists>d ch s ty. request_result r ct topic = (d, ch, s, ty, None) \<and>
        (ty = HealthType \<or> chA (channel_request ct ext ch d) = Inr True)))"
  unfolding Authorize_True_iff request_result_def Let_def by (simp add: cached_publish_iff [OF assms] split: if_splits)

lemma Authorize_parsed:
  assumes l: "lossy_cache p" and c: "reachable_cache p (fromString r) c"
    and ct: "ucast action = Publish \<or> ucast action = Subscribe"
    and res: "request_result r (ucast action) topic = (d, ch, s, ty, None)"
  shows "fst (Authorize p r chA action ext topic c) = authorizeParsed chA (ucast action) ext (d, ch, s, ty, None)"
proof -
  have "CheckConnType (ucast action) = None" using ct by (simp add: CheckConnType_None_iff)
  moreover have "fst (if ucast action = Publish then parser_ParsePublishTopic p r topic True c
      else (parser_ParseSubscribeTopic r topic True, c)) = (d, ch, s, ty, None)"
    using res by (auto simp: request_result_def cached_publish_iff [OF l c] split: if_splits)
  ultimately show ?thesis by (auto simp: Authorize_def Let_def split: prod.splits)
qed

text \<open>C5: The broker's authorization decision does not depend on the topic cache: in every cache
  state reachable by serving publishes, a request is granted exactly when its action is publish
  or subscribe, its topic parses and resolves, and the topic is a healthcheck topic or the
  channels service authorizes this client for the domain and channel the topic names.\<close>

theorem broker_authorize_decision:
  assumes l: "lossy_cache p" and c: "reachable_cache p (fromString r) c"
  shows "fst (Authorize p r chA action ext topic c) = Inr True \<longleftrightarrow>
    (let ct = ucast action :: ConnType in
     (ct = Publish \<or> ct = Subscribe) \<and>
     (\<exists>d ch s ty. request_result r ct topic = (d, ch, s, ty, None) \<and>
        (ty = HealthType \<or> chA (channel_request ct ext ch d) = Inr True)))"
  using assms by (rule authorize_decision)

theorem broker_authorize_decision_witness:
  "fst (Authorize map_cache example_resolver (\<lambda>q. Inr (a_ChannelId q = ''u2'')) 1 ''dev'' ''m/home/c/temp'' Map.empty) =
     Inr True"
proof -
  have l: "lossy_cache map_cache" by (auto simp: lossy_cache_def map_cache_def split: if_splits)
  have r: "reachable_cache map_cache (fromString example_resolver) Map.empty"
    by (rule rc_empty) (simp add: map_cache_def)
  have "publish_result example_resolver ''m/home/c/temp'' True = (''u1'', ''u2'', [], MessageType, None)"
    by code_simp
  moreover have "(ucast (1 :: 32 word) :: ConnType) = Publish" by (simp add: Publish_def)
  ultimately show ?thesis
    unfolding broker_authorize_decision [OF l r]
    by (auto simp: request_result_def channel_request_def)
qed

text \<open>A client may publish and subscribe, without any check by the channels service, on every
  topic that consists of \<open>hc\<close>, one arbitrary byte and a domain UUID: the byte need not be the
  slash of a healthcheck topic.\<close>

lemma health_topics_bypass_channel_check:
  assumes l: "lossy_cache p" and c: "reachable_cache p (fromString r) c"
    and d: "d \<noteq> []" "CHR ''/'' \<notin> set d" "fromString r d = Inr u"
    and a: "action = 1 \<or> action = 2"
  shows "fst (Authorize p r chA action ext (''hc'' @ x # d) c) = Inr True"
proof -
  have P: "ParseTopic (''hc'' @ x # d) = Inr (d, [], [], HealthType)"
    using d by (simp add: ParseTopic_body parse_body_health_iff strip_lead_def)
  have R: "Resolve r d [] = Inr (d, [], False)" using d by (simp add: Resolve_ids validateUUID_None_iff)
  have "request_result r ct (''hc'' @ x # d) = (d, [], [], HealthType, None)" for ct
    using P R
    by (simp add: request_result_def publish_result_def ParsePublishTopic_def ParsePublishSubtopic_def
        parser_ParseSubscribeTopic_def ParseSubscribeTopic_def ParseSubscribeSubtopic_def)
  moreover have "(ucast action :: ConnType) = Publish \<or> (ucast action :: ConnType) = Subscribe"
    using a by (auto simp: Publish_def Subscribe_def)
  ultimately show ?thesis
    using authorize_decision [OF l c] by (auto simp: Let_def)
qed

text \<open>Domain credentials are only ever tried for a client whose MQTT client id starts with
  \<open>http:\<close>: for any other client the gate answers what the clients service says of the basic
  credentials.\<close>

lemma domain_auth_only_for_http_clients:
  assumes "\<not> HasPrefix (r_ClientId req) ''http:''"
  shows "Authenticate authenticate req =
     (case authenticate (AuthPack BasicAuth (r_Username req) (r_Password req)) of
        Inl err \<Rightarrow> Inl (encodeError err) | Inr res \<Rightarrow> Inr res)"
  using assms by (simp add: Authenticate_def shouldTryDomainAuth_def Let_def split: sum.splits)

end
