(* ===== verification/Policies.thy ===== *)
theory Policies
  imports Errors
begin

text \<open>
  The policy store: \<open>pkg/policies/evaluator.go\<close> and \<open>service.go\<close> (the \<open>Policy\<close> structure and
  its constants) and \<open>pkg/policies/spicedb/service.go\<close> and \<open>evaluator.go\<close> (the policy service
  and the evaluator on top of SpiceDB).

  SpiceDB itself is not part of the repository. Its client is the record \<open>permClient\<close> of the
  calls the service makes, over an arbitrary world; what the service relies on is the locale
  \<open>spicedb\<close> (an atomic write with preconditions, a filtered delete, reads that change
  nothing), and \<open>ref_client\<close> is a small store that satisfies it.
\<close>

section \<open>Policies\<close>

definition RoleType :: string where "RoleType = ''role''"
definition GroupType :: string where "GroupType = ''group''"
definition ClientType :: string where "ClientType = ''client''"
definition ChannelType :: string where "ChannelType = ''channel''"
definition UserType :: string where "UserType = ''user''"
definition DomainType :: string where "DomainType = ''domain''"
definition PlatformType :: string where "PlatformType = ''platform''"

definition NewGroupKind :: string where "NewGroupKind = ''new_group''"
definition ChannelsKind :: string where "ChannelsKind = ''channels''"
definition NewChannelKind :: string where "NewChannelKind = ''new_channel''"
definition NewClientKind :: string where "NewClientKind = ''new_client''"

definition AdministratorRelation :: string where "AdministratorRelation = ''administrator''"
definition MemberRelation :: string where "MemberRelation = ''member''"
definition DomainRelation :: string where "DomainRelation = ''domain''"
definition ParentGroupRelation :: string where "ParentGroupRelation = ''parent_group''"

definition AdminPermission :: string where "AdminPermission = ''admin''"
definition DeletePermission :: string where "DeletePermission = ''delete''"
definition EditPermission :: string where "EditPermission = ''edit''"
definition ViewPermission :: string where "ViewPermission = ''view''"
definition MembershipPermission :: string where "MembershipPermission = ''membership''"
definition SharePermission :: string where "SharePermission = ''share''"
definition PublishPermission :: string where "PublishPermission = ''publish''"
definition SubscribePermission :: string where "SubscribePermission = ''subscribe''"

definition MagistralaObject :: string where "MagistralaObject = ''magistrala''"

lemmas policy_names =
  RoleType_def GroupType_def ClientType_def ChannelType_def UserType_def DomainType_def PlatformType_def
  NewGroupKind_def ChannelsKind_def NewChannelKind_def NewClientKind_def
  AdministratorRelation_def MemberRelation_def DomainRelation_def ParentGroupRelation_def

record Policy =
  p_TokenType :: nat
  p_Domain :: string
  p_Subject :: string
  p_SubjectType :: string
  p_SubjectKind :: string
  p_SubjectRelation :: string
  p_ObjectPrefix :: string
  p_Object :: string
  p_ObjectKind :: string
  p_ObjectType :: string
  p_Relation :: string
  p_Permission :: string

text \<open>The zero value, the base of every composite literal \<open>policies.Policy{...}\<close>.\<close>

definition Policy0 :: Policy where
  "Policy0 = \<lparr>p_TokenType = 0, p_Domain = [], p_Subject = [], p_SubjectType = [], p_SubjectKind = [],
     p_SubjectRelation = [], p_ObjectPrefix = [], p_Object = [], p_ObjectKind = [], p_ObjectType = [],
     p_Relation = [], p_Permission = []\<rparr>"

definition EncodeDomainUserID :: "string \<Rightarrow> string \<Rightarrow> string" where
  "EncodeDomainUserID domainID userID =
     (if domainID = [] \<or> userID = [] then [] else domainID @ ''_'' @ userID)"

section \<open>The SpiceDB client\<close>

text \<open>The messages of the authzed API the service builds. An empty optional string is unset.\<close>

record Relationship =
  rel_ResourceType :: string
  rel_ResourceId :: string
  rel_Relation :: string
  rel_SubjectType :: string
  rel_SubjectId :: string
  rel_SubjectRelation :: string

datatype UpdateOp = OpCreate | OpDelete

type_synonym RelationshipUpdate = "UpdateOp \<times> Relationship"

record SubjectFilter =
  sf_SubjectType :: string
  sf_SubjectId :: string
  sf_Relation :: "string option"

record RelationshipFilter =
  f_ResourceType :: string
  f_ResourceId :: string
  f_ResourceIdPrefix :: string
  f_Relation :: string
  f_SubjectFilter :: "SubjectFilter option"

datatype PrecondOp = MustMatch | MustNotMatch

type_synonym Precondition = "PrecondOp \<times> RelationshipFilter"

text \<open>The gRPC status codes of \<open>google.golang.org/grpc/codes\<close>, with their names.\<close>

datatype code =
    OK | Canceled | Unknown | InvalidArgument | DeadlineExceeded | NotFound | AlreadyExists
  | PermissionDenied | ResourceExhausted | FailedPrecondition | Aborted | OutOfRange
  | Unimplemented | Internal | Unavailable | DataLoss | Unauthenticated | OtherCode nat

fun code_String :: "code \<Rightarrow> string" where
  "code_String OK = ''OK''"
| "code_String Canceled = ''Canceled''"
| "code_String Unknown = ''Unknown''"
| "code_String InvalidArgument = ''InvalidArgument''"
| "code_String DeadlineExceeded = ''DeadlineExceeded''"
| "code_String NotFound = ''NotFound''"
| "code_String AlreadyExists = ''AlreadyExists''"
| "code_String PermissionDenied = ''PermissionDenied''"
| "code_String ResourceExhausted = ''ResourceExhausted''"
| "code_String FailedPrecondition = ''FailedPrecondition''"
| "code_String Aborted = ''Aborted''"
| "code_String OutOfRange = ''OutOfRange''"
| "code_String Unimplemented = ''Unimplemented''"
| "code_String Internal = ''Internal''"
| "code_String Unavailable = ''Unavailable''"
| "code_String DataLoss = ''DataLoss''"
| "code_String Unauthenticated = ''Unauthenticated''"
| "code_String (OtherCode n) = ''Code('' @ nat_str n @ '')''"

text \<open>An error of a gRPC call: one with a status, or any other Go error.\<close>

datatype grpc_error = StatusErr code string | PlainErr gerror

fun go_error :: "grpc_error \<Rightarrow> gerror" where
  "go_error (StatusErr c msg) = Foreign (''rpc error: code = '' @ code_String c @ '' desc = '' @ msg)"
| "go_error (PlainErr e) = e"

datatype Permissionship =
    PERMISSIONSHIP_UNSPECIFIED | PERMISSIONSHIP_NO_PERMISSION | PERMISSIONSHIP_HAS_PERMISSION
  | PERMISSIONSHIP_CONDITIONAL_PERMISSION | PERMISSIONSHIP_OTHER nat

fun Permissionship_name :: "Permissionship \<Rightarrow> string option" where
  "Permissionship_name PERMISSIONSHIP_UNSPECIFIED = Some ''PERMISSIONSHIP_UNSPECIFIED''"
| "Permissionship_name PERMISSIONSHIP_NO_PERMISSION = Some ''PERMISSIONSHIP_NO_PERMISSION''"
| "Permissionship_name PERMISSIONSHIP_HAS_PERMISSION = Some ''PERMISSIONSHIP_HAS_PERMISSION''"
| "Permissionship_name PERMISSIONSHIP_CONDITIONAL_PERMISSION = Some ''PERMISSIONSHIP_CONDITIONAL_PERMISSION''"
| "Permissionship_name (PERMISSIONSHIP_OTHER n) = None"

text \<open>A check asks for a permission: the relationship with the permission in the relation's place.\<close>

type_synonym CheckReq = Relationship

record LookupReq =
  l_ResourceType :: string
  l_ResourceId :: string
  l_Permission :: string
  l_SubjectType :: string
  l_SubjectId :: string
  l_SubjectRelation :: string
  l_Limit :: nat
  l_Cursor :: "string option"

text \<open>
  What a stream delivers to successive \<open>Recv\<close> calls: responses (an id and the cursor after
  it), then the end of the stream or an error. A stream that is exhausted is at its end.
\<close>

record LookupRes =
  lr_Id :: string
  lr_AfterCursor :: "string option"

datatype recv = Recv LookupRes | RecvEOF | RecvErr grpc_error

text \<open>One pair of a bulk check: an error, or the item with the permission of its request.\<close>

datatype bulkPair = PairErr nat string | PairItem "Permissionship option" "string option"

record 'w permClient =
  WriteRelationships :: "RelationshipUpdate list \<Rightarrow> Precondition list \<Rightarrow> ('w, grpc_error, unit) io"
  DeleteRelationships :: "RelationshipFilter \<Rightarrow> ('w, grpc_error, unit) io"
  CheckPermission :: "CheckReq \<Rightarrow> ('w, grpc_error, Permissionship) io"
  CheckBulkPermissions :: "CheckReq list \<Rightarrow> ('w, grpc_error, bulkPair list) io"
  LookupResources :: "LookupReq \<Rightarrow> ('w, grpc_error, recv list) io"
  LookupSubjects :: "LookupReq \<Rightarrow> ('w, grpc_error, recv list) io"

section \<open>Errors\<close>

definition errAddPolicies :: gerror where "errAddPolicies = New ''failed to add policies''"
definition errRetrievePolicies :: gerror where "errRetrievePolicies = New ''failed to retrieve policies''"
definition errRemovePolicies :: gerror where "errRemovePolicies = New ''failed to remove the policies''"
definition errNoPolicies :: gerror where "errNoPolicies = New ''no policies provided''"
definition errInternal :: gerror where "errInternal = New ''spicedb internal error''"
definition errPlatform :: gerror where "errPlatform = New ''invalid platform id''"
definition errUnidentified :: gerror where "errUnidentified = New ''unidentified error''"

text \<open>\<open>errors.Wrap(w, err)\<close> where \<open>err\<close> may be nil, which returns the wrapper.\<close>

definition WrapNil :: "gerror \<Rightarrow> gerror option \<Rightarrow> gerror" where
  "WrapNil w err = (case err of None \<Rightarrow> w | Some e \<Rightarrow> Wrap w e)"

fun convertGRPCStatusToError :: "code \<Rightarrow> string \<Rightarrow> gerror option" where
  "convertGRPCStatusToError NotFound msg = Some (Wrap repoErrNotFound (New msg))"
| "convertGRPCStatusToError InvalidArgument msg = Some (Wrap errMalformedEntity (New msg))"
| "convertGRPCStatusToError AlreadyExists msg = Some (Wrap repoErrConflict (New msg))"
| "convertGRPCStatusToError Unauthenticated msg = Some (Wrap svcErrAuthentication (New msg))"
| "convertGRPCStatusToError Internal msg = Some (Wrap errInternal (New msg))"
| "convertGRPCStatusToError OK msg =
     (if msg \<noteq> [] then Some (Wrap errUnidentified (New msg)) else None)"
| "convertGRPCStatusToError FailedPrecondition msg = Some (Wrap errMalformedEntity (New msg))"
| "convertGRPCStatusToError PermissionDenied msg = Some (Wrap svcErrAuthorization (New msg))"
| "convertGRPCStatusToError c msg =
     Some (Wrap (Foreign (''unexpected gRPC status: '' @ code_String c @ '' (status code:'' @ code_String c @ '')''))
            (New msg))"

fun handleSpicedbError :: "grpc_error \<Rightarrow> gerror option" where
  "handleSpicedbError (StatusErr c msg) = convertGRPCStatusToError c msg"
| "handleSpicedbError (PlainErr e) = Some e"


text \<open>\<open>codes.Code(gst.Code)\<close>: the codes in the order of their numbers.\<close>

definition all_codes :: "code list" where
  "all_codes = [OK, Canceled, Unknown, InvalidArgument, DeadlineExceeded, NotFound, AlreadyExists,
     PermissionDenied, ResourceExhausted, FailedPrecondition, Aborted, OutOfRange, Unimplemented,
     Internal, Unavailable, DataLoss, Unauthenticated]"

definition convertToGrpcStatus :: "nat \<Rightarrow> string \<Rightarrow> code \<times> string" where
  "convertToGrpcStatus n msg = (if n < length all_codes then all_codes ! n else OtherCode n, msg)"

section \<open>Checks\<close>

definition relationship_of :: "Policy \<Rightarrow> Relationship" where
  "relationship_of pr = \<lparr>rel_ResourceType = p_ObjectType pr, rel_ResourceId = p_Object pr,
     rel_Relation = p_Relation pr, rel_SubjectType = p_SubjectType pr, rel_SubjectId = p_Subject pr,
     rel_SubjectRelation = p_SubjectRelation pr\<rparr>"

definition check_request :: "Policy \<Rightarrow> CheckReq" where
  "check_request pr = (relationship_of pr)\<lparr>rel_Relation := p_Permission pr\<rparr>"

text \<open>\<open>nil\<close> is permission granted. The evaluator's \<open>CheckPolicy\<close> has the same body.\<close>

definition checkPolicy :: "'w permClient \<Rightarrow> Policy \<Rightarrow> 'w \<Rightarrow> gerror option \<times> 'w" where
  "checkPolicy client pr w =
     (case CheckPermission client (check_request pr) w of
        (Inl err, w') \<Rightarrow> (handleSpicedbError err, w')
      | (Inr permissionship, w') \<Rightarrow>
          (if permissionship = PERMISSIONSHIP_HAS_PERMISSION then None
           else case Permissionship_name permissionship of
               Some reason \<Rightarrow> Some (Wrap svcErrAuthorization (New reason))
             | None \<Rightarrow> Some svcErrAuthorization, w'))"

definition CheckPolicy :: "'w permClient \<Rightarrow> Policy \<Rightarrow> 'w \<Rightarrow> gerror option \<times> 'w" where
  "CheckPolicy client pr w =
     (case CheckPermission client
         \<lparr>rel_ResourceType = p_ObjectType pr, rel_ResourceId = p_Object pr, rel_Relation = p_Permission pr,
          rel_SubjectType = p_SubjectType pr, rel_SubjectId = p_Subject pr,
          rel_SubjectRelation = p_SubjectRelation pr\<rparr> w of
        (Inl err, w') \<Rightarrow> (handleSpicedbError err, w')
      | (Inr permissionship, w') \<Rightarrow>
          (if permissionship = PERMISSIONSHIP_HAS_PERMISSION then None
           else case Permissionship_name permissionship of
               Some reason \<Rightarrow> Some (Wrap svcErrAuthorization (New reason))
             | None \<Rightarrow> Some svcErrAuthorization, w'))"

definition policyValidation :: "Policy \<Rightarrow> gerror option" where
  "policyValidation pr =
     (if p_ObjectType pr = PlatformType \<and> p_Object pr \<noteq> MagistralaObject then Some errPlatform else None)"

section \<open>Preconditions of an added policy\<close>

text \<open>Is the subject an administrator of the platform?\<close>

definition admin_check :: "Policy \<Rightarrow> Policy" where
  "admin_check pr = Policy0\<lparr>p_Subject := p_Subject pr, p_SubjectType := p_SubjectType pr,
     p_Permission := AdminPermission, p_Object := MagistralaObject, p_ObjectType := PlatformType\<rparr>"

text \<open>A filter on a resource with a subject of a type (and of an id, unless empty).\<close>

definition subject_filter :: "string \<Rightarrow> string \<Rightarrow> SubjectFilter" where
  "subject_filter ty i = \<lparr>sf_SubjectType = ty, sf_SubjectId = i, sf_Relation = None\<rparr>"

definition resource_filter :: "string \<Rightarrow> string \<Rightarrow> string \<Rightarrow> SubjectFilter \<Rightarrow> RelationshipFilter" where
  "resource_filter ty i rel sf = \<lparr>f_ResourceType = ty, f_ResourceId = i, f_ResourceIdPrefix = [],
     f_Relation = rel, f_SubjectFilter = Some sf\<rparr>"

definition userGroupPreConditions :: "'w permClient \<Rightarrow> Policy \<Rightarrow> ('w, gerror, Precondition list) io" where
  "userGroupPreConditions client pr =
     observe (checkPolicy client (admin_check pr)) (\<lambda>err.
       let notRelated = (MustNotMatch, resource_filter GroupType (p_Object pr) [] (subject_filter UserType (p_Subject pr)));
           inDomain = (if err \<noteq> None
             then [(MustMatch, resource_filter DomainType (p_Domain pr) [] (subject_filter UserType (p_Subject pr)))]
             else []);
           domainOf = (if p_ObjectKind pr = NewGroupKind \<or> p_ObjectKind pr = NewChannelKind
             then (MustNotMatch, resource_filter GroupType (p_Object pr) DomainRelation (subject_filter DomainType []))
             else (MustMatch, resource_filter GroupType (p_Object pr) DomainRelation
                                 (subject_filter DomainType (p_Domain pr))))
       in ret (notRelated # inDomain @ [domainOf]))"

definition userClientPreConditions :: "'w permClient \<Rightarrow> Policy \<Rightarrow> ('w, gerror, Precondition list) io" where
  "userClientPreConditions client pr =
     observe (checkPolicy client (admin_check pr)) (\<lambda>err.
       let notRelated = (MustNotMatch, resource_filter ClientType (p_Object pr) [] (subject_filter UserType (p_Subject pr)));
           inDomain = (if err \<noteq> None
             then [(MustMatch, resource_filter DomainType (p_Domain pr) [] (subject_filter UserType (p_Subject pr)))]
             else []);
           domainOf = (if p_ObjectKind pr = NewClientKind
             then (MustNotMatch, resource_filter ClientType (p_Object pr) DomainRelation (subject_filter DomainType []))
             else (MustMatch, resource_filter ClientType (p_Object pr) DomainRelation
                                 (subject_filter DomainType (p_Domain pr))))
       in ret (notRelated # inDomain @ [domainOf]))"

definition userDomainPreConditions :: "'w permClient \<Rightarrow> Policy \<Rightarrow> ('w, gerror, Precondition list) io" where
  "userDomainPreConditions client pr =
     observe (checkPolicy client (admin_check pr)) (\<lambda>err.
       if err = None then fail (Foreign ''use already exists in domain'')
       else ret [(MustNotMatch, resource_filter DomainType (p_Object pr) [] (subject_filter UserType (p_Subject pr)))])"

definition groupPreConditions :: "Policy \<Rightarrow> Precondition list" where
  "groupPreConditions pr =
     [(MustMatch, resource_filter GroupType (p_Subject pr) DomainRelation (subject_filter DomainType (p_Domain pr)))] @
     (if p_ObjectKind pr \<noteq> ChannelsKind
      then [(MustNotMatch, resource_filter GroupType (p_Object pr) ParentGroupRelation (subject_filter GroupType []))]
      else []) @
     (if p_ObjectType pr = GroupType \<and> p_ObjectKind pr = NewGroupKind
      then [(MustNotMatch, resource_filter GroupType (p_Object pr) DomainRelation (subject_filter DomainType []))]
      else [(MustMatch, resource_filter GroupType (p_Object pr) DomainRelation (subject_filter DomainType (p_Domain pr)))])"

definition addPolicyPreCondition :: "'w permClient \<Rightarrow> Policy \<Rightarrow> ('w, gerror, Precondition list) io" where
  "addPolicyPreCondition client pr =
     (if p_SubjectType pr = UserType \<and> p_ObjectType pr = GroupType then userGroupPreConditions client pr
      else if p_SubjectType pr = UserType \<and> p_ObjectType pr = ClientType then userClientPreConditions client pr
      else if p_SubjectType pr = GroupType \<and> p_ObjectType pr = GroupType then ret (groupPreConditions pr)
      else if p_SubjectType pr = UserType \<and> p_ObjectType pr = DomainType then userDomainPreConditions client pr
      else if p_SubjectType pr = DomainType \<and> p_Relation pr = DomainRelation \<and>
              (p_ObjectType pr = ClientType \<or> p_ObjectType pr = GroupType)
      then ret [(MustNotMatch, resource_filter (p_ObjectType pr) (p_Object pr) DomainRelation
                                 (subject_filter DomainType []))]
      else ret [])"

section \<open>Changing policies\<close>

definition AddPolicy :: "'w permClient \<Rightarrow> Policy \<Rightarrow> ('w, gerror, unit) io" where
  "AddPolicy client pr =
     guarded (map_option (Wrap svcErrInvalidPolicy) (policyValidation pr))
       (pass (addPolicyPreCondition client pr) (\<lambda>precond.
          trying (WriteRelationships client [(OpCreate, relationship_of pr)] precond)
            (\<lambda>err. WrapNil errAddPolicies (handleSpicedbError err))
            (\<lambda>_. ret ())))"

text \<open>The loop over the policies: validate each and collect its update and preconditions.\<close>

fun add_updates ::
  "'w permClient \<Rightarrow> Policy list \<Rightarrow> RelationshipUpdate list \<Rightarrow> Precondition list \<Rightarrow>
   ('w, gerror, RelationshipUpdate list \<times> Precondition list) io" where
  "add_updates client [] updates preconds = ret (updates, preconds)"
| "add_updates client (pr # prs) updates preconds =
     guarded (map_option (Wrap svcErrInvalidPolicy) (policyValidation pr))
       (pass (addPolicyPreCondition client pr) (\<lambda>precond.
          add_updates client prs (updates @ [(OpCreate, relationship_of pr)]) (preconds @ precond)))"

definition AddPolicies :: "'w permClient \<Rightarrow> Policy list \<Rightarrow> ('w, gerror, unit) io" where
  "AddPolicies client prs =
     pass (add_updates client prs [] []) (\<lambda>(updates, preconds).
       if length updates = 0 then fail (Wrap errMalformedEntity errNoPolicies)
       else trying (WriteRelationships client updates preconds)
              (\<lambda>err. WrapNil errAddPolicies (handleSpicedbError err))
              (\<lambda>_. ret ()))"

definition delete_filter :: "Policy \<Rightarrow> RelationshipFilter" where
  "delete_filter pr = \<lparr>f_ResourceType = p_ObjectType pr, f_ResourceId = p_Object pr,
     f_ResourceIdPrefix = p_ObjectPrefix pr, f_Relation = p_Relation pr,
     f_SubjectFilter =
       (if p_SubjectType pr \<noteq> []
        then Some \<lparr>sf_SubjectType = p_SubjectType pr, sf_SubjectId = p_Subject pr,
               sf_Relation = (if p_SubjectRelation pr \<noteq> [] then Some (p_SubjectRelation pr) else None)\<rparr>
        else None)\<rparr>"

definition DeletePolicyFilter :: "'w permClient \<Rightarrow> Policy \<Rightarrow> ('w, gerror, unit) io" where
  "DeletePolicyFilter client pr =
     trying (DeleteRelationships client (delete_filter pr))
       (\<lambda>err. WrapNil errRemovePolicies (handleSpicedbError err))
       (\<lambda>_. ret ())"

fun delete_updates :: "Policy list \<Rightarrow> RelationshipUpdate list \<Rightarrow> gerror + RelationshipUpdate list" where
  "delete_updates [] updates = Inr updates"
| "delete_updates (pr # prs) updates =
     (case policyValidation pr of
        Some err \<Rightarrow> Inl (Wrap svcErrInvalidPolicy err)
      | None \<Rightarrow> delete_updates prs (updates @ [(OpDelete, relationship_of pr)]))"

definition DeletePolicies :: "'w permClient \<Rightarrow> Policy list \<Rightarrow> ('w, gerror, unit) io" where
  "DeletePolicies client prs =
     (case delete_updates prs [] of
        Inl err \<Rightarrow> fail err
      | Inr updates \<Rightarrow>
          if length updates = 0 then fail (Wrap errMalformedEntity errNoPolicies)
          else trying (WriteRelationships client updates [])
                 (\<lambda>err. WrapNil errRemovePolicies (handleSpicedbError err))
                 (\<lambda>_. ret ()))"


section \<open>Listing policies\<close>

definition defRetrieveAllLimit :: nat where "defRetrieveAllLimit = 1000"

definition ioEOF :: gerror where "ioEOF = Foreign ''EOF''"

text \<open>\<open>limit\<close> is a \<open>uint64\<close> sent as a \<open>uint32\<close>.\<close>

definition lookup_request :: "Policy \<Rightarrow> string \<Rightarrow> nat \<Rightarrow> LookupReq" where
  "lookup_request pr nextPageToken limit = \<lparr>l_ResourceType = p_ObjectType pr, l_ResourceId = p_Object pr,
     l_Permission = p_Permission pr, l_SubjectType = p_SubjectType pr, l_SubjectId = p_Subject pr,
     l_SubjectRelation = p_SubjectRelation pr, l_Limit = limit mod 2 ^ 32,
     l_Cursor = (if nextPageToken \<noteq> [] then Some nextPageToken else None)\<rparr>"

definition objectsToAuthPolicies :: "LookupRes list \<Rightarrow> Policy list" where
  "objectsToAuthPolicies objects = map (\<lambda>obj. Policy0\<lparr>p_Object := lr_Id obj\<rparr>) objects"

definition subjectsToAuthPolicies :: "LookupRes list \<Rightarrow> Policy list" where
  "subjectsToAuthPolicies subjects = map (\<lambda>sub. Policy0\<lparr>p_Subject := lr_Id sub\<rparr>) subjects"

definition page_token :: "LookupRes list \<Rightarrow> string" where
  "page_token rs = (if rs = [] then [] else case lr_AfterCursor (last rs) of Some t \<Rightarrow> t | None \<Rightarrow> [])"

text \<open>
  The \<open>Recv\<close> loop of \<open>retrieveObjects\<close> and \<open>retrieveSubjects\<close>: the policies, the token of the
  next page and the error. An error after some responses still returns the token.
\<close>

fun recv_page ::
  "(LookupRes list \<Rightarrow> Policy list) \<Rightarrow> recv list \<Rightarrow> LookupRes list \<Rightarrow> Policy list \<times> string \<times> gerror option" where
  "recv_page toPolicies (Recv resp # stream) rs = recv_page toPolicies stream (rs @ [resp])"
| "recv_page toPolicies (RecvErr err # stream) rs =
     ([], page_token rs, Some (WrapNil errRetrievePolicies (handleSpicedbError err)))"
| "recv_page toPolicies (RecvEOF # stream) rs = (toPolicies rs, page_token rs, None)"
| "recv_page toPolicies [] rs = (toPolicies rs, page_token rs, None)"

definition retrieveObjects ::
  "'w permClient \<Rightarrow> Policy \<Rightarrow> string \<Rightarrow> nat \<Rightarrow> 'w \<Rightarrow> (Policy list \<times> string \<times> gerror option) \<times> 'w" where
  "retrieveObjects client pr nextPageToken limit w =
     (case LookupResources client ((lookup_request pr nextPageToken limit)\<lparr>l_ResourceId := []\<rparr>) w of
        (Inl err, w') \<Rightarrow> (([], [], Some (WrapNil errRetrievePolicies (handleSpicedbError err))), w')
      | (Inr stream, w') \<Rightarrow> (recv_page objectsToAuthPolicies stream [], w'))"

definition retrieveSubjects ::
  "'w permClient \<Rightarrow> Policy \<Rightarrow> string \<Rightarrow> nat \<Rightarrow> 'w \<Rightarrow> (Policy list \<times> string \<times> gerror option) \<times> 'w" where
  "retrieveSubjects client pr nextPageToken limit w =
     (case LookupSubjects client ((lookup_request pr nextPageToken limit)\<lparr>l_SubjectId := []\<rparr>) w of
        (Inl err, w') \<Rightarrow> (([], [], Some (WrapNil errRetrievePolicies (handleSpicedbError err))), w')
      | (Inr stream, w') \<Rightarrow> (recv_page subjectsToAuthPolicies stream [], w'))"

fun recv_all :: "recv list \<Rightarrow> Policy list \<Rightarrow> Policy list \<times> gerror option" where
  "recv_all (Recv resp # stream) tuples = recv_all stream (tuples @ [Policy0\<lparr>p_Object := lr_Id resp\<rparr>])"
| "recv_all (RecvErr err # stream) tuples =
     (if Contains (go_error err) ioEOF then (tuples, None)
      else (tuples, Some (WrapNil errRetrievePolicies (handleSpicedbError err))))"
| "recv_all (RecvEOF # stream) tuples = (tuples, None)"
| "recv_all [] tuples = (tuples, None)"

definition retrieveAllObjects ::
  "'w permClient \<Rightarrow> Policy \<Rightarrow> 'w \<Rightarrow> (Policy list \<times> gerror option) \<times> 'w" where
  "retrieveAllObjects client pr w =
     (case LookupResources client ((lookup_request pr [] 0)\<lparr>l_ResourceId := []\<rparr>) w of
        (Inl err, w') \<Rightarrow> (([], Some (WrapNil errRetrievePolicies (handleSpicedbError err))), w')
      | (Inr stream, w') \<Rightarrow> (recv_all stream [], w'))"

text \<open>
  The two unbounded \<open>for\<close> loops over pages: \<open>None\<close> is a loop that does not end. The first
  returns the number counted so far also with an error; the number is a \<open>uint64\<close>.
\<close>

type_synonym 'w retrieve = "string \<Rightarrow> 'w \<Rightarrow> (Policy list \<times> string \<times> gerror option) \<times> 'w"

partial_function (option) count_pages ::
  "'w retrieve \<Rightarrow> string \<Rightarrow> nat \<Rightarrow> 'w \<Rightarrow> ((nat \<times> gerror option) \<times> 'w) option" where
  "count_pages retrieve nextPageToken count w =
     (case retrieve nextPageToken w of
        ((relationTuples, npt, Some err), w') \<Rightarrow> Some ((count, Some err), w')
      | ((relationTuples, npt, None), w') \<Rightarrow>
          (let count' = (count + length relationTuples) mod 2 ^ 64
           in if npt = [] then Some ((count', None), w')
              else count_pages retrieve npt count' w'))"

partial_function (option) collect_pages ::
  "'w retrieve \<Rightarrow> string \<Rightarrow> Policy list \<Rightarrow> 'w \<Rightarrow> ((Policy list \<times> gerror option) \<times> 'w) option" where
  "collect_pages retrieve nextPageToken tuples w =
     (case retrieve nextPageToken w of
        ((relationTuples, npt, Some err), w') \<Rightarrow> Some ((tuples, Some err), w')
      | ((relationTuples, npt, None), w') \<Rightarrow>
          (let tuples' = tuples @ relationTuples
           in if npt = [] \<or> length tuples' < defRetrieveAllLimit then Some ((tuples', None), w')
              else collect_pages retrieve npt tuples' w'))"

definition CountObjects :: "'w permClient \<Rightarrow> Policy \<Rightarrow> 'w \<Rightarrow> ((nat \<times> gerror option) \<times> 'w) option" where
  "CountObjects client pr w =
     count_pages (\<lambda>t. retrieveObjects client pr t defRetrieveAllLimit) [] 0 w"

definition CountSubjects :: "'w permClient \<Rightarrow> Policy \<Rightarrow> 'w \<Rightarrow> ((nat \<times> gerror option) \<times> 'w) option" where
  "CountSubjects client pr w =
     count_pages (\<lambda>t. retrieveSubjects client pr t defRetrieveAllLimit) [] 0 w"

definition retrieveAllSubjects ::
  "'w permClient \<Rightarrow> Policy \<Rightarrow> 'w \<Rightarrow> ((Policy list \<times> gerror option) \<times> 'w) option" where
  "retrieveAllSubjects client pr w =
     collect_pages (\<lambda>t. retrieveSubjects client pr t defRetrieveAllLimit) [] [] w"

text \<open>A page: the ids and the token of the next page.\<close>

record PolicyPage =
  pp_Policies :: "string list"
  pp_NextPageToken :: string

definition ListObjects :: "'w permClient \<Rightarrow> Policy \<Rightarrow> string \<Rightarrow> nat \<Rightarrow> ('w, gerror, PolicyPage) io" where
  "ListObjects client pr nextPageToken limit w =
     (case retrieveObjects client pr nextPageToken (if limit = 0 then 100 else limit) w of
        ((res, npt, Some err), w') \<Rightarrow> (Inl (Wrap svcErrViewEntity err), w')
      | ((res, npt, None), w') \<Rightarrow> (Inr \<lparr>pp_Policies = map p_Object res, pp_NextPageToken = npt\<rparr>, w'))"

definition ListAllObjects :: "'w permClient \<Rightarrow> Policy \<Rightarrow> ('w, gerror, PolicyPage) io" where
  "ListAllObjects client pr w =
     (case retrieveAllObjects client pr w of
        ((res, Some err), w') \<Rightarrow> (Inl (Wrap svcErrViewEntity err), w')
      | ((res, None), w') \<Rightarrow> (Inr \<lparr>pp_Policies = map p_Object res, pp_NextPageToken = []\<rparr>, w'))"

definition ListSubjects :: "'w permClient \<Rightarrow> Policy \<Rightarrow> string \<Rightarrow> nat \<Rightarrow> ('w, gerror, PolicyPage) io" where
  "ListSubjects client pr nextPageToken limit w =
     (case retrieveSubjects client pr nextPageToken (if limit = 0 then 100 else limit) w of
        ((res, npt, Some err), w') \<Rightarrow> (Inl (Wrap svcErrViewEntity err), w')
      | ((res, npt, None), w') \<Rightarrow> (Inr \<lparr>pp_Policies = map p_Subject res, pp_NextPageToken = npt\<rparr>, w'))"

definition ListAllSubjects :: "'w permClient \<Rightarrow> Policy \<Rightarrow> 'w \<Rightarrow> ((gerror + PolicyPage) \<times> 'w) option" where
  "ListAllSubjects client pr w =
     (case retrieveAllSubjects client pr w of
        None \<Rightarrow> None
      | Some ((res, Some err), w') \<Rightarrow> Some (Inl (Wrap svcErrViewEntity err), w')
      | Some ((res, None), w') \<Rightarrow> Some (Inr \<lparr>pp_Policies = map p_Subject res, pp_NextPageToken = []\<rparr>, w'))"

section \<open>Listing permissions\<close>

definition defClientsFilterPermissions :: "string list" where
  "defClientsFilterPermissions =
  [AdminPermission, DeletePermission, EditPermission, ViewPermission, SharePermission, PublishPermission,
   SubscribePermission]"

definition defGroupsFilterPermissions :: "string list" where
  "defGroupsFilterPermissions =
  [AdminPermission, DeletePermission, EditPermission, ViewPermission, MembershipPermission, SharePermission]"

definition defDomainsFilterPermissions :: "string list" where
  "defDomainsFilterPermissions =
  [AdminPermission, EditPermission, ViewPermission, MembershipPermission, SharePermission]"

definition defPlatformFilterPermissions :: "string list" where
  "defPlatformFilterPermissions = [AdminPermission, MembershipPermission]"

fun bulk_permissions :: "bulkPair list \<Rightarrow> string list \<Rightarrow> gerror + string list" where
  "bulk_permissions [] permissions = Inr permissions"
| "bulk_permissions (PairErr n msg # pairs) permissions =
     Inl (WrapNil errRetrievePolicies (case convertToGrpcStatus n msg of (c, m) \<Rightarrow> convertGRPCStatusToError c m))"
| "bulk_permissions (PairItem (Some PERMISSIONSHIP_HAS_PERMISSION) (Some permission) # pairs) permissions =
     bulk_permissions pairs (permissions @ [permission])"
| "bulk_permissions (PairItem _ _ # pairs) permissions = bulk_permissions pairs permissions"

definition retrievePermissions :: "'w permClient \<Rightarrow> Policy \<Rightarrow> string list \<Rightarrow> ('w, gerror, string list) io" where
  "retrievePermissions client pr filterPermission =
     trying (CheckBulkPermissions client
               (map (\<lambda>fp. (relationship_of pr)\<lparr>rel_Relation := fp\<rparr>) filterPermission))
       (\<lambda>err. WrapNil errRetrievePolicies (handleSpicedbError err))
       (\<lambda>pairs w. (bulk_permissions pairs [], w))"

definition default_permissions :: "string \<Rightarrow> string list option" where
  "default_permissions objectType =
     (if objectType = ClientType then Some defClientsFilterPermissions
      else if objectType = GroupType then Some defGroupsFilterPermissions
      else if objectType = PlatformType then Some defPlatformFilterPermissions
      else if objectType = DomainType then Some defDomainsFilterPermissions
      else None)"

definition ListPermissions :: "'w permClient \<Rightarrow> Policy \<Rightarrow> string list \<Rightarrow> ('w, gerror, string list) io" where
  "ListPermissions client pr permissionsFilter =
     (case (if length permissionsFilter = 0 then default_permissions (p_ObjectType pr) else Some permissionsFilter) of
        None \<Rightarrow> fail svcErrMalformedEntity
      | Some fs \<Rightarrow> trying (retrievePermissions client pr fs) (Wrap svcErrViewEntity) ret)"


section \<open>What SpiceDB promises\<close>

text \<open>
  The documented meaning of a relationship filter: every part that is set must agree with
  the relationship.
\<close>

definition matches :: "RelationshipFilter \<Rightarrow> Relationship \<Rightarrow> bool" where
  "matches f t \<longleftrightarrow>
     (f_ResourceType f = [] \<or> f_ResourceType f = rel_ResourceType t) \<and>
     (f_ResourceId f = [] \<or> f_ResourceId f = rel_ResourceId t) \<and>
     HasPrefix (rel_ResourceId t) (f_ResourceIdPrefix f) \<and>
     (f_Relation f = [] \<or> f_Relation f = rel_Relation t) \<and>
     (case f_SubjectFilter f of
        None \<Rightarrow> True
      | Some sf \<Rightarrow> sf_SubjectType sf = rel_SubjectType t \<and>
          (sf_SubjectId sf = [] \<or> sf_SubjectId sf = rel_SubjectId t) \<and>
          (case sf_Relation sf of None \<Rightarrow> True | Some r \<Rightarrow> r = rel_SubjectRelation t))"

definition precond_holds :: "Relationship set \<Rightarrow> Precondition \<Rightarrow> bool" where
  "precond_holds T p = (case p of
      (MustMatch, f) \<Rightarrow> (\<exists>t \<in> T. matches f t)
    | (MustNotMatch, f) \<Rightarrow> (\<forall>t \<in> T. \<not> matches f t))"

definition created :: "RelationshipUpdate list \<Rightarrow> Relationship set" where
  "created us = {t. (OpCreate, t) \<in> set us}"

definition deleted :: "RelationshipUpdate list \<Rightarrow> Relationship set" where
  "deleted us = {t. (OpDelete, t) \<in> set us}"

text \<open>
  A write is atomic: it is applied as a whole when every precondition holds and no created
  relationship exists yet, and not at all otherwise. A filtered delete removes exactly what
  matches. Reads change nothing.
\<close>

locale spicedb =
  fixes client :: "'w permClient" and tuples :: "'w \<Rightarrow> Relationship set"
  assumes write_ok: "WriteRelationships client us ps w = (Inr u, w') \<Longrightarrow>
      (\<forall>p \<in> set ps. precond_holds (tuples w) p) \<and> created us \<inter> tuples w = {} \<and>
      tuples w' = (tuples w - deleted us) \<union> created us"
    and write_err: "WriteRelationships client us ps w = (Inl e, w') \<Longrightarrow> tuples w' = tuples w"
    and delete_ok: "DeleteRelationships client f w = (Inr u, w') \<Longrightarrow> tuples w' = {t \<in> tuples w. \<not> matches f t}"
    and delete_err: "DeleteRelationships client f w = (Inl e, w') \<Longrightarrow> tuples w' = tuples w"
    and check_keeps: "CheckPermission client q w = (res, w') \<Longrightarrow> tuples w' = tuples w"

text \<open>What a client of the policy service relies on.\<close>

abbreviation rels :: "Policy list \<Rightarrow> Relationship set" where
  "rels prs \<equiv> relationship_of ` set prs"

locale policy_service =
  fixes addPolicies :: "Policy list \<Rightarrow> ('w, gerror, unit) io"
    and deletePolicies :: "Policy list \<Rightarrow> ('w, gerror, unit) io"
    and deletePolicyFilter :: "Policy \<Rightarrow> ('w, gerror, unit) io"
    and tuples :: "'w \<Rightarrow> Relationship set"
  assumes add_ok: "addPolicies prs w = (Inr u, w') \<Longrightarrow>
      rels prs \<inter> tuples w = {} \<and> tuples w' = tuples w \<union> rels prs"
    and add_err: "addPolicies prs w = (Inl e, w') \<Longrightarrow> tuples w' = tuples w"
    and del_ok: "deletePolicies prs w = (Inr u, w') \<Longrightarrow> tuples w' = tuples w - rels prs"
    and del_err: "deletePolicies prs w = (Inl e, w') \<Longrightarrow> tuples w' = tuples w"
    and filter_ok: "deletePolicyFilter pr w = (Inr u, w') \<Longrightarrow>
      tuples w' = {t \<in> tuples w. \<not> matches (delete_filter pr) t}"
    and filter_err: "deletePolicyFilter pr w = (Inl e, w') \<Longrightarrow> tuples w' = tuples w"
begin

text \<open>Deleting what was just added restores the store: the roll back of a provisioning.\<close>

lemma add_delete_restores:
  assumes "addPolicies prs w = (Inr u, w1)" "tuples w2 = tuples w1" "deletePolicies prs w2 = (Inr v, w3)"
  shows "tuples w3 = tuples w"
  using add_ok [OF assms(1)] del_ok [OF assms(3)] assms(2) by auto

lemma add_subset: "addPolicies prs w = (r, w') \<Longrightarrow> tuples w' \<subseteq> tuples w \<union> rels prs"
  by (cases r) (auto dest: add_ok add_err)

lemma del_subset: "deletePolicies prs w = (r, w') \<Longrightarrow> tuples w' \<subseteq> tuples w"
  by (cases r) (auto dest: del_ok del_err)

lemma filter_subset: "deletePolicyFilter pr w = (r, w') \<Longrightarrow> tuples w' \<subseteq> tuples w"
  by (cases r) (auto dest: filter_ok filter_err)

end

lemma created_Create [simp]: "created (map (\<lambda>pr. (OpCreate, f pr)) prs) = f ` set prs"
  by (auto simp: created_def)

lemma deleted_Create [simp]: "deleted (map (\<lambda>pr. (OpCreate, f pr)) prs) = {}"
  by (auto simp: deleted_def)

lemma created_Delete [simp]: "created (map (\<lambda>pr. (OpDelete, f pr)) prs) = {}"
  by (auto simp: created_def)

lemma deleted_Delete [simp]: "deleted (map (\<lambda>pr. (OpDelete, f pr)) prs) = f ` set prs"
  by (auto simp: deleted_def)

lemma delete_updates_Inr:
  "delete_updates prs us = Inr us' \<Longrightarrow> us' = us @ map (\<lambda>pr. (OpDelete, relationship_of pr)) prs"
  by (induction prs us rule: delete_updates.induct) (auto split: option.splits)

lemma add_updates_Inr:
  "add_updates client prs us ps w = (Inr (us', ps'), w') \<Longrightarrow>
     us' = us @ map (\<lambda>pr. (OpCreate, relationship_of pr)) prs \<and> set ps \<subseteq> set ps'"
proof (induction client prs us ps arbitrary: w rule: add_updates.induct)
  case (2 client pr prs us ps)
  from "2.prems" obtain pc w1 where n: "policyValidation pr = None"
    and s: "add_updates client prs (us @ [(OpCreate, relationship_of pr)]) (ps @ pc) w1 = (Inr (us', ps'), w')"
    by (auto dest!: guarded_InrD pass_InrD)
  with "2.IH" [OF s] show ?case by auto
qed auto

context spicedb
begin

lemma checkPolicy_keeps: "checkPolicy client pr w = (r, w') \<Longrightarrow> tuples w' = tuples w"
  by (auto simp: checkPolicy_def split: prod.splits sum.splits dest: check_keeps)

lemma precond_keeps: "addPolicyPreCondition client pr w = (r, w') \<Longrightarrow> tuples w' = tuples w"
  by (auto simp: addPolicyPreCondition_def userGroupPreConditions_def userClientPreConditions_def
      userDomainPreConditions_def observe_apply Let_def dest: checkPolicy_keeps
      split: if_splits prod.splits)

lemma add_updates_keeps: "add_updates client prs us ps w = (r, w') \<Longrightarrow> tuples w' = tuples w"
proof (induction prs arbitrary: us ps w)
  case (Cons pr prs)
  show ?case
  proof (cases "policyValidation pr")
    case None
    obtain q w1 where q: "addPolicyPreCondition client pr w = (q, w1)" by fastforce
    with None Cons.prems Cons.IH precond_keeps [OF q] show ?thesis
      by (cases q) (auto simp: pass_apply)
  qed (use Cons.prems in auto)
qed auto


lemma AddPolicies_ok:
  assumes "AddPolicies client prs w = (Inr u, w')"
  shows "prs \<noteq> [] \<and> rels prs \<inter> tuples w = {} \<and> tuples w' = tuples w \<union> rels prs"
proof -
  from assms obtain us ps w1 where a: "add_updates client prs [] [] w = (Inr (us, ps), w1)"
    and wr: "WriteRelationships client us ps w1 = (Inr (), w')" "us \<noteq> []"
    by (auto simp: AddPolicies_def dest!: pass_InrD trying_InrD split: if_splits)
  from add_updates_Inr [OF a] have "us = map (\<lambda>pr. (OpCreate, relationship_of pr)) prs" by simp
  with write_ok [OF wr(1)] wr(2) add_updates_keeps [OF a] show ?thesis by auto
qed

lemma AddPolicies_err: "AddPolicies client prs w = (Inl e, w') \<Longrightarrow> tuples w' = tuples w"
  by (auto simp: AddPolicies_def pass_apply trying_apply split: prod.splits sum.splits if_splits
      dest!: add_updates_keeps write_err)

lemma AddPolicy_ok:
  assumes "AddPolicy client pr w = (Inr u, w')"
  shows "relationship_of pr \<notin> tuples w \<and> tuples w' = insert (relationship_of pr) (tuples w)"
proof -
  from assms obtain ps w1 where a: "add_updates client [pr] [] [] w = (Inr ([(OpCreate, relationship_of pr)], ps), w1)"
    and wr: "WriteRelationships client [(OpCreate, relationship_of pr)] ps w1 = (Inr (), w')"
    by (cases "policyValidation pr") (auto simp: AddPolicy_def pass_apply dest!: guarded_InrD trying_InrD split: prod.splits sum.splits)
  have "created [(OpCreate, relationship_of pr)] = {relationship_of pr}" "deleted [(OpCreate, relationship_of pr)] = {}"
    by (simp_all add: created_def deleted_def)
  with write_ok [OF wr] add_updates_keeps [OF a] show ?thesis by simp
qed

lemma AddPolicy_err:
  assumes "AddPolicy client pr w = (Inl e, w')"
  shows "tuples w' = tuples w"
proof (cases "policyValidation pr")
  case None
  obtain q w1 where q: "addPolicyPreCondition client pr w = (q, w1)" by fastforce
  then have "add_updates client [pr] [] [] w = (map_sum id (\<lambda>ps. ([(OpCreate, relationship_of pr)], ps)) q, w1)"
    using None by (cases q) (simp_all add: pass_apply)
  from add_updates_keeps [OF this] assms None q show ?thesis
    by (cases q) (auto simp: AddPolicy_def pass_apply trying_apply split: prod.splits sum.splits dest!: write_err)
qed (use assms in \<open>simp add: AddPolicy_def\<close>)

lemma DeletePolicies_ok:
  "DeletePolicies client prs w = (Inr u, w') \<Longrightarrow> prs \<noteq> [] \<and> tuples w' = tuples w - rels prs"
  by (auto simp: DeletePolicies_def trying_apply dest!: delete_updates_Inr write_ok
      split: sum.splits if_splits prod.splits)

lemma DeletePolicies_err: "DeletePolicies client prs w = (Inl e, w') \<Longrightarrow> tuples w' = tuples w"
  by (auto simp: DeletePolicies_def trying_apply dest!: write_err split: sum.splits if_splits prod.splits)

lemma DeletePolicyFilter_ok:
  "DeletePolicyFilter client pr w = (Inr u, w') \<Longrightarrow> tuples w' = {t \<in> tuples w. \<not> matches (delete_filter pr) t}"
  by (auto simp: DeletePolicyFilter_def trying_apply dest!: delete_ok split: sum.splits prod.splits)

lemma DeletePolicyFilter_err: "DeletePolicyFilter client pr w = (Inl e, w') \<Longrightarrow> tuples w' = tuples w"
  by (auto simp: DeletePolicyFilter_def trying_apply dest!: delete_err split: sum.splits prod.splits)

end

sublocale spicedb \<subseteq> policy: policy_service "AddPolicies client" "DeletePolicies client" "DeletePolicyFilter client" tuples
proof unfold_locales
qed (auto dest: AddPolicies_ok AddPolicies_err DeletePolicies_ok DeletePolicies_err DeletePolicyFilter_ok DeletePolicyFilter_err)

section \<open>A reference store\<close>

text \<open>
  A store of relationships with a script of faults (the next calls that fail, and how). Its
  check grants exactly the stored relationships; schema rules are not evaluated.
\<close>

record ref_store =
  rs_tuples :: "Relationship list"
  rs_faults :: "grpc_error option list"

definition faulty :: "(ref_store \<Rightarrow> (grpc_error + 'a) \<times> ref_store) \<Rightarrow> (ref_store, grpc_error, 'a) io" where
  "faulty m s = (case rs_faults s of
      Some e # fs \<Rightarrow> (Inl e, s\<lparr>rs_faults := fs\<rparr>)
    | _ # fs \<Rightarrow> m (s\<lparr>rs_faults := fs\<rparr>)
    | [] \<Rightarrow> m (s\<lparr>rs_faults := []\<rparr>))"

definition ref_write :: "RelationshipUpdate list \<Rightarrow> Precondition list \<Rightarrow> (ref_store, grpc_error, unit) io" where
  "ref_write us ps = faulty (\<lambda>s.
     if \<not> list_all (precond_holds (set (rs_tuples s))) ps
     then (Inl (StatusErr FailedPrecondition ''unable to satisfy write precondition''), s)
     else if list_ex (\<lambda>(oper, t). oper = OpCreate \<and> t \<in> set (rs_tuples s)) us
     then (Inl (StatusErr AlreadyExists ''could not CREATE relationship, as it already existed''), s)
     else (Inr (), s\<lparr>rs_tuples := filter (\<lambda>t. (OpDelete, t) \<notin> set us) (rs_tuples s) @
             map snd (filter (\<lambda>u. fst u = OpCreate) us)\<rparr>))"

definition ref_delete :: "RelationshipFilter \<Rightarrow> (ref_store, grpc_error, unit) io" where
  "ref_delete f = faulty (\<lambda>s. (Inr (), s\<lparr>rs_tuples := filter (\<lambda>t. \<not> matches f t) (rs_tuples s)\<rparr>))"

definition ref_check :: "CheckReq \<Rightarrow> (ref_store, grpc_error, Permissionship) io" where
  "ref_check q = faulty (\<lambda>s. (Inr (if q \<in> set (rs_tuples s) then PERMISSIONSHIP_HAS_PERMISSION
     else PERMISSIONSHIP_NO_PERMISSION), s))"

definition ref_client :: "ref_store permClient" where
  "ref_client = \<lparr>WriteRelationships = ref_write, DeleteRelationships = ref_delete, CheckPermission = ref_check,
     CheckBulkPermissions = (\<lambda>qs. faulty (\<lambda>s. (Inr (map (\<lambda>q. PairItem
        (Some (if q \<in> set (rs_tuples s) then PERMISSIONSHIP_HAS_PERMISSION else PERMISSIONSHIP_NO_PERMISSION))
        (Some (rel_Relation q))) qs), s))),
     LookupResources = (\<lambda>q. faulty (\<lambda>s. (Inr (map (\<lambda>t. Recv \<lparr>lr_Id = rel_ResourceId t, lr_AfterCursor = None\<rparr>)
        (filter (\<lambda>t. rel_ResourceType t = l_ResourceType q \<and> rel_Relation t = l_Permission q \<and>
           rel_SubjectType t = l_SubjectType q \<and> rel_SubjectId t = l_SubjectId q) (rs_tuples s))), s))),
     LookupSubjects = (\<lambda>q. faulty (\<lambda>s. (Inr (map (\<lambda>t. Recv \<lparr>lr_Id = rel_SubjectId t, lr_AfterCursor = None\<rparr>)
        (filter (\<lambda>t. rel_ResourceType t = l_ResourceType q \<and> rel_ResourceId t = l_ResourceId q \<and>
           rel_Relation t = l_Permission q \<and> rel_SubjectType t = l_SubjectType q) (rs_tuples s))), s)))\<rparr>"

lemma ref_client_simps [simp]:
  "WriteRelationships ref_client = ref_write"
  "DeleteRelationships ref_client = ref_delete"
  "CheckPermission ref_client = ref_check"
  by (simp_all add: ref_client_def)

definition ref_tuples :: "ref_store \<Rightarrow> Relationship set" where
  "ref_tuples s = set (rs_tuples s)"

lemma faulty_split:
  "faulty m s = (r, s') \<Longrightarrow>
     (\<exists>e. r = Inl e \<and> rs_tuples s' = rs_tuples s) \<or> (\<exists>fs. m (s\<lparr>rs_faults := fs\<rparr>) = (r, s'))"
  by (cases "rs_faults s") (auto simp: faulty_def split: option.splits)

lemma ref_write_split:
  assumes "ref_write us ps s = (r, s')"
  shows "(\<exists>e. r = Inl e \<and> rs_tuples s' = rs_tuples s) \<or>
     r = Inr () \<and> list_all (precond_holds (ref_tuples s)) ps \<and> created us \<inter> ref_tuples s = {} \<and>
     ref_tuples s' = (ref_tuples s - deleted us) \<union> created us"
  using faulty_split [OF assms [unfolded ref_write_def]]
proof (elim disjE exE)
  fix fs
  assume "(if \<not> list_all (precond_holds (set (rs_tuples (s\<lparr>rs_faults := fs\<rparr>)))) ps
     then (Inl (StatusErr FailedPrecondition ''unable to satisfy write precondition''), s\<lparr>rs_faults := fs\<rparr>)
     else if list_ex (\<lambda>(oper, t). oper = OpCreate \<and> t \<in> set (rs_tuples (s\<lparr>rs_faults := fs\<rparr>))) us
     then (Inl (StatusErr AlreadyExists ''could not CREATE relationship, as it already existed''), s\<lparr>rs_faults := fs\<rparr>)
     else (Inr (), (s\<lparr>rs_faults := fs\<rparr>)\<lparr>rs_tuples := filter (\<lambda>t. (OpDelete, t) \<notin> set us) (rs_tuples (s\<lparr>rs_faults := fs\<rparr>)) @
             map snd (filter (\<lambda>u. fst u = OpCreate) us)\<rparr>)) = (r, s')"
  then show ?thesis
    by (auto simp add: ref_tuples_def list_ex_iff created_def deleted_def split: if_splits; force)
qed blast

interpretation ref: spicedb ref_client ref_tuples
proof unfold_locales
  fix us ps w u w' assume "WriteRelationships ref_client us ps w = (Inr u, w')"
  then have "ref_write us ps w = (Inr u, w')" by simp
  from ref_write_split [OF this]
  show "(\<forall>p \<in> set ps. precond_holds (ref_tuples w) p) \<and> created us \<inter> ref_tuples w = {} \<and>
      ref_tuples w' = (ref_tuples w - deleted us) \<union> created us"
    by (auto simp: list_all_iff)
next
  fix us ps w e w' assume "WriteRelationships ref_client us ps w = (Inl e, w')"
  then have "ref_write us ps w = (Inl e, w')" by simp
  from ref_write_split [OF this] show "ref_tuples w' = ref_tuples w" by (auto simp: ref_tuples_def)
qed (auto simp: ref_delete_def ref_check_def ref_tuples_def dest!: faulty_split)

section \<open>Domains of clients and groups\<close>

text \<open>A relationship that puts a client or a group into a domain.\<close>

definition domain_tuple :: "Relationship \<Rightarrow> bool" where
  "domain_tuple t \<longleftrightarrow> rel_Relation t = DomainRelation \<and> rel_SubjectType t = DomainType \<and>
     (rel_ResourceType t = ClientType \<or> rel_ResourceType t = GroupType)"

definition one_domain :: "Relationship set \<Rightarrow> bool" where
  "one_domain T \<longleftrightarrow> (\<forall>t \<in> T. \<forall>t' \<in> T. domain_tuple t \<and> domain_tuple t' \<and>
     rel_ResourceType t = rel_ResourceType t' \<and> rel_ResourceId t = rel_ResourceId t' \<longrightarrow> t = t')"

lemma relationship_of_simps [simp]:
  "rel_ResourceType (relationship_of pr) = p_ObjectType pr"
  "rel_ResourceId (relationship_of pr) = p_Object pr"
  "rel_Relation (relationship_of pr) = p_Relation pr"
  "rel_SubjectType (relationship_of pr) = p_SubjectType pr"
  "rel_SubjectId (relationship_of pr) = p_Subject pr"
  "rel_SubjectRelation (relationship_of pr) = p_SubjectRelation pr"
  by (simp_all add: relationship_of_def)

lemma domain_precondition:
  assumes "domain_tuple (relationship_of pr)"
  shows "addPolicyPreCondition client pr =
    ret [(MustNotMatch, resource_filter (p_ObjectType pr) (p_Object pr) DomainRelation (subject_filter DomainType []))]"
  using assms by (auto simp: domain_tuple_def addPolicyPreCondition_def policy_names)

lemma not_in_a_domain:
  assumes "precond_holds T (MustNotMatch, resource_filter ty i DomainRelation (subject_filter DomainType []))"
    and "t \<in> T" "domain_tuple t" "rel_ResourceType t = ty"
  shows "rel_ResourceId t \<noteq> i"
  using assms by (auto simp: precond_holds_def matches_def resource_filter_def subject_filter_def domain_tuple_def
      HasPrefix_def)

lemma must_match:
  "precond_holds T (MustMatch, resource_filter ty i rel (subject_filter sty si)) \<longleftrightarrow>
     (\<exists>t \<in> T. (ty = [] \<or> ty = rel_ResourceType t) \<and> (i = [] \<or> i = rel_ResourceId t) \<and>
        (rel = [] \<or> rel = rel_Relation t) \<and> sty = rel_SubjectType t \<and> (si = [] \<or> si = rel_SubjectId t))"
  by (auto simp: precond_holds_def matches_def resource_filter_def subject_filter_def HasPrefix_def)

lemma add_updates_domain:
  "add_updates client prs us ps w = (Inr (us', ps'), w') \<Longrightarrow> pr \<in> set prs \<Longrightarrow> domain_tuple (relationship_of pr) \<Longrightarrow>
     (MustNotMatch, resource_filter (p_ObjectType pr) (p_Object pr) DomainRelation (subject_filter DomainType [])) \<in> set ps'"
proof (induction prs arbitrary: us ps w)
  case (Cons q prs)
  from Cons.prems(1) obtain pc w1 where pc: "addPolicyPreCondition client q w = (Inr pc, w1)"
    and s: "add_updates client prs (us @ [(OpCreate, relationship_of q)]) (ps @ pc) w1 = (Inr (us', ps'), w')"
    by (auto dest!: guarded_InrD pass_InrD)
  show ?case
  proof (cases "pr = q")
    case True
    with pc Cons.prems(3) domain_precondition [of pr client] add_updates_Inr [OF s] show ?thesis by auto
  next
    case False
    with Cons.IH [OF s] Cons.prems show ?thesis by auto
  qed
qed simp

text \<open>The policies of one request may not put the same object into two domains.\<close>

definition consistent_batch :: "Policy list \<Rightarrow> bool" where
  "consistent_batch prs = one_domain (rels prs)"

context spicedb
begin

lemma AddPolicies_one_domain:
  assumes "one_domain (tuples w)" "consistent_batch prs" "AddPolicies client prs w = (r, w')"
  shows "one_domain (tuples w')"
proof (cases r)
  case (Inr u)
  with assms(3) obtain us ps w1 where a: "add_updates client prs [] [] w = (Inr (us, ps), w1)"
    and wr: "WriteRelationships client us ps w1 = (Inr (), w')"
    by (auto simp: AddPolicies_def dest!: pass_InrD trying_InrD split: if_splits)
  have pre: "precond_holds (tuples w) p" if "p \<in> set ps" for p
    using that write_ok [OF wr] add_updates_keeps [OF a] by simp
  have new: "rel_ResourceId t \<noteq> p_Object pr"
    if "pr \<in> set prs" "domain_tuple (relationship_of pr)" "t \<in> tuples w" "domain_tuple t"
      "rel_ResourceType t = p_ObjectType pr" for pr t
    using not_in_a_domain pre [OF add_updates_domain [OF a that(1,2)]] that by blast
  have "tuples w' = tuples w \<union> rels prs" using AddPolicies_ok assms(3) Inr by blast
  then show ?thesis
    using assms(1,2) new unfolding one_domain_def consistent_batch_def
    by (simp add: ball_Un) (metis relationship_of_simps(1,2))
qed (use assms AddPolicies_err in force)

lemma user_client_domain:
  assumes "AddPolicy client pr w = (Inr u, w')" "p_SubjectType pr = UserType" "p_ObjectType pr = ClientType"
    "p_ObjectKind pr \<noteq> NewClientKind"
  shows "(\<exists>t \<in> tuples w. domain_tuple t \<and> rel_ResourceType t = ClientType \<and>
       (rel_ResourceId t = p_Object pr \<or> p_Object pr = []) \<and> (rel_SubjectId t = p_Domain pr \<or> p_Domain pr = [])) \<and>
     (fst (checkPolicy client (admin_check pr) w) = None \<or>
      (\<exists>t \<in> tuples w. rel_ResourceType t = DomainType \<and> (rel_ResourceId t = p_Domain pr \<or> p_Domain pr = []) \<and>
         rel_SubjectType t = UserType \<and> (rel_SubjectId t = p_Subject pr \<or> p_Subject pr = [])))"
proof -
  obtain err w1 where c: "checkPolicy client (admin_check pr) w = (err, w1)" by fastforce
  from assms obtain pc where pc: "addPolicyPreCondition client pr w = (Inr pc, w1)"
    and wr: "WriteRelationships client [(OpCreate, relationship_of pr)] pc w1 = (Inr (), w')"
    using c by (auto simp: AddPolicy_def addPolicyPreCondition_def userClientPreConditions_def observe_apply policy_names
        Let_def dest!: guarded_InrD pass_InrD trying_InrD)
  have pre: "precond_holds (tuples w) p" if "p \<in> set pc" for p
    using that write_ok [OF wr] checkPolicy_keeps [OF c] by simp
  have ne: "ClientType \<noteq> []" "DomainType \<noteq> []" "DomainRelation \<noteq> []" by (simp_all add: policy_names)
  have "(MustMatch, resource_filter ClientType (p_Object pr) DomainRelation (subject_filter DomainType (p_Domain pr))) \<in> set pc"
    and m2: "err \<noteq> None \<Longrightarrow> (MustMatch, resource_filter DomainType (p_Domain pr) [] (subject_filter UserType (p_Subject pr))) \<in> set pc"
    using pc c assms(2-4)
    by (auto simp: addPolicyPreCondition_def userClientPreConditions_def observe_apply Let_def policy_names)
  from pre [OF this(1), unfolded must_match] obtain t where "t \<in> tuples w" "domain_tuple t" "rel_ResourceType t = ClientType"
    "p_Object pr = [] \<or> p_Object pr = rel_ResourceId t" "p_Domain pr = [] \<or> p_Domain pr = rel_SubjectId t"
    using ne by (auto simp: domain_tuple_def)
  moreover have "\<exists>t \<in> tuples w. rel_ResourceType t = DomainType \<and> (rel_ResourceId t = p_Domain pr \<or> p_Domain pr = []) \<and>
         rel_SubjectType t = UserType \<and> (rel_SubjectId t = p_Subject pr \<or> p_Subject pr = [])" if "err \<noteq> None"
    using pre [OF m2 [OF that], unfolded must_match] ne by (auto simp: eq_commute) (metis+)?
  ultimately show ?thesis unfolding c fst_conv by metis
qed

end

section \<open>Paging\<close>

text \<open>
  A lookup that serves the list \<open>ids\<close> in pages: at the cursor for position \<open>k\<close> it streams at
  most the requested number of ids from there, each with the cursor behind it.
\<close>

definition serves_pages :: "(LookupReq \<Rightarrow> ('w, grpc_error, recv list) io) \<Rightarrow> string list \<Rightarrow> (nat \<Rightarrow> string) \<Rightarrow> bool" where
  "serves_pages lookup ids tok \<longleftrightarrow> (\<forall>k. tok k \<noteq> []) \<and>
     (\<forall>req w k. k \<le> length ids \<longrightarrow> l_Cursor req = (if k = 0 then None else Some (tok k)) \<longrightarrow>
        lookup req w = (Inr (map (\<lambda>i. Recv \<lparr>lr_Id = ids ! i, lr_AfterCursor = Some (tok (Suc i))\<rparr>)
           [k ..< min (k + l_Limit req) (length ids)]), w))"

lemma recv_page_Recv: "recv_page f (map Recv rs) acc = (f (acc @ rs), page_token (acc @ rs), None)"
  by (induction rs arbitrary: acc) auto

lemma retrieveSubjects_page:
  assumes "serves_pages (LookupSubjects client) ids tok" "k \<le> length ids" "t = (if k = 0 then [] else tok k)"
    "n = min (k + 1000) (length ids)"
  shows "retrieveSubjects client pr t defRetrieveAllLimit w =
    ((map (\<lambda>x. Policy0\<lparr>p_Subject := x\<rparr>) (take (n - k) (drop k ids)), if k < n then tok n else [], None), w)"
proof -
  let ?rs = "map (\<lambda>i. \<lparr>lr_Id = ids ! i, lr_AfterCursor = Some (tok (Suc i))\<rparr>) [k ..< n]"
  let ?req = "(lookup_request pr t defRetrieveAllLimit)\<lparr>l_SubjectId := []\<rparr>"
  have "l_Cursor ?req = (if k = 0 then None else Some (tok k))" "l_Limit ?req = 1000"
    using assms(1,3) by (auto simp: lookup_request_def defRetrieveAllLimit_def serves_pages_def)
  then have "LookupSubjects client ?req w = (Inr (map Recv ?rs), w)"
    using assms(1,2,4) by (simp add: serves_pages_def comp_def)
  moreover have "page_token ?rs = (if k < n then tok n else [])"
    by (simp add: page_token_def last_map)
  moreover have "map ((!) ids) [k ..< n] = take (n - k) (drop k ids)"
    using assms(2,4) by (auto simp: list_eq_iff_nth_eq nth_append min_def)
  moreover have "subjectsToAuthPolicies ?rs = map (\<lambda>x. Policy0\<lparr>p_Subject := x\<rparr>) (map ((!) ids) [k ..< n])"
    by (simp add: subjectsToAuthPolicies_def comp_def)
  ultimately show ?thesis by (simp add: retrieveSubjects_def recv_page_Recv del: map_map)
qed

lemma collect_from:
  assumes "serves_pages (LookupSubjects client) ids tok" "k \<le> length ids" "t = (if k = 0 then [] else tok k)"
    "k = 0 \<or> 1000 \<le> k"
  shows "collect_pages (\<lambda>t. retrieveSubjects client pr t defRetrieveAllLimit) t
      (map (\<lambda>x. Policy0\<lparr>p_Subject := x\<rparr>) (take k ids)) w =
    Some ((map (\<lambda>x. Policy0\<lparr>p_Subject := x\<rparr>) ids, None), w)"
  using assms(2-)
proof (induction "length ids - k" arbitrary: k t rule: less_induct)
  case less
  define n where "n = min (k + 1000) (length ids)"
  have n: "k \<le> n" "n \<le> length ids" using less.prems by (auto simp: n_def)
  have app: "take k ids @ take (n - k) (drop k ids) = take n ids" using n(1) by (simp add: take_add [symmetric])
  note page = retrieveSubjects_page [OF assms(1) less.prems(1,2) n_def, of pr w]
  show ?case
  proof (cases "k < n \<and> 1000 \<le> n")
    case False
    then have "n = length ids" using n less.prems by (auto simp: n_def)
    with False page app show ?thesis
      using n less.prems by (subst collect_pages.simps) (auto simp: Let_def defRetrieveAllLimit_def simp flip: map_append)
  next
    case True
    have "length ids - n < length ids - k" using True n by auto
    then have "collect_pages (\<lambda>t. retrieveSubjects client pr t defRetrieveAllLimit) (tok n)
      (map (\<lambda>x. Policy0\<lparr>p_Subject := x\<rparr>) (take n ids)) w = Some ((map (\<lambda>x. Policy0\<lparr>p_Subject := x\<rparr>) ids, None), w)"
      using less.hyps [of n "tok n"] n True by auto
    moreover have "tok n \<noteq> []" using assms(1) by (simp add: serves_pages_def)
    ultimately show ?thesis
      using True page app n less.prems
      by (subst collect_pages.simps) (auto simp: Let_def defRetrieveAllLimit_def simp flip: map_append)
  qed
qed

lemma count_from:
  assumes "serves_pages (LookupSubjects client) ids tok" "k \<le> length ids" "t = (if k = 0 then [] else tok k)"
  shows "count_pages (\<lambda>t. retrieveSubjects client pr t defRetrieveAllLimit) t (k mod 2 ^ 64) w =
    Some ((length ids mod 2 ^ 64, None), w)"
  using assms(2-)
proof (induction "length ids - k" arbitrary: k t rule: less_induct)
  case less
  define n where "n = min (k + 1000) (length ids)"
  have n: "k \<le> n" "n \<le> length ids" using less.prems by (auto simp: n_def)
  note page = retrieveSubjects_page [OF assms(1) less.prems(1,2) n_def, of pr w]
  have len: "(k mod 2 ^ 64 + (n - k)) mod 2 ^ 64 = n mod 2 ^ 64"
    unfolding mod_add_left_eq using n(1) by simp
  show ?case
  proof (cases "k < n")
    case False
    then have "k = length ids" "n = k" using n less.prems by (auto simp: n_def)
    with page show ?thesis by (subst count_pages.simps) simp
  next
    case True
    have "length ids - n < length ids - k" using True n by auto
    then have "count_pages (\<lambda>t. retrieveSubjects client pr t defRetrieveAllLimit) (tok n) (n mod 2 ^ 64) w =
        Some ((length ids mod 2 ^ 64, None), w)"
      using less.hyps [of n "tok n"] n True by auto
    moreover have "tok n \<noteq> []" using assms(1) by (simp add: serves_pages_def)
    ultimately show ?thesis
      using True page n len by (subst count_pages.simps) (simp add: Let_def)
  qed
qed

section \<open>Properties\<close>

text \<open>C17: \<open>AddPolicy\<close>, \<open>AddPolicies\<close>, \<open>DeletePolicies\<close> and \<open>DeletePolicyFilter\<close> change the store completely or
  not at all. A successful add created exactly the relationships of the policies, none of which
  existed; a successful delete removed exactly them, or exactly what the filter matches; an
  error of any of the four leaves every relationship as it was.\<close>

theorem policy_changes_are_atomic:
  assumes "spicedb client tuples"
  shows "(case AddPolicy client pr w of
      (Inr _, w') \<Rightarrow> relationship_of pr \<notin> tuples w \<and> tuples w' = insert (relationship_of pr) (tuples w)
    | (Inl _, w') \<Rightarrow> tuples w' = tuples w) \<and>
   (case AddPolicies client prs w of
      (Inr _, w') \<Rightarrow> prs \<noteq> [] \<and> rels prs \<inter> tuples w = {} \<and> tuples w' = tuples w \<union> rels prs
    | (Inl _, w') \<Rightarrow> tuples w' = tuples w) \<and>
   (case DeletePolicies client prs w of
      (Inr _, w') \<Rightarrow> prs \<noteq> [] \<and> tuples w' = tuples w - rels prs
    | (Inl _, w') \<Rightarrow> tuples w' = tuples w) \<and>
   (case DeletePolicyFilter client pr w of
      (Inr _, w') \<Rightarrow> tuples w' = {t \<in> tuples w. \<not> matches (delete_filter pr) t}
    | (Inl _, w') \<Rightarrow> tuples w' = tuples w)"
  using spicedb.AddPolicy_ok [OF assms] spicedb.AddPolicy_err [OF assms] spicedb.AddPolicies_ok [OF assms] spicedb.AddPolicies_err [OF assms]
    spicedb.DeletePolicies_ok [OF assms] spicedb.DeletePolicies_err [OF assms]
    spicedb.DeletePolicyFilter_ok [OF assms] spicedb.DeletePolicyFilter_err [OF assms]
  by (simp split: prod.splits sum.splits)

definition sample_policy :: "string \<Rightarrow> Policy" where
  "sample_policy d = Policy0\<lparr>p_SubjectType := DomainType, p_Subject := d, p_Relation := DomainRelation,
     p_ObjectType := ClientType, p_Object := ''c1''\<rparr>"

definition sample_store :: ref_store where
  "sample_store = \<lparr>rs_tuples = [], rs_faults = []\<rparr>"

theorem policy_changes_are_atomic_witness:
  "ref_tuples (snd (AddPolicies ref_client [sample_policy ''d1''] sample_store)) =
     {relationship_of (sample_policy ''d1'')}"
proof -
  have "AddPolicies ref_client [sample_policy ''d1''] sample_store =
      (Inr (), \<lparr>rs_tuples = [relationship_of (sample_policy ''d1'')], rs_faults = []\<rparr>)"
    by code_simp
  with policy_changes_are_atomic [OF ref.spicedb_axioms, where prs = "[sample_policy ''d1'']" and w = sample_store]
  show ?thesis by (simp add: ref_tuples_def sample_store_def)
qed

text \<open>C25: Adding policies never puts a client or a group that is in one domain into another, whatever
  the request asks for and however the call ends, provided the request itself names one
  domain per object.\<close>

theorem clients_and_groups_stay_in_one_domain:
  assumes "spicedb client tuples" "one_domain (tuples w)" "consistent_batch prs"
    "AddPolicies client prs w = (r, w')"
  shows "one_domain (tuples w')"
  using assms by (rule spicedb.AddPolicies_one_domain)

theorem clients_and_groups_stay_in_one_domain_witness:
  "one_domain (ref_tuples (snd (AddPolicies ref_client [sample_policy ''d1''] sample_store))) \<and>
   ref_tuples (snd (AddPolicies ref_client [sample_policy ''d1''] sample_store)) \<noteq> {}"
proof -
  have "AddPolicies ref_client [sample_policy ''d1''] sample_store =
      (Inr (), \<lparr>rs_tuples = [relationship_of (sample_policy ''d1'')], rs_faults = []\<rparr>)"
    by code_simp
  moreover from clients_and_groups_stay_in_one_domain [OF ref.spicedb_axioms _ _ this]
  have "one_domain (ref_tuples \<lparr>rs_tuples = [relationship_of (sample_policy ''d1'')], rs_faults = []\<rparr>)"
    by (simp add: one_domain_def consistent_batch_def ref_tuples_def sample_store_def)
  ultimately show ?thesis by (simp add: ref_tuples_def)
qed

text \<open>A single request can put one client into two domains: the preconditions of every policy are
  evaluated against the store before the request.\<close>

lemma one_request_can_assign_two_domains:
  "fst (AddPolicies ref_client [sample_policy ''d1'', sample_policy ''d2''] sample_store) = Inr () \<and>
   \<not> one_domain (ref_tuples (snd (AddPolicies ref_client [sample_policy ''d1'', sample_policy ''d2''] sample_store)))"
proof -
  let ?s = "snd (AddPolicies ref_client [sample_policy ''d1'', sample_policy ''d2''] sample_store)"
  have a: "fst (AddPolicies ref_client [sample_policy ''d1'', sample_policy ''d2''] sample_store) = Inr ()"
    "rs_tuples ?s = [relationship_of (sample_policy ''d1''), relationship_of (sample_policy ''d2'')]"
    by code_simp+
  have "relationship_of (sample_policy ''d1'') \<noteq> relationship_of (sample_policy ''d2'')" by code_simp
  moreover have "domain_tuple (relationship_of (sample_policy d)) \<and>
    rel_ResourceType (relationship_of (sample_policy d)) = ClientType \<and>
    rel_ResourceId (relationship_of (sample_policy d)) = ''c1''" for d
    by (simp add: domain_tuple_def sample_policy_def)
  ultimately have "\<not> one_domain {relationship_of (sample_policy ''d1''), relationship_of (sample_policy ''d2'')}"
    unfolding one_domain_def by (metis insertCI)
  with a show ?thesis by (simp only: ref_tuples_def list.set simp_thms)
qed

text \<open>A user gets a direct relation to an existing client only when that client already is in the
  domain the policy names, and the user either is a platform administrator or is related to
  that domain. (The parts of the policy that are empty are not compared.)\<close>

lemma direct_client_policy_stays_in_domain:
  assumes "spicedb client tuples" "AddPolicy client pr w = (Inr u, w')"
    "p_SubjectType pr = UserType" "p_ObjectType pr = ClientType" "p_ObjectKind pr \<noteq> NewClientKind"
  shows "(\<exists>t \<in> tuples w. domain_tuple t \<and> rel_ResourceType t = ClientType \<and>
       (rel_ResourceId t = p_Object pr \<or> p_Object pr = []) \<and> (rel_SubjectId t = p_Domain pr \<or> p_Domain pr = [])) \<and>
     (fst (checkPolicy client (admin_check pr) w) = None \<or>
      (\<exists>t \<in> tuples w. rel_ResourceType t = DomainType \<and> (rel_ResourceId t = p_Domain pr \<or> p_Domain pr = []) \<and>
         rel_SubjectType t = UserType \<and> (rel_SubjectId t = p_Subject pr \<or> p_Subject pr = [])))"
  using assms by (rule spicedb.user_client_domain)

definition sample_user_policy :: Policy where
  "sample_user_policy = Policy0\<lparr>p_SubjectType := UserType, p_Subject := ''u1'', p_Relation := AdministratorRelation,
     p_ObjectType := ClientType, p_Object := ''c1'', p_Domain := ''d1''\<rparr>"

definition sample_domain_store :: ref_store where
  "sample_domain_store = \<lparr>rs_tuples = [relationship_of (sample_policy ''d1''),
     relationship_of (Policy0\<lparr>p_SubjectType := UserType, p_Subject := ''u1'', p_Relation := MemberRelation,
       p_ObjectType := DomainType, p_Object := ''d1''\<rparr>)], rs_faults = []\<rparr>"

text \<open>When SpiceDB pages through its answer as documented, the listing and counting loops end, and
  return all subjects in order, and their number (as a \<open>uint64\<close>).\<close>

lemma listing_subjects_is_complete:
  assumes "serves_pages (LookupSubjects client) ids tok"
  shows "ListAllSubjects client pr w = Some (Inr \<lparr>pp_Policies = ids, pp_NextPageToken = []\<rparr>, w) \<and>
    CountSubjects client pr w = Some ((length ids mod 2 ^ 64, None), w)"
  using collect_from [OF assms, of 0 "[]" pr w] count_from [OF assms, of 0 "[]" pr w]
  by (simp add: ListAllSubjects_def retrieveAllSubjects_def CountSubjects_def comp_def)

definition paged_client :: "string list \<Rightarrow> ref_store permClient" where
  "paged_client ids = ref_client\<lparr>LookupSubjects := (\<lambda>req w.
     let k = (case l_Cursor req of None \<Rightarrow> 0 | Some t \<Rightarrow> length t)
     in (Inr (map (\<lambda>i. Recv \<lparr>lr_Id = ids ! i, lr_AfterCursor = Some (replicate (Suc i) CHR ''x'')\<rparr>)
           [k ..< min (k + l_Limit req) (length ids)]), w))\<rparr>"

end
