(* ===== verification/Database.thy ===== *)
theory Database
  imports Errors
begin

text \<open>
  The relational database as the repositories of \<open>magistrala\<close> use it: \<open>pkg/postgres/errors.go\<close>
  and \<open>common.go\<close>, and the calls of \<open>database/sql\<close> behind them.

  The state is the committed tables, the open transactions with their private copy of the
  tables, and a script of faults: the next driver calls that fail, and with which error. A
  statement is a function from tables to an error of the database or new tables and a result;
  it is applied as a whole or not at all. Statements of different sessions do not interleave
  here: an operation of a repository runs as one step.
\<close>

text \<open>A \<open>pgconn.PgError\<close> has a code, a message and the name of the violated constraint.\<close>

datatype dberror = PgError string string string | DriverError string

text \<open>\<open>Error()\<close> of the two: the text of a \<open>pgconn.PgError\<close> ends in its code.\<close>

fun dberror_go :: "dberror \<Rightarrow> gerror" where
  "dberror_go (PgError sqlstate msg cname) = Foreign (''ERROR: '' @ msg @ '' (SQLSTATE '' @ sqlstate @ '')'')"
| "dberror_go (DriverError msg) = Foreign msg"

definition errDuplicate :: string where "errDuplicate = ''23505''"
definition errTruncation :: string where "errTruncation = ''22001''"
definition errFK :: string where "errFK = ''23503''"
definition errInvalid :: string where "errInvalid = ''22P02''"
definition errUntranslatable :: string where "errUntranslatable = ''22P05''"
definition errInvalidChar :: string where "errInvalidChar = ''22021''"

text \<open>
  The errors PostgreSQL answers with when a value or a constraint is violated. The name of
  the constraint is kept where the code looks at it.
\<close>

definition pg_truncated :: dberror where "pg_truncated = PgError errTruncation ''value too long for type character varying'' []"
definition pg_duplicate :: dberror where "pg_duplicate = PgError errDuplicate ''duplicate key value violates unique constraint'' []"
definition pg_foreign :: dberror where "pg_foreign = PgError errFK ''insert or update violates foreign key constraint'' []"

definition pg_unique :: "string \<Rightarrow> dberror" where
  "pg_unique cname = PgError errDuplicate (''duplicate key value violates unique constraint '' @ cname) cname"

definition pg_check :: "string \<Rightarrow> dberror" where
  "pg_check cname = PgError ''23514'' (''new row violates check constraint '' @ cname) cname"

definition HandleError :: "gerror \<Rightarrow> dberror \<Rightarrow> gerror" where
  "HandleError wrapper err =
     (case err of
        PgError sqlstate msg cname \<Rightarrow>
          if sqlstate = errDuplicate then Wrap repoErrConflict (dberror_go err)
          else if sqlstate \<in> {errInvalid, errInvalidChar, errTruncation, errUntranslatable}
          then Wrap repoErrMalformedEntity (dberror_go err)
          else if sqlstate = errFK then Wrap repoErrCreateEntity (dberror_go err)
          else Wrap wrapper (dberror_go err)
      | DriverError msg \<Rightarrow> Wrap wrapper (dberror_go err))"

definition WrapDB :: "gerror \<Rightarrow> dberror \<Rightarrow> gerror" where
  "WrapDB wrapper err = Wrap wrapper (dberror_go err)"

section \<open>The database\<close>

record 't database =
  committed :: 't
  open_txs :: "(nat \<times> 't) list"
  next_tx :: nat
  faults :: "dberror option list"

type_synonym ('t, 'r) stmt = "'t \<Rightarrow> dberror + ('t \<times> 'r)"

type_synonym ('t, 'a) db = "('t database, dberror, 'a) io"

text \<open>Every call to the driver may fail: it takes the next entry of the script.\<close>

definition driver :: "('t, 'a) db \<Rightarrow> ('t, 'a) db" where
  "driver m d = (case faults d of
      Some e # fs \<Rightarrow> (Inl e, d\<lparr>faults := fs\<rparr>)
    | _ # fs \<Rightarrow> m (d\<lparr>faults := fs\<rparr>)
    | [] \<Rightarrow> m (d\<lparr>faults := []\<rparr>))"

text \<open>\<open>NamedExecContext\<close>, \<open>NamedQueryContext\<close>, ...: a statement outside of a transaction.\<close>

definition db_exec :: "('t, 'r) stmt \<Rightarrow> ('t, 'r) db" where
  "db_exec st = driver (\<lambda>d. case st (committed d) of
      Inl e \<Rightarrow> (Inl e, d)
    | Inr (t, r) \<Rightarrow> (Inr r, d\<lparr>committed := t\<rparr>))"

definition db_query :: "('t \<Rightarrow> 'r) \<Rightarrow> ('t, 'r) db" where
  "db_query q = db_exec (\<lambda>t. Inr (t, q t))"

text \<open>\<open>rows.StructScan\<close> on each of the rows, in order.\<close>

fun scan_rows :: "'a list \<Rightarrow> ('t, 'a list) db" where
  "scan_rows [] = ret []"
| "scan_rows (r # rs) = pass (driver (ret r)) (\<lambda>x. pass (scan_rows rs) (\<lambda>xs. ret (x # xs)))"

text \<open>Transactions. A transaction that was committed or rolled back is done.\<close>

definition BeginTxx :: "('t, nat) db" where
  "BeginTxx = driver (\<lambda>d. (Inr (next_tx d), d\<lparr>open_txs := (next_tx d, committed d) # open_txs d,
     next_tx := Suc (next_tx d)\<rparr>))"

definition close_tx :: "nat \<Rightarrow> 't database \<Rightarrow> 't database" where
  "close_tx h d = d\<lparr>open_txs := filter (\<lambda>x. fst x \<noteq> h) (open_txs d)\<rparr>"

definition errTxDone :: dberror where "errTxDone = DriverError ''sql: transaction has already been committed or rolled back''"

definition tx_exec :: "nat \<Rightarrow> ('t, 'r) stmt \<Rightarrow> ('t, 'r) db" where
  "tx_exec h st = driver (\<lambda>d. case map_of (open_txs d) h of
      None \<Rightarrow> (Inl errTxDone, d)
    | Some t \<Rightarrow> (case st t of
         Inl e \<Rightarrow> (Inl e, d)
       | Inr (t', r) \<Rightarrow> (Inr r, d\<lparr>open_txs := (h, t') # open_txs (close_tx h d)\<rparr>)))"

text \<open>A failing commit ends the transaction without an effect.\<close>

definition tx_Commit :: "nat \<Rightarrow> ('t, unit) db" where
  "tx_Commit h d = (case map_of (open_txs d) h of
      None \<Rightarrow> (Inl errTxDone, d)
    | Some t \<Rightarrow> (case driver (ret ()) d of
         (Inl e, d') \<Rightarrow> (Inl e, close_tx h d')
       | (Inr u, d') \<Rightarrow> (Inr u, (close_tx h d')\<lparr>committed := t\<rparr>)))"

definition tx_Rollback :: "nat \<Rightarrow> ('t, unit) db" where
  "tx_Rollback h d = (case map_of (open_txs d) h of
      None \<Rightarrow> (Inl errTxDone, d)
    | Some t \<Rightarrow> (case driver (ret ()) d of (r, d') \<Rightarrow> (r, close_tx h d')))"

text \<open>
  The repositories guard a transaction by
  \<open>defer func() { if err != nil { if errRollback := tx.Rollback(); errRollback != nil {
     err = errors.Wrap(errors.Wrap(apiutil.ErrRollbackTx, errRollback), err) } } }()\<close>.
  Where \<open>err\<close> is the named result, every error of the body reaches it.
\<close>

definition errRollbackTx :: gerror where "errRollbackTx = NewRequestError ''failed to rollback transaction''"

definition rollback_with ::
  "(dberror \<Rightarrow> gerror \<Rightarrow> gerror) \<Rightarrow> nat \<Rightarrow> ('t database, gerror, 'a) io \<Rightarrow> ('t database, gerror, 'a) io" where
  "rollback_with j h m d = (case m d of
      (Inr x, d') \<Rightarrow> (Inr x, d')
    | (Inl e, d') \<Rightarrow> (case tx_Rollback h d' of
         (Inl e', d'') \<Rightarrow> (Inl (j e' e), d'')
       | (Inr u, d'') \<Rightarrow> (Inl e, d'')))"

definition rollback_on_error :: "nat \<Rightarrow> ('t database, gerror, 'a) io \<Rightarrow> ('t database, gerror, 'a) io" where
  "rollback_on_error h m = rollback_with (\<lambda>errRollback err. Wrap (WrapDB errRollbackTx errRollback) err) h m"

text \<open>Elsewhere the errors are joined the other way round: \<open>retErr = errors.Wrap(retErr, errors.Wrap(apiutil.ErrRollbackTx, errRollBack))\<close>.\<close>

definition rollback_ret :: "nat \<Rightarrow> ('t database, gerror, 'a) io \<Rightarrow> ('t database, gerror, 'a) io" where
  "rollback_ret h m = rollback_with (\<lambda>errRollBack retErr. Wrap retErr (WrapDB errRollbackTx errRollBack)) h m"

text \<open>\<open>postgres.Total\<close>: a count query and the scan of its row.\<close>

definition Total :: "('t \<Rightarrow> nat) \<Rightarrow> ('t, nat) db" where
  "Total count = pass (db_query count) (\<lambda>n. driver (ret n))"

text \<open>
  The body of a transaction: statements in order, each with what is returned when it fails,
  then the commit and the result.
\<close>

type_synonym 't step = "('t, unit) stmt \<times> (dberror \<Rightarrow> gerror)"

fun run_stmts :: "nat \<Rightarrow> 't step list \<Rightarrow> ('t database, gerror, unit) io" where
  "run_stmts h [] = ret ()"
| "run_stmts h ((st, g) # sts) = trying (tx_exec h st) g (\<lambda>_. run_stmts h sts)"

definition tx_body :: "nat \<Rightarrow> 't step list \<Rightarrow> (dberror \<Rightarrow> gerror) \<Rightarrow> 'a \<Rightarrow> ('t database, gerror, 'a) io" where
  "tx_body h sts g x = pass (run_stmts h sts) (\<lambda>_. trying (tx_Commit h) g (\<lambda>_. ret x))"

section \<open>Facts\<close>

fun apply_stmts :: "'t step list \<Rightarrow> 't \<Rightarrow> 't option" where
  "apply_stmts [] t = Some t"
| "apply_stmts ((st, g) # sts) t = (case st t of Inl e \<Rightarrow> None | Inr (t', _) \<Rightarrow> apply_stmts sts t')"

abbreviation others :: "nat \<Rightarrow> 't database \<Rightarrow> (nat \<times> 't) list" where
  "others h d \<equiv> filter (\<lambda>x. fst x \<noteq> h) (open_txs d)"

lemma driver_split:
  "driver m d = (r, d') \<Longrightarrow>
     (\<exists>e fs. r = Inl e \<and> d' = d\<lparr>faults := fs\<rparr>) \<or> (\<exists>fs. m (d\<lparr>faults := fs\<rparr>) = (r, d'))"
  by (cases "faults d") (auto simp: driver_def split: option.splits)

text \<open>A driver with an empty script of faults does not fail.\<close>

lemma driver_calm: "faults d = [] \<Longrightarrow> driver m d = m d"
  by (cases d) (simp add: driver_def)

lemma db_exec_calm:
  "faults d = [] \<Longrightarrow> db_exec st d = (case st (committed d) of Inl e \<Rightarrow> (Inl e, d) | Inr (t, r) \<Rightarrow> (Inr r, d\<lparr>committed := t\<rparr>))"
  by (simp add: db_exec_def driver_calm)

lemma db_query_calm: "faults d = [] \<Longrightarrow> db_query q d = (Inr (q (committed d)), d)"
  by (simp add: db_query_def db_exec_calm)

lemma driver_ret:
  "driver (ret x) d = (r, d') \<Longrightarrow> (\<exists>fs. d' = d\<lparr>faults := fs\<rparr>) \<and> (\<forall>y. r = Inr y \<longrightarrow> y = x)"
  by (auto dest!: driver_split)

lemma db_exec_ok:
  "db_exec st d = (Inr r, d') \<Longrightarrow>
     \<exists>t. st (committed d) = Inr (t, r) \<and> committed d' = t \<and> open_txs d' = open_txs d \<and> next_tx d' = next_tx d"
  by (auto simp: db_exec_def dest!: driver_split split: sum.splits)

lemma db_exec_err:
  "db_exec st d = (Inl e, d') \<Longrightarrow> committed d' = committed d \<and> open_txs d' = open_txs d \<and> next_tx d' = next_tx d"
  by (auto simp: db_exec_def dest!: driver_split split: sum.splits)

lemma db_query_ok:
  "db_query q d = (Inr r, d') \<Longrightarrow>
     r = q (committed d) \<and> committed d' = committed d \<and> open_txs d' = open_txs d \<and> next_tx d' = next_tx d"
  by (auto simp: db_query_def dest: db_exec_ok)

text \<open>\<open>reads m\<close>: the call changes neither the tables nor the transactions.\<close>

definition reads :: "('t database \<Rightarrow> 'r \<times> 't database) \<Rightarrow> bool" where
  "reads m \<longleftrightarrow> (\<forall>d r d'. m d = (r, d') \<longrightarrow>
     committed d' = committed d \<and> open_txs d' = open_txs d \<and> next_tx d' = next_tx d)"

lemma reads_driver: "reads m \<Longrightarrow> reads (driver m)"
  by (fastforce simp: reads_def dest!: driver_split)

lemma reads_ret [io_intros]: "reads (ret x)"
  by (simp add: reads_def)

lemma reads_fail [io_intros]: "reads (fail x)"
  by (simp add: reads_def)

lemma reads_query [io_intros]: "reads (db_query q)"
  unfolding reads_def db_query_def
proof (intro allI impI)
  fix d r d' assume "db_exec (\<lambda>t. Inr (t, q t)) d = (r, d')"
  then show "committed d' = committed d \<and> open_txs d' = open_txs d \<and> next_tx d' = next_tx d"
    by (cases r) (auto dest: db_exec_ok db_exec_err)
qed

lemma reads_trying [io_intros]: "reads m \<Longrightarrow> (\<And>x. reads (k x)) \<Longrightarrow> reads (trying m g k)"
  unfolding reads_def trying_def by (fastforce split: prod.splits sum.splits)

lemma reads_pass [io_intros]: "reads m \<Longrightarrow> (\<And>x. reads (k x)) \<Longrightarrow> reads (pass m k)"
  by (simp add: pass_def reads_trying)

lemma reads_scan_rows [io_intros]: "reads (scan_rows rs)"
proof (induction rs)
  case (Cons r rs)
  then show ?case unfolding scan_rows.simps by (intro io_intros reads_driver)
qed (simp add: reads_def)

lemma reads_Total [io_intros]: "reads (Total c)"
  unfolding Total_def by (intro io_intros reads_driver)

lemma reads_case_list [io_intros]:
  "reads a \<Longrightarrow> (\<And>x xs. reads (b x xs)) \<Longrightarrow> reads (case l of [] \<Rightarrow> a | x # xs \<Rightarrow> b x xs)"
  by (cases l) auto

lemma reads_if [io_intros]: "reads a \<Longrightarrow> reads b \<Longrightarrow> reads (if c then a else b)"
  by simp

lemma readsD:
  "reads m \<Longrightarrow> m d = (r, d') \<Longrightarrow> committed d' = committed d \<and> open_txs d' = open_txs d \<and> next_tx d' = next_tx d"
  unfolding reads_def by blast

lemma scan_rows_ok: "scan_rows rs d = (Inr ys, d') \<Longrightarrow> ys = rs"
  by (induction rs arbitrary: d ys) (auto dest!: pass_InrD driver_ret, blast?)

lemma Total_ok: "Total c d = (Inr n, d') \<Longrightarrow> n = c (committed d)"
  by (auto simp: Total_def dest!: pass_InrD driver_ret db_query_ok)

lemma BeginTxx_ok:
  "BeginTxx d = (Inr h, d') \<Longrightarrow> h = next_tx d \<and> committed d' = committed d \<and> next_tx d' = Suc h \<and>
     open_txs d' = (h, committed d) # open_txs d"
  by (auto simp: BeginTxx_def dest!: driver_split)

lemma BeginTxx_err:
  "BeginTxx d = (Inl e, d') \<Longrightarrow> committed d' = committed d \<and> open_txs d' = open_txs d \<and> next_tx d' = next_tx d"
  by (auto simp: BeginTxx_def dest!: driver_split)

lemma tx_exec_ok:
  assumes "tx_exec h st d = (Inr r, d')"
  shows "\<exists>t t'. map_of (open_txs d) h = Some t \<and> st t = Inr (t', r) \<and> map_of (open_txs d') h = Some t' \<and>
     committed d' = committed d \<and> next_tx d' = next_tx d \<and> others h d' = others h d"
  using driver_split [OF assms [unfolded tx_exec_def]]
  by (cases "map_of (open_txs d) h"; cases "st (the (map_of (open_txs d) h))") (auto simp: close_tx_def)

lemma tx_exec_err:
  assumes "tx_exec h st d = (Inl e, d')"
  shows "committed d' = committed d \<and> open_txs d' = open_txs d \<and> next_tx d' = next_tx d"
  using driver_split [OF assms [unfolded tx_exec_def]]
  by (cases "map_of (open_txs d) h"; cases "st (the (map_of (open_txs d) h))") auto

lemma tx_Commit_ok:
  assumes "tx_Commit h d = (Inr u, d')"
  shows "map_of (open_txs d) h = Some (committed d') \<and> open_txs d' = others h d \<and> next_tx d' = next_tx d"
proof -
  obtain q d1 where q: "driver (ret ()) d = (q, d1)" by fastforce
  obtain fs where "d1 = d\<lparr>faults := fs\<rparr>" using driver_ret [OF q] by blast
  then show ?thesis
    using assms q by (cases q; cases "map_of (open_txs d) h") (auto simp: tx_Commit_def close_tx_def)
qed

lemma tx_Commit_err:
  "tx_Commit h d = (Inl e, d') \<Longrightarrow> committed d' = committed d \<and> others h d' = others h d \<and> next_tx d' = next_tx d \<and>
     (map_of (open_txs d) h \<noteq> None \<longrightarrow> open_txs d' = others h d)"
  by (cases "map_of (open_txs d) h"; cases "driver (ret ()) d"; cases "fst (driver (ret ()) d)")
    (auto simp: tx_Commit_def close_tx_def dest!: driver_ret)

lemma tx_Rollback_any:
  "tx_Rollback h d = (r, d') \<Longrightarrow> committed d' = committed d \<and> open_txs d' = others h d \<and> next_tx d' = next_tx d"
  by (cases "map_of (open_txs d) h"; cases "driver (ret ()) d")
    (auto simp: tx_Rollback_def close_tx_def filter_id_conv map_of_eq_None_iff image_iff dest!: driver_ret
      intro: filter_True [symmetric])

lemma run_stmts_ok:
  "run_stmts h sts d = (Inr u, d') \<Longrightarrow> map_of (open_txs d) h = Some t \<Longrightarrow>
     \<exists>t'. apply_stmts sts t = Some t' \<and> map_of (open_txs d') h = Some t' \<and>
       committed d' = committed d \<and> next_tx d' = next_tx d \<and> others h d' = others h d"
proof (induction h sts arbitrary: d t rule: run_stmts.induct)
  case (2 h st g sts)
  from "2.prems"(1) obtain d1 where e: "tx_exec h st d = (Inr (), d1)" and r: "run_stmts h sts d1 = (Inr u, d')"
    by (auto dest!: trying_InrD)
  from tx_exec_ok [OF e] "2.prems"(2) obtain t' where t': "st t = Inr (t', ())" "map_of (open_txs d1) h = Some t'"
    "committed d1 = committed d" "next_tx d1 = next_tx d" "others h d1 = others h d"
    by auto
  from "2.IH" [OF r t'(2)] t' show ?case by auto
qed simp

lemma run_stmts_err:
  "run_stmts h sts d = (Inl e, d') \<Longrightarrow> committed d' = committed d \<and> next_tx d' = next_tx d \<and> others h d' = others h d"
proof (induction h sts arbitrary: d rule: run_stmts.induct)
  case (2 h st g sts)
  obtain q d1 where e: "tx_exec h st d = (q, d1)" by fastforce
  with "2.prems" "2.IH" show ?case
    by (cases q) (auto simp: trying_apply dest!: tx_exec_ok tx_exec_err)
qed simp

lemma tx_body_ok:
  assumes "tx_body h sts g x d = (Inr y, d')" "map_of (open_txs d) h = Some t"
  shows "y = x \<and> apply_stmts sts t = Some (committed d') \<and> open_txs d' = others h d \<and> next_tx d' = next_tx d"
proof -
  from assms(1) obtain d1 where a: "run_stmts h sts d = (Inr (), d1)" "tx_Commit h d1 = (Inr (), d')" "y = x"
    by (auto simp: tx_body_def dest!: pass_InrD trying_InrD)
  from run_stmts_ok [OF a(1) assms(2)] tx_Commit_ok [OF a(2)] a(3) show ?thesis by auto
qed

lemma tx_body_err:
  assumes "tx_body h sts g x d = (Inl e, d')"
  shows "committed d' = committed d \<and> others h d' = others h d \<and> next_tx d' = next_tx d"
proof (cases "run_stmts h sts d")
  case (Pair q d1)
  show ?thesis
  proof (cases q)
    case (Inl e1)
    with Pair assms run_stmts_err [of h sts d e1 d1] show ?thesis by (auto simp: tx_body_def pass_apply)
  next
    case (Inr u)
    with Pair assms obtain e2 where "tx_Commit h d1 = (Inl e2, d')"
      by (auto simp: tx_body_def pass_apply trying_apply split: prod.splits sum.splits)
    moreover have "committed d1 = committed d \<and> next_tx d1 = next_tx d \<and> others h d1 = others h d"
      using Pair Inr by (induction h sts arbitrary: d rule: run_stmts.induct)
        (auto dest!: trying_InrD tx_exec_ok)
    ultimately show ?thesis by (auto dest!: tx_Commit_err)
  qed
qed

text \<open>Every open transaction was begun: its handle is below the next one.\<close>

definition tx_wf :: "'t database \<Rightarrow> bool" where
  "tx_wf d \<longleftrightarrow> (\<forall>x \<in> set (open_txs d). fst x < next_tx d)"

lemma others_next: "tx_wf d \<Longrightarrow> others (next_tx d) d = open_txs d"
  by (auto simp: tx_wf_def filter_id_conv)

text \<open>
  The two shapes of a transactional operation. Both are atomic on the tables; the first
  leaves no transaction open, the second leaves its own open when a statement fails.
\<close>

definition in_tx :: "gerror \<Rightarrow> 't step list \<Rightarrow> (dberror \<Rightarrow> gerror) \<Rightarrow> 'a \<Rightarrow> ('t database, gerror, 'a) io" where
  "in_tx w sts g x = trying BeginTxx (WrapDB w) (\<lambda>h. rollback_on_error h (tx_body h sts g x))"

definition in_tx_shadowed :: "gerror \<Rightarrow> 't step list \<Rightarrow> (dberror \<Rightarrow> gerror) \<Rightarrow> 'a \<Rightarrow> ('t database, gerror, 'a) io" where
  "in_tx_shadowed w sts g x = trying BeginTxx (WrapDB w) (\<lambda>h. tx_body h sts g x)"

definition in_tx_ret ::
  "(dberror \<Rightarrow> gerror) \<Rightarrow> 't step list \<Rightarrow> (dberror \<Rightarrow> gerror) \<Rightarrow> 'a \<Rightarrow> ('t database, gerror, 'a) io" where
  "in_tx_ret b sts g x = trying BeginTxx b (\<lambda>h. rollback_ret h (tx_body h sts g x))"

lemma rollback_tx_ok:
  assumes "trying BeginTxx b (\<lambda>h. rollback_with j h (tx_body h sts g x)) d = (Inr y, d')"
  shows "y = x \<and> apply_stmts sts (committed d) = Some (committed d') \<and> (tx_wf d \<longrightarrow> open_txs d' = open_txs d)"
proof -
  from assms obtain h d1 where b: "BeginTxx d = (Inr h, d1)" "tx_body h sts g x d1 = (Inr y, d')"
    by (auto simp: rollback_with_def dest!: trying_InrD split: prod.splits sum.splits)
  from BeginTxx_ok [OF b(1)] tx_body_ok [OF b(2)] show ?thesis by (auto simp: others_next)
qed

lemma rollback_tx_err:
  assumes "trying BeginTxx b (\<lambda>h. rollback_with j h (tx_body h sts g x)) d = (Inl e, d')"
  shows "committed d' = committed d \<and> (tx_wf d \<longrightarrow> open_txs d' = open_txs d)"
proof (cases "BeginTxx d")
  case (Pair q d1)
  show ?thesis
  proof (cases q)
    case (Inl e1)
    with Pair assms BeginTxx_err [of d e1 d1] show ?thesis by (auto simp: trying_apply)
  next
    case (Inr h)
    with Pair assms obtain e2 d2 r where b: "tx_body h sts g x d1 = (Inl e2, d2)" "tx_Rollback h d2 = (r, d')"
      by (auto simp: trying_apply rollback_with_def split: prod.splits sum.splits)
    from BeginTxx_ok [of d h d1] Pair Inr tx_body_err [OF b(1)] tx_Rollback_any [OF b(2)] show ?thesis
      by (auto simp: others_next)
  qed
qed

lemma in_tx_ok:
  "in_tx w sts g x d = (Inr y, d') \<Longrightarrow>
     y = x \<and> apply_stmts sts (committed d) = Some (committed d') \<and> (tx_wf d \<longrightarrow> open_txs d' = open_txs d)"
  unfolding in_tx_def rollback_on_error_def by (rule rollback_tx_ok)

lemma in_tx_err:
  "in_tx w sts g x d = (Inl e, d') \<Longrightarrow> committed d' = committed d \<and> (tx_wf d \<longrightarrow> open_txs d' = open_txs d)"
  unfolding in_tx_def rollback_on_error_def by (rule rollback_tx_err)

lemma in_tx_ret_ok:
  "in_tx_ret b sts g x d = (Inr y, d') \<Longrightarrow>
     y = x \<and> apply_stmts sts (committed d) = Some (committed d') \<and> (tx_wf d \<longrightarrow> open_txs d' = open_txs d)"
  unfolding in_tx_ret_def rollback_ret_def by (rule rollback_tx_ok)

lemma in_tx_ret_err:
  "in_tx_ret b sts g x d = (Inl e, d') \<Longrightarrow> committed d' = committed d \<and> (tx_wf d \<longrightarrow> open_txs d' = open_txs d)"
  unfolding in_tx_ret_def rollback_ret_def by (rule rollback_tx_err)

lemma in_tx_shadowed_ok:
  assumes "in_tx_shadowed w sts g x d = (Inr y, d')"
  shows "y = x \<and> apply_stmts sts (committed d) = Some (committed d') \<and> (tx_wf d \<longrightarrow> open_txs d' = open_txs d)"
proof -
  from assms obtain h d1 where b: "BeginTxx d = (Inr h, d1)" "tx_body h sts g x d1 = (Inr y, d')"
    by (auto simp: in_tx_shadowed_def dest!: trying_InrD)
  from BeginTxx_ok [OF b(1)] tx_body_ok [OF b(2)] show ?thesis by (auto simp: others_next)
qed

lemma in_tx_shadowed_err:
  assumes "in_tx_shadowed w sts g x d = (Inl e, d')"
  shows "committed d' = committed d"
  using assms
  by (auto simp: in_tx_shadowed_def trying_apply split: prod.splits sum.splits
      dest!: BeginTxx_ok BeginTxx_err tx_body_err)

end
