(* ===== verification/RolesRepo.thy ===== *)
theory RolesRepo
  imports Database
begin

text \<open>
  The role repository, \<open>pkg/roles/repo/postgres/roles.go\<close> and \<open>init.go\<close>, with the data types
  of \<open>pkg/roles/roles.go\<close>. The three tables of \<open>init.go\<close> are lists of rows together with the
  ids of the entity table they refer to; a statement is the SQL of the source with the
  constraints of the schema (lengths, keys, foreign keys, cascades). Times are integers, the
  zero time is 0.

  \<open>ListEntityMembers\<close> is left out: its query is assembled from large SQL texts over the tables
  of all services.
\<close>

section \<open>Roles\<close>

record Role =
  ro_ID :: string
  ro_Name :: string
  ro_EntityID :: string
  ro_CreatedBy :: string
  ro_CreatedAt :: int
  ro_UpdatedBy :: string
  ro_UpdatedAt :: int

definition Role0 :: Role where
  "Role0 = \<lparr>ro_ID = [], ro_Name = [], ro_EntityID = [], ro_CreatedBy = [], ro_CreatedAt = 0,
     ro_UpdatedBy = [], ro_UpdatedAt = 0\<rparr>"

record RoleProvision =
  rp_Role :: Role
  rp_OptionalActions :: "string list"
  rp_OptionalMembers :: "string list"

record RolePage =
  rpg_Total :: nat
  rpg_Offset :: nat
  rpg_Limit :: nat
  rpg_Roles :: "Role list"

record MembersPage =
  mp_Total :: nat
  mp_Offset :: nat
  mp_Limit :: nat
  mp_Members :: "string list"

record EntityActionRole =
  ear_EntityID :: string
  ear_Action :: string
  ear_RoleID :: string

record EntityMemberRole =
  emr_EntityID :: string
  emr_MemberID :: string
  emr_RoleID :: string

section \<open>Tables\<close>

record dbRole =
  dr_ID :: string
  dr_Name :: string
  dr_EntityID :: string
  dr_CreatedBy :: "string option"
  dr_CreatedAt :: "int option"
  dr_UpdatedBy :: "string option"
  dr_UpdatedAt :: "int option"

record dbRoleAction =
  da_RoleID :: string
  da_Action :: string

record dbRoleMember =
  dm_RoleID :: string
  dm_EntityID :: string
  dm_MemberID :: string

record role_tables =
  t_entities :: "string list"
  t_roles :: "dbRole list"
  t_actions :: "dbRoleAction list"
  t_members :: "dbRoleMember list"

type_synonym roles_db = "role_tables database"

definition toDBRoles :: "Role \<Rightarrow> dbRole" where
  "toDBRoles role = \<lparr>dr_ID = ro_ID role, dr_Name = ro_Name role, dr_EntityID = ro_EntityID role,
     dr_CreatedBy = (if ro_CreatedBy role \<noteq> [] then Some (ro_CreatedBy role) else None),
     dr_CreatedAt = (if ro_CreatedAt role \<noteq> 0 then Some (ro_CreatedAt role) else None),
     dr_UpdatedBy = (if ro_UpdatedBy role \<noteq> [] then Some (ro_UpdatedBy role) else None),
     dr_UpdatedAt = (if ro_UpdatedAt role \<noteq> 0 then Some (ro_UpdatedAt role) else None)\<rparr>"

definition toRole :: "dbRole \<Rightarrow> Role" where
  "toRole r = \<lparr>ro_ID = dr_ID r, ro_Name = dr_Name r, ro_EntityID = dr_EntityID r,
     ro_CreatedBy = (case dr_CreatedBy r of Some s \<Rightarrow> s | None \<Rightarrow> []),
     ro_CreatedAt = (case dr_CreatedAt r of Some t \<Rightarrow> t | None \<Rightarrow> 0),
     ro_UpdatedBy = (case dr_UpdatedBy r of Some s \<Rightarrow> s | None \<Rightarrow> []),
     ro_UpdatedAt = (case dr_UpdatedAt r of Some t \<Rightarrow> t | None \<Rightarrow> 0)\<rparr>"

text \<open>The length limits of the columns.\<close>

definition fits_opt :: "nat \<Rightarrow> string option \<Rightarrow> bool" where
  "fits_opt n s = (case s of None \<Rightarrow> True | Some x \<Rightarrow> length x \<le> n)"

definition role_fits :: "dbRole \<Rightarrow> bool" where
  "role_fits r \<longleftrightarrow> length (dr_ID r) \<le> 254 \<and> length (dr_Name r) \<le> 200 \<and> length (dr_EntityID r) \<le> 36 \<and>
     fits_opt 254 (dr_CreatedBy r) \<and> fits_opt 254 (dr_UpdatedBy r)"

section \<open>Statements\<close>

definition insert_role :: "dbRole \<Rightarrow> (role_tables, unit) stmt" where
  "insert_role r t =
     (if \<not> role_fits r then Inl pg_truncated
      else if list_ex (\<lambda>x. dr_ID x = dr_ID r \<or> dr_Name x = dr_Name r \<and> dr_EntityID x = dr_EntityID r) (t_roles t)
      then Inl pg_duplicate
      else if dr_EntityID r \<notin> set (t_entities t) then Inl pg_foreign
      else Inr (t\<lparr>t_roles := t_roles t @ [r]\<rparr>, ()))"

definition insert_actions :: "dbRoleAction list \<Rightarrow> (role_tables, unit) stmt" where
  "insert_actions rows t =
     (if \<not> list_all (\<lambda>r. length (da_RoleID r) \<le> 254 \<and> length (da_Action r) \<le> 254) rows then Inl pg_truncated
      else if \<not> distinct rows \<or> list_ex (\<lambda>r. r \<in> set (t_actions t)) rows then Inl pg_duplicate
      else if \<not> list_all (\<lambda>r. da_RoleID r \<in> dr_ID ` set (t_roles t)) rows then Inl pg_foreign
      else Inr (t\<lparr>t_actions := t_actions t @ rows\<rparr>, ()))"

definition insert_members :: "dbRoleMember list \<Rightarrow> (role_tables, unit) stmt" where
  "insert_members rows t =
     (let all_rows = t_members t @ rows in
      if \<not> list_all (\<lambda>r. length (dm_RoleID r) \<le> 254 \<and> length (dm_MemberID r) \<le> 254 \<and> length (dm_EntityID r) \<le> 36) rows
      then Inl pg_truncated
      else if \<not> distinct (map (\<lambda>r. (dm_RoleID r, dm_MemberID r)) all_rows) \<or>
              \<not> distinct (map (\<lambda>r. (dm_MemberID r, dm_EntityID r)) all_rows) then Inl pg_duplicate
      else if \<not> list_all (\<lambda>r. dm_RoleID r \<in> dr_ID ` set (t_roles t)) rows then Inl pg_foreign
      else Inr (t\<lparr>t_members := all_rows\<rparr>, ()))"

text \<open>\<open>UPDATE ... SET updated_at = :updated_at, updated_by = :updated_by WHERE id = :id\<close>\<close>

definition touch_role :: "dbRole \<Rightarrow> (role_tables, unit) stmt" where
  "touch_role r t =
     (if \<not> fits_opt 254 (dr_UpdatedBy r) \<and> dr_ID r \<in> dr_ID ` set (t_roles t) then Inl pg_truncated
      else Inr (t\<lparr>t_roles := map (\<lambda>x. if dr_ID x = dr_ID r
               then x\<lparr>dr_UpdatedAt := dr_UpdatedAt r, dr_UpdatedBy := dr_UpdatedBy r\<rparr> else x) (t_roles t)\<rparr>, ()))"

text \<open>The update of \<open>UpdateRole\<close>: the name only if it is not empty. Returns the changed rows.\<close>

definition renamed :: "dbRole \<Rightarrow> dbRole \<Rightarrow> dbRole" where
  "renamed r x = x\<lparr>dr_Name := (if dr_Name r \<noteq> [] then dr_Name r else dr_Name x),
     dr_UpdatedAt := dr_UpdatedAt r, dr_UpdatedBy := dr_UpdatedBy r\<rparr>"

definition update_role :: "dbRole \<Rightarrow> (role_tables, dbRole list) stmt" where
  "update_role r t =
     (let changed = map (renamed r) (filter (\<lambda>x. dr_ID x = dr_ID r) (t_roles t));
          kept = filter (\<lambda>x. dr_ID x \<noteq> dr_ID r) (t_roles t)
      in if changed \<noteq> [] \<and> (\<not> fits_opt 254 (dr_UpdatedBy r) \<or> length (dr_Name r) > 200) then Inl pg_truncated
         else if list_ex (\<lambda>c. list_ex (\<lambda>x. dr_Name x = dr_Name c \<and> dr_EntityID x = dr_EntityID c) kept) changed
         then Inl pg_duplicate
         else Inr (t\<lparr>t_roles := map (\<lambda>x. if dr_ID x = dr_ID r then renamed r x else x) (t_roles t)\<rparr>, changed))"

text \<open>\<open>DELETE FROM roles WHERE id = ANY(ids)\<close>, with the cascades; the number of rows removed.\<close>

definition delete_roles :: "string list \<Rightarrow> (role_tables, nat) stmt" where
  "delete_roles ids t =
     (let gone = filter (\<lambda>i. i \<in> set ids) (map dr_ID (t_roles t)) in
      Inr (t\<lparr>t_roles := filter (\<lambda>r. dr_ID r \<notin> set gone) (t_roles t),
             t_actions := filter (\<lambda>a. da_RoleID a \<notin> set gone) (t_actions t),
             t_members := filter (\<lambda>m. dm_RoleID m \<notin> set gone) (t_members t)\<rparr>,
           length gone))"

definition delete_actions :: "string \<Rightarrow> string list \<Rightarrow> (role_tables, unit) stmt" where
  "delete_actions roleID actions t =
     Inr (t\<lparr>t_actions := filter (\<lambda>a. \<not> (da_RoleID a = roleID \<and> da_Action a \<in> set actions)) (t_actions t)\<rparr>, ())"

definition delete_all_actions :: "string \<Rightarrow> (role_tables, unit) stmt" where
  "delete_all_actions roleID t = Inr (t\<lparr>t_actions := filter (\<lambda>a. da_RoleID a \<noteq> roleID) (t_actions t)\<rparr>, ())"

definition delete_members :: "string \<Rightarrow> string list \<Rightarrow> (role_tables, unit) stmt" where
  "delete_members roleID members t =
     Inr (t\<lparr>t_members := filter (\<lambda>m. \<not> (dm_RoleID m = roleID \<and> dm_MemberID m \<in> set members)) (t_members t)\<rparr>, ())"

definition delete_all_members :: "string \<Rightarrow> (role_tables, unit) stmt" where
  "delete_all_members roleID t = Inr (t\<lparr>t_members := filter (\<lambda>m. dm_RoleID m \<noteq> roleID) (t_members t)\<rparr>, ())"

section \<open>Operations\<close>

text \<open>
  The statements of one provisioned role. In \<open>AddRoles\<close> the errors of the statements are
  assigned to variables that shadow the one the deferred function looks at.
\<close>

definition action_rows :: "string \<Rightarrow> string list \<Rightarrow> dbRoleAction list" where
  "action_rows roleID actions = map (\<lambda>a. \<lparr>da_RoleID = roleID, da_Action = a\<rparr>) actions"

definition member_rows :: "string \<Rightarrow> string \<Rightarrow> string list \<Rightarrow> dbRoleMember list" where
  "member_rows roleID entityID members =
     map (\<lambda>m. \<lparr>dm_RoleID = roleID, dm_EntityID = entityID, dm_MemberID = m\<rparr>) members"

definition provision_stmts :: "RoleProvision \<Rightarrow> role_tables step list" where
  "provision_stmts rp =
     [(insert_role (toDBRoles (rp_Role rp)), HandleError repoErrCreateEntity)] @
     (if length (rp_OptionalActions rp) > 0
      then [(insert_actions (action_rows (ro_ID (rp_Role rp)) (rp_OptionalActions rp)), HandleError repoErrCreateEntity)]
      else []) @
     (if length (rp_OptionalMembers rp) > 0
      then [(insert_members (member_rows (ro_ID (rp_Role rp)) (ro_EntityID (rp_Role rp)) (rp_OptionalMembers rp)),
             HandleError repoErrCreateEntity)]
      else [])"

text \<open>
  A named statement over a slice is expanded by \<open>sqlx\<close>, which refuses an empty slice. It repeats the list of
  values for every element, and passes the arguments of the names of the whole statement for every element: a
  name outside the list of values, as the \<open>:entity_id\<close> that \<open>RoleAddMembers\<close> returns, makes the numbers of
  parameters and arguments differ for two elements or more.
\<close>

definition named_slice :: "'r list \<Rightarrow> (role_tables, unit) stmt \<Rightarrow> (role_tables, unit) stmt" where
  "named_slice rows st t = (if length rows = 0 then Inl (DriverError ''length of array is 0'') else st t)"

definition one_by_one :: "'r list \<Rightarrow> (role_tables, unit) stmt \<Rightarrow> (role_tables, unit) stmt" where
  "one_by_one rows st t = (if 1 < length rows then Inl (DriverError ''mismatched param and argument count'') else st t)"

lemma slice_ok: "named_slice rows st t = Inr x \<Longrightarrow> st t = Inr x" "one_by_one rows st t = Inr x \<Longrightarrow> st t = Inr x"
  by (simp_all add: named_slice_def one_by_one_def split: if_splits)

definition repo_AddRoles :: "RoleProvision list \<Rightarrow> (roles_db, gerror, RoleProvision list) io" where
  "repo_AddRoles rps =
     in_tx_shadowed repoErrCreateEntity (concat (map provision_stmts rps)) (HandleError repoErrCreateEntity) rps"

definition repo_RemoveRoles :: "string list \<Rightarrow> (roles_db, gerror, unit) io" where
  "repo_RemoveRoles roleIDs =
     trying (db_exec (delete_roles roleIDs)) (HandleError repoErrRemoveEntity)
       (\<lambda>rows. if rows = 0 then fail repoErrNotFound else ret ())"

text \<open>The first row of a result, scanned, or the not-found error.\<close>

definition first_row :: "(dberror \<Rightarrow> gerror) \<Rightarrow> dbRole list \<Rightarrow> (roles_db, gerror, Role) io" where
  "first_row g rows = (case rows of
      [] \<Rightarrow> fail repoErrNotFound
    | r # _ \<Rightarrow> trying (driver (ret r)) g (\<lambda>dbr. ret (toRole dbr)))"

definition repo_UpdateRole :: "Role \<Rightarrow> (roles_db, gerror, Role) io" where
  "repo_UpdateRole role =
     trying (db_exec (update_role (toDBRoles role))) (HandleError repoErrUpdateEntity)
       (first_row (WrapDB repoErrUpdateEntity))"

definition repo_RetrieveRole :: "string \<Rightarrow> (roles_db, gerror, Role) io" where
  "repo_RetrieveRole roleID =
     trying (db_query (\<lambda>t. filter (\<lambda>r. dr_ID r = roleID) (t_roles t))) (HandleError repoErrViewEntity)
       (first_row (HandleError repoErrViewEntity))"

definition repo_RetrieveEntityRole :: "string \<Rightarrow> string \<Rightarrow> (roles_db, gerror, Role) io" where
  "repo_RetrieveEntityRole entityID roleID =
     trying (db_query (\<lambda>t. filter (\<lambda>r. dr_EntityID r = entityID \<and> dr_ID r = roleID) (t_roles t)))
       (HandleError repoErrViewEntity)
       (first_row (HandleError repoErrViewEntity))"

text \<open>\<open>ORDER BY created_at\<close>: ascending, nulls last.\<close>

definition by_created_at :: "dbRole list \<Rightarrow> dbRole list" where
  "by_created_at rs = sort_key (\<lambda>r. the (dr_CreatedAt r)) (filter (\<lambda>r. dr_CreatedAt r \<noteq> None) rs) @
     filter (\<lambda>r. dr_CreatedAt r = None) rs"

definition repo_RetrieveAllRoles :: "string \<Rightarrow> nat \<Rightarrow> nat \<Rightarrow> (roles_db, gerror, RolePage) io" where
  "repo_RetrieveAllRoles entityID limit offset =
     trying (db_query (\<lambda>t. take limit (drop offset (by_created_at (filter (\<lambda>r. dr_EntityID r = entityID) (t_roles t))))))
       (WrapDB repoErrViewEntity) (\<lambda>rows.
     trying (scan_rows rows) (WrapDB repoErrViewEntity) (\<lambda>items.
     trying (Total (\<lambda>t. length (filter (\<lambda>r. dr_EntityID r = entityID) (t_roles t)))) (WrapDB repoErrViewEntity) (\<lambda>total.
     ret \<lparr>rpg_Total = total, rpg_Offset = offset, rpg_Limit = limit, rpg_Roles = map toRole items\<rparr>)))"

definition repo_RoleAddActions :: "Role \<Rightarrow> string list \<Rightarrow> (roles_db, gerror, string list) io" where
  "repo_RoleAddActions role actions =
     in_tx repoErrCreateEntity
       [(named_slice actions (insert_actions (action_rows (ro_ID role) actions)), HandleError repoErrCreateEntity),
        (touch_role (toDBRoles role), HandleError repoErrCreateEntity)]
       (HandleError repoErrCreateEntity) actions"

definition repo_RoleListActions :: "string \<Rightarrow> (roles_db, gerror, string list) io" where
  "repo_RoleListActions roleID =
     trying (db_query (\<lambda>t. filter (\<lambda>a. da_RoleID a = roleID) (t_actions t))) (WrapDB repoErrViewEntity) (\<lambda>rows.
     trying (scan_rows rows) (WrapDB repoErrViewEntity) (\<lambda>items. ret (map da_Action items)))"

definition repo_RoleCheckActionsExists :: "string \<Rightarrow> string list \<Rightarrow> (roles_db, gerror, bool) io" where
  "repo_RoleCheckActionsExists roleID actions =
     trying (Total (\<lambda>t. length (filter (\<lambda>a. da_RoleID a = roleID \<and> da_Action a \<in> set actions) (t_actions t))))
       (WrapDB repoErrViewEntity)
       (\<lambda>count. ret (count = length actions))"

definition repo_RoleRemoveActions :: "Role \<Rightarrow> string list \<Rightarrow> (roles_db, gerror, unit) io" where
  "repo_RoleRemoveActions role actions =
     in_tx repoErrRemoveEntity
       [(delete_actions (ro_ID role) actions, WrapDB repoErrRemoveEntity),
        (touch_role (toDBRoles role), HandleError repoErrRemoveEntity)]
       (WrapDB repoErrRemoveEntity) ()"

definition repo_RoleRemoveAllActions :: "Role \<Rightarrow> (roles_db, gerror, unit) io" where
  "repo_RoleRemoveAllActions role =
     in_tx_shadowed repoErrRemoveEntity
       [(delete_all_actions (ro_ID role), WrapDB repoErrRemoveEntity),
        (touch_role (toDBRoles role), HandleError repoErrRemoveEntity)]
       (WrapDB repoErrRemoveEntity) ()"

definition repo_RoleAddMembers :: "Role \<Rightarrow> string list \<Rightarrow> (roles_db, gerror, string list) io" where
  "repo_RoleAddMembers role members =
     in_tx_shadowed repoErrCreateEntity
       [(named_slice members (one_by_one members (insert_members (member_rows (ro_ID role) (ro_EntityID role) members))), HandleError repoErrCreateEntity),
        (touch_role (toDBRoles role), HandleError repoErrCreateEntity)]
       (HandleError repoErrCreateEntity) members"

definition repo_RoleListMembers :: "string \<Rightarrow> nat \<Rightarrow> nat \<Rightarrow> (roles_db, gerror, MembersPage) io" where
  "repo_RoleListMembers roleID limit offset =
     trying (db_query (\<lambda>t. take limit (drop offset (filter (\<lambda>m. dm_RoleID m = roleID) (t_members t)))))
       (WrapDB repoErrViewEntity) (\<lambda>rows.
     trying (scan_rows rows) (WrapDB repoErrViewEntity) (\<lambda>items.
     trying (Total (\<lambda>t. length (filter (\<lambda>m. dm_RoleID m = roleID) (t_members t)))) (WrapDB repoErrViewEntity) (\<lambda>total.
     ret \<lparr>mp_Total = total, mp_Offset = offset, mp_Limit = limit, mp_Members = map dm_MemberID items\<rparr>)))"

definition repo_RoleCheckMembersExists :: "string \<Rightarrow> string list \<Rightarrow> (roles_db, gerror, bool) io" where
  "repo_RoleCheckMembersExists roleID members =
     trying (Total (\<lambda>t. length (filter (\<lambda>m. dm_RoleID m = roleID \<and> dm_MemberID m \<in> set members) (t_members t))))
       (WrapDB repoErrViewEntity)
       (\<lambda>count. ret (count = length members))"

definition repo_RoleRemoveMembers :: "Role \<Rightarrow> string list \<Rightarrow> (roles_db, gerror, unit) io" where
  "repo_RoleRemoveMembers role members =
     in_tx repoErrRemoveEntity
       [(delete_members (ro_ID role) members, WrapDB repoErrRemoveEntity),
        (touch_role (toDBRoles role), HandleError repoErrRemoveEntity)]
       (WrapDB repoErrRemoveEntity) ()"

definition repo_RoleRemoveAllMembers :: "Role \<Rightarrow> (roles_db, gerror, unit) io" where
  "repo_RoleRemoveAllMembers role =
     in_tx repoErrRemoveEntity
       [(delete_all_members (ro_ID role), WrapDB repoErrRemoveEntity),
        (touch_role (toDBRoles role), HandleError repoErrRemoveEntity)]
       (WrapDB repoErrRemoveEntity) ()"

text \<open>The joins of the entity, role and action (member) tables for the given entities.\<close>

definition join_actions :: "string list \<Rightarrow> role_tables \<Rightarrow> EntityActionRole list" where
  "join_actions entityIDs t =
     concat (map (\<lambda>e. concat (map (\<lambda>r. map (\<lambda>a. \<lparr>ear_EntityID = e, ear_Action = da_Action a, ear_RoleID = dr_ID r\<rparr>)
         (filter (\<lambda>a. da_RoleID a = dr_ID r) (t_actions t)))
       (filter (\<lambda>r. dr_EntityID r = e) (t_roles t))))
     (filter (\<lambda>e. e \<in> set entityIDs) (t_entities t)))"

definition join_members :: "string list \<Rightarrow> role_tables \<Rightarrow> EntityMemberRole list" where
  "join_members entityIDs t =
     concat (map (\<lambda>e. concat (map (\<lambda>r. map (\<lambda>m. \<lparr>emr_EntityID = e, emr_MemberID = dm_MemberID m, emr_RoleID = dr_ID r\<rparr>)
         (filter (\<lambda>m. dm_RoleID m = dr_ID r) (t_members t)))
       (filter (\<lambda>r. dr_EntityID r = e) (t_roles t))))
     (filter (\<lambda>e. e \<in> set entityIDs) (t_entities t)))"

definition repo_RetrieveEntitiesRolesActionsMembers ::
  "string list \<Rightarrow> (roles_db, gerror, EntityActionRole list \<times> EntityMemberRole list) io" where
  "repo_RetrieveEntitiesRolesActionsMembers entityIDs =
     trying (db_query (join_actions entityIDs)) (HandleError repoErrViewEntity) (\<lambda>rows.
     trying (scan_rows rows) (HandleError repoErrViewEntity) (\<lambda>dbears.
     trying (db_query (join_members entityIDs)) (HandleError repoErrViewEntity) (\<lambda>rows'.
     trying (scan_rows rows') (HandleError repoErrViewEntity) (\<lambda>dbemrs.
     ret (dbears, dbemrs)))))"

definition repo_RemoveEntityMembers :: "string \<Rightarrow> string list \<Rightarrow> (roles_db, gerror, unit) io" where
  "repo_RemoveEntityMembers entityID memberIDs = ret ()"

definition repo_RemoveMemberFromAllRoles :: "string \<Rightarrow> (roles_db, gerror, unit) io" where
  "repo_RemoveMemberFromAllRoles memberID = ret ()"

section \<open>The constraints\<close>

definition tables_wf :: "role_tables \<Rightarrow> bool" where
  "tables_wf t \<longleftrightarrow>
     distinct (map dr_ID (t_roles t)) \<and>
     distinct (map (\<lambda>r. (dr_Name r, dr_EntityID r)) (t_roles t)) \<and>
     dr_EntityID ` set (t_roles t) \<subseteq> set (t_entities t) \<and>
     distinct (t_actions t) \<and>
     da_RoleID ` set (t_actions t) \<subseteq> dr_ID ` set (t_roles t) \<and>
     distinct (map (\<lambda>m. (dm_RoleID m, dm_MemberID m)) (t_members t)) \<and>
     distinct (map (\<lambda>m. (dm_MemberID m, dm_EntityID m)) (t_members t)) \<and>
     (\<forall>m \<in> set (t_members t). \<exists>r \<in> set (t_roles t). dr_ID r = dm_RoleID m \<and> dr_EntityID r = dm_EntityID m)"

definition stmt_keeps :: "('t \<Rightarrow> bool) \<Rightarrow> ('t, 'r) stmt \<Rightarrow> bool" where
  "stmt_keeps I st \<longleftrightarrow> (\<forall>t t' r. I t \<longrightarrow> st t = Inr (t', r) \<longrightarrow> I t')"

lemma insert_role_wf: "stmt_keeps tables_wf (insert_role r)"
  by (auto simp: stmt_keeps_def insert_role_def tables_wf_def list_ex_iff split: if_splits)

lemma insert_actions_wf: "stmt_keeps tables_wf (insert_actions rows)"
  by (auto simp: stmt_keeps_def insert_actions_def tables_wf_def list_ex_iff list_all_iff split: if_splits)

lemma insert_members_wf:
  assumes "tables_wf t" "insert_members rows t = Inr (t', u)"
    "\<And>m. m \<in> set rows \<Longrightarrow> \<exists>r \<in> set (t_roles t). dr_ID r = dm_RoleID m \<and> dr_EntityID r = dm_EntityID m"
  shows "tables_wf t'"
proof -
  from assms(2) have t': "t' = t\<lparr>t_members := t_members t @ rows\<rparr>"
    "distinct (map (\<lambda>r. (dm_RoleID r, dm_MemberID r)) (t_members t @ rows))"
    "distinct (map (\<lambda>r. (dm_MemberID r, dm_EntityID r)) (t_members t @ rows))"
    by (simp_all add: insert_members_def Let_def split: if_splits)
  with assms(1,3) show ?thesis
    unfolding tables_wf_def by (simp del: map_append distinct_append add: ball_Un)
qed

text \<open>Changing role rows but for their id and entity.\<close>

lemma wf_map_roles:
  assumes "tables_wf t" "\<And>x. dr_ID (F x) = dr_ID x" "\<And>x. dr_EntityID (F x) = dr_EntityID x"
    "distinct (map (\<lambda>r. (dr_Name r, dr_EntityID r)) (map F (t_roles t)))"
  shows "tables_wf (t\<lparr>t_roles := map F (t_roles t)\<rparr>)"
  using assms by (simp add: tables_wf_def image_image comp_def)

lemma touch_role_wf: "stmt_keeps tables_wf (touch_role r)"
  unfolding stmt_keeps_def
proof (intro allI impI)
  fix t t' :: role_tables and u :: unit
  let ?F = "\<lambda>x. if dr_ID x = dr_ID r then x\<lparr>dr_UpdatedAt := dr_UpdatedAt r, dr_UpdatedBy := dr_UpdatedBy r\<rparr> else x"
  assume wf: "tables_wf t" and "touch_role r t = Inr (t', u)"
  then have "t' = t\<lparr>t_roles := map ?F (t_roles t)\<rparr>" by (simp add: touch_role_def split: if_splits)
  moreover have "map (\<lambda>r. (dr_Name r, dr_EntityID r)) (map ?F (t_roles t)) = map (\<lambda>r. (dr_Name r, dr_EntityID r)) (t_roles t)"
    by simp
  with wf have "distinct (map (\<lambda>r. (dr_Name r, dr_EntityID r)) (map ?F (t_roles t)))" unfolding tables_wf_def by metis
  ultimately show "tables_wf t'" using wf by (simp only:) (rule wf_map_roles; simp)
qed

lemma renamed_simps [simp]: "dr_ID (renamed r x) = dr_ID x" "dr_EntityID (renamed r x) = dr_EntityID x"
  by (simp_all add: renamed_def)

lemma distinct_map_upd_one:
  assumes "distinct (map f xs)" "distinct (map g xs)"
    and "\<And>x y. x \<in> set xs \<Longrightarrow> y \<in> set xs \<Longrightarrow> f x = i \<Longrightarrow> f y \<noteq> i \<Longrightarrow> g y \<noteq> g (h x)"
  shows "distinct (map g (map (\<lambda>x. if f x = i then h x else x) xs))"
  using assms
proof (induction xs)
  case (Cons x xs)
  then have ih: "distinct (map g (map (\<lambda>x. if f x = i then h x else x) xs))" by auto
  show ?case
  proof (cases "f x = i")
    case True
    then have "map (\<lambda>x. if f x = i then h x else x) xs = xs"
      using Cons.prems(1) by (intro map_idI) (metis (no_types, lifting) True distinct.simps(2) image_eqI list.set_map list.simps(9))
    moreover have "g (h x) \<notin> g ` set xs"
      using Cons.prems(1,3) True by (metis (no_types, lifting) distinct.simps(2) image_iff list.set_intros list.set_map list.simps(9))
    ultimately show ?thesis using True Cons.prems(2) by simp
  next
    case False
    have "g x \<noteq> g (if f y = i then h y else y)" if "y \<in> set xs" for y
      using Cons.prems(2,3) False that by (auto simp: image_iff)
    then have "g x \<notin> set (map g (map (\<lambda>x. if f x = i then h x else x) xs))" by auto
    with False ih show ?thesis by simp
  qed
qed simp

lemma update_role_wf: "stmt_keeps tables_wf (update_role r)"
  unfolding stmt_keeps_def
proof (intro allI impI)
  fix t t' cs assume wf: "tables_wf t" and u: "update_role r t = Inr (t', cs)"
  let ?f = "\<lambda>x. if dr_ID x = dr_ID r then renamed r x else x"
  from u have t': "t' = t\<lparr>t_roles := map ?f (t_roles t)\<rparr>"
    and dup: "\<And>x y. x \<in> set (t_roles t) \<Longrightarrow> dr_ID x = dr_ID r \<Longrightarrow> y \<in> set (t_roles t) \<Longrightarrow> dr_ID y \<noteq> dr_ID r \<Longrightarrow>
       \<not> (dr_Name y = dr_Name (renamed r x) \<and> dr_EntityID y = dr_EntityID x)"
    by (auto simp: update_role_def Let_def list_ex_iff split: if_splits)
  have "distinct (map (\<lambda>r. (dr_Name r, dr_EntityID r)) (map ?f (t_roles t)))"
    using wf dup by (intro distinct_map_upd_one) (auto simp: tables_wf_def)
  with wf show "tables_wf t'" unfolding t' by (intro wf_map_roles) auto
qed

lemma distinct_map_filter_stmt: "distinct (map f xs) \<Longrightarrow> distinct (map f (filter P xs))"
  by (induction xs) auto

lemma delete_wf:
  "stmt_keeps tables_wf (delete_roles ids)"
  "stmt_keeps tables_wf (delete_actions i as)"
  "stmt_keeps tables_wf (delete_all_actions i)"
  "stmt_keeps tables_wf (delete_members i ms)"
  "stmt_keeps tables_wf (delete_all_members i)"
proof -
  show "stmt_keeps tables_wf (delete_roles ids)"
    unfolding stmt_keeps_def
  proof (intro allI impI)
    fix t t' :: role_tables and r :: nat
    let ?g = "dr_ID ` set (t_roles t) \<inter> set ids"
    assume wf: "tables_wf t" and "delete_roles ids t = Inr (t', r)"
    then have t': "t_entities t' = t_entities t" "t_roles t' = filter (\<lambda>r. dr_ID r \<notin> ?g) (t_roles t)"
      "t_actions t' = filter (\<lambda>a. da_RoleID a \<notin> ?g) (t_actions t)"
      "t_members t' = filter (\<lambda>m. dm_RoleID m \<notin> ?g) (t_members t)"
      by (auto simp: delete_roles_def Let_def)
    show "tables_wf t'"
      unfolding tables_wf_def t'
    proof (intro conjI)
      show "da_RoleID ` set (filter (\<lambda>a. da_RoleID a \<notin> ?g) (t_actions t)) \<subseteq>
          dr_ID ` set (filter (\<lambda>r. dr_ID r \<notin> ?g) (t_roles t))"
        using wf unfolding tables_wf_def by auto
      show "\<forall>m \<in> set (filter (\<lambda>m. dm_RoleID m \<notin> ?g) (t_members t)).
          \<exists>r \<in> set (filter (\<lambda>r. dr_ID r \<notin> ?g) (t_roles t)). dr_ID r = dm_RoleID m \<and> dr_EntityID r = dm_EntityID m"
        using wf unfolding tables_wf_def by (simp add: Bex_def) metis
    qed (use wf in \<open>auto simp: tables_wf_def intro: distinct_map_filter_stmt\<close>)
  qed
qed (auto simp: stmt_keeps_def tables_wf_def delete_actions_def delete_all_actions_def
      delete_members_def delete_all_members_def intro: distinct_map_filter_stmt)

section \<open>What the repository promises\<close>

text \<open>
  The abstract state: which role belongs to which entity, the actions of the roles and their
  members.
\<close>

record role_state =
  own :: "(string \<times> string) set"
  acts :: "(string \<times> string) set"
  mems :: "(string \<times> string) set"

definition role_view :: "role_tables \<Rightarrow> role_state" where
  "role_view t = \<lparr>own = (\<lambda>r. (dr_ID r, dr_EntityID r)) ` set (t_roles t),
     acts = (\<lambda>a. (da_RoleID a, da_Action a)) ` set (t_actions t),
     mems = (\<lambda>m. (dm_RoleID m, dm_MemberID m)) ` set (t_members t)\<rparr>"

definition db_view :: "roles_db \<Rightarrow> role_state" where
  "db_view d = role_view (committed d)"

definition db_wf :: "roles_db \<Rightarrow> bool" where
  "db_wf d = tables_wf (committed d)"

definition add_provision :: "RoleProvision \<Rightarrow> role_state \<Rightarrow> role_state" where
  "add_provision rp s =
     \<lparr>own = insert (ro_ID (rp_Role rp), ro_EntityID (rp_Role rp)) (own s),
      acts = acts s \<union> Pair (ro_ID (rp_Role rp)) ` set (rp_OptionalActions rp),
      mems = mems s \<union> Pair (ro_ID (rp_Role rp)) ` set (rp_OptionalMembers rp)\<rparr>"

definition drop_roles :: "string set \<Rightarrow> role_state \<Rightarrow> role_state" where
  "drop_roles R s = \<lparr>own = {x \<in> own s. fst x \<notin> R}, acts = {x \<in> acts s. fst x \<notin> R}, mems = {x \<in> mems s. fst x \<notin> R}\<rparr>"

text \<open>The statements on the abstract state.\<close>

lemma view_insert_role:
  "insert_role r t = Inr (t', u) \<Longrightarrow>
     dr_ID r \<notin> fst ` own (role_view t) \<and>
     role_view t' = (role_view t)\<lparr>own := insert (dr_ID r, dr_EntityID r) (own (role_view t))\<rparr>"
  by (auto simp: insert_role_def role_view_def list_ex_iff split: if_splits)

lemma view_insert_actions:
  "insert_actions (action_rows i as) t = Inr (t', u) \<Longrightarrow>
     role_view t' = (role_view t)\<lparr>acts := acts (role_view t) \<union> Pair i ` set as\<rparr>"
  by (auto simp: insert_actions_def role_view_def action_rows_def image_Un image_image split: if_split_asm)

lemma insert_members_Inr: "insert_members rows t = Inr (t', u) \<Longrightarrow> t' = t\<lparr>t_members := t_members t @ rows\<rparr>"
  by (simp add: insert_members_def Let_def split: if_split_asm)

lemma view_insert_members:
  "insert_members (member_rows i e ms) t = Inr (t', u) \<Longrightarrow>
     role_view t' = (role_view t)\<lparr>mems := mems (role_view t) \<union> Pair i ` set ms\<rparr>"
  using insert_members_Inr by (fastforce simp: role_view_def member_rows_def image_Un image_image)

lemma view_map_roles:
  "(\<And>x. dr_ID (F x) = dr_ID x) \<Longrightarrow> (\<And>x. dr_EntityID (F x) = dr_EntityID x) \<Longrightarrow>
     role_view (t\<lparr>t_roles := map F (t_roles t)\<rparr>) = role_view t"
  by (simp add: role_view_def image_image)

lemma view_touch_role: "touch_role r t = Inr (t', u) \<Longrightarrow> role_view t' = role_view t"
  by (auto simp: touch_role_def view_map_roles split: if_split_asm)

lemma view_update_role: "update_role r t = Inr (t', cs) \<Longrightarrow> role_view t' = role_view t"
  by (simp add: update_role_def view_map_roles Let_def split: if_split_asm) (auto simp: view_map_roles)

lemma view_delete_roles:
  assumes "delete_roles ids t = Inr (t', n)"
  shows "role_view t' = drop_roles (set ids \<inter> fst ` own (role_view t)) (role_view t)"
    and "n = 0 \<longleftrightarrow> set ids \<inter> fst ` own (role_view t) = {}"
proof -
  have o: "fst ` own (role_view t) = dr_ID ` set (t_roles t)" by (simp add: role_view_def image_image)
  show "n = 0 \<longleftrightarrow> set ids \<inter> fst ` own (role_view t) = {}"
  proof -
    have "n = length (filter (\<lambda>i. i \<in> set ids) (map dr_ID (t_roles t)))"
      using assms by (simp add: delete_roles_def Let_def)
    then show ?thesis unfolding o by (simp add: filter_empty_conv disjoint_iff) blast
  qed
  show "role_view t' = drop_roles (set ids \<inter> fst ` own (role_view t)) (role_view t)"
    unfolding o using assms by (auto simp: delete_roles_def Let_def role_view_def drop_roles_def)
qed

lemma drop_no_roles [simp]: "drop_roles {} s = s"
  by (simp add: drop_roles_def)

lemma view_delete:
  "delete_actions i as t = Inr (t', u) \<Longrightarrow> role_view t' = (role_view t)\<lparr>acts := acts (role_view t) - Pair i ` set as\<rparr>"
  "delete_all_actions i t = Inr (t', u) \<Longrightarrow> role_view t' = (role_view t)\<lparr>acts := {x \<in> acts (role_view t). fst x \<noteq> i}\<rparr>"
  "delete_members i ms t = Inr (t', u) \<Longrightarrow> role_view t' = (role_view t)\<lparr>mems := mems (role_view t) - Pair i ` set ms\<rparr>"
  "delete_all_members i t = Inr (t', u) \<Longrightarrow> role_view t' = (role_view t)\<lparr>mems := {x \<in> mems (role_view t). fst x \<noteq> i}\<rparr>"
  by (force simp: delete_actions_def delete_all_actions_def delete_members_def delete_all_members_def role_view_def)+

lemma run_provision:
  assumes "apply_stmts (provision_stmts rp) t = Some t'"
  shows "(tables_wf t \<longrightarrow> tables_wf t') \<and> role_view t' = add_provision rp (role_view t) \<and> ro_ID (rp_Role rp) \<notin> fst ` own (role_view t)"
proof -
  let ?r = "toDBRoles (rp_Role rp)"
  let ?as = "action_rows (ro_ID (rp_Role rp)) (rp_OptionalActions rp)"
  let ?ms = "member_rows (ro_ID (rp_Role rp)) (ro_EntityID (rp_Role rp)) (rp_OptionalMembers rp)"
  have ids: "dr_ID ?r = ro_ID (rp_Role rp)" "dr_EntityID ?r = ro_EntityID (rp_Role rp)" by (simp_all add: toDBRoles_def)
  from assms obtain t1 t2 where 1: "insert_role ?r t = Inr (t1, ())"
    and 2: "rp_OptionalActions rp = [] \<and> t2 = t1 \<or> insert_actions ?as t1 = Inr (t2, ())"
    and 3: "rp_OptionalMembers rp = [] \<and> t' = t2 \<or> insert_members ?ms t2 = Inr (t', ())"
    by (auto simp: provision_stmts_def split: if_splits sum.splits) blast
  have wf1: "tables_wf t1" if "tables_wf t" using insert_role_wf that 1 by (auto simp: stmt_keeps_def)
  have wf2: "tables_wf t2" if "tables_wf t" using that 2 insert_actions_wf wf1 by (auto simp: stmt_keeps_def)
  have r: "?r \<in> set (t_roles t1)" using 1 by (auto simp: insert_role_def split: if_splits)
  have "t_roles t2 = t_roles t1" using 2 by (auto simp: insert_actions_def split: if_splits)
  with r have "\<exists>x \<in> set (t_roles t2). dr_ID x = dm_RoleID m \<and> dr_EntityID x = dm_EntityID m" if "m \<in> set ?ms" for m
    using that ids by (auto simp: member_rows_def)
  with 3 wf2 insert_members_wf have "tables_wf t \<longrightarrow> tables_wf t'" by blast
  moreover have "role_view t2 = (role_view t1)\<lparr>acts := acts (role_view t1) \<union> Pair (ro_ID (rp_Role rp)) ` set (rp_OptionalActions rp)\<rparr>"
    using 2 view_insert_actions by auto
  moreover have "role_view t' = (role_view t2)\<lparr>mems := mems (role_view t2) \<union> Pair (ro_ID (rp_Role rp)) ` set (rp_OptionalMembers rp)\<rparr>"
    using 3 view_insert_members by auto
  ultimately show ?thesis using view_insert_role [OF 1] ids by (simp add: add_provision_def)
qed

lemma apply_stmts_append: "apply_stmts (xs @ ys) t = Option.bind (apply_stmts xs t) (apply_stmts ys)"
  by (induction xs t rule: apply_stmts.induct) (auto split: sum.splits)

lemma run_provisions:
  "apply_stmts (concat (map provision_stmts rps)) t = Some t' \<Longrightarrow>
     (tables_wf t \<longrightarrow> tables_wf t') \<and> role_view t' = fold add_provision rps (role_view t) \<and>
     (\<forall>rp \<in> set rps. ro_ID (rp_Role rp) \<notin> fst ` own (role_view t)) \<and> distinct (map (\<lambda>rp. ro_ID (rp_Role rp)) rps)"
proof (induction rps arbitrary: t)
  case (Cons rp rps)
  from Cons.prems obtain t1 where 1: "apply_stmts (provision_stmts rp) t = Some t1"
    and 2: "apply_stmts (concat (map provision_stmts rps)) t1 = Some t'"
    by (auto simp: apply_stmts_append split: bind_splits)
  from run_provision [OF 1] Cons.IH [OF 2] show ?case by (auto simp: add_provision_def)
qed simp

text \<open>
  The repository as its clients see it: the record of its operations, with the laws as a
  locale. Each operation changes the abstract state as stated when it succeeds and not at all
  when it fails; all keep the constraints.
\<close>

record 'w Repository =
  AddRoles :: "RoleProvision list \<Rightarrow> ('w, gerror, RoleProvision list) io"
  RemoveRoles :: "string list \<Rightarrow> ('w, gerror, unit) io"
  UpdateRole :: "Role \<Rightarrow> ('w, gerror, Role) io"
  RetrieveRole :: "string \<Rightarrow> ('w, gerror, Role) io"
  RetrieveEntityRole :: "string \<Rightarrow> string \<Rightarrow> ('w, gerror, Role) io"
  RetrieveAllRoles :: "string \<Rightarrow> nat \<Rightarrow> nat \<Rightarrow> ('w, gerror, RolePage) io"
  RoleAddActions :: "Role \<Rightarrow> string list \<Rightarrow> ('w, gerror, string list) io"
  RoleListActions :: "string \<Rightarrow> ('w, gerror, string list) io"
  RoleCheckActionsExists :: "string \<Rightarrow> string list \<Rightarrow> ('w, gerror, bool) io"
  RoleRemoveActions :: "Role \<Rightarrow> string list \<Rightarrow> ('w, gerror, unit) io"
  RoleRemoveAllActions :: "Role \<Rightarrow> ('w, gerror, unit) io"
  RoleAddMembers :: "Role \<Rightarrow> string list \<Rightarrow> ('w, gerror, string list) io"
  RoleListMembers :: "string \<Rightarrow> nat \<Rightarrow> nat \<Rightarrow> ('w, gerror, MembersPage) io"
  RoleCheckMembersExists :: "string \<Rightarrow> string list \<Rightarrow> ('w, gerror, bool) io"
  RoleRemoveMembers :: "Role \<Rightarrow> string list \<Rightarrow> ('w, gerror, unit) io"
  RoleRemoveAllMembers :: "Role \<Rightarrow> ('w, gerror, unit) io"
  RetrieveEntitiesRolesActionsMembers ::
    "string list \<Rightarrow> ('w, gerror, EntityActionRole list \<times> EntityMemberRole list) io"
  RemoveEntityMembers :: "string \<Rightarrow> string list \<Rightarrow> ('w, gerror, unit) io"
  RemoveMemberFromAllRoles :: "string \<Rightarrow> ('w, gerror, unit) io"

text \<open>The state as it is, with a condition on the result.\<close>

abbreviation (input) unchanged :: "(role_state \<Rightarrow> 'a \<Rightarrow> bool) \<Rightarrow> role_state \<Rightarrow> 'a \<Rightarrow> role_state \<Rightarrow> bool" where
  "unchanged P \<equiv> \<lambda>s x s'. s' = s \<and> P s x"

locale role_repository =
  fixes repo :: "'w Repository" and view :: "'w \<Rightarrow> role_state"
  assumes AddRoles_eff: "effect view (AddRoles repo rps) (\<lambda>s x s'. x = rps \<and> s' = fold add_provision rps s \<and>
      (\<forall>rp \<in> set rps. ro_ID (rp_Role rp) \<notin> fst ` own s) \<and> distinct (map (\<lambda>rp. ro_ID (rp_Role rp)) rps))"
    and RemoveRoles_eff: "effect view (RemoveRoles repo ids) (\<lambda>s x s'. s' = drop_roles (set ids \<inter> fst ` own s) s)"
    and UpdateRole_eff: "effect view (UpdateRole repo role) (unchanged (\<lambda>s x. True))"
    and RetrieveEntityRole_eff: "effect view (RetrieveEntityRole repo e i)
      (unchanged (\<lambda>s ro. ro_ID ro = i \<and> ro_EntityID ro = e \<and> (i, e) \<in> own s))"
    and RetrieveAllRoles_eff: "effect view (RetrieveAllRoles repo e l n) (unchanged (\<lambda>s x. True))"
    and RoleAddActions_eff: "effect view (RoleAddActions repo ro as)
      (\<lambda>s x s'. x = as \<and> s' = s\<lparr>acts := acts s \<union> Pair (ro_ID ro) ` set as\<rparr>)"
    and RoleListActions_eff: "effect view (RoleListActions repo i) (unchanged (\<lambda>s x. set x = {a. (i, a) \<in> acts s}))"
    and RoleCheckActionsExists_eff: "effect view (RoleCheckActionsExists repo i as) (unchanged (\<lambda>s x. True))"
    and RoleRemoveActions_eff: "effect view (RoleRemoveActions repo ro as)
      (\<lambda>s x s'. s' = s\<lparr>acts := acts s - Pair (ro_ID ro) ` set as\<rparr>)"
    and RoleRemoveAllActions_eff: "effect view (RoleRemoveAllActions repo ro)
      (\<lambda>s x s'. s' = s\<lparr>acts := {y \<in> acts s. fst y \<noteq> ro_ID ro}\<rparr>)"
    and RoleAddMembers_eff: "effect view (RoleAddMembers repo ro ms)
      (\<lambda>s x s'. x = ms \<and> s' = s\<lparr>mems := mems s \<union> Pair (ro_ID ro) ` set ms\<rparr>)"
    and RoleListMembers_eff: "effect view (RoleListMembers repo i l n) (unchanged (\<lambda>s x. True))"
    and RoleCheckMembersExists_eff: "effect view (RoleCheckMembersExists repo i ms) (unchanged (\<lambda>s x. True))"
    and RoleRemoveMembers_eff: "effect view (RoleRemoveMembers repo ro ms)
      (\<lambda>s x s'. s' = s\<lparr>mems := mems s - Pair (ro_ID ro) ` set ms\<rparr>)"
    and RoleRemoveAllMembers_eff: "effect view (RoleRemoveAllMembers repo ro)
      (\<lambda>s x s'. s' = s\<lparr>mems := {y \<in> mems s. fst y \<noteq> ro_ID ro}\<rparr>)"
    and RetrieveEntities_eff: "effect view (RetrieveEntitiesRolesActionsMembers repo es)
      (unchanged (\<lambda>s (ears, emrs).
         (\<forall>x \<in> set ears. ear_EntityID x \<in> set es \<and> (ear_RoleID x, ear_EntityID x) \<in> own s \<and> (ear_RoleID x, ear_Action x) \<in> acts s) \<and>
         (\<forall>x \<in> set emrs. (emr_RoleID x, emr_EntityID x) \<in> own s \<and> (emr_RoleID x, emr_MemberID x) \<in> mems s)))"
    and RemoveEntityMembers_eff: "effect view (RemoveEntityMembers repo e ms) (unchanged (\<lambda>s x. True))"
    and RemoveMemberFromAllRoles_eff: "effect view (RemoveMemberFromAllRoles repo m) (unchanged (\<lambda>s x. True))"

section \<open>The PostgreSQL repository\<close>

definition postgres_repo :: "roles_db Repository" where
  "postgres_repo = \<lparr>AddRoles = repo_AddRoles, RemoveRoles = repo_RemoveRoles, UpdateRole = repo_UpdateRole,
     RetrieveRole = repo_RetrieveRole, RetrieveEntityRole = repo_RetrieveEntityRole,
     RetrieveAllRoles = repo_RetrieveAllRoles, RoleAddActions = repo_RoleAddActions,
     RoleListActions = repo_RoleListActions, RoleCheckActionsExists = repo_RoleCheckActionsExists,
     RoleRemoveActions = repo_RoleRemoveActions, RoleRemoveAllActions = repo_RoleRemoveAllActions,
     RoleAddMembers = repo_RoleAddMembers, RoleListMembers = repo_RoleListMembers,
     RoleCheckMembersExists = repo_RoleCheckMembersExists, RoleRemoveMembers = repo_RoleRemoveMembers,
     RoleRemoveAllMembers = repo_RoleRemoveAllMembers,
     RetrieveEntitiesRolesActionsMembers = repo_RetrieveEntitiesRolesActionsMembers,
     RemoveEntityMembers = repo_RemoveEntityMembers, RemoveMemberFromAllRoles = repo_RemoveMemberFromAllRoles\<rparr>"

text \<open>Transactions and reads, on the abstract state.\<close>

lemma effect_in_tx:
  assumes "\<And>t t'. apply_stmts sts t = Some t' \<Longrightarrow> P (role_view t) x (role_view t')"
  shows "effect db_view (in_tx w sts g x) P" "effect db_view (in_tx_shadowed w sts g x) P"
  using assms by (auto intro!: effectI simp: db_view_def
      dest!: in_tx_ok in_tx_err in_tx_shadowed_ok in_tx_shadowed_err)

lemma effect_reads:
  assumes "reads m" "\<And>d x d'. m d = (Inr x, d') \<Longrightarrow> P (db_view d) x"
  shows "effect db_view m (unchanged P)"
  using assms by (auto intro!: effectI simp: db_view_def dest: readsD)

lemma reads_first_row [io_intros]: "reads (first_row g rows)"
  unfolding first_row_def by (intro io_intros reads_driver)

lemma first_row_ok: "first_row g rows d = (Inr ro, d') \<Longrightarrow> \<exists>r \<in> set rows. ro = toRole r"
  by (auto simp: first_row_def split: list.splits dest!: trying_InrD driver_ret)

lemma two_steps: "apply_stmts [(st, g), (touch_role r, g')] t = Some t' \<Longrightarrow>
    \<exists>t1. st t = Inr (t1, ()) \<and> role_view t' = role_view t1"
  by (auto split: sum.splits dest: view_touch_role)

lemmas repo_defs =
  repo_AddRoles_def repo_RemoveRoles_def repo_UpdateRole_def repo_RetrieveRole_def repo_RetrieveEntityRole_def
  repo_RetrieveAllRoles_def repo_RoleAddActions_def repo_RoleListActions_def repo_RoleCheckActionsExists_def
  repo_RoleRemoveActions_def repo_RoleRemoveAllActions_def repo_RoleAddMembers_def repo_RoleListMembers_def
  repo_RoleCheckMembersExists_def repo_RoleRemoveMembers_def repo_RoleRemoveAllMembers_def
  repo_RetrieveEntitiesRolesActionsMembers_def repo_RemoveEntityMembers_def repo_RemoveMemberFromAllRoles_def

lemma repo_reads:
  "reads (repo_RetrieveRole i)"
  "reads (repo_RetrieveEntityRole e i)"
  "reads (repo_RetrieveAllRoles e l n)"
  "reads (repo_RoleListActions i)"
  "reads (repo_RoleCheckActionsExists i as)"
  "reads (repo_RoleListMembers i l n)"
  "reads (repo_RoleCheckMembersExists i ms)"
  "reads (repo_RetrieveEntitiesRolesActionsMembers es)"
  "reads (repo_RemoveEntityMembers e ms)"
  "reads (repo_RemoveMemberFromAllRoles m)"
  unfolding repo_defs by (intro io_intros)+

lemma RetrieveEntityRole_result:
  assumes "repo_RetrieveEntityRole e i d = (Inr ro, d')"
  shows "ro_ID ro = i \<and> ro_EntityID ro = e \<and> (i, e) \<in> own (db_view d)"
proof -
  from assms obtain rows d1 where q: "db_query (\<lambda>t. filter (\<lambda>r. dr_EntityID r = e \<and> dr_ID r = i) (t_roles t)) d = (Inr rows, d1)"
    and f: "first_row (HandleError repoErrViewEntity) rows d1 = (Inr ro, d')"
    by (auto simp: repo_RetrieveEntityRole_def dest!: trying_InrD)
  from first_row_ok [OF f] db_query_ok [OF q] obtain r where "r \<in> set (t_roles (committed d))" "ro = toRole r"
    "dr_EntityID r = e" "dr_ID r = i" by auto
  then show ?thesis by (force simp: toRole_def db_view_def role_view_def)
qed

lemma RoleListActions_result:
  assumes "repo_RoleListActions i d = (Inr xs, d')"
  shows "xs = map da_Action (filter (\<lambda>a. da_RoleID a = i) (t_actions (committed d)))"
  using assms by (auto simp: repo_RoleListActions_def dest!: trying_InrD db_query_ok scan_rows_ok)

lemma RetrieveEntities_result:
  assumes "repo_RetrieveEntitiesRolesActionsMembers es d = (Inr (ears, emrs), d')"
  shows "ears = join_actions es (committed d) \<and> emrs = join_members es (committed d)"
proof -
  from assms obtain r1 d1 d2 r2 d3 where
    "db_query (join_actions es) d = (Inr r1, d1)" "scan_rows r1 d1 = (Inr ears, d2)"
    "db_query (join_members es) d2 = (Inr r2, d3)" "scan_rows r2 d3 = (Inr emrs, d')"
    by (auto simp: repo_RetrieveEntitiesRolesActionsMembers_def dest!: trying_InrD)
  then show ?thesis
    using readsD [OF reads_scan_rows] readsD [OF reads_query] by (metis db_query_ok scan_rows_ok)
qed

lemma join_rows:
  "x \<in> set (join_actions es t) \<Longrightarrow> ear_EntityID x \<in> set es \<and>
     (ear_RoleID x, ear_EntityID x) \<in> own (role_view t) \<and> (ear_RoleID x, ear_Action x) \<in> acts (role_view t)"
  "y \<in> set (join_members es t) \<Longrightarrow>
     (emr_RoleID y, emr_EntityID y) \<in> own (role_view t) \<and> (emr_RoleID y, emr_MemberID y) \<in> mems (role_view t)"
  by (auto simp: join_actions_def join_members_def role_view_def image_iff) (metis+)?

lemma effect_RemoveRoles: "effect db_view (repo_RemoveRoles ids) (\<lambda>s x s'. s' = drop_roles (set ids \<inter> fst ` own s) s)"
proof (rule effectI)
  fix d e d' assume r: "repo_RemoveRoles ids d = (Inl e, d')"
  obtain q d1 where q: "db_exec (delete_roles ids) d = (q, d1)" by fastforce
  show "db_view d' = db_view d"
  proof (cases q)
    case (Inl e1)
    with r q have "d' = d1" by (simp add: repo_RemoveRoles_def trying_apply)
    with db_exec_err [OF q [unfolded Inl]] show ?thesis by (simp add: db_view_def)
  next
    case (Inr n)
    with r q have n: "n = 0" "d' = d1" by (auto simp: repo_RemoveRoles_def trying_apply split: if_splits)
    with db_exec_ok [of "delete_roles ids" d n d1] q Inr
    have t: "delete_roles ids (committed d) = Inr (committed d1, 0)" by auto
    show ?thesis using view_delete_roles [OF t] n by (simp add: db_view_def)
  qed
qed (auto simp: repo_RemoveRoles_def db_view_def dest!: trying_InrD db_exec_ok view_delete_roles(1) split: if_splits)

lemma effect_UpdateRole: "effect db_view (repo_UpdateRole role) (unchanged (\<lambda>s x. True))"
proof -
  have "db_view d' = db_view d" if r: "repo_UpdateRole role d = (x, d')" for d x d'
  proof -
    obtain q d1 where q: "db_exec (update_role (toDBRoles role)) d = (q, d1)" by fastforce
    then have "db_view d1 = db_view d"
      by (cases q) (auto simp: db_view_def dest!: db_exec_ok db_exec_err view_update_role)
    moreover have "db_view d' = db_view d1"
      using r q readsD [OF reads_first_row]
      by (cases q) (auto simp: repo_UpdateRole_def trying_apply db_view_def)
    ultimately show ?thesis by simp
  qed
  then show ?thesis by (intro effectI) auto
qed

lemma postgres_simps [simp]:
  "AddRoles postgres_repo = repo_AddRoles" "RemoveRoles postgres_repo = repo_RemoveRoles"
  "UpdateRole postgres_repo = repo_UpdateRole" "RetrieveRole postgres_repo = repo_RetrieveRole"
  "RetrieveEntityRole postgres_repo = repo_RetrieveEntityRole"
  "RetrieveAllRoles postgres_repo = repo_RetrieveAllRoles" "RoleAddActions postgres_repo = repo_RoleAddActions"
  "RoleListActions postgres_repo = repo_RoleListActions"
  "RoleCheckActionsExists postgres_repo = repo_RoleCheckActionsExists"
  "RoleRemoveActions postgres_repo = repo_RoleRemoveActions"
  "RoleRemoveAllActions postgres_repo = repo_RoleRemoveAllActions"
  "RoleAddMembers postgres_repo = repo_RoleAddMembers" "RoleListMembers postgres_repo = repo_RoleListMembers"
  "RoleCheckMembersExists postgres_repo = repo_RoleCheckMembersExists"
  "RoleRemoveMembers postgres_repo = repo_RoleRemoveMembers"
  "RoleRemoveAllMembers postgres_repo = repo_RoleRemoveAllMembers"
  "RetrieveEntitiesRolesActionsMembers postgres_repo = repo_RetrieveEntitiesRolesActionsMembers"
  "RemoveEntityMembers postgres_repo = repo_RemoveEntityMembers"
  "RemoveMemberFromAllRoles postgres_repo = repo_RemoveMemberFromAllRoles"
  by (simp_all add: postgres_repo_def)

interpretation pg: role_repository postgres_repo db_view
proof (unfold_locales, unfold postgres_simps)
  show "effect db_view (repo_AddRoles rps) (\<lambda>s x s'. x = rps \<and> s' = fold add_provision rps s \<and>
      (\<forall>rp \<in> set rps. ro_ID (rp_Role rp) \<notin> fst ` own s) \<and> distinct (map (\<lambda>rp. ro_ID (rp_Role rp)) rps))" for rps
    unfolding repo_AddRoles_def by (rule effect_in_tx(2)) (auto dest!: run_provisions)
  show "effect db_view (repo_RemoveRoles ids) (\<lambda>s x s'. s' = drop_roles (set ids \<inter> fst ` own s) s)" for ids
    by (rule effect_RemoveRoles)
  show "effect db_view (repo_UpdateRole role) (unchanged (\<lambda>s x. True))" for role by (rule effect_UpdateRole)
  show "effect db_view (repo_RetrieveEntityRole e i)
      (unchanged (\<lambda>s ro. ro_ID ro = i \<and> ro_EntityID ro = e \<and> (i, e) \<in> own s))" for e i
    by (rule effect_reads [OF repo_reads(2)]) (rule RetrieveEntityRole_result)
  show "effect db_view (repo_RoleListActions i) (unchanged (\<lambda>s x. set x = {a. (i, a) \<in> acts s}))" for i
    by (rule effect_reads [OF repo_reads(4)]) (force dest!: RoleListActions_result simp: db_view_def role_view_def)
  show "effect db_view (repo_RoleAddActions ro as)
      (\<lambda>s x s'. x = as \<and> s' = s\<lparr>acts := acts s \<union> Pair (ro_ID ro) ` set as\<rparr>)" for ro as
    unfolding repo_RoleAddActions_def by (rule effect_in_tx(1)) (drule two_steps, auto dest!: slice_ok view_insert_actions)
  show "effect db_view (repo_RoleRemoveActions ro as) (\<lambda>s x s'. s' = s\<lparr>acts := acts s - Pair (ro_ID ro) ` set as\<rparr>)" for ro as
    unfolding repo_RoleRemoveActions_def by (rule effect_in_tx(1)) (drule two_steps, auto dest!: view_delete)
  show "effect db_view (repo_RoleRemoveAllActions ro) (\<lambda>s x s'. s' = s\<lparr>acts := {y \<in> acts s. fst y \<noteq> ro_ID ro}\<rparr>)" for ro
    unfolding repo_RoleRemoveAllActions_def by (rule effect_in_tx(2)) (drule two_steps, auto dest!: view_delete)
  show "effect db_view (repo_RoleAddMembers ro ms)
      (\<lambda>s x s'. x = ms \<and> s' = s\<lparr>mems := mems s \<union> Pair (ro_ID ro) ` set ms\<rparr>)" for ro ms
    unfolding repo_RoleAddMembers_def by (rule effect_in_tx(2)) (drule two_steps, auto dest!: slice_ok view_insert_members)
  show "effect db_view (repo_RoleRemoveMembers ro ms) (\<lambda>s x s'. s' = s\<lparr>mems := mems s - Pair (ro_ID ro) ` set ms\<rparr>)" for ro ms
    unfolding repo_RoleRemoveMembers_def by (rule effect_in_tx(1)) (drule two_steps, auto dest!: view_delete)
  show "effect db_view (repo_RoleRemoveAllMembers ro) (\<lambda>s x s'. s' = s\<lparr>mems := {y \<in> mems s. fst y \<noteq> ro_ID ro}\<rparr>)" for ro
    unfolding repo_RoleRemoveAllMembers_def by (rule effect_in_tx(1)) (drule two_steps, auto dest!: view_delete)
  show "effect db_view (repo_RetrieveEntitiesRolesActionsMembers es)
      (unchanged (\<lambda>s (ears, emrs).
         (\<forall>x \<in> set ears. ear_EntityID x \<in> set es \<and> (ear_RoleID x, ear_EntityID x) \<in> own s \<and> (ear_RoleID x, ear_Action x) \<in> acts s) \<and>
         (\<forall>x \<in> set emrs. (emr_RoleID x, emr_EntityID x) \<in> own s \<and> (emr_RoleID x, emr_MemberID x) \<in> mems s)))" for es
    by (rule effect_reads [OF repo_reads(8)])
      (auto dest!: RetrieveEntities_result join_rows simp: db_view_def)
qed (rule effect_reads; simp add: repo_reads)+

section \<open>Properties\<close>

lemma keeps_in_tx:
  assumes "\<And>t t'. tables_wf t \<Longrightarrow> apply_stmts sts t = Some t' \<Longrightarrow> tables_wf t'"
  shows "keeps db_wf (in_tx w sts g x)" "keeps db_wf (in_tx_shadowed w sts g x)"
proof -
  have "db_wf d'" if "db_wf d" "in_tx w sts g x d = (r, d')" for d r d'
  proof (cases r)
    case (Inl e)
    from in_tx_err [OF that(2) [unfolded Inl]] that(1) show ?thesis by (simp add: db_wf_def)
  next
    case (Inr y)
    from in_tx_ok [OF that(2) [unfolded Inr]] that(1) assms show ?thesis unfolding db_wf_def by blast
  qed
  then show "keeps db_wf (in_tx w sts g x)" by (auto intro!: keepsI) (metis prod.collapse)
  have "db_wf d'" if "db_wf d" "in_tx_shadowed w sts g x d = (r, d')" for d r d'
  proof (cases r)
    case (Inl e)
    from in_tx_shadowed_err [OF that(2) [unfolded Inl]] that(1) show ?thesis by (simp add: db_wf_def)
  next
    case (Inr y)
    from in_tx_shadowed_ok [OF that(2) [unfolded Inr]] that(1) assms show ?thesis unfolding db_wf_def by blast
  qed
  then show "keeps db_wf (in_tx_shadowed w sts g x)" by (auto intro!: keepsI) (metis prod.collapse)
qed

lemma two_steps_wf:
  assumes "stmt_keeps tables_wf st" "tables_wf t" "apply_stmts [(st, g), (touch_role r, g')] t = Some t'"
  shows "tables_wf t'"
proof -
  from assms(3) obtain t1 where "st t = Inr (t1, ())" "touch_role r t1 = Inr (t', ())" by (auto split: sum.splits)
  with assms(1,2) touch_role_wf show ?thesis unfolding stmt_keeps_def by blast
qed

lemma db_exec_wf:
  assumes "stmt_keeps tables_wf st" "db_wf d" "db_exec st d = (q, d1)"
  shows "db_wf d1"
  using assms by (cases q) (auto simp: db_wf_def stmt_keeps_def dest!: db_exec_ok db_exec_err)

lemma reads_db_wf: "reads m \<Longrightarrow> keeps db_wf m"
  by (rule keepsI) (metis db_wf_def prod.collapse readsD)

lemma RoleAddMembers_wf:
  assumes "db_wf d" "(ro_ID ro, ro_EntityID ro) \<in> own (db_view d)" "repo_RoleAddMembers ro ms d = (r, d')"
  shows "db_wf d'"
proof (cases r)
  case (Inl e)
  with assms(1,3) show ?thesis by (auto simp: repo_RoleAddMembers_def db_wf_def dest!: in_tx_shadowed_err)
next
  case (Inr x)
  let ?ms = "member_rows (ro_ID ro) (ro_EntityID ro) ms"
  from in_tx_shadowed_ok [OF assms(3) [unfolded repo_RoleAddMembers_def Inr]]
  obtain t1 where "named_slice ms (one_by_one ms (insert_members ?ms)) (committed d) = Inr (t1, ())"
    and t2: "touch_role (toDBRoles ro) t1 = Inr (committed d', ())"
    by (auto split: sum.splits)
  then have t1: "insert_members ?ms (committed d) = Inr (t1, ())" using slice_ok by blast
  have "\<exists>q \<in> set (t_roles (committed d)). dr_ID q = dm_RoleID m \<and> dr_EntityID q = dm_EntityID m" if "m \<in> set ?ms" for m
    using that assms(2) by (auto simp: member_rows_def db_view_def role_view_def)
  with insert_members_wf [OF _ t1] assms(1) have "tables_wf t1" by (simp add: db_wf_def)
  with touch_role_wf t2 show ?thesis by (auto simp: stmt_keeps_def db_wf_def)
qed

text \<open>Members are added one at a time: the statement of \<open>RoleAddMembers\<close> names the entity once more outside its list
  of values, so that no call for two members or more returns.\<close>

lemma several_members_are_refused:
  assumes "length ms \<noteq> 1"
  shows "isl (fst (repo_RoleAddMembers ro ms d)) \<and> db_view (snd (repo_RoleAddMembers ro ms d)) = db_view d"
proof -
  obtain r d' where m: "repo_RoleAddMembers ro ms d = (r, d')" by fastforce
  have many: "length ms = 0 \<or> 1 < length ms" using assms by linarith
  have "isl r"
  proof (rule ccontr)
    assume "\<not> isl r"
    then obtain x where "r = Inr x" by (cases r) auto
    from in_tx_shadowed_ok [OF m [unfolded repo_RoleAddMembers_def this]] many show False
      by (auto simp: named_slice_def one_by_one_def split: if_splits)
  qed
  with m show ?thesis by (cases r) (auto simp: repo_RoleAddMembers_def db_view_def dest!: in_tx_shadowed_err)
qed

text \<open>Every operation of the role repository, however it ends, keeps the schema constraints: role ids
  and role names per entity are unique, no action or member row refers to a missing role, and
  a member has at most one role per entity. (Members are added with the entity the role
  belongs to, as the service does.)\<close>

lemma role_constraints_kept:
  assumes "db_wf d"
  shows "db_wf (snd (repo_AddRoles rps d)) \<and> db_wf (snd (repo_RemoveRoles ids d)) \<and>
    db_wf (snd (repo_UpdateRole ro d)) \<and> db_wf (snd (repo_RoleAddActions ro as d)) \<and>
    db_wf (snd (repo_RoleRemoveActions ro as d)) \<and> db_wf (snd (repo_RoleRemoveAllActions ro d)) \<and>
    db_wf (snd (repo_RoleRemoveMembers ro ms d)) \<and> db_wf (snd (repo_RoleRemoveAllMembers ro d)) \<and>
    ((ro_ID ro, ro_EntityID ro) \<in> own (db_view d) \<longrightarrow> db_wf (snd (repo_RoleAddMembers ro ms d)))"
proof (intro conjI impI)
  have "keeps db_wf (repo_AddRoles rps)"
    unfolding repo_AddRoles_def by (rule keeps_in_tx(2)) (use run_provisions in blast)
  with assms show "db_wf (snd (repo_AddRoles rps d))" by (simp add: keeps_def)
  obtain q d1 where q: "db_exec (delete_roles ids) d = (q, d1)" by fastforce
  from db_exec_wf [OF delete_wf(1) assms q] q show "db_wf (snd (repo_RemoveRoles ids d))"
    by (cases q) (auto simp: repo_RemoveRoles_def trying_apply)
  obtain q d1 where q: "db_exec (update_role (toDBRoles ro)) d = (q, d1)" by fastforce
  from db_exec_wf [OF update_role_wf assms q] q reads_db_wf [OF reads_first_row] show "db_wf (snd (repo_UpdateRole ro d))"
    by (cases q) (auto simp: repo_UpdateRole_def trying_apply keeps_def)
  show "db_wf (snd (repo_RoleAddMembers ro ms d))" if "(ro_ID ro, ro_EntityID ro) \<in> own (db_view d)"
    using RoleAddMembers_wf [OF assms that] by (metis prod.collapse)
  have "stmt_keeps tables_wf (named_slice as (insert_actions (action_rows (ro_ID ro) as)))"
    using insert_actions_wf unfolding stmt_keeps_def by (blast dest: slice_ok)
  note two = this delete_wf
  have "keeps db_wf (repo_RoleAddActions ro as)" "keeps db_wf (repo_RoleRemoveActions ro as)"
    "keeps db_wf (repo_RoleRemoveAllActions ro)" "keeps db_wf (repo_RoleRemoveMembers ro ms)"
    "keeps db_wf (repo_RoleRemoveAllMembers ro)"
    unfolding repo_defs by (rule keeps_in_tx, erule (1) two_steps_wf [OF two(1)] two_steps_wf [OF two(3)]
      two_steps_wf [OF two(4)] two_steps_wf [OF two(5)] two_steps_wf [OF two(6)])+
  with assms show "db_wf (snd (repo_RoleAddActions ro as d))" "db_wf (snd (repo_RoleRemoveActions ro as d))"
    "db_wf (snd (repo_RoleRemoveAllActions ro d))" "db_wf (snd (repo_RoleRemoveMembers ro ms d))"
    "db_wf (snd (repo_RoleRemoveAllMembers ro d))"
    by (simp_all add: keeps_def)
qed

definition sample_role :: Role where
  "sample_role = Role0\<lparr>ro_ID := ''client_r1'', ro_Name := ''admin'', ro_EntityID := ''c1''\<rparr>"

definition sample_db :: roles_db where
  "sample_db = \<lparr>committed = \<lparr>t_entities = [''c1''], t_roles = [], t_actions = [], t_members = []\<rparr>,
     open_txs = [], next_tx = 0, faults = []\<rparr>"

definition sample_provision :: RoleProvision where
  "sample_provision = \<lparr>rp_Role = sample_role, rp_OptionalActions = [''read''], rp_OptionalMembers = [''u1'']\<rparr>"

text \<open>C2: The repository implements the abstract role state. A successful change has exactly its intended
  effect on owners, actions and members (\<open>AddRoles\<close> adds all provisions, with role ids that
  were free); an error, at whatever statement, commit or roll back, changes nothing.\<close>

theorem role_repository_refines_role_state:
  "effect db_view (repo_AddRoles rps) (\<lambda>s x s'. x = rps \<and> s' = fold add_provision rps s \<and>
      (\<forall>rp \<in> set rps. ro_ID (rp_Role rp) \<notin> fst ` own s) \<and> distinct (map (\<lambda>rp. ro_ID (rp_Role rp)) rps)) \<and>
   effect db_view (repo_RemoveRoles ids) (\<lambda>s x s'. s' = drop_roles (set ids \<inter> fst ` own s) s) \<and>
   effect db_view (repo_UpdateRole ro) (\<lambda>s x s'. s' = s) \<and>
   effect db_view (repo_RoleAddActions ro as) (\<lambda>s x s'. s' = s\<lparr>acts := acts s \<union> Pair (ro_ID ro) ` set as\<rparr>) \<and>
   effect db_view (repo_RoleRemoveActions ro as) (\<lambda>s x s'. s' = s\<lparr>acts := acts s - Pair (ro_ID ro) ` set as\<rparr>) \<and>
   effect db_view (repo_RoleRemoveAllActions ro) (\<lambda>s x s'. s' = s\<lparr>acts := {y \<in> acts s. fst y \<noteq> ro_ID ro}\<rparr>) \<and>
   effect db_view (repo_RoleAddMembers ro ms) (\<lambda>s x s'. s' = s\<lparr>mems := mems s \<union> Pair (ro_ID ro) ` set ms\<rparr>) \<and>
   effect db_view (repo_RoleRemoveMembers ro ms) (\<lambda>s x s'. s' = s\<lparr>mems := mems s - Pair (ro_ID ro) ` set ms\<rparr>) \<and>
   effect db_view (repo_RoleRemoveAllMembers ro) (\<lambda>s x s'. s' = s\<lparr>mems := {y \<in> mems s. fst y \<noteq> ro_ID ro}\<rparr>)"
  using pg.AddRoles_eff [of rps] pg.RemoveRoles_eff [of ids] pg.UpdateRole_eff [of ro] pg.RoleAddActions_eff [of ro as]
    pg.RoleRemoveActions_eff [of ro as] pg.RoleRemoveAllActions_eff [of ro] pg.RoleAddMembers_eff [of ro ms]
    pg.RoleRemoveMembers_eff [of ro ms] pg.RoleRemoveAllMembers_eff [of ro]
  by (simp add: effect_mono)

theorem role_repository_refines_role_state_witness:
  "db_view (snd (repo_AddRoles [sample_provision] sample_db)) =
     \<lparr>own = {(''client_r1'', ''c1'')}, acts = {(''client_r1'', ''read'')}, mems = {(''client_r1'', ''u1'')}\<rparr>"
proof -
  have "fst (repo_AddRoles [sample_provision] sample_db) = Inr [sample_provision]" by code_simp
  then have "repo_AddRoles [sample_provision] sample_db =
      (Inr [sample_provision], snd (repo_AddRoles [sample_provision] sample_db))"
    by (metis prod.collapse)
  from effect_InrD [OF role_repository_refines_role_state [THEN conjunct1] this]
  show ?thesis
    by (simp add: add_provision_def sample_provision_def sample_role_def Role0_def db_view_def role_view_def sample_db_def)
qed

text \<open>A failing \<open>RoleAddActions\<close>, \<open>RoleRemoveActions\<close>, \<open>RoleRemoveMembers\<close> or \<open>RoleRemoveAllMembers\<close> leaves
  no transaction open. A failing \<open>AddRoles\<close> does: when a statement is rejected, its
  transaction is neither committed nor rolled back.\<close>

lemma failed_AddRoles_leaves_transaction_open:
  assumes "tx_wf d"
  shows "open_txs (snd (repo_RoleAddActions ro as d)) = open_txs d \<and>
    open_txs (snd (repo_RoleRemoveActions ro as d)) = open_txs d \<and>
    open_txs (snd (repo_RoleRemoveMembers ro ms d)) = open_txs d \<and>
    open_txs (snd (repo_RoleRemoveAllMembers ro d)) = open_txs d \<and>
    (faults d = [] \<and> ro_ID (rp_Role rp) \<in> fst ` own (db_view d) \<longrightarrow>
       (\<exists>e. fst (repo_AddRoles [rp] d) = Inl e) \<and>
       open_txs (snd (repo_AddRoles [rp] d)) = (next_tx d, committed d) # open_txs d)"
proof (intro conjI impI)
  have closed: "open_txs (snd (in_tx w sts g x d)) = open_txs d" for w sts g x
  proof (cases "in_tx w sts g x d")
    case (Pair r d')
    show ?thesis
    proof (cases r)
      case (Inl e)
      from in_tx_err [OF Pair [unfolded Inl]] assms Pair show ?thesis by simp
    next
      case (Inr y)
      from in_tx_ok [OF Pair [unfolded Inr]] assms Pair show ?thesis by simp
    qed
  qed
  then show "open_txs (snd (repo_RoleAddActions ro as d)) = open_txs d"
    "open_txs (snd (repo_RoleRemoveActions ro as d)) = open_txs d"
    "open_txs (snd (repo_RoleRemoveMembers ro ms d)) = open_txs d"
    "open_txs (snd (repo_RoleRemoveAllMembers ro d)) = open_txs d"
    by (simp_all add: repo_defs)
  assume a: "faults d = [] \<and> ro_ID (rp_Role rp) \<in> fst ` own (db_view d)"
  then obtain r where "r \<in> set (t_roles (committed d))" "dr_ID r = ro_ID (rp_Role rp)"
    by (fastforce simp: db_view_def role_view_def image_image)
  moreover have "dr_ID (toDBRoles (rp_Role rp)) = ro_ID (rp_Role rp)" by (simp add: toDBRoles_def)
  ultimately have "list_ex (\<lambda>x. dr_ID x = dr_ID (toDBRoles (rp_Role rp)) \<or> P x) (t_roles (committed d))" for P
    unfolding list_ex_iff by auto
  then have "insert_role (toDBRoles (rp_Role rp)) (committed d) =
      Inl (if \<not> role_fits (toDBRoles (rp_Role rp)) then pg_truncated else pg_duplicate)"
    by (simp add: insert_role_def)
  then obtain e where e: "insert_role (toDBRoles (rp_Role rp)) (committed d) = Inl e" by blast
  have "repo_AddRoles [rp] d = (Inl (HandleError repoErrCreateEntity e),
      d\<lparr>faults := [], open_txs := (next_tx d, committed d) # open_txs d, next_tx := Suc (next_tx d)\<rparr>)"
    using a e by (simp add: repo_AddRoles_def in_tx_shadowed_def tx_body_def provision_stmts_def BeginTxx_def
        tx_exec_def driver_def trying_apply pass_apply)
  then show "\<exists>e. fst (repo_AddRoles [rp] d) = Inl e"
    "open_txs (snd (repo_AddRoles [rp] d)) = (next_tx d, committed d) # open_txs d"
    by simp_all
qed

end
