(* ===== verification/Roles.thy ===== *)
theory Roles
  imports Policies RolesRepo Authn
begin

text \<open>
  Role provisioning and management, \<open>pkg/roles/provisionmanage.go\<close>: the service every entity
  type (domains, groups, channels, clients, rules, reports) embeds to manage its roles. A role
  is kept twice, as rows of the role repository and as relationships of the policy store; the
  operations write both, with a roll back of the policy store where rows were to be added.

  The service is a record of its dependencies over a world: the repository of \<open>RolesRepo\<close>, the
  policy service of \<open>Policies\<close>, the id provider and the clock.
\<close>

section \<open>The service\<close>

record 'w ProvisionManageService =
  pm_entityType :: string
  pm_repo :: "'w Repository"
  pm_sidProvider :: "('w, gerror, string) io"
  pm_AddPolicies :: "Policy list \<Rightarrow> ('w, gerror, unit) io"
  pm_DeletePolicies :: "Policy list \<Rightarrow> ('w, gerror, unit) io"
  pm_DeletePolicyFilter :: "Policy \<Rightarrow> ('w, gerror, unit) io"
  pm_now :: "'w \<Rightarrow> int \<times> 'w"
  pm_actions :: "string list"
  pm_builtInRoles :: "(string \<times> string list) list"

definition errRemoveOptionalDeletePolicies :: gerror where "errRemoveOptionalDeletePolicies = New ''failed to delete the additional requested policies''"
definition errRemoveOptionalFilterDeletePolicies :: gerror where "errRemoveOptionalFilterDeletePolicies = New ''failed to filter delete the additional requested policies''"
definition errRollbackRoles :: gerror where "errRollbackRoles = New ''failed to rollback roles''"

definition BuiltInRoleActions :: "'w ProvisionManageService \<Rightarrow> string \<Rightarrow> gerror + string list" where
  "BuiltInRoleActions pms name =
     (case map_of (pm_builtInRoles pms) name of
        None \<Rightarrow> Inl (Wrap svcErrNotFound (Foreign (''role '' @ name @ '' not found'')))
      | Some actions \<Rightarrow> Inr actions)"

definition isActionAllowed :: "'w ProvisionManageService \<Rightarrow> string \<Rightarrow> bool" where
  "isActionAllowed r action = list_ex (\<lambda>a. a = action) (pm_actions r)"

fun validateActions :: "'w ProvisionManageService \<Rightarrow> string list \<Rightarrow> gerror option" where
  "validateActions r [] = None"
| "validateActions r (action # actions) =
     (if \<not> isActionAllowed r action
      then Some (Wrap svcErrMalformedEntity (Foreign (''invalid action '' @ action @ '' '')))
      else validateActions r actions)"

text \<open>The two relationships of a role: it holds an action on the entity, a user is its member.\<close>

definition action_policy :: "'w ProvisionManageService \<Rightarrow> string \<Rightarrow> string \<Rightarrow> string \<Rightarrow> Policy" where
  "action_policy r roleID entityID action = Policy0\<lparr>p_SubjectType := RoleType, p_SubjectRelation := MemberRelation,
     p_Subject := roleID, p_Relation := action, p_Object := entityID, p_ObjectType := pm_entityType r\<rparr>"

definition member_policy :: "string \<Rightarrow> string \<Rightarrow> string \<Rightarrow> Policy" where
  "member_policy domainID roleID member = Policy0\<lparr>p_SubjectType := UserType,
     p_Subject := EncodeDomainUserID domainID member, p_Relation := MemberRelation, p_Object := roleID,
     p_ObjectType := RoleType\<rparr>"

text \<open>The deferred roll back of added policies.\<close>

definition rollback_policies ::
  "'w ProvisionManageService \<Rightarrow> Policy list \<Rightarrow> ('w, gerror, 'a) io \<Rightarrow> ('w, gerror, 'a) io" where
  "rollback_policies r prs m =
     deferring (pm_DeletePolicies r prs) (\<lambda>retErr errRollBack. Wrap retErr (Wrap errRollbackRoles errRollBack)) m"

section \<open>Provisioning\<close>

fun delete_filters :: "'w ProvisionManageService \<Rightarrow> Policy list \<Rightarrow> ('w, gerror, unit) io" where
  "delete_filters r [] = ret ()"
| "delete_filters r (p # ps) =
     trying (pm_DeletePolicyFilter r p) (Wrap errRemoveOptionalFilterDeletePolicies) (\<lambda>_. delete_filters r ps)"

definition RemoveEntitiesRoles ::
  "'w ProvisionManageService \<Rightarrow> string \<Rightarrow> string \<Rightarrow> string list \<Rightarrow> Policy list \<Rightarrow> Policy list \<Rightarrow> ('w, gerror, unit) io" where
  "RemoveEntitiesRoles r domainID userID entityIDs optionalFilterDeletePolicies optionalDeletePolicies =
     pass (RetrieveEntitiesRolesActionsMembers (pm_repo r) entityIDs) (\<lambda>(ears, emrs).
     let deletePolicies =
       map (\<lambda>ear. action_policy r (ear_RoleID ear) (ear_EntityID ear) (ear_Action ear)) ears @
       map (\<lambda>emr. member_policy domainID (emr_RoleID emr) (emr_MemberID emr)) emrs
     in trying (pm_DeletePolicies r deletePolicies) (Wrap svcErrDeletePolicies) (\<lambda>_.
        pass (if length optionalDeletePolicies > 1
              then trying (pm_DeletePolicies r optionalDeletePolicies) (Wrap errRemoveOptionalDeletePolicies) ret
              else ret ()) (\<lambda>_.
        delete_filters r optionalFilterDeletePolicies)))"

text \<open>
  The loops of \<open>AddNewEntitiesRoles\<close>: over the entities and, for each, over the map of new
  members by built-in role, in the order the map is traversed. They collect the provisions
  and the policies.
\<close>

fun provision_roles ::
  "'w ProvisionManageService \<Rightarrow> string \<Rightarrow> string \<Rightarrow> string \<Rightarrow> (string \<times> string list) list \<Rightarrow>
   RoleProvision list \<Rightarrow> Policy list \<Rightarrow> ('w, gerror, RoleProvision list \<times> Policy list) io" where
  "provision_roles r domainID userID entityID [] rps p = ret (rps, p)"
| "provision_roles r domainID userID entityID ((defaultRole, members) # rest) rps p =
     (case map_of (pm_builtInRoles r) defaultRole of
        None \<Rightarrow> fail (Foreign (''default role '' @ defaultRole @ '' not found in in-built roles''))
      | Some actions \<Rightarrow>
          trying (pm_sidProvider r) (Wrap svcErrCreateEntity) (\<lambda>sid.
          let roleID = pm_entityType r @ ''_'' @ sid in
          guarded (map_option (Wrap svcErrMalformedEntity) (validateActions r actions))
          (observe (pm_now r) (\<lambda>now.
             provision_roles r domainID userID entityID rest
               (rps @ [\<lparr>rp_Role = Role0\<lparr>ro_ID := roleID, ro_Name := defaultRole, ro_EntityID := entityID,
                                        ro_CreatedAt := now, ro_CreatedBy := userID\<rparr>,
                        rp_OptionalActions = actions, rp_OptionalMembers = members\<rparr>])
               (p @ map (action_policy r roleID entityID) actions @ map (member_policy domainID roleID) members)))))"

fun provision_entities ::
  "'w ProvisionManageService \<Rightarrow> string \<Rightarrow> string \<Rightarrow> string list \<Rightarrow> (string \<times> string list) list \<Rightarrow>
   RoleProvision list \<Rightarrow> Policy list \<Rightarrow> ('w, gerror, RoleProvision list \<times> Policy list) io" where
  "provision_entities r domainID userID [] new rps p = ret (rps, p)"
| "provision_entities r domainID userID (entityID # entityIDs) new rps p =
     pass (provision_roles r domainID userID entityID new rps p) (\<lambda>(rps', p').
       provision_entities r domainID userID entityIDs new rps' p')"

text \<open>Policies first, then the rows, with a roll back of the policies.\<close>

definition add_with_policies ::
  "'w ProvisionManageService \<Rightarrow> Policy list \<Rightarrow> (gerror \<Rightarrow> gerror) \<Rightarrow> ('w, gerror, 'a) io \<Rightarrow> ('w, gerror, 'a) io" where
  "add_with_policies r prs g m =
     trying (pm_AddPolicies r prs) g (\<lambda>_. rollback_policies r prs m)"

definition AddNewEntitiesRoles ::
  "'w ProvisionManageService \<Rightarrow> string \<Rightarrow> string \<Rightarrow> string list \<Rightarrow> Policy list \<Rightarrow> (string \<times> string list) list \<Rightarrow>
   ('w, gerror, RoleProvision list) io" where
  "AddNewEntitiesRoles r domainID userID entityIDs optionalEntityPolicies newBuiltInRoleMembers =
     pass (provision_entities r domainID userID entityIDs newBuiltInRoleMembers [] []) (\<lambda>(newRolesProvision, p0).
     let p = p0 @ optionalEntityPolicies;
         add = trying (AddRoles (pm_repo r) newRolesProvision) (Wrap svcErrCreateEntity) ret
     in if length p > 0 then add_with_policies r p (Wrap svcErrCreateEntity) add else add)"

section \<open>Roles\<close>

definition svc_AddRole ::
  "'w ProvisionManageService \<Rightarrow> Session \<Rightarrow> string \<Rightarrow> string \<Rightarrow> string list \<Rightarrow> string list \<Rightarrow>
   ('w, gerror, RoleProvision) io" where
  "svc_AddRole r session entityID roleName optionalActions optionalMembers =
     trying (pm_sidProvider r) (Wrap svcErrCreateEntity) (\<lambda>sid.
     let roleID = pm_entityType r @ ''_'' @ sid in
     guarded (map_option (Wrap svcErrMalformedEntity) (validateActions r optionalActions))
     (observe (pm_now r) (\<lambda>now.
     let newRoleProvisions = [\<lparr>rp_Role = Role0\<lparr>ro_ID := roleID, ro_Name := roleName, ro_EntityID := entityID,
             ro_CreatedAt := now, ro_CreatedBy := s_UserID session\<rparr>,
           rp_OptionalActions = optionalActions, rp_OptionalMembers = optionalMembers\<rparr>];
         prs = map (action_policy r roleID entityID) optionalActions @
               map (member_policy (s_DomainID session) roleID) optionalMembers;
         add = trying (AddRoles (pm_repo r) newRoleProvisions) (Wrap svcErrCreateEntity) (\<lambda>rp.
                 case rp of [] \<Rightarrow> fail svcErrCreateEntity | x # _ \<Rightarrow> ret x)
     in if length prs > 0 then add_with_policies r prs (Wrap svcErrCreateEntity) add else add)))"

definition svc_RemoveRole :: "'w ProvisionManageService \<Rightarrow> Session \<Rightarrow> string \<Rightarrow> string \<Rightarrow> ('w, gerror, unit) io" where
  "svc_RemoveRole r session entityID roleID =
     trying (RetrieveEntityRole (pm_repo r) entityID roleID) (Wrap svcErrRemoveEntity) (\<lambda>ro.
     trying (pm_DeletePolicyFilter r (Policy0\<lparr>p_SubjectType := RoleType, p_Subject := ro_ID ro\<rparr>))
       (Wrap svcErrRemoveEntity) (\<lambda>_.
     trying (RemoveRoles (pm_repo r) [ro_ID ro]) (Wrap svcErrRemoveEntity) ret))"

definition svc_UpdateRoleName ::
  "'w ProvisionManageService \<Rightarrow> Session \<Rightarrow> string \<Rightarrow> string \<Rightarrow> string \<Rightarrow> ('w, gerror, Role) io" where
  "svc_UpdateRoleName r session entityID roleID newRoleName =
     trying (RetrieveEntityRole (pm_repo r) entityID roleID) (Wrap svcErrUpdateEntity) (\<lambda>ro.
     observe (pm_now r) (\<lambda>now.
     trying (UpdateRole (pm_repo r) (Role0\<lparr>ro_ID := ro_ID ro, ro_EntityID := entityID, ro_Name := newRoleName,
               ro_UpdatedBy := s_UserID session, ro_UpdatedAt := now\<rparr>)) (Wrap svcErrUpdateEntity) ret))"

definition svc_RetrieveRole :: "'w ProvisionManageService \<Rightarrow> Session \<Rightarrow> string \<Rightarrow> string \<Rightarrow> ('w, gerror, Role) io" where
  "svc_RetrieveRole r session entityID roleID =
     trying (RetrieveEntityRole (pm_repo r) entityID roleID) (Wrap svcErrViewEntity) ret"

definition svc_RetrieveAllRoles ::
  "'w ProvisionManageService \<Rightarrow> Session \<Rightarrow> string \<Rightarrow> nat \<Rightarrow> nat \<Rightarrow> ('w, gerror, RolePage) io" where
  "svc_RetrieveAllRoles r session entityID limit offset =
     trying (RetrieveAllRoles (pm_repo r) entityID limit offset) (Wrap svcErrViewEntity) ret"

definition ListAvailableActions :: "'w ProvisionManageService \<Rightarrow> Session \<Rightarrow> ('w, gerror, string list) io" where
  "ListAvailableActions r session = ret (pm_actions r)"

section \<open>Actions\<close>

definition svc_RoleAddActions ::
  "'w ProvisionManageService \<Rightarrow> Session \<Rightarrow> string \<Rightarrow> string \<Rightarrow> string list \<Rightarrow> ('w, gerror, string list) io" where
  "svc_RoleAddActions r session entityID roleID actions =
     trying (RetrieveEntityRole (pm_repo r) entityID roleID) (Wrap svcErrUpdateEntity) (\<lambda>ro.
     if length actions = 0 then fail svcErrMalformedEntity
     else guarded (map_option (Wrap svcErrMalformedEntity) (validateActions r actions))
       (add_with_policies r (map (action_policy r (ro_ID ro) entityID) actions) (Wrap svcErrAddPolicies)
         (observe (pm_now r) (\<lambda>now.
          trying (RoleAddActions (pm_repo r) (ro\<lparr>ro_UpdatedAt := now, ro_UpdatedBy := s_UserID session\<rparr>) actions)
            (Wrap svcErrCreateEntity) ret))))"

definition svc_RoleListActions ::
  "'w ProvisionManageService \<Rightarrow> Session \<Rightarrow> string \<Rightarrow> string \<Rightarrow> ('w, gerror, string list) io" where
  "svc_RoleListActions r session entityID roleID =
     trying (RetrieveEntityRole (pm_repo r) entityID roleID) (Wrap svcErrViewEntity) (\<lambda>ro.
     trying (RoleListActions (pm_repo r) (ro_ID ro)) (Wrap svcErrViewEntity) ret)"

text \<open>The flag is returned also with an error: false when there is no role, true when the check fails.\<close>

definition svc_RoleCheckActionsExists ::
  "'w ProvisionManageService \<Rightarrow> Session \<Rightarrow> string \<Rightarrow> string \<Rightarrow> string list \<Rightarrow> 'w \<Rightarrow> (bool \<times> gerror option) \<times> 'w" where
  "svc_RoleCheckActionsExists r session entityID roleID actions w =
     (case RetrieveEntityRole (pm_repo r) entityID roleID w of
        (Inl err, w') \<Rightarrow> ((False, Some (Wrap svcErrViewEntity err)), w')
      | (Inr ro, w') \<Rightarrow>
          (case RoleCheckActionsExists (pm_repo r) (ro_ID ro) actions w' of
             (Inl err, w'') \<Rightarrow> ((True, Some (Wrap svcErrViewEntity err)), w'')
           | (Inr result, w'') \<Rightarrow> ((result, None), w'')))"

definition svc_RoleRemoveActions ::
  "'w ProvisionManageService \<Rightarrow> Session \<Rightarrow> string \<Rightarrow> string \<Rightarrow> string list \<Rightarrow> ('w, gerror, unit) io" where
  "svc_RoleRemoveActions r session entityID roleID actions =
     trying (RetrieveEntityRole (pm_repo r) entityID roleID) (Wrap svcErrRemoveEntity) (\<lambda>ro.
     if length actions = 0 then fail svcErrMalformedEntity
     else trying (pm_DeletePolicies r (map (action_policy r (ro_ID ro) entityID) actions)) (Wrap svcErrDeletePolicies) (\<lambda>_.
       observe (pm_now r) (\<lambda>now.
       trying (RoleRemoveActions (pm_repo r) (ro\<lparr>ro_UpdatedAt := now, ro_UpdatedBy := s_UserID session\<rparr>) actions)
         (Wrap svcErrRemoveEntity) ret)))"

definition svc_RoleRemoveAllActions ::
  "'w ProvisionManageService \<Rightarrow> Session \<Rightarrow> string \<Rightarrow> string \<Rightarrow> ('w, gerror, unit) io" where
  "svc_RoleRemoveAllActions r session entityID roleID =
     trying (RetrieveEntityRole (pm_repo r) entityID roleID) (Wrap svcErrRemoveEntity) (\<lambda>ro.
     trying (pm_DeletePolicyFilter r (Policy0\<lparr>p_SubjectType := RoleType, p_Subject := ro_ID ro\<rparr>))
       (Wrap svcErrDeletePolicies) (\<lambda>_.
     observe (pm_now r) (\<lambda>now.
     trying (RoleRemoveAllActions (pm_repo r) (ro\<lparr>ro_UpdatedAt := now, ro_UpdatedBy := s_UserID session\<rparr>))
       (Wrap svcErrRemoveEntity) ret)))"

section \<open>Members\<close>

definition svc_RoleAddMembers ::
  "'w ProvisionManageService \<Rightarrow> Session \<Rightarrow> string \<Rightarrow> string \<Rightarrow> string list \<Rightarrow> ('w, gerror, string list) io" where
  "svc_RoleAddMembers r session entityID roleID members =
     trying (RetrieveEntityRole (pm_repo r) entityID roleID) (Wrap svcErrUpdateEntity) (\<lambda>ro.
     if length members = 0 then fail svcErrMalformedEntity
     else add_with_policies r (map (member_policy (s_DomainID session) (ro_ID ro)) members) (Wrap svcErrAddPolicies)
       (observe (pm_now r) (\<lambda>now.
        trying (RoleAddMembers (pm_repo r) (ro\<lparr>ro_UpdatedAt := now, ro_UpdatedBy := s_UserID session\<rparr>) members)
          (Wrap svcErrCreateEntity) ret)))"

definition svc_RoleListMembers ::
  "'w ProvisionManageService \<Rightarrow> Session \<Rightarrow> string \<Rightarrow> string \<Rightarrow> nat \<Rightarrow> nat \<Rightarrow> ('w, gerror, MembersPage) io" where
  "svc_RoleListMembers r session entityID roleID limit offset =
     trying (RetrieveEntityRole (pm_repo r) entityID roleID) (Wrap svcErrViewEntity) (\<lambda>ro.
     trying (RoleListMembers (pm_repo r) (ro_ID ro) limit offset) (Wrap svcErrViewEntity) ret)"

definition svc_RoleCheckMembersExists ::
  "'w ProvisionManageService \<Rightarrow> Session \<Rightarrow> string \<Rightarrow> string \<Rightarrow> string list \<Rightarrow> 'w \<Rightarrow> (bool \<times> gerror option) \<times> 'w" where
  "svc_RoleCheckMembersExists r session entityID roleID members w =
     (case RetrieveEntityRole (pm_repo r) entityID roleID w of
        (Inl err, w') \<Rightarrow> ((False, Some (Wrap svcErrViewEntity err)), w')
      | (Inr ro, w') \<Rightarrow>
          (case RoleCheckMembersExists (pm_repo r) (ro_ID ro) members w' of
             (Inl err, w'') \<Rightarrow> ((True, Some (Wrap svcErrViewEntity err)), w'')
           | (Inr result, w'') \<Rightarrow> ((result, None), w'')))"

definition svc_RoleRemoveMembers ::
  "'w ProvisionManageService \<Rightarrow> Session \<Rightarrow> string \<Rightarrow> string \<Rightarrow> string list \<Rightarrow> ('w, gerror, unit) io" where
  "svc_RoleRemoveMembers r session entityID roleID members =
     trying (RetrieveEntityRole (pm_repo r) entityID roleID) (Wrap svcErrRemoveEntity) (\<lambda>ro.
     if length members = 0 then fail svcErrMalformedEntity
     else trying (pm_DeletePolicies r (map (member_policy (s_DomainID session) (ro_ID ro)) members))
         (Wrap svcErrDeletePolicies) (\<lambda>_.
       observe (pm_now r) (\<lambda>now.
       trying (RoleRemoveMembers (pm_repo r) (ro\<lparr>ro_UpdatedAt := now, ro_UpdatedBy := s_UserID session\<rparr>) members)
         (Wrap svcErrRemoveEntity) ret)))"

definition svc_RoleRemoveAllMembers ::
  "'w ProvisionManageService \<Rightarrow> Session \<Rightarrow> string \<Rightarrow> string \<Rightarrow> ('w, gerror, unit) io" where
  "svc_RoleRemoveAllMembers r session entityID roleID =
     trying (RetrieveEntityRole (pm_repo r) entityID roleID) (Wrap svcErrRemoveEntity) (\<lambda>ro.
     trying (pm_DeletePolicyFilter r (Policy0\<lparr>p_ObjectType := RoleType, p_Object := ro_ID ro, p_SubjectType := UserType\<rparr>))
       (Wrap svcErrDeletePolicies) (\<lambda>_.
     observe (pm_now r) (\<lambda>now.
     trying (RoleRemoveAllMembers (pm_repo r) (ro\<lparr>ro_UpdatedAt := now, ro_UpdatedBy := s_UserID session\<rparr>))
       (Wrap svcErrRemoveEntity) ret)))"

definition svc_RemoveEntityMembers ::
  "'w ProvisionManageService \<Rightarrow> Session \<Rightarrow> string \<Rightarrow> string list \<Rightarrow> ('w, gerror, unit) io" where
  "svc_RemoveEntityMembers r session entityID members =
     pass (RemoveEntityMembers (pm_repo r) entityID members) ret"

definition svc_RemoveMemberFromAllRoles ::
  "'w ProvisionManageService \<Rightarrow> Session \<Rightarrow> string \<Rightarrow> ('w, gerror, unit) io" where
  "svc_RemoveMemberFromAllRoles r session member =
     trying (RemoveMemberFromAllRoles (pm_repo r) member) (Wrap svcErrRemoveEntity) (\<lambda>_.
     trying (pm_DeletePolicyFilter r (Policy0\<lparr>p_ObjectType := RoleType, p_ObjectPrefix := pm_entityType r @ ''_'',
               p_SubjectType := UserType\<rparr>)) (Wrap svcErrDeletePolicies) (\<lambda>_.
     fail (Foreign ''not implemented'')))"

section \<open>Rows and relationships\<close>

text \<open>
  The relationships of the policy store by which a user holds a permission on an entity of
  type \<open>et\<close> through a role, and the rows they must be covered by (\<open>d\<close> is the domain of the
  entities): a role may hold an action only on its own entity and only if the rows say so, and
  a user may be a member of an existing role only if the rows say so.
\<close>

definition action_tuple :: "string \<Rightarrow> Relationship \<Rightarrow> bool" where
  "action_tuple et t \<longleftrightarrow> rel_SubjectType t = RoleType \<and> rel_SubjectRelation t = MemberRelation \<and> rel_ResourceType t = et"

definition member_tuple :: "Relationship \<Rightarrow> bool" where
  "member_tuple t \<longleftrightarrow> rel_SubjectType t = UserType \<and> rel_SubjectRelation t = [] \<and>
     rel_Relation t = MemberRelation \<and> rel_ResourceType t = RoleType"

definition covered :: "string \<Rightarrow> string \<Rightarrow> role_state \<Rightarrow> Relationship set \<Rightarrow> bool" where
  "covered et d s T \<longleftrightarrow>
     (\<forall>i e e'. (i, e) \<in> own s \<longrightarrow> (i, e') \<in> own s \<longrightarrow> e = e') \<and>
     (\<forall>t \<in> T. action_tuple et t \<longrightarrow>
        (rel_SubjectId t, rel_ResourceId t) \<in> own s \<and> (rel_SubjectId t, rel_Relation t) \<in> acts s) \<and>
     (\<forall>t \<in> T. \<forall>e. member_tuple t \<longrightarrow> (rel_ResourceId t, e) \<in> own s \<longrightarrow>
        (\<exists>m. rel_SubjectId t = EncodeDomainUserID d m \<and> (rel_ResourceId t, m) \<in> mems s))"




lemma covered_mono: "covered et d s T \<Longrightarrow> T' \<subseteq> T \<Longrightarrow> covered et d s T'"
  unfolding covered_def by blast

lemma action_policy_tuple:
  "relationship_of (action_policy r i e a) = \<lparr>rel_ResourceType = pm_entityType r, rel_ResourceId = e, rel_Relation = a,
     rel_SubjectType = RoleType, rel_SubjectId = i, rel_SubjectRelation = MemberRelation\<rparr>"
  by (simp add: action_policy_def relationship_of_def Policy0_def)

lemma member_policy_tuple:
  "relationship_of (member_policy d i m) = \<lparr>rel_ResourceType = RoleType, rel_ResourceId = i, rel_Relation = MemberRelation,
     rel_SubjectType = UserType, rel_SubjectId = EncodeDomainUserID d m, rel_SubjectRelation = []\<rparr>"
  by (simp add: member_policy_def relationship_of_def Policy0_def)

lemma policy_simps [simp]:
  "p_ObjectType (action_policy r i e a) = pm_entityType r" "p_Object (action_policy r i e a) = e"
  "p_Relation (action_policy r i e a) = a" "p_SubjectType (action_policy r i e a) = RoleType"
  "p_Subject (action_policy r i e a) = i" "p_SubjectRelation (action_policy r i e a) = MemberRelation"
  "p_ObjectType (member_policy d i m) = RoleType" "p_Object (member_policy d i m) = i"
  "p_Relation (member_policy d i m) = MemberRelation" "p_SubjectType (member_policy d i m) = UserType"
  "p_Subject (member_policy d i m) = EncodeDomainUserID d m" "p_SubjectRelation (member_policy d i m) = []"
  by (simp_all add: action_policy_def member_policy_def Policy0_def)

lemma action_tuple_policy [simp]: "action_tuple (pm_entityType r) (relationship_of (action_policy r i e a))"
  by (simp add: action_tuple_def action_policy_tuple)

lemma not_member_tuple [simp]: "\<not> member_tuple (relationship_of (action_policy r i e a))"
  by (simp add: member_tuple_def action_policy_tuple policy_names)

lemma member_tuple_policy [simp]: "member_tuple (relationship_of (member_policy d i m))"
  by (simp add: member_tuple_def member_policy_tuple)

lemma not_action_tuple [simp]: "\<not> action_tuple et (relationship_of (member_policy d i m))"
  by (simp add: action_tuple_def member_policy_tuple policy_names)

lemma action_tuple_eq:
  "action_tuple (pm_entityType r) t \<Longrightarrow> t = relationship_of (action_policy r (rel_SubjectId t) (rel_ResourceId t) (rel_Relation t))"
  by (cases t) (simp add: action_tuple_def action_policy_tuple)

text \<open>Taking away rows together with the relationships they cover.\<close>

lemma covered_delete_actions:
  assumes "covered (pm_entityType r) d s T" "(i, e) \<in> own s"
  shows "covered (pm_entityType r) d (s\<lparr>acts := acts s - Pair i ` set as\<rparr>) (T - rels (map (action_policy r i e) as))"
proof -
  have "rel_Relation t \<notin> set as"
    if t: "t \<in> T" "t \<notin> rels (map (action_policy r i e) as)" "action_tuple (pm_entityType r) t" "rel_SubjectId t = i" for t
  proof
    assume a: "rel_Relation t \<in> set as"
    have "rel_ResourceId t = e" using assms t unfolding covered_def by blast
    with action_tuple_eq [OF t(3)] t(4) have "t = relationship_of (action_policy r i e (rel_Relation t))" by simp
    with a t(2) show False by auto
  qed
  with assms show ?thesis unfolding covered_def by (auto simp: image_iff)
qed

lemma matches_role_subject:
  "action_tuple et t \<Longrightarrow> rel_SubjectId t = i \<Longrightarrow>
     matches (delete_filter (Policy0\<lparr>p_SubjectType := RoleType, p_Subject := i\<rparr>)) t"
  by (simp add: matches_def delete_filter_def Policy0_def action_tuple_def policy_names HasPrefix_def)

lemma matches_role_members:
  "member_tuple t \<Longrightarrow> rel_ResourceId t = i \<Longrightarrow>
     matches (delete_filter (Policy0\<lparr>p_ObjectType := RoleType, p_Object := i, p_SubjectType := UserType\<rparr>)) t"
  by (simp add: matches_def delete_filter_def Policy0_def member_tuple_def policy_names HasPrefix_def)

lemma covered_delete_all_actions:
  assumes "covered et d s T"
  shows "covered et d (s\<lparr>acts := {y \<in> acts s. fst y \<noteq> i}\<rparr>)
     {t \<in> T. \<not> matches (delete_filter (Policy0\<lparr>p_SubjectType := RoleType, p_Subject := i\<rparr>)) t}"
  using assms matches_role_subject unfolding covered_def by auto

lemma covered_drop_role:
  assumes "covered et d s T"
  shows "covered et d (drop_roles ({i} \<inter> R) s)
     {t \<in> T. \<not> matches (delete_filter (Policy0\<lparr>p_SubjectType := RoleType, p_Subject := i\<rparr>)) t}"
proof -
  have "rel_SubjectId t \<noteq> i" if "action_tuple et t"
    "\<not> matches (delete_filter (Policy0\<lparr>p_SubjectType := RoleType, p_Subject := i\<rparr>)) t" for t
    using that matches_role_subject by blast
  then show ?thesis using assms unfolding covered_def drop_roles_def by auto
qed

lemma covered_delete_members:
  assumes "covered et d s T"
  shows "covered et d (s\<lparr>mems := mems s - Pair i ` set ms\<rparr>) (T - rels (map (member_policy d i) ms))"
proof -
  have "\<exists>m. rel_SubjectId t = EncodeDomainUserID d m \<and> (rel_ResourceId t, m) \<in> mems s - Pair i ` set ms"
    if t: "t \<in> T" "t \<notin> rels (map (member_policy d i) ms)" "member_tuple t" "(rel_ResourceId t, e) \<in> own s" for t e
  proof -
    obtain m where m: "rel_SubjectId t = EncodeDomainUserID d m" "(rel_ResourceId t, m) \<in> mems s"
      using assms t(1,3,4) unfolding covered_def by blast
    have "t = relationship_of (member_policy d i m)" if "rel_ResourceId t = i"
      using that m t(3) by (cases t) (simp add: member_policy_tuple member_tuple_def)
    with m t(2) show ?thesis by auto
  qed
  with assms show ?thesis unfolding covered_def by simp
qed

lemma covered_delete_all_members:
  assumes "covered et d s T"
  shows "covered et d (s\<lparr>mems := {y \<in> mems s. fst y \<noteq> i}\<rparr>)
     {t \<in> T. \<not> matches (delete_filter (Policy0\<lparr>p_ObjectType := RoleType, p_Object := i, p_SubjectType := UserType\<rparr>)) t}"
proof -
  have "rel_ResourceId t \<noteq> i" if "member_tuple t"
    "\<not> matches (delete_filter (Policy0\<lparr>p_ObjectType := RoleType, p_Object := i, p_SubjectType := UserType\<rparr>)) t" for t
    using that matches_role_members by blast
  with assms show ?thesis unfolding covered_def by simp
qed

text \<open>Adding relationships together with their rows.\<close>

lemma covered_add_actions:
  assumes "covered (pm_entityType r) d s T" "(i, e) \<in> own s"
  shows "covered (pm_entityType r) d (s\<lparr>acts := acts s \<union> Pair i ` set as\<rparr>) (T \<union> rels (map (action_policy r i e) as))"
  using assms unfolding covered_def by (simp add: ball_Un)

lemma covered_add_members:
  assumes "covered et d s T"
  shows "covered et d (s\<lparr>mems := mems s \<union> Pair i ` set ms\<rparr>) (T \<union> rels (map (member_policy d i) ms))"
  using assms unfolding covered_def by (simp add: ball_Un) blast

text \<open>No relationship mentions the role.\<close>

definition unused :: "string \<Rightarrow> Relationship set \<Rightarrow> bool" where
  "unused i T \<longleftrightarrow> (\<forall>t \<in> T. (rel_SubjectType t = RoleType \<longrightarrow> rel_SubjectId t \<noteq> i) \<and>
     (rel_ResourceType t = RoleType \<longrightarrow> rel_ResourceId t \<noteq> i))"

text \<open>Policies that concern no role: the optional policies of an entity.\<close>

definition no_role_policy :: "Policy \<Rightarrow> bool" where
  "no_role_policy p \<longleftrightarrow> p_SubjectType p \<noteq> RoleType \<and> p_ObjectType p \<noteq> RoleType"

definition provision_policies :: "'w ProvisionManageService \<Rightarrow> string \<Rightarrow> RoleProvision \<Rightarrow> Policy list" where
  "provision_policies r d rp =
     map (action_policy r (ro_ID (rp_Role rp)) (ro_EntityID (rp_Role rp))) (rp_OptionalActions rp) @
     map (member_policy d (ro_ID (rp_Role rp))) (rp_OptionalMembers rp)"

lemma fold_add_provision:
  "own (fold add_provision rps s) = own s \<union> (\<lambda>rp. (ro_ID (rp_Role rp), ro_EntityID (rp_Role rp))) ` set rps"
  "acts (fold add_provision rps s) = acts s \<union> (\<Union>rp \<in> set rps. Pair (ro_ID (rp_Role rp)) ` set (rp_OptionalActions rp))"
  "mems (fold add_provision rps s) = mems s \<union> (\<Union>rp \<in> set rps. Pair (ro_ID (rp_Role rp)) ` set (rp_OptionalMembers rp))"
  by (induction rps arbitrary: s) (auto simp: add_provision_def)

lemma covered_provision:
  assumes "covered (pm_entityType r) d s T" "unused (ro_ID (rp_Role rp)) T" "ro_ID (rp_Role rp) \<notin> fst ` own s"
  shows "covered (pm_entityType r) d (add_provision rp s) (T \<union> rels (provision_policies r d rp))"
proof -
  let ?i = "ro_ID (rp_Role rp)" and ?e = "ro_EntityID (rp_Role rp)"
  have new: "rel_ResourceId t \<noteq> ?i" if "t \<in> T" "member_tuple t" for t
    using assms(2) that unfolding unused_def member_tuple_def by blast
  have "covered (pm_entityType r) d (s\<lparr>own := insert (?i, ?e) (own s)\<rparr>) T"
    unfolding covered_def
  proof (intro conjI allI ballI impI; simp)
    fix i e e' assume "i = ?i \<and> e = ?e \<or> (i, e) \<in> own s" "i = ?i \<and> e' = ?e \<or> (i, e') \<in> own s"
    with assms(1,3) show "e = e'" unfolding covered_def by (metis fst_conv image_eqI)
  next
    fix t e assume "t \<in> T" "member_tuple t" "rel_ResourceId t = ?i \<and> e = ?e \<or> (rel_ResourceId t, e) \<in> own s"
    with new assms(1) show "\<exists>m. rel_SubjectId t = EncodeDomainUserID d m \<and> (rel_ResourceId t, m) \<in> mems s"
      unfolding covered_def by blast
  qed (use assms(1) in \<open>auto simp: covered_def\<close>)
  from covered_add_members [OF covered_add_actions [OF this]]
  have "covered (pm_entityType r) d (s\<lparr>own := insert (?i, ?e) (own s), acts := acts s \<union> Pair ?i ` set (rp_OptionalActions rp),
      mems := mems s \<union> Pair ?i ` set (rp_OptionalMembers rp)\<rparr>)
      (T \<union> rels (map (action_policy r ?i ?e) (rp_OptionalActions rp)) \<union> rels (map (member_policy d ?i) (rp_OptionalMembers rp)))"
    by simp
  then show ?thesis
    by (simp add: add_provision_def provision_policies_def image_Un Un_assoc) (cases s, simp)
qed

lemma unused_provision:
  "unused i T \<Longrightarrow> ro_ID (rp_Role rp) \<noteq> i \<Longrightarrow> pm_entityType r \<noteq> RoleType \<Longrightarrow> unused i (T \<union> rels (provision_policies r d rp))"
  unfolding unused_def provision_policies_def
  by (auto simp: action_policy_tuple member_policy_tuple policy_names)

lemma covered_provisions:
  assumes "pm_entityType r \<noteq> RoleType"
  shows "covered (pm_entityType r) d s T \<Longrightarrow> \<forall>rp \<in> set rps. unused (ro_ID (rp_Role rp)) T \<and> ro_ID (rp_Role rp) \<notin> fst ` own s \<Longrightarrow>
    distinct (map (\<lambda>rp. ro_ID (rp_Role rp)) rps) \<Longrightarrow>
    covered (pm_entityType r) d (fold add_provision rps s) (T \<union> rels (concat (map (provision_policies r d) rps)))"
proof (induction rps arbitrary: s T)
  case (Cons rp rps)
  have ne: "ro_ID (rp_Role q) \<noteq> ro_ID (rp_Role rp)" if "q \<in> set rps" for q
    using Cons.prems(3) that by (fastforce simp: image_iff)
  have "\<forall>q \<in> set rps. unused (ro_ID (rp_Role q)) (T \<union> rels (provision_policies r d rp)) \<and>
      ro_ID (rp_Role q) \<notin> fst ` own (add_provision rp s)"
    using Cons.prems(2) assms ne unfolding add_provision_def by (auto intro!: unused_provision) blast?
  moreover have "covered (pm_entityType r) d (add_provision rp s) (T \<union> rels (provision_policies r d rp))"
    using Cons.prems covered_provision by auto
  ultimately have "covered (pm_entityType r) d (fold add_provision rps (add_provision rp s))
      ((T \<union> rels (provision_policies r d rp)) \<union> rels (concat (map (provision_policies r d) rps)))"
    using Cons.IH Cons.prems(3) by auto
  then show ?case by (simp add: image_Un Un_assoc)
qed simp

lemma covered_other_policies:
  "covered et d s T \<Longrightarrow> \<forall>p \<in> set ps. no_role_policy p \<Longrightarrow> covered et d s (T \<union> rels ps)"
  unfolding covered_def no_role_policy_def by (auto simp: action_tuple_def member_tuple_def)

section \<open>The invariant of the service\<close>

text \<open>
  What the service relies on: the laws of the repository and of the policy service, that the
  two do not write each other's data, that the clock and the id provider write neither, and
  that a new id is new.
\<close>

locale role_service =
  repo: role_repository "pm_repo svc" view +
  pol: policy_service "pm_AddPolicies svc" "pm_DeletePolicies svc" "pm_DeletePolicyFilter svc" tuples
  for svc :: "'w ProvisionManageService" and view :: "'w \<Rightarrow> role_state" and tuples :: "'w \<Rightarrow> Relationship set" +
  assumes pol_frames: "frames view (pm_AddPolicies svc prs)" "frames view (pm_DeletePolicies svc prs)"
      "frames view (pm_DeletePolicyFilter svc pr)"
    and repo_frames: "frames tuples (AddRoles (pm_repo svc) rps)" "frames tuples (RemoveRoles (pm_repo svc) ids)"
      "frames tuples (UpdateRole (pm_repo svc) role)" "frames tuples (RetrieveEntityRole (pm_repo svc) e i)"
      "frames tuples (RoleAddActions (pm_repo svc) role xs)" "frames tuples (RoleRemoveActions (pm_repo svc) role xs)"
      "frames tuples (RoleRemoveAllActions (pm_repo svc) role)" "frames tuples (RoleAddMembers (pm_repo svc) role xs)"
      "frames tuples (RoleRemoveMembers (pm_repo svc) role xs)" "frames tuples (RoleRemoveAllMembers (pm_repo svc) role)"
      "frames tuples (RetrieveEntitiesRolesActionsMembers (pm_repo svc) ids)"
      "frames tuples (RemoveMemberFromAllRoles (pm_repo svc) m)"
    and sid_frames: "frames view (pm_sidProvider svc)" "frames tuples (pm_sidProvider svc)"
    and now_frames: "frames view (pm_now svc)" "frames tuples (pm_now svc)"
    and fresh_sid: "pm_sidProvider svc w = (Inr sid, w') \<Longrightarrow> unused (pm_entityType svc @ ''_'' @ sid) (tuples w)"
    and entity_type: "pm_entityType svc \<noteq> RoleType"

text \<open>An error that reports that policies could not be rolled back.\<close>

definition reports_rollback :: "gerror + 'a \<Rightarrow> bool" where
  "reports_rollback r \<longleftrightarrow> (\<exists>e e'. r = Inl (Wrap e (Wrap errRollbackRoles e')))"

text \<open>The operations that change roles, by a session of the domain \<open>d\<close>.\<close>

inductive role_step :: "'w ProvisionManageService \<Rightarrow> string \<Rightarrow> 'w \<Rightarrow> 'w \<Rightarrow> bool"
  for svc :: "'w ProvisionManageService" and d :: string where
  rs_provision: "AddNewEntitiesRoles svc d u es opt new w = (ra, w') \<Longrightarrow> \<forall>p \<in> set opt. no_role_policy p \<Longrightarrow>
     \<not> reports_rollback ra \<Longrightarrow> role_step svc d w w'"
| rs_remove_entities: "RemoveEntitiesRoles svc d u es fs ps w = (rb, w') \<Longrightarrow> role_step svc d w w'"
| rs_add_role: "svc_AddRole svc ses e n as ms w = (rc, w') \<Longrightarrow> s_DomainID ses = d \<Longrightarrow>
     \<not> reports_rollback rc \<Longrightarrow> role_step svc d w w'"
| rs_remove_role: "svc_RemoveRole svc ses e i w = (rb, w') \<Longrightarrow> role_step svc d w w'"
| rs_rename: "svc_UpdateRoleName svc ses e i n w = (rd, w') \<Longrightarrow> role_step svc d w w'"
| rs_add_actions: "svc_RoleAddActions svc ses e i as w = (re, w') \<Longrightarrow>
     \<not> reports_rollback re \<Longrightarrow> role_step svc d w w'"
| rs_remove_actions: "svc_RoleRemoveActions svc ses e i as w = (rb, w') \<Longrightarrow> role_step svc d w w'"
| rs_remove_all_actions: "svc_RoleRemoveAllActions svc ses e i w = (rb, w') \<Longrightarrow> role_step svc d w w'"
| rs_add_members: "svc_RoleAddMembers svc ses e i ms w = (re, w') \<Longrightarrow> s_DomainID ses = d \<Longrightarrow>
     \<not> reports_rollback re \<Longrightarrow> role_step svc d w w'"
| rs_remove_members: "svc_RoleRemoveMembers svc ses e i ms w = (rb, w') \<Longrightarrow> s_DomainID ses = d \<Longrightarrow> role_step svc d w w'"
| rs_remove_all_members: "svc_RoleRemoveAllMembers svc ses e i w = (rb, w') \<Longrightarrow> role_step svc d w w'"
| rs_remove_member: "svc_RemoveMemberFromAllRoles svc ses m w = (rb, w') \<Longrightarrow> role_step svc d w w'"

context role_service
begin

abbreviation et :: string where "et \<equiv> pm_entityType svc"

abbreviation ok :: "string \<Rightarrow> 'w \<Rightarrow> bool" where "ok d w \<equiv> covered et d (view w) (tuples w)"

text \<open>Looking up a role changes nothing and fixes its id and entity.\<close>

lemma lookup_ok:
  assumes "RetrieveEntityRole (pm_repo svc) e i w = (Inr ro, w1)"
  shows "view w1 = view w" "tuples w1 = tuples w" "ro_ID ro = i" "(i, e) \<in> own (view w)"
  using effect_InrD [OF repo.RetrieveEntityRole_eff assms] framesD [OF repo_frames(4) assms] by auto

lemma lookup_err:
  assumes "RetrieveEntityRole (pm_repo svc) e i w = (Inl err, w1)"
  shows "view w1 = view w" "tuples w1 = tuples w"
  using effect_InlD [OF repo.RetrieveEntityRole_eff assms] framesD [OF repo_frames(4) assms] by auto

lemma now_same: "pm_now svc w = (t, w1) \<Longrightarrow> view w1 = view w \<and> tuples w1 = tuples w"
  using framesD [OF now_frames(1)] framesD [OF now_frames(2)] by blast

lemma frames_policies:
  "pm_AddPolicies svc prs w = (r, w1) \<Longrightarrow> view w1 = view w"
  "pm_DeletePolicies svc prs w = (r, w1) \<Longrightarrow> view w1 = view w"
  "pm_DeletePolicyFilter svc pr w = (r, w1) \<Longrightarrow> view w1 = view w"
  by (erule framesD [OF pol_frames(1)], erule framesD [OF pol_frames(2)], erule framesD [OF pol_frames(3)])

text \<open>
  The three shapes of the operations. A look up followed by more; relationships removed, then
  rows; relationships added, then rows, with the roll back.
\<close>

lemma look_up_then:
  assumes "trying (RetrieveEntityRole (pm_repo svc) e i) g k w = (r, w')" "ok d w"
    and "\<And>ro w1 r w'. k ro w1 = (r, w') \<Longrightarrow> view w1 = view w \<Longrightarrow> tuples w1 = tuples w \<Longrightarrow> ro_ID ro = i \<Longrightarrow>
       (i, e) \<in> own (view w) \<Longrightarrow> P r \<Longrightarrow> ok d w'"
    and "P r"
  shows "ok d w'"
proof -
  obtain q w1 where q: "RetrieveEntityRole (pm_repo svc) e i w = (q, w1)" by fastforce
  show ?thesis
  proof (cases q)
    case (Inl err)
    with assms(1) q have "w' = w1" by (simp add: trying_apply)
    with lookup_err [OF q [unfolded Inl]] assms(2) show ?thesis by simp
  next
    case (Inr ro)
    with assms(1) q have "k ro w1 = (r, w')" by (simp add: trying_apply)
    from assms(3) [OF this] lookup_ok [OF q [unfolded Inr]] assms(4) show ?thesis by blast
  qed
qed

lemma remove_then:
  assumes "trying del g (\<lambda>_. k) w = (r, w')" "ok d w"
    and "\<And>q w1. del w = (q, w1) \<Longrightarrow> view w1 = view w \<and> tuples w1 \<subseteq> tuples w"
    and "\<And>u w1. del w = (Inr u, w1) \<Longrightarrow> k w1 = (r, w') \<Longrightarrow> ok d w1 \<Longrightarrow> ok d w'"
  shows "ok d w'"
proof -
  obtain q w1 where q: "del w = (q, w1)" by fastforce
  have o: "ok d w1" using assms(3) [OF q] covered_mono [OF assms(2)] by simp
  show ?thesis
  proof (cases q)
    case (Inl e)
    with q assms(1) o show ?thesis by (simp add: trying_apply)
  next
    case (Inr u)
    with q assms(1) have "k w1 = (r, w')" by (simp add: trying_apply)
    with assms(4) q Inr o show ?thesis by blast
  qed
qed

lemma rows_step:
  assumes "effect view m P" "frames tuples m" "m w = (r, w')" "ok d w"
    and "\<And>x s'. P (view w) x s' \<Longrightarrow> covered et d s' (tuples w)"
  shows "ok d w'"
proof (cases r)
  case (Inl e)
  with framesD [OF assms(2,3)] effect_InlD [OF assms(1) assms(3) [unfolded Inl]] assms(4) show ?thesis by simp
next
  case (Inr x)
  with framesD [OF assms(2,3)] assms(5) [OF effect_InrD [OF assms(1) assms(3) [unfolded Inr]]] show ?thesis by simp
qed

lemma remove_op:
  assumes "effect view m (\<lambda>s x s'. s' = F s)" "frames tuples m" "trying del g (\<lambda>_. m) w = (r, w')" "ok d w"
    and "\<And>q w1. del w = (q, w1) \<Longrightarrow> view w1 = view w \<and> tuples w1 \<subseteq> tuples w"
    and "\<And>u w1. del w = (Inr u, w1) \<Longrightarrow> covered et d (F (view w)) (tuples w1)"
  shows "ok d w'"
proof (rule remove_then [OF assms(3,4,5)])
  fix u w1 assume d: "del w = (Inr u, w1)" and m: "m w1 = (r, w')" and o: "ok d w1"
  show "ok d w'"
    by (rule rows_step [OF assms(1,2) m o]) (use assms(5) [OF d] assms(6) [OF d] in simp)
qed

text \<open>A call of the policy service, then a change of rows.\<close>

lemma filter_op:
  assumes "effect view m (\<lambda>s x s'. s' = F s)" "frames tuples m"
    "trying (pm_DeletePolicyFilter svc f) g (\<lambda>_. m) w = (r, w')" "ok d w"
    and "covered et d (F (view w)) {t \<in> tuples w. \<not> matches (delete_filter f) t}"
  shows "ok d w'"
  by (rule remove_op [OF assms(1-4)]) (use assms(5) in \<open>auto dest: frames_policies(3) pol.filter_subset pol.filter_ok\<close>)

lemma delete_op:
  assumes "effect view m (\<lambda>s x s'. s' = F s)" "frames tuples m"
    "trying (pm_DeletePolicies svc prs) g (\<lambda>_. m) w = (r, w')" "ok d w"
    and "covered et d (F (view w)) (tuples w - rels prs)"
  shows "ok d w'"
  by (rule remove_op [OF assms(1-4)]) (use assms(5) in \<open>auto dest: frames_policies(2) pol.del_subset pol.del_ok\<close>)

text \<open>Adding is all or nothing unless the roll back fails.\<close>

lemma add_all_or_nothing:
  assumes "effect view m P" "frames tuples m" "add_with_policies svc prs g m w = (r, w')" "\<not> reports_rollback r"
  shows "case r of Inl e \<Rightarrow> view w' = view w \<and> tuples w' = tuples w
    | Inr x \<Rightarrow> P (view w) x (view w') \<and> tuples w' = tuples w \<union> rels prs \<and> rels prs \<inter> tuples w = {}"
proof -
  obtain q w1 where q: "pm_AddPolicies svc prs w = (q, w1)" by fastforce
  have v1: "view w1 = view w" using frames_policies(1) [OF q] .
  show ?thesis
  proof (cases q)
    case (Inl e)
    with q assms(3) have "w' = w1" "r = Inl (g e)" by (simp_all add: add_with_policies_def trying_apply)
    with pol.add_err [OF q [unfolded Inl]] v1 show ?thesis by simp
  next
    case (Inr u)
    note add = pol.add_ok [OF q [unfolded Inr]]
    obtain q2 w2 where q2: "m w1 = (q2, w2)" by fastforce
    have t2: "tuples w2 = tuples w1" using framesD [OF assms(2) q2] .
    from q Inr assms(3) have rb: "rollback_policies svc prs m w1 = (r, w')" by (simp add: add_with_policies_def trying_apply)
    show ?thesis
    proof (cases q2)
      case (Inr x)
      with rb q2 have "w' = w2" "r = Inr x" by (simp_all add: rollback_policies_def deferring_apply)
      with effect_InrD [OF assms(1) q2 [unfolded Inr]] v1 t2 add show ?thesis by simp
    next
      case (Inl e)
      obtain q3 w3 where q3: "pm_DeletePolicies svc prs w2 = (q3, w3)" by fastforce
      with rb q2 Inl assms(4) obtain v where v: "q3 = Inr v" "w' = w3" "r = Inl e"
        by (cases q3) (auto simp: rollback_policies_def deferring_apply reports_rollback_def)
      have "view w3 = view w"
        using frames_policies(2) [OF q3] effect_InlD [OF assms(1) q2 [unfolded Inl]] v1 by simp
      moreover have "tuples w3 = tuples w"
        using pol.add_delete_restores [OF q [unfolded \<open>q = Inr u\<close>] t2] q3 v(1) by simp
      ultimately show ?thesis using v by simp
    qed
  qed
qed

lemma add_rows:
  assumes "effect view m P" "frames tuples m" "add_with_policies svc prs g m w = (r, w')" "ok d w" "\<not> reports_rollback r"
    and "\<And>x s'. P (view w) x s' \<Longrightarrow> covered et d s' (tuples w \<union> rels prs)"
  shows "ok d w'"
  using add_all_or_nothing [OF assms(1-3,5)] assms(4,6) by (cases r) auto

text \<open>The operations.\<close>

lemma touched_effect:
  assumes "\<And>now. effect view (M now) (P now)" "\<And>now s x s'. P now s x s' \<Longrightarrow> Q s x s'"
  shows "effect view (observe (pm_now svc) (\<lambda>now. trying (M now) g ret)) Q"
  by (rule effect_observe [OF now_frames(1)], rule effect_trying_ret) (rule effect_mono [OF assms])

lemma touched_frames:
  "(\<And>now. frames tuples (M now)) \<Longrightarrow> frames tuples (observe (pm_now svc) (\<lambda>now. trying (M now) g ret))"
  by (rule frames_observe [OF now_frames(2)], rule frames_trying_ret)

lemma RemoveRole_keeps:
  assumes "svc_RemoveRole svc ses e i w = (r, w')" "ok d w"
  shows "ok d w'"
  using assms(1) unfolding svc_RemoveRole_def
proof (rule look_up_then [where P = "\<lambda>_. True", OF _ assms(2)], simp_all, goal_cases)
  case (1 ro w1 r w')
  show ?case
    by (rule filter_op [OF effect_trying_ret [OF repo.RemoveRoles_eff] frames_trying_ret [OF repo_frames(2)] 1(1)])
      (use 1 assms(2) covered_drop_role in auto)
qed

lemma RoleRemoveAllActions_keeps:
  assumes "svc_RoleRemoveAllActions svc ses e i w = (r, w')" "ok d w"
  shows "ok d w'"
  using assms(1) unfolding svc_RoleRemoveAllActions_def
proof (rule look_up_then [where P = "\<lambda>_. True", OF _ assms(2)], simp_all, goal_cases)
  case (1 ro w1 r w')
  show ?case
    by (rule filter_op [OF touched_effect [OF repo.RoleRemoveAllActions_eff] touched_frames [OF repo_frames(7)] 1(1),
          where F = "\<lambda>s. s\<lparr>acts := {y \<in> acts s. fst y \<noteq> i}\<rparr>"])
      (use 1 assms(2) covered_delete_all_actions in auto)
qed

lemma RoleRemoveAllMembers_keeps:
  assumes "svc_RoleRemoveAllMembers svc ses e i w = (r, w')" "ok d w"
  shows "ok d w'"
  using assms(1) unfolding svc_RoleRemoveAllMembers_def
proof (rule look_up_then [where P = "\<lambda>_. True", OF _ assms(2)], simp_all, goal_cases)
  case (1 ro w1 r w')
  show ?case
    by (rule filter_op [OF touched_effect [OF repo.RoleRemoveAllMembers_eff] touched_frames [OF repo_frames(10)] 1(1),
          where F = "\<lambda>s. s\<lparr>mems := {y \<in> mems s. fst y \<noteq> i}\<rparr>"])
      (use 1 assms(2) covered_delete_all_members in auto)
qed

lemma RoleRemoveActions_keeps:
  assumes "svc_RoleRemoveActions svc ses e i as w = (r, w')" "ok d w"
  shows "ok d w'"
  using assms(1) unfolding svc_RoleRemoveActions_def
proof (rule look_up_then [where P = "\<lambda>_. True", OF _ assms(2)], simp_all, goal_cases)
  case (1 ro w1 r w')
  show ?case
  proof (cases "as = []")
    case False
    with 1(1) have k: "trying (pm_DeletePolicies svc (map (action_policy svc (ro_ID ro) e) as)) (Wrap svcErrDeletePolicies)
      (\<lambda>_. observe (pm_now svc) (\<lambda>now. trying (RoleRemoveActions (pm_repo svc)
         (ro\<lparr>ro_UpdatedAt := now, ro_UpdatedBy := s_UserID ses\<rparr>) as) (Wrap svcErrRemoveEntity) ret)) w1 = (r, w')"
      by simp
    show ?thesis
      by (rule delete_op [OF touched_effect [OF repo.RoleRemoveActions_eff] touched_frames [OF repo_frames(6)] k,
            where F = "\<lambda>s. s\<lparr>acts := acts s - Pair i ` set as\<rparr>"])
        (use 1 assms(2-) covered_delete_actions in auto)
  qed (use 1 assms(2) in simp)
qed

lemma RoleRemoveMembers_keeps:
  assumes "svc_RoleRemoveMembers svc ses e i ms w = (r, w')" "ok d w" "s_DomainID ses = d"
  shows "ok d w'"
  using assms(1) unfolding svc_RoleRemoveMembers_def
proof (rule look_up_then [where P = "\<lambda>_. True", OF _ assms(2)], simp_all, goal_cases)
  case (1 ro w1 r w')
  show ?case
  proof (cases "ms = []")
    case False
    with 1(1) have k: "trying (pm_DeletePolicies svc (map (member_policy (s_DomainID ses) (ro_ID ro)) ms)) (Wrap svcErrDeletePolicies)
      (\<lambda>_. observe (pm_now svc) (\<lambda>now. trying (RoleRemoveMembers (pm_repo svc)
         (ro\<lparr>ro_UpdatedAt := now, ro_UpdatedBy := s_UserID ses\<rparr>) ms) (Wrap svcErrRemoveEntity) ret)) w1 = (r, w')"
      by simp
    show ?thesis
      by (rule delete_op [OF touched_effect [OF repo.RoleRemoveMembers_eff] touched_frames [OF repo_frames(9)] k,
            where F = "\<lambda>s. s\<lparr>mems := mems s - Pair i ` set ms\<rparr>"])
        (use 1 assms(2-) covered_delete_members in auto)
  qed (use 1 assms(2) in simp)
qed

lemma UpdateRoleName_keeps:
  assumes "svc_UpdateRoleName svc ses e i n w = (r, w')" "ok d w"
  shows "ok d w'"
  using assms(1) unfolding svc_UpdateRoleName_def
proof (rule look_up_then [where P = "\<lambda>_. True", OF _ assms(2)], simp_all, goal_cases)
  case (1 ro w1 r w')
  show ?case
    by (rule rows_step [OF touched_effect [OF repo.UpdateRole_eff] touched_frames [OF repo_frames(3)] 1(1),
          where P = "\<lambda>s x s'. s' = s"])
      (use 1 assms(2) in auto)
qed

lemma RemoveMemberFromAllRoles_keeps:
  assumes "svc_RemoveMemberFromAllRoles svc ses m w = (r, w')" "ok d w"
  shows "ok d w'"
proof -
  obtain q w1 where q: "RemoveMemberFromAllRoles (pm_repo svc) m w = (q, w1)" by fastforce
  have s: "view w1 = view w" "tuples w1 = tuples w"
    using q effect_InlD [OF repo.RemoveMemberFromAllRoles_eff] effect_InrD [OF repo.RemoveMemberFromAllRoles_eff]
      framesD [OF repo_frames(12) q] by (cases q; blast)+
  show ?thesis
  proof (cases q)
    case (Inl e)
    with assms(1) q s assms(2) show ?thesis by (simp add: svc_RemoveMemberFromAllRoles_def trying_apply)
  next
    case (Inr u)
    with assms(1) q obtain f q2 w2 where "pm_DeletePolicyFilter svc f w1 = (q2, w2)" "w' = w2"
      by (auto simp: svc_RemoveMemberFromAllRoles_def trying_apply split: prod.splits sum.splits)
    then show ?thesis
      using s assms(2) frames_policies(3) pol.filter_subset covered_mono by metis
  qed
qed

lemma RoleAddActions_keeps:
  assumes "svc_RoleAddActions svc ses e i as w = (r, w')" "ok d w" "\<not> reports_rollback r"
  shows "ok d w'"
  using assms(1) unfolding svc_RoleAddActions_def
proof (rule look_up_then [where P = "\<lambda>r. \<not> reports_rollback r", OF _ assms(2)], goal_cases)
  case (1 ro w1 r w')
  show ?case
  proof (cases "as = [] \<or> validateActions svc as \<noteq> None")
    case False
    with 1(1,4) have k: "add_with_policies svc (map (action_policy svc i e) as) (Wrap svcErrAddPolicies)
      (observe (pm_now svc) (\<lambda>now. trying (RoleAddActions (pm_repo svc)
         (ro\<lparr>ro_UpdatedAt := now, ro_UpdatedBy := s_UserID ses\<rparr>) as) (Wrap svcErrCreateEntity) ret)) w1 = (r, w')"
      by simp
    show ?thesis
      by (rule add_rows [OF touched_effect [OF repo.RoleAddActions_eff] touched_frames [OF repo_frames(5)] k,
            where P = "\<lambda>s x s'. s' = s\<lparr>acts := acts s \<union> Pair i ` set as\<rparr>"])
        (use 1 assms(2) covered_add_actions in auto)
  qed (use 1 assms(2) in \<open>auto split: if_splits\<close>)
qed (rule assms(3))

lemma RoleAddMembers_keeps:
  assumes "svc_RoleAddMembers svc ses e i ms w = (r, w')" "ok d w" "\<not> reports_rollback r" "s_DomainID ses = d"
  shows "ok d w'"
  using assms(1) unfolding svc_RoleAddMembers_def
proof (rule look_up_then [where P = "\<lambda>r. \<not> reports_rollback r", OF _ assms(2)], goal_cases)
  case (1 ro w1 r w')
  show ?case
  proof (cases "ms = []")
    case False
    with 1(1,4) assms(4) have k: "add_with_policies svc (map (member_policy d i) ms) (Wrap svcErrAddPolicies)
      (observe (pm_now svc) (\<lambda>now. trying (RoleAddMembers (pm_repo svc)
         (ro\<lparr>ro_UpdatedAt := now, ro_UpdatedBy := s_UserID ses\<rparr>) ms) (Wrap svcErrCreateEntity) ret)) w1 = (r, w')"
      by simp
    show ?thesis
      by (rule add_rows [OF touched_effect [OF repo.RoleAddMembers_eff] touched_frames [OF repo_frames(8)] k,
            where P = "\<lambda>s x s'. s' = s\<lparr>mems := mems s \<union> Pair i ` set ms\<rparr>"])
        (use 1 assms(2) covered_add_members in auto)
  qed (use 1 assms(2) in auto)
qed (rule assms(3))

lemma sid_ok:
  assumes "pm_sidProvider svc w = (Inr sid, w1)"
  shows "view w1 = view w" "tuples w1 = tuples w" "unused (et @ ''_'' @ sid) (tuples w)"
  using framesD [OF sid_frames(1) assms] framesD [OF sid_frames(2) assms] fresh_sid [OF assms] by auto

lemma sid_err:
  assumes "pm_sidProvider svc w = (Inl e, w1)"
  shows "view w1 = view w" "tuples w1 = tuples w"
  using framesD [OF sid_frames(1) assms] framesD [OF sid_frames(2) assms] by auto

text \<open>Adding rows for provisioned roles, with or without policies to be rolled back.\<close>

lemma add_provisions_keeps:
  assumes E: "effect view m (\<lambda>s x s'. s' = fold add_provision rps s \<and> (\<forall>rp \<in> set rps. ro_ID (rp_Role rp) \<notin> fst ` own s) \<and>
      distinct (map (\<lambda>rp. ro_ID (rp_Role rp)) rps))"
    and F: "frames tuples m"
    and k: "(if length prs > 0 then add_with_policies svc prs g m else m) w = (r, w')"
    and o: "ok d w" "\<not> reports_rollback r"
    and u: "\<forall>rp \<in> set rps. unused (ro_ID (rp_Role rp)) (tuples w)"
    and p: "prs = concat (map (provision_policies svc d) rps) @ opt" "\<forall>q \<in> set opt. no_role_policy q"
  shows "ok d w'"
proof -
  have C: "covered et d (fold add_provision rps (view w)) (tuples w \<union> rels prs)"
    if "\<forall>rp \<in> set rps. ro_ID (rp_Role rp) \<notin> fst ` own (view w)" "distinct (map (\<lambda>rp. ro_ID (rp_Role rp)) rps)"
    using covered_other_policies [OF covered_provisions [OF entity_type o(1) _ that(2)] p(2)] u that(1)
    by (simp add: p(1) image_Un Un_assoc)
  show ?thesis
  proof (cases "length prs > 0")
    case True
    with k have "add_with_policies svc prs g m w = (r, w')" by simp
    from add_rows [OF E F this o] C show ?thesis by blast
  next
    case False
    with k have m: "m w = (r, w')" by simp
    show ?thesis by (rule rows_step [OF E F m o(1)]) (use C False in auto)
  qed
qed

lemma add_one_effect:
  "effect view (trying (AddRoles (pm_repo svc) rps) g (\<lambda>rp. case rp of [] \<Rightarrow> fail f | x # _ \<Rightarrow> ret x))
     (\<lambda>s x s'. s' = fold add_provision rps s \<and> (\<forall>rp \<in> set rps. ro_ID (rp_Role rp) \<notin> fst ` own s) \<and>
        distinct (map (\<lambda>rp. ro_ID (rp_Role rp)) rps))"
  (is "effect view ?m ?P")
proof (rule effectI)
  fix v e v' assume m: "?m v = (Inl e, v')"
  obtain q v1 where q: "AddRoles (pm_repo svc) rps v = (q, v1)" by fastforce
  show "view v' = view v"
  proof (cases q)
    case (Inl err)
    with m q effect_InlD [OF repo.AddRoles_eff q [unfolded Inl]] show ?thesis by (simp add: trying_apply)
  next
    case (Inr x)
    with m q effect_InrD [OF repo.AddRoles_eff q [unfolded Inr]] show ?thesis
      by (cases rps) (simp_all add: trying_apply)
  qed
next
  fix v y v' assume m: "?m v = (Inr y, v')"
  then obtain x v1 where x: "AddRoles (pm_repo svc) rps v = (Inr x, v1)" and c: "(case x of [] \<Rightarrow> fail f | z # _ \<Rightarrow> ret z) v1 = (Inr y, v')"
    by (auto dest!: trying_InrD)
  have "v' = v1" using c by (cases x) auto
  with effect_InrD [OF repo.AddRoles_eff x] show "?P (view v) y (view v')" by simp
qed

lemma AddRole_keeps:
  assumes "svc_AddRole svc ses e n as ms w = (r, w')" "ok d w" "\<not> reports_rollback r" "s_DomainID ses = d"
  shows "ok d w'"
proof -
  obtain q w1 where q: "pm_sidProvider svc w = (q, w1)" by fastforce
  show ?thesis
  proof (cases q)
    case (Inl err)
    with assms(1) q sid_err [of w err w1] assms(2) show ?thesis by (simp add: svc_AddRole_def trying_apply)
  next
    case (Inr sid)
    note sid = sid_ok [OF q [unfolded Inr]]
    show ?thesis
    proof (cases "validateActions svc as")
      case (Some err)
      with assms(1) q Inr sid assms(2) show ?thesis by (simp add: svc_AddRole_def trying_apply Let_def)
    next
      case None
      obtain t w2 where t: "pm_now svc w1 = (t, w2)" by fastforce
      let ?i = "et @ ''_'' @ sid"
      let ?rp = "\<lparr>rp_Role = Role0\<lparr>ro_ID := ?i, ro_Name := n, ro_EntityID := e, ro_CreatedAt := t,
          ro_CreatedBy := s_UserID ses\<rparr>, rp_OptionalActions = as, rp_OptionalMembers = ms\<rparr>"
      let ?m = "trying (AddRoles (pm_repo svc) [?rp]) (Wrap svcErrCreateEntity) (\<lambda>rp. case rp of [] \<Rightarrow> fail svcErrCreateEntity | x # _ \<Rightarrow> ret x)"
      have k: "(if length (map (action_policy svc ?i e) as @ map (member_policy d ?i) ms) > 0
          then add_with_policies svc (map (action_policy svc ?i e) as @ map (member_policy d ?i) ms) (Wrap svcErrCreateEntity) ?m
          else ?m) w2 = (r, w')"
        using assms(1,4) q Inr None t
        by (auto simp add: svc_AddRole_def trying_apply [of "pm_sidProvider svc"] observe_apply [of "pm_now svc"] Let_def
            split: if_splits)
      have E: "effect view ?m (\<lambda>s x s'. s' = fold add_provision [?rp] s \<and> (\<forall>rp \<in> set [?rp]. ro_ID (rp_Role rp) \<notin> fst ` own s) \<and>
          distinct (map (\<lambda>rp. ro_ID (rp_Role rp)) [?rp]))"
        by (rule effect_mono [OF add_one_effect]) auto
      have F: "frames tuples ?m"
        unfolding frames_def using framesD [OF repo_frames(1), of "[?rp]"]
        by (auto simp: trying_apply split: prod.splits sum.splits list.splits)
      show ?thesis
        by (rule add_provisions_keeps [OF E F k _ assms(3), where opt = "[]"])
          (use now_same [OF t] sid assms(2) in \<open>simp_all add: provision_policies_def Role0_def\<close>)
    qed
  qed
qed

text \<open>What the loops of \<open>AddNewEntitiesRoles\<close> have collected.\<close>

definition collected :: "string \<Rightarrow> Relationship set \<Rightarrow> RoleProvision list \<Rightarrow> Policy list \<Rightarrow> bool" where
  "collected d T rps p \<longleftrightarrow> p = concat (map (provision_policies svc d) rps) \<and> (\<forall>rp \<in> set rps. unused (ro_ID (rp_Role rp)) T)"

lemma provision_roles_same:
  "provision_roles svc d u e new rps p w = (r, w') \<Longrightarrow> view w' = view w \<and> tuples w' = tuples w \<and>
     (collected d (tuples w) rps p \<longrightarrow> (\<forall>rps' p'. r = Inr (rps', p') \<longrightarrow> collected d (tuples w) rps' p'))"
proof (induction new arbitrary: rps p w)
  case (Cons x new)
  obtain n ms where x: "x = (n, ms)" by fastforce
  show ?case
  proof (cases "map_of (pm_builtInRoles svc) n")
    case None
    with Cons.prems x show ?thesis by auto
  next
    case (Some as)
    obtain q w1 where q: "pm_sidProvider svc w = (q, w1)" by fastforce
    show ?thesis
    proof (cases q)
      case (Inl err)
      with Cons.prems x Some q sid_err [of w err w1] show ?thesis by (auto simp: trying_apply)
    next
      case (Inr sid)
      note sid = sid_ok [OF q [unfolded Inr]]
      obtain t w2 where t: "pm_now svc w1 = (t, w2)" by fastforce
      show ?thesis
      proof (cases "validateActions svc as")
        case (Some err)
        with Cons.prems x \<open>map_of (pm_builtInRoles svc) n = Some as\<close> q Inr sid show ?thesis
          by (auto simp: trying_apply Let_def)
      next
        case None
        let ?i = "et @ ''_'' @ sid"
        let ?rp = "\<lparr>rp_Role = Role0\<lparr>ro_ID := ?i, ro_Name := n, ro_EntityID := e, ro_CreatedAt := t, ro_CreatedBy := u\<rparr>,
            rp_OptionalActions = as, rp_OptionalMembers = ms\<rparr>"
        have "provision_roles svc d u e new (rps @ [?rp]) (p @ map (action_policy svc ?i e) as @ map (member_policy d ?i) ms) w2 = (r, w')"
          using Cons.prems x \<open>map_of (pm_builtInRoles svc) n = Some as\<close> q Inr None t
          by (simp add: trying_apply observe_apply Let_def)
        note ih = Cons.IH [OF this]
        have e: "view w2 = view w" "tuples w2 = tuples w" using now_same [OF t] sid by simp_all
        have "collected d (tuples w) (rps @ [?rp]) (p @ map (action_policy svc ?i e) as @ map (member_policy d ?i) ms)"
          if "collected d (tuples w) rps p"
          using that sid(3) by (simp add: collected_def provision_policies_def Role0_def)
        with ih [unfolded e] show ?thesis by blast
      qed
    qed
  qed
qed auto

lemma provision_entities_same:
  "provision_entities svc d u es new rps p w = (r, w') \<Longrightarrow> view w' = view w \<and> tuples w' = tuples w \<and>
     (collected d (tuples w) rps p \<longrightarrow> (\<forall>rps' p'. r = Inr (rps', p') \<longrightarrow> collected d (tuples w) rps' p'))"
proof (induction es arbitrary: rps p w)
  case (Cons e es)
  obtain q w1 where q: "provision_roles svc d u e new rps p w = (q, w1)" by fastforce
  note s = provision_roles_same [OF q]
  show ?case
  proof (cases q)
    case (Inl err)
    with Cons.prems q have "r = Inl err" "w' = w1" by (simp_all add: pass_apply)
    with s show ?thesis by simp
  next
    case (Inr x)
    with Cons.prems q have "provision_entities svc d u es new (fst x) (snd x) w1 = (r, w')"
      by (auto simp: pass_apply split: prod.splits)
    note ih = Cons.IH [OF this]
    have e: "view w1 = view w" "tuples w1 = tuples w"
      and c: "collected d (tuples w) rps p \<Longrightarrow> collected d (tuples w) (fst x) (snd x)"
      using s Inr by simp_all
    from ih [unfolded e] c show ?thesis by blast
  qed
qed auto

lemma AddNewEntitiesRoles_keeps:
  assumes "AddNewEntitiesRoles svc d u es opt new w = (r, w')" "ok d w" "\<not> reports_rollback r"
    "\<forall>p \<in> set opt. no_role_policy p"
  shows "ok d w'"
proof -
  obtain q w1 where q: "provision_entities svc d u es new [] [] w = (q, w1)" by fastforce
  note s = provision_entities_same [OF q]
  show ?thesis
  proof (cases q)
    case (Inl err)
    with assms(1,2) q s show ?thesis by (auto simp: AddNewEntitiesRoles_def pass_apply)
  next
    case (Inr x)
    obtain rps p where x: "x = (rps, p)" by fastforce
    let ?m = "trying (AddRoles (pm_repo svc) rps) (Wrap svcErrCreateEntity) ret"
    have k: "(if length (p @ opt) > 0 then add_with_policies svc (p @ opt) (Wrap svcErrCreateEntity) ?m else ?m) w1 = (r, w')"
      using assms(1) q Inr x by (auto simp: AddNewEntitiesRoles_def pass_apply Let_def)
    have c: "collected d (tuples w) rps p" using s Inr x by (simp add: collected_def)
    show ?thesis
      by (rule add_provisions_keeps [OF effect_trying_ret [OF effect_mono [OF repo.AddRoles_eff]]
            frames_trying_ret [OF repo_frames(1)] k _ assms(3)])
        (use s c assms(2,4) in \<open>auto simp: collected_def\<close>)
  qed
qed

lemma delete_filters_subset: "delete_filters svc fs w = (r, w') \<Longrightarrow> view w' = view w \<and> tuples w' \<subseteq> tuples w"
proof (induction fs arbitrary: w)
  case (Cons f fs)
  obtain q w1 where q: "pm_DeletePolicyFilter svc f w = (q, w1)" by fastforce
  with Cons.prems Cons.IH [of w1] frames_policies(3) [OF q] pol.filter_subset [OF q] show ?case
    by (cases q) (auto simp: trying_apply)
qed simp

lemma RemoveEntitiesRoles_keeps:
  assumes "RemoveEntitiesRoles svc d u es fs ps w = (r, w')" "ok d w"
  shows "ok d w'"
proof -
  obtain q w1 where q: "RetrieveEntitiesRolesActionsMembers (pm_repo svc) es w = (q, w1)" by fastforce
  have s: "view w1 = view w \<and> tuples w1 = tuples w"
    using q effect_InlD [OF repo.RetrieveEntities_eff] effect_InrD [OF repo.RetrieveEntities_eff]
      framesD [OF repo_frames(11) q] by (cases q; blast)
  have sub: "view v' = view v \<and> tuples v' \<subseteq> tuples v" if "pm_DeletePolicies svc prs v = (x, v')" for prs v x v'
    using frames_policies(2) [OF that] pol.del_subset [OF that] by simp
  have "view w' = view w1 \<and> tuples w' \<subseteq> tuples w1"
  proof (cases q)
    case (Inl e)
    with assms(1) q show ?thesis by (simp add: RemoveEntitiesRoles_def pass_apply)
  next
    case (Inr x)
    obtain prs where "trying (pm_DeletePolicies svc prs) (Wrap svcErrDeletePolicies) (\<lambda>_.
        pass (if length ps > 1 then trying (pm_DeletePolicies svc ps) (Wrap errRemoveOptionalDeletePolicies) ret else ret ())
        (\<lambda>_. delete_filters svc fs)) w1 = (r, w')"
      using assms(1) q Inr by (cases x) (auto simp: RemoveEntitiesRoles_def pass_apply Let_def)
    then show ?thesis
      by (auto simp: trying_apply pass_apply split: prod.splits sum.splits if_splits
          dest!: sub delete_filters_subset)
  qed
  with s covered_mono [OF assms(2)] show ?thesis by simp
qed

lemma role_step_keeps: "role_step svc d w w' \<Longrightarrow> ok d w \<Longrightarrow> ok d w'"
  by (induction rule: role_step.induct)
    (blast intro: AddNewEntitiesRoles_keeps RemoveEntitiesRoles_keeps AddRole_keeps RemoveRole_keeps UpdateRoleName_keeps
      RoleAddActions_keeps RoleRemoveActions_keeps RoleRemoveAllActions_keeps RoleAddMembers_keeps
      RoleRemoveMembers_keeps RoleRemoveAllMembers_keeps RemoveMemberFromAllRoles_keeps)+

lemma role_steps_keep: "(role_step svc d)\<^sup>*\<^sup>* w w' \<Longrightarrow> ok d w \<Longrightarrow> ok d w'"
  by (induction rule: rtranclp_induct) (auto intro: role_step_keeps)

lemma RoleAddActions_all_or_nothing:
  assumes "svc_RoleAddActions svc ses e i as w = (r, w')" "\<not> reports_rollback r"
  shows "case r of Inl err \<Rightarrow> view w' = view w \<and> tuples w' = tuples w
    | Inr x \<Rightarrow> view w' = (view w)\<lparr>acts := acts (view w) \<union> Pair i ` set as\<rparr> \<and>
        tuples w' = tuples w \<union> rels (map (action_policy svc i e) as) \<and> (i, e) \<in> own (view w)"
proof -
  obtain q w1 where q: "RetrieveEntityRole (pm_repo svc) e i w = (q, w1)" by fastforce
  show ?thesis
  proof (cases q)
    case (Inl err)
    with assms(1) q have "w' = w1" "r = Inl (Wrap svcErrUpdateEntity err)" by (simp_all add: svc_RoleAddActions_def trying_apply)
    with lookup_err [OF q [unfolded Inl]] show ?thesis by simp
  next
    case (Inr ro)
    note l = lookup_ok [OF q [unfolded Inr]]
    let ?m = "observe (pm_now svc) (\<lambda>now. trying (RoleAddActions (pm_repo svc)
        (ro\<lparr>ro_UpdatedAt := now, ro_UpdatedBy := s_UserID ses\<rparr>) as) (Wrap svcErrCreateEntity) ret)"
    show ?thesis
    proof (cases "as = [] \<or> validateActions svc as \<noteq> None")
      case True
      with assms(1) q Inr have "w' = w1 \<and> (\<exists>e. r = Inl e)"
        by (auto simp: svc_RoleAddActions_def trying_apply [of "RetrieveEntityRole (pm_repo svc) e i"] split: if_splits)
      with l show ?thesis by auto
    next
      case False
      with assms(1) q Inr l(3) have k: "add_with_policies svc (map (action_policy svc i e) as) (Wrap svcErrAddPolicies) ?m w1 = (r, w')"
        by (auto simp: svc_RoleAddActions_def trying_apply [of "RetrieveEntityRole (pm_repo svc) e i"])
      have E: "effect view ?m (\<lambda>s x s'. s' = s\<lparr>acts := acts s \<union> Pair i ` set as\<rparr>)"
        by (rule touched_effect [OF repo.RoleAddActions_eff]) (simp add: l(3))
      from add_all_or_nothing [OF E touched_frames [OF repo_frames(5)] k assms(2)] l show ?thesis
        by (simp split: sum.splits)
    qed
  qed
qed

lemma RoleAddMembers_all_or_nothing:
  assumes "svc_RoleAddMembers svc ses e i ms w = (r, w')" "\<not> reports_rollback r"
  shows "case r of Inl err \<Rightarrow> view w' = view w \<and> tuples w' = tuples w
    | Inr x \<Rightarrow> view w' = (view w)\<lparr>mems := mems (view w) \<union> Pair i ` set ms\<rparr> \<and>
        tuples w' = tuples w \<union> rels (map (member_policy (s_DomainID ses) i) ms) \<and> (i, e) \<in> own (view w)"
proof -
  obtain q w1 where q: "RetrieveEntityRole (pm_repo svc) e i w = (q, w1)" by fastforce
  show ?thesis
  proof (cases q)
    case (Inl err)
    with assms(1) q have "w' = w1" "r = Inl (Wrap svcErrUpdateEntity err)" by (simp_all add: svc_RoleAddMembers_def trying_apply)
    with lookup_err [OF q [unfolded Inl]] show ?thesis by simp
  next
    case (Inr ro)
    note l = lookup_ok [OF q [unfolded Inr]]
    let ?m = "observe (pm_now svc) (\<lambda>now. trying (RoleAddMembers (pm_repo svc)
        (ro\<lparr>ro_UpdatedAt := now, ro_UpdatedBy := s_UserID ses\<rparr>) ms) (Wrap svcErrCreateEntity) ret)"
    show ?thesis
    proof (cases "ms = []")
      case True
      with assms(1) q Inr have "w' = w1 \<and> (\<exists>e. r = Inl e)"
        by (auto simp: svc_RoleAddMembers_def trying_apply [of "RetrieveEntityRole (pm_repo svc) e i"])
      with l show ?thesis by auto
    next
      case False
      with assms(1) q Inr l(3) have k: "add_with_policies svc (map (member_policy (s_DomainID ses) i) ms) (Wrap svcErrAddPolicies) ?m w1 = (r, w')"
        by (auto simp: svc_RoleAddMembers_def trying_apply [of "RetrieveEntityRole (pm_repo svc) e i"])
      have E: "effect view ?m (\<lambda>s x s'. s' = s\<lparr>mems := mems s \<union> Pair i ` set ms\<rparr>)"
        by (rule touched_effect [OF repo.RoleAddMembers_eff]) (simp add: l(3))
      from add_all_or_nothing [OF E touched_frames [OF repo_frames(8)] k assms(2)] l show ?thesis
        by (simp split: sum.splits)
    qed
  qed
qed

text \<open>What \<open>RemoveRole\<close> leaves behind.\<close>

lemma RemoveRole_leaves_members:
  assumes "svc_RemoveRole svc ses e i w = (Inr u, w')"
  shows "i \<notin> fst ` own (view w') \<and> {t \<in> tuples w'. member_tuple t} = {t \<in> tuples w. member_tuple t}"
proof -
  let ?f = "Policy0\<lparr>p_SubjectType := RoleType, p_Subject := i\<rparr>"
  obtain ro w1 where r: "RetrieveEntityRole (pm_repo svc) e i w = (Inr ro, w1)"
    and k: "trying (pm_DeletePolicyFilter svc (Policy0\<lparr>p_SubjectType := RoleType, p_Subject := ro_ID ro\<rparr>))
       (Wrap svcErrRemoveEntity) (\<lambda>_. trying (RemoveRoles (pm_repo svc) [ro_ID ro]) (Wrap svcErrRemoveEntity) ret) w1 = (Inr u, w')"
    using trying_InrD [OF assms [unfolded svc_RemoveRole_def]] by blast
  note l = lookup_ok [OF r]
  from k l(3) obtain w2 where f: "pm_DeletePolicyFilter svc ?f w1 = (Inr (), w2)"
    and m: "RemoveRoles (pm_repo svc) [i] w2 = (Inr (), w')"
    by (auto dest!: trying_InrD)
  have "\<not> matches (delete_filter ?f) t" if "member_tuple t" for t
    using that by (simp add: matches_def delete_filter_def Policy0_def member_tuple_def policy_names)
  moreover have "tuples w' = {t \<in> tuples w. \<not> matches (delete_filter ?f) t}"
    using pol.filter_ok [OF f] framesD [OF repo_frames(2) m] l by simp
  moreover have "i \<notin> fst ` own (view w')"
    using effect_InrD [OF repo.RemoveRoles_eff m] by (auto simp: drop_roles_def)
  ultimately show ?thesis by auto
qed

end

text \<open>A single optional policy is not deleted with the entities: the code tests for more than one.\<close>

lemma single_optional_policy_ignored:
  "RemoveEntitiesRoles svc d u es fs [p] = RemoveEntitiesRoles svc d u es fs []"
  by (simp add: RemoveEntitiesRoles_def)

section \<open>The service on PostgreSQL and SpiceDB\<close>

text \<open>
  The service of a deployment: the PostgreSQL repository and the SpiceDB policy service (on
  the reference store), each on its part of the world.
\<close>

record roles_world =
  rw_store :: ref_store
  rw_db :: roles_db
  rw_now :: int

definition lift_repo :: "('w \<Rightarrow> 's) \<Rightarrow> ('s \<Rightarrow> 'w \<Rightarrow> 'w) \<Rightarrow> 's Repository \<Rightarrow> 'w Repository" where
  "lift_repo get put R = \<lparr>AddRoles = (\<lambda>a. lifted get put (AddRoles R a)),
     RemoveRoles = (\<lambda>a. lifted get put (RemoveRoles R a)), UpdateRole = (\<lambda>a. lifted get put (UpdateRole R a)),
     RetrieveRole = (\<lambda>a. lifted get put (RetrieveRole R a)),
     RetrieveEntityRole = (\<lambda>a b. lifted get put (RetrieveEntityRole R a b)),
     RetrieveAllRoles = (\<lambda>a b c. lifted get put (RetrieveAllRoles R a b c)),
     RoleAddActions = (\<lambda>a b. lifted get put (RoleAddActions R a b)),
     RoleListActions = (\<lambda>a. lifted get put (RoleListActions R a)),
     RoleCheckActionsExists = (\<lambda>a b. lifted get put (RoleCheckActionsExists R a b)),
     RoleRemoveActions = (\<lambda>a b. lifted get put (RoleRemoveActions R a b)),
     RoleRemoveAllActions = (\<lambda>a. lifted get put (RoleRemoveAllActions R a)),
     RoleAddMembers = (\<lambda>a b. lifted get put (RoleAddMembers R a b)),
     RoleListMembers = (\<lambda>a b c. lifted get put (RoleListMembers R a b c)),
     RoleCheckMembersExists = (\<lambda>a b. lifted get put (RoleCheckMembersExists R a b)),
     RoleRemoveMembers = (\<lambda>a b. lifted get put (RoleRemoveMembers R a b)),
     RoleRemoveAllMembers = (\<lambda>a. lifted get put (RoleRemoveAllMembers R a)),
     RetrieveEntitiesRolesActionsMembers = (\<lambda>a. lifted get put (RetrieveEntitiesRolesActionsMembers R a)),
     RemoveEntityMembers = (\<lambda>a b. lifted get put (RemoveEntityMembers R a b)),
     RemoveMemberFromAllRoles = (\<lambda>a. lifted get put (RemoveMemberFromAllRoles R a))\<rparr>"

abbreviation put_store :: "ref_store \<Rightarrow> roles_world \<Rightarrow> roles_world" where
  "put_store s w \<equiv> w\<lparr>rw_store := s\<rparr>"

abbreviation put_db :: "roles_db \<Rightarrow> roles_world \<Rightarrow> roles_world" where
  "put_db s w \<equiv> w\<lparr>rw_db := s\<rparr>"

text \<open>
  The id provider. Its answers are given by the time at which it is asked: an error, or a text, which is put
  after one that is longer than any id in use. Whatever the texts are, the ids are new for the policy store.
\<close>

type_synonym sid_answers = "int \<Rightarrow> gerror + string"

definition fresh_id :: "roles_world \<Rightarrow> string" where
  "fresh_id w = replicate (sum_list (map (\<lambda>t. length (rel_SubjectId t) + length (rel_ResourceId t)) (rs_tuples (rw_store w))))
     CHR ''x''"

definition draw_sid :: "sid_answers \<Rightarrow> (roles_world, gerror, string) io" where
  "draw_sid sid w = (map_sum (\<lambda>e. e) (\<lambda>s. fresh_id w @ s) (sid (rw_now w)), w\<lparr>rw_now := rw_now w + 1\<rparr>)"

definition clock_sid :: sid_answers where
  "clock_sid t = Inr (nat_str (nat (t mod 1000)))"

definition deployed_roles :: "sid_answers \<Rightarrow> string \<Rightarrow> string list \<Rightarrow> (string \<times> string list) list \<Rightarrow> roles_world ProvisionManageService" where
  "deployed_roles sid entityType actions builtInRoles =
     \<lparr>pm_entityType = entityType, pm_repo = lift_repo rw_db put_db postgres_repo,
     pm_sidProvider = draw_sid sid,
     pm_AddPolicies = (\<lambda>prs. lifted rw_store put_store (AddPolicies ref_client prs)),
     pm_DeletePolicies = (\<lambda>prs. lifted rw_store put_store (DeletePolicies ref_client prs)),
     pm_DeletePolicyFilter = (\<lambda>pr. lifted rw_store put_store (DeletePolicyFilter ref_client pr)),
     pm_now = (\<lambda>w. (rw_now w, w\<lparr>rw_now := rw_now w + 1\<rparr>)),
     pm_actions = actions, pm_builtInRoles = builtInRoles\<rparr>"

definition client_roles :: "roles_world ProvisionManageService" where
  "client_roles = deployed_roles clock_sid ClientType [''read'', ''update'', ''delete''] [(''admin'', [''read'', ''update'', ''delete''])]"

abbreviation world_view :: "roles_world \<Rightarrow> role_state" where
  "world_view \<equiv> db_view \<circ> rw_db"

abbreviation world_tuples :: "roles_world \<Rightarrow> Relationship set" where
  "world_tuples \<equiv> ref_tuples \<circ> rw_store"

lemma deployed_roles_simps [simp]:
  "pm_entityType (deployed_roles sid et as bs) = et" "pm_repo (deployed_roles sid et as bs) = lift_repo rw_db put_db postgres_repo"
  "pm_sidProvider (deployed_roles sid et as bs) = draw_sid sid"
  "pm_AddPolicies (deployed_roles sid et as bs) = (\<lambda>prs. lifted rw_store put_store (AddPolicies ref_client prs))"
  "pm_DeletePolicies (deployed_roles sid et as bs) = (\<lambda>prs. lifted rw_store put_store (DeletePolicies ref_client prs))"
  "pm_DeletePolicyFilter (deployed_roles sid et as bs) = (\<lambda>pr. lifted rw_store put_store (DeletePolicyFilter ref_client pr))"
  "pm_now (deployed_roles sid et as bs) = (\<lambda>w. (rw_now w, w\<lparr>rw_now := rw_now w + 1\<rparr>))"
  "pm_actions (deployed_roles sid et as bs) = as" "pm_builtInRoles (deployed_roles sid et as bs) = bs"
  by (simp_all add: deployed_roles_def)

lemma lift_role_repository:
  assumes "role_repository R v" "\<And>s w. get (put s w) = s"
  shows "role_repository (lift_repo get put R) (v \<circ> get)"
  using assms(1) unfolding role_repository_def lift_repo_def
  by (auto intro!: effect_lifted simp: assms(2))

lemma lift_policy_service:
  assumes "policy_service add del flt T" "\<And>s w. get (put s w) = s"
  shows "policy_service (\<lambda>p. lifted get put (add p)) (\<lambda>p. lifted get put (del p)) (\<lambda>p. lifted get put (flt p)) (T \<circ> get)"
  by (rule policy_service.intro)
    (auto simp: lifted_eq assms(2) dest: policy_service.add_ok [OF assms(1)] policy_service.add_err [OF assms(1)]
      policy_service.del_ok [OF assms(1)] policy_service.del_err [OF assms(1)]
      policy_service.filter_ok [OF assms(1)] policy_service.filter_err [OF assms(1)])

lemma deployed_role_service:
  assumes "et \<noteq> RoleType"
  shows "role_service (deployed_roles sid et as bs) world_view world_tuples"
proof -
  have R: "role_repository (lift_repo rw_db put_db postgres_repo) world_view"
    by (rule lift_role_repository [OF pg.role_repository_axioms]) simp
  have P: "policy_service (\<lambda>prs. lifted rw_store put_store (AddPolicies ref_client prs))
      (\<lambda>prs. lifted rw_store put_store (DeletePolicies ref_client prs))
      (\<lambda>pr. lifted rw_store put_store (DeletePolicyFilter ref_client pr)) world_tuples"
    by (rule lift_policy_service [OF ref.policy.policy_service_axioms]) simp
  have fresh: "unused (et @ ''_'' @ fresh_id w @ x) (world_tuples w)" for w x
  proof -
    have "length i \<le> length (fresh_id w @ x)"
      if "t \<in> set (rs_tuples (rw_store w))" "i = rel_SubjectId t \<or> i = rel_ResourceId t" for t i
    proof -
      have "length (rel_SubjectId t) + length (rel_ResourceId t) \<le> length (fresh_id w)"
        unfolding fresh_id_def length_replicate using that(1) by (intro member_le_sum_list) auto
      then have "length (rel_SubjectId t) + length (rel_ResourceId t) \<le> length (fresh_id w @ x)" by simp
      with that(2) show ?thesis by auto
    qed
    then show ?thesis unfolding unused_def ref_tuples_def by fastforce
  qed
  have drawn: "unused (et @ ''_'' @ i) (world_tuples w)" if "draw_sid sid w = (Inr i, w')" for i w w'
    using that fresh by (cases "sid (rw_now w)") (auto simp: draw_sid_def)
  show ?thesis
    unfolding role_service_def role_service_axioms_def deployed_roles_simps
    using R P drawn assms
    by (auto simp: lift_repo_def intro!: frames_lifted) (auto simp: frames_def draw_sid_def)
qed

interpretation rs: role_service client_roles world_view world_tuples
  unfolding client_roles_def by (rule deployed_role_service) (simp add: policy_names)

section \<open>The service keeps rows and relationships together\<close>

text \<open>
  The statements are about the deployed service of any entity type, whose database and policy
  store may refuse or fail any call (the fault lists of the world).
\<close>

definition sample_session :: Session where
  "sample_session = \<lparr>s_Type = AccessToken, s_PatID = [], s_UserID = ''u1'', s_DomainID = ''d1'',
     s_DomainUserID = ''d1_u1'', s_SuperAdmin = False, s_Verified = True, s_Role = SessionUserRole\<rparr>"

definition sample_world :: roles_world where
  "sample_world = \<lparr>rw_store = sample_store, rw_db = sample_db, rw_now = 0\<rparr>"

abbreviation with_role :: "(gerror + RoleProvision) \<times> roles_world" where
  "with_role \<equiv> svc_AddRole client_roles sample_session ''c1'' ''admin'' [''read''] [''u1''] sample_world"



text \<open>C23: Adding actions or members to a role is all or nothing: on success exactly the given rows and the
  given relationships are added, and the role belongs to the entity; on an error that does
  not report a failed roll back, neither the rows nor the relationships have changed.\<close>

theorem adding_is_all_or_nothing:
  assumes "et \<noteq> RoleType"
  shows "(svc_RoleAddActions (deployed_roles sid et as bs) ses e i xs w = (r, w') \<and> \<not> reports_rollback r \<longrightarrow>
    (case r of Inl err \<Rightarrow> world_view w' = world_view w \<and> world_tuples w' = world_tuples w
     | Inr x \<Rightarrow> world_view w' = (world_view w)\<lparr>acts := acts (world_view w) \<union> Pair i ` set xs\<rparr> \<and>
         world_tuples w' = world_tuples w \<union> relationship_of ` set (map (action_policy (deployed_roles sid et as bs) i e) xs) \<and>
         (i, e) \<in> own (world_view w))) \<and>
   (svc_RoleAddMembers (deployed_roles sid et as bs) ses e i ms w = (r', w'') \<and> \<not> reports_rollback r' \<longrightarrow>
    (case r' of Inl err \<Rightarrow> world_view w'' = world_view w \<and> world_tuples w'' = world_tuples w
     | Inr x \<Rightarrow> world_view w'' = (world_view w)\<lparr>mems := mems (world_view w) \<union> Pair i ` set ms\<rparr> \<and>
         world_tuples w'' = world_tuples w \<union> relationship_of ` set (map (member_policy (s_DomainID ses) i) ms) \<and>
         (i, e) \<in> own (world_view w)))"
  using role_service.RoleAddActions_all_or_nothing [OF deployed_role_service [OF assms]]
    role_service.RoleAddMembers_all_or_nothing [OF deployed_role_service [OF assms]]
  by blast

theorem adding_is_all_or_nothing_witness:
  "world_tuples (snd (svc_RoleAddMembers client_roles sample_session ''c1'' (''client_0'') [''u2''] (snd with_role))) =
     world_tuples (snd with_role) \<union> {relationship_of (member_policy ''d1'' ''client_0'' ''u2'')}"
proof -
  let ?m = "svc_RoleAddMembers client_roles sample_session ''c1'' ''client_0'' [''u2''] (snd with_role)"
  have "fst ?m = Inr [''u2'']" by code_simp
  then have m: "svc_RoleAddMembers client_roles sample_session ''c1'' ''client_0'' [''u2''] (snd with_role) =
      (Inr [''u2''], snd ?m)" by (metis prod.collapse)
  have "ClientType \<noteq> RoleType" by (simp add: policy_names)
  from adding_is_all_or_nothing [OF this, of clock_sid "[''read'', ''update'', ''delete'']"
      "[(''admin'', [''read'', ''update'', ''delete''])]", folded client_roles_def, THEN conjunct2, rule_format, OF conjI, OF m]
  show ?thesis by (simp add: reports_rollback_def sample_session_def)
qed

text \<open>Removing a role removes its row, so that no role of this id exists, but leaves every relationship
  between users and roles in the policy store, those with the removed role included.\<close>

lemma removed_role_keeps_member_relationships:
  assumes "et \<noteq> RoleType" "svc_RemoveRole (deployed_roles sid et as bs) ses e i w = (Inr u, w')"
  shows "i \<notin> fst ` own (world_view w') \<and>
    {t \<in> world_tuples w'. member_tuple t} = {t \<in> world_tuples w. member_tuple t}"
  using role_service.RemoveRole_leaves_members [OF deployed_role_service [OF assms(1)] assms(2)] by simp

text \<open>\<open>RemoveMemberFromAllRoles\<close> answers with an error also when no dependency fails, and by then it has
  removed from the policy store the membership of every user in every role of the entity
  type, whichever member was named, while the rows of all members remain.\<close>

lemma removing_one_member_revokes_all:
  assumes "rs_faults (rw_store w) = []"
  shows "fst (svc_RemoveMemberFromAllRoles (deployed_roles sid et as bs) ses m w) = Inl (Foreign ''not implemented'') \<and>
    world_view (snd (svc_RemoveMemberFromAllRoles (deployed_roles sid et as bs) ses m w)) = world_view w \<and>
    world_tuples (snd (svc_RemoveMemberFromAllRoles (deployed_roles sid et as bs) ses m w)) =
      {t \<in> world_tuples w. \<not> (rel_ResourceType t = RoleType \<and> HasPrefix (rel_ResourceId t) (et @ ''_'') \<and>
         rel_SubjectType t = UserType)}"
proof -
  let ?f = "delete_filter (Policy0\<lparr>p_ObjectType := RoleType, p_ObjectPrefix := et @ ''_'', p_SubjectType := UserType\<rparr>)"
  have "matches ?f t \<longleftrightarrow> rel_ResourceType t = RoleType \<and> HasPrefix (rel_ResourceId t) (et @ ''_'') \<and>
      rel_SubjectType t = UserType" for t
    by (auto simp: matches_def delete_filter_def Policy0_def policy_names)
  with assms show ?thesis
    by (simp add: svc_RemoveMemberFromAllRoles_def lift_repo_def repo_RemoveMemberFromAllRoles_def lifted_def
        DeletePolicyFilter_def trying_apply ref_delete_def faulty_def ref_tuples_def)
qed

end
