(* ===== verification/Redis.thy ===== *)
theory Redis
  imports Errors
begin

text \<open>
  The Redis commands the caches of the services use. The server is not part of the sources:
  it is a parameter, a record of the calls of the \<open>go-redis\<close> client over a world, and what its
  documentation promises of them is the locale \<open>redis_client\<close>. The contents are seen through
  two views: the live string keys (expired ones are gone) and the sorted sets, each with the
  score of its members. A command that fails may have been executed or not.
\<close>

text \<open>\<open>redis.Nil\<close>, the answer to reading a missing key, and every other error.\<close>

datatype redis_error = RedisNil | RedisErr gerror

text \<open>The commands that are sent in a \<open>TxPipeline\<close>, which the server executes as one.\<close>

datatype redis_cmd =
    CmdSet string string int
  | CmdDel string
  | CmdZAdd string int string
  | CmdZRem string string
  | CmdZRemRangeByScore string int

record 'w redis =
  r_Set :: "string \<Rightarrow> string \<Rightarrow> int \<Rightarrow> ('w, gerror, unit) io"
  r_Get :: "string \<Rightarrow> ('w, redis_error, string) io"
  r_Exists :: "string list \<Rightarrow> ('w, gerror, nat) io"
  r_Del :: "string \<Rightarrow> ('w, gerror, unit) io"
  r_Scan :: "string \<Rightarrow> 'w \<Rightarrow> (string list \<times> gerror option) \<times> 'w"
  r_Tx :: "redis_cmd list \<Rightarrow> ('w, gerror, unit) io"
  r_ZRangeByScore :: "string \<Rightarrow> int \<Rightarrow> ('w, gerror, string list) io"

text \<open>
  The contents: string keys, and sorted sets as lists of members with their scores, in the
  order of insertion.
\<close>

record redis_state =
  rstrings :: "(string \<times> string) list"
  rzsets :: "(string \<times> (string \<times> int) list) list"

definition zmembers :: "redis_state \<Rightarrow> string \<Rightarrow> (string \<times> int) list" where
  "zmembers s k = (case map_of (rzsets s) k of None \<Rightarrow> [] | Some ms \<Rightarrow> ms)"

definition zput :: "string \<Rightarrow> (string \<times> int) list \<Rightarrow> redis_state \<Rightarrow> redis_state" where
  "zput k ms s = s\<lparr>rzsets := (k, ms) # filter (\<lambda>x. fst x \<noteq> k) (rzsets s)\<rparr>"

fun run_cmd :: "redis_cmd \<Rightarrow> redis_state \<Rightarrow> redis_state" where
  "run_cmd (CmdSet k v ttl) s = s\<lparr>rstrings := (k, v) # filter (\<lambda>x. fst x \<noteq> k) (rstrings s)\<rparr>"
| "run_cmd (CmdDel k) s = s\<lparr>rstrings := filter (\<lambda>x. fst x \<noteq> k) (rstrings s)\<rparr>"
| "run_cmd (CmdZAdd k sc m) s = zput k ((m, sc) # filter (\<lambda>x. fst x \<noteq> m) (zmembers s k)) s"
| "run_cmd (CmdZRem k m) s = zput k (filter (\<lambda>x. fst x \<noteq> m) (zmembers s k)) s"
| "run_cmd (CmdZRemRangeByScore k mx) s = zput k (filter (\<lambda>x. mx < snd x) (zmembers s k)) s"

definition live :: "redis_state \<Rightarrow> string \<Rightarrow> string option" where
  "live s = map_of (rstrings s)"

text \<open>
  The glob patterns of \<open>SCAN\<close>: the star stands for any text, the question mark for any
  byte. The other special bytes of Redis, bracket and backslash, do not occur in the patterns
  built from identifiers.
\<close>

fun glob :: "string \<Rightarrow> string \<Rightarrow> bool" where
  "glob [] s = (s = [])"
| "glob (p # ps) s =
     (if p = CHR ''*'' then list_ex (\<lambda>n. glob ps (drop n s)) [0..<Suc (length s)]
      else (case s of [] \<Rightarrow> False | c # cs \<Rightarrow> (p = CHR ''?'' \<or> p = c) \<and> glob ps cs))"

lemma glob_literal: "CHR ''*'' \<notin> set p \<Longrightarrow> CHR ''?'' \<notin> set p \<Longrightarrow> glob (p @ q) (p @ s) = glob q s"
  by (induction p) auto

lemma glob_exact: "CHR ''*'' \<notin> set p \<Longrightarrow> CHR ''?'' \<notin> set p \<Longrightarrow> glob p s \<longleftrightarrow> s = p"
proof (induction p arbitrary: s)
  case (Cons c p)
  then show ?case by (cases s) auto
qed simp

lemma glob_prefix_star:
  "CHR ''*'' \<notin> set p \<Longrightarrow> CHR ''?'' \<notin> set p \<Longrightarrow> glob (p @ ''*'') s \<longleftrightarrow> HasPrefix s p"
proof (induction p arbitrary: s)
  case Nil
  show ?case by (auto simp: HasPrefix_def list_ex_iff intro!: bexI [of _ "length s"])
next
  case (Cons c p)
  then show ?case by (cases s) (auto simp: HasPrefix_def)
qed

lemma live_simps [simp]:
  "live (run_cmd (CmdSet k v ttl) s) = (live s)(k \<mapsto> v)"
  "live (run_cmd (CmdDel k) s) = (live s)(k := None)"
  "live (run_cmd (CmdZAdd z sc m) s) = live s"
  "live (run_cmd (CmdZRem z m) s) = live s"
  "live (run_cmd (CmdZRemRangeByScore z mx) s) = live s"
proof -
  have "map_of (filter (\<lambda>x. fst x \<noteq> k) xs) = (map_of xs)(k := None)" for xs :: "(string \<times> string) list"
    by (induction xs) (auto simp: fun_eq_iff)
  then show "live (run_cmd (CmdSet k v ttl) s) = (live s)(k \<mapsto> v)"
    "live (run_cmd (CmdDel k) s) = (live s)(k := None)"
    by (auto simp: live_def fun_eq_iff)
qed (simp_all add: live_def zput_def)

text \<open>What the client promises. \<open>content\<close> is what the server holds.\<close>

locale redis_client =
  fixes rc :: "'w redis" and content :: "'w \<Rightarrow> redis_state"
  assumes Set_ok: "r_Set rc k v ttl w = (Inr u, w') \<Longrightarrow> content w' = run_cmd (CmdSet k v ttl) (content w)"
    and Set_err: "r_Set rc k v ttl w = (Inl e, w') \<Longrightarrow> content w' \<in> {content w, run_cmd (CmdSet k v ttl) (content w)}"
    and Del_ok: "r_Del rc k w = (Inr u, w') \<Longrightarrow> content w' = run_cmd (CmdDel k) (content w)"
    and Del_err: "r_Del rc k w = (Inl e, w') \<Longrightarrow> content w' \<in> {content w, run_cmd (CmdDel k) (content w)}"
    and Tx_ok: "r_Tx rc cs w = (Inr u, w') \<Longrightarrow> content w' = fold run_cmd cs (content w)"
    and Tx_err: "r_Tx rc cs w = (Inl e, w') \<Longrightarrow> content w' \<in> {content w, fold run_cmd cs (content w)}"
    and Get_same: "r_Get rc k w = (g, w') \<Longrightarrow> content w' = content w"
    and Get_ok: "r_Get rc k w = (Inr v, w') \<Longrightarrow> live (content w) k = Some v"
    and Get_nil: "r_Get rc k w = (Inl RedisNil, w') \<Longrightarrow> live (content w) k = None"
    and Exists_same: "r_Exists rc ks w = (x, w') \<Longrightarrow> content w' = content w"
    and Exists_ok: "r_Exists rc ks w = (Inr n, w') \<Longrightarrow> 0 < n \<longleftrightarrow> (\<exists>k \<in> set ks. live (content w) k \<noteq> None)"
    and Scan_same: "r_Scan rc p w = (q, w') \<Longrightarrow> content w' = content w"
    and Scan_ok: "r_Scan rc p w = ((ks, None), w') \<Longrightarrow> set ks = {k. live (content w) k \<noteq> None \<and> glob p k}"
    and Scan_some: "r_Scan rc p w = ((ks, oe), w') \<Longrightarrow> k \<in> set ks \<Longrightarrow> glob p k"
    and ZRange_same: "r_ZRangeByScore rc z mn w = (y, w') \<Longrightarrow> content w' = content w"
    and ZRange_ok: "r_ZRangeByScore rc z mn w = (Inr ms, w') \<Longrightarrow>
      set ms = {m. \<exists>sc. (m, sc) \<in> set (zmembers (content w) z) \<and> mn < sc}"

section \<open>A reference server\<close>

text \<open>A server with a script of faults: a call that fails is not executed.\<close>

record redis_server =
  rsv_state :: redis_state
  rsv_faults :: "gerror option list"

definition rsv :: "(redis_server \<Rightarrow> ('e + 'a) \<times> redis_server) \<Rightarrow> (gerror \<Rightarrow> 'e) \<Rightarrow> (redis_server, 'e, 'a) io" where
  "rsv m g s = (case rsv_faults s of
      Some e # fs \<Rightarrow> (Inl (g e), s\<lparr>rsv_faults := fs\<rparr>)
    | _ # fs \<Rightarrow> m (s\<lparr>rsv_faults := fs\<rparr>)
    | [] \<Rightarrow> m (s\<lparr>rsv_faults := []\<rparr>))"

definition rsv_run :: "redis_cmd list \<Rightarrow> (redis_server, gerror, unit) io" where
  "rsv_run cs = rsv (\<lambda>s. (Inr (), s\<lparr>rsv_state := fold run_cmd cs (rsv_state s)\<rparr>)) id"

definition ref_redis :: "redis_server redis" where
  "ref_redis = \<lparr>r_Set = (\<lambda>k v ttl. rsv_run [CmdSet k v ttl]),
     r_Get = (\<lambda>k. rsv (\<lambda>s. (case live (rsv_state s) k of None \<Rightarrow> Inl RedisNil | Some v \<Rightarrow> Inr v, s)) RedisErr),
     r_Exists = (\<lambda>ks. rsv (\<lambda>s. (Inr (length (filter (\<lambda>k. live (rsv_state s) k \<noteq> None) ks)), s)) id),
     r_Del = (\<lambda>k. rsv_run [CmdDel k]),
     r_Scan = (\<lambda>p s. (case rsv_faults s of
         Some e # fs \<Rightarrow> (([], Some e), s\<lparr>rsv_faults := fs\<rparr>)
       | fs \<Rightarrow> ((filter (glob p) (remdups (map fst (rstrings (rsv_state s)))), None), s\<lparr>rsv_faults := tl fs\<rparr>))),
     r_Tx = rsv_run,
     r_ZRangeByScore = (\<lambda>z mn. rsv (\<lambda>s. (Inr (map fst (filter (\<lambda>x. mn < snd x) (zmembers (rsv_state s) z))), s)) id)\<rparr>"

lemma rsv_split:
  "rsv m g s = (r, s') \<Longrightarrow> (\<exists>e fs. r = Inl (g e) \<and> s' = s\<lparr>rsv_faults := fs\<rparr>) \<or> (\<exists>fs. m (s\<lparr>rsv_faults := fs\<rparr>) = (r, s'))"
  by (cases "rsv_faults s") (auto simp: rsv_def split: option.splits)

lemma rsv_run_split:
  "rsv_run cs s = (r, s') \<Longrightarrow>
     (\<exists>e. r = Inl e \<and> rsv_state s' = rsv_state s) \<or> (r = Inr () \<and> rsv_state s' = fold run_cmd cs (rsv_state s))"
  unfolding rsv_run_def by (drule rsv_split) auto

lemma rsv_calm: "rsv_faults s = [] \<Longrightarrow> rsv m g s = m s"
  by (cases s) (simp add: rsv_def)

interpretation ref_rd: redis_client ref_redis rsv_state
proof
  fix k w w' p z mn ms
  show "set ms = {m. \<exists>sc. (m, sc) \<in> set (zmembers (rsv_state w) z) \<and> mn < sc}"
    if "r_ZRangeByScore ref_redis z mn w = (Inr ms, w')"
  proof -
    have "ms = map fst (filter (\<lambda>x. mn < snd x) (zmembers (rsv_state w) z))"
      using that by (auto simp: ref_redis_def dest!: rsv_split)
    then show ?thesis by force
  qed
  show "rsv_state w' = rsv_state w" if "r_Scan ref_redis p w = (q, w')" for q
    using that by (auto simp: ref_redis_def split: list.splits option.splits)
  show "set ks = {k. live (rsv_state w) k \<noteq> None \<and> glob p k}" if "r_Scan ref_redis p w = ((ks, None), w')" for ks
  proof -
    have "ks = filter (glob p) (remdups (map fst (rstrings (rsv_state w))))"
      using that by (auto simp: ref_redis_def split: list.splits option.splits)
    then show ?thesis by (auto simp: live_def map_of_eq_None_iff)
  qed
  show "glob p k" if "r_Scan ref_redis p w = ((ks, oe), w')" "k \<in> set ks" for ks oe
    using that by (auto simp: ref_redis_def split: list.splits option.splits)
qed (auto simp: ref_redis_def filter_empty_conv dest!: rsv_split rsv_run_split split: option.splits)

end
