(* ===== verification/Pats.thy ===== *)
theory Pats
  imports Redis Database "HOL-Library.Word"
begin

text \<open>
  Personal access tokens and their scopes: the types of \<open>auth/pat.go\<close> and \<open>auth/status.go\<close>,
  the scope cache \<open>auth/cache/pat.go\<close> over Redis and the repository
  \<open>auth/postgres/repo.go\<close> and \<open>pat.go\<close> over the tables \<open>pats\<close> and \<open>pat_scopes\<close> of
  \<open>auth/postgres/init.go\<close>. A time is an integer, 0 the zero time; the clock of the world is
  an arbitrary sequence of readings. \<open>RetrieveAll\<close>, a filtered listing, is left out.
\<close>

section \<open>Entity types, scopes, tokens\<close>

type_synonym EntityType = "32 word"

definition GroupsType :: EntityType where "GroupsType = 0"
definition ChannelsType :: EntityType where "ChannelsType = 1"
definition ClientsType :: EntityType where "ClientsType = 2"
definition DashboardType :: EntityType where "DashboardType = 3"
definition MessagesType :: EntityType where "MessagesType = 4"
definition DomainsType :: EntityType where "DomainsType = 5"
definition UsersType :: EntityType where "UsersType = 6"

definition EntityType_String :: "EntityType \<Rightarrow> string" where
  "EntityType_String et =
     (if et = GroupsType then ''groups'' else if et = ChannelsType then ''channels''
      else if et = ClientsType then ''clients'' else if et = DashboardType then ''dashboards''
      else if et = MessagesType then ''messages'' else if et = DomainsType then ''domains''
      else if et = UsersType then ''users''
      else ''unknown domain entity type '' @ nat_str (unat et))"

definition ParseEntityType :: "string \<Rightarrow> gerror + EntityType" where
  "ParseEntityType et =
     (if et = ''groups'' then Inr GroupsType else if et = ''channels'' then Inr ChannelsType
      else if et = ''clients'' then Inr ClientsType else if et = ''dashboards'' then Inr DashboardType
      else if et = ''messages'' then Inr MessagesType else if et = ''domains'' then Inr DomainsType
      else if et = ''users'' then Inr UsersType
      else Inl (Foreign (''unknown domain entity type '' @ et)))"

lemmas entity_types = GroupsType_def ChannelsType_def ClientsType_def DashboardType_def MessagesType_def
  DomainsType_def UsersType_def

definition AnyIDs :: string where "AnyIDs = ''*''"

definition IsValidOperationForEntity :: "EntityType \<Rightarrow> string \<Rightarrow> bool" where
  "IsValidOperationForEntity entityType operation =
     (if entityType \<in> {ClientsType, ChannelsType, GroupsType, DomainsType} then True
      else if entityType = DashboardType then operation = ''dashboard_share'' \<or> operation = ''dashboard_unshare''
      else if entityType = MessagesType then operation = ''message_publish'' \<or> operation = ''message_subscribe''
      else False)"

record Scope =
  sc_ID :: string
  sc_PatID :: string
  sc_DomainID :: string
  sc_EntityType :: EntityType
  sc_EntityID :: string
  sc_Operation :: string

definition Scope0 :: Scope where
  "Scope0 = \<lparr>sc_ID = [], sc_PatID = [], sc_DomainID = [], sc_EntityType = GroupsType, sc_EntityID = [], sc_Operation = []\<rparr>"

text \<open>The rewriting of short operation names in \<open>Scope.UnmarshalJSON\<close>.\<close>

definition scope_operation :: "EntityType \<Rightarrow> string \<Rightarrow> string" where
  "scope_operation et operation =
     (if et = ClientsType then
        (if operation = ''create'' then ''create_clients'' else if operation = ''list'' then ''list_clients'' else operation)
      else if et = ChannelsType then
        (if operation = ''create'' then ''create_channels'' else if operation = ''list'' then ''list_channels'' else operation)
      else if et = GroupsType then
        (if operation = ''create'' then ''create_groups'' else if operation = ''list'' then ''list_groups'' else operation)
      else if et = DashboardType then
        (if operation = ''share'' then ''dashboard_share'' else if operation = ''unshare'' then ''dashboard_unshare''
         else operation)
      else if et = MessagesType then
        (if operation = ''publish'' then ''message_publish'' else if operation = ''subscribe'' then ''message_subscribe''
         else operation)
      else operation)"

definition Authorized :: "Scope option \<Rightarrow> EntityType \<Rightarrow> string \<Rightarrow> string \<Rightarrow> string \<Rightarrow> bool" where
  "Authorized sc entityType domainID operation entityID =
     (case sc of
        None \<Rightarrow> False
      | Some s \<Rightarrow>
          if sc_EntityType s \<noteq> entityType then False
          else if sc_DomainID s \<noteq> [] \<and> sc_DomainID s \<noteq> domainID then False
          else if sc_Operation s \<noteq> operation then False
          else if sc_EntityID s = ''*'' then True
          else if sc_EntityID s = entityID then True
          else False)"

definition errInvalidScope :: gerror where "errInvalidScope = New ''invalid scope''"
definition errInvalidEntityOp :: gerror where "errInvalidEntityOp = NewRequestError ''operation not valid for entity type''"
definition apiErrMissingEntityID :: gerror where "apiErrMissingEntityID = NewRequestError ''missing entity id''"
definition apiErrMissingDomainID :: gerror where "apiErrMissingDomainID = NewRequestError ''missing domainID''"
definition apiErrInvalidQueryParams :: gerror where "apiErrInvalidQueryParams = NewRequestError ''invalid query parameters''"

definition Scope_Validate :: "Scope option \<Rightarrow> gerror option" where
  "Scope_Validate sc =
     (case sc of
        None \<Rightarrow> Some errInvalidScope
      | Some s \<Rightarrow>
          if sc_EntityID s = [] then Some apiErrMissingEntityID
          else if sc_DomainID s = [] then Some apiErrMissingDomainID
          else if \<not> IsValidOperationForEntity (sc_EntityType s) (sc_Operation s)
          then Some (Wrap apiErrInvalidQueryParams errInvalidEntityOp)
          else None)"

type_synonym PATStatus = "8 word"

definition ActiveStatus :: PATStatus where "ActiveStatus = 0"
definition RevokedStatus :: PATStatus where "RevokedStatus = 1"
definition ExpiredStatus :: PATStatus where "ExpiredStatus = 2"
definition AllStatus :: PATStatus where "AllStatus = 3"

definition PATStatus_String :: "PATStatus \<Rightarrow> string" where
  "PATStatus_String s =
     (if s = ActiveStatus then ''active'' else if s = RevokedStatus then ''revoked''
      else if s = ExpiredStatus then ''expired'' else if s = AllStatus then ''all'' else ''unknown'')"

definition ToPATStatus :: "string \<Rightarrow> gerror + PATStatus" where
  "ToPATStatus status =
     (if status = [] \<or> status = ''active'' then Inr ActiveStatus
      else if status = ''revoked'' then Inr RevokedStatus
      else if status = ''all'' then Inr AllStatus
      else if status = ''expired'' then Inr ExpiredStatus
      else Inl svcErrInvalidStatus)"

type_synonym KeyRole = "32 word"

record PAT =
  pat_ID :: string
  pat_User :: string
  pat_Name :: string
  pat_Description :: string
  pat_Secret :: string
  pat_Role :: KeyRole
  pat_IssuedAt :: int
  pat_ExpiresAt :: int
  pat_UpdatedAt :: int
  pat_LastUsedAt :: int
  pat_Revoked :: bool
  pat_RevokedAt :: int
  pat_Status :: PATStatus

definition PAT0 :: PAT where
  "PAT0 = \<lparr>pat_ID = [], pat_User = [], pat_Name = [], pat_Description = [], pat_Secret = [], pat_Role = 0,
     pat_IssuedAt = 0, pat_ExpiresAt = 0, pat_UpdatedAt = 0, pat_LastUsedAt = 0, pat_Revoked = False, pat_RevokedAt = 0,
     pat_Status = ActiveStatus\<rparr>"

text \<open>\<open>PAT.Validate\<close>; the receiver is never nil at its call.\<close>

definition PAT_Validate :: "PAT \<Rightarrow> gerror option" where
  "PAT_Validate pat =
     (if pat_Name pat = [] then Some (New ''PAT name cannot be empty'')
      else if pat_User pat = [] then Some (New ''PAT user cannot be empty'')
      else None)"

record ScopesPage =
  sp_Total :: nat
  sp_Offset :: nat
  sp_Limit :: nat
  sp_Scopes :: "Scope list"

section \<open>The cache of scopes\<close>

record 'c patCache =
  pc_client :: "'c redis"
  pc_duration :: int

definition generateKey :: "string \<Rightarrow> string \<Rightarrow> string \<Rightarrow> EntityType \<Rightarrow> string \<Rightarrow> string \<Rightarrow> string" where
  "generateKey userID patID domainId entityType operation entityID =
     ''pat:'' @ userID @ '':'' @ patID @ '':'' @ EntityType_String entityType @ '':'' @ domainId @ '':'' @ operation @ '':'' @ entityID"

fun cache_Save :: "'c patCache \<Rightarrow> string \<Rightarrow> Scope list \<Rightarrow> ('c, gerror, unit) io" where
  "cache_Save pc userID [] = ret ()"
| "cache_Save pc userID (sc # scopes) =
     trying (r_Set (pc_client pc)
         (generateKey userID (sc_PatID sc) (sc_DomainID sc) (sc_EntityType sc) (sc_Operation sc) (sc_EntityID sc))
         (sc_ID sc) (pc_duration pc))
       (Wrap repoErrCreateEntity) (\<lambda>_. cache_Save pc userID scopes)"

definition cache_CheckScope ::
  "'c patCache \<Rightarrow> string \<Rightarrow> string \<Rightarrow> string \<Rightarrow> EntityType \<Rightarrow> string \<Rightarrow> string \<Rightarrow> 'c \<Rightarrow> bool \<times> 'c" where
  "cache_CheckScope pc userID patID domainID entityType operation entityID c =
     (case r_Exists (pc_client pc)
          [generateKey userID patID domainID entityType operation entityID,
           generateKey userID patID domainID entityType operation ''*''] c of
        (Inl err, c') \<Rightarrow> (False, c')
      | (Inr res, c') \<Rightarrow> (0 < res, c'))"

text \<open>The loops over the keys a scan yields.\<close>

fun remove_matching :: "'c patCache \<Rightarrow> string list \<Rightarrow> string list \<Rightarrow> ('c, gerror, unit) io" where
  "remove_matching pc scopeIDs [] = ret ()"
| "remove_matching pc scopeIDs (key # keys) = (\<lambda>c.
     case r_Get (pc_client pc) key c of
       (Inl RedisNil, c') \<Rightarrow> remove_matching pc scopeIDs keys c'
     | (Inl (RedisErr err), c') \<Rightarrow> (Inl (Wrap repoErrRemoveEntity err), c')
     | (Inr val, c') \<Rightarrow>
         if list_ex (\<lambda>scopeID. val = scopeID) scopeIDs
         then trying (r_Del (pc_client pc) key) (Wrap repoErrRemoveEntity) (\<lambda>_. remove_matching pc scopeIDs keys) c'
         else remove_matching pc scopeIDs keys c')"

fun delete_keys :: "'c patCache \<Rightarrow> string list \<Rightarrow> ('c, gerror, unit) io" where
  "delete_keys pc [] = ret ()"
| "delete_keys pc (key # keys) =
     trying (r_Del (pc_client pc) key) (Wrap repoErrRemoveEntity) (\<lambda>_. delete_keys pc keys)"

definition scan_then ::
  "'c patCache \<Rightarrow> string \<Rightarrow> (string list \<Rightarrow> ('c, gerror, unit) io) \<Rightarrow> ('c, gerror, unit) io" where
  "scan_then pc pattern body =
     observe (r_Scan (pc_client pc) pattern) (\<lambda>(keys, iterErr).
       pass (body keys) (\<lambda>_. guarded (map_option (Wrap repoErrRemoveEntity) iterErr) (ret ())))"

definition cache_Remove :: "'c patCache \<Rightarrow> string \<Rightarrow> string list \<Rightarrow> ('c, gerror, unit) io" where
  "cache_Remove pc userID scopeIDs =
     (if length scopeIDs = 0 then fail repoErrRemoveEntity
      else scan_then pc (''pat:'' @ userID @ '':*'') (remove_matching pc scopeIDs))"

definition cache_RemoveUserAllScope :: "'c patCache \<Rightarrow> string \<Rightarrow> ('c, gerror, unit) io" where
  "cache_RemoveUserAllScope pc userID = scan_then pc (''pat:'' @ userID @ '':*'') (delete_keys pc)"

definition cache_RemoveAllScope :: "'c patCache \<Rightarrow> string \<Rightarrow> string \<Rightarrow> ('c, gerror, unit) io" where
  "cache_RemoveAllScope pc userID patID = scan_then pc (''pat:'' @ userID @ '':'' @ patID) (delete_keys pc)"

section \<open>The tables\<close>

record dbPat =
  dp_ID :: string
  dp_User :: string
  dp_Name :: string
  dp_Description :: string
  dp_Secret :: string
  dp_IssuedAt :: int
  dp_ExpiresAt :: int
  dp_UpdatedAt :: "int option"
  dp_LastUsedAt :: "int option"
  dp_Revoked :: bool
  dp_RevokedAt :: "int option"
  dp_Status :: PATStatus

record dbScope =
  ds_ID :: string
  ds_PatID :: string
  ds_DomainID :: string
  ds_EntityType :: string
  ds_EntityID :: string
  ds_Operation :: string

record pat_tables =
  t_pats :: "dbPat list"
  t_scopes :: "dbScope list"

type_synonym pat_db = "pat_tables database"

definition dbPat0 :: dbPat where
  "dbPat0 = \<lparr>dp_ID = [], dp_User = [], dp_Name = [], dp_Description = [], dp_Secret = [], dp_IssuedAt = 0,
     dp_ExpiresAt = 0, dp_UpdatedAt = None, dp_LastUsedAt = None, dp_Revoked = False, dp_RevokedAt = None,
     dp_Status = ActiveStatus\<rparr>"

abbreviation null_time :: "int \<Rightarrow> int option" where
  "null_time t \<equiv> (if t = 0 then None else Some t)"

abbreviation time_of :: "int option \<Rightarrow> int" where
  "time_of t \<equiv> (case t of Some x \<Rightarrow> x | None \<Rightarrow> 0)"

definition toAuthPat :: "dbPat \<Rightarrow> PAT" where
  "toAuthPat db = \<lparr>pat_ID = dp_ID db, pat_User = dp_User db, pat_Name = dp_Name db, pat_Description = dp_Description db,
     pat_Secret = dp_Secret db, pat_Role = 0, pat_IssuedAt = dp_IssuedAt db, pat_ExpiresAt = dp_ExpiresAt db,
     pat_UpdatedAt = time_of (dp_UpdatedAt db), pat_LastUsedAt = time_of (dp_LastUsedAt db),
     pat_Revoked = dp_Revoked db, pat_RevokedAt = time_of (dp_RevokedAt db), pat_Status = dp_Status db\<rparr>"

definition toDBPats :: "PAT \<Rightarrow> dbPat" where
  "toDBPats pat = \<lparr>dp_ID = pat_ID pat, dp_User = pat_User pat, dp_Name = pat_Name pat, dp_Description = pat_Description pat,
     dp_Secret = pat_Secret pat, dp_IssuedAt = pat_IssuedAt pat, dp_ExpiresAt = pat_ExpiresAt pat,
     dp_UpdatedAt = null_time (pat_UpdatedAt pat), dp_LastUsedAt = null_time (pat_LastUsedAt pat),
     dp_Revoked = pat_Revoked pat, dp_RevokedAt = null_time (pat_RevokedAt pat), dp_Status = ActiveStatus\<rparr>"

definition toDBScope1 :: "Scope \<Rightarrow> dbScope" where
  "toDBScope1 s = \<lparr>ds_ID = sc_ID s, ds_PatID = sc_PatID s, ds_DomainID = sc_DomainID s,
     ds_EntityType = EntityType_String (sc_EntityType s), ds_EntityID = sc_EntityID s, ds_Operation = sc_Operation s\<rparr>"

definition toDBScope :: "Scope list \<Rightarrow> dbScope list" where
  "toDBScope sc = map toDBScope1 sc"

fun toAuthScope :: "dbScope list \<Rightarrow> gerror + Scope list" where
  "toAuthScope [] = Inr []"
| "toAuthScope (s # dsc) =
     (case ParseEntityType (ds_EntityType s) of
        Inl err \<Rightarrow> Inl err
      | Inr entityType \<Rightarrow>
          (case toAuthScope dsc of
             Inl err \<Rightarrow> Inl err
           | Inr scope \<Rightarrow> Inr (\<lparr>sc_ID = ds_ID s, sc_PatID = ds_PatID s, sc_DomainID = ds_DomainID s,
               sc_EntityType = entityType, sc_EntityID = ds_EntityID s, sc_Operation = ds_Operation s\<rparr> # scope)))"

subsection \<open>Statements\<close>

definition insert_pat :: "dbPat \<Rightarrow> (pat_tables, unit) stmt" where
  "insert_pat r t =
     (if 36 < length (dp_ID r) \<or> 254 < length (dp_Name r) \<or> 36 < length (dp_User r) then Inl pg_truncated
      else if list_ex (\<lambda>x. dp_ID x = dp_ID r) (t_pats t) then Inl pg_duplicate
      else Inr (t\<lparr>t_pats := t_pats t @ [r]\<rparr>, ()))"

abbreviation owned :: "string \<Rightarrow> string \<Rightarrow> dbPat \<Rightarrow> bool" where
  "owned userID patID r \<equiv> dp_User r = userID \<and> dp_ID r = patID"

text \<open>\<open>UPDATE pats SET ... WHERE user_id = :user_id AND id = :id RETURNING ...\<close>\<close>

definition update_pats :: "string \<Rightarrow> string \<Rightarrow> (dbPat \<Rightarrow> dbPat) \<Rightarrow> (pat_tables, dbPat list) stmt" where
  "update_pats userID patID f t =
     Inr (t\<lparr>t_pats := map (\<lambda>r. if owned userID patID r then f r else r) (t_pats t)\<rparr>,
          map f (filter (owned userID patID) (t_pats t)))"

definition update_pat_name :: "string \<Rightarrow> string \<Rightarrow> string \<Rightarrow> int \<Rightarrow> (pat_tables, dbPat list) stmt" where
  "update_pat_name userID patID name now t =
     (if 254 < length name then Inl pg_truncated
      else update_pats userID patID (\<lambda>r. r\<lparr>dp_Name := name, dp_UpdatedAt := Some now\<rparr>) t)"

text \<open>Deleting tokens deletes their scopes (\<open>ON DELETE CASCADE\<close>).\<close>

definition delete_pats :: "(dbPat \<Rightarrow> bool) \<Rightarrow> (pat_tables, unit) stmt" where
  "delete_pats p t =
     Inr (t\<lparr>t_pats := filter (\<lambda>r. \<not> p r) (t_pats t),
            t_scopes := filter (\<lambda>s. \<not> list_ex (\<lambda>r. p r \<and> dp_ID r = ds_PatID s) (t_pats t)) (t_scopes t)\<rparr>, ())"

abbreviation scope_fields :: "dbScope \<Rightarrow> string \<times> string \<times> string \<times> string \<times> string" where
  "scope_fields s \<equiv> (ds_PatID s, ds_DomainID s, ds_EntityType s, ds_Operation s, ds_EntityID s)"

abbreviation scopes_distinct :: "dbScope list \<Rightarrow> bool" where
  "scopes_distinct ss \<equiv> distinct (map ds_ID ss) \<and> distinct (map scope_fields ss)"

definition insert_scopes :: "dbScope list \<Rightarrow> (pat_tables, unit) stmt" where
  "insert_scopes rows t =
     (if \<not> list_all (\<lambda>r. length (ds_ID r) \<le> 36 \<and> length (ds_PatID r) \<le> 36 \<and> length (ds_DomainID r) \<le> 36 \<and>
          length (ds_EntityType r) \<le> 50 \<and> length (ds_Operation r) \<le> 50 \<and> length (ds_EntityID r) \<le> 50) rows
      then Inl pg_truncated
      else if \<not> scopes_distinct (t_scopes t @ rows) then Inl pg_duplicate
      else if \<not> list_all (\<lambda>r. ds_PatID r \<in> dp_ID ` set (t_pats t)) rows then Inl pg_foreign
      else Inr (t\<lparr>t_scopes := t_scopes t @ rows\<rparr>, ()))"

abbreviation scope_for :: "string \<Rightarrow> string \<Rightarrow> string \<Rightarrow> string \<Rightarrow> dbScope \<Rightarrow> bool" where
  "scope_for patID entityType domainID operation s \<equiv>
     ds_PatID s = patID \<and> ds_EntityType s = entityType \<and> ds_DomainID s = domainID \<and> ds_Operation s = operation"

definition widen_scopes :: "string \<Rightarrow> string \<Rightarrow> string \<Rightarrow> string \<Rightarrow> (pat_tables, unit) stmt" where
  "widen_scopes patID entityType domainID operation t =
     (let rows = map (\<lambda>s. if scope_for patID entityType domainID operation s then s\<lparr>ds_EntityID := AnyIDs\<rparr> else s) (t_scopes t)
      in if \<not> scopes_distinct rows then Inl pg_duplicate else Inr (t\<lparr>t_scopes := rows\<rparr>, ()))"

definition delete_scopes :: "(dbScope \<Rightarrow> bool) \<Rightarrow> (pat_tables, nat) stmt" where
  "delete_scopes p t = Inr (t\<lparr>t_scopes := filter (\<lambda>s. \<not> p s) (t_scopes t)\<rparr>, length (filter p (t_scopes t)))"

section \<open>The repository\<close>

record 'c pat_world =
  pw_db :: pat_db
  pw_cache :: 'c
  pw_clock :: "nat \<Rightarrow> int"
  pw_ticks :: nat

definition pw_Now :: "'c pat_world \<Rightarrow> int \<times> 'c pat_world" where
  "pw_Now w = (pw_clock w (pw_ticks w), w\<lparr>pw_ticks := Suc (pw_ticks w)\<rparr>)"

abbreviation on_db :: "(pat_db, 'e, 'a) io \<Rightarrow> ('c pat_world, 'e, 'a) io" where
  "on_db m \<equiv> lifted pw_db (\<lambda>d w. w\<lparr>pw_db := d\<rparr>) m"

abbreviation on_cache :: "('c, 'e, 'a) io \<Rightarrow> ('c pat_world, 'e, 'a) io" where
  "on_cache m \<equiv> lifted pw_cache (\<lambda>c w. w\<lparr>pw_cache := c\<rparr>) m"

definition errInsufficientPATScope :: gerror where "errInsufficientPATScope = NewRequestError ''PAT does not have the required scope permissions''"

definition pr_Save :: "PAT \<Rightarrow> ('c pat_world, gerror, unit) io" where
  "pr_Save pat = trying (on_db (db_exec (insert_pat (toDBPats pat)))) (HandleError repoErrCreateEntity) ret"

definition row_status :: "int \<Rightarrow> dbPat \<Rightarrow> PATStatus" where
  "row_status timestamp r =
     (if dp_Revoked r then RevokedStatus else if dp_ExpiresAt r < timestamp then ExpiredStatus else ActiveStatus)"

text \<open>When the query yields no row the zero record is converted: there is no not-found error.\<close>

definition retrievePATFromDB :: "string \<Rightarrow> string \<Rightarrow> ('c pat_world, gerror, PAT) io" where
  "retrievePATFromDB userID patID =
     observe pw_Now (\<lambda>timestamp.
     trying (on_db (db_query (\<lambda>t. map (\<lambda>r. r\<lparr>dp_Status := row_status timestamp r\<rparr>)
         (filter (owned userID patID) (t_pats t))))) (WrapDB repoErrViewEntity) (\<lambda>rows.
     case rows of
       [] \<Rightarrow> ret (toAuthPat dbPat0)
     | r # _ \<Rightarrow> trying (on_db (driver (ret r))) (WrapDB repoErrViewEntity) (\<lambda>x. ret (toAuthPat x))))"

definition pr_Retrieve :: "string \<Rightarrow> string \<Rightarrow> ('c pat_world, gerror, PAT) io" where
  "pr_Retrieve userID patID = trying (retrievePATFromDB userID patID) (Wrap repoErrViewEntity) ret"

definition pr_RetrieveSecretAndRevokeStatus ::
  "string \<Rightarrow> string \<Rightarrow> ('c pat_world, gerror, string \<times> bool \<times> bool) io" where
  "pr_RetrieveSecretAndRevokeStatus userID patID =
     observe pw_Now (\<lambda>timestamp.
     trying (on_db (db_query (\<lambda>t. filter (owned userID patID) (t_pats t)))) (HandleError repoErrNotFound) (\<lambda>rows.
     case rows of
       [] \<Rightarrow> fail repoErrNotFound
     | r # _ \<Rightarrow> trying (on_db (driver (ret r))) (HandleError repoErrNotFound) (\<lambda>x.
         observe pw_Now (\<lambda>now. ret (dp_Secret x, dp_Revoked x, dp_ExpiresAt x < now)))))"

text \<open>The row an update returns, or the not-found error.\<close>

definition updated_row :: "dbPat list \<Rightarrow> ('c pat_world, gerror, PAT) io" where
  "updated_row rows = (case rows of
      [] \<Rightarrow> fail repoErrNotFound
    | r # _ \<Rightarrow> trying (on_db (driver (ret r))) (WrapDB repoErrUpdateEntity) (\<lambda>x. ret (toAuthPat x)))"

definition pr_UpdateName :: "string \<Rightarrow> string \<Rightarrow> string \<Rightarrow> ('c pat_world, gerror, PAT) io" where
  "pr_UpdateName userID patID name =
     observe pw_Now (\<lambda>now.
     trying (on_db (db_exec (update_pat_name userID patID name now))) (WrapDB repoErrUpdateEntity) updated_row)"

definition pr_UpdateDescription :: "string \<Rightarrow> string \<Rightarrow> string \<Rightarrow> ('c pat_world, gerror, PAT) io" where
  "pr_UpdateDescription userID patID description =
     observe pw_Now (\<lambda>now.
     trying (on_db (db_exec (update_pats userID patID
         (\<lambda>r. r\<lparr>dp_Description := description, dp_UpdatedAt := Some now\<rparr>)))) (WrapDB repoErrUpdateEntity) updated_row)"

definition pr_UpdateTokenHash :: "string \<Rightarrow> string \<Rightarrow> string \<Rightarrow> int \<Rightarrow> ('c pat_world, gerror, PAT) io" where
  "pr_UpdateTokenHash userID patID tokenHash expiryAt =
     observe pw_Now (\<lambda>now.
     trying (on_db (db_exec (update_pats userID patID
         (\<lambda>r. r\<lparr>dp_Secret := tokenHash, dp_ExpiresAt := expiryAt, dp_UpdatedAt := Some now\<rparr>))))
       (WrapDB repoErrUpdateEntity) updated_row)"

definition pr_Revoke :: "string \<Rightarrow> string \<Rightarrow> ('c pat_world, gerror, unit) io" where
  "pr_Revoke userID patID =
     observe pw_Now (\<lambda>now.
     trying (on_db (db_exec (update_pats userID patID (\<lambda>r. r\<lparr>dp_Revoked := True, dp_RevokedAt := Some now\<rparr>))))
       (WrapDB repoErrUpdateEntity) (\<lambda>_. ret ()))"

definition pr_Reactivate :: "string \<Rightarrow> string \<Rightarrow> ('c pat_world, gerror, unit) io" where
  "pr_Reactivate userID patID =
     trying (on_db (db_exec (update_pats userID patID (\<lambda>r. r\<lparr>dp_Revoked := False, dp_RevokedAt := None\<rparr>))))
       (WrapDB repoErrUpdateEntity) (\<lambda>_. ret ())"

definition pr_Remove :: "string \<Rightarrow> string \<Rightarrow> ('c pat_world, gerror, unit) io" where
  "pr_Remove userID patID =
     trying (on_db (db_exec (delete_pats (owned userID patID)))) (HandleError repoErrRemoveEntity) ret"

definition pr_RemoveAllPAT :: "'c patCache \<Rightarrow> string \<Rightarrow> ('c pat_world, gerror, unit) io" where
  "pr_RemoveAllPAT pc userID =
     trying (on_db (db_exec (delete_pats (\<lambda>r. dp_User r = userID)))) (HandleError repoErrRemoveEntity) (\<lambda>_.
     trying (on_cache (cache_RemoveUserAllScope pc userID)) (Wrap repoErrRemoveEntity) ret)"

text \<open>A query for existence and the scan of its row.\<close>

definition exists_row :: "(dbScope \<Rightarrow> bool) \<Rightarrow> ('c pat_world, gerror, bool) io" where
  "exists_row p =
     trying (on_db (db_query (\<lambda>t. list_ex p (t_scopes t)))) (HandleError repoErrUpdateEntity) (\<lambda>b.
     trying (on_db (driver (ret b))) (HandleError repoErrViewEntity) ret)"

definition processScope :: "Scope \<Rightarrow> ('c pat_world, gerror, Scope) io" where
  "processScope sc =
     (let for_scope = scope_for (sc_PatID sc) (EntityType_String (sc_EntityType sc)) (sc_DomainID sc) (sc_Operation sc) in
      pass (exists_row (\<lambda>s. for_scope s \<and> ds_EntityID s = AnyIDs)) (\<lambda>exists.
      if exists then fail repoErrConflict
      else if sc_EntityID sc = AnyIDs then
        pass (exists_row for_scope) (\<lambda>scopeExists.
        if scopeExists then
          trying (on_db (db_exec (widen_scopes (sc_PatID sc) (EntityType_String (sc_EntityType sc)) (sc_DomainID sc) (sc_Operation sc))))
            (HandleError repoErrUpdateEntity) (\<lambda>_. ret Scope0)
        else ret sc)
      else ret sc))"

fun process_scopes :: "Scope list \<Rightarrow> Scope list \<Rightarrow> ('c pat_world, gerror, Scope list) io" where
  "process_scopes [] newScopes = ret newScopes"
| "process_scopes (sc # scopes) newScopes =
     pass (processScope sc) (\<lambda>processedScope.
       process_scopes scopes (if sc_ID processedScope \<noteq> [] then newScopes @ [processedScope] else newScopes))"

definition pr_AddScope :: "'c patCache \<Rightarrow> string \<Rightarrow> Scope list \<Rightarrow> ('c pat_world, gerror, unit) io" where
  "pr_AddScope pc userID scopes =
     pass (process_scopes scopes []) (\<lambda>newScopes.
     pass (if length newScopes > 0
           then trying (on_db (db_exec (insert_scopes (toDBScope newScopes)))) (HandleError repoErrUpdateEntity) ret
           else ret ()) (\<lambda>_.
     trying (on_cache (cache_Save pc userID scopes)) (Wrap repoErrUpdateEntity) ret))"

definition pr_RemoveScope :: "'c patCache \<Rightarrow> string \<Rightarrow> string list \<Rightarrow> ('c pat_world, gerror, unit) io" where
  "pr_RemoveScope pc userID scopesIDs =
     trying (on_db (db_exec (delete_scopes (\<lambda>s. ds_ID s \<in> set scopesIDs)))) (WrapDB repoErrRemoveEntity) (\<lambda>rows.
     if rows = 0 then fail repoErrNotFound
     else trying (on_cache (cache_Remove pc userID scopesIDs)) (Wrap repoErrRemoveEntity) ret)"

definition pr_CheckScope ::
  "'c patCache \<Rightarrow> string \<Rightarrow> string \<Rightarrow> EntityType \<Rightarrow> string \<Rightarrow> string \<Rightarrow> string \<Rightarrow> ('c pat_world, gerror, unit) io" where
  "pr_CheckScope pc userID patID entityType domainID operation entityID =
     observe (\<lambda>w. case cache_CheckScope pc userID patID domainID entityType operation entityID (pw_cache w) of
         (b, c) \<Rightarrow> (b, w\<lparr>pw_cache := c\<rparr>)) (\<lambda>authorized.
     if authorized then ret ()
     else
       trying (on_db (db_query (\<lambda>t. take 1 (filter (\<lambda>s. scope_for patID (EntityType_String entityType) domainID operation s \<and>
           (ds_EntityID s = entityID \<or> ds_EntityID s = ''*'')) (t_scopes t))))) (WrapDB repoErrViewEntity) (\<lambda>rows.
       case rows of
         [] \<Rightarrow> fail errInsufficientPATScope
       | r # _ \<Rightarrow>
           trying (on_db (driver (ret r))) (WrapDB repoErrViewEntity) (\<lambda>sc.
           case ParseEntityType (ds_EntityType sc) of
             Inl err \<Rightarrow> fail (Wrap repoErrViewEntity err)
           | Inr et \<Rightarrow>
               (let authScope = \<lparr>sc_ID = ds_ID sc, sc_PatID = ds_PatID sc, sc_DomainID = ds_DomainID sc,
                      sc_EntityType = et, sc_EntityID = ds_EntityID sc, sc_Operation = ds_Operation sc\<rparr>
                in pass (on_cache (cache_Save pc userID [authScope])) (\<lambda>_.
                   if Authorized (Some authScope) et domainID operation entityID then ret ()
                   else fail errInsufficientPATScope)))))"

text \<open>The user of the page record is not set, so the cache is asked for an empty user id.\<close>

definition pr_RemoveAllScope :: "'c patCache \<Rightarrow> string \<Rightarrow> ('c pat_world, gerror, unit) io" where
  "pr_RemoveAllScope pc patID =
     trying (on_db (db_exec (delete_scopes (\<lambda>s. ds_PatID s = patID)))) (HandleError repoErrRemoveEntity) (\<lambda>_.
     trying (on_cache (cache_RemoveAllScope pc [] patID)) (Wrap repoErrRemoveEntity) ret)"

definition retrieveScopeFromDB :: "string \<Rightarrow> nat \<Rightarrow> nat \<Rightarrow> ('c pat_world, gerror, Scope list) io" where
  "retrieveScopeFromDB patID offset limit =
     trying (on_db (db_query (\<lambda>t. take limit (drop offset (filter (\<lambda>s. ds_PatID s = patID) (t_scopes t))))))
       (WrapDB repoErrViewEntity) (\<lambda>rows.
     trying (on_db (scan_rows rows)) (WrapDB repoErrViewEntity) (\<lambda>scopes.
     case toAuthScope scopes of Inl err \<Rightarrow> fail err | Inr sc \<Rightarrow> ret sc))"

definition pr_RetrieveScope :: "string \<Rightarrow> nat \<Rightarrow> nat \<Rightarrow> ('c pat_world, gerror, ScopesPage) io" where
  "pr_RetrieveScope patID offset limit =
     trying (retrieveScopeFromDB patID offset limit) (Wrap repoErrViewEntity) (\<lambda>scopes.
     trying (on_db (Total (\<lambda>t. length (filter (\<lambda>s. ds_PatID s = patID) (t_scopes t))))) (WrapDB repoErrViewEntity) (\<lambda>total.
     ret \<lparr>sp_Total = total, sp_Offset = offset, sp_Limit = limit, sp_Scopes = scopes\<rparr>))"

section \<open>Texts of entity types\<close>

lemma ParseEntityType_text: "ParseEntityType s = Inr et \<Longrightarrow> EntityType_String et = s"
  by (auto simp: ParseEntityType_def EntityType_String_def entity_types split: if_splits)

lemma EntityType_valid_cases:
  assumes "unat (et :: EntityType) \<le> 6"
  shows "et \<in> {GroupsType, ChannelsType, ClientsType, DashboardType, MessagesType, DomainsType, UsersType}"
proof -
  define n where "n = unat et"
  then have n: "et = word_of_nat n" "n \<le> 6" using assms by simp_all
  then have "n \<in> {0, 1, 2, 3, 4, 5, 6}" by auto
  with n(1) show ?thesis by (auto simp: entity_types)
qed

lemma EntityType_String_parses: "unat et \<le> 6 \<Longrightarrow> ParseEntityType (EntityType_String et) = Inr et"
  by (drule EntityType_valid_cases) (auto simp: ParseEntityType_def EntityType_String_def entity_types)

lemma EntityType_String_unknown:
  assumes "\<not> unat et \<le> 6"
  shows "EntityType_String et = ''unknown domain entity type '' @ nat_str (unat et)"
  using assms by (auto simp: EntityType_String_def entity_types)

section \<open>Cache and table\<close>

abbreviation rows :: "'c pat_world \<Rightarrow> dbScope list" where
  "rows w \<equiv> t_scopes (committed (pw_db w))"

abbreviation no_colon :: "string \<Rightarrow> bool" where
  "no_colon s \<equiv> CHR '':'' \<notin> set s"

text \<open>Identifiers and operation names contain no colon, and ids are not empty.\<close>

definition tidy :: "Scope \<Rightarrow> bool" where
  "tidy s \<longleftrightarrow> sc_ID s \<noteq> [] \<and> no_colon (sc_PatID s) \<and> no_colon (sc_DomainID s) \<and> no_colon (sc_Operation s) \<and>
     unat (sc_EntityType s) \<le> 6"

definition tidy_row :: "dbScope \<Rightarrow> bool" where
  "tidy_row s \<longleftrightarrow> no_colon (ds_PatID s) \<and> no_colon (ds_DomainID s) \<and> no_colon (ds_Operation s) \<and> no_colon (ds_EntityType s)"

definition row_key :: "string \<Rightarrow> dbScope \<Rightarrow> string \<Rightarrow> string" where
  "row_key u s e = ''pat:'' @ u @ '':'' @ ds_PatID s @ '':'' @ ds_EntityType s @ '':'' @ ds_DomainID s @ '':'' @
     ds_Operation s @ '':'' @ e"

text \<open>Every cached scope is covered by a row of the table.\<close>

definition backed :: "dbScope list \<Rightarrow> (string \<Rightarrow> string option) \<Rightarrow> bool" where
  "backed ss L \<longleftrightarrow> (\<forall>s \<in> set ss. tidy_row s) \<and>
     (\<forall>k. L k \<noteq> None \<longrightarrow> HasPrefix k ''pat:'' \<longrightarrow>
        (\<exists>u s e. no_colon u \<and> s \<in> set ss \<and> k = row_key u s e \<and> (ds_EntityID s = e \<or> ds_EntityID s = AnyIDs)))"

lemma colon_append_eq:
  "no_colon a \<Longrightarrow> no_colon b \<Longrightarrow> a @ CHR '':'' # x = b @ CHR '':'' # y \<longleftrightarrow> a = b \<and> x = y"
proof (induction a arbitrary: b)
  case Nil
  then show ?case by (cases b) auto
next
  case (Cons c a)
  then show ?case by (cases b) auto
qed

lemma valid_type_no_colon: "unat et \<le> 6 \<Longrightarrow> no_colon (EntityType_String et)"
  by (drule EntityType_valid_cases) (auto simp: EntityType_String_def entity_types)

lemma backed_grant:
  assumes "backed ss L" "L (generateKey u p d et op e) \<noteq> None"
    "no_colon u" "no_colon p" "no_colon d" "no_colon op" "unat et \<le> 6"
  shows "\<exists>s \<in> set ss. scope_for p (EntityType_String et) d op s \<and> ds_EntityID s \<in> {e, AnyIDs}"
proof -
  have "HasPrefix (generateKey u p d et op e) ''pat:''" by (simp add: generateKey_def HasPrefix_def)
  with assms(1,2) obtain u' s e' where s: "no_colon u'" "s \<in> set ss" "generateKey u p d et op e = row_key u' s e'"
    "ds_EntityID s = e' \<or> ds_EntityID s = AnyIDs" "tidy_row s"
    unfolding backed_def by blast
  from s(3) have "u = u' \<and> p = ds_PatID s \<and> EntityType_String et = ds_EntityType s \<and> d = ds_DomainID s \<and>
      op = ds_Operation s \<and> e = e'"
    using assms(3-6) valid_type_no_colon [OF assms(7)] s(1,5)
    unfolding generateKey_def row_key_def tidy_row_def by (simp add: colon_append_eq)
  with s show ?thesis by auto
qed

text \<open>The table only grows or widens.\<close>

definition grows :: "dbScope list \<Rightarrow> dbScope list \<Rightarrow> bool" where
  "grows ss ss' \<longleftrightarrow> (\<forall>s \<in> set ss. \<exists>s' \<in> set ss'.
     scope_for (ds_PatID s) (ds_EntityType s) (ds_DomainID s) (ds_Operation s) s' \<and> ds_EntityID s' \<in> {ds_EntityID s, AnyIDs})"

lemma grows_refl [simp]: "grows ss ss"
  unfolding grows_def by blast

lemma grows_trans: "grows a b \<Longrightarrow> grows b c \<Longrightarrow> grows a c"
  unfolding grows_def by (metis insert_iff singletonD)

lemma row_key_cong:
  "scope_for (ds_PatID s) (ds_EntityType s) (ds_DomainID s) (ds_Operation s) s' \<Longrightarrow> row_key u s' e = row_key u s e"
  by (simp add: row_key_def)

lemma backed_grows:
  assumes "backed ss L" "grows ss ss'" "\<forall>s \<in> set ss'. tidy_row s"
  shows "backed ss' L"
  unfolding backed_def
proof (intro conjI allI impI)
  show "\<forall>s \<in> set ss'. tidy_row s" by (rule assms(3))
  fix k assume "L k \<noteq> None" "HasPrefix k ''pat:''"
  with assms(1) obtain u s e where s: "no_colon u" "s \<in> set ss" "k = row_key u s e" "ds_EntityID s = e \<or> ds_EntityID s = AnyIDs"
    unfolding backed_def by blast
  from assms(2) s(2) obtain s' where s': "s' \<in> set ss'"
    "scope_for (ds_PatID s) (ds_EntityType s) (ds_DomainID s) (ds_Operation s) s'" "ds_EntityID s' \<in> {ds_EntityID s, AnyIDs}"
    unfolding grows_def by blast
  with s row_key_cong [OF s'(2)]
  show "\<exists>u s e. no_colon u \<and> s \<in> set ss' \<and> k = row_key u s e \<and> (ds_EntityID s = e \<or> ds_EntityID s = AnyIDs)"
    by (metis insertE singletonD)
qed

lemma backed_fewer: "backed ss L \<Longrightarrow> (\<And>k. L' k \<noteq> None \<Longrightarrow> L k \<noteq> None) \<Longrightarrow> backed ss L'"
  unfolding backed_def by blast

lemma backed_insert:
  assumes "backed ss L" "\<And>k. L' k \<noteq> None \<Longrightarrow> L k \<noteq> None \<or> k \<in> K"
    "\<And>k. k \<in> K \<Longrightarrow> \<exists>u s e. no_colon u \<and> s \<in> set ss \<and> k = row_key u s e \<and> (ds_EntityID s = e \<or> ds_EntityID s = AnyIDs)"
  shows "backed ss L'"
  using assms unfolding backed_def by blast

subsection \<open>Operations on the table\<close>

lemma exists_row_same:
  assumes "exists_row p w = (r, w')"
  shows "rows w' = rows w \<and> pw_cache w' = pw_cache w \<and> (\<forall>b. r = Inr b \<longrightarrow> b = list_ex p (rows w))"
proof -
  obtain q d1 where q: "db_query (\<lambda>t. list_ex p (t_scopes t)) (pw_db w) = (q, d1)" by fastforce
  show ?thesis
  proof (cases q)
    case (Inl e)
    with assms q show ?thesis
      using db_exec_err [OF q [unfolded Inl db_query_def]] by (auto simp: exists_row_def trying_apply lifted_def)
  next
    case (Inr b)
    note ok = db_query_ok [OF q [unfolded Inr]]
    obtain q2 d2 where q2: "driver (ret b) d1 = (q2, d2)" by fastforce
    from driver_ret [OF q2] assms q q2 Inr ok show ?thesis
      by (cases q2) (auto simp: exists_row_def trying_apply lifted_def)
  qed
qed

abbreviation same_scope :: "Scope \<Rightarrow> dbScope \<Rightarrow> bool" where
  "same_scope sc \<equiv> scope_for (sc_PatID sc) (EntityType_String (sc_EntityType sc)) (sc_DomainID sc) (sc_Operation sc)"

lemma widen_grows:
  assumes "widen_scopes p et d op t = Inr (t', u)" "\<forall>s \<in> set (t_scopes t). tidy_row s"
  shows "grows (t_scopes t) (t_scopes t') \<and> (\<forall>s \<in> set (t_scopes t'). tidy_row s) \<and>
    (list_ex (scope_for p et d op) (t_scopes t) \<longrightarrow> (\<exists>s \<in> set (t_scopes t'). scope_for p et d op s \<and> ds_EntityID s = AnyIDs))"
proof -
  let ?f = "\<lambda>s. if scope_for p et d op s then s\<lparr>ds_EntityID := AnyIDs\<rparr> else s"
  have t': "t_scopes t' = map ?f (t_scopes t)"
    using assms(1) by (auto simp: widen_scopes_def Let_def split: if_splits)
  have "\<exists>s' \<in> set (t_scopes t'). scope_for (ds_PatID s) (ds_EntityType s) (ds_DomainID s) (ds_Operation s) s' \<and>
      ds_EntityID s' \<in> {ds_EntityID s, AnyIDs}" if "s \<in> set (t_scopes t)" for s
    using that unfolding t' by (intro bexI [of _ "?f s"]) auto
  moreover have "tidy_row s" if "s \<in> set (t_scopes t')" for s
    using that assms(2) unfolding t' by (auto simp: tidy_row_def)
  moreover have "\<exists>s \<in> set (t_scopes t'). scope_for p et d op s \<and> ds_EntityID s = AnyIDs"
    if x: "s \<in> set (t_scopes t)" "scope_for p et d op s" for s
  proof -
    have "?f s \<in> set (t_scopes t')" unfolding t' set_map by (rule imageI) (rule x(1))
    then show ?thesis by (rule bexI [rotated]) (use x in auto)
  qed
  ultimately show ?thesis unfolding grows_def list_ex_iff by (intro conjI ballI impI) (assumption | blast)+
qed

text \<open>The scope is to be inserted, or the table has been widened to cover it.\<close>

lemma processScope_covers:
  assumes "processScope sc w = (r, w')" "\<forall>s \<in> set (rows w). tidy_row s"
  shows "pw_cache w' = pw_cache w \<and> grows (rows w) (rows w') \<and> (\<forall>s \<in> set (rows w'). tidy_row s) \<and>
    (\<forall>x. r = Inr x \<longrightarrow> x = sc \<or> x = Scope0 \<and> (\<exists>s \<in> set (rows w'). same_scope sc s \<and> ds_EntityID s = AnyIDs))"
proof -
  obtain q w1 where q: "exists_row (\<lambda>s. same_scope sc s \<and> ds_EntityID s = AnyIDs) w = (q, w1)" by fastforce
  note s1 = exists_row_same [OF q]
  show ?thesis
  proof (cases "q = Inr False \<and> sc_EntityID sc = AnyIDs")
    case False
    with assms q s1 show ?thesis by (cases q) (auto simp: processScope_def Let_def pass_apply split: if_splits)
  next
    case True
    obtain q2 w2 where q2: "exists_row (same_scope sc) w1 = (q2, w2)" by fastforce
    note s2 = exists_row_same [OF q2]
    show ?thesis
    proof (cases "q2 = Inr True")
      case False
      with assms q q2 s1 s2 True show ?thesis
        by (cases q2) (auto simp: processScope_def Let_def pass_apply split: if_splits)
    next
      case Ex: True
      let ?st = "widen_scopes (sc_PatID sc) (EntityType_String (sc_EntityType sc)) (sc_DomainID sc) (sc_Operation sc)"
      obtain q3 d3 where q3: "db_exec ?st (pw_db w2) = (q3, d3)" by fastforce
      have w': "w' = w2\<lparr>pw_db := d3\<rparr> \<and> (\<forall>x. r = Inr x \<longrightarrow> x = Scope0 \<and> q3 = Inr ())"
        using assms(1) q q2 q3 True Ex
        by (cases q3) (auto simp: processScope_def Let_def pass_apply trying_apply lifted_def)
      show ?thesis
      proof (cases q3)
        case (Inl e)
        with db_exec_err [OF q3 [unfolded Inl]] w' s1 s2 assms(2) show ?thesis by auto
      next
        case (Inr u)
        with db_exec_ok [OF q3 [unfolded Inr]] obtain t where t: "?st (committed (pw_db w2)) = Inr (t, u)" "committed d3 = t"
          by blast
        have "True = list_ex (same_scope sc) (rows w1)" using s2 Ex by blast
        then have e: "list_ex (same_scope sc) (rows w)" using s1 by simp
        from widen_grows [OF t(1)] s1 s2 assms(2) w' t(2) e show ?thesis by auto
      qed
    qed
  qed
qed

lemma process_scopes_covers:
  "process_scopes scs new w = (r, w') \<Longrightarrow> \<forall>s \<in> set (rows w). tidy_row s \<Longrightarrow>
   pw_cache w' = pw_cache w \<and> grows (rows w) (rows w') \<and> (\<forall>s \<in> set (rows w'). tidy_row s) \<and>
   (\<forall>new'. r = Inr new' \<longrightarrow> set new \<subseteq> set new' \<and> set new' \<subseteq> set new \<union> set scs \<and>
      (\<forall>sc \<in> set scs. sc_ID sc \<noteq> [] \<longrightarrow>
         sc \<in> set new' \<or> (\<exists>s \<in> set (rows w'). same_scope sc s \<and> ds_EntityID s = AnyIDs)))"
proof (induction scs arbitrary: new w)
  case Nil
  then show ?case by auto
next
  case (Cons sc scs)
  obtain q w1 where q: "processScope sc w = (q, w1)" by fastforce
  note c = processScope_covers [OF q Cons.prems(2)]
  show ?case
  proof (cases q)
    case (Inl e)
    with Cons.prems q c show ?thesis by (auto simp: pass_apply)
  next
    case (Inr x)
    let ?new = "if sc_ID x \<noteq> [] then new @ [x] else new"
    have k: "process_scopes scs ?new w1 = (r, w')" using Cons.prems(1) q Inr by (simp add: pass_apply)
    have tidy1: "\<forall>s \<in> set (rows w1). tidy_row s" using c by blast
    note IH = Cons.IH [OF k tidy1]
    have x: "x = sc \<or> x = Scope0 \<and> (\<exists>s \<in> set (rows w1). same_scope sc s \<and> ds_EntityID s = AnyIDs)" using c Inr by simp
    have moved: "\<exists>s' \<in> set (rows w'). same_scope sc s' \<and> ds_EntityID s' = AnyIDs"
      if "s \<in> set (rows w1)" "same_scope sc s" "ds_EntityID s = AnyIDs" for s
      using IH that unfolding grows_def by fastforce
    have g: "grows (rows w) (rows w')" using grows_trans [of "rows w" "rows w1" "rows w'"] c IH by blast
    have Z: "sc_ID Scope0 = []" by (simp add: Scope0_def)
    have "set new \<subseteq> set new' \<and> set new' \<subseteq> set new \<union> set (sc # scs) \<and> (\<forall>y \<in> set (sc # scs). sc_ID y \<noteq> [] \<longrightarrow>
        y \<in> set new' \<or> (\<exists>s \<in> set (rows w'). same_scope y s \<and> ds_EntityID s = AnyIDs))" if "r = Inr new'" for new'
    proof -
      have i: "set ?new \<subseteq> set new'" "set new' \<subseteq> set ?new \<union> set scs"
        "\<forall>y \<in> set scs. sc_ID y \<noteq> [] \<longrightarrow> y \<in> set new' \<or> (\<exists>s \<in> set (rows w'). same_scope y s \<and> ds_EntityID s = AnyIDs)"
        using IH that by blast+
      from x show ?thesis
      proof
        assume "x = sc"
        with i show ?thesis by (cases "sc_ID sc = []") auto
      next
        assume "x = Scope0 \<and> (\<exists>s \<in> set (rows w1). same_scope sc s \<and> ds_EntityID s = AnyIDs)"
        with i moved Z show ?thesis by auto
      qed
    qed
    with g IH c show ?thesis by simp
  qed
qed

lemma insert_scopes_ok: "insert_scopes rs t = Inr (t', u) \<Longrightarrow> t_scopes t' = t_scopes t @ rs"
  by (auto simp: insert_scopes_def split: if_splits)

subsection \<open>The cache\<close>

locale scope_cache = redis_client "pc_client pc" content for pc :: "'c patCache" and content :: "'c \<Rightarrow> redis_state"
begin

abbreviation cached :: "'c pat_world \<Rightarrow> string \<Rightarrow> string option" where
  "cached w \<equiv> live (content (pw_cache w))"

lemma cache_Save_live:
  "cache_Save pc u scs c = (r, c') \<Longrightarrow> live (content c') k \<noteq> None \<Longrightarrow>
     live (content c) k \<noteq> None \<or> (\<exists>sc \<in> set scs. k =
       generateKey u (sc_PatID sc) (sc_DomainID sc) (sc_EntityType sc) (sc_Operation sc) (sc_EntityID sc))"
proof (induction scs arbitrary: c)
  case Nil
  then show ?case by simp
next
  case (Cons sc scs)
  let ?k = "generateKey u (sc_PatID sc) (sc_DomainID sc) (sc_EntityType sc) (sc_Operation sc) (sc_EntityID sc)"
  obtain q c1 where q: "r_Set (pc_client pc) ?k (sc_ID sc) (pc_duration pc) c = (q, c1)" by fastforce
  have "content c1 = content c \<or> content c1 = run_cmd (CmdSet ?k (sc_ID sc) (pc_duration pc)) (content c)"
  proof (cases q)
    case (Inl e)
    from Set_err [OF q [unfolded Inl]] show ?thesis by simp
  next
    case (Inr x)
    from Set_ok [OF q [unfolded Inr]] show ?thesis by simp
  qed
  then have step: "live (content c1) k \<noteq> None \<Longrightarrow> live (content c) k \<noteq> None \<or> k = ?k" for k
    by (elim disjE) (simp_all del: run_cmd.simps split: if_splits)
  show ?case
  proof (cases q)
    case (Inl e)
    with Cons.prems q step show ?thesis by (auto simp: trying_apply)
  next
    case (Inr x)
    with Cons.prems(1) q have "cache_Save pc u scs c1 = (r, c')" by (simp add: trying_apply)
    from Cons.IH [OF this Cons.prems(2)] step show ?thesis by auto
  qed
qed

lemma CheckScope_cases:
  assumes "pr_CheckScope pc u p et d op e w = (r, w')"
  shows "rows w' = rows w \<and>
    (\<forall>k. cached w' k \<noteq> None \<longrightarrow> cached w k \<noteq> None \<or> (\<exists>s \<in> set (rows w). k = row_key u s (ds_EntityID s))) \<and>
    (r = Inr () \<longrightarrow>
       (\<exists>e' \<in> {e, ''*''}. cached w (generateKey u p d et op e') \<noteq> None) \<or>
       (\<exists>s \<in> set (rows w). scope_for p (EntityType_String et) d op s \<and> ds_EntityID s \<in> {e, ''*''}))"
proof -
  let ?ks = "[generateKey u p d et op e, generateKey u p d et op ''*'']"
  let ?P = "\<lambda>s. scope_for p (EntityType_String et) d op s \<and> (ds_EntityID s = e \<or> ds_EntityID s = ''*'')"
  obtain x c1 where x: "r_Exists (pc_client pc) ?ks (pw_cache w) = (x, c1)" by fastforce
  note same = Exists_same [OF x]
  show ?thesis
  proof (cases "\<exists>n. x = Inr n \<and> 0 < n")
    case True
    then obtain n where n: "x = Inr n" "0 < n" by blast
    have "\<exists>k \<in> set ?ks. live (content (pw_cache w)) k \<noteq> None" using Exists_ok [OF x [unfolded n(1)]] n(2) by blast
    moreover have "w' = w\<lparr>pw_cache := c1\<rparr>"
      using assms x n by (simp add: pr_CheckScope_def observe_apply cache_CheckScope_def)
    ultimately show ?thesis using same by auto
  next
    case False
    let ?w1 = "w\<lparr>pw_cache := c1\<rparr>"
    have c: "cache_CheckScope pc u p d et op e (pw_cache w) = (False, c1)"
      using x False by (cases x) (auto simp: cache_CheckScope_def)
    obtain q d1 where q: "db_query (\<lambda>t. take 1 (filter ?P (t_scopes t))) (pw_db w) = (q, d1)" by fastforce
    show ?thesis
    proof (cases q)
      case (Inl err)
      with assms c q have "r \<noteq> Inr () \<and> w' = w\<lparr>pw_cache := c1, pw_db := d1\<rparr>"
        by (auto simp: pr_CheckScope_def observe_apply trying_apply lifted_def)
      with db_exec_err [OF q [unfolded Inl db_query_def]] same show ?thesis by auto
    next
      case (Inr rs)
      note ok = db_query_ok [OF q [unfolded Inr]]
      show ?thesis
      proof (cases rs)
        case Nil
        with Inr assms c q have "r \<noteq> Inr () \<and> w' = w\<lparr>pw_cache := c1, pw_db := d1\<rparr>"
          by (auto simp: pr_CheckScope_def observe_apply trying_apply lifted_def)
        with ok same show ?thesis by auto
      next
        case (Cons s rs')
        then have "s \<in> set (take 1 (filter ?P (rows w)))" using ok by (metis list.set_intros(1))
        then have s: "s \<in> set (rows w)" "?P s" using set_take_subset by fastforce+
        obtain q2 d2 where q2: "driver (ret s) d1 = (q2, d2)" by fastforce
        from driver_ret [OF q2] ok have rows2: "t_scopes (committed d2) = rows w" by auto
        have q2s: "q2 = Inr y \<Longrightarrow> y = s" for y using driver_ret [OF q2] by blast
        show ?thesis
        proof (cases "\<exists>et'. q2 = Inr s \<and> ParseEntityType (ds_EntityType s) = Inr et'")
          case False
          have "r \<noteq> Inr () \<and> w' = w\<lparr>pw_cache := c1, pw_db := d2\<rparr>"
            using assms c q q2 Inr Cons False q2s
            by (cases q2; cases "ParseEntityType (ds_EntityType s)")
              (auto simp: pr_CheckScope_def observe_apply trying_apply lifted_def)
          with rows2 same show ?thesis by auto
        next
          case True
          then obtain et' where et': "q2 = Inr s" "ParseEntityType (ds_EntityType s) = Inr et'" by blast
          let ?sc = "\<lparr>sc_ID = ds_ID s, sc_PatID = ds_PatID s, sc_DomainID = ds_DomainID s,
                      sc_EntityType = et', sc_EntityID = ds_EntityID s, sc_Operation = ds_Operation s\<rparr>"
          obtain q3 c3 where q3: "cache_Save pc u [?sc] c1 = (q3, c3)" by fastforce
          have w': "w' = w\<lparr>pw_cache := c3, pw_db := d2\<rparr>"
            using assms c q q2 q3 Inr Cons et'
            by (cases q3) (auto simp: pr_CheckScope_def observe_apply trying_apply pass_apply lifted_def Let_def
                simp del: cache_Save.simps split: if_splits)
          have "cached w k \<noteq> None \<or> k = row_key u s (ds_EntityID s)" if "cached w' k \<noteq> None" for k
            using cache_Save_live [OF q3, of k] that w' same ParseEntityType_text [OF et'(2)]
            by (auto simp: generateKey_def row_key_def)
          with s w' rows2 show ?thesis by auto
        qed
      qed
    qed
  qed
qed

lemma CheckScope_keeps:
  assumes "pr_CheckScope pc u p et d op e w = (r, w')" "no_colon u" "backed (rows w) (cached w)"
  shows "backed (rows w') (cached w')"
proof -
  note c = CheckScope_cases [OF assms(1)]
  have "backed (rows w) (cached w')"
    by (rule backed_insert [OF assms(3), of _ "{row_key u s (ds_EntityID s) | s. s \<in> set (rows w)}"])
      (use c assms(2) in blast)+
  then show ?thesis using c by simp
qed

lemma AddScope_keeps:
  assumes "pr_AddScope pc u scs w = (r, w')" "no_colon u" "\<forall>sc \<in> set scs. tidy sc" "backed (rows w) (cached w)"
  shows "backed (rows w') (cached w')"
proof -
  have tidy0: "\<forall>s \<in> set (rows w). tidy_row s" using assms(4) by (simp add: backed_def)
  obtain q w1 where q: "process_scopes scs [] w = (q, w1)" by fastforce
  note c = process_scopes_covers [OF q tidy0]
  have b1: "backed (rows w1) (cached w1)" using backed_grows [OF assms(4)] c by simp
  show ?thesis
  proof (cases q)
    case (Inl err)
    with assms(1) q b1 show ?thesis by (simp add: pr_AddScope_def pass_apply)
  next
    case (Inr new)
    let ?ins = "if length new > 0
        then trying (on_db (db_exec (insert_scopes (toDBScope new)))) (HandleError repoErrUpdateEntity) ret else ret ()"
    obtain q2 w2 where q2: "?ins w1 = (q2, w2)" by fastforce
    have new: "set new \<subseteq> set scs" "\<forall>sc \<in> set scs. sc \<in> set new \<or> (\<exists>s \<in> set (rows w1). same_scope sc s \<and> ds_EntityID s = AnyIDs)"
      using c Inr assms(3) by (auto simp: tidy_def)
    have ins: "pw_cache w2 = pw_cache w1 \<and> (rows w2 = rows w1 \<or> rows w2 = rows w1 @ toDBScope new) \<and>
        (q2 = Inr () \<longrightarrow> set (toDBScope new) \<subseteq> set (rows w2))"
    proof (cases "length new > 0")
      case False
      with q2 show ?thesis by (simp add: toDBScope_def)
    next
      case True
      obtain q3 d3 where q3: "db_exec (insert_scopes (toDBScope new)) (pw_db w1) = (q3, d3)" by fastforce
      show ?thesis
      proof (cases q3)
        case (Inl err)
        with q2 q3 True db_exec_err [OF q3 [unfolded Inl]] show ?thesis by (auto simp: trying_apply lifted_def)
      next
        case (Inr x)
        from db_exec_ok [OF q3 [unfolded Inr]] have "t_scopes (committed d3) = rows w1 @ toDBScope new"
          by (auto dest: insert_scopes_ok)
        with q2 q3 True Inr show ?thesis by (auto simp: trying_apply lifted_def)
      qed
    qed
    have tidy_new: "\<forall>s \<in> set (toDBScope new). tidy_row s"
      using new(1) assms(3) by (auto simp: toDBScope_def toDBScope1_def tidy_row_def tidy_def valid_type_no_colon)
    have "grows (rows w1) (rows w2)" using ins unfolding grows_def by auto
    moreover have "\<forall>s \<in> set (rows w2). tidy_row s" using ins tidy_new c by auto
    ultimately have b2: "backed (rows w2) (cached w2)" using backed_grows [OF b1] ins by simp
    show ?thesis
    proof (cases q2)
      case (Inl err)
      with assms(1) q q2 Inr b2 show ?thesis by (simp add: pr_AddScope_def pass_apply)
    next
      case Ok: (Inr x)
      obtain q3 c3 where q3: "cache_Save pc u scs (pw_cache w2) = (q3, c3)" by fastforce
      have w': "w' = w2\<lparr>pw_cache := c3\<rparr>"
        using assms(1) q q2 q3 Inr Ok by (cases q3) (simp_all add: pr_AddScope_def pass_apply trying_apply lifted_def)
      have covered: "\<exists>u' s e. no_colon u' \<and> s \<in> set (rows w2) \<and> k = row_key u' s e \<and> (ds_EntityID s = e \<or> ds_EntityID s = AnyIDs)"
        if sc: "sc \<in> set scs"
          "k = generateKey u (sc_PatID sc) (sc_DomainID sc) (sc_EntityType sc) (sc_Operation sc) (sc_EntityID sc)" for k sc
      proof -
        from new(2) sc(1) consider "sc \<in> set new" | s where "s \<in> set (rows w1)" "same_scope sc s" "ds_EntityID s = AnyIDs" by blast
        then show ?thesis
        proof cases
          case 1
          then have "toDBScope1 sc \<in> set (rows w2)" using ins Ok by (auto simp: toDBScope_def)
          moreover have "k = row_key u (toDBScope1 sc) (sc_EntityID sc)" "ds_EntityID (toDBScope1 sc) = sc_EntityID sc"
            using sc(2) by (simp_all add: generateKey_def row_key_def toDBScope1_def)
          ultimately show ?thesis using assms(2) by blast
        next
          case (2 s)
          then have "k = row_key u s (sc_EntityID sc)" using sc(2) by (simp add: generateKey_def row_key_def)
          moreover have "s \<in> set (rows w2)" using 2(1) ins by auto
          ultimately show ?thesis using assms(2) 2(3) by blast
        qed
      qed
      have "backed (rows w2) (cached w')"
        by (rule backed_insert [OF b2, of _ "{k. \<exists>sc \<in> set scs. k =
            generateKey u (sc_PatID sc) (sc_DomainID sc) (sc_EntityType sc) (sc_Operation sc) (sc_EntityID sc)}"])
          (use cache_Save_live [OF q3] w' covered in auto)
      then show ?thesis using w' by simp
    qed
  qed
qed

end

text \<open>Adding and checking scopes, and the expiry of cached keys.\<close>

inductive scope_step :: "'c patCache \<Rightarrow> ('c \<Rightarrow> redis_state) \<Rightarrow> 'c pat_world \<Rightarrow> 'c pat_world \<Rightarrow> bool"
  for pc :: "'c patCache" and content :: "'c \<Rightarrow> redis_state" where
  ss_add: "pr_AddScope pc u scs w = (ra, w') \<Longrightarrow> no_colon u \<Longrightarrow> \<forall>sc \<in> set scs. tidy sc \<Longrightarrow> scope_step pc content w w'"
| ss_check: "pr_CheckScope pc u p et d op e w = (rb, w') \<Longrightarrow> no_colon u \<Longrightarrow> scope_step pc content w w'"
| ss_expire: "live (content c) \<subseteq>\<^sub>m live (content (pw_cache w)) \<Longrightarrow> scope_step pc content w (w\<lparr>pw_cache := c\<rparr>)"

context scope_cache
begin

lemma scope_step_keeps: "scope_step pc content w w' \<Longrightarrow> backed (rows w) (cached w) \<Longrightarrow> backed (rows w') (cached w')"
proof (induction rule: scope_step.induct)
  case (ss_expire c w)
  show ?case
    by (rule backed_fewer [of _ "cached w"]) (use ss_expire in \<open>auto simp: map_le_def dom_def\<close>)
qed (blast intro: AddScope_keeps CheckScope_keeps)+

lemma scope_steps_keep:
  "(scope_step pc content)\<^sup>*\<^sup>* w w' \<Longrightarrow> backed (rows w) (cached w) \<Longrightarrow> backed (rows w') (cached w')"
  by (induction rule: rtranclp_induct) (auto intro: scope_step_keeps)

lemma grants_recorded:
  assumes "backed (rows w) (cached w)" "pr_CheckScope pc u p et d op e w = (Inr x, w')"
    "no_colon u" "no_colon p" "no_colon d" "no_colon op" "unat et \<le> 6"
  shows "\<exists>s \<in> set (rows w). scope_for p (EntityType_String et) d op s \<and> ds_EntityID s \<in> {e, AnyIDs}"
proof -
  have "(\<exists>e' \<in> {e, ''*''}. cached w (generateKey u p d et op e') \<noteq> None) \<or>
      (\<exists>s \<in> set (rows w). scope_for p (EntityType_String et) d op s \<and> ds_EntityID s \<in> {e, ''*''})"
    using CheckScope_cases [OF assms(2)] by simp
  then show ?thesis
  proof
    assume "\<exists>e' \<in> {e, ''*''}. cached w (generateKey u p d et op e') \<noteq> None"
    then obtain e' where e': "e' \<in> {e, ''*''}" "cached w (generateKey u p d et op e') \<noteq> None" by blast
    from backed_grant [OF assms(1) e'(2) assms(3-7)] e'(1) show ?thesis by (auto simp: AnyIDs_def)
  qed (auto simp: AnyIDs_def)
qed

lemma delete_keys_other:
  "delete_keys pc ks c = (r, c') \<Longrightarrow> k \<notin> set ks \<Longrightarrow> live (content c') k = live (content c) k"
proof (induction ks arbitrary: c)
  case Nil
  then show ?case by simp
next
  case (Cons x ks)
  obtain q c1 where q: "r_Del (pc_client pc) x c = (q, c1)" by fastforce
  have "content c1 = content c \<or> content c1 = run_cmd (CmdDel x) (content c)"
  proof (cases q)
    case (Inl e)
    from Del_err [OF q [unfolded Inl]] show ?thesis by simp
  next
    case (Inr u)
    from Del_ok [OF q [unfolded Inr]] show ?thesis by simp
  qed
  with Cons.prems(2) have "live (content c1) k = live (content c) k" by (elim disjE) (simp_all del: run_cmd.simps)
  with Cons q show ?case by (cases q) (auto simp: trying_apply)
qed

lemma RemoveAllScope_keeps_cache:
  assumes "pr_RemoveAllScope pc p w = (Inr x, w')" "CHR ''*'' \<notin> set p" "CHR ''?'' \<notin> set p"
  shows "rows w' = filter (\<lambda>s. ds_PatID s \<noteq> p) (rows w) \<and> cached w' (generateKey u p d et op e) = cached w (generateKey u p d et op e)"
proof -
  let ?del = "delete_scopes (\<lambda>s. ds_PatID s = p)"
  obtain n w1 where n: "on_db (db_exec ?del) w = (Inr n, w1)" and k: "trying (on_cache (cache_RemoveAllScope pc [] p))
      (Wrap repoErrRemoveEntity) ret w1 = (Inr x, w')"
    using trying_InrD [OF assms(1) [unfolded pr_RemoveAllScope_def]] by blast
  from n obtain d1 where d1: "db_exec ?del (pw_db w) = (Inr n, d1)" "w1 = w\<lparr>pw_db := d1\<rparr>" by (auto simp: lifted_eq)
  have r1: "rows w1 = filter (\<lambda>s. ds_PatID s \<noteq> p) (rows w)"
    using db_exec_ok [OF d1(1)] d1(2) by (auto simp: delete_scopes_def)
  from k d1(2) obtain c where c: "cache_RemoveAllScope pc [] p (pw_cache w) = (Inr (), c)" "w' = w1\<lparr>pw_cache := c\<rparr>"
    by (auto simp: trying_apply lifted_def split: prod.splits sum.splits)
  obtain ks oe c1 where sc: "r_Scan (pc_client pc) (''pat:'' @ [] @ '':'' @ p) (pw_cache w) = ((ks, oe), c1)" by (metis prod.exhaust)
  from c(1) sc obtain q c2 where dk: "delete_keys pc ks c1 = (q, c2)" "c = c2"
    by (auto simp: cache_RemoveAllScope_def scan_then_def observe_apply pass_apply guarded_def split: prod.splits sum.splits option.splits)
  have "generateKey u p d et op e \<notin> set ks"
  proof
    assume "generateKey u p d et op e \<in> set ks"
    from Scan_some [OF sc this] have "generateKey u p d et op e = ''pat:'' @ [] @ '':'' @ p"
      using assms(2,3) glob_exact [of "''pat::'' @ p"] by simp
    then have "length (generateKey u p d et op e) = length p + 5" by simp
    then show False by (simp add: generateKey_def)
  qed
  from delete_keys_other [OF dk(1) this] Scan_same [OF sc] have "live (content c) (generateKey u p d et op e) =
      live (content (pw_cache w)) (generateKey u p d et op e)" using dk(2) by simp
  with r1 c(2) show ?thesis by simp
qed

lemma cached_key_grants:
  assumes "cached w (generateKey u p d et op e) \<noteq> None"
    "r_Exists (pc_client pc) [generateKey u p d et op e, generateKey u p d et op ''*''] (pw_cache w) = (Inr n, c)"
  shows "fst (pr_CheckScope pc u p et d op e w) = Inr ()"
proof -
  have "0 < n" using Exists_ok [OF assms(2)] assms(1) by simp
  with assms(2) show ?thesis by (simp add: pr_CheckScope_def observe_apply cache_CheckScope_def)
qed

end

section \<open>Properties\<close>

definition ref_patCache :: "redis_server patCache" where
  "ref_patCache = \<lparr>pc_client = ref_redis, pc_duration = 600\<rparr>"

interpretation ref_pats: scope_cache ref_patCache rsv_state
  by (simp add: scope_cache_def ref_patCache_def ref_rd.redis_client_axioms)

text \<open>The text of an entity type determines it: a text parses to a type exactly when it is the text of one of
  the seven types, and every other 32-bit number has a text that does not parse.\<close>

lemma entity_type_text_roundtrip:
  "ParseEntityType s = Inr et \<longleftrightarrow> EntityType_String et = s \<and> unat et \<le> 6"
proof -
  have "unat et \<le> 6" if "ParseEntityType s = Inr et"
    using that by (auto simp: ParseEntityType_def entity_types split: if_splits)
  then show ?thesis using ParseEntityType_text EntityType_String_parses by blast
qed

text \<open>C22: The cache of scopes grants nothing the table does not record: from a state in which every cached scope
  is covered by a row, along any adding and checking of scopes with identifiers without colons
  and any expiry of keys, with failures of the database and of Redis anywhere, a scope check
  succeeds only for a row of the token with the same domain, entity type and operation and
  the same or any entity.\<close>

theorem granted_scopes_are_recorded:
  assumes "redis_client (pc_client pc) content" "backed (rows w) (live (content (pw_cache w)))"
    "(scope_step pc content)\<^sup>*\<^sup>* w w'" "pr_CheckScope pc u p et d op e w' = (Inr (), w'')"
    "no_colon u" "no_colon p" "no_colon d" "no_colon op" "unat et \<le> 6"
  shows "\<exists>s \<in> set (rows w'). scope_for p (EntityType_String et) d op s \<and> ds_EntityID s \<in> {e, AnyIDs}"
proof -
  have "scope_cache pc content" using assms(1) by (simp add: scope_cache_def)
  from scope_cache.grants_recorded [OF this scope_cache.scope_steps_keep [OF this assms(3,2)] assms(4-9)]
  show ?thesis .
qed

definition sample_pat_row :: dbPat where
  "sample_pat_row = dbPat0\<lparr>dp_ID := ''p1'', dp_User := ''u1'', dp_Name := ''ci''\<rparr>"

definition sample_pats :: "redis_server pat_world" where
  "sample_pats = \<lparr>pw_db = \<lparr>committed = \<lparr>t_pats = [sample_pat_row], t_scopes = []\<rparr>, open_txs = [], next_tx = 0, faults = []\<rparr>,
     pw_cache = \<lparr>rsv_state = \<lparr>rstrings = [], rzsets = []\<rparr>, rsv_faults = []\<rparr>, pw_clock = int, pw_ticks = 0\<rparr>"

definition sample_scope :: Scope where
  "sample_scope = \<lparr>sc_ID = ''s1'', sc_PatID = ''p1'', sc_DomainID = ''d1'', sc_EntityType = ChannelsType,
     sc_EntityID = ''*'', sc_Operation = ''view''\<rparr>"

abbreviation pats_with_scope :: "(gerror + unit) \<times> redis_server pat_world" where
  "pats_with_scope \<equiv> pr_AddScope ref_patCache ''u1'' [sample_scope] sample_pats"

theorem granted_scopes_are_recorded_witness:
  "\<exists>s \<in> set (rows (snd pats_with_scope)). scope_for ''p1'' ''channels'' ''d1'' ''view'' s \<and> ds_EntityID s \<in> {''ch1'', AnyIDs}"
proof -
  have "scope_step ref_patCache rsv_state sample_pats (snd pats_with_scope)"
    by (rule ss_add [OF prod.collapse [symmetric]]) (auto simp: tidy_def sample_scope_def entity_types)
  then have steps: "(scope_step ref_patCache rsv_state)\<^sup>*\<^sup>* sample_pats (snd pats_with_scope)" by blast
  have b: "backed (rows sample_pats) (live (rsv_state (pw_cache sample_pats)))"
    by (simp add: backed_def sample_pats_def live_def)
  have "fst (pr_CheckScope ref_patCache ''u1'' ''p1'' ChannelsType ''d1'' ''view'' ''ch1'' (snd pats_with_scope)) = Inr ()"
    by code_simp
  then have g: "pr_CheckScope ref_patCache ''u1'' ''p1'' ChannelsType ''d1'' ''view'' ''ch1'' (snd pats_with_scope) =
      (Inr (), snd (pr_CheckScope ref_patCache ''u1'' ''p1'' ChannelsType ''d1'' ''view'' ''ch1'' (snd pats_with_scope)))"
    by (metis prod.collapse)
  have rd: "redis_client (pc_client ref_patCache) rsv_state" by (rule ref_pats.redis_client_axioms)
  have "EntityType_String ChannelsType = ''channels''" by code_simp
  then show ?thesis using granted_scopes_are_recorded [OF rd b steps g] by (simp add: entity_types)
qed

text \<open>Removing all scopes of a token removes its rows, but not the cached scopes, because the pattern the cache
  is scanned with has no user id and no star: a scope that was cached is still granted.\<close>

lemma removed_scopes_stay_granted:
  assumes "redis_client (pc_client pc) content" "pr_RemoveAllScope pc p w = (Inr (), w')"
    "CHR ''*'' \<notin> set p" "CHR ''?'' \<notin> set p" "live (content (pw_cache w)) (generateKey u p d et op e) \<noteq> None"
    "r_Exists (pc_client pc) [generateKey u p d et op e, generateKey u p d et op ''*''] (pw_cache w') = (Inr n, c)"
  shows "p \<notin> ds_PatID ` set (rows w') \<and> fst (pr_CheckScope pc u p et d op e w') = Inr ()"
proof -
  have S: "scope_cache pc content" using assms(1) by (simp add: scope_cache_def)
  note k = scope_cache.RemoveAllScope_keeps_cache [OF S assms(2-4)]
  from k have "p \<notin> ds_PatID ` set (rows w')" by auto
  moreover have "fst (pr_CheckScope pc u p et d op e w') = Inr ()"
    by (rule scope_cache.cached_key_grants [OF S _ assms(6)]) (use k assms(5) in auto)
  ultimately show ?thesis by blast
qed

end
