(* ===== verification/Tokens.thy ===== *)
theory Tokens
  imports Pats Base64
begin

text \<open>
  Login keys and their storage: \<open>auth/keys.go\<close>, the key repository \<open>auth/postgres/key.go\<close>,
  the cache of active refresh tokens \<open>auth/cache/tokens.go\<close>, the symmetric tokenizer
  \<open>auth/tokenizer/symmetric\<close> with \<open>auth/tokenizer/util/jwt.go\<close>, and the hasher of token
  secrets \<open>auth/hasher\<close>. Signing and verifying a JWT and the key derivation \<open>scrypt\<close> are
  parameters. A time is the number of nanoseconds since the zero time.
\<close>

section \<open>Keys\<close>

type_synonym KeyType = "32 word"

definition AccessKey :: KeyType where "AccessKey = 0"
definition RefreshKey :: KeyType where "RefreshKey = 1"
definition RecoveryKey :: KeyType where "RecoveryKey = 2"
definition APIKey :: KeyType where "APIKey = 3"
definition PersonalAccessToken :: KeyType where "PersonalAccessToken = 4"
definition InvitationKey :: KeyType where "InvitationKey = 5"

lemmas key_types = AccessKey_def RefreshKey_def RecoveryKey_def APIKey_def PersonalAccessToken_def InvitationKey_def

definition KeyType_Validate :: "KeyType \<Rightarrow> bool" where
  "KeyType_Validate kt \<longleftrightarrow> AccessKey \<le> kt \<and> kt \<le> InvitationKey"

definition KeyType_String :: "KeyType \<Rightarrow> string" where
  "KeyType_String kt =
     (if kt = AccessKey then ''access'' else if kt = RefreshKey then ''refresh''
      else if kt = RecoveryKey then ''recovery'' else if kt = APIKey then ''API''
      else if kt = PersonalAccessToken then ''pat'' else ''unknown'')"

definition UserRole :: KeyRole where "UserRole = 1"
definition AdminRole :: KeyRole where "AdminRole = 2"

definition KeyRole_String :: "KeyRole \<Rightarrow> string" where
  "KeyRole_String r = (if r = UserRole then ''user'' else if r = AdminRole then ''admin'' else ''unknown'')"

definition KeyRole_Validate :: "KeyRole \<Rightarrow> bool" where
  "KeyRole_Validate r \<longleftrightarrow> UserRole \<le> r \<and> r \<le> AdminRole"

record Key =
  k_ID :: string
  k_Type :: KeyType
  k_Issuer :: string
  k_Subject :: string
  k_Role :: KeyRole
  k_IssuedAt :: int
  k_ExpiresAt :: int
  k_Verified :: bool
  k_Description :: string

definition Key0 :: Key where
  "Key0 = \<lparr>k_ID = [], k_Type = AccessKey, k_Issuer = [], k_Subject = [], k_Role = 0, k_IssuedAt = 0, k_ExpiresAt = 0,
     k_Verified = False, k_Description = []\<rparr>"

definition Key_Expired :: "int \<Rightarrow> Key \<Rightarrow> bool" where
  "Key_Expired now key = (if k_Type key = APIKey \<and> k_ExpiresAt key = 0 then False else k_ExpiresAt key < now)"

section \<open>The key repository\<close>

record dbKey =
  dk_ID :: string
  dk_Type :: KeyType
  dk_Issuer :: string
  dk_Subject :: string
  dk_IssuedAt :: int
  dk_ExpiresAt :: "int option"

type_synonym key_db = "dbKey list database"

definition errSaveKey :: gerror where "errSaveKey = New ''failed to save key in database''"
definition errRetrieveKey :: gerror where "errRetrieveKey = New ''failed to retrieve key from database''"
definition errDeleteKey :: gerror where "errDeleteKey = New ''failed to delete key from database''"

definition toDBKey :: "Key \<Rightarrow> dbKey" where
  "toDBKey key = \<lparr>dk_ID = k_ID key, dk_Type = k_Type key, dk_Issuer = k_Issuer key, dk_Subject = k_Subject key,
     dk_IssuedAt = k_IssuedAt key, dk_ExpiresAt = null_time (k_ExpiresAt key)\<rparr>"

definition toKey :: "dbKey \<Rightarrow> Key" where
  "toKey key = Key0\<lparr>k_ID := dk_ID key, k_Type := dk_Type key, k_Issuer := dk_Issuer key, k_Subject := dk_Subject key,
     k_IssuedAt := dk_IssuedAt key, k_ExpiresAt := time_of (dk_ExpiresAt key)\<rparr>"

text \<open>The table: the primary key is the pair of id and issuer; the type is a \<open>SMALLINT\<close>.\<close>

definition insert_key :: "dbKey \<Rightarrow> (dbKey list, unit) stmt" where
  "insert_key r t =
     (if 254 < length (dk_ID r) \<or> 254 < length (dk_Subject r) \<or> 254 < length (dk_Issuer r) then Inl pg_truncated
      else if 32767 < unat (dk_Type r) then Inl (PgError ''22003'' ''smallint out of range'' [])
      else if list_ex (\<lambda>x. dk_ID x = dk_ID r \<and> dk_Issuer x = dk_Issuer r) t then Inl pg_duplicate
      else Inr (t @ [r], ()))"

definition kr_Save :: "Key \<Rightarrow> (key_db, gerror, string) io" where
  "kr_Save key =
     trying (db_exec (insert_key (toDBKey key))) (HandleError errSaveKey) (\<lambda>_. ret (dk_ID (toDBKey key)))"

definition kr_Retrieve :: "string \<Rightarrow> string \<Rightarrow> (key_db, gerror, Key) io" where
  "kr_Retrieve issuerID keyID =
     trying (db_query (filter (\<lambda>r. dk_Issuer r = issuerID \<and> dk_ID r = keyID))) (HandleError errRetrieveKey) (\<lambda>rows.
     case rows of
       [] \<Rightarrow> fail repoErrNotFound
     | r # _ \<Rightarrow> trying (driver (ret r)) (HandleError errRetrieveKey) (\<lambda>x. ret (toKey x)))"

definition kr_Remove :: "string \<Rightarrow> string \<Rightarrow> (key_db, gerror, unit) io" where
  "kr_Remove issuerID keyID =
     trying (db_exec (\<lambda>t. Inr (filter (\<lambda>r. \<not> (dk_Issuer r = issuerID \<and> dk_ID r = keyID)) t, ()))) (WrapDB errDeleteKey) ret"

section \<open>Active refresh tokens\<close>

text \<open>\<open>t.Unix()\<close> and \<open>time.Until\<close>; the latter saturates at the bounds of a duration.\<close>

definition unix :: "int \<Rightarrow> int" where
  "unix t = t div 1000000000 - 62135596800"

definition time_until :: "int \<Rightarrow> int \<Rightarrow> int" where
  "time_until expiry now = max (- (2 ^ 63)) (min (2 ^ 63 - 1) (expiry - now))"

definition tokenKey :: "string \<Rightarrow> string" where
  "tokenKey tokenID = ''refresh_tokens:'' @ ''token:'' @ tokenID"

definition userTokensKey :: "string \<Rightarrow> string" where
  "userTokensKey userID = ''refresh_tokens:'' @ ''user_tokens:'' @ userID"

record TokenInfo =
  ti_ID :: string
  ti_Description :: string

definition tc_SaveActive ::
  "'c redis \<Rightarrow> int \<Rightarrow> string \<Rightarrow> string \<Rightarrow> string \<Rightarrow> int \<Rightarrow> ('c, gerror, unit) io" where
  "tc_SaveActive rc now userID tokenID description expiry =
     r_Tx rc [CmdSet (tokenKey tokenID) description (time_until expiry now),
              CmdZAdd (userTokensKey userID) (unix expiry) tokenID]"

definition tc_IsActive :: "'c redis \<Rightarrow> string \<Rightarrow> ('c, gerror, bool) io" where
  "tc_IsActive rc tokenID = pass (r_Exists rc [tokenKey tokenID]) (\<lambda>count. ret (0 < count))"

fun get_descriptions :: "'c redis \<Rightarrow> string list \<Rightarrow> ('c, gerror, TokenInfo list) io" where
  "get_descriptions rc [] = ret []"
| "get_descriptions rc (tokenID # ids) = (\<lambda>c. case r_Get rc (tokenKey tokenID) c of
      (Inl RedisNil, c') \<Rightarrow> get_descriptions rc ids c'
    | (Inl (RedisErr err), c') \<Rightarrow> (Inl err, c')
    | (Inr description, c') \<Rightarrow>
        pass (get_descriptions rc ids) (\<lambda>valid. ret (\<lparr>ti_ID = tokenID, ti_Description = description\<rparr> # valid)) c')"

definition tc_ListUserTokens :: "'c redis \<Rightarrow> int \<Rightarrow> string \<Rightarrow> ('c, gerror, TokenInfo list) io" where
  "tc_ListUserTokens rc now userID =
     pass (r_Tx rc [CmdZRemRangeByScore (userTokensKey userID) (unix now)]) (\<lambda>_.
     pass (r_ZRangeByScore rc (userTokensKey userID) (unix now)) (\<lambda>tokenIDs.
     if length tokenIDs = 0 then ret [] else get_descriptions rc tokenIDs))"

definition tc_RemoveActive :: "'c redis \<Rightarrow> string \<Rightarrow> string \<Rightarrow> ('c, gerror, unit) io" where
  "tc_RemoveActive rc userID tokenID = r_Tx rc [CmdDel (tokenKey tokenID), CmdZRem (userTokensKey userID) tokenID]"

section \<open>JSON Web Tokens\<close>

text \<open>
  A token of the JWT library: the registered claims and the private claims this service
  uses, with their JSON values (numbers are integral here).
\<close>

datatype claim = CNum int | CBool bool | CStr string | CNull

record jwt_token =
  j_Issuer :: string
  j_Subject :: string
  j_JwtID :: string
  j_IssuedAt :: int
  j_Expiration :: int
  j_type :: "claim option"
  j_role :: "claim option"
  j_verified :: "claim option"

definition IssuerName :: string where "IssuerName = ''magistrala.auth''"

definition errJSONHandle :: gerror where "errJSONHandle = New ''failed to perform operation JSON''"
definition errInvalidIssuer :: gerror where "errInvalidIssuer = New ''invalid token issuer value''"
definition errJWTExpiryKey :: gerror where "errJWTExpiryKey = New ''\"exp\" not satisfied''"
definition errInvalidType :: gerror where "errInvalidType = New ''invalid token type''"
definition errInvalidRole :: gerror where "errInvalidRole = New ''invalid role''"
definition errInvalidVerified :: gerror where "errInvalidVerified = New ''invalid verified''"

text \<open>The private claims are read into a \<open>Key\<close> by \<open>json.Unmarshal\<close> first.\<close>

definition json_uint32 :: "claim option \<Rightarrow> bool" where
  "json_uint32 c = (case c of Some (CNum n) \<Rightarrow> 0 \<le> n \<and> n < 2 ^ 32 | Some CNull \<Rightarrow> True | None \<Rightarrow> True | _ \<Rightarrow> False)"

definition json_bool :: "claim option \<Rightarrow> bool" where
  "json_bool c = (case c of Some (CBool b) \<Rightarrow> True | Some CNull \<Rightarrow> True | None \<Rightarrow> True | _ \<Rightarrow> False)"

definition ToKey :: "jwt_token \<Rightarrow> gerror + Key" where
  "ToKey tkn =
     (if \<not> (json_uint32 (j_type tkn) \<and> json_uint32 (j_role tkn) \<and> json_bool (j_verified tkn))
      then Inl (Wrap errJSONHandle (Foreign ''json: cannot unmarshal''))
      else case j_type tkn of
        Some (CNum kType) \<Rightarrow>
          if \<not> KeyType_Validate (word_of_int kType) then Inl errInvalidType
          else (case j_role tkn of
              Some (CNum kRole) \<Rightarrow>
                (case j_verified tkn of
                   Some (CBool kVerified) \<Rightarrow>
                     if \<not> KeyRole_Validate (word_of_int kRole) then Inl errInvalidRole
                     else Inr \<lparr>k_ID = j_JwtID tkn, k_Type = word_of_int kType, k_Issuer = j_Issuer tkn,
                                k_Subject = j_Subject tkn, k_Role = word_of_int kRole, k_IssuedAt = j_IssuedAt tkn,
                                k_ExpiresAt = j_Expiration tkn, k_Verified = kVerified, k_Description = []\<rparr>
                 | _ \<Rightarrow> Inl errInvalidVerified)
            | _ \<Rightarrow> Inl errInvalidRole)
      | _ \<Rightarrow> Inl errInvalidType)"

definition BuildToken :: "Key \<Rightarrow> jwt_token" where
  "BuildToken key = \<lparr>j_Issuer = IssuerName, j_Subject = k_Subject key, j_JwtID = k_ID key, j_IssuedAt = k_IssuedAt key,
     j_Expiration = k_ExpiresAt key, j_type = Some (CNum (uint (k_Type key))), j_role = Some (CNum (uint (k_Role key))),
     j_verified = Some (CBool (k_Verified key))\<rparr>"

record jwt_lib =
  jwt_Sign :: "jwt_token \<Rightarrow> gerror + string"
  jwt_Parse :: "int \<Rightarrow> string \<Rightarrow> gerror + jwt_token"

definition ErrExpiry :: gerror where "ErrExpiry = New ''token is expired''"

definition tok_Issue :: "jwt_lib \<Rightarrow> Key \<Rightarrow> gerror + string" where
  "tok_Issue lib key = jwt_Sign lib (BuildToken key)"

text \<open>The key that comes with an error is the zero key.\<close>

definition tok_Parse :: "jwt_lib \<Rightarrow> int \<Rightarrow> string \<Rightarrow> gerror + Key" where
  "tok_Parse lib now tokenString =
     (if 3 \<le> length tokenString \<and> take 3 tokenString = ''pat'' then Inr (Key0\<lparr>k_Type := PersonalAccessToken\<rparr>)
      else case jwt_Parse lib now tokenString of
        Inl err \<Rightarrow> if Contains err errJWTExpiryKey then Inl ErrExpiry else Inl err
      | Inr tkn \<Rightarrow> if j_Issuer tkn \<noteq> IssuerName then Inl errInvalidIssuer else ToKey tkn)"

section \<open>The hasher\<close>

type_synonym scrypt = "string \<Rightarrow> string \<Rightarrow> gerror + string"

definition errHashToken :: gerror where "errHashToken = New ''failed to generate hash for token''"
definition errHashCompare :: gerror where "errHashCompare = New ''failed to generate hash for given compare string''"
definition errToken :: gerror where "errToken = New ''given token and hash are not same''"
definition errSalt :: gerror where "errSalt = New ''failed to generate salt''"
definition errInvalidHashStore :: gerror where "errInvalidHashStore = New ''invalid stored hash format''"
definition errDecode :: gerror where "errDecode = New ''failed to decode''"

text \<open>\<open>random\<close> is what reading 25 random bytes for the salt returns.\<close>

definition hasher_Hash :: "scrypt \<Rightarrow> gerror + string \<Rightarrow> string \<Rightarrow> gerror + string" where
  "hasher_Hash scr random token =
     (case random of
        Inl err \<Rightarrow> Inl (Wrap errSalt err)
      | Inr salt \<Rightarrow>
          (case scr token salt of
             Inl err \<Rightarrow> Inl (Wrap errHashToken err)
           | Inr hash \<Rightarrow> Inr (EncodeToString hash @ ''.'' @ EncodeToString salt)))"

definition hasher_Compare :: "scrypt \<Rightarrow> string \<Rightarrow> string \<Rightarrow> gerror option" where
  "hasher_Compare scr plain hashed =
     (case split_on (CHR ''.'') hashed of
        [p0, p1] \<Rightarrow>
          (case DecodeString p0 of
             Inl err \<Rightarrow> Some (Wrap errDecode err)
           | Inr actHash \<Rightarrow>
               (case DecodeString p1 of
                  Inl err \<Rightarrow> Some (Wrap errDecode err)
                | Inr salt \<Rightarrow>
                    (case scr plain salt of
                       Inl err \<Rightarrow> Some (Wrap errHashCompare err)
                     | Inr derivedHash \<Rightarrow> if derivedHash = actHash then None else Some errToken)))
      | _ \<Rightarrow> Some errInvalidHashStore)"

section \<open>Facts\<close>

lemma KeyRole_Validate_iff: "KeyRole_Validate r \<longleftrightarrow> r = UserRole \<or> r = AdminRole"
proof -
  have "r = 1 \<or> r = 2" if "1 \<le> r" "r \<le> 2" for r :: "32 word"
  proof -
    define n where "n = unat r"
    then have r: "r = word_of_nat n" by simp
    have "n = 1 \<or> n = 2" using that unfolding n_def by (auto simp: word_le_nat_alt)
    with r show ?thesis by auto
  qed
  then show ?thesis unfolding KeyRole_Validate_def UserRole_def AdminRole_def by auto
qed

lemma KeyType_Validate_iff: "KeyType_Validate kt \<longleftrightarrow> unat kt \<le> 5"
  by (simp add: KeyType_Validate_def key_types word_le_nat_alt)

text \<open>A built token reads back as the key, with the fixed issuer and without the description.\<close>

lemma ToKey_BuildToken:
  "ToKey (BuildToken key) =
     (if \<not> KeyType_Validate (k_Type key) then Inl errInvalidType
      else if \<not> KeyRole_Validate (k_Role key) then Inl errInvalidRole
      else Inr (key\<lparr>k_Issuer := IssuerName, k_Description := []\<rparr>))"
  using uint_lt2p [of "k_Type key"] uint_lt2p [of "k_Role key"]
  by (simp add: ToKey_def BuildToken_def json_uint32_def json_bool_def)

lemma EncodeToString_code:
  assumes "c \<in> set (EncodeToString s)"
  shows "(of_char c :: nat) \<notin> {46, 95}"
proof -
  from subsetD [OF EncodeToString_alphabet assms] consider "c = CHR ''=''" | n where "n < 64" "c = b64char n" by auto
  then show ?thesis
  proof cases
    case 2
    show ?thesis unfolding 2(2) b64char_code [OF 2(1)] using 2(1) by auto
  qed simp
qed

lemma EncodeToString_separators [simp]:
  "CHR ''.'' \<notin> set (EncodeToString s)" "CHR ''_'' \<notin> set (EncodeToString s)"
  by (auto dest: EncodeToString_code)

lemma Compare_Hash:
  assumes "hasher_Hash scr (Inr salt) token = Inr h"
  shows "hasher_Compare scr plain h = None \<longleftrightarrow> scr plain salt = scr token salt"
proof -
  obtain k where k: "scr token salt = Inr k" "h = EncodeToString k @ CHR ''.'' # EncodeToString salt"
    using assms by (auto simp: hasher_Hash_def split: sum.splits)
  then have "split_on (CHR ''.'') h = [EncodeToString k, EncodeToString salt]"
    by simp
  then show ?thesis using k(1) by (auto simp: hasher_Compare_def split: sum.splits)
qed

text \<open>A JWT carries its times in whole seconds.\<close>

definition whole_seconds :: "int \<Rightarrow> int" where
  "whole_seconds t = t div 1000000000 * 1000000000"

definition carried :: "jwt_token \<Rightarrow> jwt_token" where
  "carried t = t\<lparr>j_IssuedAt := whole_seconds (j_IssuedAt t), j_Expiration := whole_seconds (j_Expiration t)\<rparr>"

lemma carried_BuildToken: "carried (BuildToken key) =
    BuildToken (key\<lparr>k_IssuedAt := whole_seconds (k_IssuedAt key), k_ExpiresAt := whole_seconds (k_ExpiresAt key)\<rparr>)"
  by (simp add: carried_def BuildToken_def)

section \<open>Properties\<close>

text \<open>C31: The tokenizer reads back the key it issued a token for, when the JWT library verifies the token and
  carries its times in whole seconds: id, subject, type, role and verification are the
  same, the issuer is the service, and the description is not carried. A key with another role
  than user or administrator gets a token that does not parse.\<close>

theorem issued_token_parses:
  assumes "tok_Issue lib key = Inr s" "jwt_Parse lib now s = Inr (carried (BuildToken key))" "\<not> HasPrefix s ''pat''"
  shows "tok_Parse lib now s = Inr k \<longleftrightarrow> KeyType_Validate (k_Type key) \<and> (k_Role key = UserRole \<or> k_Role key = AdminRole) \<and>
    k = key\<lparr>k_Issuer := IssuerName, k_Description := [], k_IssuedAt := whole_seconds (k_IssuedAt key),
      k_ExpiresAt := whole_seconds (k_ExpiresAt key)\<rparr>"
proof -
  have "\<not> (3 \<le> length s \<and> take 3 s = ''pat'')" using assms(3) by (auto simp: HasPrefix_def numeral_3_eq_3)
  moreover have "j_Issuer (BuildToken x) = IssuerName" for x by (simp add: BuildToken_def)
  ultimately have "tok_Parse lib now s = ToKey (BuildToken (key\<lparr>k_IssuedAt := whole_seconds (k_IssuedAt key),
      k_ExpiresAt := whole_seconds (k_ExpiresAt key)\<rparr>))"
    using assms(2) unfolding tok_Parse_def by (auto simp: carried_BuildToken)
  then show ?thesis by (auto simp: ToKey_BuildToken KeyRole_Validate_iff)
qed

definition sample_lib :: "Key \<Rightarrow> jwt_lib" where
  "sample_lib key = \<lparr>jwt_Sign = (\<lambda>t. Inr ''eyJ''), jwt_Parse = (\<lambda>now s. Inr (carried (BuildToken key)))\<rparr>"

definition sample_admin :: Key where
  "sample_admin = Key0\<lparr>k_ID := ''k1'', k_Type := APIKey, k_Subject := ''u1'', k_Role := AdminRole, k_ExpiresAt := 7500000000\<rparr>"

theorem issued_token_parses_witness:
  "tok_Parse (sample_lib sample_admin) 5 ''eyJ'' = Inr (sample_admin\<lparr>k_Issuer := IssuerName, k_ExpiresAt := 7000000000\<rparr>)"
proof -
  have i: "tok_Issue (sample_lib sample_admin) sample_admin = Inr ''eyJ''"
    and p: "jwt_Parse (sample_lib sample_admin) 5 ''eyJ'' = Inr (carried (BuildToken sample_admin))"
    by (simp_all add: tok_Issue_def sample_lib_def)
  have "KeyType_Validate (k_Type sample_admin)" by code_simp
  with issued_token_parses [OF i p] show ?thesis
    by (simp add: HasPrefix_def sample_admin_def whole_seconds_def Key0_def)
qed

end
