(* ===== verification/Auth.thy ===== *)
theory Auth
  imports Tokens Policies
begin

text \<open>
  The authentication and authorization service, \<open>auth/service.go\<close>: issuing, identifying and
  revoking login keys, personal access tokens and their scopes, and the authorization of a
  policy. The service is a record of its dependencies over a world. A call may end in a Go
  panic, which is an outcome of its own.
\<close>

datatype fault = Err gerror | Panic string

section \<open>The service\<close>

record 'w PATSRepository =
  pats_Save :: "PAT \<Rightarrow> ('w, gerror, unit) io"
  pats_Retrieve :: "string \<Rightarrow> string \<Rightarrow> ('w, gerror, PAT) io"
  pats_RetrieveScope :: "string \<Rightarrow> nat \<Rightarrow> nat \<Rightarrow> ('w, gerror, ScopesPage) io"
  pats_Secret :: "string \<Rightarrow> string \<Rightarrow> ('w, gerror, string \<times> bool \<times> bool) io"
  pats_UpdateName :: "string \<Rightarrow> string \<Rightarrow> string \<Rightarrow> ('w, gerror, PAT) io"
  pats_UpdateDescription :: "string \<Rightarrow> string \<Rightarrow> string \<Rightarrow> ('w, gerror, PAT) io"
  pats_UpdateTokenHash :: "string \<Rightarrow> string \<Rightarrow> string \<Rightarrow> int \<Rightarrow> ('w, gerror, PAT) io"
  pats_Revoke :: "string \<Rightarrow> string \<Rightarrow> ('w, gerror, unit) io"
  pats_Reactivate :: "string \<Rightarrow> string \<Rightarrow> ('w, gerror, unit) io"
  pats_Remove :: "string \<Rightarrow> string \<Rightarrow> ('w, gerror, unit) io"
  pats_RemoveAllPAT :: "string \<Rightarrow> ('w, gerror, unit) io"
  pats_AddScope :: "string \<Rightarrow> Scope list \<Rightarrow> ('w, gerror, unit) io"
  pats_RemoveScope :: "string \<Rightarrow> string list \<Rightarrow> ('w, gerror, unit) io"
  pats_CheckScope :: "string \<Rightarrow> string \<Rightarrow> EntityType \<Rightarrow> string \<Rightarrow> string \<Rightarrow> string \<Rightarrow> ('w, gerror, unit) io"
  pats_RemoveAllScope :: "string \<Rightarrow> ('w, gerror, unit) io"

record 'w auth_service =
  keys_Save :: "Key \<Rightarrow> ('w, gerror, string) io"
  keys_Retrieve :: "string \<Rightarrow> string \<Rightarrow> ('w, gerror, Key) io"
  keys_Remove :: "string \<Rightarrow> string \<Rightarrow> ('w, gerror, unit) io"
  a_pats :: "'w PATSRepository"
  SaveActive :: "string \<Rightarrow> string \<Rightarrow> string \<Rightarrow> int \<Rightarrow> ('w, gerror, unit) io"
  IsActive :: "string \<Rightarrow> ('w, gerror, bool) io"
  ListUserTokens :: "string \<Rightarrow> ('w, gerror, TokenInfo list) io"
  RemoveActive :: "string \<Rightarrow> string \<Rightarrow> ('w, gerror, unit) io"
  a_Hash :: "string \<Rightarrow> ('w, gerror, string) io"
  a_Compare :: "string \<Rightarrow> string \<Rightarrow> gerror option"
  a_idProvider :: "('w, gerror, string) io"
  a_evaluator :: "Policy \<Rightarrow> 'w \<Rightarrow> gerror option \<times> 'w"
  a_TokIssue :: "Key \<Rightarrow> gerror + string"
  a_TokParse :: "string \<Rightarrow> 'w \<Rightarrow> (Key \<times> gerror option) \<times> 'w"
  a_now :: "'w \<Rightarrow> int \<times> 'w"
  a_uuidParse :: "string \<Rightarrow> gerror + string"
  a_uuidString :: "string \<Rightarrow> string"
  a_randRead :: "nat \<Rightarrow> ('w, gerror, string) io"
  loginDuration :: int
  refreshDuration :: int
  invitationDuration :: int

record Token =
  AccessTok :: string
  RefreshTok :: string

record PATAuthz =
  pa_PatID :: string
  pa_UserID :: string
  pa_EntityType :: EntityType
  pa_EntityID :: string
  pa_Operation :: string
  pa_Domain :: string

definition recoveryDuration :: int where "recoveryDuration = 5 * 60 * 1000000000"

definition randStr :: string where "randStr = ''abcdefghijklmnopqrstuvwxyzABCDEFGHIJKLMNOPQRSTUVWXYZ1234567890!@#$%^&&*|+-=''"

definition errIssueUser :: gerror where "errIssueUser = New ''failed to issue new login key''"
definition errIssueTmp :: gerror where "errIssueTmp = New ''failed to issue new temporary key''"
definition errRevoke :: gerror where "errRevoke = New ''failed to remove key''"
definition errRetrieve :: gerror where "errRetrieve = New ''failed to retrieve key data''"
definition errIdentify :: gerror where "errIdentify = New ''failed to validate token''"
definition authErrPlatform :: gerror where "authErrPlatform = New ''invalid platform id''"
definition errRoleAuth :: gerror where "errRoleAuth = New ''failed to authorize user role''"
definition errSaveRefreshKey :: gerror where "errSaveRefreshKey = NewServiceError ''failed to save refresh key''"
definition errRevokeRefreshKey :: gerror where "errRevokeRefreshKey = NewServiceError ''failed to revoke refresh key''"
definition errListRefreshKeys :: gerror where "errListRefreshKeys = NewServiceError ''failed to list refresh keys''"
definition errMalformedPAT :: gerror where "errMalformedPAT = New ''malformed personal access token''"
definition errFailedToParseUUID :: gerror where "errFailedToParseUUID = New ''failed to parse string to UUID''"
definition errInvalidLenFor2UUIDs :: gerror where "errInvalidLenFor2UUIDs = New ''invalid input length for 2 UUID, excepted 32 byte''"
definition errRevokedPAT :: gerror where "errRevokedPAT = NewServiceError ''revoked pat''"
definition errCreatePAT :: gerror where "errCreatePAT = NewServiceError ''failed to create PAT''"
definition errUpdatePAT :: gerror where "errUpdatePAT = NewServiceError ''failed to update PAT''"
definition errRetrievePAT :: gerror where "errRetrievePAT = NewServiceError ''failed to retrieve PAT''"
definition errDeletePAT :: gerror where "errDeletePAT = NewServiceError ''failed to delete PAT''"
definition ErrRevokedToken :: gerror where "ErrRevokedToken = NewAuthNError ''token is revoked''"

section \<open>Authorization\<close>

definition AuthorizePAT ::
  "'w auth_service \<Rightarrow> string \<Rightarrow> string \<Rightarrow> EntityType \<Rightarrow> string \<Rightarrow> string \<Rightarrow> string \<Rightarrow> ('w, gerror, unit) io" where
  "AuthorizePAT svc userID patID entityType domainID operation entityID =
     trying (pats_CheckScope (a_pats svc) userID patID entityType domainID operation entityID) (Wrap svcErrAuthorization) ret"

definition PolicyValidation :: "Policy \<Rightarrow> gerror option" where
  "PolicyValidation pr =
     (if p_ObjectType pr = PlatformType \<and> p_Object pr \<noteq> MagistralaObject then Some authErrPlatform else None)"

definition auth_checkPolicy :: "'w auth_service \<Rightarrow> Policy \<Rightarrow> ('w, gerror, unit) io" where
  "auth_checkPolicy svc pr =
     observe (a_evaluator svc pr) (\<lambda>err. guarded (map_option (Wrap svcErrAuthorization) err) (ret ()))"

definition auth_Authorize :: "'w auth_service \<Rightarrow> Policy \<Rightarrow> PATAuthz option \<Rightarrow> ('w, gerror, unit) io" where
  "auth_Authorize svc pr patAuthz =
     pass (case patAuthz of
             None \<Rightarrow> ret ()
           | Some pa \<Rightarrow> AuthorizePAT svc (pa_UserID pa) (pa_PatID pa) (pa_EntityType pa) (pa_Domain pa) (pa_Operation pa) (pa_EntityID pa))
       (\<lambda>_. guarded (map_option (Wrap svcErrMalformedEntity) (PolicyValidation pr)) (auth_checkPolicy svc pr))"

definition platform_policy :: "string \<Rightarrow> string \<Rightarrow> Policy" where
  "platform_policy userID permission = Policy0\<lparr>p_Subject := userID, p_SubjectType := UserType, p_Permission := permission,
     p_Object := MagistralaObject, p_ObjectType := PlatformType\<rparr>"

definition checkUserRole :: "'w auth_service \<Rightarrow> Key \<Rightarrow> ('w, gerror, unit) io" where
  "checkUserRole svc key =
     (if k_Role key = AdminRole
      then trying (auth_Authorize svc (platform_policy (k_Subject key) AdminPermission) None) (\<lambda>_. errRoleAuth) ret
      else if k_Role key = UserRole
      then trying (auth_Authorize svc (platform_policy (k_Subject key) MembershipPermission) None) (\<lambda>_. errRoleAuth) ret
      else ret ())"

definition getUserRole :: "'w auth_service \<Rightarrow> string \<Rightarrow> 'w \<Rightarrow> KeyRole \<times> 'w" where
  "getUserRole svc userID w =
     (case auth_Authorize svc (platform_policy userID AdminPermission) None w of
        (Inr u, w') \<Rightarrow> (AdminRole, w')
      | (Inl err, w') \<Rightarrow> (UserRole, w'))"

section \<open>Issuing\<close>

definition tmpKey :: "'w auth_service \<Rightarrow> int \<Rightarrow> Key \<Rightarrow> ('w, gerror, Token) io" where
  "tmpKey svc duration key0 =
     observe (a_now svc) (\<lambda>now.
     let key = key0\<lparr>k_ExpiresAt := now + duration\<rparr> in
     trying (checkUserRole svc key) (Wrap errIssueTmp) (\<lambda>_.
     case a_TokIssue svc key of
       Inl err \<Rightarrow> fail (Wrap errIssueTmp err)
     | Inr tok \<Rightarrow> ret \<lparr>AccessTok = tok, RefreshTok = []\<rparr>))"

text \<open>Recording a refresh token as active, unless it has no subject or is expired already.\<close>

definition save_active :: "'w auth_service \<Rightarrow> Key \<Rightarrow> ('w, gerror, unit) io" where
  "save_active svc key =
     (if k_Subject key \<noteq> []
      then observe (a_now svc) (\<lambda>now.
        if now < k_ExpiresAt key
        then trying (SaveActive svc (k_Subject key) (k_ID key) (k_Description key) (k_ExpiresAt key)) (Wrap errSaveRefreshKey) ret
        else ret ())
      else ret ())"

definition accessKey :: "'w auth_service \<Rightarrow> Key \<Rightarrow> ('w, gerror, Token) io" where
  "accessKey svc key0 =
     observe (a_now svc) (\<lambda>now.
     let key = key0\<lparr>k_Type := AccessKey, k_ExpiresAt := now + loginDuration svc\<rparr> in
     trying (checkUserRole svc key) (Wrap errIssueUser) (\<lambda>_.
     case a_TokIssue svc key of
       Inl err \<Rightarrow> fail (Wrap errIssueTmp err)
     | Inr access \<Rightarrow>
         observe (a_now svc) (\<lambda>now'.
         trying (a_idProvider svc) (Wrap errIssueTmp) (\<lambda>newID.
         let key' = key\<lparr>k_ExpiresAt := now' + refreshDuration svc, k_Type := RefreshKey, k_ID := newID\<rparr> in
         case a_TokIssue svc key' of
           Inl err \<Rightarrow> fail (Wrap errIssueTmp err)
         | Inr refresh \<Rightarrow>
             pass (save_active svc key') (\<lambda>_. ret \<lparr>AccessTok = access, RefreshTok = refresh\<rparr>)))))"

definition invitationKey :: "'w auth_service \<Rightarrow> Key \<Rightarrow> ('w, gerror, Token) io" where
  "invitationKey svc key0 =
     observe (a_now svc) (\<lambda>now.
     let key = key0\<lparr>k_Type := InvitationKey, k_ExpiresAt := now + invitationDuration svc\<rparr> in
     trying (checkUserRole svc key) (Wrap errIssueTmp) (\<lambda>_.
     case a_TokIssue svc key of
       Inl err \<Rightarrow> fail (Wrap errIssueTmp err)
     | Inr access \<Rightarrow> ret \<lparr>AccessTok = access, RefreshTok = []\<rparr>))"

definition refreshKey :: "'w auth_service \<Rightarrow> string \<Rightarrow> Key \<Rightarrow> ('w, gerror, Token) io" where
  "refreshKey svc token key0 =
     observe (a_TokParse svc token) (\<lambda>(k, perr).
     guarded (map_option (Wrap svcErrAuthentication) perr)
     (if k_Type k \<noteq> RefreshKey then fail errIssueUser
      else trying (IsActive svc (k_ID k)) (Wrap svcErrViewEntity) (\<lambda>ok.
        if \<not> ok then fail ErrRevokedToken
        else
          let key = key0\<lparr>k_ID := k_ID k, k_Type := AccessKey, k_Subject := k_Subject k\<rparr> in
          trying (checkUserRole svc key) (Wrap errIssueUser) (\<lambda>_.
          observe (a_now svc) (\<lambda>now.
          let key' = key\<lparr>k_Role := k_Role k, k_ExpiresAt := now + loginDuration svc\<rparr> in
          case a_TokIssue svc key' of
            Inl err \<Rightarrow> fail (Wrap errIssueTmp err)
          | Inr access \<Rightarrow>
              (let key'' = key'\<lparr>k_ExpiresAt := k_ExpiresAt k, k_Type := RefreshKey\<rparr> in
               case a_TokIssue svc key'' of
                 Inl err \<Rightarrow> fail (Wrap errIssueTmp err)
               | Inr refresh \<Rightarrow>
                   pass (save_active svc key'') (\<lambda>_. ret \<lparr>AccessTok = access, RefreshTok = refresh\<rparr>)))))))"

text \<open>Only a login token may be used to log in.\<close>

definition authenticate :: "'w auth_service \<Rightarrow> string \<Rightarrow> ('w, gerror, string \<times> string) io" where
  "authenticate svc token =
     observe (a_TokParse svc token) (\<lambda>(key, perr).
     guarded (map_option (Wrap svcErrAuthentication) perr)
     (if k_Type key \<noteq> AccessKey \<or> k_Issuer key = [] then fail svcErrAuthentication
      else ret (k_Issuer key, k_Subject key)))"

definition userKey :: "'w auth_service \<Rightarrow> string \<Rightarrow> Key \<Rightarrow> ('w, gerror, Token) io" where
  "userKey svc token key0 =
     trying (authenticate svc token) (Wrap errIssueUser) (\<lambda>(issuer, sub).
     let key = key0\<lparr>k_Issuer := issuer, k_Subject := (if k_Subject key0 = [] then sub else k_Subject key0)\<rparr> in
     trying (checkUserRole svc key) (Wrap errIssueUser) (\<lambda>_.
     trying (a_idProvider svc) (Wrap errIssueUser) (\<lambda>keyID.
     let key' = key\<lparr>k_ID := keyID\<rparr> in
     trying (keys_Save svc key') (Wrap errIssueUser) (\<lambda>_.
     case a_TokIssue svc key' of
       Inl err \<Rightarrow> fail (Wrap errIssueUser err)
     | Inr tkn \<Rightarrow> ret \<lparr>AccessTok = tkn, RefreshTok = []\<rparr>))))"

definition auth_Issue :: "'w auth_service \<Rightarrow> string \<Rightarrow> Key \<Rightarrow> ('w, gerror, Token) io" where
  "auth_Issue svc token key0 =
     observe (a_now svc) (\<lambda>now.
     let key = key0\<lparr>k_IssuedAt := now\<rparr> in
     if k_Type key = APIKey then userKey svc token key
     else if k_Type key = RefreshKey then refreshKey svc token key
     else if k_Type key = RecoveryKey then tmpKey svc recoveryDuration key
     else if k_Type key = InvitationKey then invitationKey svc key
     else accessKey svc key)"

definition RevokeToken :: "'w auth_service \<Rightarrow> string \<Rightarrow> string \<Rightarrow> ('w, gerror, unit) io" where
  "RevokeToken svc userID tokenID = trying (RemoveActive svc userID tokenID) (Wrap errRevokeRefreshKey) ret"

definition auth_Revoke :: "'w auth_service \<Rightarrow> string \<Rightarrow> string \<Rightarrow> ('w, gerror, unit) io" where
  "auth_Revoke svc token keyID =
     trying (authenticate svc token) (Wrap errRevoke) (\<lambda>(issuerID, _).
     trying (keys_Remove svc issuerID keyID) (Wrap errRevoke) ret)"

definition RetrieveKey :: "'w auth_service \<Rightarrow> string \<Rightarrow> string \<Rightarrow> ('w, gerror, Key) io" where
  "RetrieveKey svc token keyID =
     trying (authenticate svc token) (Wrap errRetrieve) (\<lambda>(issuerID, _).
     trying (keys_Retrieve svc issuerID keyID) (Wrap svcErrViewEntity) ret)"

definition ListUserRefreshTokens :: "'w auth_service \<Rightarrow> string \<Rightarrow> ('w, gerror, TokenInfo list) io" where
  "ListUserRefreshTokens svc userID = trying (ListUserTokens svc userID) (Wrap errListRefreshKeys) ret"

section \<open>Secrets of personal access tokens\<close>

definition pat_encode :: "string \<Rightarrow> string \<Rightarrow> string" where
  "pat_encode userID patID = EncodeToString (userID @ patID)"

definition pat_decode :: "string \<Rightarrow> gerror + string \<times> string" where
  "pat_decode encoded =
     (case DecodeString encoded of
        Inl err \<Rightarrow> Inl err
      | Inr data \<Rightarrow>
          if length data \<noteq> 32 then Inl errInvalidLenFor2UUIDs else Inr (take 16 data, drop 16 data))"

definition generateRandomString :: "'w auth_service \<Rightarrow> nat \<Rightarrow> ('w, gerror, string) io" where
  "generateRandomString svc n =
     trying (a_randRead svc n) (Wrap (New ''failed to generate random string'')) (\<lambda>randBytes.
     ret (map (\<lambda>b. randStr ! (of_char b mod length randStr)) randBytes))"

definition generateSecretAndHash :: "'w auth_service \<Rightarrow> string \<Rightarrow> string \<Rightarrow> ('w, gerror, string \<times> string) io" where
  "generateSecretAndHash svc userID patID =
     (case a_uuidParse svc userID of
        Inl err \<Rightarrow> fail (Wrap errFailedToParseUUID err)
      | Inr uID \<Rightarrow>
          (case a_uuidParse svc patID of
             Inl err \<Rightarrow> fail (Wrap errFailedToParseUUID err)
           | Inr pID \<Rightarrow>
               pass (generateRandomString svc 100) (\<lambda>randomPart.
               let secret = ''pat'' @ ''_'' @ pat_encode uID pID @ ''_'' @ randomPart in
               pass (a_Hash svc secret) (\<lambda>secretHash. ret (secret, secretHash)))))"

section \<open>Identification\<close>

text \<open>
  The guard of \<open>IdentifyPAT\<close> is a conjunction: a secret of the right prefix but without a
  separator passes it, and the access to the second part panics.
\<close>

definition IdentifyPAT :: "'w auth_service \<Rightarrow> string \<Rightarrow> ('w, fault, PAT) io" where
  "IdentifyPAT svc secret =
     (let parts = split_on (CHR ''_'') secret in
      if length parts \<noteq> 3 \<and> parts ! 0 \<noteq> ''pat'' then fail (Err (Wrap svcErrAuthentication errMalformedPAT))
      else if length parts < 2 then fail (Panic ''index out of range [1] with length 1'')
      else case pat_decode (parts ! 1) of
        Inl err \<Rightarrow> fail (Err (Wrap svcErrAuthentication errMalformedPAT))
      | Inr (userID, patID) \<Rightarrow>
          trying (pats_Secret (a_pats svc) (a_uuidString svc userID) (a_uuidString svc patID))
            (\<lambda>err. Err (Wrap svcErrAuthentication err)) (\<lambda>(secretHash, revoked, expired).
          if revoked then fail (Err (Wrap svcErrAuthentication errRevokedPAT))
          else if expired then fail (Err (Wrap svcErrAuthentication ErrExpiry))
          else guarded (map_option (\<lambda>err. Err (Wrap svcErrAuthentication err)) (a_Compare svc secret secretHash))
            (observe (getUserRole svc (a_uuidString svc userID)) (\<lambda>role.
             ret (PAT0\<lparr>pat_ID := a_uuidString svc patID, pat_User := a_uuidString svc userID, pat_Role := role\<rparr>)))))"

definition Identify :: "'w auth_service \<Rightarrow> string \<Rightarrow> ('w, fault, Key) io" where
  "Identify svc token =
     observe (a_TokParse svc token) (\<lambda>(key, perr).
     if ContainsOpt perr (Some ErrExpiry)
     then observe (keys_Remove svc (k_Issuer key) (k_ID key)) (\<lambda>r.
       fail (Err (Wrap svcErrAuthentication (WrapNil ErrKeyExpired (case r of Inl err \<Rightarrow> Some err | Inr u \<Rightarrow> None)))))
     else guarded (map_option (\<lambda>err. Err (Wrap svcErrAuthentication (Wrap errIdentify err))) perr)
       (if k_Type key = PersonalAccessToken
        then pass (IdentifyPAT svc token) (\<lambda>res.
          ret (Key0\<lparr>k_ID := pat_ID res, k_Type := PersonalAccessToken, k_Subject := pat_User res, k_Role := pat_Role res\<rparr>))
        else if k_Type key \<in> {RecoveryKey, AccessKey, InvitationKey, RefreshKey} then ret key
        else if k_Type key = APIKey
        then trying (keys_Retrieve svc (k_Issuer key) (k_ID key)) (\<lambda>_. Err svcErrAuthentication) (\<lambda>_. ret key)
        else fail (Err svcErrAuthentication)))"

section \<open>Personal access tokens\<close>

definition authnAuthzUserPAT :: "'w auth_service \<Rightarrow> string \<Rightarrow> string \<Rightarrow> ('w, fault, Key) io" where
  "authnAuthzUserPAT svc token patID =
     pass (Identify svc token) (\<lambda>key.
     trying (pats_Retrieve (a_pats svc) (k_Subject key) patID)
       (\<lambda>err. Err (if Contains err repoErrNotFound then svcErrNotFound else Wrap svcErrAuthorization err))
       (\<lambda>_. ret key))"

definition CreatePAT :: "'w auth_service \<Rightarrow> string \<Rightarrow> string \<Rightarrow> string \<Rightarrow> int \<Rightarrow> ('w, fault, PAT) io" where
  "CreatePAT svc token name description duration =
     pass (Identify svc token) (\<lambda>key.
     trying (a_idProvider svc) (Err \<circ> Wrap svcErrCreateEntity) (\<lambda>newID.
     trying (generateSecretAndHash svc (k_Subject key) newID) (Err \<circ> Wrap svcErrCreateEntity) (\<lambda>(secret, hash).
     observe (a_now svc) (\<lambda>now.
     let pat = PAT0\<lparr>pat_ID := newID, pat_User := k_Subject key, pat_Name := name, pat_Description := description,
           pat_Secret := hash, pat_IssuedAt := now, pat_ExpiresAt := now + duration, pat_Status := ActiveStatus,
           pat_Revoked := False\<rparr> in
     guarded (map_option (Err \<circ> Wrap svcErrCreateEntity) (PAT_Validate pat))
     (trying (pats_Save (a_pats svc) pat) (Err \<circ> Wrap errCreatePAT) (\<lambda>_.
      ret (pat\<lparr>pat_Secret := secret\<rparr>)))))))"

definition UpdatePATName :: "'w auth_service \<Rightarrow> string \<Rightarrow> string \<Rightarrow> string \<Rightarrow> ('w, fault, PAT) io" where
  "UpdatePATName svc token patID name =
     pass (authnAuthzUserPAT svc token patID) (\<lambda>key.
     trying (pats_UpdateName (a_pats svc) (k_Subject key) patID name) (Err \<circ> Wrap errUpdatePAT) ret)"

definition UpdatePATDescription :: "'w auth_service \<Rightarrow> string \<Rightarrow> string \<Rightarrow> string \<Rightarrow> ('w, fault, PAT) io" where
  "UpdatePATDescription svc token patID description =
     pass (authnAuthzUserPAT svc token patID) (\<lambda>key.
     trying (pats_UpdateDescription (a_pats svc) (k_Subject key) patID description) (Err \<circ> Wrap errUpdatePAT) ret)"

definition RetrievePAT :: "'w auth_service \<Rightarrow> string \<Rightarrow> string \<Rightarrow> ('w, fault, PAT) io" where
  "RetrievePAT svc token patID =
     pass (Identify svc token) (\<lambda>key.
     trying (pats_Retrieve (a_pats svc) (k_Subject key) patID) (Err \<circ> Wrap errRetrievePAT) ret)"

definition DeletePAT :: "'w auth_service \<Rightarrow> string \<Rightarrow> string \<Rightarrow> ('w, fault, unit) io" where
  "DeletePAT svc token patID =
     pass (authnAuthzUserPAT svc token patID) (\<lambda>key.
     trying (pats_Remove (a_pats svc) (k_Subject key) patID) (Err \<circ> Wrap errDeletePAT) ret)"

definition ResetPATSecret :: "'w auth_service \<Rightarrow> string \<Rightarrow> string \<Rightarrow> int \<Rightarrow> ('w, fault, PAT) io" where
  "ResetPATSecret svc token patID duration =
     pass (authnAuthzUserPAT svc token patID) (\<lambda>key.
     trying (generateSecretAndHash svc (k_Subject key) patID) (Err \<circ> Wrap svcErrUpdateEntity) (\<lambda>(secret, hash).
     observe (a_now svc) (\<lambda>now.
     trying (pats_UpdateTokenHash (a_pats svc) (k_Subject key) patID hash (now + duration)) (Err \<circ> Wrap svcErrUpdateEntity) (\<lambda>pat.
     trying (pats_Reactivate (a_pats svc) (k_Subject key) patID) (Err \<circ> Wrap svcErrUpdateEntity) (\<lambda>_.
     ret (pat\<lparr>pat_Secret := secret, pat_Status := ActiveStatus, pat_RevokedAt := 0\<rparr>))))))"

definition RevokePATSecret :: "'w auth_service \<Rightarrow> string \<Rightarrow> string \<Rightarrow> ('w, fault, unit) io" where
  "RevokePATSecret svc token patID =
     pass (authnAuthzUserPAT svc token patID) (\<lambda>key.
     trying (pats_Revoke (a_pats svc) (k_Subject key) patID) (Err \<circ> Wrap svcErrUpdateEntity) ret)"

definition auth_RemoveAllPAT :: "'w auth_service \<Rightarrow> string \<Rightarrow> ('w, fault, unit) io" where
  "auth_RemoveAllPAT svc token =
     pass (Identify svc token) (\<lambda>key.
     trying (pats_RemoveAllPAT (a_pats svc) (k_Subject key)) (Err \<circ> Wrap svcErrRemoveEntity) ret)"

text \<open>The loop that gives each scope an id and the token.\<close>

fun assign_scopes :: "'w auth_service \<Rightarrow> string \<Rightarrow> Scope list \<Rightarrow> ('w, gerror, Scope list) io" where
  "assign_scopes svc patID [] = ret []"
| "assign_scopes svc patID (sc # scopes) =
     pass (a_idProvider svc) (\<lambda>newID.
     pass (assign_scopes svc patID scopes) (\<lambda>rest. ret (sc\<lparr>sc_ID := newID, sc_PatID := patID\<rparr> # rest)))"

definition auth_AddScope :: "'w auth_service \<Rightarrow> string \<Rightarrow> string \<Rightarrow> Scope list \<Rightarrow> ('w, fault, unit) io" where
  "auth_AddScope svc token patID scopes =
     pass (authnAuthzUserPAT svc token patID) (\<lambda>key.
     trying (assign_scopes svc patID scopes) (Err \<circ> Wrap svcErrCreateEntity) (\<lambda>scopes'.
     trying (pats_AddScope (a_pats svc) (k_Subject key) scopes') (Err \<circ> Wrap svcErrCreateEntity) ret))"

definition auth_RemoveScope :: "'w auth_service \<Rightarrow> string \<Rightarrow> string \<Rightarrow> string list \<Rightarrow> ('w, fault, unit) io" where
  "auth_RemoveScope svc token patID scopesIDs =
     pass (authnAuthzUserPAT svc token patID) (\<lambda>key.
     trying (pats_RemoveScope (a_pats svc) (k_Subject key) scopesIDs) (Err \<circ> Wrap svcErrRemoveEntity) ret)"

definition ListScopes :: "'w auth_service \<Rightarrow> string \<Rightarrow> string \<Rightarrow> nat \<Rightarrow> nat \<Rightarrow> ('w, fault, ScopesPage) io" where
  "ListScopes svc token patID offset limit =
     pass (authnAuthzUserPAT svc token patID) (\<lambda>_.
     trying (pats_RetrieveScope (a_pats svc) patID offset limit) (Err \<circ> Wrap errRetrievePAT) ret)"

definition RemovePATAllScope :: "'w auth_service \<Rightarrow> string \<Rightarrow> string \<Rightarrow> ('w, fault, unit) io" where
  "RemovePATAllScope svc token patID =
     pass (authnAuthzUserPAT svc token patID) (\<lambda>_.
     trying (pats_RemoveAllScope (a_pats svc) patID) (Err \<circ> Wrap svcErrRemoveEntity) ret)"

section \<open>Names\<close>

definition EditorRelation :: string where "EditorRelation = ''editor''"
definition ContributorRelation :: string where "ContributorRelation = ''contributor''"
definition GuestRelation :: string where "GuestRelation = ''guest''"

definition SwitchToPermission :: "string \<Rightarrow> string" where
  "SwitchToPermission relation =
     (if relation = AdministratorRelation then AdminPermission
      else if relation = EditorRelation then EditPermission
      else if relation = ContributorRelation then ViewPermission
      else if relation = MemberRelation then MembershipPermission
      else if relation = GuestRelation then ViewPermission
      else relation)"

definition auth_EncodeDomainUserID :: "string \<Rightarrow> string \<Rightarrow> string" where
  "auth_EncodeDomainUserID domainID userID =
     (if domainID = [] \<or> userID = [] then [] else domainID @ ''_'' @ userID)"

definition DecodeDomainUserID :: "string \<Rightarrow> string \<times> string" where
  "DecodeDomainUserID domainUserID =
     (if domainUserID = [] then (domainUserID, domainUserID)
      else case split_on (CHR ''_'') domainUserID of
        [d, u] \<Rightarrow> (d, u)
      | [d] \<Rightarrow> (d, [])
      | _ \<Rightarrow> ([], []))"

section \<open>Active refresh tokens\<close>

text \<open>
  What the service relies on of the cache of active tokens and of its other dependencies.
  A token is usable if it is active or its id may still be drawn by the id provider. An
  active token may expire during any call, so the laws bound the usable tokens from above.
\<close>

locale active_tokens =
  fixes svc :: "'w auth_service" and active :: "'w \<Rightarrow> string set" and pool :: "'w \<Rightarrow> string set"
    and usable :: "'w \<Rightarrow> string set"
  assumes usable_def: "usable w = active w \<union> pool w"
    and SaveActive_law: "SaveActive svc u t desc expiry w = (r, w') \<Longrightarrow> usable w' \<subseteq> insert t (usable w)"
    and IsActive_less: "IsActive svc t w = (b, w') \<Longrightarrow> usable w' \<subseteq> usable w"
    and IsActive_true: "IsActive svc t w = (Inr True, w') \<Longrightarrow> t \<in> active w"
    and RemoveActive_less: "RemoveActive svc u t w = (r, w') \<Longrightarrow> usable w' \<subseteq> usable w"
    and RemoveActive_gone: "RemoveActive svc u t w = (Inr x, w') \<Longrightarrow> t \<notin> active w' \<and> pool w' \<subseteq> pool w"
    and List_less: "ListUserTokens svc u w = (l, w') \<Longrightarrow> usable w' \<subseteq> usable w"
    and drawn: "a_idProvider svc w = (Inr j, w') \<Longrightarrow> j \<in> pool w"
    and other_less: "a_now svc w = (n, w1) \<Longrightarrow> usable w1 \<subseteq> usable w"
      "a_idProvider svc w = (i, w2) \<Longrightarrow> usable w2 \<subseteq> usable w"
      "a_evaluator svc pr w = (oe, w3) \<Longrightarrow> usable w3 \<subseteq> usable w"
      "a_TokParse svc tok w = (p, w4) \<Longrightarrow> usable w4 \<subseteq> usable w"
      "keys_Save svc key w = (s, w5) \<Longrightarrow> usable w5 \<subseteq> usable w"
begin

abbreviation inactive :: "string \<Rightarrow> 'w \<Rightarrow> bool" where
  "inactive t w \<equiv> t \<notin> usable w"

lemma keeps_less:
  assumes "\<And>w r w'. m w = (r, w') \<Longrightarrow> usable w' \<subseteq> usable w"
  shows "keeps (inactive t) m"
proof (rule keepsI)
  fix w assume "inactive t w"
  with assms [OF prod.collapse [symmetric], of w] show "inactive t (snd (m w))" by blast
qed

lemma other_keeps [io_intros]:
  "keeps (inactive t) (a_now svc)" "keeps (inactive t) (a_idProvider svc)" "keeps (inactive t) (a_evaluator svc pr)"
  "keeps (inactive t) (a_TokParse svc tok)" "keeps (inactive t) (keys_Save svc key)" "keeps (inactive t) (IsActive svc t')"
  "keeps (inactive t) (ListUserTokens svc u)" "keeps (inactive t) (RemoveActive svc u t')"
  by (rule keeps_less, erule other_less IsActive_less List_less RemoveActive_less)+

lemma SaveActive_keeps:
  assumes "t \<noteq> t'"
  shows "keeps (inactive t) (SaveActive svc u t' d e)"
proof (rule keepsI)
  fix w assume "inactive t w"
  with assms SaveActive_law [OF prod.collapse [symmetric], of u t' d e w]
  show "inactive t (snd (SaveActive svc u t' d e w))" by blast
qed

lemma save_active_keeps: "t \<noteq> k_ID key \<Longrightarrow> keeps (inactive t) (save_active svc key)"
  unfolding save_active_def by (intro io_intros SaveActive_keeps)

lemma role_keeps [io_intros]: "keeps (inactive t) (checkUserRole svc key)"
  unfolding checkUserRole_def auth_Authorize_def auth_checkPolicy_def by (simp, intro conjI impI io_intros)

lemma authenticate_keeps [io_intros]: "keeps (inactive t) (authenticate svc tok)"
  unfolding authenticate_def by (intro io_intros)

text \<open>A refresh with a token that is not active is refused and does not make it active.\<close>

lemma refreshKey_inactive:
  assumes "refreshKey svc tok key w = (r, w')" "inactive t w"
    "\<And>w k w'. a_TokParse svc tok w = ((k, None), w') \<Longrightarrow> k_ID k = t"
  shows "(\<exists>err. r = Inl err) \<and> inactive t w'"
proof -
  obtain k pe w1 where p: "a_TokParse svc tok w = ((k, pe), w1)" by (metis prod.exhaust)
  have i1: "inactive t w1" using other_less(4) [OF p] assms(2) by blast
  show ?thesis
  proof (cases "pe = None \<and> k_Type k = RefreshKey")
    case False
    with assms(1) p i1 show ?thesis
      by (cases pe) (auto simp: refreshKey_def observe_apply split: if_splits)
  next
    case True
    with assms(3) p have id: "k_ID k = t" by blast
    obtain q w2 where q: "IsActive svc t w1 = (q, w2)" by fastforce
    have i2: "inactive t w2" using IsActive_less [OF q] i1 by blast
    have "q \<noteq> Inr True" using IsActive_true q i1 unfolding usable_def by blast
    with assms(1) p True id q i2 show ?thesis
      by (cases q) (auto simp: refreshKey_def observe_apply trying_apply split: if_splits)
  qed
qed

lemma refreshKey_keeps: "keeps (inactive t) (refreshKey svc tok key)"
proof (rule keepsI)
  fix w assume i: "inactive t w"
  obtain k pe w1 where p: "a_TokParse svc tok w = ((k, pe), w1)" by (metis prod.exhaust)
  have i1: "inactive t w1" using other_less(4) [OF p] i by blast
  let ?rest = "\<lambda>ok. if \<not> ok then fail ErrRevokedToken
        else
          let key = key\<lparr>k_ID := k_ID k, k_Type := AccessKey, k_Subject := k_Subject k\<rparr> in
          trying (checkUserRole svc key) (Wrap errIssueUser) (\<lambda>_.
          observe (a_now svc) (\<lambda>now.
          let key' = key\<lparr>k_Role := k_Role k, k_ExpiresAt := now + loginDuration svc\<rparr> in
          case a_TokIssue svc key' of
            Inl err \<Rightarrow> fail (Wrap errIssueTmp err)
          | Inr access \<Rightarrow>
              (let key'' = key'\<lparr>k_ExpiresAt := k_ExpiresAt k, k_Type := RefreshKey\<rparr> in
               case a_TokIssue svc key'' of
                 Inl err \<Rightarrow> fail (Wrap errIssueTmp err)
               | Inr refresh \<Rightarrow>
                   pass (save_active svc key'') (\<lambda>_. ret \<lparr>AccessTok = access, RefreshTok = refresh\<rparr>))))"
  have step: "refreshKey svc tok key w =
      (guarded (map_option (Wrap svcErrAuthentication) pe) (if k_Type k \<noteq> RefreshKey then fail errIssueUser
        else trying (IsActive svc (k_ID k)) (Wrap svcErrViewEntity) ?rest)) w1"
    using p by (simp add: refreshKey_def observe_apply)
  show "inactive t (snd (refreshKey svc tok key w))"
  proof (cases "k_ID k = t")
    case False
    then have "keeps (inactive t) (?rest ok)" for ok
      by (cases ok) (auto simp: Let_def intro!: io_intros save_active_keeps)
    then have "keeps (inactive t) (trying (IsActive svc (k_ID k)) (Wrap svcErrViewEntity) ?rest)"
      by (rule keeps_trying [OF other_keeps(6)])
    then have "keeps (inactive t) (guarded (map_option (Wrap svcErrAuthentication) pe) (if k_Type k \<noteq> RefreshKey then fail errIssueUser
        else trying (IsActive svc (k_ID k)) (Wrap svcErrViewEntity) ?rest))"
      by (rule keeps_guarded [OF keeps_if [OF keeps_fail]])
    with i1 show ?thesis unfolding step keeps_def by blast
  next
    case True
    obtain q w2 where q: "IsActive svc t w1 = (q, w2)" by fastforce
    have i2: "inactive t w2" using IsActive_less [OF q] i1 by blast
    have "q \<noteq> Inr True" using IsActive_true q i1 unfolding usable_def by blast
    with q i1 i2 True show ?thesis unfolding step
      by (cases q; cases pe) (auto simp: trying_apply)
  qed
qed

text \<open>Nothing the service does makes an inactive token active, nor its id available again.\<close>

lemma Issue_keeps: "keeps (inactive t) (auth_Issue svc tok key)"
proof -
  have fresh: "keeps (inactive t) (trying (a_idProvider svc) g k)"
    if "\<And>i. i \<noteq> t \<Longrightarrow> keeps (inactive t) (k i)" for g and k :: "string \<Rightarrow> ('w, 'e, 'b) io"
  proof (rule keepsI)
    fix w assume i: "inactive t w"
    obtain q w1 where q: "a_idProvider svc w = (q, w1)" by fastforce
    have i1: "inactive t w1" using other_less(2) [OF q] i by blast
    show "inactive t (snd (trying (a_idProvider svc) g k w))"
    proof (cases q)
      case (Inr x)
      have "x \<noteq> t" using drawn q Inr i unfolding usable_def by blast
      with that [of x] Inr q i1 show ?thesis by (simp add: trying_apply keeps_def)
    qed (use q i1 in \<open>simp add: trying_apply\<close>)
  qed
  have "keeps (inactive t) (accessKey svc key)" for key
    unfolding accessKey_def Let_def by (intro io_intros fresh save_active_keeps) simp
  moreover have "keeps (inactive t) (userKey svc tok key)" for key
    unfolding userKey_def Let_def by (intro io_intros)
  moreover have "keeps (inactive t) (tmpKey svc d key)" "keeps (inactive t) (invitationKey svc key)" for d key
    unfolding tmpKey_def invitationKey_def Let_def by (intro io_intros)+
  ultimately show ?thesis
    unfolding auth_Issue_def Let_def by (intro io_intros refreshKey_keeps)
qed

end

inductive auth_step :: "'w auth_service \<Rightarrow> ('w \<Rightarrow> string set) \<Rightarrow> 'w \<Rightarrow> 'w \<Rightarrow> bool"
  for svc :: "'w auth_service" and usable :: "'w \<Rightarrow> string set" where
  as_issue: "auth_Issue svc tok key w = (ri, w') \<Longrightarrow> auth_step svc usable w w'"
| as_revoke: "RevokeToken svc u t w = (rr, w') \<Longrightarrow> auth_step svc usable w w'"
| as_list: "ListUserRefreshTokens svc u w = (rl, w') \<Longrightarrow> auth_step svc usable w w'"
| as_expire: "usable w' \<subseteq> usable w \<Longrightarrow> auth_step svc usable w w'"

context active_tokens
begin

lemma auth_step_keeps:
  assumes "auth_step svc usable w w'" "inactive t w"
  shows "inactive t w'"
  using assms
proof cases
  case (as_issue tok key r)
  from keepsD [OF Issue_keeps assms(2) as_issue] show ?thesis .
next
  case (as_revoke u t' r)
  have "keeps (inactive t) (RevokeToken svc u t')" unfolding RevokeToken_def by (intro io_intros)
  from keepsD [OF this assms(2) as_revoke] show ?thesis .
next
  case (as_list u r)
  have "keeps (inactive t) (ListUserRefreshTokens svc u)" unfolding ListUserRefreshTokens_def by (intro io_intros)
  from keepsD [OF this assms(2) as_list] show ?thesis .
qed blast

lemma auth_steps_keep: "(auth_step svc usable)\<^sup>*\<^sup>* w w' \<Longrightarrow> inactive t w \<Longrightarrow> inactive t w'"
proof (induction rule: rtranclp_induct)
  case (step y z)
  from auth_step_keeps [OF step.hyps(2) step.IH [OF step.prems]] show ?case .
qed

lemma revoked_refused:
  assumes "RevokeToken svc u t w = (Inr x, w1)" "t \<notin> pool w" "(auth_step svc usable)\<^sup>*\<^sup>* w1 w2"
    "\<And>w k w'. a_TokParse svc tok w = ((k, None), w') \<Longrightarrow> k_ID k = t"
    "k_Type key = RefreshKey" "auth_Issue svc tok key w2 = (r, w3)"
  shows "\<exists>err. r = Inl err"
proof -
  from assms(1) obtain r0 where "RemoveActive svc u t w = (Inr r0, w1)"
    by (auto simp: RevokeToken_def dest: trying_InrD)
  from RemoveActive_gone [OF this] assms(2) have "inactive t w1" unfolding usable_def by blast
  from auth_steps_keep [OF assms(3) this] have i2: "inactive t w2" .
  obtain n w2' where n: "a_now svc w2 = (n, w2')" by fastforce
  have "inactive t w2'" using other_less(1) [OF n] i2 by blast
  have "refreshKey svc tok (key\<lparr>k_IssuedAt := n\<rparr>) w2' = (r, w3)"
    using assms(5,6) n by (simp add: auth_Issue_def observe_apply Let_def key_types)
  then have "(\<exists>err. r = Inl err) \<and> inactive t w3"
    by (rule refreshKey_inactive [OF _ \<open>inactive t w2'\<close>]) (rule assms(4))
  then show ?thesis by blast
qed

end

section \<open>The deployed service\<close>

text \<open>
  The service on its PostgreSQL repositories, Redis caches, the symmetric tokenizer, the
  hasher and the SpiceDB evaluator. The JWT library, the UUID library and \<open>scrypt\<close> stay
  parameters; ids and random bytes are arbitrary sequences.
\<close>

record auth_world =
  aw_keys :: key_db
  aw_pats :: "redis_server pat_world"
  aw_tokens :: redis_server
  aw_store :: ref_store
  aw_ids :: "nat \<Rightarrow> string"
  aw_nid :: nat
  aw_rand :: "nat \<Rightarrow> char"
  aw_nrand :: nat

abbreviation on_keys :: "(key_db, 'e, 'a) io \<Rightarrow> (auth_world, 'e, 'a) io" where
  "on_keys m \<equiv> lifted aw_keys (\<lambda>d w. w\<lparr>aw_keys := d\<rparr>) m"

abbreviation on_pats :: "(redis_server pat_world, 'e, 'a) io \<Rightarrow> (auth_world, 'e, 'a) io" where
  "on_pats m \<equiv> lifted aw_pats (\<lambda>d w. w\<lparr>aw_pats := d\<rparr>) m"

abbreviation on_tokens :: "(redis_server, 'e, 'a) io \<Rightarrow> (auth_world, 'e, 'a) io" where
  "on_tokens m \<equiv> lifted aw_tokens (\<lambda>d w. w\<lparr>aw_tokens := d\<rparr>) m"

definition aw_Now :: "auth_world \<Rightarrow> int \<times> auth_world" where
  "aw_Now w = (case pw_Now (aw_pats w) of (t, p) \<Rightarrow> (t, w\<lparr>aw_pats := p\<rparr>))"

definition aw_draw :: "nat \<Rightarrow> (auth_world, gerror, string) io" where
  "aw_draw n w = (Inr (map (aw_rand w) [aw_nrand w..<aw_nrand w + n]), w\<lparr>aw_nrand := aw_nrand w + n\<rparr>)"

definition postgres_pats :: "auth_world PATSRepository" where
  "postgres_pats = \<lparr>pats_Save = (\<lambda>p. on_pats (pr_Save p)), pats_Retrieve = (\<lambda>u p. on_pats (pr_Retrieve u p)),
     pats_RetrieveScope = (\<lambda>p off lim. on_pats (pr_RetrieveScope p off lim)),
     pats_Secret = (\<lambda>u p. on_pats (pr_RetrieveSecretAndRevokeStatus u p)),
     pats_UpdateName = (\<lambda>u p n. on_pats (pr_UpdateName u p n)),
     pats_UpdateDescription = (\<lambda>u p d. on_pats (pr_UpdateDescription u p d)),
     pats_UpdateTokenHash = (\<lambda>u p h e. on_pats (pr_UpdateTokenHash u p h e)),
     pats_Revoke = (\<lambda>u p. on_pats (pr_Revoke u p)), pats_Reactivate = (\<lambda>u p. on_pats (pr_Reactivate u p)),
     pats_Remove = (\<lambda>u p. on_pats (pr_Remove u p)), pats_RemoveAllPAT = (\<lambda>u. on_pats (pr_RemoveAllPAT ref_patCache u)),
     pats_AddScope = (\<lambda>u s. on_pats (pr_AddScope ref_patCache u s)),
     pats_RemoveScope = (\<lambda>u s. on_pats (pr_RemoveScope ref_patCache u s)),
     pats_CheckScope = (\<lambda>u p t d op e. on_pats (pr_CheckScope ref_patCache u p t d op e)),
     pats_RemoveAllScope = (\<lambda>p. on_pats (pr_RemoveAllScope ref_patCache p))\<rparr>"

record libraries =
  lib_jwt :: jwt_lib
  lib_uuidParse :: "string \<Rightarrow> gerror + string"
  lib_uuidString :: "string \<Rightarrow> string"
  lib_scrypt :: scrypt

definition deployed_auth :: "libraries \<Rightarrow> auth_world auth_service" where
  "deployed_auth L = \<lparr>keys_Save = (\<lambda>k. on_keys (kr_Save k)), keys_Retrieve = (\<lambda>i k. on_keys (kr_Retrieve i k)),
     keys_Remove = (\<lambda>i k. on_keys (kr_Remove i k)), a_pats = postgres_pats,
     SaveActive = (\<lambda>u t d e. observe aw_Now (\<lambda>now. on_tokens (tc_SaveActive ref_redis now u t d e))),
     IsActive = (\<lambda>t. on_tokens (tc_IsActive ref_redis t)),
     ListUserTokens = (\<lambda>u. observe aw_Now (\<lambda>now. on_tokens (tc_ListUserTokens ref_redis now u))),
     RemoveActive = (\<lambda>u t. on_tokens (tc_RemoveActive ref_redis u t)),
     a_Hash = (\<lambda>s. observe (aw_draw 25) (\<lambda>salt w. (hasher_Hash (lib_scrypt L) salt s, w))),
     a_Compare = hasher_Compare (lib_scrypt L),
     a_idProvider = (\<lambda>w. (Inr (aw_ids w (aw_nid w)), w\<lparr>aw_nid := Suc (aw_nid w)\<rparr>)),
     a_evaluator = (\<lambda>pr w. case CheckPolicy ref_client pr (aw_store w) of (r, s) \<Rightarrow> (r, w\<lparr>aw_store := s\<rparr>)),
     a_TokIssue = tok_Issue (lib_jwt L),
     a_TokParse = (\<lambda>tok w. case aw_Now w of (t, w') \<Rightarrow>
        (case tok_Parse (lib_jwt L) t tok of Inl e \<Rightarrow> (Key0, Some e) | Inr k \<Rightarrow> (k, None), w')),
     a_now = aw_Now, a_uuidParse = lib_uuidParse L, a_uuidString = lib_uuidString L, a_randRead = aw_draw,
     loginDuration = 3600000000000, refreshDuration = 86400000000000, invitationDuration = 604800000000000\<rparr>"

definition aw_active :: "auth_world \<Rightarrow> string set" where
  "aw_active w = {t. live (rsv_state (aw_tokens w)) (tokenKey t) \<noteq> None}"

definition aw_pool :: "auth_world \<Rightarrow> string set" where
  "aw_pool w = aw_ids w ` {aw_nid w..}"

definition aw_usable :: "auth_world \<Rightarrow> string set" where
  "aw_usable w = aw_active w \<union> aw_pool w"

lemma tokenKey_inj [simp]: "tokenKey a = tokenKey b \<longleftrightarrow> a = b"
  by (simp add: tokenKey_def)

lemma aw_Now_frames:
  "aw_Now w = (t, w') \<Longrightarrow> aw_tokens w' = aw_tokens w \<and> aw_keys w' = aw_keys w \<and> aw_store w' = aw_store w \<and> aw_pool w' = aw_pool w"
  by (auto simp: aw_Now_def aw_pool_def split: prod.splits)

lemma get_descriptions_same: "get_descriptions ref_redis ids c = (r, c') \<Longrightarrow> rsv_state c' = rsv_state c"
proof (induction ids arbitrary: c c' r)
  case (Cons i ids)
  obtain q c1 where q: "r_Get ref_redis (tokenKey i) c = (q, c1)" by fastforce
  note same = ref_rd.Get_same [OF q]
  obtain r1 c2 where g: "get_descriptions ref_redis ids c1 = (r1, c2)" by fastforce
  from Cons.prems q g same Cons.IH [OF g] show ?case
    by (auto simp: pass_apply split: sum.splits redis_error.splits)
qed simp

lemma ref_tx:
  assumes "r_Tx ref_redis cs c = (q, c')"
  shows "rsv_state c' = rsv_state c \<or> rsv_state c' = fold run_cmd cs (rsv_state c)"
proof (cases q)
  case (Inl e)
  from ref_rd.Tx_err [OF assms [unfolded Inl]] show ?thesis by simp
next
  case (Inr u)
  from ref_rd.Tx_ok [OF assms [unfolded Inr]] show ?thesis by simp
qed

lemma deployed_SaveActive:
  assumes "SaveActive (deployed_auth L) u t d e w = (r, w')"
  shows "aw_active w' \<subseteq> insert t (aw_active w) \<and> aw_pool w' = aw_pool w"
proof -
  from assms obtain n w1 c where n: "aw_Now w = (n, w1)" "tc_SaveActive ref_redis n u t d e (aw_tokens w1) = (r, c)"
      "w' = w1\<lparr>aw_tokens := c\<rparr>"
    by (auto simp: deployed_auth_def observe_apply lifted_def split: prod.splits)
  from ref_tx [OF n(2) [unfolded tc_SaveActive_def]] n(3) aw_Now_frames [OF n(1)] show ?thesis
    unfolding aw_active_def by (auto simp: aw_pool_def simp del: run_cmd.simps split: if_splits)
qed

lemma deployed_RemoveActive:
  assumes "RemoveActive (deployed_auth L) u t w = (r, w')"
  shows "aw_active w' \<subseteq> aw_active w \<and> aw_pool w' = aw_pool w \<and> (\<forall>x. r = Inr x \<longrightarrow> t \<notin> aw_active w')"
proof -
  from assms obtain c where c: "tc_RemoveActive ref_redis u t (aw_tokens w) = (r, c)" "w' = w\<lparr>aw_tokens := c\<rparr>"
    by (auto simp: deployed_auth_def lifted_def split: prod.splits)
  from ref_tx [OF c(1) [unfolded tc_RemoveActive_def]] c(2) have "aw_active w' \<subseteq> aw_active w"
    unfolding aw_active_def by (auto simp del: run_cmd.simps split: if_splits)
  moreover have "t \<notin> aw_active w'" if "r = Inr x" for x
    using ref_rd.Tx_ok [OF c(1) [unfolded that tc_RemoveActive_def]] c(2) unfolding aw_active_def
    by (simp del: run_cmd.simps)
  ultimately show ?thesis using c(2) by (simp add: aw_pool_def)
qed

lemma deployed_ListUserTokens:
  assumes "ListUserTokens (deployed_auth L) u w = (l, w')"
  shows "aw_active w' = aw_active w \<and> aw_pool w' = aw_pool w"
proof -
  from assms obtain n w1 c where n: "aw_Now w = (n, w1)" "tc_ListUserTokens ref_redis n u (aw_tokens w1) = (l, c)"
      "w' = w1\<lparr>aw_tokens := c\<rparr>"
    by (auto simp: deployed_auth_def observe_apply lifted_def split: prod.splits)
  obtain q c1 where q: "r_Tx ref_redis [CmdZRemRangeByScore (userTokensKey u) (unix n)] (aw_tokens w1) = (q, c1)" by fastforce
  obtain z c2 where z: "r_ZRangeByScore ref_redis (userTokensKey u) (unix n) c1 = (z, c2)" by fastforce
  from ref_tx [OF q] have "live (rsv_state c1) = live (rsv_state (aw_tokens w1))" by (auto simp del: run_cmd.simps)
  moreover have "rsv_state c \<in> {rsv_state c1, rsv_state c2}"
    using n(2) q z get_descriptions_same by (auto simp: tc_ListUserTokens_def pass_apply split: sum.splits if_splits)
  ultimately show ?thesis
    using aw_Now_frames [OF n(1)] ref_rd.ZRange_same [OF z] n(3) unfolding aw_active_def by (auto simp: aw_pool_def)
qed

lemma deployed_IsActive:
  assumes "IsActive (deployed_auth L) t w = (b, w')"
  shows "aw_active w' = aw_active w \<and> aw_pool w' = aw_pool w \<and> (b = Inr True \<longrightarrow> t \<in> aw_active w)"
proof -
  obtain q c where q: "r_Exists ref_redis [tokenKey t] (aw_tokens w) = (q, c)" by fastforce
  have "w' = w\<lparr>aw_tokens := c\<rparr> \<and> (b = Inr True \<longrightarrow> (\<exists>n. q = Inr n \<and> 0 < n))"
    using assms q by (cases q) (auto simp: deployed_auth_def lifted_def tc_IsActive_def pass_apply)
  then show ?thesis using ref_rd.Exists_same [OF q] ref_rd.Exists_ok [of "[tokenKey t]" "aw_tokens w"] q
    by (auto simp: aw_active_def aw_pool_def)
qed

interpretation dep: active_tokens "deployed_auth L" aw_active aw_pool aw_usable
proof
  fix u t d e w r w' x b l j n i pr oe tok p key s
  show "aw_usable w = aw_active w \<union> aw_pool w" by (rule aw_usable_def)
  show "SaveActive (deployed_auth L) u t d e w = (r, w') \<Longrightarrow> aw_usable w' \<subseteq> insert t (aw_usable w)"
    by (drule deployed_SaveActive) (auto simp: aw_usable_def)
  show "IsActive (deployed_auth L) t w = (b, w') \<Longrightarrow> aw_usable w' \<subseteq> aw_usable w"
    by (drule deployed_IsActive) (auto simp: aw_usable_def)
  show "IsActive (deployed_auth L) t w = (Inr True, w') \<Longrightarrow> t \<in> aw_active w"
    by (drule deployed_IsActive) simp
  show "RemoveActive (deployed_auth L) u t w = (r, w') \<Longrightarrow> aw_usable w' \<subseteq> aw_usable w"
    by (drule deployed_RemoveActive) (auto simp: aw_usable_def)
  show "RemoveActive (deployed_auth L) u t w = (Inr x, w') \<Longrightarrow> t \<notin> aw_active w' \<and> aw_pool w' \<subseteq> aw_pool w"
    by (drule deployed_RemoveActive) simp
  show "ListUserTokens (deployed_auth L) u w = (l, w') \<Longrightarrow> aw_usable w' \<subseteq> aw_usable w"
    by (drule deployed_ListUserTokens) (auto simp: aw_usable_def)
  show "a_idProvider (deployed_auth L) w = (Inr j, w') \<Longrightarrow> j \<in> aw_pool w"
    by (auto simp: deployed_auth_def aw_pool_def)
  show "a_idProvider (deployed_auth L) w = (i, w') \<Longrightarrow> aw_usable w' \<subseteq> aw_usable w"
    by (auto simp: deployed_auth_def aw_usable_def aw_pool_def aw_active_def)
  show "a_now (deployed_auth L) w = (n, w') \<Longrightarrow> aw_usable w' \<subseteq> aw_usable w"
    by (auto simp: deployed_auth_def aw_active_def aw_usable_def dest!: aw_Now_frames)
  show "a_evaluator (deployed_auth L) pr w = (oe, w') \<Longrightarrow> aw_usable w' \<subseteq> aw_usable w"
    by (auto simp: deployed_auth_def aw_active_def aw_pool_def aw_usable_def split: prod.splits)
  show "a_TokParse (deployed_auth L) tok w = (p, w') \<Longrightarrow> aw_usable w' \<subseteq> aw_usable w"
    by (auto simp: deployed_auth_def aw_active_def aw_usable_def dest!: aw_Now_frames split: prod.splits)
  show "keys_Save (deployed_auth L) key w = (s, w') \<Longrightarrow> aw_usable w' \<subseteq> aw_usable w"
    by (auto simp: deployed_auth_def lifted_def aw_active_def aw_pool_def aw_usable_def split: prod.splits)
qed

lemma Identify_pat:
  assumes "take 3 tok = ''pat''"
  shows "Identify (deployed_auth L) tok w = pass (IdentifyPAT (deployed_auth L) tok) (\<lambda>res.
    ret (Key0\<lparr>k_ID := pat_ID res, k_Type := PersonalAccessToken, k_Subject := pat_User res, k_Role := pat_Role res\<rparr>)) (snd (aw_Now w))"
proof -
  have "3 \<le> length tok" using arg_cong [OF assms, of length] by simp
  with assms have "a_TokParse (deployed_auth L) tok w = ((Key0\<lparr>k_Type := PersonalAccessToken\<rparr>, None), snd (aw_Now w))"
    by (simp add: deployed_auth_def tok_Parse_def split: prod.splits)
  then show ?thesis by (simp add: Identify_def observe_apply ContainsOpt_def)
qed

text \<open>Without faults, retrieving a token never fails, whoever owns it.\<close>

lemma pr_Retrieve_calm:
  assumes "faults (pw_db w) = []"
  shows "\<exists>pat ticks. pr_Retrieve u p w = (Inr pat, w\<lparr>pw_ticks := ticks\<rparr>)"
proof -
  let ?w = "w\<lparr>pw_ticks := Suc (pw_ticks w)\<rparr>"
  have "\<exists>pat. retrievePATFromDB u p w = (Inr pat, ?w)"
    using assms by (auto simp: retrievePATFromDB_def observe_apply pw_Now_def trying_apply lifted_def db_query_calm driver_calm
      split: list.splits)
  then show ?thesis by (auto simp: pr_Retrieve_def trying_apply)
qed

lemma delete_keys_calm: "rsv_faults s = [] \<Longrightarrow> \<exists>s'. delete_keys ref_patCache ks s = (Inr (), s')"
proof (induction ks arbitrary: s)
  case (Cons k ks)
  then show ?case by (simp add: ref_patCache_def ref_redis_def rsv_run_def rsv_calm trying_apply)
qed simp

lemma pr_RemoveAllScope_calm:
  assumes "faults (pw_db w) = []" "rsv_faults (pw_cache w) = []"
  shows "\<exists>w'. pr_RemoveAllScope ref_patCache p w = (Inr (), w') \<and> t_scopes (committed (pw_db w')) = filter (\<lambda>s. ds_PatID s \<noteq> p) (t_scopes (committed (pw_db w)))"
proof -
  obtain ks c1 where sc: "r_Scan ref_redis (''pat:'' @ [] @ '':'' @ p) (pw_cache w) = ((ks, None), c1)" "rsv_faults c1 = []"
    using assms(2) by (auto simp: ref_redis_def)
  obtain c2 where "delete_keys ref_patCache ks c1 = (Inr (), c2)" using delete_keys_calm [OF sc(2)] by blast
  with sc(1) have "cache_RemoveAllScope ref_patCache [] p (pw_cache w) = (Inr (), c2)"
    by (simp add: cache_RemoveAllScope_def scan_then_def observe_apply pass_apply ref_patCache_def guarded_def)
  with assms(1) show ?thesis
    by (simp add: pr_RemoveAllScope_def trying_apply lifted_def db_exec_calm delete_scopes_def)
qed

text \<open>The shape of a generated secret, and its hash.\<close>

lemma randStr_no_separator: "CHR ''_'' \<notin> set randStr"
  by code_simp

lemma random_no_separator: "CHR ''_'' \<notin> set (map (\<lambda>b. randStr ! (of_char b mod length randStr)) bs)"
proof -
  have "0 < length randStr" by (simp add: randStr_def)
  then have "randStr ! (n mod length randStr) \<in> set randStr" for n by simp
  with randStr_no_separator show ?thesis by (auto simp: image_iff)
qed

lemma generated_secret:
  assumes "generateSecretAndHash (deployed_auth L) u p w = (Inr (secret, hash), w')"
  shows "\<exists>uID pID rnd salt. lib_uuidParse L u = Inr uID \<and> lib_uuidParse L p = Inr pID \<and>
    secret = ''pat'' @ ''_'' @ pat_encode uID pID @ ''_'' @ rnd \<and> CHR ''_'' \<notin> set rnd \<and>
    hasher_Hash (lib_scrypt L) (Inr salt) secret = Inr hash \<and> w' = w\<lparr>aw_nrand := aw_nrand w'\<rparr>"
proof -
  obtain uID where u: "lib_uuidParse L u = Inr uID"
    using assms by (cases "lib_uuidParse L u") (auto simp: generateSecretAndHash_def deployed_auth_def)
  obtain pID where p: "lib_uuidParse L p = Inr pID"
    using assms u by (cases "lib_uuidParse L p") (auto simp: generateSecretAndHash_def deployed_auth_def)
  let ?rnd = "map (\<lambda>b. randStr ! (of_char b mod length randStr)) (map (aw_rand w) [aw_nrand w..<aw_nrand w + 100])"
  let ?w1 = "w\<lparr>aw_nrand := aw_nrand w + 100\<rparr>"
  have g: "generateRandomString (deployed_auth L) 100 w = (Inr ?rnd, ?w1)"
    by (simp add: generateRandomString_def deployed_auth_def trying_apply aw_draw_def)
  let ?s = "''pat'' @ ''_'' @ pat_encode uID pID @ ''_'' @ ?rnd"
  let ?salt = "map (aw_rand ?w1) [aw_nrand ?w1..<aw_nrand ?w1 + 25]"
  have h: "a_Hash (deployed_auth L) s ?w1 = (hasher_Hash (lib_scrypt L) (Inr ?salt) s, ?w1\<lparr>aw_nrand := aw_nrand ?w1 + 25\<rparr>)" for s
    by (simp add: deployed_auth_def observe_apply aw_draw_def)
  have lib: "a_uuidParse (deployed_auth L) = lib_uuidParse L" by (simp add: deployed_auth_def)
  have "secret = ?s \<and> hasher_Hash (lib_scrypt L) (Inr ?salt) ?s = Inr hash \<and> w' = w\<lparr>aw_nrand := aw_nrand w'\<rparr>"
    using assms unfolding generateSecretAndHash_def lib u p
    by (simp only: sum.case pass_apply g prod.case Let_def h) (auto split: sum.splits)
  with u p random_no_separator show ?thesis by metis
qed

text \<open>What creating a token stores.\<close>

lemma CreatePAT_stores:
  assumes "CreatePAT (deployed_auth L) tok name desc dur w = (Inr pat, w1)"
  shows "\<exists>uID pID rnd salt hash row. lib_uuidParse L (pat_User pat) = Inr uID \<and> lib_uuidParse L (pat_ID pat) = Inr pID \<and>
    pat_Secret pat = ''pat'' @ ''_'' @ pat_encode uID pID @ ''_'' @ rnd \<and> CHR ''_'' \<notin> set rnd \<and>
    hasher_Hash (lib_scrypt L) (Inr salt) (pat_Secret pat) = Inr hash \<and>
    filter (owned (pat_User pat) (pat_ID pat)) (t_pats (committed (pw_db (aw_pats w1)))) = [row] \<and>
    dp_Secret row = hash \<and> \<not> dp_Revoked row \<and> dp_ExpiresAt row = pat_ExpiresAt pat"
proof -
  let ?svc = "deployed_auth L"
  let ?pat = "\<lambda>newID key hash now. PAT0\<lparr>pat_ID := newID, pat_User := k_Subject key, pat_Name := name, pat_Description := desc,
    pat_Secret := hash, pat_IssuedAt := now, pat_ExpiresAt := now + dur, pat_Status := ActiveStatus, pat_Revoked := False\<rparr>"
  obtain key v1 newID v2 secret hash v3 where
    i: "Identify ?svc tok w = (Inr key, v1)" "a_idProvider ?svc v1 = (Inr newID, v2)" and
    g: "generateSecretAndHash ?svc (k_Subject key) newID v2 = (Inr (secret, hash), v3)"
    using assms unfolding CreatePAT_def by (auto simp: pass_apply trying_apply split: prod.splits sum.splits)
  obtain now v4 where n: "a_now ?svc v3 = (now, v4)" by fastforce
  have "pats_Save (a_pats ?svc) (?pat newID key hash now) v4 = (Inr (), w1) \<and> pat = (?pat newID key hash now)\<lparr>pat_Secret := secret\<rparr>"
    using assms i g n unfolding CreatePAT_def
    by (auto simp: pass_apply trying_apply observe_apply guarded_def Let_def split: prod.splits sum.splits option.splits)
  then have sv: "pats_Save (a_pats ?svc) (?pat newID key hash now) v4 = (Inr (), w1)"
    and pat: "pat = (?pat newID key hash now)\<lparr>pat_Secret := secret\<rparr>" by blast+
  let ?pat = "?pat newID key hash now"
  from sv obtain p where p: "pr_Save ?pat (aw_pats v4) = (Inr (), p)" "aw_pats w1 = p"
    by (auto simp: deployed_auth_def postgres_pats_def lifted_def split: prod.splits)
  then obtain d where d: "db_exec (insert_pat (toDBPats ?pat)) (pw_db (aw_pats v4)) = (Inr (), d)" "p = (aw_pats v4)\<lparr>pw_db := d\<rparr>"
    by (auto simp: pr_Save_def trying_apply lifted_def split: prod.splits sum.splits)
  let ?row = "toDBPats ?pat"
  from db_exec_ok [OF d(1)] have "committed d = (committed (pw_db (aw_pats v4)))\<lparr>t_pats := t_pats (committed (pw_db (aw_pats v4))) @ [?row]\<rparr>
      \<and> \<not> list_ex (\<lambda>x. dp_ID x = newID) (t_pats (committed (pw_db (aw_pats v4))))"
    by (auto simp: insert_pat_def toDBPats_def split: if_splits)
  then have "filter (owned (k_Subject key) newID) (t_pats (committed d)) = [?row]"
    by (auto simp: filter_empty_conv list_ex_iff toDBPats_def)
  moreover note generated_secret [OF g]
  ultimately show ?thesis using p(2) d(2) unfolding pat by (auto simp: toDBPats_def)
qed

section \<open>A concrete deployment\<close>

text \<open>Libraries and a world to evaluate the service on: a token is the id of its key.\<close>

definition sample_key :: "string \<Rightarrow> Key" where
  "sample_key s = Key0\<lparr>k_ID := s, k_Type := (if s = ''login'' then AccessKey else RefreshKey), k_Subject := ''user-0123456789a'',
     k_Role := UserRole, k_ExpiresAt := 90000000000000\<rparr>"

definition sample_libs :: libraries where
  "sample_libs = \<lparr>lib_jwt = \<lparr>jwt_Sign = (\<lambda>t. Inr (j_JwtID t)), jwt_Parse = (\<lambda>now s. Inr (BuildToken (sample_key s)))\<rparr>,
     lib_uuidParse = (\<lambda>s. if length s = 16 then Inr s else Inl (New ''invalid UUID length'')), lib_uuidString = (\<lambda>b. b),
     lib_scrypt = (\<lambda>tok salt. Inr (take 4 salt @ drop 50 tok))\<rparr>"

definition sample_world :: auth_world where
  "sample_world = \<lparr>aw_keys = \<lparr>committed = [], open_txs = [], next_tx = 0, faults = []\<rparr>,
     aw_pats = sample_pats\<lparr>pw_clock := (\<lambda>_. 5)\<rparr>, aw_tokens = \<lparr>rsv_state = \<lparr>rstrings = [(tokenKey ''r1'', ''laptop'')], rzsets = []\<rparr>, rsv_faults = []\<rparr>,
     aw_store = sample_store, aw_ids = (\<lambda>n. ''0123456789abcde'' @ [char_of n]), aw_nid = 0, aw_rand = char_of, aw_nrand = 0\<rparr>"

section \<open>Properties\<close>

text \<open>C10: A revoked refresh token stays refused: after a successful \<open>RevokeToken\<close> of a token whose id the id
  provider will not draw again, whatever keys are issued, tokens revoked or listed afterwards
  and whichever entries expire or calls to Redis fail, refreshing with that token returns an error.\<close>

theorem revoked_refresh_token_is_refused:
  assumes "RevokeToken (deployed_auth L) u t w = (Inr (), w1)" "t \<notin> aw_pool w"
    "(auth_step (deployed_auth L) aw_usable)\<^sup>*\<^sup>* w1 w2"
    "\<And>now k. tok_Parse (lib_jwt L) now tok = Inr k \<Longrightarrow> k_ID k = t" "k_Type key = RefreshKey"
  shows "\<exists>err. fst (auth_Issue (deployed_auth L) tok key w2) = Inl err"
proof -
  have parsed: "k_ID k = t" if "a_TokParse (deployed_auth L) tok v = ((k, None), v')" for v k v'
    using that assms(4) by (auto simp: deployed_auth_def split: prod.splits sum.splits)
  have "\<exists>err. r = Inl err" if "auth_Issue (deployed_auth L) tok key w2 = (r, w3)" for r w3
    by (rule dep.revoked_refused [OF assms(1-3) _ assms(5) that]) (rule parsed)
  from this [OF prod.collapse [symmetric]] show ?thesis .
qed

abbreviation sample_revoked :: "(gerror + unit) \<times> auth_world" where
  "sample_revoked \<equiv> RevokeToken (deployed_auth sample_libs) ''user-0123456789a'' ''r1'' sample_world"

abbreviation sample_login :: "(gerror + Token) \<times> auth_world" where
  "sample_login \<equiv> auth_Issue (deployed_auth sample_libs) [] (sample_key ''login'') (snd sample_revoked)"

theorem revoked_refresh_token_is_refused_witness:
  "\<not> isl (fst (auth_Issue (deployed_auth sample_libs) ''r1'' (Key0\<lparr>k_Type := RefreshKey\<rparr>) sample_world)) \<and>
   (\<exists>err. fst (auth_Issue (deployed_auth sample_libs) ''r1'' (Key0\<lparr>k_Type := RefreshKey\<rparr>) (snd sample_login)) = Inl err)"
proof -
  have "fst sample_revoked = Inr ()" by code_simp
  then have r: "sample_revoked = (Inr (), snd sample_revoked)" by (metis prod.collapse)
  have "auth_step (deployed_auth sample_libs) aw_usable (snd sample_revoked) (snd sample_login)"
    by (rule as_issue [OF prod.collapse [symmetric]])
  then have steps: "(auth_step (deployed_auth sample_libs) aw_usable)\<^sup>*\<^sup>* (snd sample_revoked) (snd sample_login)" by blast
  have p: "''r1'' \<notin> aw_pool sample_world" by (auto simp: aw_pool_def sample_world_def)
  have k: "k_ID k = ''r1''" if "tok_Parse (lib_jwt sample_libs) now ''r1'' = Inr k" for now k
    using that by (auto simp: tok_Parse_def sample_libs_def ToKey_BuildToken sample_key_def split: if_splits)
  have t: "k_Type (Key0\<lparr>k_Type := RefreshKey\<rparr>) = RefreshKey" by simp
  have "\<not> isl (fst (auth_Issue (deployed_auth sample_libs) ''r1'' (Key0\<lparr>k_Type := RefreshKey\<rparr>) sample_world))" by code_simp
  moreover have "\<exists>err. fst (auth_Issue (deployed_auth sample_libs) ''r1'' (Key0\<lparr>k_Type := RefreshKey\<rparr>) (snd sample_login)) = Inl err"
    by (rule revoked_refresh_token_is_refused [OF r p steps _ t]) (rule k)
  ultimately show ?thesis by blast
qed

text \<open>\<open>Identify\<close> panics on exactly one bearer token, the text \<open>pat\<close>: it is taken for a personal
  access token, passes the guard of \<open>IdentifyPAT\<close>, and the second part is not there.
  Every other token gets a key or an error.\<close>

lemma identify_panics_only_on_bare_pat:
  "(\<exists>msg. fst (Identify (deployed_auth L) tok w) = Inl (Panic msg)) \<longleftrightarrow> tok = ''pat''"
proof
  assume "tok = ''pat''"
  then show "\<exists>msg. fst (Identify (deployed_auth L) tok w) = Inl (Panic msg)"
    by (simp add: Identify_pat IdentifyPAT_def pass_apply)
next
  assume "\<exists>msg. fst (Identify (deployed_auth L) tok w) = Inl (Panic msg)"
  then obtain msg w1 w2 where "IdentifyPAT (deployed_auth L) tok w1 = (Inl (Panic msg), w2)"
    by (auto simp: Identify_def observe_apply pass_apply trying_apply guarded_def split: prod.splits sum.splits option.splits if_splits)
  then have "length (split_on (CHR ''_'') tok) < 2 \<and> split_on (CHR ''_'') tok ! 0 = ''pat''"
    by (auto simp: IdentifyPAT_def Let_def observe_apply pass_apply trying_apply guarded_def split: prod.splits sum.splits option.splits if_splits)
  then show "tok = ''pat''"
    using join_split [of "CHR ''_''" tok] by (cases "split_on (CHR ''_'') tok") auto
qed

text \<open>The scopes of a personal access token can be cleared by anyone who is logged in: the check that the
  token belongs to the caller retrieves it, and the repository answers with a zero record when
  the caller has no such token.\<close>

lemma anyone_clears_scopes:
  assumes "Identify (deployed_auth L) tok w = (Inr key, w1)" "faults (pw_db (aw_pats w1)) = []"
    "rsv_faults (pw_cache (aw_pats w1)) = []"
  shows "\<exists>w2. RemovePATAllScope (deployed_auth L) tok patID w = (Inr (), w2) \<and> patID \<notin> ds_PatID ` set (rows (aw_pats w2))"
proof -
  obtain pat ticks where r: "pr_Retrieve (k_Subject key) patID (aw_pats w1) = (Inr pat, (aw_pats w1)\<lparr>pw_ticks := ticks\<rparr>)"
    using pr_Retrieve_calm [OF assms(2)] by blast
  obtain p2 where p2: "pr_RemoveAllScope ref_patCache patID ((aw_pats w1)\<lparr>pw_ticks := ticks\<rparr>) = (Inr (), p2)"
    "rows p2 = filter (\<lambda>s. ds_PatID s \<noteq> patID) (rows (aw_pats w1))"
    using pr_RemoveAllScope_calm [of "(aw_pats w1)\<lparr>pw_ticks := ticks\<rparr>" patID] assms(2,3) by auto
  have pats: "a_pats (deployed_auth L) = postgres_pats" by (simp add: deployed_auth_def)
  have "RemovePATAllScope (deployed_auth L) tok patID w = (Inr (), w1\<lparr>aw_pats := p2\<rparr>)"
    using assms(1) r p2(1) by (simp add: RemovePATAllScope_def authnAuthzUserPAT_def pass_apply trying_apply pats postgres_pats_def lifted_def)
  then show ?thesis using p2(2) by (intro exI [of _ "w1\<lparr>aw_pats := p2\<rparr>"]) auto
qed

text \<open>A personal access token works once it has been created: with a UUID library that recovers the user's
  and the token's id, as long as the tokens are stored as they were and the token has not expired, its
  secret identifies the user that created it and the token's id.\<close>

lemma created_pat_identifies:
  assumes "CreatePAT (deployed_auth L) tok name desc dur w = (Inr pat, w1)"
    "\<And>s b. s \<in> {pat_User pat, pat_ID pat} \<Longrightarrow> lib_uuidParse L s = Inr b \<Longrightarrow> length b = 16 \<and> lib_uuidString L b = s"
    "committed (pw_db (aw_pats w2)) = committed (pw_db (aw_pats w1))" "faults (pw_db (aw_pats w2)) = []"
    "\<And>n. pw_clock (aw_pats w2) n \<le> pat_ExpiresAt pat"
  shows "\<exists>key. fst (Identify (deployed_auth L) (pat_Secret pat) w2) = Inr key \<and> k_Subject key = pat_User pat \<and>
    k_ID key = pat_ID pat \<and> k_Type key = PersonalAccessToken"
proof -
  let ?svc = "deployed_auth L" and ?w = "snd (aw_Now w2)"
  from CreatePAT_stores [OF assms(1)] obtain uID pID rnd salt hash row where c:
    "lib_uuidParse L (pat_User pat) = Inr uID" "lib_uuidParse L (pat_ID pat) = Inr pID"
    "pat_Secret pat = ''pat'' @ ''_'' @ pat_encode uID pID @ ''_'' @ rnd" "CHR ''_'' \<notin> set rnd"
    "hasher_Hash (lib_scrypt L) (Inr salt) (pat_Secret pat) = Inr hash"
    "filter (owned (pat_User pat) (pat_ID pat)) (t_pats (committed (pw_db (aw_pats w1)))) = [row]"
    "dp_Secret row = hash" "\<not> dp_Revoked row" "dp_ExpiresAt row = pat_ExpiresAt pat" by blast
  have len: "length uID = 16" "length pID = 16" "lib_uuidString L uID = pat_User pat" "lib_uuidString L pID = pat_ID pat"
    using assms(2) c(1,2) by blast+
  have split: "split_on (CHR ''_'') (pat_Secret pat) = [''pat'', pat_encode uID pID, rnd]"
    using c(3,4) by (simp add: pat_encode_def)
  have dec: "pat_decode (pat_encode uID pID) = Inr (uID, pID)"
    using len by (simp add: pat_decode_def pat_encode_def)
  have "a_Compare ?svc (pat_Secret pat) hash = None"
    using Compare_Hash [OF c(5)] by (simp add: deployed_auth_def)
  moreover have "\<exists>v. pats_Secret (a_pats ?svc) (pat_User pat) (pat_ID pat) ?w = (Inr (hash, False, False), v)"
  proof -
    have "aw_pats ?w = (aw_pats w2)\<lparr>pw_ticks := Suc (pw_ticks (aw_pats w2))\<rparr>" by (simp add: aw_Now_def pw_Now_def)
    with assms(3,4,5) c(6-9) show ?thesis
      by (simp add: deployed_auth_def postgres_pats_def lifted_def pr_RetrieveSecretAndRevokeStatus_def observe_apply pw_Now_def
        trying_apply db_query_calm driver_calm not_less)
  qed
  moreover have "a_uuidString ?svc = lib_uuidString L" by (simp add: deployed_auth_def)
  ultimately have "\<exists>res v. IdentifyPAT ?svc (pat_Secret pat) ?w = (Inr res, v) \<and> pat_ID res = pat_ID pat \<and> pat_User res = pat_User pat"
    using len by (auto simp: IdentifyPAT_def Let_def split dec trying_apply observe_apply guarded_def split: prod.splits)
  moreover have "take 3 (pat_Secret pat) = ''pat''" by (simp add: c(3))
  ultimately show ?thesis by (auto simp: Identify_pat pass_apply)
qed

abbreviation sample_created :: "(fault + PAT) \<times> auth_world" where
  "sample_created \<equiv> CreatePAT (deployed_auth sample_libs) ''login'' ''ci'' [] 60 sample_world"

end
