(* ===== verification/Entities.thy ===== *)
theory Entities
  imports Roles Connections Redis
begin

text \<open>
  What the clients and channels services share: the status of an entity (\<open>clients/status.go\<close>,
  \<open>channels/status.go\<close>), metadata, nullable columns, the error handler of
  \<open>pkg/postgres/error_handler.go\<close>, connections, and the basic description of an entity that
  services hand to each other over gRPC.
\<close>

section \<open>Status\<close>

type_synonym Status = "8 word"

definition EnabledStatus :: Status where "EnabledStatus = 0"
definition DisabledStatus :: Status where "DisabledStatus = 1"
definition DeletedStatus :: Status where "DeletedStatus = 2"
definition AllStatuses :: Status where "AllStatuses = 3"

lemmas statuses = EnabledStatus_def DisabledStatus_def DeletedStatus_def AllStatuses_def

definition Status_String :: "Status \<Rightarrow> string" where
  "Status_String s =
     (if s = DisabledStatus then ''disabled'' else if s = EnabledStatus then ''enabled''
      else if s = DeletedStatus then ''deleted'' else if s = AllStatuses then ''all'' else ''unknown'')"

definition channels_ToStatus :: "string \<Rightarrow> gerror + Status" where
  "channels_ToStatus s =
     (if s = ''disabled'' then Inr DisabledStatus else if s = ''enabled'' then Inr EnabledStatus
      else if s = ''deleted'' then Inr DeletedStatus else if s = ''all'' then Inr AllStatuses
      else Inl svcErrInvalidStatus)"

text \<open>For clients the empty text stands for the enabled status.\<close>

definition clients_ToStatus :: "string \<Rightarrow> gerror + Status" where
  "clients_ToStatus s = (if s = [] then Inr EnabledStatus else channels_ToStatus s)"

section \<open>Columns\<close>

text \<open>
  JSON metadata: nil, or the keys with the text of their values. A nil or empty map is
  stored as the empty object, which reads back as an empty map.
\<close>

type_synonym Metadata = "(string \<times> string) list option"

definition metadata_column :: "Metadata \<Rightarrow> Metadata" where
  "metadata_column m = (case m of None \<Rightarrow> Some [] | Some xs \<Rightarrow> Some xs)"

definition toNullString :: "string \<Rightarrow> string option" where
  "toNullString s = (if s = [] then None else Some s)"

definition nullString :: "string option \<Rightarrow> string" where
  "nullString s = (case s of Some x \<Rightarrow> x | None \<Rightarrow> [])"

definition null_at :: "int \<Rightarrow> int option" where
  "null_at t = (if t = 0 then None else Some t)"

definition at_null :: "int option \<Rightarrow> int" where
  "at_null t = (case t of Some x \<Rightarrow> x | None \<Rightarrow> 0)"

lemma nullString_toNullString [simp]: "nullString (toNullString s) = s"
  by (simp add: nullString_def toNullString_def)

text \<open>The handler knows some unique constraints by name.\<close>

definition eh_HandleError :: "(string \<Rightarrow> gerror option) \<Rightarrow> gerror \<Rightarrow> dberror \<Rightarrow> gerror" where
  "eh_HandleError getError wrapper err =
     (case err of
        PgError sqlstate msg cname \<Rightarrow>
          if sqlstate = errDuplicate
          then (case getError cname of Some knownErr \<Rightarrow> Wrap wrapper knownErr | None \<Rightarrow> Wrap wrapper (dberror_go err))
          else Wrap wrapper (dberror_go err)
      | DriverError msg \<Rightarrow> Wrap wrapper (dberror_go err))"

text \<open>A named statement with a slice of rows is refused when the slice is empty.\<close>

definition bind_rows :: "'a list \<Rightarrow> ('t, 'r) db \<Rightarrow> ('t, 'r) db" where
  "bind_rows rs m = (if rs = [] then fail (DriverError ''length of array is 0'') else m)"

section \<open>Connections\<close>

record Connection =
  co_ClientID :: string
  co_ChannelID :: string
  co_DomainID :: string
  co_Type :: ConnType

text \<open>
  Both services keep a table of connections, with the same columns and primary key; the
  foreign key differs. An insert is checked against the rows already there.
\<close>

definition insert_connections ::
  "(Connection \<Rightarrow> bool) \<Rightarrow> Connection list \<Rightarrow> Connection list \<Rightarrow> dberror + Connection list" where
  "insert_connections referenced old new =
     (if \<not> list_all (\<lambda>c. length (co_ClientID c) \<le> 36 \<and> length (co_ChannelID c) \<le> 36 \<and> length (co_DomainID c) \<le> 36) new
      then Inl pg_truncated
      else if \<not> list_all (\<lambda>c. co_Type c = 1 \<or> co_Type c = 2) new then Inl (pg_check ''connections_type_check'')
      else if \<not> distinct (old @ new) then Inl (pg_unique ''connections_pkey'')
      else if \<not> list_all referenced new then Inl pg_foreign
      else Inr (old @ new))"

text \<open>The rows a \<open>DELETE\<close> of one connection matches: of every type if the type is zero.\<close>

definition connection_matches :: "Connection \<Rightarrow> Connection \<Rightarrow> bool" where
  "connection_matches c r \<longleftrightarrow> co_ChannelID r = co_ChannelID c \<and> co_DomainID r = co_DomainID c \<and>
     co_ClientID r = co_ClientID c \<and> (0 < co_Type c \<longrightarrow> co_Type r = co_Type c)"

lemma insert_connections_ok:
  "insert_connections fk old new = Inr cs \<Longrightarrow> cs = old @ new \<and> list_all fk new \<and> distinct cs"
  by (auto simp: insert_connections_def split: if_splits)

section \<open>Entities over gRPC\<close>

record EntityBasic =
  eb_ID :: string
  eb_Domain :: string
  eb_ParentGroup :: string
  eb_Status :: "32 word"

abbreviation parent_policy :: "string \<Rightarrow> string \<Rightarrow> string \<Rightarrow> Policy" where
  "parent_policy grp objectType objectID \<equiv> Policy0\<lparr>p_SubjectType := GroupType, p_Subject := grp,
     p_Relation := ParentGroupRelation, p_ObjectType := objectType, p_Object := objectID\<rparr>"

abbreviation domain_policy :: "string \<Rightarrow> string \<Rightarrow> string \<Rightarrow> Policy" where
  "domain_policy domainID objectType objectID \<equiv> Policy0\<lparr>p_SubjectType := DomainType, p_Subject := domainID,
     p_Relation := DomainRelation, p_ObjectType := objectType, p_Object := objectID\<rparr>"

end
