(* ===== verification/Clients.thy ===== *)
theory Clients
  imports Entities
begin

text \<open>
  The clients service: \<open>clients/clients.go\<close>, the repository \<open>clients/postgres/clients.go\<close> with
  the schema of \<open>init.go\<close>, the cache of credentials \<open>clients/cache/clients.go\<close>, the service
  \<open>clients/service.go\<close> and the service other services call, \<open>clients/private/service.go\<close>.

  The services are records of their dependencies over a world. Paged listings and the query
  with roles are left out: their SQL spans the tables of all services.
\<close>

record Credentials =
  cred_Identity :: string
  cred_Secret :: string

text \<open>The extended fields of a client, which only the listing queries with joins fill in, are left out.\<close>

record Client =
  c_ID :: string
  c_Name :: string
  c_Tags :: "string list"
  c_Domain :: string
  c_ParentGroup :: string
  c_Credentials :: Credentials
  c_Metadata :: Metadata
  c_PrivateMetadata :: Metadata
  c_CreatedAt :: int
  c_UpdatedAt :: int
  c_UpdatedBy :: string
  c_Status :: Status

definition Client0 :: Client where
  "Client0 = \<lparr>c_ID = [], c_Name = [], c_Tags = [], c_Domain = [], c_ParentGroup = [],
     c_Credentials = \<lparr>cred_Identity = [], cred_Secret = []\<rparr>, c_Metadata = None, c_PrivateMetadata = None,
     c_CreatedAt = 0, c_UpdatedAt = 0, c_UpdatedBy = [], c_Status = EnabledStatus\<rparr>"

section \<open>Tables\<close>

record DBClient =
  dc_ID :: string
  dc_Name :: string
  dc_Tags :: "string list"
  dc_Identity :: string
  dc_Domain :: string
  dc_ParentGroup :: "string option"
  dc_Secret :: string
  dc_Metadata :: Metadata
  dc_PrivateMetadata :: Metadata
  dc_CreatedAt :: int
  dc_UpdatedAt :: "int option"
  dc_UpdatedBy :: "string option"
  dc_Status :: Status

record client_tables =
  ct_clients :: "DBClient list"
  ct_connections :: "Connection list"

type_synonym clients_db = "client_tables database"

text \<open>Columns of JSON hold well-formed documents, so that the decoding in \<open>ToClient\<close> does not fail.\<close>

definition ToDBClient :: "Client \<Rightarrow> DBClient" where
  "ToDBClient c = \<lparr>dc_ID = c_ID c, dc_Name = c_Name c, dc_Tags = c_Tags c,
     dc_Identity = cred_Identity (c_Credentials c), dc_Domain = c_Domain c,
     dc_ParentGroup = toNullString (c_ParentGroup c), dc_Secret = cred_Secret (c_Credentials c),
     dc_Metadata = metadata_column (c_Metadata c), dc_PrivateMetadata = metadata_column (c_PrivateMetadata c),
     dc_CreatedAt = c_CreatedAt c, dc_UpdatedAt = null_at (c_UpdatedAt c), dc_UpdatedBy = toNullString (c_UpdatedBy c),
     dc_Status = c_Status c\<rparr>"

definition ToClient :: "DBClient \<Rightarrow> Client" where
  "ToClient t = \<lparr>c_ID = dc_ID t, c_Name = dc_Name t, c_Tags = dc_Tags t, c_Domain = dc_Domain t,
     c_ParentGroup = nullString (dc_ParentGroup t),
     c_Credentials = \<lparr>cred_Identity = dc_Identity t, cred_Secret = dc_Secret t\<rparr>,
     c_Metadata = dc_Metadata t, c_PrivateMetadata = dc_PrivateMetadata t, c_CreatedAt = dc_CreatedAt t,
     c_UpdatedAt = at_null (dc_UpdatedAt t), c_UpdatedBy = nullString (dc_UpdatedBy t), c_Status = dc_Status t\<rparr>"

definition clients_GetError :: "string \<Rightarrow> gerror option" where
  "clients_GetError cname =
     (if cname = ''clients_domain_id_secret_key'' then Some (NewRequestError ''client key is not available'') else None)"

abbreviation clients_eh :: "gerror \<Rightarrow> dberror \<Rightarrow> gerror" where
  "clients_eh \<equiv> eh_HandleError clients_GetError"

subsection \<open>Statements\<close>

definition client_fits :: "DBClient \<Rightarrow> bool" where
  "client_fits r \<longleftrightarrow> length (dc_ID r) \<le> 36 \<and> length (dc_Name r) \<le> 1024 \<and> length (dc_Domain r) \<le> 36 \<and>
     fits_opt 36 (dc_ParentGroup r) \<and> length (dc_Identity r) \<le> 254 \<and> length (dc_Secret r) \<le> 4096 \<and>
     fits_opt 254 (dc_UpdatedBy r)"

definition insert_clients :: "DBClient list \<Rightarrow> (client_tables, DBClient list) stmt" where
  "insert_clients new t =
     (let all_rows = ct_clients t @ new in
      if \<not> list_all client_fits new then Inl pg_truncated
      else if \<not> distinct (map dc_ID all_rows) then Inl (pg_unique ''clients_pkey'')
      else if \<not> distinct (map (\<lambda>r. (dc_Domain r, dc_Secret r)) all_rows) then Inl (pg_unique ''clients_domain_id_secret_key'')
      else Inr (t\<lparr>ct_clients := all_rows\<rparr>, new))"

text \<open>\<open>UPDATE clients SET ... WHERE ... RETURNING ...\<close>: the rows changed.\<close>

definition update_clients :: "(DBClient \<Rightarrow> bool) \<Rightarrow> (DBClient \<Rightarrow> DBClient) \<Rightarrow> (client_tables, DBClient list) stmt" where
  "update_clients p f t =
     (let all_rows = map (\<lambda>r. if p r then f r else r) (ct_clients t); changed = map f (filter p (ct_clients t)) in
      if \<not> list_all client_fits changed then Inl pg_truncated
      else if \<not> distinct (map (\<lambda>r. (dc_Domain r, dc_Secret r)) all_rows) then Inl (pg_unique ''clients_domain_id_secret_key'')
      else Inr (t\<lparr>ct_clients := all_rows\<rparr>, changed))"

text \<open>Deleting clients deletes their connections.\<close>

definition delete_clients :: "string list \<Rightarrow> (client_tables, nat) stmt" where
  "delete_clients ids t =
     (let gone = filter (\<lambda>r. dc_ID r \<in> set ids) (ct_clients t) in
      Inr (t\<lparr>ct_clients := filter (\<lambda>r. dc_ID r \<notin> set ids) (ct_clients t),
             ct_connections := filter (\<lambda>c. \<not> list_ex (\<lambda>r. dc_ID r = co_ClientID c \<and> dc_Domain r = co_DomainID c) gone)
               (ct_connections t)\<rparr>, length gone))"

definition add_client_connections :: "Connection list \<Rightarrow> (client_tables, unit) stmt" where
  "add_client_connections new t =
     (case insert_connections (\<lambda>c. list_ex (\<lambda>r. dc_ID r = co_ClientID c \<and> dc_Domain r = co_DomainID c) (ct_clients t))
         (ct_connections t) new of
        Inl e \<Rightarrow> Inl e
      | Inr cs \<Rightarrow> Inr (t\<lparr>ct_connections := cs\<rparr>, ()))"

definition delete_client_connections :: "(Connection \<Rightarrow> bool) \<Rightarrow> (client_tables, unit) stmt" where
  "delete_client_connections p t = Inr (t\<lparr>ct_connections := filter (\<lambda>c. \<not> p c) (ct_connections t)\<rparr>, ())"

section \<open>The repository\<close>

text \<open>Scanning the first row of a result, or the not-found error.\<close>

definition first_client :: "(dberror \<Rightarrow> gerror) \<Rightarrow> DBClient list \<Rightarrow> (clients_db, gerror, Client) io" where
  "first_client g rows = (case rows of
      [] \<Rightarrow> fail repoErrNotFound
    | r # _ \<Rightarrow> trying (driver (ret r)) g (\<lambda>dbc. ret (ToClient dbc)))"

definition clr_Save :: "Client list \<Rightarrow> (clients_db, gerror, Client list) io" where
  "clr_Save cls =
     trying (bind_rows cls (db_exec (insert_clients (map ToDBClient cls)))) (clients_eh repoErrCreateEntity) (\<lambda>rows.
     trying (scan_rows rows) (clients_eh repoErrFailedOpDB) (\<lambda>dbcs. ret (map ToClient dbcs)))"

definition clr_RetrieveBySecret :: "string \<Rightarrow> string \<Rightarrow> AuthPrefix \<Rightarrow> (clients_db, gerror, Client) io" where
  "clr_RetrieveBySecret key i prefix =
     (if prefix = UnknownAuth then fail repoErrNotFound
      else trying (db_query (\<lambda>t. filter (\<lambda>r. dc_Secret r = key \<and> dc_Status r = EnabledStatus \<and>
             (if prefix = DomainAuth then dc_Domain r = i else dc_ID r = i)) (ct_clients t)))
           (clients_eh repoErrViewEntity) (first_client (clients_eh repoErrViewEntity)))"

text \<open>\<open>update\<close>: an update statement, its row scanned.\<close>

definition clr_update :: "(DBClient \<Rightarrow> bool) \<Rightarrow> (DBClient \<Rightarrow> DBClient) \<Rightarrow> (DBClient \<Rightarrow> DBClient) \<Rightarrow> (clients_db, gerror, Client) io" where
  "clr_update p f returning =
     trying (db_exec (update_clients p f)) (clients_eh repoErrUpdateEntity) (\<lambda>rows.
     first_client (clients_eh repoErrUpdateEntity) (map returning rows))"

abbreviation touched_by :: "DBClient \<Rightarrow> DBClient \<Rightarrow> DBClient" where
  "touched_by dbc r \<equiv> r\<lparr>dc_UpdatedAt := dc_UpdatedAt dbc, dc_UpdatedBy := dc_UpdatedBy dbc\<rparr>"

text \<open>Most updates do not return the secret.\<close>

abbreviation without_secret :: "DBClient \<Rightarrow> DBClient" where
  "without_secret r \<equiv> r\<lparr>dc_Secret := []\<rparr>"

abbreviation enabled_client :: "string \<Rightarrow> DBClient \<Rightarrow> bool" where
  "enabled_client i r \<equiv> dc_ID r = i \<and> dc_Status r = EnabledStatus"

definition clr_Update :: "Client \<Rightarrow> (clients_db, gerror, Client) io" where
  "clr_Update client =
     (let dbc = ToDBClient client in
      clr_update (enabled_client (c_ID client))
        (\<lambda>r. touched_by dbc (r\<lparr>dc_Name := (if c_Name client \<noteq> [] then dc_Name dbc else dc_Name r),
           dc_Metadata := (if c_Metadata client \<noteq> None then dc_Metadata dbc else dc_Metadata r),
           dc_PrivateMetadata := (if c_PrivateMetadata client \<noteq> None then dc_PrivateMetadata dbc else dc_PrivateMetadata r)\<rparr>))
        (\<lambda>r. r))"

definition clr_UpdateTags :: "Client \<Rightarrow> (clients_db, gerror, Client) io" where
  "clr_UpdateTags client =
     (let dbc = ToDBClient client in
      clr_update (enabled_client (c_ID client)) (\<lambda>r. touched_by dbc (r\<lparr>dc_Tags := dc_Tags dbc\<rparr>)) without_secret)"

definition clr_UpdateIdentity :: "Client \<Rightarrow> (clients_db, gerror, Client) io" where
  "clr_UpdateIdentity client =
     (let dbc = ToDBClient client in
      clr_update (enabled_client (c_ID client)) (\<lambda>r. touched_by dbc (r\<lparr>dc_Identity := dc_Identity dbc\<rparr>)) without_secret)"

definition clr_UpdateSecret :: "Client \<Rightarrow> (clients_db, gerror, Client) io" where
  "clr_UpdateSecret client =
     (let dbc = ToDBClient client in
      clr_update (enabled_client (c_ID client)) (\<lambda>r. touched_by dbc (r\<lparr>dc_Secret := dc_Secret dbc\<rparr>)) without_secret)"

definition clr_ChangeStatus :: "Client \<Rightarrow> (clients_db, gerror, Client) io" where
  "clr_ChangeStatus client =
     (let dbc = ToDBClient client in
      clr_update (\<lambda>r. dc_ID r = c_ID client) (\<lambda>r. touched_by dbc (r\<lparr>dc_Status := dc_Status dbc\<rparr>)) without_secret)"

definition clr_RetrieveByID :: "string \<Rightarrow> (clients_db, gerror, Client) io" where
  "clr_RetrieveByID i =
     trying (db_query (\<lambda>t. filter (\<lambda>r. dc_ID r = i) (ct_clients t))) (clients_eh repoErrViewEntity)
       (first_client (clients_eh repoErrViewEntity))"

definition clr_Delete :: "string list \<Rightarrow> (clients_db, gerror, unit) io" where
  "clr_Delete clientIDs =
     trying (db_exec (delete_clients clientIDs)) (clients_eh repoErrRemoveEntity) (\<lambda>rows.
     if rows = 0 then fail repoErrNotFound else ret ())"

definition clr_AddConnections :: "Connection list \<Rightarrow> (clients_db, gerror, unit) io" where
  "clr_AddConnections conns =
     trying (bind_rows conns (db_exec (add_client_connections conns))) (HandleError repoErrCreateEntity) ret"

definition connection_text :: "Connection \<Rightarrow> string" where
  "connection_text c = ''failed to delete connection for channel_id: '' @ co_ChannelID c @ '', domain_id: '' @ co_DomainID c @
     '' client_id '' @ co_ClientID c"

definition clr_RemoveConnections :: "Connection list \<Rightarrow> (clients_db, gerror, unit) io" where
  "clr_RemoveConnections conns =
     in_tx_ret (WrapDB repoErrRemoveEntity)
       (map (\<lambda>c. (delete_client_connections (connection_matches c),
                   \<lambda>err. Wrap repoErrRemoveEntity (WrapDB (Foreign (connection_text c)) err))) conns)
       (WrapDB repoErrRemoveEntity) ()"

text \<open>An update without a result: an error when no row was changed.\<close>

definition clr_touch :: "(dberror \<Rightarrow> gerror) \<Rightarrow> string \<Rightarrow> (DBClient \<Rightarrow> DBClient) \<Rightarrow> (clients_db, gerror, unit) io" where
  "clr_touch g i f =
     trying (db_exec (update_clients (\<lambda>r. dc_ID r = i) f)) g (\<lambda>rows. if rows = [] then fail repoErrNotFound else ret ())"

definition clr_SetParentGroup :: "Client \<Rightarrow> (clients_db, gerror, unit) io" where
  "clr_SetParentGroup cli =
     (let dbc = ToDBClient cli in
      clr_touch (HandleError repoErrUpdateEntity) (c_ID cli) (\<lambda>r. touched_by dbc (r\<lparr>dc_ParentGroup := dc_ParentGroup dbc\<rparr>)))"

definition clr_RemoveParentGroup :: "Client \<Rightarrow> (clients_db, gerror, unit) io" where
  "clr_RemoveParentGroup cli =
     (let dbc = ToDBClient cli in
      clr_touch (HandleError repoErrRemoveEntity) (c_ID cli) (\<lambda>r. touched_by dbc (r\<lparr>dc_ParentGroup := None\<rparr>)))"

definition clr_ClientConnectionsCount :: "string \<Rightarrow> (clients_db, gerror, nat) io" where
  "clr_ClientConnectionsCount i =
     trying (Total (\<lambda>t. length (filter (\<lambda>c. co_ClientID c = i) (ct_connections t)))) (HandleError repoErrViewEntity) ret"

definition clr_DoesClientHaveConnections :: "string \<Rightarrow> (clients_db, gerror, bool) io" where
  "clr_DoesClientHaveConnections i =
     trying (db_query (\<lambda>t. list_ex (\<lambda>c. co_ClientID c = i) (ct_connections t))) (HandleError repoErrViewEntity) ret"

definition clr_RemoveChannelConnections :: "string \<Rightarrow> (clients_db, gerror, unit) io" where
  "clr_RemoveChannelConnections channelID =
     trying (db_exec (delete_client_connections (\<lambda>c. co_ChannelID c = channelID))) (WrapDB repoErrRemoveEntity) ret"

definition clr_RemoveClientConnections :: "string \<Rightarrow> (clients_db, gerror, unit) io" where
  "clr_RemoveClientConnections clientID =
     trying (db_exec (delete_client_connections (\<lambda>c. co_ClientID c = clientID))) (WrapDB repoErrRemoveEntity) ret"

text \<open>The query selects neither the identity nor the secret nor the private metadata.\<close>

definition clr_RetrieveParentGroupClients :: "string \<Rightarrow> (clients_db, gerror, Client list) io" where
  "clr_RetrieveParentGroupClients parentGroupID =
     trying (db_query (\<lambda>t. map (\<lambda>r. r\<lparr>dc_Identity := [], dc_Secret := [], dc_PrivateMetadata := None\<rparr>)
         (filter (\<lambda>r. dc_ParentGroup r \<noteq> None \<and> dc_ParentGroup r = toNullString parentGroupID) (ct_clients t))))
       (WrapDB repoErrViewEntity) (\<lambda>rows.
     trying (scan_rows rows) (WrapDB repoErrViewEntity) (\<lambda>dbcs. ret (map ToClient dbcs)))"

definition clr_UnsetParentGroupFromClient :: "string \<Rightarrow> (clients_db, gerror, unit) io" where
  "clr_UnsetParentGroupFromClient parentGroupID =
     trying (db_exec (update_clients (\<lambda>r. dc_ParentGroup r \<noteq> None \<and> dc_ParentGroup r = toNullString parentGroupID)
         (\<lambda>r. r\<lparr>dc_ParentGroup := None\<rparr>))) (WrapDB repoErrRemoveEntity) (\<lambda>_. ret ())"

section \<open>The cache of credentials\<close>

record 'c clientCache =
  clc_client :: "'c redis"
  clc_keyDuration :: int

definition client_key :: "string \<Rightarrow> string" where
  "client_key k = ''client_key'' @ '':'' @ k"

definition client_id :: "string \<Rightarrow> string" where
  "client_id i = ''client_id'' @ '':'' @ i"

definition clc_Save :: "'c clientCache \<Rightarrow> string \<Rightarrow> string \<Rightarrow> ('c, gerror, unit) io" where
  "clc_Save tc clientKey clientID =
     (if clientKey = [] \<or> clientID = []
      then fail (Wrap repoErrCreateEntity (New ''client key or client id is empty''))
      else trying (r_Set (clc_client tc) (client_key clientKey) clientID (clc_keyDuration tc)) (Wrap repoErrCreateEntity) (\<lambda>_.
           trying (r_Set (clc_client tc) (client_id clientID) clientKey (clc_keyDuration tc)) (Wrap repoErrCreateEntity) ret))"

definition redis_go :: "redis_error \<Rightarrow> gerror" where
  "redis_go e = (case e of RedisNil \<Rightarrow> Foreign ''redis: nil'' | RedisErr err \<Rightarrow> err)"

definition clc_ID :: "'c clientCache \<Rightarrow> string \<Rightarrow> ('c, gerror, string) io" where
  "clc_ID tc clientKey =
     (if clientKey = [] then fail repoErrNotFound
      else trying (r_Get (clc_client tc) (client_key clientKey)) (Wrap repoErrNotFound \<circ> redis_go) ret)"

text \<open>\<open>Del\<close> with two keys is one command.\<close>

definition clc_Remove :: "'c clientCache \<Rightarrow> string \<Rightarrow> ('c, gerror, unit) io" where
  "clc_Remove tc clientID = (\<lambda>c. case r_Get (clc_client tc) (client_id clientID) c of
      (Inl RedisNil, c') \<Rightarrow> (Inr (), c')
    | (Inl (RedisErr err), c') \<Rightarrow> (Inl (Wrap repoErrRemoveEntity err), c')
    | (Inr key, c') \<Rightarrow>
        trying (r_Tx (clc_client tc) [CmdDel (client_key key), CmdDel (client_id clientID)]) (Wrap repoErrRemoveEntity) ret c')"

section \<open>The services\<close>

record 'w ClientsRepository =
  cr_Save :: "Client list \<Rightarrow> ('w, gerror, Client list) io"
  cr_RetrieveBySecret :: "string \<Rightarrow> string \<Rightarrow> AuthPrefix \<Rightarrow> ('w, gerror, Client) io"
  cr_Update :: "Client \<Rightarrow> ('w, gerror, Client) io"
  cr_UpdateTags :: "Client \<Rightarrow> ('w, gerror, Client) io"
  cr_UpdateSecret :: "Client \<Rightarrow> ('w, gerror, Client) io"
  cr_ChangeStatus :: "Client \<Rightarrow> ('w, gerror, Client) io"
  cr_RetrieveByID :: "string \<Rightarrow> ('w, gerror, Client) io"
  cr_Delete :: "string list \<Rightarrow> ('w, gerror, unit) io"
  cr_AddConnections :: "Connection list \<Rightarrow> ('w, gerror, unit) io"
  cr_RemoveConnections :: "Connection list \<Rightarrow> ('w, gerror, unit) io"
  cr_SetParentGroup :: "Client \<Rightarrow> ('w, gerror, unit) io"
  cr_RemoveParentGroup :: "Client \<Rightarrow> ('w, gerror, unit) io"
  cr_DoesClientHaveConnections :: "string \<Rightarrow> ('w, gerror, bool) io"
  cr_RemoveChannelConnections :: "string \<Rightarrow> ('w, gerror, unit) io"
  cr_RetrieveParentGroupClients :: "string \<Rightarrow> ('w, gerror, Client list) io"
  cr_UnsetParentGroupFromClient :: "string \<Rightarrow> ('w, gerror, unit) io"

text \<open>The channels and groups services are called over gRPC.\<close>

record 'w clients_service =
  cs_repo :: "'w ClientsRepository"
  cs_cache_Save :: "string \<Rightarrow> string \<Rightarrow> ('w, gerror, unit) io"
  cs_cache_ID :: "string \<Rightarrow> ('w, gerror, string) io"
  cs_cache_Remove :: "string \<Rightarrow> ('w, gerror, unit) io"
  cs_AddPolicies :: "Policy list \<Rightarrow> ('w, gerror, unit) io"
  cs_DeletePolicies :: "Policy list \<Rightarrow> ('w, gerror, unit) io"
  cs_RemoveClientConnections :: "string \<Rightarrow> ('w, gerror, unit) io"
  cs_RetrieveGroup :: "string \<Rightarrow> ('w, gerror, EntityBasic) io"
  cs_idProvider :: "('w, gerror, string) io"
  cs_now :: "'w \<Rightarrow> int \<times> 'w"
  cs_roles :: "'w ProvisionManageService"

definition errRollbackRepo :: gerror where "errRollbackRepo = New ''failed to rollback repo''"
definition clientErrSetParentGroup :: gerror where "clientErrSetParentGroup = NewRequestError ''client already have parent''"
definition clientErrSetSameParentGroup :: gerror where "clientErrSetSameParentGroup = NewRequestError ''client already assigned to the parent group''"
definition errParentGroupDomainID :: gerror where "errParentGroupDomainID = NewRequestError ''parent group has invalid domain id''"
definition errParentGroupDisabled :: gerror where "errParentGroupDisabled = NewRequestError ''parent group is not enabled''"
definition ErrEnableClient :: gerror where "ErrEnableClient = Foreign ''failed to enable client''"
definition ErrDisableClient :: gerror where "ErrDisableClient = Foreign ''failed to disable client''"
definition BuiltInRoleAdmin :: string where "BuiltInRoleAdmin = ''admin''"

subsection \<open>Clients\<close>

text \<open>The loop of \<open>CreateClients\<close> that fills in ids and secrets.\<close>

definition new_client :: "'w clients_service \<Rightarrow> Session \<Rightarrow> Client \<Rightarrow> ('w, gerror, Client) io" where
  "new_client svc session c =
     pass (if c_ID c = [] then trying (cs_idProvider svc) (Wrap svcErrIssueProviderID) ret else ret (c_ID c)) (\<lambda>clientID.
     pass (if cred_Secret (c_Credentials c) = [] then trying (cs_idProvider svc) (Wrap svcErrIssueProviderID) ret
           else ret (cred_Secret (c_Credentials c))) (\<lambda>key.
     if c_Status c \<noteq> DisabledStatus \<and> c_Status c \<noteq> EnabledStatus then fail svcErrInvalidStatus
     else observe (cs_now svc) (\<lambda>now.
       ret (c\<lparr>c_ID := clientID, c_Credentials := (c_Credentials c)\<lparr>cred_Secret := key\<rparr>, c_Domain := s_DomainID session,
              c_CreatedAt := now\<rparr>))))"

fun new_clients :: "'w clients_service \<Rightarrow> Session \<Rightarrow> Client list \<Rightarrow> ('w, gerror, Client list) io" where
  "new_clients svc session [] = ret []"
| "new_clients svc session (c # cls) =
     pass (new_client svc session c) (\<lambda>c'. pass (new_clients svc session cls) (\<lambda>cls'. ret (c' # cls')))"

definition CreateClients :: "'w clients_service \<Rightarrow> Session \<Rightarrow> Client list \<Rightarrow> ('w, gerror, Client list \<times> RoleProvision list) io" where
  "CreateClients svc session cls =
     pass (new_clients svc session cls) (\<lambda>clients.
     trying (cr_Save (cs_repo svc) clients) (Wrap svcErrCreateEntity) (\<lambda>newClients.
     let newClientIDs = map c_ID newClients in
     deferring (cr_Delete (cs_repo svc) newClientIDs) (\<lambda>retErr errRollBack. Wrap retErr (Wrap errRollbackRepo errRollBack))
       (trying (AddNewEntitiesRoles (cs_roles svc) (s_DomainID session) (s_UserID session) newClientIDs
            (map (\<lambda>i. (domain_policy (s_DomainID session) ClientType i)\<lparr>p_Domain := s_DomainID session\<rparr>) newClientIDs)
            [(BuiltInRoleAdmin, [s_UserID session])])
          (Wrap svcErrAddPolicies) (\<lambda>rp. ret (newClients, rp)))))"

text \<open>The query of a client with the roles of a user is an argument.\<close>

definition ViewClient ::
  "'w clients_service \<Rightarrow> (string \<Rightarrow> string \<Rightarrow> ('w, gerror, Client) io) \<Rightarrow> Session \<Rightarrow> string \<Rightarrow> bool \<Rightarrow> ('w, gerror, Client) io" where
  "ViewClient svc retrieveByIDWithRoles session i withRoles =
     trying (if withRoles then retrieveByIDWithRoles i (s_UserID session) else cr_RetrieveByID (cs_repo svc) i)
       (Wrap svcErrViewEntity) ret"

definition UpdateClient :: "'w clients_service \<Rightarrow> Session \<Rightarrow> Client \<Rightarrow> ('w, gerror, Client) io" where
  "UpdateClient svc session cli =
     observe (cs_now svc) (\<lambda>now.
     trying (cr_Update (cs_repo svc) (Client0\<lparr>c_ID := c_ID cli, c_Name := c_Name cli, c_Metadata := c_Metadata cli,
         c_PrivateMetadata := c_PrivateMetadata cli, c_UpdatedAt := now, c_UpdatedBy := s_UserID session\<rparr>))
       (Wrap svcErrUpdateEntity) ret)"

definition UpdateClientTags :: "'w clients_service \<Rightarrow> Session \<Rightarrow> Client \<Rightarrow> ('w, gerror, Client) io" where
  "UpdateClientTags svc session cli =
     observe (cs_now svc) (\<lambda>now.
     trying (cr_UpdateTags (cs_repo svc) (Client0\<lparr>c_ID := c_ID cli, c_Tags := c_Tags cli, c_UpdatedAt := now,
         c_UpdatedBy := s_UserID session\<rparr>)) (Wrap svcErrUpdateEntity) ret)"

definition UpdateClientSecret :: "'w clients_service \<Rightarrow> Session \<Rightarrow> string \<Rightarrow> string \<Rightarrow> ('w, gerror, Client) io" where
  "UpdateClientSecret svc session i key =
     observe (cs_now svc) (\<lambda>now.
     trying (cr_UpdateSecret (cs_repo svc) (Client0\<lparr>c_ID := i, c_Credentials := \<lparr>cred_Identity = [], cred_Secret = key\<rparr>,
         c_UpdatedAt := now, c_UpdatedBy := s_UserID session, c_Status := EnabledStatus\<rparr>)) (Wrap svcErrUpdateEntity) (\<lambda>client.
     trying (cs_cache_Remove svc (c_ID client)) (Wrap svcErrRemoveEntity) (\<lambda>_. ret client)))"

definition changeClientStatus :: "'w clients_service \<Rightarrow> Session \<Rightarrow> Client \<Rightarrow> ('w, gerror, Client) io" where
  "changeClientStatus svc session client =
     trying (cr_RetrieveByID (cs_repo svc) (c_ID client)) (Wrap svcErrViewEntity) (\<lambda>dbClient.
     if c_Status dbClient = c_Status client then fail svcErrStatusAlreadyAssigned
     else trying (cr_ChangeStatus (cs_repo svc) (client\<lparr>c_UpdatedBy := s_UserID session\<rparr>)) (Wrap svcErrUpdateEntity) ret)"

definition EnableClient :: "'w clients_service \<Rightarrow> Session \<Rightarrow> string \<Rightarrow> ('w, gerror, Client) io" where
  "EnableClient svc session i =
     observe (cs_now svc) (\<lambda>now.
     trying (changeClientStatus svc session (Client0\<lparr>c_ID := i, c_Status := EnabledStatus, c_UpdatedAt := now\<rparr>))
       (Wrap ErrEnableClient) ret)"

definition DisableClient :: "'w clients_service \<Rightarrow> Session \<Rightarrow> string \<Rightarrow> ('w, gerror, Client) io" where
  "DisableClient svc session i =
     observe (cs_now svc) (\<lambda>now.
     trying (changeClientStatus svc session (Client0\<lparr>c_ID := i, c_Status := DisabledStatus, c_UpdatedAt := now\<rparr>))
       (Wrap ErrDisableClient) (\<lambda>client.
     trying (cs_cache_Remove svc (c_ID client)) (Wrap svcErrRemoveEntity) (\<lambda>_. ret client)))"

definition rollback_tx :: "gerror \<Rightarrow> gerror \<Rightarrow> gerror" where
  "rollback_tx retErr errRollback = Wrap retErr (Wrap errRollbackTx errRollback)"

definition client_SetParentGroup :: "'w clients_service \<Rightarrow> Session \<Rightarrow> string \<Rightarrow> string \<Rightarrow> ('w, gerror, unit) io" where
  "client_SetParentGroup svc session parentGroupID i =
     trying (cr_RetrieveByID (cs_repo svc) i) (Wrap svcErrUpdateEntity) (\<lambda>cli.
     if c_ParentGroup cli = parentGroupID then fail (Wrap svcErrConflict clientErrSetSameParentGroup)
     else if c_ParentGroup cli \<noteq> [] then fail (Wrap svcErrConflict clientErrSetParentGroup)
     else trying (cs_RetrieveGroup svc parentGroupID) (Wrap svcErrUpdateEntity) (\<lambda>resp.
       if eb_Domain resp \<noteq> s_DomainID session then fail (Wrap svcErrUpdateEntity errParentGroupDomainID)
       else if eb_Status resp \<noteq> ucast EnabledStatus then fail (Wrap svcErrUpdateEntity errParentGroupDisabled)
       else
         let pols = [(parent_policy parentGroupID ClientType i)\<lparr>p_Domain := s_DomainID session\<rparr>] in
         trying (cs_AddPolicies svc pols) (Wrap svcErrAddPolicies) (\<lambda>_.
         deferring (cs_DeletePolicies svc pols) rollback_tx
           (observe (cs_now svc) (\<lambda>now.
              trying (cr_SetParentGroup (cs_repo svc) (Client0\<lparr>c_ID := i, c_ParentGroup := parentGroupID,
                  c_UpdatedBy := s_UserID session, c_UpdatedAt := now\<rparr>)) (Wrap svcErrUpdateEntity) ret)))))"

definition client_RemoveParentGroup :: "'w clients_service \<Rightarrow> Session \<Rightarrow> string \<Rightarrow> ('w, gerror, unit) io" where
  "client_RemoveParentGroup svc session i =
     trying (cr_RetrieveByID (cs_repo svc) i) (Wrap svcErrViewEntity) (\<lambda>cli.
     if c_ParentGroup cli \<noteq> [] then
       let pols = [(parent_policy (c_ParentGroup cli) ClientType i)\<lparr>p_Domain := s_DomainID session\<rparr>] in
       trying (cs_DeletePolicies svc pols) (Wrap svcErrDeletePolicies) (\<lambda>_.
       deferring (cs_AddPolicies svc pols) rollback_tx
         (observe (cs_now svc) (\<lambda>now.
            trying (cr_RemoveParentGroup (cs_repo svc) (Client0\<lparr>c_ID := i, c_UpdatedBy := s_UserID session, c_UpdatedAt := now\<rparr>))
              (Wrap svcErrUpdateEntity) ret)))
     else ret ())"

definition DeleteClient :: "'w clients_service \<Rightarrow> Session \<Rightarrow> string \<Rightarrow> ('w, gerror, unit) io" where
  "DeleteClient svc session i =
     trying (cr_DoesClientHaveConnections (cs_repo svc) i) (Wrap svcErrRemoveEntity) (\<lambda>ok.
     pass (if ok then trying (cs_RemoveClientConnections svc i) (Wrap svcErrRemoveEntity) ret else ret ()) (\<lambda>_.
     trying (cr_ChangeStatus (cs_repo svc) (Client0\<lparr>c_ID := i, c_Status := DeletedStatus\<rparr>)) (Wrap svcErrRemoveEntity) (\<lambda>_.
     trying (cs_cache_Remove svc i) (Wrap svcErrRemoveEntity) (\<lambda>_.
     trying (RemoveEntitiesRoles (cs_roles svc) (s_DomainID session) (s_DomainUserID session) [i]
         [Policy0\<lparr>p_SubjectType := ClientType, p_Subject := i\<rparr>, Policy0\<lparr>p_ObjectType := ClientType, p_Object := i\<rparr>]
         [domain_policy (s_DomainID session) ClientType i]) (Wrap svcErrDeletePolicies) (\<lambda>_.
     trying (cr_Delete (cs_repo svc) [i]) (Wrap svcErrRemoveEntity) ret)))))"

subsection \<open>The private service\<close>

text \<open>The comparison \<open>err != authn.ErrNotEncoded\<close> compares pointers in Go and values here.\<close>

definition clp_Authenticate :: "'w clients_service \<Rightarrow> string \<Rightarrow> ('w, gerror, string) io" where
  "clp_Authenticate svc token w =
     (case cs_cache_ID svc token w of
        (Inr i, w') \<Rightarrow> (Inr i, w')
      | (Inl _, w') \<Rightarrow>
          (case AuthUnpack token of (prefix, i, key, err) \<Rightarrow>
             if err \<noteq> None \<and> err \<noteq> Some ErrNotEncoded then (Inl (the err), w')
             else trying (cr_RetrieveBySecret (cs_repo svc) key i prefix) (Wrap svcErrAuthorization) (\<lambda>client.
                  trying (cs_cache_Save svc token (c_ID client)) (Wrap svcErrAuthorization) (\<lambda>_. ret (c_ID client))) w'))"

definition clp_RetrieveById :: "'w clients_service \<Rightarrow> string \<Rightarrow> ('w, gerror, Client) io" where
  "clp_RetrieveById svc ids = cr_RetrieveByID (cs_repo svc) ids"

definition clp_AddConnections :: "'w clients_service \<Rightarrow> Connection list \<Rightarrow> ('w, gerror, unit) io" where
  "clp_AddConnections svc conns = cr_AddConnections (cs_repo svc) conns"

definition clp_RemoveConnections :: "'w clients_service \<Rightarrow> Connection list \<Rightarrow> ('w, gerror, unit) io" where
  "clp_RemoveConnections svc conns = cr_RemoveConnections (cs_repo svc) conns"

definition clp_RemoveChannelConnections :: "'w clients_service \<Rightarrow> string \<Rightarrow> ('w, gerror, unit) io" where
  "clp_RemoveChannelConnections svc channelID = cr_RemoveChannelConnections (cs_repo svc) channelID"

text \<open>The deferred roll back tests the wrong error variable, so that its own error is never reported.\<close>

definition clp_UnsetParentGroupFromClient :: "'w clients_service \<Rightarrow> string \<Rightarrow> ('w, gerror, unit) io" where
  "clp_UnsetParentGroupFromClient svc parentGroupID =
     trying (cr_RetrieveParentGroupClients (cs_repo svc) parentGroupID) (Wrap svcErrViewEntity) (\<lambda>clients.
     if length clients > 0 then
       let prs = map (\<lambda>client. parent_policy (c_ParentGroup client) ClientType (c_ID client)) clients in
       trying (cs_DeletePolicies svc prs) (Wrap svcErrDeletePolicies) (\<lambda>_.
       deferring (cs_AddPolicies svc prs) (\<lambda>retErr _. retErr)
         (trying (cr_UnsetParentGroupFromClient (cs_repo svc) parentGroupID) (Wrap svcErrRemoveEntity) ret))
     else ret ())"

end
