(* ===== verification/Channels.thy ===== *)
theory Channels
  imports Clients
begin

text \<open>
  The channels service: \<open>channels/channels.go\<close>, the repository \<open>channels/postgres/channels.go\<close>
  with the schema of \<open>init.go\<close>, the cache of routes \<open>channels/cache/channels.go\<close>, the service
  \<open>channels/service.go\<close> and the service other services call, \<open>channels/private/service.go\<close>.
  Paged listings and the query with roles are left out, as for clients.
\<close>

text \<open>As for clients, the extended fields are left out.\<close>

record Channel =
  h_ID :: string
  h_Name :: string
  h_Tags :: "string list"
  h_ParentGroup :: string
  h_Domain :: string
  h_Route :: string
  h_Metadata :: Metadata
  h_CreatedBy :: string
  h_CreatedAt :: int
  h_UpdatedAt :: int
  h_UpdatedBy :: string
  h_Status :: Status

definition Channel0 :: Channel where
  "Channel0 = \<lparr>h_ID = [], h_Name = [], h_Tags = [], h_ParentGroup = [], h_Domain = [], h_Route = [], h_Metadata = None,
     h_CreatedBy = [], h_CreatedAt = 0, h_UpdatedAt = 0, h_UpdatedBy = [], h_Status = EnabledStatus\<rparr>"

section \<open>Tables\<close>

record dbChannel =
  dh_ID :: string
  dh_Name :: string
  dh_ParentGroup :: "string option"
  dh_Tags :: "string list"
  dh_Domain :: string
  dh_Route :: "string option"
  dh_Metadata :: Metadata
  dh_CreatedBy :: "string option"
  dh_CreatedAt :: int
  dh_UpdatedAt :: "int option"
  dh_UpdatedBy :: "string option"
  dh_Status :: Status

record channel_tables =
  ht_channels :: "dbChannel list"
  ht_connections :: "Connection list"

type_synonym channels_db = "channel_tables database"

definition toDBChannel :: "Channel \<Rightarrow> dbChannel" where
  "toDBChannel ch = \<lparr>dh_ID = h_ID ch, dh_Name = h_Name ch, dh_ParentGroup = toNullString (h_ParentGroup ch),
     dh_Tags = h_Tags ch, dh_Domain = h_Domain ch, dh_Route = toNullString (h_Route ch),
     dh_Metadata = metadata_column (h_Metadata ch), dh_CreatedBy = toNullString (h_CreatedBy ch),
     dh_CreatedAt = h_CreatedAt ch, dh_UpdatedAt = null_at (h_UpdatedAt ch), dh_UpdatedBy = toNullString (h_UpdatedBy ch),
     dh_Status = h_Status ch\<rparr>"

definition toChannel :: "dbChannel \<Rightarrow> Channel" where
  "toChannel ch = \<lparr>h_ID = dh_ID ch, h_Name = dh_Name ch, h_Tags = dh_Tags ch, h_ParentGroup = nullString (dh_ParentGroup ch),
     h_Domain = dh_Domain ch, h_Route = nullString (dh_Route ch), h_Metadata = dh_Metadata ch,
     h_CreatedBy = nullString (dh_CreatedBy ch), h_CreatedAt = dh_CreatedAt ch, h_UpdatedAt = at_null (dh_UpdatedAt ch),
     h_UpdatedBy = nullString (dh_UpdatedBy ch), h_Status = dh_Status ch\<rparr>"

definition channels_GetError :: "string \<Rightarrow> gerror option" where
  "channels_GetError cname =
     (if cname = ''unique_domain_route_not_null'' then Some errRouteNotAvailable
      else if cname = ''channels_pkey'' then Some (NewRequestError ''channel id already exists'') else None)"

abbreviation channels_eh :: "gerror \<Rightarrow> dberror \<Rightarrow> gerror" where
  "channels_eh \<equiv> eh_HandleError channels_GetError"

subsection \<open>Statements\<close>

definition channel_fits :: "dbChannel \<Rightarrow> bool" where
  "channel_fits r \<longleftrightarrow> length (dh_ID r) \<le> 36 \<and> length (dh_Name r) \<le> 1024 \<and> length (dh_Domain r) \<le> 36 \<and>
     fits_opt 36 (dh_ParentGroup r) \<and> fits_opt 36 (dh_Route r) \<and> fits_opt 254 (dh_UpdatedBy r)"

text \<open>\<open>created_by\<close> is not among the inserted columns. Routes are unique in a domain.\<close>

definition insert_channels :: "dbChannel list \<Rightarrow> (channel_tables, dbChannel list) stmt" where
  "insert_channels new t =
     (let stored = map (\<lambda>r. r\<lparr>dh_CreatedBy := None\<rparr>) new; all_rows = ht_channels t @ stored in
      if \<not> list_all channel_fits stored then Inl pg_truncated
      else if \<not> distinct (map dh_ID all_rows) then Inl (pg_unique ''channels_pkey'')
      else if \<not> distinct (map (\<lambda>r. (dh_Domain r, dh_Route r)) (filter (\<lambda>r. dh_Route r \<noteq> None) all_rows))
      then Inl (pg_unique ''unique_domain_route_not_null'')
      else Inr (t\<lparr>ht_channels := all_rows\<rparr>, stored))"

definition update_channels :: "(dbChannel \<Rightarrow> bool) \<Rightarrow> (dbChannel \<Rightarrow> dbChannel) \<Rightarrow> (channel_tables, dbChannel list) stmt" where
  "update_channels p f t =
     (let changed = map f (filter p (ht_channels t)) in
      if \<not> list_all channel_fits changed then Inl pg_truncated
      else Inr (t\<lparr>ht_channels := map (\<lambda>r. if p r then f r else r) (ht_channels t)\<rparr>, changed))"

definition delete_channels :: "string list \<Rightarrow> (channel_tables, nat) stmt" where
  "delete_channels ids t =
     (let gone = filter (\<lambda>r. dh_ID r \<in> set ids) (ht_channels t) in
      Inr (t\<lparr>ht_channels := filter (\<lambda>r. dh_ID r \<notin> set ids) (ht_channels t),
             ht_connections := filter (\<lambda>c. \<not> list_ex (\<lambda>r. dh_ID r = co_ChannelID c \<and> dh_Domain r = co_DomainID c) gone)
               (ht_connections t)\<rparr>, length gone))"

definition add_channel_connections :: "Connection list \<Rightarrow> (channel_tables, unit) stmt" where
  "add_channel_connections new t =
     (case insert_connections (\<lambda>c. list_ex (\<lambda>r. dh_ID r = co_ChannelID c \<and> dh_Domain r = co_DomainID c) (ht_channels t))
         (ht_connections t) new of
        Inl e \<Rightarrow> Inl e
      | Inr cs \<Rightarrow> Inr (t\<lparr>ht_connections := cs\<rparr>, ()))"

definition delete_channel_connections :: "(Connection \<Rightarrow> bool) \<Rightarrow> (channel_tables, unit) stmt" where
  "delete_channel_connections p t = Inr (t\<lparr>ht_connections := filter (\<lambda>c. \<not> p c) (ht_connections t)\<rparr>, ())"

section \<open>The repository\<close>

definition first_channel :: "(dberror \<Rightarrow> gerror) \<Rightarrow> dbChannel list \<Rightarrow> (channels_db, gerror, Channel) io" where
  "first_channel g rows = (case rows of
      [] \<Rightarrow> fail repoErrNotFound
    | r # _ \<Rightarrow> trying (driver (ret r)) g (\<lambda>dbch. ret (toChannel dbch)))"

definition chr_Save :: "Channel list \<Rightarrow> (channels_db, gerror, Channel list) io" where
  "chr_Save chs =
     trying (bind_rows chs (db_exec (insert_channels (map toDBChannel chs)))) (channels_eh repoErrCreateEntity) (\<lambda>rows.
     trying (scan_rows rows) (channels_eh repoErrFailedOpDB) (\<lambda>dbchs. ret (map toChannel dbchs)))"

definition chr_update :: "(dbChannel \<Rightarrow> bool) \<Rightarrow> (dbChannel \<Rightarrow> dbChannel) \<Rightarrow> (channels_db, gerror, Channel) io" where
  "chr_update p f =
     trying (db_exec (update_channels p f)) (channels_eh repoErrUpdateEntity) (first_channel (channels_eh repoErrUpdateEntity))"

abbreviation channel_touched :: "dbChannel \<Rightarrow> dbChannel \<Rightarrow> dbChannel" where
  "channel_touched dbch r \<equiv> r\<lparr>dh_UpdatedAt := dh_UpdatedAt dbch, dh_UpdatedBy := dh_UpdatedBy dbch\<rparr>"

abbreviation enabled_channel :: "string \<Rightarrow> dbChannel \<Rightarrow> bool" where
  "enabled_channel i r \<equiv> dh_ID r = i \<and> dh_Status r = EnabledStatus"

definition chr_Update :: "Channel \<Rightarrow> (channels_db, gerror, Channel) io" where
  "chr_Update channel =
     (let dbch = toDBChannel channel in
      chr_update (enabled_channel (h_ID channel))
        (\<lambda>r. channel_touched dbch (r\<lparr>dh_Name := (if h_Name channel \<noteq> [] then dh_Name dbch else dh_Name r),
           dh_Metadata := (if h_Metadata channel \<noteq> None then dh_Metadata dbch else dh_Metadata r)\<rparr>)))"

definition chr_UpdateTags :: "Channel \<Rightarrow> (channels_db, gerror, Channel) io" where
  "chr_UpdateTags channel =
     (let dbch = toDBChannel channel in
      chr_update (enabled_channel (h_ID channel)) (\<lambda>r. channel_touched dbch (r\<lparr>dh_Tags := dh_Tags dbch\<rparr>)))"

definition chr_ChangeStatus :: "Channel \<Rightarrow> (channels_db, gerror, Channel) io" where
  "chr_ChangeStatus channel =
     (let dbch = toDBChannel channel in
      chr_update (\<lambda>r. dh_ID r = h_ID channel) (\<lambda>r. channel_touched dbch (r\<lparr>dh_Status := dh_Status dbch\<rparr>)))"

definition chr_RetrieveByID :: "string \<Rightarrow> (channels_db, gerror, Channel) io" where
  "chr_RetrieveByID i =
     trying (db_query (\<lambda>t. filter (\<lambda>r. dh_ID r = i) (ht_channels t))) (channels_eh repoErrViewEntity)
       (first_channel (channels_eh repoErrViewEntity))"

text \<open>A null route equals nothing in SQL.\<close>

definition chr_RetrieveByRoute :: "string \<Rightarrow> string \<Rightarrow> (channels_db, gerror, Channel) io" where
  "chr_RetrieveByRoute route domainID =
     trying (db_query (\<lambda>t. filter (\<lambda>r. dh_Route r \<noteq> None \<and> dh_Route r = toNullString route \<and> dh_Domain r = domainID) (ht_channels t)))
       (channels_eh repoErrViewEntity) (first_channel (channels_eh repoErrViewEntity))"

definition chr_Remove :: "string list \<Rightarrow> (channels_db, gerror, unit) io" where
  "chr_Remove ids =
     trying (db_exec (delete_channels ids)) (channels_eh repoErrRemoveEntity) (\<lambda>rows.
     if rows = 0 then fail repoErrNotFound else ret ())"

definition chr_touch :: "gerror \<Rightarrow> string \<Rightarrow> (dbChannel \<Rightarrow> dbChannel) \<Rightarrow> (channels_db, gerror, unit) io" where
  "chr_touch wrapper i f =
     trying (db_exec (update_channels (\<lambda>r. dh_ID r = i) f)) (channels_eh wrapper) (\<lambda>rows.
     if rows = [] then fail repoErrNotFound else ret ())"

definition chr_SetParentGroup :: "Channel \<Rightarrow> (channels_db, gerror, unit) io" where
  "chr_SetParentGroup ch =
     (let dbch = toDBChannel ch in
      chr_touch repoErrUpdateEntity (h_ID ch) (\<lambda>r. channel_touched dbch (r\<lparr>dh_ParentGroup := dh_ParentGroup dbch\<rparr>)))"

definition chr_RemoveParentGroup :: "Channel \<Rightarrow> (channels_db, gerror, unit) io" where
  "chr_RemoveParentGroup ch =
     (let dbch = toDBChannel ch in
      chr_touch repoErrRemoveEntity (h_ID ch) (\<lambda>r. channel_touched dbch (r\<lparr>dh_ParentGroup := None\<rparr>)))"

definition chr_AddConnections :: "Connection list \<Rightarrow> (channels_db, gerror, unit) io" where
  "chr_AddConnections conns =
     trying (bind_rows conns (db_exec (add_channel_connections conns))) (channels_eh repoErrCreateEntity) ret"

text \<open>
  The text of the statement is built up across the loop: once a connection had a type, the
  condition on the type stays for all later ones.
\<close>

fun remove_steps :: "bool \<Rightarrow> Connection list \<Rightarrow> channel_tables step list" where
  "remove_steps typed [] = []"
| "remove_steps typed (c # conns) =
     (let typed' = (typed \<or> 0 < co_Type c) in
      (delete_channel_connections (\<lambda>r. co_ChannelID r = co_ChannelID c \<and> co_DomainID r = co_DomainID c \<and>
           co_ClientID r = co_ClientID c \<and> (typed' \<longrightarrow> co_Type r = co_Type c)),
       \<lambda>err. Wrap repoErrRemoveEntity (WrapDB (Foreign (connection_text c)) err)) # remove_steps typed' conns)"

definition chr_RemoveConnections :: "Connection list \<Rightarrow> (channels_db, gerror, unit) io" where
  "chr_RemoveConnections conns =
     in_tx_ret (channels_eh repoErrRemoveEntity) (remove_steps False conns) (channels_eh repoErrRemoveEntity) ()"

definition chr_CheckConnection :: "Connection \<Rightarrow> (channels_db, gerror, unit) io" where
  "chr_CheckConnection conn =
     trying (db_query (\<lambda>t. list_ex (\<lambda>r. r = conn) (ht_connections t))) (channels_eh repoErrViewEntity) (\<lambda>next.
     if \<not> next then fail repoErrNotFound else ret ())"

definition chr_ClientAuthorize :: "Connection \<Rightarrow> (channels_db, gerror, unit) io" where
  "chr_ClientAuthorize conn =
     trying (db_query (\<lambda>t. list_ex (\<lambda>r. r = conn) (ht_connections t))) (channels_eh repoErrViewEntity) (\<lambda>next.
     if \<not> next then fail repoErrNotFound else ret ())"

definition chr_ChannelConnectionsCount :: "string \<Rightarrow> (channels_db, gerror, nat) io" where
  "chr_ChannelConnectionsCount i =
     trying (Total (\<lambda>t. length (filter (\<lambda>c. co_ChannelID c = i) (ht_connections t)))) (channels_eh repoErrViewEntity) ret"

definition chr_DoesChannelHaveConnections :: "string \<Rightarrow> (channels_db, gerror, bool) io" where
  "chr_DoesChannelHaveConnections i =
     trying (db_query (\<lambda>t. list_ex (\<lambda>c. co_ChannelID c = i) (ht_connections t))) (channels_eh repoErrViewEntity) ret"

definition chr_RemoveClientConnections :: "string \<Rightarrow> (channels_db, gerror, unit) io" where
  "chr_RemoveClientConnections clientID =
     trying (db_exec (delete_channel_connections (\<lambda>c. co_ClientID c = clientID))) (channels_eh repoErrRemoveEntity) ret"

definition chr_RemoveChannelConnections :: "string \<Rightarrow> (channels_db, gerror, unit) io" where
  "chr_RemoveChannelConnections channelID =
     trying (db_exec (delete_channel_connections (\<lambda>c. co_ChannelID c = channelID))) (channels_eh repoErrRemoveEntity) ret"

text \<open>The query does not select the route.\<close>

definition chr_RetrieveParentGroupChannels :: "string \<Rightarrow> (channels_db, gerror, Channel list) io" where
  "chr_RetrieveParentGroupChannels parentGroupID =
     trying (db_query (\<lambda>t. map (\<lambda>r. r\<lparr>dh_Route := None\<rparr>)
         (filter (\<lambda>r. dh_ParentGroup r \<noteq> None \<and> dh_ParentGroup r = toNullString parentGroupID) (ht_channels t))))
       (channels_eh repoErrViewEntity) (\<lambda>rows.
     trying (scan_rows rows) (channels_eh repoErrViewEntity) (\<lambda>dbchs. ret (map toChannel dbchs)))"

definition chr_UnsetParentGroupFromChannels :: "string \<Rightarrow> (channels_db, gerror, unit) io" where
  "chr_UnsetParentGroupFromChannels parentGroupID =
     trying (db_exec (update_channels (\<lambda>r. dh_ParentGroup r \<noteq> None \<and> dh_ParentGroup r = toNullString parentGroupID)
         (\<lambda>r. r\<lparr>dh_ParentGroup := None\<rparr>))) (channels_eh repoErrRemoveEntity) (\<lambda>_. ret ())"

section \<open>The cache of routes\<close>

record 'c channelsCache =
  chc_client :: "'c redis"
  chc_duration :: int

definition ErrEmptyDomainID :: gerror where "ErrEmptyDomainID = New ''domain ID is empty''"
definition ErrEmptyChannelID :: gerror where "ErrEmptyChannelID = New ''channel ID is empty''"
definition ErrEmptyChannelRoute :: gerror where "ErrEmptyChannelRoute = New ''channel route is empty''"

definition encodeKey :: "string \<Rightarrow> string \<Rightarrow> gerror + string" where
  "encodeKey domainID channelRoute =
     (if domainID = [] then Inl ErrEmptyDomainID else if channelRoute = [] then Inl ErrEmptyChannelRoute
      else Inr (domainID @ '':'' @ channelRoute))"

definition chc_Save :: "'c channelsCache \<Rightarrow> string \<Rightarrow> string \<Rightarrow> string \<Rightarrow> ('c, gerror, unit) io" where
  "chc_Save cc route domainID channelID =
     (case encodeKey domainID route of
        Inl err \<Rightarrow> fail (Wrap repoErrCreateEntity err)
      | Inr key \<Rightarrow>
          if channelID = [] then fail (Wrap repoErrCreateEntity ErrEmptyChannelID)
          else trying (r_Set (chc_client cc) key channelID (chc_duration cc)) (Wrap repoErrCreateEntity) ret)"

definition chc_ID :: "'c channelsCache \<Rightarrow> string \<Rightarrow> string \<Rightarrow> ('c, gerror, string) io" where
  "chc_ID cc channelRoute domainID =
     (case encodeKey domainID channelRoute of
        Inl err \<Rightarrow> fail (Wrap repoErrNotFound err)
      | Inr key \<Rightarrow> trying (r_Get (chc_client cc) key) (Wrap repoErrNotFound \<circ> redis_go) ret)"

definition chc_Remove :: "'c channelsCache \<Rightarrow> string \<Rightarrow> string \<Rightarrow> ('c, gerror, unit) io" where
  "chc_Remove cc channelRoute domainID =
     (case encodeKey domainID channelRoute of
        Inl err \<Rightarrow> fail (Wrap repoErrRemoveEntity err)
      | Inr key \<Rightarrow> trying (r_Del (chc_client cc) key) (Wrap repoErrRemoveEntity) ret)"

section \<open>The services\<close>

record 'w ChannelsRepository =
  hr_Save :: "Channel list \<Rightarrow> ('w, gerror, Channel list) io"
  hr_Update :: "Channel \<Rightarrow> ('w, gerror, Channel) io"
  hr_UpdateTags :: "Channel \<Rightarrow> ('w, gerror, Channel) io"
  hr_ChangeStatus :: "Channel \<Rightarrow> ('w, gerror, Channel) io"
  hr_RetrieveByID :: "string \<Rightarrow> ('w, gerror, Channel) io"
  hr_RetrieveByRoute :: "string \<Rightarrow> string \<Rightarrow> ('w, gerror, Channel) io"
  hr_Remove :: "string list \<Rightarrow> ('w, gerror, unit) io"
  hr_SetParentGroup :: "Channel \<Rightarrow> ('w, gerror, unit) io"
  hr_RemoveParentGroup :: "Channel \<Rightarrow> ('w, gerror, unit) io"
  hr_AddConnections :: "Connection list \<Rightarrow> ('w, gerror, unit) io"
  hr_RemoveConnections :: "Connection list \<Rightarrow> ('w, gerror, unit) io"
  hr_CheckConnection :: "Connection \<Rightarrow> ('w, gerror, unit) io"
  hr_ClientAuthorize :: "Connection \<Rightarrow> ('w, gerror, unit) io"
  hr_DoesChannelHaveConnections :: "string \<Rightarrow> ('w, gerror, bool) io"
  hr_RemoveClientConnections :: "string \<Rightarrow> ('w, gerror, unit) io"
  hr_RetrieveParentGroupChannels :: "string \<Rightarrow> ('w, gerror, Channel list) io"
  hr_UnsetParentGroupFromChannels :: "string \<Rightarrow> ('w, gerror, unit) io"

text \<open>The clients, groups and domains services are called over gRPC.\<close>

record 'w channels_service =
  hs_repo :: "'w ChannelsRepository"
  hs_cache_Save :: "string \<Rightarrow> string \<Rightarrow> string \<Rightarrow> ('w, gerror, unit) io"
  hs_cache_ID :: "string \<Rightarrow> string \<Rightarrow> ('w, gerror, string) io"
  hs_cache_Remove :: "string \<Rightarrow> string \<Rightarrow> ('w, gerror, unit) io"
  hs_AddPolicies :: "Policy list \<Rightarrow> ('w, gerror, unit) io"
  hs_DeletePolicies :: "Policy list \<Rightarrow> ('w, gerror, unit) io"
  hs_CheckPolicy :: "Policy \<Rightarrow> 'w \<Rightarrow> gerror option \<times> 'w"
  hs_RetrieveClient :: "string \<Rightarrow> ('w, gerror, EntityBasic) io"
  hs_clients_AddConnections :: "Connection list \<Rightarrow> ('w, gerror, unit) io"
  hs_clients_RemoveConnections :: "Connection list \<Rightarrow> ('w, gerror, unit) io"
  hs_clients_RemoveChannelConnections :: "string \<Rightarrow> ('w, gerror, unit) io"
  hs_RetrieveGroup :: "string \<Rightarrow> ('w, gerror, EntityBasic) io"
  hs_domain_RetrieveStatus :: "string \<Rightarrow> ('w, gerror, Status) io"
  hs_idProvider :: "('w, gerror, string) io"
  hs_now :: "'w \<Rightarrow> int \<times> 'w"
  hs_roles :: "'w ProvisionManageService"

definition errAddConnectionsClients :: gerror where "errAddConnectionsClients = New ''failed to add connections in clients service''"
definition errRemoveConnectionsClients :: gerror where "errRemoveConnectionsClients = New ''failed to remove connections from clients service''"
definition channelErrSetParentGroup :: gerror where "channelErrSetParentGroup = New ''channel already have parent''"
definition channelErrSetSameParentGroup :: gerror where "channelErrSetSameParentGroup = New ''channel already assigned to the parent group''"
definition ErrEnableChannel :: gerror where "ErrEnableChannel = Foreign ''failed to enable channel''"
definition ErrDisableChannel :: gerror where "ErrDisableChannel = Foreign ''failed to disable channel''"
definition errDisabledDomain :: gerror where "errDisabledDomain = New ''domain is disabled or frozen''"

subsection \<open>Channels\<close>

definition new_channel :: "'w channels_service \<Rightarrow> Session \<Rightarrow> Channel \<Rightarrow> ('w, gerror, Channel) io" where
  "new_channel svc session c =
     pass (if h_ID c = [] then hs_idProvider svc else ret (h_ID c)) (\<lambda>clientID.
     if h_Status c \<noteq> DisabledStatus \<and> h_Status c \<noteq> EnabledStatus then fail svcErrInvalidStatus
     else observe (hs_now svc) (\<lambda>now. ret (c\<lparr>h_ID := clientID, h_Domain := s_DomainID session, h_CreatedAt := now\<rparr>)))"

fun new_channels :: "'w channels_service \<Rightarrow> Session \<Rightarrow> Channel list \<Rightarrow> ('w, gerror, Channel list) io" where
  "new_channels svc session [] = ret []"
| "new_channels svc session (c # chs) =
     pass (new_channel svc session c) (\<lambda>c'. pass (new_channels svc session chs) (\<lambda>chs'. ret (c' # chs')))"

definition CreateChannels :: "'w channels_service \<Rightarrow> Session \<Rightarrow> Channel list \<Rightarrow> ('w, gerror, Channel list \<times> RoleProvision list) io" where
  "CreateChannels svc session chs =
     pass (new_channels svc session chs) (\<lambda>reChs.
     trying (hr_Save (hs_repo svc) reChs)
       (\<lambda>err. if Contains err errRouteNotAvailable then errRouteNotAvailable else Wrap svcErrCreateEntity err) (\<lambda>savedChs.
     let chIDs = map h_ID savedChs in
     deferring (hr_Remove (hs_repo svc) chIDs) (\<lambda>retErr errRollBack. Wrap retErr (Wrap svcErrRollbackRepo errRollBack))
       (trying (AddNewEntitiesRoles (hs_roles svc) (s_DomainID session) (s_UserID session) chIDs
            (map (domain_policy (s_DomainID session) ChannelType) chIDs) [(BuiltInRoleAdmin, [s_UserID session])])
          (Wrap svcErrAddPolicies) (\<lambda>rp. ret (savedChs, rp)))))"

definition UpdateChannel :: "'w channels_service \<Rightarrow> Session \<Rightarrow> Channel \<Rightarrow> ('w, gerror, Channel) io" where
  "UpdateChannel svc session ch =
     observe (hs_now svc) (\<lambda>now.
     trying (hr_Update (hs_repo svc) (Channel0\<lparr>h_ID := h_ID ch, h_Name := h_Name ch, h_Metadata := h_Metadata ch,
         h_UpdatedAt := now, h_UpdatedBy := s_UserID session\<rparr>)) (Wrap svcErrUpdateEntity) ret)"

definition UpdateChannelTags :: "'w channels_service \<Rightarrow> Session \<Rightarrow> Channel \<Rightarrow> ('w, gerror, Channel) io" where
  "UpdateChannelTags svc session ch =
     observe (hs_now svc) (\<lambda>now.
     trying (hr_UpdateTags (hs_repo svc) (Channel0\<lparr>h_ID := h_ID ch, h_Tags := h_Tags ch, h_UpdatedAt := now,
         h_UpdatedBy := s_UserID session\<rparr>)) (Wrap svcErrUpdateEntity) ret)"

definition changeChannelStatus :: "'w channels_service \<Rightarrow> string \<Rightarrow> Channel \<Rightarrow> ('w, gerror, Channel) io" where
  "changeChannelStatus svc userID channel =
     trying (hr_RetrieveByID (hs_repo svc) (h_ID channel)) (Wrap svcErrViewEntity) (\<lambda>dbchannel.
     if h_Status dbchannel = h_Status channel then fail svcErrStatusAlreadyAssigned
     else trying (hr_ChangeStatus (hs_repo svc) (channel\<lparr>h_UpdatedBy := userID\<rparr>)) (Wrap svcErrUpdateEntity) ret)"

definition EnableChannel :: "'w channels_service \<Rightarrow> Session \<Rightarrow> string \<Rightarrow> ('w, gerror, Channel) io" where
  "EnableChannel svc session i =
     observe (hs_now svc) (\<lambda>now.
     trying (changeChannelStatus svc (s_UserID session) (Channel0\<lparr>h_ID := i, h_Status := EnabledStatus, h_UpdatedAt := now\<rparr>))
       (Wrap ErrEnableChannel) ret)"

definition DisableChannel :: "'w channels_service \<Rightarrow> Session \<Rightarrow> string \<Rightarrow> ('w, gerror, Channel) io" where
  "DisableChannel svc session i =
     observe (hs_now svc) (\<lambda>now.
     trying (changeChannelStatus svc (s_UserID session) (Channel0\<lparr>h_ID := i, h_Status := DisabledStatus, h_UpdatedAt := now\<rparr>))
       (Wrap ErrDisableChannel) ret)"

definition ViewChannel ::
  "'w channels_service \<Rightarrow> (string \<Rightarrow> string \<Rightarrow> ('w, gerror, Channel) io) \<Rightarrow> Session \<Rightarrow> string \<Rightarrow> bool \<Rightarrow> ('w, gerror, Channel) io" where
  "ViewChannel svc retrieveByIDWithRoles session i withRoles =
     trying (if withRoles then retrieveByIDWithRoles i (s_UserID session) else hr_RetrieveByID (hs_repo svc) i)
       (Wrap svcErrViewEntity) ret"

definition RemoveChannel :: "'w channels_service \<Rightarrow> Session \<Rightarrow> string \<Rightarrow> ('w, gerror, unit) io" where
  "RemoveChannel svc session i =
     trying (hr_DoesChannelHaveConnections (hs_repo svc) i) (Wrap svcErrRemoveEntity) (\<lambda>ok.
     pass (if ok then trying (hs_clients_RemoveChannelConnections svc i) (Wrap svcErrRemoveEntity) ret else ret ()) (\<lambda>_.
     trying (hr_ChangeStatus (hs_repo svc) (Channel0\<lparr>h_ID := i, h_Status := DeletedStatus\<rparr>)) (Wrap svcErrRemoveEntity) (\<lambda>ch.
     pass (if h_Route ch \<noteq> [] then trying (hs_cache_Remove svc (h_Route ch) (h_Domain ch)) (Wrap svcErrRemoveEntity) ret else ret ()) (\<lambda>_.
     trying (RemoveEntitiesRoles (hs_roles svc) (s_DomainID session) (s_DomainUserID session) [i]
         [Policy0\<lparr>p_SubjectType := ChannelType, p_Subject := i\<rparr>, Policy0\<lparr>p_ObjectType := ChannelType, p_Object := i\<rparr>]
         (domain_policy (s_DomainID session) ChannelType i #
          (if h_ParentGroup ch \<noteq> [] then [parent_policy (h_ParentGroup ch) ChannelType i] else [])))
       (Wrap svcErrDeletePolicies) (\<lambda>_.
     trying (hr_Remove (hs_repo svc) [i]) (Wrap svcErrRemoveEntity) ret)))))"

subsection \<open>Connections\<close>

text \<open>The checks of the channels and of the clients, with what a failure is wrapped in.\<close>

fun check_channels :: "'w channels_service \<Rightarrow> Session \<Rightarrow> gerror \<Rightarrow> bool \<Rightarrow> string list \<Rightarrow> ('w, gerror, unit) io" where
  "check_channels svc session wrapper enabled [] = ret ()"
| "check_channels svc session wrapper enabled (chID # chIDs) =
     trying (hr_RetrieveByID (hs_repo svc) chID) (Wrap wrapper) (\<lambda>c.
     if enabled \<and> h_Status c \<noteq> EnabledStatus
     then fail (Wrap wrapper (Foreign (''channel id '' @ chID @ '' is not in enabled state'')))
     else if h_Domain c \<noteq> s_DomainID session
     then fail (Wrap wrapper (Foreign (''channel id '' @ chID @ '' has invalid domain id'')))
     else check_channels svc session wrapper enabled chIDs)"

fun check_clients :: "'w channels_service \<Rightarrow> Session \<Rightarrow> gerror \<Rightarrow> bool \<Rightarrow> string list \<Rightarrow> ('w, gerror, unit) io" where
  "check_clients svc session wrapper enabled [] = ret ()"
| "check_clients svc session wrapper enabled (thID # thIDs) =
     trying (hs_RetrieveClient svc thID) (Wrap wrapper) (\<lambda>resp.
     if enabled \<and> eb_Status resp \<noteq> ucast EnabledStatus
     then fail (Wrap wrapper (Foreign (''client id '' @ thID @ '' is not in enabled state'')))
     else if eb_Domain resp \<noteq> s_DomainID session
     then fail (Wrap wrapper (Foreign (''client id '' @ thID @ '' has invalid domain id'')))
     else check_clients svc session wrapper enabled thIDs)"

definition all_connections :: "string \<Rightarrow> string list \<Rightarrow> string list \<Rightarrow> ConnType list \<Rightarrow> Connection list" where
  "all_connections domainID chIDs thIDs connTypes =
     concat (map (\<lambda>chID. concat (map (\<lambda>thID. map (\<lambda>connType.
       \<lparr>co_ClientID = thID, co_ChannelID = chID, co_DomainID = domainID, co_Type = connType\<rparr>) connTypes) thIDs)) chIDs)"

definition already_connected :: "Connection \<Rightarrow> gerror" where
  "already_connected conn = Wrap svcErrConflict (Foreign (''channel '' @ co_ChannelID conn @ '' and client '' @ co_ClientID conn @
     '' are already connected for type '' @ ConnType_String (co_Type conn) @ '' in domain '' @ co_DomainID conn @ '' ''))"

fun check_not_connected :: "'w channels_service \<Rightarrow> Connection list \<Rightarrow> ('w, gerror, unit) io" where
  "check_not_connected svc [] = ret ()"
| "check_not_connected svc (conn # conns) = (\<lambda>w. case hr_CheckConnection (hs_repo svc) conn w of
      (Inr u, w') \<Rightarrow> (Inl (already_connected conn), w')
    | (Inl err, w') \<Rightarrow> if err \<noteq> repoErrNotFound then (Inl (Wrap svcErrCreateEntity err), w')
        else check_not_connected svc conns w')"

definition Connect :: "'w channels_service \<Rightarrow> Session \<Rightarrow> string list \<Rightarrow> string list \<Rightarrow> ConnType list \<Rightarrow> ('w, gerror, unit) io" where
  "Connect svc session chIDs thIDs connTypes =
     pass (check_channels svc session svcErrCreateEntity True chIDs) (\<lambda>_.
     pass (check_clients svc session svcErrCreateEntity True thIDs) (\<lambda>_.
     let conns = all_connections (s_DomainID session) chIDs thIDs connTypes in
     pass (check_not_connected svc conns) (\<lambda>_.
     trying (hs_clients_AddConnections svc conns) (\<lambda>err. Wrap svcErrCreateEntity (Wrap errAddConnectionsClients err)) (\<lambda>_.
     trying (hr_AddConnections (hs_repo svc) conns) (Wrap svcErrCreateEntity) ret))))"

definition Disconnect :: "'w channels_service \<Rightarrow> Session \<Rightarrow> string list \<Rightarrow> string list \<Rightarrow> ConnType list \<Rightarrow> ('w, gerror, unit) io" where
  "Disconnect svc session chIDs thIDs connTypes =
     pass (check_channels svc session svcErrRemoveEntity False chIDs) (\<lambda>_.
     pass (check_clients svc session svcErrRemoveEntity False thIDs) (\<lambda>_.
     let conns = all_connections (s_DomainID session) chIDs thIDs connTypes in
     trying (hs_clients_RemoveConnections svc conns) (\<lambda>err. Wrap svcErrRemoveEntity (Wrap errRemoveConnectionsClients err)) (\<lambda>_.
     trying (hr_RemoveConnections (hs_repo svc) conns) (Wrap svcErrRemoveEntity) ret)))"

subsection \<open>Parent groups\<close>

definition channel_SetParentGroup :: "'w channels_service \<Rightarrow> Session \<Rightarrow> string \<Rightarrow> string \<Rightarrow> ('w, gerror, unit) io" where
  "channel_SetParentGroup svc session parentGroupID i =
     trying (hr_RetrieveByID (hs_repo svc) i) (Wrap svcErrUpdateEntity) (\<lambda>ch.
     trying (hs_RetrieveGroup svc parentGroupID) (Wrap svcErrUpdateEntity) (\<lambda>resp.
     if eb_Domain resp \<noteq> s_DomainID session
     then fail (Wrap svcErrUpdateEntity (Foreign (''parent group id '' @ parentGroupID @ '' has invalid domain id'')))
     else if eb_Status resp \<noteq> ucast EnabledStatus
     then fail (Wrap svcErrUpdateEntity (Foreign (''parent group id '' @ parentGroupID @ '' is not in enabled state'')))
     else if h_ParentGroup ch = parentGroupID then fail (Wrap svcErrConflict channelErrSetSameParentGroup)
     else if h_ParentGroup ch \<noteq> [] then fail (Wrap svcErrConflict channelErrSetParentGroup)
     else
       let pols = [(parent_policy parentGroupID ChannelType i)\<lparr>p_Domain := s_DomainID session\<rparr>] in
       trying (hs_AddPolicies svc pols) (Wrap svcErrAddPolicies) (\<lambda>_.
       deferring (hs_DeletePolicies svc pols) rollback_tx
         (observe (hs_now svc) (\<lambda>now.
            trying (hr_SetParentGroup (hs_repo svc) (Channel0\<lparr>h_ID := i, h_ParentGroup := parentGroupID,
                h_UpdatedBy := s_UserID session, h_UpdatedAt := now\<rparr>)) (Wrap svcErrUpdateEntity) ret)))))"

definition channel_RemoveParentGroup :: "'w channels_service \<Rightarrow> Session \<Rightarrow> string \<Rightarrow> ('w, gerror, unit) io" where
  "channel_RemoveParentGroup svc session i =
     trying (hr_RetrieveByID (hs_repo svc) i) (Wrap svcErrUpdateEntity) (\<lambda>ch.
     if h_ParentGroup ch \<noteq> [] then
       let pols = [(parent_policy (h_ParentGroup ch) ChannelType i)\<lparr>p_Domain := s_DomainID session\<rparr>] in
       trying (hs_DeletePolicies svc pols) (Wrap svcErrDeletePolicies) (\<lambda>_.
       deferring (hs_AddPolicies svc pols) rollback_tx
         (observe (hs_now svc) (\<lambda>now.
            hr_RemoveParentGroup (hs_repo svc) (Channel0\<lparr>h_ID := i, h_UpdatedBy := s_UserID session, h_UpdatedAt := now\<rparr>))))
     else ret ())"

subsection \<open>The private service\<close>

record ChannelAuthzReq =
  ar_DomainID :: string
  ar_ChannelID :: string
  ar_ClientID :: string
  ar_ClientType :: string
  ar_Type :: ConnType

definition chp_Authorize :: "'w channels_service \<Rightarrow> ChannelAuthzReq \<Rightarrow> ('w, gerror, unit) io" where
  "chp_Authorize svc req =
     trying (hs_domain_RetrieveStatus svc (ar_DomainID req)) (Wrap svcErrAuthorization) (\<lambda>status.
     if status \<noteq> EnabledStatus then fail (Wrap svcErrAuthorization errDisabledDomain)
     else if ar_ClientType req = UserType then
       (case ConnType_Permission (ar_Type req) of
          Inl err \<Rightarrow> fail err
        | Inr permission \<Rightarrow>
            observe (hs_CheckPolicy svc (Policy0\<lparr>p_Subject := ar_ClientID req, p_SubjectType := UserType,
                p_Object := ar_ChannelID req, p_Permission := permission, p_ObjectType := ChannelType\<rparr>)) (\<lambda>err.
            guarded (map_option (Wrap svcErrAuthorization) err) (ret ())))
     else if ar_ClientType req = ClientType then
       trying (hr_ClientAuthorize (hs_repo svc) \<lparr>co_ClientID = ar_ClientID req, co_ChannelID = ar_ChannelID req,
           co_DomainID = ar_DomainID req, co_Type = ar_Type req\<rparr>) (Wrap svcErrAuthorization) ret
     else fail svcErrAuthentication)"

definition chp_RemoveClientConnections :: "'w channels_service \<Rightarrow> string \<Rightarrow> ('w, gerror, unit) io" where
  "chp_RemoveClientConnections svc clientID = hr_RemoveClientConnections (hs_repo svc) clientID"

definition chp_UnsetParentGroupFromChannels :: "'w channels_service \<Rightarrow> string \<Rightarrow> ('w, gerror, unit) io" where
  "chp_UnsetParentGroupFromChannels svc parentGroupID =
     trying (hr_RetrieveParentGroupChannels (hs_repo svc) parentGroupID) (Wrap svcErrViewEntity) (\<lambda>chs.
     if length chs > 0 then
       let prs = map (\<lambda>ch. parent_policy (h_ParentGroup ch) ChannelType (h_ID ch)) chs in
       trying (hs_DeletePolicies svc prs) (Wrap svcErrDeletePolicies) (\<lambda>_.
       deferring (hs_AddPolicies svc prs) (\<lambda>retErr _. retErr)
         (trying (hr_UnsetParentGroupFromChannels (hs_repo svc) parentGroupID) (Wrap svcErrRemoveEntity) ret))
     else ret ())"

definition chp_RetrieveByID :: "'w channels_service \<Rightarrow> string \<Rightarrow> ('w, gerror, Channel) io" where
  "chp_RetrieveByID svc i = hr_RetrieveByID (hs_repo svc) i"

definition chp_RetrieveIDByRoute :: "'w channels_service \<Rightarrow> string \<Rightarrow> string \<Rightarrow> ('w, gerror, string) io" where
  "chp_RetrieveIDByRoute svc route domainID w =
     (case hs_cache_ID svc route domainID w of
        (Inr i, w') \<Rightarrow> (Inr i, w')
      | (Inl _, w') \<Rightarrow>
          trying (hr_RetrieveByRoute (hs_repo svc) route domainID) (Wrap svcErrViewEntity) (\<lambda>chn.
          trying (hs_cache_Save svc route domainID (h_ID chn)) (Wrap svcErrUpdateEntity) (\<lambda>_. ret (h_ID chn))) w')"

end
