(* ===== verification/Transport.thy ===== *)
theory Transport
  imports Channels FluxMQ
begin

text \<open>
  The gRPC interfaces of the clients and channels services: the requests and responses of
  \<open>clients/api/grpc\<close> and \<open>channels/api/grpc\<close>, the endpoints, and the errors, which a server
  encodes as a status and a client decodes again. Messages carry the fields as they are; the
  connection type travels as 32 bits.
\<close>

section \<open>Errors over gRPC\<close>

definition ErrInvalidAuthKey :: gerror where "ErrInvalidAuthKey = New ''invalid auth key''"
definition ErrMissingMemberType :: gerror where "ErrMissingMemberType = NewRequestError ''missing group member type''"
definition ErrMissingPolicySub :: gerror where "ErrMissingPolicySub = NewRequestError ''malformed policy subject''"
definition ErrMissingPolicyObj :: gerror where "ErrMissingPolicyObj = NewRequestError ''malformed policy object''"
definition ErrMalformedPolicyAct :: gerror where "ErrMalformedPolicyAct = NewRequestError ''malformed policy action''"
definition ErrMissingEmail :: gerror where "ErrMissingEmail = NewRequestError ''missing email''"
definition ErrBearerToken :: gerror where "ErrBearerToken = NewAuthNError ''missing or invalid bearer user token''"
definition ErrMissingRoute :: gerror where "ErrMissingRoute = NewRequestError ''missing route''"
definition ErrMissingDomainID :: gerror where "ErrMissingDomainID = NewRequestError ''missing domainID''"
definition errDomainID :: gerror where "errDomainID = New ''domain id required for users''"
definition ErrUnidentified :: gerror where "ErrUnidentified = New ''unidentified error''"

datatype grpc_code =
    OK | InvalidArgument | NotFound | AlreadyExists | PermissionDenied | FailedPrecondition | Internal | Unauthenticated
  | OtherCode string

type_synonym grpc_status = "grpc_code \<times> string"

fun code_String :: "grpc_code \<Rightarrow> string" where
  "code_String OK = ''OK''"
| "code_String InvalidArgument = ''InvalidArgument''"
| "code_String NotFound = ''NotFound''"
| "code_String AlreadyExists = ''AlreadyExists''"
| "code_String PermissionDenied = ''PermissionDenied''"
| "code_String FailedPrecondition = ''FailedPrecondition''"
| "code_String Internal = ''Internal''"
| "code_String Unauthenticated = ''Unauthenticated''"
| "code_String (OtherCode s) = s"

text \<open>Equality of errors compares pointers in Go and values here. A nil error does not get here.\<close>

definition grpc_encodeError :: "gerror \<Rightarrow> grpc_status" where
  "grpc_encodeError err =
     (if Contains err errMalformedEntity \<or>
         err \<in> {ErrInvalidAuthKey, ErrMissingID, ErrMissingMemberType, ErrMissingPolicySub, ErrMissingPolicyObj, ErrMalformedPolicyAct}
      then (InvalidArgument, ErrorStr err)
      else if Contains err svcErrAuthentication \<or> Contains err ErrKeyExpired \<or> err \<in> {ErrMissingEmail, ErrBearerToken}
      then (Unauthenticated, ErrorStr err)
      else if Contains err svcErrAuthorization then (PermissionDenied, ErrorStr err)
      else (Internal, ErrorStr err))"

definition grpc_decodeError :: "grpc_status \<Rightarrow> gerror option" where
  "grpc_decodeError st = (case st of (code, msg) \<Rightarrow>
     (case code of
        Unauthenticated \<Rightarrow> Some (Wrap svcErrAuthentication (New msg))
      | PermissionDenied \<Rightarrow> Some (Wrap svcErrAuthorization (New msg))
      | InvalidArgument \<Rightarrow> Some (Wrap errMalformedEntity (New msg))
      | FailedPrecondition \<Rightarrow> Some (Wrap errMalformedEntity (New msg))
      | NotFound \<Rightarrow> Some (Wrap svcErrNotFound (New msg))
      | AlreadyExists \<Rightarrow> Some (Wrap svcErrConflict (New msg))
      | OK \<Rightarrow> if msg \<noteq> [] then Some (Wrap ErrUnidentified (New msg)) else None
      | _ \<Rightarrow> Some (Wrap (Foreign (''unexpected gRPC status: '' @ code_String code @ '' (status code:'' @ code_String code @ '')''))
               (New msg))))"

text \<open>What a caller sees of an error of the service it calls.\<close>

definition over_wire :: "gerror \<Rightarrow> gerror" where
  "over_wire err = (case grpc_decodeError (grpc_encodeError err) of Some err' \<Rightarrow> err' | None \<Rightarrow> err)"

lemma over_wire_some: "grpc_decodeError (grpc_encodeError err) = Some (over_wire err)"
  by (simp add: over_wire_def grpc_decodeError_def grpc_encodeError_def)

definition wired :: "('w, gerror, 'a) io \<Rightarrow> ('w, gerror, 'a) io" where
  "wired m = trying m over_wire ret"

section \<open>The clients service\<close>

definition authenticateEndpoint :: "'w clients_service \<Rightarrow> string \<Rightarrow> ('w, gerror, bool \<times> string) io" where
  "authenticateEndpoint svc token = pass (clp_Authenticate svc token) (\<lambda>i. ret (True, i))"

definition clients_retrieveEntityEndpoint :: "'w clients_service \<Rightarrow> string \<Rightarrow> ('w, gerror, EntityBasic) io" where
  "clients_retrieveEntityEndpoint svc i =
     pass (clp_RetrieveById svc i) (\<lambda>client.
     ret \<lparr>eb_ID = c_ID client, eb_Domain = c_Domain client, eb_ParentGroup = c_ParentGroup client, eb_Status = ucast (c_Status client)\<rparr>)"

text \<open>The types of all connections are checked before any of them is used.\<close>

record grpc_connection =
  gc_ClientID :: string
  gc_ChannelID :: string
  gc_DomainID :: string
  gc_Type :: "32 word"

fun decodeConnections :: "grpc_connection list \<Rightarrow> gerror + Connection list" where
  "decodeConnections [] = Inr []"
| "decodeConnections (c # cs) =
     (let connType = ucast (gc_Type c) :: ConnType in
      case CheckConnType connType of
        Some err \<Rightarrow> Inl err
      | None \<Rightarrow> (case decodeConnections cs of
           Inl err \<Rightarrow> Inl err
         | Inr conns \<Rightarrow> Inr (\<lparr>co_ClientID = gc_ClientID c, co_ChannelID = gc_ChannelID c, co_DomainID = gc_DomainID c,
             co_Type = connType\<rparr> # conns)))"

definition encodeConnection :: "Connection \<Rightarrow> grpc_connection" where
  "encodeConnection r = \<lparr>gc_ClientID = co_ClientID r, gc_ChannelID = co_ChannelID r, gc_DomainID = co_DomainID r,
     gc_Type = ucast (co_Type r)\<rparr>"

definition addConnectionsEndpoint :: "'w clients_service \<Rightarrow> grpc_connection list \<Rightarrow> ('w, gerror, unit) io" where
  "addConnectionsEndpoint svc req =
     (case decodeConnections req of Inl err \<Rightarrow> fail err | Inr conns \<Rightarrow> clp_AddConnections svc conns)"

definition removeConnectionsEndpoint :: "'w clients_service \<Rightarrow> grpc_connection list \<Rightarrow> ('w, gerror, unit) io" where
  "removeConnectionsEndpoint svc req =
     (case decodeConnections req of Inl err \<Rightarrow> fail err | Inr conns \<Rightarrow> clp_RemoveConnections svc conns)"

text \<open>The client stub: its answer leaves out the parent group.\<close>

definition client_Authenticate :: "'w clients_service \<Rightarrow> string \<Rightarrow> ('w, gerror, bool \<times> string) io" where
  "client_Authenticate svc token = wired (authenticateEndpoint svc token)"

definition client_RetrieveEntity :: "'w clients_service \<Rightarrow> string \<Rightarrow> ('w, gerror, EntityBasic) io" where
  "client_RetrieveEntity svc i =
     pass (wired (clients_retrieveEntityEndpoint svc i)) (\<lambda>ebr.
     ret \<lparr>eb_ID = eb_ID ebr, eb_Domain = eb_Domain ebr, eb_ParentGroup = [], eb_Status = ucast (ucast (eb_Status ebr) :: Status)\<rparr>)"

definition client_AddConnections :: "'w clients_service \<Rightarrow> Connection list \<Rightarrow> ('w, gerror, unit) io" where
  "client_AddConnections svc conns = wired (addConnectionsEndpoint svc (map encodeConnection conns))"

definition client_RemoveConnections :: "'w clients_service \<Rightarrow> Connection list \<Rightarrow> ('w, gerror, unit) io" where
  "client_RemoveConnections svc conns = wired (removeConnectionsEndpoint svc (map encodeConnection conns))"

definition client_RemoveChannelConnections :: "'w clients_service \<Rightarrow> string \<Rightarrow> ('w, gerror, unit) io" where
  "client_RemoveChannelConnections svc channelID = wired (clp_RemoveChannelConnections svc channelID)"

definition client_UnsetParentGroup :: "'w clients_service \<Rightarrow> string \<Rightarrow> ('w, gerror, unit) io" where
  "client_UnsetParentGroup svc parentGroupID = wired (clp_UnsetParentGroupFromClient svc parentGroupID)"

section \<open>The channels service\<close>

definition decodeAuthorizeRequest :: "AuthzReq \<Rightarrow> gerror + ChannelAuthzReq" where
  "decodeAuthorizeRequest req =
     (let connType = ucast (a_Type req) :: ConnType in
      case CheckConnType connType of
        Some err \<Rightarrow> Inl err
      | None \<Rightarrow> Inr \<lparr>ar_DomainID = a_DomainId req, ar_ChannelID = a_ChannelId req, ar_ClientID = a_ClientId req,
          ar_ClientType = a_ClientType req, ar_Type = connType\<rparr>)"

definition authorizeReq_validate :: "ChannelAuthzReq \<Rightarrow> gerror option" where
  "authorizeReq_validate req = (if ar_ClientType req = UserType \<and> ar_DomainID req = [] then Some errDomainID else None)"

definition authorizeEndpoint :: "'w channels_service \<Rightarrow> ChannelAuthzReq \<Rightarrow> ('w, gerror, bool) io" where
  "authorizeEndpoint svc req =
     guarded (authorizeReq_validate req) (pass (chp_Authorize svc req) (\<lambda>_. ret True))"

definition channel_Authorize :: "'w channels_service \<Rightarrow> AuthzReq \<Rightarrow> ('w, gerror, bool) io" where
  "channel_Authorize svc req =
     wired (case decodeAuthorizeRequest req of Inl err \<Rightarrow> fail err | Inr areq \<Rightarrow> authorizeEndpoint svc areq)"

definition channel_RemoveClientConnections :: "'w channels_service \<Rightarrow> string \<Rightarrow> ('w, gerror, unit) io" where
  "channel_RemoveClientConnections svc clientID = wired (chp_RemoveClientConnections svc clientID)"

definition channel_UnsetParentGroup :: "'w channels_service \<Rightarrow> string \<Rightarrow> ('w, gerror, unit) io" where
  "channel_UnsetParentGroup svc parentGroupID = wired (chp_UnsetParentGroupFromChannels svc parentGroupID)"

definition channels_retrieveEntityEndpoint :: "'w channels_service \<Rightarrow> string \<Rightarrow> ('w, gerror, EntityBasic) io" where
  "channels_retrieveEntityEndpoint svc i =
     pass (chp_RetrieveByID svc i) (\<lambda>channel.
     ret \<lparr>eb_ID = h_ID channel, eb_Domain = h_Domain channel, eb_ParentGroup = h_ParentGroup channel,
          eb_Status = ucast (h_Status channel)\<rparr>)"

definition channel_RetrieveEntity :: "'w channels_service \<Rightarrow> string \<Rightarrow> ('w, gerror, EntityBasic) io" where
  "channel_RetrieveEntity svc i = wired (channels_retrieveEntityEndpoint svc i)"

definition retrieveIDByRouteReq_validate :: "string \<Rightarrow> string \<Rightarrow> gerror option" where
  "retrieveIDByRouteReq_validate route domainID =
     (if route = [] then Some ErrMissingRoute else if domainID = [] then Some ErrMissingDomainID else None)"

definition retrieveIDByRouteEndpoint :: "'w channels_service \<Rightarrow> string \<Rightarrow> string \<Rightarrow> ('w, gerror, string) io" where
  "retrieveIDByRouteEndpoint svc route domainID =
     guarded (retrieveIDByRouteReq_validate route domainID) (chp_RetrieveIDByRoute svc route domainID)"

definition channel_RetrieveIDByRoute :: "'w channels_service \<Rightarrow> string \<Rightarrow> string \<Rightarrow> ('w, gerror, EntityBasic) io" where
  "channel_RetrieveIDByRoute svc route domainID =
     wired (pass (retrieveIDByRouteEndpoint svc route domainID) (\<lambda>i.
       ret \<lparr>eb_ID = i, eb_Domain = [], eb_ParentGroup = [], eb_Status = 0\<rparr>))"

section \<open>Facts\<close>

lemma ConnType_wire [simp]: "(ucast (ucast (t :: ConnType) :: 32 word) :: ConnType) = t"
  by transfer (simp add: take_bit_take_bit)

lemma decode_encode:
  "decodeConnections (map encodeConnection conns) =
     (case List.find (\<lambda>c. CheckConnType (co_Type c) \<noteq> None) conns of
        None \<Rightarrow> Inr conns
      | Some c \<Rightarrow> Inl (the (CheckConnType (co_Type c))))"
  by (induction conns) (auto simp: encodeConnection_def Let_def split: option.splits)

lemma wired_InrD: "wired m w = (Inr x, w') \<Longrightarrow> m w = (Inr x, w')"
  by (auto simp: wired_def dest!: trying_InrD)

lemma frames_wired: "frames v m \<Longrightarrow> frames v (wired m)"
  unfolding wired_def by (rule frames_trying_ret)

lemma frames_case_sum: "(\<And>e. frames v (f e)) \<Longrightarrow> (\<And>x. frames v (g x)) \<Longrightarrow> frames v (case s of Inl e \<Rightarrow> f e | Inr x \<Rightarrow> g x)"
  by (cases s) auto

end
