(* ===== verification/Connected.thy ===== *)
theory Connected
  imports Transport
begin

text \<open>
  Clients and channels together: what the channels service relies on of its repository and of
  the services it calls, the effect of connecting and disconnecting on who may publish and
  subscribe, the revocation of credentials, and both services deployed on their PostgreSQL
  databases, Redis caches and the SpiceDB store, with gRPC calls between them that may fail
  before or after they were executed.
\<close>

section \<open>Connections as a set\<close>

text \<open>Some part of the world that the lookups before a change of connections leave alone.\<close>

locale channel_lookups =
  fixes svc :: "'w channels_service" and conns :: "'w \<Rightarrow> Connection set"
  assumes look_frames: "frames conns (hr_RetrieveByID (hs_repo svc) i)" "frames conns (hs_RetrieveClient svc i)"
      "frames conns (hr_CheckConnection (hs_repo svc) c)"
begin

lemma check_channels_frames: "frames conns (check_channels svc ses e b is)"
  by (induction "is") (auto intro!: frames_rules look_frames)

lemma check_clients_frames: "frames conns (check_clients svc ses e b is)"
  by (induction "is") (auto intro!: frames_rules look_frames)

lemma check_not_connected_frames: "frames conns (check_not_connected svc cs)"
proof (induction cs)
  case (Cons c cs)
  then show ?case using framesD [OF look_frames(3)] unfolding frames_def
    by (fastforce split: prod.splits sum.splits if_splits)
qed (simp add: frames_basic)

text \<open>A successful \<open>Connect\<close> has added the connections in both services, to what was there before it.\<close>

lemma Connect_adds:
  assumes "Connect svc ses chs ths ts w = (Inr u, w')"
  shows "\<exists>w1 w2. conns w1 = conns w \<and>
    hs_clients_AddConnections svc (all_connections (s_DomainID ses) chs ths ts) w1 = (Inr (), w2)"
  using assms unfolding Connect_def Let_def
  by (auto dest!: pass_InrD trying_InrD framesD [OF check_channels_frames] framesD [OF check_clients_frames]
      framesD [OF check_not_connected_frames]) blast

end

text \<open>
  The contract: adding and removing connections act on the set of connections of the
  channels service or leave it as it is, and no other call touches it.
\<close>

locale connection_store = channel_lookups svc conns for svc :: "'w channels_service" and conns :: "'w \<Rightarrow> Connection set" +
  assumes add_effect: "effect conns (hr_AddConnections (hs_repo svc) cs) (\<lambda>S _ S'. S' = S \<union> set cs)"
    and remove_effect: "\<forall>c \<in> set cs. 0 < co_Type c \<Longrightarrow>
      effect conns (hr_RemoveConnections (hs_repo svc) cs) (\<lambda>S _ S'. S' = S - set cs)"
    and call_frames: "frames conns (hs_clients_AddConnections svc cs)" "frames conns (hs_clients_RemoveConnections svc cs)"
      "frames conns (hs_domain_RetrieveStatus svc d)"
    and authorize_sound: "hr_ClientAuthorize (hs_repo svc) c w = (Inr u, w') \<Longrightarrow> c \<in> conns w"
begin

lemma Connect_effect:
  "effect conns (Connect svc ses chs ths ts) (\<lambda>S _ S'. S' = S \<union> set (all_connections (s_DomainID ses) chs ths ts))"
  unfolding Connect_def Let_def
  by (intro effect_pass check_channels_frames check_clients_frames check_not_connected_frames effect_trying call_frames
      effect_trying_ret add_effect)

lemma Disconnect_effect:
  assumes "\<forall>t \<in> set ts. 0 < t"
  shows "effect conns (Disconnect svc ses chs ths ts) (\<lambda>S _ S'. S' = S - set (all_connections (s_DomainID ses) chs ths ts))"
proof -
  have "\<forall>c \<in> set (all_connections (s_DomainID ses) chs ths ts). 0 < co_Type c"
    using assms by (auto simp: all_connections_def)
  from remove_effect [OF this] show ?thesis unfolding Disconnect_def Let_def
    by (intro effect_pass check_channels_frames check_clients_frames effect_trying call_frames effect_trying_ret)
qed

lemma Authorize_sound:
  assumes "chp_Authorize svc req w = (Inr u, w')" "ar_ClientType req = ClientType"
  shows "\<lparr>co_ClientID = ar_ClientID req, co_ChannelID = ar_ChannelID req, co_DomainID = ar_DomainID req, co_Type = ar_Type req\<rparr> \<in> conns w"
proof -
  have "ClientType \<noteq> UserType" by (simp add: policy_names)
  with assms obtain st w1 where s: "hs_domain_RetrieveStatus svc (ar_DomainID req) w = (Inr st, w1)"
    "\<exists>v w2. hr_ClientAuthorize (hs_repo svc) \<lparr>co_ClientID = ar_ClientID req, co_ChannelID = ar_ChannelID req,
      co_DomainID = ar_DomainID req, co_Type = ar_Type req\<rparr> w1 = (Inr v, w2)"
    unfolding chp_Authorize_def by (auto simp: trying_apply split: prod.splits sum.splits if_splits)
  from s(2) have "\<lparr>co_ClientID = ar_ClientID req, co_ChannelID = ar_ChannelID req, co_DomainID = ar_DomainID req,
      co_Type = ar_Type req\<rparr> \<in> conns w1" using authorize_sound by blast
  with framesD [OF call_frames(3) s(1)] show ?thesis by simp
qed

end

section \<open>Credentials\<close>

text \<open>
  The contract of the clients service: what the cache of credentials holds, which clients
  are enabled, and that no other call of \<open>Disable\<close> adds to either.
\<close>

locale credential_store =
  fixes svc :: "'w clients_service" and cached :: "'w \<Rightarrow> string \<Rightarrow> string option" and last :: "'w \<Rightarrow> string \<Rightarrow> string option"
    and enabled :: "'w \<Rightarrow> string \<Rightarrow> bool"
  assumes ID_same: "cs_cache_ID svc t w = (r, w') \<Longrightarrow> cached w' = cached w \<and> enabled w' = enabled w"
    and ID_ok: "cs_cache_ID svc t w = (Inr i, w') \<Longrightarrow> cached w t = Some i"
    and Secret_same: "cr_RetrieveBySecret (cs_repo svc) key i p w = (r2, w') \<Longrightarrow> cached w' = cached w \<and> enabled w' = enabled w"
    and Secret_ok: "cr_RetrieveBySecret (cs_repo svc) key i p w = (Inr c, w') \<Longrightarrow> enabled w (c_ID c)"
    and Remove_ok: "cs_cache_Remove svc i w = (Inr u, w') \<Longrightarrow> enabled w' = enabled w \<and>
      (case last w i of None \<Rightarrow> cached w' = cached w | Some t \<Rightarrow> cached w' = (cached w)(t := None))"
    and Status_ok: "cr_ChangeStatus (cs_repo svc) cl w = (Inr c, w') \<Longrightarrow> cached w' = cached w \<and> last w' = last w \<and>
      c_ID c = c_ID cl \<and> (c_Status cl \<noteq> EnabledStatus \<longrightarrow> \<not> enabled w' (c_ID cl))"
    and other_same: "cs_now svc w = (n, w1) \<Longrightarrow> cached w1 = cached w \<and> last w1 = last w"
      "cr_RetrieveByID (cs_repo svc) i w = (r3, w2) \<Longrightarrow> cached w2 = cached w \<and> last w2 = last w"
begin

lemma Authenticate_sound:
  assumes "clp_Authenticate svc t w = (Inr i, w')"
  shows "cached w t = Some i \<or> enabled w i"
proof -
  obtain q w1 where q: "cs_cache_ID svc t w = (q, w1)" by fastforce
  show ?thesis
  proof (cases q)
    case (Inr j)
    with assms q ID_ok [of t w j w1] show ?thesis by (simp add: clp_Authenticate_def)
  next
    case (Inl e)
    from assms q Inl obtain p j key c w2 where c: "cr_RetrieveBySecret (cs_repo svc) key j p w1 = (Inr c, w2)" "i = c_ID c"
      by (auto simp: clp_Authenticate_def trying_apply split: prod.splits sum.splits if_splits)
    from Secret_ok [OF c(1)] ID_same [OF q] c(2) show ?thesis by auto
  qed
qed

text \<open>If a client has only the recorded credential cached, disabling it revokes all of them.\<close>

lemma Disable_ok:
  assumes "DisableClient svc ses i w = (Inr c, w')"
  shows "\<not> enabled w' i \<and> (case last w i of None \<Rightarrow> cached w' = cached w | Some t \<Rightarrow> cached w' = (cached w)(t := None))"
proof -
  obtain n w1 where n: "cs_now svc w = (n, w1)" by fastforce
  let ?c = "Client0\<lparr>c_ID := i, c_Status := DisabledStatus, c_UpdatedAt := n\<rparr>"
  obtain db w2 where r: "cr_RetrieveByID (cs_repo svc) i w1 = (Inr db, w2)"
    using assms n unfolding DisableClient_def changeClientStatus_def
    by (auto simp: observe_apply trying_apply split: prod.splits sum.splits)
  obtain cl w3 where s: "cr_ChangeStatus (cs_repo svc) (?c\<lparr>c_UpdatedBy := s_UserID ses\<rparr>) w2 = (Inr cl, w3)"
    using assms n r unfolding DisableClient_def changeClientStatus_def
    by (auto simp: observe_apply trying_apply split: prod.splits sum.splits if_splits)
  have m: "cs_cache_Remove svc (c_ID cl) w3 = (Inr (), w')"
    using assms n r s unfolding DisableClient_def changeClientStatus_def
    by (auto simp: observe_apply trying_apply split: prod.splits sum.splits if_splits)
  have st: "c_ID cl = i" "\<not> enabled w3 i" "cached w3 = cached w2" "last w3 = last w2"
    using Status_ok [OF s] by (auto simp: statuses)
  from Remove_ok [OF m] st other_same(1) [OF n] other_same(2) [OF r] show ?thesis by (simp split: option.splits)
qed

lemma disabled_refused:
  assumes "DisableClient svc ses i w = (Inr c, w')" "\<And>t. cached w t = Some i \<Longrightarrow> last w i = Some t"
  shows "fst (clp_Authenticate svc t w') \<noteq> Inr i"
proof
  assume "fst (clp_Authenticate svc t w') = Inr i"
  then have "clp_Authenticate svc t w' = (Inr i, snd (clp_Authenticate svc t w'))" by (metis prod.collapse)
  from Authenticate_sound [OF this] Disable_ok [OF assms(1)] have "cached w' t = Some i" by blast
  with Disable_ok [OF assms(1)] assms(2) [of t] show False by (auto split: option.splits if_splits)
qed

end

section \<open>The two services deployed\<close>

text \<open>
  The script \<open>tw_rpc\<close> says which gRPC calls fail: with which error, and whether the call was
  executed before. The services of domains and groups answer from a table each.
\<close>

record things_world =
  tw_clients :: clients_db
  tw_ccache :: redis_server
  tw_channels :: channels_db
  tw_hcache :: redis_server
  tw_store :: ref_store
  tw_crdb :: roles_db
  tw_hrdb :: roles_db
  tw_now :: int
  tw_ids :: "nat \<Rightarrow> string"
  tw_nid :: nat
  tw_domain :: "string \<Rightarrow> gerror + Status"
  tw_group :: "string \<Rightarrow> gerror + EntityBasic"
  tw_rpc :: "(bool \<times> gerror) option list"

definition rpc :: "(things_world, gerror, 'a) io \<Rightarrow> (things_world, gerror, 'a) io" where
  "rpc m w = (case tw_rpc w of
      Some (executed, err) # fs \<Rightarrow>
        (Inl err, if executed then snd (m (w\<lparr>tw_rpc := fs\<rparr>)) else w\<lparr>tw_rpc := fs\<rparr>)
    | fs \<Rightarrow> m (w\<lparr>tw_rpc := tl fs\<rparr>))"

abbreviation on_clients :: "(clients_db, 'e, 'a) io \<Rightarrow> (things_world, 'e, 'a) io" where
  "on_clients m \<equiv> lifted tw_clients (\<lambda>d w. w\<lparr>tw_clients := d\<rparr>) m"

abbreviation on_channels :: "(channels_db, 'e, 'a) io \<Rightarrow> (things_world, 'e, 'a) io" where
  "on_channels m \<equiv> lifted tw_channels (\<lambda>d w. w\<lparr>tw_channels := d\<rparr>) m"

abbreviation on_ccache :: "(redis_server, 'e, 'a) io \<Rightarrow> (things_world, 'e, 'a) io" where
  "on_ccache m \<equiv> lifted tw_ccache (\<lambda>d w. w\<lparr>tw_ccache := d\<rparr>) m"

abbreviation on_hcache :: "(redis_server, 'e, 'a) io \<Rightarrow> (things_world, 'e, 'a) io" where
  "on_hcache m \<equiv> lifted tw_hcache (\<lambda>d w. w\<lparr>tw_hcache := d\<rparr>) m"

abbreviation on_store :: "(ref_store, 'e, 'a) io \<Rightarrow> (things_world, 'e, 'a) io" where
  "on_store m \<equiv> lifted tw_store (\<lambda>d w. w\<lparr>tw_store := d\<rparr>) m"

definition tw_Now :: "things_world \<Rightarrow> int \<times> things_world" where
  "tw_Now w = (tw_now w, w\<lparr>tw_now := tw_now w + 1\<rparr>)"

definition tw_ID :: "(things_world, gerror, string) io" where
  "tw_ID w = (Inr (tw_ids w (tw_nid w)), w\<lparr>tw_nid := Suc (tw_nid w)\<rparr>)"

definition lift_roles :: "('w \<Rightarrow> 's) \<Rightarrow> ('s \<Rightarrow> 'w \<Rightarrow> 'w) \<Rightarrow> 's ProvisionManageService \<Rightarrow> 'w ProvisionManageService" where
  "lift_roles get put R = \<lparr>pm_entityType = pm_entityType R, pm_repo = lift_repo get put (pm_repo R),
     pm_sidProvider = lifted get put (pm_sidProvider R), pm_AddPolicies = (\<lambda>ps. lifted get put (pm_AddPolicies R ps)),
     pm_DeletePolicies = (\<lambda>ps. lifted get put (pm_DeletePolicies R ps)),
     pm_DeletePolicyFilter = (\<lambda>p. lifted get put (pm_DeletePolicyFilter R p)),
     pm_now = (\<lambda>w. case pm_now R (get w) of (t, s) \<Rightarrow> (t, put s w)),
     pm_actions = pm_actions R, pm_builtInRoles = pm_builtInRoles R\<rparr>"

abbreviation get_croles :: "things_world \<Rightarrow> roles_world" where
  "get_croles w \<equiv> \<lparr>rw_store = tw_store w, rw_db = tw_crdb w, rw_now = tw_now w\<rparr>"

abbreviation put_croles :: "roles_world \<Rightarrow> things_world \<Rightarrow> things_world" where
  "put_croles s w \<equiv> w\<lparr>tw_store := rw_store s, tw_crdb := rw_db s, tw_now := rw_now s\<rparr>"

abbreviation get_hroles :: "things_world \<Rightarrow> roles_world" where
  "get_hroles w \<equiv> \<lparr>rw_store = tw_store w, rw_db = tw_hrdb w, rw_now = tw_now w\<rparr>"

abbreviation put_hroles :: "roles_world \<Rightarrow> things_world \<Rightarrow> things_world" where
  "put_hroles s w \<equiv> w\<lparr>tw_store := rw_store s, tw_hrdb := rw_db s, tw_now := rw_now s\<rparr>"

text \<open>The role tables refer to the rows of the entity table and are deleted with them.\<close>

definition entities_are :: "string list \<Rightarrow> role_tables \<Rightarrow> role_tables" where
  "entities_are ids t =
     (let rs = filter (\<lambda>r. dr_EntityID r \<in> set ids) (t_roles t); kept = map dr_ID rs in
      \<lparr>t_entities = ids, t_roles = rs, t_actions = filter (\<lambda>a. da_RoleID a \<in> set kept) (t_actions t),
       t_members = filter (\<lambda>m. dm_RoleID m \<in> set kept) (t_members t)\<rparr>)"

definition with_client_roles :: "(things_world, gerror, 'a) io \<Rightarrow> (things_world, gerror, 'a) io" where
  "with_client_roles m w = (case m w of (r, w') \<Rightarrow> (r, w'\<lparr>tw_crdb := (tw_crdb w')\<lparr>committed :=
     entities_are (map dc_ID (ct_clients (committed (tw_clients w')))) (committed (tw_crdb w'))\<rparr>\<rparr>))"

definition with_channel_roles :: "(things_world, gerror, 'a) io \<Rightarrow> (things_world, gerror, 'a) io" where
  "with_channel_roles m w = (case m w of (r, w') \<Rightarrow> (r, w'\<lparr>tw_hrdb := (tw_hrdb w')\<lparr>committed :=
     entities_are (map dh_ID (ht_channels (committed (tw_channels w')))) (committed (tw_hrdb w'))\<rparr>\<rparr>))"

definition clients_repo :: "things_world ClientsRepository" where
  "clients_repo = \<lparr>cr_Save = (\<lambda>cs. with_client_roles (on_clients (clr_Save cs))),
     cr_RetrieveBySecret = (\<lambda>k i p. on_clients (clr_RetrieveBySecret k i p)),
     cr_Update = (\<lambda>c. on_clients (clr_Update c)), cr_UpdateTags = (\<lambda>c. on_clients (clr_UpdateTags c)),
     cr_UpdateSecret = (\<lambda>c. on_clients (clr_UpdateSecret c)), cr_ChangeStatus = (\<lambda>c. on_clients (clr_ChangeStatus c)),
     cr_RetrieveByID = (\<lambda>i. on_clients (clr_RetrieveByID i)), cr_Delete = (\<lambda>is. with_client_roles (on_clients (clr_Delete is))),
     cr_AddConnections = (\<lambda>cs. on_clients (clr_AddConnections cs)),
     cr_RemoveConnections = (\<lambda>cs. on_clients (clr_RemoveConnections cs)),
     cr_SetParentGroup = (\<lambda>c. on_clients (clr_SetParentGroup c)), cr_RemoveParentGroup = (\<lambda>c. on_clients (clr_RemoveParentGroup c)),
     cr_DoesClientHaveConnections = (\<lambda>i. on_clients (clr_DoesClientHaveConnections i)),
     cr_RemoveChannelConnections = (\<lambda>i. on_clients (clr_RemoveChannelConnections i)),
     cr_RetrieveParentGroupClients = (\<lambda>g. on_clients (clr_RetrieveParentGroupClients g)),
     cr_UnsetParentGroupFromClient = (\<lambda>g. on_clients (clr_UnsetParentGroupFromClient g))\<rparr>"

definition channels_repo :: "things_world ChannelsRepository" where
  "channels_repo = \<lparr>hr_Save = (\<lambda>cs. with_channel_roles (on_channels (chr_Save cs))),
     hr_Update = (\<lambda>c. on_channels (chr_Update c)), hr_UpdateTags = (\<lambda>c. on_channels (chr_UpdateTags c)),
     hr_ChangeStatus = (\<lambda>c. on_channels (chr_ChangeStatus c)), hr_RetrieveByID = (\<lambda>i. on_channels (chr_RetrieveByID i)),
     hr_RetrieveByRoute = (\<lambda>r d. on_channels (chr_RetrieveByRoute r d)),
     hr_Remove = (\<lambda>is. with_channel_roles (on_channels (chr_Remove is))),
     hr_SetParentGroup = (\<lambda>c. on_channels (chr_SetParentGroup c)), hr_RemoveParentGroup = (\<lambda>c. on_channels (chr_RemoveParentGroup c)),
     hr_AddConnections = (\<lambda>cs. on_channels (chr_AddConnections cs)),
     hr_RemoveConnections = (\<lambda>cs. on_channels (chr_RemoveConnections cs)),
     hr_CheckConnection = (\<lambda>c. on_channels (chr_CheckConnection c)), hr_ClientAuthorize = (\<lambda>c. on_channels (chr_ClientAuthorize c)),
     hr_DoesChannelHaveConnections = (\<lambda>i. on_channels (chr_DoesChannelHaveConnections i)),
     hr_RemoveClientConnections = (\<lambda>i. on_channels (chr_RemoveClientConnections i)),
     hr_RetrieveParentGroupChannels = (\<lambda>g. on_channels (chr_RetrieveParentGroupChannels g)),
     hr_UnsetParentGroupFromChannels = (\<lambda>g. on_channels (chr_UnsetParentGroupFromChannels g))\<rparr>"

definition client_cache :: "redis_server clientCache" where
  "client_cache = \<lparr>clc_client = ref_redis, clc_keyDuration = 600\<rparr>"

definition channel_cache :: "redis_server channelsCache" where
  "channel_cache = \<lparr>chc_client = ref_redis, chc_duration = 600\<rparr>"

definition deployed_clients :: "things_world clients_service" where
  "deployed_clients = \<lparr>cs_repo = clients_repo, cs_cache_Save = (\<lambda>k i. on_ccache (clc_Save client_cache k i)),
     cs_cache_ID = (\<lambda>k. on_ccache (clc_ID client_cache k)), cs_cache_Remove = (\<lambda>i. on_ccache (clc_Remove client_cache i)),
     cs_AddPolicies = (\<lambda>ps. on_store (AddPolicies ref_client ps)), cs_DeletePolicies = (\<lambda>ps. on_store (DeletePolicies ref_client ps)),
     cs_RemoveClientConnections = (\<lambda>i. rpc (wired (hr_RemoveClientConnections channels_repo i))),
     cs_RetrieveGroup = (\<lambda>i. rpc (\<lambda>w. (tw_group w i, w))), cs_idProvider = tw_ID, cs_now = tw_Now,
     cs_roles = lift_roles get_croles put_croles client_roles\<rparr>"

definition channel_roles :: "roles_world ProvisionManageService" where
  "channel_roles = deployed_roles clock_sid ChannelType [''read'', ''publish'', ''subscribe''] [(''admin'', [''read'', ''publish'', ''subscribe''])]"

definition deployed_channels :: "things_world channels_service" where
  "deployed_channels = \<lparr>hs_repo = channels_repo,
     hs_cache_Save = (\<lambda>r d i. on_hcache (chc_Save channel_cache r d i)),
     hs_cache_ID = (\<lambda>r d. on_hcache (chc_ID channel_cache r d)), hs_cache_Remove = (\<lambda>r d. on_hcache (chc_Remove channel_cache r d)),
     hs_AddPolicies = (\<lambda>ps. on_store (AddPolicies ref_client ps)), hs_DeletePolicies = (\<lambda>ps. on_store (DeletePolicies ref_client ps)),
     hs_CheckPolicy = (\<lambda>p w. case CheckPolicy ref_client p (tw_store w) of (r, s) \<Rightarrow> (r, w\<lparr>tw_store := s\<rparr>)),
     hs_RetrieveClient = (\<lambda>i. rpc (client_RetrieveEntity deployed_clients i)),
     hs_clients_AddConnections = (\<lambda>cs. rpc (client_AddConnections deployed_clients cs)),
     hs_clients_RemoveConnections = (\<lambda>cs. rpc (client_RemoveConnections deployed_clients cs)),
     hs_clients_RemoveChannelConnections = (\<lambda>i. rpc (client_RemoveChannelConnections deployed_clients i)),
     hs_RetrieveGroup = (\<lambda>i. rpc (\<lambda>w. (tw_group w i, w))),
     hs_domain_RetrieveStatus = (\<lambda>d. rpc (\<lambda>w. (tw_domain w d, w))), hs_idProvider = tw_ID, hs_now = tw_Now,
     hs_roles = lift_roles get_hroles put_hroles channel_roles\<rparr>"

definition channel_conns :: "things_world \<Rightarrow> Connection set" where
  "channel_conns w = set (ht_connections (committed (tw_channels w)))"

definition client_conns :: "things_world \<Rightarrow> Connection set" where
  "client_conns w = set (ct_connections (committed (tw_clients w)))"

definition cached_id :: "things_world \<Rightarrow> string \<Rightarrow> string option" where
  "cached_id w t = live (rsv_state (tw_ccache w)) (client_key t)"

definition last_token :: "things_world \<Rightarrow> string \<Rightarrow> string option" where
  "last_token w i = live (rsv_state (tw_ccache w)) (client_id i)"

definition is_enabled :: "things_world \<Rightarrow> string \<Rightarrow> bool" where
  "is_enabled w i \<longleftrightarrow> (\<exists>r \<in> set (ct_clients (committed (tw_clients w))). dc_ID r = i \<and> dc_Status r = EnabledStatus)"

section \<open>The contracts hold of the deployed services\<close>

lemma frames_rpc:
  assumes "frames v m" "\<And>w fs. v (w\<lparr>tw_rpc := fs\<rparr>) = v w"
  shows "frames v (rpc m)"
proof -
  have "v (snd (m w)) = v w" for w using framesD [OF assms(1), of w] by (metis prod.collapse)
  then show ?thesis unfolding frames_def rpc_def
    by (auto simp: assms(2) split: list.splits option.splits if_splits dest!: framesD [OF assms(1)])
qed

lemma channel_conns_views:
  "channel_conns (w\<lparr>tw_rpc := fs\<rparr>) = channel_conns w"
  "channel_conns (w\<lparr>tw_clients := d\<rparr>) = channel_conns w"
  by (simp_all add: channel_conns_def)

lemma reads_first_channel: "reads (first_channel g rows)"
  unfolding first_channel_def by (intro io_intros reads_driver)

lemma reads_first_client: "reads (first_client g rows)"
  unfolding first_client_def by (intro io_intros reads_driver)

text \<open>A reading call leaves the tables alone, also when it is part of a larger world.\<close>

lemma frames_reads:
  assumes "reads m" "\<And>s w. committed (get (put s w)) = committed s"
  shows "frames (\<lambda>w. f (committed (get w))) (lifted get put m)"
  using assms unfolding frames_def reads_def by (auto simp: lifted_eq)

lemma insert_conns_effect: "effect (set \<circ> ht_connections \<circ> committed) (chr_AddConnections cs) (\<lambda>S _ S'. S' = S \<union> set cs)"
proof (rule effectI)
  fix d e d' assume "chr_AddConnections cs d = (Inl e, d')"
  then have "committed d' = committed d"
    by (auto simp: chr_AddConnections_def bind_rows_def trying_apply split: prod.splits sum.splits if_splits dest: db_exec_err)
  then show "(set \<circ> ht_connections \<circ> committed) d' = (set \<circ> ht_connections \<circ> committed) d" by simp
next
  fix d u d' assume "chr_AddConnections cs d = (Inr u, d')"
  then have "db_exec (add_channel_connections cs) d = (Inr (), d')"
    by (auto simp: chr_AddConnections_def bind_rows_def trying_apply split: prod.splits sum.splits if_splits)
  from db_exec_ok [OF this] obtain t where t: "add_channel_connections cs (committed d) = Inr (t, ())" "committed d' = t" by blast
  from t(1) have "ht_connections t = ht_connections (committed d) @ cs"
    by (auto simp: add_channel_connections_def split: sum.splits dest!: insert_connections_ok)
  with t(2) show "(set \<circ> ht_connections \<circ> committed) d' = (set \<circ> ht_connections \<circ> committed) d \<union> set cs" by simp
qed

lemma remove_steps_typed:
  "\<forall>c \<in> set cs. 0 < co_Type c \<Longrightarrow>
   apply_stmts (remove_steps typed cs) t = Some (t\<lparr>ht_connections := filter (\<lambda>c. c \<notin> set cs) (ht_connections t)\<rparr>)"
proof (induction typed cs arbitrary: t rule: remove_steps.induct)
  case (2 typed c cs)
  have "(\<lambda>r. \<not> (co_ChannelID r = co_ChannelID c \<and> co_DomainID r = co_DomainID c \<and> co_ClientID r = co_ClientID c \<and>
      co_Type r = co_Type c)) = (\<lambda>r :: Connection. r \<noteq> c)"
    by (auto simp: fun_eq_iff)
  with 2 show ?case
    by (auto simp: Let_def delete_channel_connections_def filter_filter intro!: filter_cong)
qed simp

lemma remove_conns_effect:
  assumes "\<forall>c \<in> set cs. 0 < co_Type c"
  shows "effect (set \<circ> ht_connections \<circ> committed) (chr_RemoveConnections cs) (\<lambda>S _ S'. S' = S - set cs)"
proof (rule effectI)
  fix d e d' assume "chr_RemoveConnections cs d = (Inl e, d')"
  from in_tx_ret_err [OF this [unfolded chr_RemoveConnections_def]]
  show "(set \<circ> ht_connections \<circ> committed) d' = (set \<circ> ht_connections \<circ> committed) d" by simp
next
  fix d u d' assume "chr_RemoveConnections cs d = (Inr u, d')"
  from in_tx_ret_ok [OF this [unfolded chr_RemoveConnections_def]]
  have "committed d' = (committed d)\<lparr>ht_connections := filter (\<lambda>c. c \<notin> set cs) (ht_connections (committed d))\<rparr>"
    by (simp add: remove_steps_typed [OF assms])
  then show "(set \<circ> ht_connections \<circ> committed) d' = (set \<circ> ht_connections \<circ> committed) d - set cs" by auto
qed

interpretation things: connection_store deployed_channels channel_conns
proof
  fix cs i c d w u w'
  have v: "channel_conns = (set \<circ> ht_connections \<circ> committed) \<circ> tw_channels" by (auto simp: channel_conns_def)
  show "effect channel_conns (hr_AddConnections (hs_repo deployed_channels) cs) (\<lambda>S _ S'. S' = S \<union> set cs)"
    unfolding v by (simp add: deployed_channels_def channels_repo_def effect_lifted insert_conns_effect)
  show "effect channel_conns (hr_RemoveConnections (hs_repo deployed_channels) cs) (\<lambda>S _ S'. S' = S - set cs)"
    if "\<forall>c \<in> set cs. 0 < co_Type c"
    unfolding v by (simp add: deployed_channels_def channels_repo_def effect_lifted remove_conns_effect [OF that])
  show "frames channel_conns (hr_RetrieveByID (hs_repo deployed_channels) i)"
    "frames channel_conns (hr_CheckConnection (hs_repo deployed_channels) c)"
    unfolding channel_conns_def
    by (simp_all add: deployed_channels_def channels_repo_def chr_RetrieveByID_def chr_CheckConnection_def)
      (rule frames_reads [where f = "\<lambda>t. set (ht_connections t)"], intro io_intros reads_first_channel, simp)+
  have clp: "frames channel_conns (clp_RetrieveById deployed_clients i)" "frames channel_conns (clp_AddConnections deployed_clients cs)"
    "frames channel_conns (clp_RemoveConnections deployed_clients cs)" for i cs
    by (simp_all add: deployed_clients_def clients_repo_def clp_RetrieveById_def clp_AddConnections_def clp_RemoveConnections_def
        frames_lifted channel_conns_views)
  show "frames channel_conns (hs_RetrieveClient deployed_channels i)"
    "frames channel_conns (hs_clients_AddConnections deployed_channels cs)"
    "frames channel_conns (hs_clients_RemoveConnections deployed_channels cs)"
    by (simp_all add: deployed_channels_def client_RetrieveEntity_def clients_retrieveEntityEndpoint_def
        client_AddConnections_def client_RemoveConnections_def addConnectionsEndpoint_def removeConnectionsEndpoint_def)
      (intro frames_rpc frames_wired frames_case_sum frames_rules clp channel_conns_views)+
  show "frames channel_conns (hs_domain_RetrieveStatus deployed_channels d)"
    unfolding deployed_channels_def by (simp, rule frames_rpc) (simp_all add: frames_def channel_conns_views)
  show "c \<in> channel_conns w" if "hr_ClientAuthorize (hs_repo deployed_channels) c w = (Inr u, w')"
    using that by (auto simp: deployed_channels_def channels_repo_def lifted_eq chr_ClientAuthorize_def trying_apply
        channel_conns_def list_ex_iff split: prod.splits sum.splits if_splits dest!: db_query_ok)
qed

lemma client_conns_views:
  "client_conns (w\<lparr>tw_rpc := fs\<rparr>) = client_conns w"
  "client_conns (w\<lparr>tw_channels := d\<rparr>) = client_conns w"
  by (simp_all add: client_conns_def)

interpretation things_clients: channel_lookups deployed_channels client_conns
proof
  fix i c
  have "reads (clr_RetrieveByID j)" for j unfolding clr_RetrieveByID_def by (intro io_intros reads_first_client)
  then have "frames client_conns (clp_RetrieveById deployed_clients j)" for j
    unfolding client_conns_def
    by (simp add: deployed_clients_def clients_repo_def clp_RetrieveById_def)
      (rule frames_reads [where f = "\<lambda>t. set (ct_connections t)"], simp_all)
  then show "frames client_conns (hs_RetrieveClient deployed_channels i)"
    by (simp add: deployed_channels_def client_RetrieveEntity_def clients_retrieveEntityEndpoint_def)
      (intro frames_rpc frames_wired frames_rules client_conns_views)
qed (auto simp: deployed_channels_def channels_repo_def intro!: frames_lifted client_conns_views)

lemma rpc_InrD: "rpc m w = (Inr x, w') \<Longrightarrow> m (w\<lparr>tw_rpc := tl (tw_rpc w)\<rparr>) = (Inr x, w')"
  by (auto simp: rpc_def split: list.splits option.splits)

text \<open>The clients service refuses connections it already has.\<close>

lemma clients_AddConnections_fresh:
  assumes "hs_clients_AddConnections deployed_channels cs w = (Inr u, w')"
  shows "client_conns w \<inter> set cs = {}"
proof -
  let ?w = "w\<lparr>tw_rpc := tl (tw_rpc w)\<rparr>"
  from assms have "client_AddConnections deployed_clients cs ?w = (Inr u, w')"
    by (auto simp: deployed_channels_def dest: rpc_InrD)
  then have "clp_AddConnections deployed_clients cs ?w = (Inr u, w')"
    by (auto simp: client_AddConnections_def addConnectionsEndpoint_def decode_encode dest!: wired_InrD split: option.splits)
  then obtain d where "db_exec (add_client_connections cs) (tw_clients w) = (Inr (), d)"
    by (auto simp: clp_AddConnections_def deployed_clients_def clients_repo_def lifted_eq clr_AddConnections_def bind_rows_def
        dest!: trying_InrD split: if_splits)
  from db_exec_ok [OF this] show ?thesis
    by (auto simp: add_client_connections_def client_conns_def dest!: insert_connections_ok split: sum.splits)
qed

lemma client_keys [simp]:
  "client_key a = client_key b \<longleftrightarrow> a = b" "client_id a = client_id b \<longleftrightarrow> a = b" "client_key a \<noteq> client_id b"
  by (simp_all add: client_key_def client_id_def)

lemma credential_views:
  "cached_id (w\<lparr>tw_clients := d\<rparr>) = cached_id w" "last_token (w\<lparr>tw_clients := d\<rparr>) = last_token w"
  "cached_id (w\<lparr>tw_now := n\<rparr>) = cached_id w" "last_token (w\<lparr>tw_now := n\<rparr>) = last_token w"
  "is_enabled (w\<lparr>tw_ccache := r\<rparr>) = is_enabled w"
  "cached_id (w\<lparr>tw_ccache := r\<rparr>) = (\<lambda>t. live (rsv_state r) (client_key t))"
  "last_token (w\<lparr>tw_ccache := r\<rparr>) = (\<lambda>i. live (rsv_state r) (client_id i))"
  by (auto simp: cached_id_def last_token_def is_enabled_def fun_eq_iff)

lemma is_enabled_committed: "committed d = committed (tw_clients w) \<Longrightarrow> is_enabled (w\<lparr>tw_clients := d\<rparr>) = is_enabled w"
  by (auto simp: is_enabled_def fun_eq_iff)

lemma first_client_ok: "first_client g rows d = (Inr c, d') \<Longrightarrow> \<exists>r rs. rows = r # rs \<and> c = ToClient r \<and> committed d' = committed d"
  by (cases rows) (auto simp: first_client_def trying_apply split: prod.splits sum.splits dest!: driver_ret)

lemma update_clients_ok:
  "update_clients p f t = Inr (t', rows) \<Longrightarrow>
     rows = map f (filter p (ct_clients t)) \<and> ct_clients t' = map (\<lambda>r. if p r then f r else r) (ct_clients t)"
  by (auto simp: update_clients_def Let_def split: if_splits)

lemma clr_RetrieveBySecret_ok:
  assumes "clr_RetrieveBySecret key i p d = (Inr c, d')"
  shows "\<exists>r \<in> set (ct_clients (committed d)). c = ToClient r \<and> dc_Secret r = key \<and> dc_Status r = EnabledStatus \<and>
    (if p = DomainAuth then dc_Domain r = i else dc_ID r = i)"
proof -
  have "p \<noteq> UnknownAuth" using assms by (auto simp: clr_RetrieveBySecret_def)
  then obtain rows d1 where q: "db_query (\<lambda>t. filter (\<lambda>r. dc_Secret r = key \<and> dc_Status r = EnabledStatus \<and>
           (if p = DomainAuth then dc_Domain r = i else dc_ID r = i)) (ct_clients t)) d = (Inr rows, d1)"
    and f: "first_client (clients_eh repoErrViewEntity) rows d1 = (Inr c, d')"
    using trying_InrD [OF assms [unfolded clr_RetrieveBySecret_def if_not_P [OF \<open>p \<noteq> UnknownAuth\<close>]]] by blast
  from first_client_ok [OF f] obtain r rs where r: "rows = r # rs" "c = ToClient r" by blast
  have "r \<in> set rows" using r(1) by simp
  with db_query_ok [OF q] r(2) show ?thesis by auto
qed

lemma clr_ChangeStatus_ok:
  assumes "clr_ChangeStatus cl d = (Inr c, d')"
  shows "c_ID c = c_ID cl \<and> (\<forall>r \<in> set (ct_clients (committed d')). dc_ID r = c_ID cl \<longrightarrow> dc_Status r = c_Status cl)"
proof -
  let ?p = "\<lambda>r. dc_ID r = c_ID cl" and ?f = "\<lambda>r. touched_by (ToDBClient cl) (r\<lparr>dc_Status := c_Status cl\<rparr>)"
  obtain rows d1 where e: "db_exec (update_clients ?p ?f) d = (Inr rows, d1)"
    and f: "first_client (clients_eh repoErrUpdateEntity) (map without_secret rows) d1 = (Inr c, d')"
    using assms by (auto simp: clr_ChangeStatus_def clr_update_def ToDBClient_def Let_def dest!: trying_InrD)
  from db_exec_ok [OF e] have t: "update_clients ?p ?f (committed d) = Inr (committed d1, rows)" by auto
  then have rows: "rows = map ?f (filter ?p (ct_clients (committed d)))"
    and new: "ct_clients (committed d1) = map (\<lambda>r. if ?p r then ?f r else r) (ct_clients (committed d))"
    using update_clients_ok [OF t] by blast+
  from first_client_ok [OF f] obtain r rs where r: "map without_secret rows = r # rs" "c = ToClient r" "committed d' = committed d1" by (elim exE conjE)
  have "dc_ID r = c_ID cl" using r(1) rows by (auto simp: Cons_eq_map_conv filter_eq_Cons_iff)
  with r(2) have "c_ID c = c_ID cl" by (simp add: ToClient_def)
  with new r(3) show ?thesis by auto
qed

interpretation things_auth: credential_store deployed_clients cached_id last_token is_enabled
proof
  fix t w r w' i key p r2 c u cl n w1 r3 w2
  note deployed = deployed_clients_def clients_repo_def lifted_eq credential_views
  show "cached_id w' = cached_id w \<and> is_enabled w' = is_enabled w" if "cs_cache_ID deployed_clients t w = (r, w')"
    using that by (auto simp: deployed clc_ID_def client_cache_def trying_apply cached_id_def fun_eq_iff
        split: if_splits prod.splits sum.splits dest!: ref_rd.Get_same)
  show "cached_id w t = Some i" if "cs_cache_ID deployed_clients t w = (Inr i, w')"
    using that by (auto simp: deployed clc_ID_def client_cache_def trying_apply cached_id_def
        split: if_splits prod.splits sum.splits dest!: ref_rd.Get_ok)
  show "cached_id w' = cached_id w \<and> is_enabled w' = is_enabled w"
    if "cr_RetrieveBySecret (cs_repo deployed_clients) key i p w = (r2, w')"
  proof -
    have "reads (clr_RetrieveBySecret key i p)" unfolding clr_RetrieveBySecret_def by (intro io_intros reads_first_client)
    with that show ?thesis by (auto simp: deployed dest!: readsD intro!: is_enabled_committed)
  qed
  show "is_enabled w (c_ID c)" if "cr_RetrieveBySecret (cs_repo deployed_clients) key i p w = (Inr c, w')"
    using that by (auto simp: deployed is_enabled_def ToClient_def dest!: clr_RetrieveBySecret_ok)
  show "is_enabled w' = is_enabled w \<and>
      (case last_token w i of None \<Rightarrow> cached_id w' = cached_id w | Some t \<Rightarrow> cached_id w' = (cached_id w)(t := None))"
    if "cs_cache_Remove deployed_clients i w = (Inr u, w')"
  proof -
    from that obtain s where s: "clc_Remove client_cache i (tw_ccache w) = (Inr u, s)" "w' = w\<lparr>tw_ccache := s\<rparr>"
      by (auto simp: deployed)
    obtain g s1 where g: "r_Get ref_redis (client_id i) (tw_ccache w) = (g, s1)" by fastforce
    have same: "rsv_state s1 = rsv_state (tw_ccache w)" using ref_rd.Get_same [OF g] .
    show ?thesis
    proof (cases g)
      case (Inl e)
      with g s(1) have "e = RedisNil" "s = s1" by (auto simp: clc_Remove_def client_cache_def split: redis_error.splits)
      with Inl g s(2) same ref_rd.Get_nil [of "client_id i" "tw_ccache w" s1] show ?thesis
        by (auto simp: credential_views last_token_def cached_id_def fun_eq_iff)
    next
      case (Inr k)
      with g s(1) have "r_Tx ref_redis [CmdDel (client_key k), CmdDel (client_id i)] s1 = (Inr (), s)"
        by (auto simp: clc_Remove_def client_cache_def dest!: trying_InrD)
      from ref_rd.Tx_ok [OF this] have "live (rsv_state s) = (live (rsv_state (tw_ccache w)))(client_key k := None, client_id i := None)"
        using same live_simps(2) by (simp del: run_cmd.simps)
      with Inr g s(2) ref_rd.Get_ok [of "client_id i" "tw_ccache w" k s1] show ?thesis
        by (auto simp: credential_views last_token_def cached_id_def fun_eq_iff)
    qed
  qed
  show "cached_id w' = cached_id w \<and> last_token w' = last_token w \<and> c_ID c = c_ID cl \<and>
      (c_Status cl \<noteq> EnabledStatus \<longrightarrow> \<not> is_enabled w' (c_ID cl))"
    if "cr_ChangeStatus (cs_repo deployed_clients) cl w = (Inr c, w')"
    using that by (auto simp: deployed is_enabled_def dest!: clr_ChangeStatus_ok)
  show "cached_id w1 = cached_id w \<and> last_token w1 = last_token w" if "cs_now deployed_clients w = (n, w1)"
    using that by (auto simp: deployed tw_Now_def)
  show "cached_id w2 = cached_id w \<and> last_token w2 = last_token w"
    if "cr_RetrieveByID (cs_repo deployed_clients) i w = (r3, w2)"
    using that by (auto simp: deployed)
qed

text \<open>The authorization of a client over gRPC.\<close>

lemma channel_Authorize_sound:
  assumes "channel_Authorize deployed_channels (channel_request ct ext ch d) w = (Inr b, w')"
  shows "\<lparr>co_ClientID = ext, co_ChannelID = ch, co_DomainID = d, co_Type = ct\<rparr> \<in> channel_conns w"
proof -
  let ?req = "\<lparr>ar_DomainID = d, ar_ChannelID = ch, ar_ClientID = ext, ar_ClientType = ClientType, ar_Type = ct\<rparr>"
  have "decodeAuthorizeRequest (channel_request ct ext ch d) = Inr ?req"
    using wired_InrD [OF assms [unfolded channel_Authorize_def]]
    by (auto simp: decodeAuthorizeRequest_def channel_request_def policy_names Let_def split: option.splits)
  with wired_InrD [OF assms [unfolded channel_Authorize_def]] obtain u w1 where "chp_Authorize deployed_channels ?req w = (Inr u, w1)"
    by (auto simp: authorizeEndpoint_def dest!: guarded_InrD pass_InrD)
  from things.Authorize_sound [OF this] show ?thesis by simp
qed

end
