(* ===== verification/Access.thy ===== *)
theory Access
  imports Connected
begin

text \<open>
  Who gets in: the broker, the channels service and the clients service together, on the
  deployed services of \<open>Connected\<close>. The sections state what connecting, disconnecting,
  disabling and deleting do to a client's access, also when databases, caches or calls
  between the services fail.
\<close>

section \<open>A sample deployment\<close>

definition sample_client :: DBClient where
  "sample_client = (ToDBClient Client0)\<lparr>dc_ID := ''c1'', dc_Domain := ''u1'', dc_Secret := ''k''\<rparr>"

definition sample_channel :: dbChannel where
  "sample_channel = (toDBChannel Channel0)\<lparr>dh_ID := ''u2'', dh_Domain := ''u1''\<rparr>"

abbreviation db_of :: "'t \<Rightarrow> dberror option list \<Rightarrow> 't database" where
  "db_of t fs \<equiv> \<lparr>committed = t, open_txs = [], next_tx = 0, faults = fs\<rparr>"

abbreviation empty_cache :: redis_server where
  "empty_cache \<equiv> \<lparr>rsv_state = \<lparr>rstrings = [], rzsets = []\<rparr>, rsv_faults = []\<rparr>"

definition sample_things :: things_world where
  "sample_things = \<lparr>tw_clients = db_of \<lparr>ct_clients = [sample_client], ct_connections = []\<rparr> [], tw_ccache = empty_cache,
     tw_channels = db_of \<lparr>ht_channels = [sample_channel], ht_connections = []\<rparr> [], tw_hcache = empty_cache,
     tw_store = sample_store, tw_crdb = db_of \<lparr>t_entities = [''c1''], t_roles = [], t_actions = [], t_members = []\<rparr> [],
     tw_hrdb = db_of \<lparr>t_entities = [''u2''], t_roles = [], t_actions = [], t_members = []\<rparr> [], tw_now = 1,
     tw_ids = (\<lambda>n. replicate n (CHR ''i'')), tw_nid = 3, tw_domain = (\<lambda>_. Inr EnabledStatus),
     tw_group = (\<lambda>_. Inl svcErrNotFound), tw_rpc = []\<rparr>"

definition owner_session :: Session where
  "owner_session = sample_session\<lparr>s_DomainID := ''u1'', s_DomainUserID := ''u1_u9'', s_UserID := ''u9''\<rparr>"

abbreviation sample_connection :: Connection where
  "sample_connection \<equiv> \<lparr>co_ClientID = ''c1'', co_ChannelID = ''u2'', co_DomainID = ''u1'', co_Type = Publish\<rparr>"

abbreviation connected_things :: things_world where
  "connected_things \<equiv> snd (Connect deployed_channels owner_session [''u2''] [''c1''] [Publish] sample_things)"

section \<open>Connections\<close>

text \<open>C4: The connections of the channels service are a set that \<open>Connect\<close> and \<open>Disconnect\<close> change
  by union and difference, all at once: whatever fails on the way - a lookup, a call of the
  clients service, the database -, an operation that returns an error has changed nothing of it.\<close>

theorem connections_refine_a_set:
  "effect channel_conns (Connect deployed_channels ses chs ths ts)
     (\<lambda>S _ S'. S' = S \<union> set (all_connections (s_DomainID ses) chs ths ts)) \<and>
   ((\<forall>t \<in> set ts. 0 < t) \<longrightarrow> effect channel_conns (Disconnect deployed_channels ses chs ths ts)
     (\<lambda>S _ S'. S' = S - set (all_connections (s_DomainID ses) chs ths ts)))"
  using things.Connect_effect things.Disconnect_effect by blast

theorem connections_refine_a_set_witness:
  "channel_conns (snd (Disconnect deployed_channels owner_session [''u2''] [''c1''] [Publish] connected_things)) = {} \<and>
   channel_conns connected_things = {sample_connection}"
proof -
  have c: "fst (Connect deployed_channels owner_session [''u2''] [''c1''] [Publish] sample_things) = Inr ()"
    "fst (Disconnect deployed_channels owner_session [''u2''] [''c1''] [Publish] connected_things) = Inr ()"
    "channel_conns sample_things = {}" "0 < Publish"
    by code_simp+
  have conns: "set (all_connections (s_DomainID owner_session) [''u2''] [''c1''] [Publish]) = {sample_connection}" by code_simp
  note r = connections_refine_a_set [of owner_session "[''u2'']" "[''c1'']" "[Publish]", unfolded conns]
  have one: "channel_conns connected_things = {sample_connection}"
    using effect_InrD [OF r [THEN conjunct1], of sample_things "()"] c(1,3) by (simp add: prod_eq_iff)
  with effect_InrD [OF r [THEN conjunct2, THEN mp], of connected_things "()"] c(2,4) show ?thesis by (simp add: prod_eq_iff)
qed

text \<open>C3: Whatever fails, the broker lets a client publish or subscribe on a topic only if the topic
  is a healthcheck topic or the client is connected to the topic's channel, in the topic's
  domain, for that action.\<close>

theorem broker_admits_only_connected_clients:
  assumes "lossy_cache p" "reachable_cache p (fromString r) c"
    and "fst (Authorize p r (\<lambda>q. fst (rpc (channel_Authorize deployed_channels q) w)) action ext topic c) = Inr True"
  shows "\<exists>d ch s ty. request_result r (ucast action) topic = (d, ch, s, ty, None) \<and>
    (ty = HealthType \<or> \<lparr>co_ClientID = ext, co_ChannelID = ch, co_DomainID = d, co_Type = ucast action\<rparr> \<in> channel_conns w)"
proof -
  let ?ct = "ucast action :: ConnType"
  from assms(3) obtain d ch s ty where q: "request_result r ?ct topic = (d, ch, s, ty, None)"
    "ty = HealthType \<or> fst (rpc (channel_Authorize deployed_channels (channel_request ?ct ext ch d)) w) = Inr True"
    unfolding authorize_decision [OF assms(1,2)] Let_def by blast
  have "\<lparr>co_ClientID = ext, co_ChannelID = ch, co_DomainID = d, co_Type = ?ct\<rparr> \<in> channel_conns w" if "ty \<noteq> HealthType"
  proof -
    from q(2) that obtain w' where "rpc (channel_Authorize deployed_channels (channel_request ?ct ext ch d)) w = (Inr True, w')"
      by (metis prod.collapse)
    then have "channel_Authorize deployed_channels (channel_request ?ct ext ch d) (w\<lparr>tw_rpc := tl (tw_rpc w)\<rparr>) = (Inr True, w')"
      by (rule rpc_InrD)
    from channel_Authorize_sound [OF this] show ?thesis by (simp add: channel_conns_views)
  qed
  with q(1) show ?thesis by blast
qed

theorem broker_admits_only_connected_clients_witness:
  "sample_connection \<in> channel_conns connected_things"
proof -
  have l: "lossy_cache map_cache" by (auto simp: lossy_cache_def map_cache_def split: if_splits)
  have r: "reachable_cache map_cache (fromString example_resolver) Map.empty"
    by (rule rc_empty) (simp add: map_cache_def)
  have a: "fst (Authorize map_cache example_resolver (\<lambda>q. fst (rpc (channel_Authorize deployed_channels q) connected_things))
      1 ''c1'' ''m/home/c/temp'' Map.empty) = Inr True" by code_simp
  have "request_result example_resolver (ucast (1 :: 32 word)) ''m/home/c/temp'' = (''u1'', ''u2'', [], MessageType, None)"
    by code_simp
  with broker_admits_only_connected_clients [OF l r a] show ?thesis by (auto simp: Publish_def)
qed

lemma rpc_calm: "tw_rpc w = [] \<Longrightarrow> rpc m w = m w"
  by (cases w) (simp add: rpc_def)

lemma denied_over_wire: "shouldDenyAuthorize (over_wire (Wrap svcErrAuthorization repoErrNotFound))"
  by code_simp

lemma on_channels_calm: "faults (tw_channels w) = [] \<Longrightarrow>
   on_channels (chr_ClientAuthorize c) w = (if c \<in> channel_conns w then Inr () else Inl repoErrNotFound, w)"
  by (cases w) (auto simp: lifted_def chr_ClientAuthorize_def trying_apply db_query_calm channel_conns_def list_ex_iff)

lemma channel_Authorize_calm:
  assumes "faults (tw_channels w) = []" "tw_rpc w = []" "tw_domain w d = Inr EnabledStatus" "ct = Publish \<or> ct = Subscribe"
  shows "channel_Authorize deployed_channels (channel_request ct ext ch d) w =
    (if \<lparr>co_ClientID = ext, co_ChannelID = ch, co_DomainID = d, co_Type = ct\<rparr> \<in> channel_conns w then Inr True
     else Inl (over_wire (Wrap svcErrAuthorization repoErrNotFound)), w)"
proof -
  have n: "''client'' \<noteq> UserType" "''client'' = ClientType" by (simp_all add: policy_names)
  have dec: "decodeAuthorizeRequest (channel_request ct ext ch d) =
      Inr \<lparr>ar_DomainID = d, ar_ChannelID = ch, ar_ClientID = ext, ar_ClientType = ''client'', ar_Type = ct\<rparr>"
    using assms(4) by (auto simp: decodeAuthorizeRequest_def channel_request_def CheckConnType_def Let_def)
  show ?thesis unfolding channel_Authorize_def dec
    by (simp add: wired_def authorizeEndpoint_def authorizeReq_validate_def n(1) chp_Authorize_def trying_apply pass_apply
        deployed_channels_def rpc_calm assms(2,3) channels_repo_def on_channels_calm [OF assms(1)])
      (simp add: n(2))
qed

text \<open>C18: For a message topic that parses and resolves, and an action that is a publish or a subscribe, when nothing
  fails and the domain of the topic is enabled, the answer of the broker to a client is exactly
  whether the client is connected to the channel for that action: a client that is not connected
  is refused, never answered with an error, although the channels service answers with a not-found
  error that crosses gRPC. (Health topics are granted without a connection.)\<close>

theorem broker_answers_exactly_the_connections:
  assumes "lossy_cache p" "reachable_cache p (fromString r) c"
    and "ucast action = Publish \<or> ucast action = Subscribe"
    and "request_result r (ucast action) topic = (d, ch, s, ty, None)" "ty \<noteq> HealthType"
    and "faults (tw_channels w) = []" "tw_rpc w = []" "tw_domain w d = Inr EnabledStatus"
  shows "fst (Authorize p r (\<lambda>q. fst (rpc (channel_Authorize deployed_channels q) w)) action ext topic c) =
    Inr (\<lparr>co_ClientID = ext, co_ChannelID = ch, co_DomainID = d, co_Type = ucast action\<rparr> \<in> channel_conns w)"
  using channel_Authorize_calm [OF assms(6-8,3), of ext ch] denied_over_wire
  by (simp add: Authorize_parsed [OF assms(1-4)] authorizeParsed_def assms(5) rpc_calm assms(7) channel_request_def)

theorem broker_answers_exactly_the_connections_witness:
  "fst (Authorize map_cache example_resolver (\<lambda>q. fst (rpc (channel_Authorize deployed_channels q) connected_things))
      2 ''c1'' ''m/home/c/temp'' Map.empty) = Inr False"
proof -
  have l: "lossy_cache map_cache" by (auto simp: lossy_cache_def map_cache_def split: if_splits)
  have r: "reachable_cache map_cache (fromString example_resolver) Map.empty"
    by (rule rc_empty) (simp add: map_cache_def)
  have q: "request_result example_resolver (ucast (2 :: 32 word)) ''m/home/c/temp'' = (''u1'', ''u2'', [], MessageType, None)"
    by code_simp
  have w: "faults (tw_channels connected_things) = []" "tw_rpc connected_things = []" "tw_domain connected_things ''u1'' = Inr EnabledStatus"
    by code_simp+
  have a: "(ucast (2 :: 32 word) :: ConnType) = Publish \<or> (ucast (2 :: 32 word) :: ConnType) = Subscribe" by code_simp
  have n: "\<lparr>co_ClientID = ''c1'', co_ChannelID = ''u2'', co_DomainID = ''u1'', co_Type = ucast (2 :: 32 word)\<rparr> \<notin> channel_conns connected_things"
    by code_simp
  from broker_answers_exactly_the_connections [OF l r a q _ w, of "''c1''"] n show ?thesis by simp
qed

text \<open>\<open>Connect\<close> adds the connections to the clients service first and does not take them back when the
  channels service then fails: from then on every attempt to make one of these connections
  fails, since the clients service already has it.\<close>

lemma half_made_connection_blocks_connect:
  assumes "c \<in> client_conns w" "c \<in> set (all_connections (s_DomainID ses) chs ths ts)"
  shows "fst (Connect deployed_channels ses chs ths ts w) \<noteq> Inr u"
proof
  assume "fst (Connect deployed_channels ses chs ths ts w) = Inr u"
  then obtain w' where "Connect deployed_channels ses chs ths ts w = (Inr u, w')" by (metis prod.collapse)
  from things_clients.Connect_adds [OF this] obtain w1 w2 where "client_conns w1 = client_conns w"
    "hs_clients_AddConnections deployed_channels (all_connections (s_DomainID ses) chs ths ts) w1 = (Inr (), w2)" by blast
  with clients_AddConnections_fresh [OF this(2)] assms show False by auto
qed

text \<open>The database of the channels service fails once, while the connections are inserted.\<close>

abbreviation unlucky_things :: things_world where
  "unlucky_things \<equiv> sample_things\<lparr>tw_channels := (tw_channels sample_things)\<lparr>faults := [None, None, None, Some (DriverError ''timeout'')]\<rparr>\<rparr>"

section \<open>Credentials\<close>

text \<open>C19: Disabling a client revokes its credentials at once: after a successful \<open>Disable\<close>, no token
  authenticates the client any more, provided that of its tokens only the last recorded one was in
  the cache.\<close>

theorem disabled_client_is_refused:
  assumes "DisableClient deployed_clients ses i w = (Inr c, w')" "\<And>t. cached_id w t = Some i \<Longrightarrow> last_token w i = Some t"
  shows "fst (clp_Authenticate deployed_clients t w') \<noteq> Inr i"
  using assms by (rule things_auth.disabled_refused)

text \<open>The token \<open>tok\<close> was authenticated and is cached.\<close>

definition cached_things :: "string list \<Rightarrow> things_world" where
  "cached_things toks = sample_things\<lparr>tw_ccache := fold (\<lambda>t c. snd (clc_Save client_cache t ''c1'' c)) toks empty_cache\<rparr>"

abbreviation disabled_things :: "string list \<Rightarrow> things_world" where
  "disabled_things toks \<equiv> snd (DisableClient deployed_clients owner_session ''c1'' (cached_things toks))"

lemma cached_things_ids:
  "cached_id (cached_things [''t'']) t = (if t = ''t'' then Some ''c1'' else None)"
  by (auto simp: cached_things_def cached_id_def clc_Save_def client_cache_def ref_redis_def rsv_run_def rsv_def trying_apply
      live_def client_key_def client_id_def)

theorem disabled_client_is_refused_witness:
  "fst (clp_Authenticate deployed_clients ''t'' (cached_things [''t''])) = Inr ''c1'' \<and>
   fst (clp_Authenticate deployed_clients ''t'' (disabled_things [''t''])) \<noteq> Inr ''c1''"
proof -
  obtain c where "fst (DisableClient deployed_clients owner_session ''c1'' (cached_things [''t''])) = Inr c"
    by (cases "fst (DisableClient deployed_clients owner_session ''c1'' (cached_things [''t'']))") (code_simp, blast)
  then have d: "DisableClient deployed_clients owner_session ''c1'' (cached_things [''t'']) = (Inr c, disabled_things [''t''])"
    by (simp add: prod_eq_iff)
  have "last_token (cached_things [''t'']) ''c1'' = Some ''t''" by code_simp
  then have "fst (clp_Authenticate deployed_clients ''t'' (disabled_things [''t''])) \<noteq> Inr ''c1''"
    by (intro disabled_client_is_refused [OF d]) (simp add: cached_things_ids split: if_splits)
  moreover have "fst (clp_Authenticate deployed_clients ''t'' (cached_things [''t''])) = Inr ''c1''" by code_simp
  ultimately show ?thesis by blast
qed

text \<open>The proviso matters: the cache records one token per client, the last one saved, and forgets only
  that one. Any other token that is still cached, such as the same secret sent in another form,
  authenticates a disabled client until it expires.\<close>

lemma other_token_survives_disable:
  assumes "DisableClient deployed_clients ses i w = (Inr c, w')" "cached_id w t = Some i" "last_token w i \<noteq> Some t"
    and "rsv_faults (tw_ccache w') = []" "t \<noteq> []"
  shows "fst (clp_Authenticate deployed_clients t w') = Inr i"
proof -
  from things_auth.Disable_ok [OF assms(1)] assms(2,3) have "cached_id w' t = Some i" by (auto split: option.splits)
  then have "fst (clc_ID client_cache t (tw_ccache w')) = Inr i"
    using assms(4,5) by (simp add: clc_ID_def client_cache_def ref_redis_def rsv_calm trying_apply cached_id_def)
  then show ?thesis
    by (auto simp: clp_Authenticate_def deployed_clients_def lifted_def split: prod.splits sum.splits)
qed

section \<open>Deleting\<close>

lemma frames_RemoveEntitiesRoles:
  assumes "\<And>s w. v (put s w) = v w"
  shows "frames v (RemoveEntitiesRoles (lift_roles get put R) d u es fs ps)"
proof -
  have "frames v (delete_filters (lift_roles get put R) fs)" for fs
    by (induction fs) (auto simp: lift_roles_def intro!: frames_rules frames_lifted assms)
  then show ?thesis unfolding RemoveEntitiesRoles_def Let_def
    by (auto simp: lift_roles_def lift_repo_def intro!: frames_rules frames_lifted assms split: prod.splits)
qed

lemma channel_conns_more_views:
  "channel_conns (w\<lparr>tw_ccache := r\<rparr>) = channel_conns w" "channel_conns (put_croles s w) = channel_conns w"
  "channel_conns (w\<lparr>tw_crdb := d\<rparr>) = channel_conns w"
  by (simp_all add: channel_conns_def)

lemma frames_with_client_roles:
  assumes "frames channel_conns m"
  shows "frames channel_conns (with_client_roles m)"
  using assms unfolding frames_def with_client_roles_def by (auto simp: channel_conns_more_views split: prod.splits)

lemma RemoveClientConnections_ok:
  assumes "cs_RemoveClientConnections deployed_clients i w = (Inr u, w')"
  shows "channel_conns w' = {c \<in> channel_conns w. co_ClientID c \<noteq> i}"
proof -
  from assms have "on_channels (chr_RemoveClientConnections i) (w\<lparr>tw_rpc := tl (tw_rpc w)\<rparr>) = (Inr u, w')"
    by (auto simp: deployed_clients_def channels_repo_def dest!: rpc_InrD wired_InrD)
  then obtain d where "db_exec (delete_channel_connections (\<lambda>c. co_ClientID c = i)) (tw_channels w) = (Inr (), d)" "tw_channels w' = d"
    by (auto simp: lifted_eq chr_RemoveClientConnections_def dest!: trying_InrD)
  with db_exec_ok [OF this(1)] show ?thesis by (auto simp: delete_channel_connections_def channel_conns_def)
qed

lemma DeleteClient_frames:
  "frames channel_conns (cr_ChangeStatus (cs_repo deployed_clients) c)" "frames channel_conns (cs_cache_Remove deployed_clients i)"
  "frames channel_conns (RemoveEntitiesRoles (cs_roles deployed_clients) d u es fs ps)"
  "frames channel_conns (cr_Delete (cs_repo deployed_clients) es)"
  "frames channel_conns (cr_DoesClientHaveConnections (cs_repo deployed_clients) i)"
  by (auto simp: deployed_clients_def clients_repo_def channel_conns_views channel_conns_more_views
      intro!: frames_with_client_roles frames_lifted frames_RemoveEntitiesRoles)

lemma DoesClientHaveConnections_ok:
  assumes "cr_DoesClientHaveConnections (cs_repo deployed_clients) i w = (Inr b, w')"
  shows "b \<longleftrightarrow> i \<in> co_ClientID ` client_conns w"
  using assms by (auto simp: deployed_clients_def clients_repo_def lifted_eq clr_DoesClientHaveConnections_def client_conns_def
      list_ex_iff image_iff dest!: trying_InrD db_query_ok)

lemma two_steps_then_frames:
  assumes "trying m1 g1 (\<lambda>x. pass (m2 x) (\<lambda>y. k x y)) w = (Inr u, w')" "\<And>x y. frames v (k x y)"
  shows "\<exists>x w1 y w2. m1 w = (Inr x, w1) \<and> m2 x w1 = (Inr y, w2) \<and> v w' = v w2"
  using assms(1) by (blast dest!: trying_InrD pass_InrD framesD [OF assms(2)])

text \<open>C20: A deleted client has no connections left in the channels service, and with that no access
  through the broker, provided that the clients service knew of a connection of the client if the
  channels service had one.\<close>

theorem deleted_client_has_no_connections:
  assumes "DeleteClient deployed_clients ses i w = (Inr u, w')"
    and "i \<in> co_ClientID ` channel_conns w \<Longrightarrow> i \<in> co_ClientID ` client_conns w"
  shows "i \<notin> co_ClientID ` channel_conns w'"
proof -
  have "\<exists>ok w1 y w2. cr_DoesClientHaveConnections (cs_repo deployed_clients) i w = (Inr ok, w1) \<and>
      (if ok then trying (cs_RemoveClientConnections deployed_clients i) (Wrap svcErrRemoveEntity) ret else ret ()) w1 = (Inr y, w2) \<and>
      channel_conns w' = channel_conns w2"
    by (rule two_steps_then_frames [OF assms(1) [unfolded DeleteClient_def]]) (intro frames_rules DeleteClient_frames)
  then obtain ok w1 y w2 where a1: "cr_DoesClientHaveConnections (cs_repo deployed_clients) i w = (Inr ok, w1)"
    and a2: "(if ok then trying (cs_RemoveClientConnections deployed_clients i) (Wrap svcErrRemoveEntity) ret else ret ()) w1 = (Inr y, w2)"
    and a3: "channel_conns w' = channel_conns w2" by (elim exE conjE)
  note w1 = framesD [OF DeleteClient_frames(5) a1] and ok = DoesClientHaveConnections_ok [OF a1]
  show ?thesis
  proof (cases ok)
    case True
    from trying_InrD [OF a2 [unfolded if_P [OF True]]]
    have "cs_RemoveClientConnections deployed_clients i w1 = (Inr y, w2)" by simp
    with RemoveClientConnections_ok [OF this] a3 show ?thesis by auto
  next
    case False
    with a2 have "w2 = w1" by simp
    with False ok assms(2) a3 w1 show ?thesis by auto
  qed
qed

text \<open>A client that was created, with its role, and connected.\<close>

abbreviation created_things :: things_world where
  "created_things \<equiv> snd (CreateClients deployed_clients owner_session
     [Client0\<lparr>c_ID := ''c2'', c_Credentials := \<lparr>cred_Identity = [], cred_Secret = ''k2''\<rparr>\<rparr>] sample_things)"

abbreviation used_things :: things_world where
  "used_things \<equiv> snd (Connect deployed_channels owner_session [''u2''] [''c2''] [Publish] created_things)"

theorem deleted_client_has_no_connections_witness:
  "''c2'' \<in> co_ClientID ` channel_conns used_things \<and>
   ''c2'' \<notin> co_ClientID ` channel_conns (snd (DeleteClient deployed_clients owner_session ''c2'' used_things))"
proof -
  have "fst (DeleteClient deployed_clients owner_session ''c2'' used_things) = Inr ()" by code_simp
  then have d: "DeleteClient deployed_clients owner_session ''c2'' used_things =
      (Inr (), snd (DeleteClient deployed_clients owner_session ''c2'' used_things))" by (simp add: prod_eq_iff)
  have c: "''c2'' \<in> co_ClientID ` client_conns used_things" "''c2'' \<in> co_ClientID ` channel_conns used_things" by code_simp+
  from deleted_client_has_no_connections [OF d c(1)] c(2) show ?thesis by blast
qed

end
