(* ===== verification/GroupsSvc.thy ===== *)
theory GroupsSvc
  imports Entities Transport
begin

text \<open>
  The groups service: \<open>groups/groups.go\<close>, the repository \<open>groups/postgres/groups.go\<close> with the
  schema of \<open>init.go\<close>, and the service \<open>groups/service.go\<close>. Groups form a hierarchy that is
  stored twice, as the column \<open>parent_id\<close> and as the column \<open>path\<close>, an \<open>ltree\<close> with the ids from
  the root down to the group; PostgreSQL answers questions about ancestors from the path.
  The listings, which join the tables of roles and domains, are left out.
\<close>

section \<open>Groups\<close>

record Group =
  g_ID :: string
  g_Domain :: string
  g_Parent :: string
  g_Name :: string
  g_Description :: "string option"
  g_Tags :: "string list"
  g_Metadata :: Metadata
  g_Level :: nat
  g_Path :: string
  g_CreatedAt :: int
  g_UpdatedAt :: int
  g_UpdatedBy :: string
  g_Status :: Status

definition Group0 :: Group where
  "Group0 = \<lparr>g_ID = [], g_Domain = [], g_Parent = [], g_Name = [], g_Description = None, g_Tags = [], g_Metadata = None,
     g_Level = 0, g_Path = [], g_CreatedAt = 0, g_UpdatedAt = 0, g_UpdatedBy = [], g_Status = EnabledStatus\<rparr>"

definition MaxPathLength :: nat where "MaxPathLength = 20"

record dbGroup =
  dg_ID :: string
  dg_ParentID :: "string option"
  dg_DomainID :: string
  dg_Name :: string
  dg_Description :: "string option"
  dg_Tags :: "string list"
  dg_Level :: nat
  dg_Path :: string
  dg_Metadata :: Metadata
  dg_CreatedAt :: int
  dg_UpdatedAt :: "int option"
  dg_UpdatedBy :: "string option"
  dg_Status :: Status

type_synonym group_rows = "dbGroup list"
type_synonym groups_db = "group_rows database"

definition toDBGroup :: "Group \<Rightarrow> dbGroup" where
  "toDBGroup g = \<lparr>dg_ID = g_ID g, dg_ParentID = toNullString (g_Parent g), dg_DomainID = g_Domain g, dg_Name = g_Name g,
     dg_Description = g_Description g, dg_Tags = g_Tags g, dg_Level = 0, dg_Path = g_Path g,
     dg_Metadata = metadata_column (g_Metadata g), dg_CreatedAt = g_CreatedAt g, dg_UpdatedAt = null_at (g_UpdatedAt g),
     dg_UpdatedBy = toNullString (g_UpdatedBy g), dg_Status = g_Status g\<rparr>"

definition toGroup :: "dbGroup \<Rightarrow> Group" where
  "toGroup g = \<lparr>g_ID = dg_ID g, g_Domain = dg_DomainID g, g_Parent = nullString (dg_ParentID g), g_Name = dg_Name g,
     g_Description = dg_Description g, g_Tags = dg_Tags g, g_Metadata = dg_Metadata g, g_Level = dg_Level g, g_Path = dg_Path g,
     g_CreatedAt = dg_CreatedAt g, g_UpdatedAt = at_null (dg_UpdatedAt g), g_UpdatedBy = nullString (dg_UpdatedBy g),
     g_Status = dg_Status g\<rparr>"

definition errParentGroupID :: gerror where "errParentGroupID = New ''parent group id is empty''"
definition errParentGroupPath :: gerror where "errParentGroupPath = New ''parent group path is empty''"
definition errParentSuffix :: gerror where "errParentSuffix = New ''parent group path doesn't have parent id suffix''"
definition errCyclicParentGroup :: gerror where
  "errCyclicParentGroup = NewRequestError ''cyclic parent, group is parent of requested group''"
definition repoErrFailedToRetrieveAllGroups :: gerror where "repoErrFailedToRetrieveAllGroups = New ''failed to retrieve all groups''"

definition groups_GetError :: "string \<Rightarrow> gerror option" where
  "groups_GetError cname = (if cname = ''groups_pkey'' then Some (NewRequestError ''group id already exists'') else None)"

abbreviation groups_eh :: "gerror \<Rightarrow> dberror \<Rightarrow> gerror" where
  "groups_eh \<equiv> eh_HandleError groups_GetError"

section \<open>Paths\<close>

text \<open>
  The text of an \<open>ltree\<close> is its labels with dots between them. A text that is not one is
  refused. \<open>path_below a b\<close> is the operator \<open>a <@ b\<close>: \<open>a\<close> is \<open>b\<close> or a descendant of it.
\<close>

abbreviation labels :: "string \<Rightarrow> string list" where
  "labels s \<equiv> split_on (CHR ''.'') s"

definition label_char :: "char \<Rightarrow> bool" where
  "label_char c \<longleftrightarrow> (let n = of_char c :: nat in (48 \<le> n \<and> n \<le> 57) \<or> (65 \<le> n \<and> n \<le> 90) \<or> (97 \<le> n \<and> n \<le> 122) \<or> n = 95 \<or> n = 45)"

definition ltree_ok :: "string \<Rightarrow> bool" where
  "ltree_ok s \<longleftrightarrow> s = [] \<or> list_all (\<lambda>l. l \<noteq> [] \<and> list_all label_char l) (labels s)"

definition nlevel :: "string \<Rightarrow> nat" where
  "nlevel s = (if s = [] then 0 else length (labels s))"

definition path_below :: "string \<Rightarrow> string \<Rightarrow> bool" where
  "path_below a b \<longleftrightarrow> (b = [] \<or> take (length (labels b)) (labels a) = labels b)"

definition pg_ltree :: dberror where "pg_ltree = PgError ''42601'' ''ltree syntax error'' []"

text \<open>SQL's \<open>replace(s, p, '')\<close>.\<close>

function (sequential) erase :: "string \<Rightarrow> string \<Rightarrow> string" where
  "erase [] s = s"
| "erase (p # ps) [] = []"
| "erase (p # ps) (c # cs) =
     (if HasPrefix (c # cs) (p # ps) then erase (p # ps) (drop (length ps) cs) else c # erase (p # ps) cs)"
  by pat_completeness auto
termination by (relation "measure (length \<circ> snd)") auto

section \<open>Statements\<close>

definition group_fits :: "dbGroup \<Rightarrow> bool" where
  "group_fits r \<longleftrightarrow> length (dg_ID r) \<le> 36 \<and> fits_opt 36 (dg_ParentID r) \<and> length (dg_DomainID r) \<le> 36 \<and>
     length (dg_Name r) \<le> 1024 \<and> fits_opt 1024 (dg_Description r) \<and> fits_opt 254 (dg_UpdatedBy r)"

text \<open>The constraints of the table: \<open>CHECK (id != parent_id)\<close> and the foreign key of the parent.\<close>

definition group_parent_ok :: "group_rows \<Rightarrow> dbGroup \<Rightarrow> bool" where
  "group_parent_ok t r \<longleftrightarrow> (case dg_ParentID r of None \<Rightarrow> True | Some p \<Rightarrow> p \<in> set (map dg_ID t))"

definition check_groups :: "group_rows \<Rightarrow> group_rows \<Rightarrow> dberror option" where
  "check_groups t changed =
     (if \<not> list_all group_fits changed then Some pg_truncated
      else if list_ex (\<lambda>r. dg_ParentID r = Some (dg_ID r)) changed then Some (pg_check ''groups_check'')
      else if \<not> list_all (\<lambda>r. ltree_ok (dg_Path r)) changed then Some pg_ltree
      else if \<not> distinct (map dg_ID t) then Some (pg_unique ''groups_pkey'')
      else if \<not> list_all (group_parent_ok t) changed then Some pg_foreign
      else None)"

definition insert_group :: "dbGroup \<Rightarrow> (group_rows, dbGroup) stmt" where
  "insert_group g t =
     (let row = g\<lparr>dg_UpdatedAt := None, dg_UpdatedBy := None\<rparr>; t' = t @ [row] in
      case check_groups t' [row] of
        Some e \<Rightarrow> Inl e
      | None \<Rightarrow> Inr (t', row\<lparr>dg_Level := nlevel (dg_Path row)\<rparr>))"

definition update_groups :: "(dbGroup \<Rightarrow> bool) \<Rightarrow> (dbGroup \<Rightarrow> dbGroup) \<Rightarrow> (group_rows, dbGroup list) stmt" where
  "update_groups p f t =
     (let t' = map (\<lambda>r. if p r then f r else r) t; changed = map f (filter p t) in
      case check_groups t' changed of
        Some e \<Rightarrow> Inl e
      | None \<Rightarrow> Inr (t', changed))"

text \<open>\<open>ON DELETE SET NULL\<close>: the children of a deleted group become roots; their paths stay.\<close>

definition delete_group :: "string \<Rightarrow> (group_rows, nat) stmt" where
  "delete_group i t =
     Inr (map (\<lambda>r. if dg_ParentID r = Some i then r\<lparr>dg_ParentID := None\<rparr> else r) (filter (\<lambda>r. dg_ID r \<noteq> i) t),
          length (filter (\<lambda>r. dg_ID r = i) t))"

section \<open>The repository\<close>

definition first_group :: "(dberror \<Rightarrow> gerror) \<Rightarrow> dbGroup list \<Rightarrow> (groups_db, gerror, Group) io" where
  "first_group g rows = (case rows of
      [] \<Rightarrow> fail repoErrNotFound
    | r # _ \<Rightarrow> trying (driver (ret r)) g (\<lambda>dbg. ret (toGroup dbg)))"

definition grr_RetrieveByID :: "string \<Rightarrow> (groups_db, gerror, Group) io" where
  "grr_RetrieveByID i =
     trying (db_query (filter (\<lambda>r. dg_ID r = i))) (groups_eh repoErrViewEntity) (first_group (groups_eh repoErrViewEntity))"

text \<open>The computed path of a new group; the empty path stands for a root, whose path is its id.\<close>

definition getInsertQuery :: "Group \<Rightarrow> (groups_db, gerror, string) io" where
  "getInsertQuery g =
     (if g_Parent g \<noteq> [] then
        pass (grr_RetrieveByID (g_Parent g)) (\<lambda>parent.
        let path = g_Path parent @ ''.'' @ g_ID g in
        if length (labels path) > MaxPathLength then fail (Foreign ''reached max nested depth'') else ret path)
      else ret [])"

definition grr_Save :: "Group \<Rightarrow> (groups_db, gerror, Group) io" where
  "grr_Save g =
     trying (getInsertQuery g) (Wrap repoErrCreateEntity) (\<lambda>computedPath.
     let dbg = toDBGroup g;
         row = (if g_Parent g \<noteq> [] then dbg\<lparr>dg_Path := (if computedPath \<noteq> [] then computedPath else dg_Path dbg)\<rparr>
                else dbg\<lparr>dg_ParentID := None, dg_Path := g_ID g\<rparr>) in
     trying (db_exec (insert_group row)) (groups_eh repoErrCreateEntity) (\<lambda>r.
     trying (driver (ret r)) (groups_eh repoErrCreateEntity) (\<lambda>dbg'. ret (toGroup dbg'))))"

abbreviation group_touched :: "dbGroup \<Rightarrow> dbGroup \<Rightarrow> dbGroup" where
  "group_touched dbg r \<equiv> r\<lparr>dg_UpdatedAt := dg_UpdatedAt dbg, dg_UpdatedBy := dg_UpdatedBy dbg\<rparr>"

text \<open>The updates do not return the path.\<close>

definition grr_update :: "(dbGroup \<Rightarrow> bool) \<Rightarrow> (dbGroup \<Rightarrow> dbGroup) \<Rightarrow> (dbGroup \<Rightarrow> dbGroup) \<Rightarrow> (groups_db, gerror, Group) io" where
  "grr_update p f returning =
     trying (db_exec (update_groups p f)) (groups_eh repoErrUpdateEntity) (\<lambda>rows.
     first_group (groups_eh repoErrUpdateEntity) (map returning rows))"

definition grr_Update :: "Group \<Rightarrow> (groups_db, gerror, Group) io" where
  "grr_Update g =
     (let dbu = toDBGroup g in
      grr_update (\<lambda>r. dg_ID r = g_ID g \<and> dg_Status r = EnabledStatus)
        (\<lambda>r. group_touched dbu (r\<lparr>dg_Name := (if g_Name g \<noteq> [] then dg_Name dbu else dg_Name r),
           dg_Description := (if g_Description g \<noteq> None then dg_Description dbu else dg_Description r),
           dg_Metadata := (if g_Metadata g \<noteq> None then dg_Metadata dbu else dg_Metadata r)\<rparr>))
        (\<lambda>r. r\<lparr>dg_Path := []\<rparr>))"

definition grr_UpdateTags :: "Group \<Rightarrow> (groups_db, gerror, Group) io" where
  "grr_UpdateTags g =
     (let dbg = toDBGroup g in
      grr_update (\<lambda>r. dg_ID r = g_ID g \<and> dg_Status r = EnabledStatus)
        (\<lambda>r. group_touched dbg (r\<lparr>dg_Tags := dg_Tags dbg\<rparr>)) (\<lambda>r. r\<lparr>dg_Path := [], dg_Description := None\<rparr>))"

definition grr_ChangeStatus :: "Group \<Rightarrow> (groups_db, gerror, Group) io" where
  "grr_ChangeStatus g =
     (let dbg = toDBGroup g in
      grr_update (\<lambda>r. dg_ID r = g_ID g) (\<lambda>r. group_touched dbg (r\<lparr>dg_Status := dg_Status dbg\<rparr>)) (\<lambda>r. r\<lparr>dg_Path := []\<rparr>))"

text \<open>
  \<open>RetrieveByIDs\<close> with a page of the given status and no other condition, as the service
  calls it: with the zero status, which is the enabled one. The query does not select the path.
\<close>

definition grr_RetrieveByIDs :: "Status \<Rightarrow> string list \<Rightarrow> (groups_db, gerror, Group list) io" where
  "grr_RetrieveByIDs status ids =
     (if ids = [] then ret []
      else
        let q = (\<lambda>t. filter (\<lambda>r. dg_ID r \<in> set ids \<and> (status \<noteq> AllStatuses \<longrightarrow> dg_Status r = status)) t) in
        trying (db_query (\<lambda>t. map (\<lambda>r. r\<lparr>dg_Path := []\<rparr>) (sort_key dg_CreatedAt (q t))))
          (groups_eh repoErrFailedToRetrieveAllGroups) (\<lambda>rows.
        trying (scan_rows rows) (groups_eh repoErrFailedToRetrieveAllGroups) (\<lambda>items.
        if items = [] then
          trying (Total (\<lambda>t. length (q t))) (groups_eh repoErrFailedToRetrieveAllGroups) (\<lambda>_. ret [])
        else ret (map toGroup items))))"

text \<open>\<open>processRows\<close> on a query of the given transaction.\<close>

definition tx_rows :: "nat \<Rightarrow> (group_rows, dbGroup list) stmt \<Rightarrow> (groups_db, gerror, Group list) io" where
  "tx_rows h st =
     trying (tx_exec h st) (groups_eh repoErrUpdateEntity) (\<lambda>rows.
     trying (scan_rows rows) (groups_eh repoErrUpdateEntity) (\<lambda>items. ret (map toGroup items)))"

definition id_and_path :: "dbGroup \<Rightarrow> dbGroup" where
  "id_and_path r = (toDBGroup Group0)\<lparr>dg_ID := dg_ID r, dg_Path := dg_Path r\<rparr>"

definition tx_parent :: "nat \<Rightarrow> string \<Rightarrow> (groups_db, gerror, Group) io" where
  "tx_parent h parentGroupID =
     pass (tx_rows h (\<lambda>t. Inr (t, map id_and_path (take 1 (filter (\<lambda>r. dg_ID r = parentGroupID) t))))) (\<lambda>pGroups.
     case pGroups of
       [] \<Rightarrow> fail repoErrUpdateEntity
     | pGroup # _ \<Rightarrow>
         if g_ID pGroup = [] then fail (Wrap repoErrViewEntity errParentGroupID)
         else if g_Path pGroup = [] then fail (Wrap repoErrViewEntity errParentGroupPath)
         else ret pGroup)"

text \<open>The deferred roll back of the two operations: \<open>err = errors.Wrap(err, errRollback)\<close>.\<close>

definition rollback_plain :: "nat \<Rightarrow> (groups_db, gerror, 'a) io \<Rightarrow> (groups_db, gerror, 'a) io" where
  "rollback_plain h m = rollback_with (\<lambda>errRollback err. Wrap err (dberror_go errRollback)) h m"

definition returning_paths :: "(group_rows, dbGroup list) stmt \<Rightarrow> (group_rows, dbGroup list) stmt" where
  "returning_paths st t = (case st t of Inl e \<Rightarrow> Inl e | Inr (t', rows) \<Rightarrow> Inr (t', map id_and_path rows))"

definition no_result :: "('t, 'r) stmt \<Rightarrow> ('t, unit) stmt" where
  "no_result st t = (case st t of Inl e \<Rightarrow> Inl e | Inr (t', _) \<Rightarrow> Inr (t', ()))"

definition assign_body :: "nat \<Rightarrow> string \<Rightarrow> string list \<Rightarrow> (groups_db, gerror, unit) io" where
  "assign_body h parentGroupID groupIDs =
     pass (tx_parent h parentGroupID) (\<lambda>pGroup.
     if \<not> HasSuffix (g_Path pGroup) (g_ID pGroup) then fail (Wrap repoErrViewEntity errParentSuffix)
     else if list_ex (\<lambda>sPath. list_ex (\<lambda>cgid. sPath = cgid) groupIDs) (labels (g_Path pGroup))
     then fail (Wrap repoErrUpdateEntity errCyclicParentGroup)
     else
       pass (tx_rows h (returning_paths (update_groups (\<lambda>r. dg_ID r \<in> set groupIDs) (\<lambda>r. r\<lparr>dg_ParentID := Some (g_ID pGroup)\<rparr>)))) (\<lambda>cgroups.
       let childrenPaths = map g_Path cgroups in
       trying (tx_exec h (no_result (update_groups (\<lambda>r. list_ex (path_below (dg_Path r)) childrenPaths)
           (\<lambda>r. r\<lparr>dg_Path := g_Path pGroup @ ''.'' @ dg_Path r\<rparr>)))) (groups_eh repoErrUpdateEntity) (\<lambda>_. ret ())))"

definition unassign_body :: "nat \<Rightarrow> string \<Rightarrow> string list \<Rightarrow> (groups_db, gerror, unit) io" where
  "unassign_body h parentGroupID groupIDs =
     pass (tx_parent h parentGroupID) (\<lambda>pGroup.
     pass (tx_rows h (returning_paths (update_groups (\<lambda>r. dg_ID r \<in> set groupIDs \<and> dg_ParentID r = Some (g_ID pGroup))
         (\<lambda>r. r\<lparr>dg_ParentID := None\<rparr>)))) (\<lambda>cgroups.
     let childrenPaths = map g_Path cgroups in
     trying (tx_exec h (no_result (update_groups (\<lambda>r. list_ex (path_below (dg_Path r)) childrenPaths)
         (\<lambda>r. r\<lparr>dg_Path := erase (g_Path pGroup @ ''.'') (dg_Path r)\<rparr>)))) (groups_eh repoErrUpdateEntity) (\<lambda>_. ret ())))"

definition grr_AssignParentGroup :: "string \<Rightarrow> string list \<Rightarrow> (groups_db, gerror, unit) io" where
  "grr_AssignParentGroup parentGroupID groupIDs =
     (if groupIDs = [] then ret ()
      else trying BeginTxx (groups_eh repoErrUpdateEntity) (\<lambda>h.
        rollback_plain h (pass (assign_body h parentGroupID groupIDs) (\<lambda>_.
          trying (tx_Commit h) (groups_eh repoErrUpdateEntity) ret))))"

definition grr_UnassignParentGroup :: "string \<Rightarrow> string list \<Rightarrow> (groups_db, gerror, unit) io" where
  "grr_UnassignParentGroup parentGroupID groupIDs =
     (if groupIDs = [] then ret ()
      else trying BeginTxx (groups_eh repoErrUpdateEntity) (\<lambda>h.
        rollback_plain h (pass (unassign_body h parentGroupID groupIDs) (\<lambda>_.
          trying (tx_Commit h) (groups_eh repoErrUpdateEntity) ret))))"

definition grr_UnassignAllChildrenGroups :: "string \<Rightarrow> (groups_db, gerror, unit) io" where
  "grr_UnassignAllChildrenGroups i =
     trying (db_exec (update_groups (\<lambda>g. dg_ParentID g = Some i) (\<lambda>g. g\<lparr>dg_ParentID := None\<rparr>))) (groups_eh repoErrUpdateEntity) (\<lambda>rows.
     if rows = [] then fail repoErrNotFound else ret ())"

definition grr_Delete :: "string \<Rightarrow> (groups_db, gerror, unit) io" where
  "grr_Delete groupID =
     trying (db_exec (delete_group groupID)) (groups_eh repoErrRemoveEntity) (\<lambda>rows.
     if rows = 0 then fail repoErrNotFound else ret ())"

text \<open>
  The condition on the path of the listing of children, an \<open>lquery\<close>: the number of levels
  below the group it accepts, from and to.
\<close>

definition int_str :: "int \<Rightarrow> string" where
  "int_str n = (if n < 0 then ''-'' @ nat_str (nat (- n)) else nat_str (nat n))"

definition level_condition :: "int \<Rightarrow> int \<Rightarrow> gerror + (nat \<Rightarrow> bool)" where
  "level_condition startLevel endLevel =
     (if startLevel = 0 \<and> endLevel < 0 then Inr (\<lambda>n. True)
      else if 0 < startLevel \<and> (startLevel = endLevel \<or> endLevel = 0) then Inr (\<lambda>n. int n = startLevel)
      else if 0 < startLevel \<and> endLevel < 0 then Inr (\<lambda>n. startLevel \<le> int n)
      else if 0 < startLevel \<and> 0 < endLevel \<and> startLevel < endLevel then Inr (\<lambda>n. startLevel \<le> int n \<and> int n \<le> endLevel)
      else Inl (Wrap repoErrViewEntity (Foreign (''invalid level range: start level: '' @ int_str startLevel @
        '' end level: '' @ int_str endLevel))))"

section \<open>The service\<close>

record 'w GroupsRepository =
  gr_Save :: "Group \<Rightarrow> ('w, gerror, Group) io"
  gr_Update :: "Group \<Rightarrow> ('w, gerror, Group) io"
  gr_UpdateTags :: "Group \<Rightarrow> ('w, gerror, Group) io"
  gr_RetrieveByID :: "string \<Rightarrow> ('w, gerror, Group) io"
  gr_RetrieveByIDs :: "Status \<Rightarrow> string list \<Rightarrow> ('w, gerror, Group list) io"
  gr_ChangeStatus :: "Group \<Rightarrow> ('w, gerror, Group) io"
  gr_AssignParentGroup :: "string \<Rightarrow> string list \<Rightarrow> ('w, gerror, unit) io"
  gr_UnassignParentGroup :: "string \<Rightarrow> string list \<Rightarrow> ('w, gerror, unit) io"
  gr_UnassignAllChildrenGroups :: "string \<Rightarrow> ('w, gerror, unit) io"
  gr_Delete :: "string \<Rightarrow> ('w, gerror, unit) io"

text \<open>The channels and clients services are called over gRPC.\<close>

record 'w groups_service =
  gs_repo :: "'w GroupsRepository"
  gs_AddPolicies :: "Policy list \<Rightarrow> ('w, gerror, unit) io"
  gs_DeletePolicies :: "Policy list \<Rightarrow> ('w, gerror, unit) io"
  gs_DeletePolicyFilter :: "Policy \<Rightarrow> ('w, gerror, unit) io"
  gs_idProvider :: "('w, gerror, string) io"
  gs_UnsetParentGroupFromChannels :: "string \<Rightarrow> ('w, gerror, unit) io"
  gs_UnsetParentGroupFromClient :: "string \<Rightarrow> ('w, gerror, unit) io"
  gs_now :: "'w \<Rightarrow> int \<times> 'w"
  gs_roles :: "'w ProvisionManageService"

definition ErrGroupIDs :: gerror where "ErrGroupIDs = New ''invalid group ids''"
definition errChangeGroupStatus :: gerror where "errChangeGroupStatus = NewServiceError ''failed to change group status''"
definition errGroupHaveParent :: gerror where "errGroupHaveParent = NewRequestError ''group already have parent''"
definition errDifferentParent :: gerror where "errDifferentParent = NewRequestError ''groups have different parent''"

text \<open>The policy that makes one group the parent of another, in a domain.\<close>

abbreviation group_parent_policy :: "string \<Rightarrow> string \<Rightarrow> string \<Rightarrow> Policy" where
  "group_parent_policy domainID parentID groupID \<equiv> (parent_policy parentID GroupType groupID)\<lparr>p_Domain := domainID\<rparr>"

definition CreateGroup :: "'w groups_service \<Rightarrow> Session \<Rightarrow> Group \<Rightarrow> ('w, gerror, Group \<times> RoleProvision list) io" where
  "CreateGroup svc session g =
     trying (gs_idProvider svc) (Wrap svcErrCreateEntity) (\<lambda>groupID.
     if g_Status g \<noteq> EnabledStatus \<and> g_Status g \<noteq> DisabledStatus then fail svcErrInvalidStatus
     else observe (gs_now svc) (\<lambda>now.
       trying (gr_Save (gs_repo svc) (g\<lparr>g_ID := groupID, g_CreatedAt := now, g_Domain := s_DomainID session\<rparr>))
         (Wrap svcErrCreateEntity) (\<lambda>saved.
       deferring (gr_Delete (gs_repo svc) (g_ID saved)) (\<lambda>retErr errRollback. Wrap retErr (Wrap errRollbackTx errRollback))
         (let oprs = (domain_policy (s_DomainID session) GroupType (g_ID saved))\<lparr>p_Domain := s_DomainID session\<rparr> #
            (if g_Parent saved \<noteq> []
             then [(group_parent_policy (s_DomainID session) (g_Parent saved) (g_ID saved))\<lparr>p_ObjectKind := NewGroupKind\<rparr>] else []) in
          trying (AddNewEntitiesRoles (gs_roles svc) (s_DomainID session) (s_UserID session) [g_ID saved] oprs
              [(BuiltInRoleAdmin, [s_UserID session])])
            (Wrap svcErrAddPolicies) (\<lambda>rp. ret (saved, rp))))))"

definition ViewGroup ::
  "'w groups_service \<Rightarrow> (string \<Rightarrow> string \<Rightarrow> ('w, gerror, Group) io) \<Rightarrow> Session \<Rightarrow> string \<Rightarrow> bool \<Rightarrow> ('w, gerror, Group) io" where
  "ViewGroup svc retrieveByIDWithRoles session i withRoles =
     trying (if withRoles then retrieveByIDWithRoles i (s_UserID session) else gr_RetrieveByID (gs_repo svc) i)
       (Wrap svcErrViewEntity) ret"

definition UpdateGroup :: "'w groups_service \<Rightarrow> Session \<Rightarrow> Group \<Rightarrow> ('w, gerror, Group) io" where
  "UpdateGroup svc session g =
     observe (gs_now svc) (\<lambda>now.
     trying (gr_Update (gs_repo svc) (g\<lparr>g_UpdatedAt := now, g_UpdatedBy := s_UserID session\<rparr>)) (Wrap svcErrUpdateEntity) ret)"

definition UpdateGroupTags :: "'w groups_service \<Rightarrow> Session \<Rightarrow> Group \<Rightarrow> ('w, gerror, Group) io" where
  "UpdateGroupTags svc session g =
     observe (gs_now svc) (\<lambda>now.
     trying (gr_UpdateTags (gs_repo svc) (Group0\<lparr>g_ID := g_ID g, g_Tags := g_Tags g, g_UpdatedAt := now,
         g_UpdatedBy := s_UserID session\<rparr>)) (Wrap svcErrUpdateEntity) ret)"

definition changeGroupStatus :: "'w groups_service \<Rightarrow> Session \<Rightarrow> Group \<Rightarrow> ('w, gerror, Group) io" where
  "changeGroupStatus svc session grp =
     trying (gr_RetrieveByID (gs_repo svc) (g_ID grp)) (Wrap svcErrViewEntity) (\<lambda>dbGroup.
     if g_Status dbGroup = g_Status grp then fail svcErrStatusAlreadyAssigned
     else gr_ChangeStatus (gs_repo svc) (grp\<lparr>g_UpdatedBy := s_UserID session\<rparr>))"

definition EnableGroup :: "'w groups_service \<Rightarrow> Session \<Rightarrow> string \<Rightarrow> ('w, gerror, Group) io" where
  "EnableGroup svc session i =
     observe (gs_now svc) (\<lambda>now.
     trying (changeGroupStatus svc session (Group0\<lparr>g_ID := i, g_Status := EnabledStatus, g_UpdatedAt := now\<rparr>))
       (Wrap errChangeGroupStatus) ret)"

definition DisableGroup :: "'w groups_service \<Rightarrow> Session \<Rightarrow> string \<Rightarrow> ('w, gerror, Group) io" where
  "DisableGroup svc session i =
     observe (gs_now svc) (\<lambda>now.
     trying (changeGroupStatus svc session (Group0\<lparr>g_ID := i, g_Status := DisabledStatus, g_UpdatedAt := now\<rparr>))
       (Wrap errChangeGroupStatus) ret)"

subsection \<open>The hierarchy\<close>

definition AddParentGroup :: "'w groups_service \<Rightarrow> Session \<Rightarrow> string \<Rightarrow> string \<Rightarrow> ('w, gerror, unit) io" where
  "AddParentGroup svc session i parentID =
     trying (gr_RetrieveByID (gs_repo svc) i) (Wrap svcErrViewEntity) (\<lambda>grp.
     if g_Parent grp \<noteq> [] then fail (Wrap svcErrConflict (Foreign (g_ID grp @ '' group already have parent'')))
     else
       let pols = [group_parent_policy (s_DomainID session) parentID (g_ID grp)] in
       trying (gs_AddPolicies svc pols) (Wrap svcErrAddPolicies) (\<lambda>_.
       deferring (gs_DeletePolicies svc pols) (\<lambda>retErr errRollback. Wrap retErr (Wrap errRollbackTx errRollback))
         (gr_AssignParentGroup (gs_repo svc) parentID [g_ID grp])))"

definition RemoveParentGroup :: "'w groups_service \<Rightarrow> Session \<Rightarrow> string \<Rightarrow> ('w, gerror, unit) io" where
  "RemoveParentGroup svc session i =
     trying (gr_RetrieveByID (gs_repo svc) i) (Wrap svcErrViewEntity) (\<lambda>grp.
     if g_Parent grp \<noteq> [] then
       let pols = [group_parent_policy (s_DomainID session) (g_Parent grp) (g_ID grp)] in
       trying (gs_DeletePolicies svc pols) (Wrap svcErrDeletePolicies) (\<lambda>_.
       deferring (gs_AddPolicies svc pols) (\<lambda>retErr errRollback. Wrap retErr (Wrap errRollbackTx errRollback))
         (trying (gr_UnassignParentGroup (gs_repo svc) (g_Parent grp) [g_ID grp]) (Wrap svcErrRemoveEntity) ret))
     else ret ())"

definition AddChildrenGroups :: "'w groups_service \<Rightarrow> Session \<Rightarrow> string \<Rightarrow> string list \<Rightarrow> ('w, gerror, unit) io" where
  "AddChildrenGroups svc session parentGroupID childrenGroupIDs =
     trying (gr_RetrieveByIDs (gs_repo svc) EnabledStatus childrenGroupIDs) (Wrap svcErrViewEntity) (\<lambda>page.
     if page = [] then fail ErrGroupIDs
     else if list_ex (\<lambda>childGroup. g_Parent childGroup \<noteq> []) page then fail (Wrap svcErrConflict errGroupHaveParent)
     else
       let pols = map (\<lambda>childGroup. group_parent_policy (s_DomainID session) parentGroupID (g_ID childGroup)) page in
       trying (gs_AddPolicies svc pols) (Wrap svcErrAddPolicies) (\<lambda>_.
       deferring (gs_DeletePolicies svc pols) (\<lambda>retErr errRollback. Wrap retErr (Wrap errRollbackTx errRollback))
         (trying (gr_AssignParentGroup (gs_repo svc) parentGroupID childrenGroupIDs) (Wrap svcErrUpdateEntity) ret)))"

definition RemoveChildrenGroups :: "'w groups_service \<Rightarrow> Session \<Rightarrow> string \<Rightarrow> string list \<Rightarrow> ('w, gerror, unit) io" where
  "RemoveChildrenGroups svc session parentGroupID childrenGroupIDs =
     trying (gr_RetrieveByIDs (gs_repo svc) EnabledStatus childrenGroupIDs) (Wrap svcErrViewEntity) (\<lambda>page.
     if page = [] then fail ErrGroupIDs
     else if list_ex (\<lambda>grp. g_Parent grp \<noteq> [] \<and> g_Parent grp \<noteq> parentGroupID) page
     then fail (Wrap svcErrConflict errDifferentParent)
     else
       let pols = map (\<lambda>grp. group_parent_policy (s_DomainID session) parentGroupID (g_ID grp)) page in
       trying (gs_DeletePolicies svc pols) (Wrap svcErrDeletePolicies) (\<lambda>_.
       deferring (gs_AddPolicies svc pols) (\<lambda>retErr errRollback. Wrap retErr (Wrap errRollbackTx errRollback))
         (trying (gr_UnassignParentGroup (gs_repo svc) parentGroupID childrenGroupIDs) (Wrap svcErrUpdateEntity) ret)))"

definition RemoveAllChildrenGroups :: "'w groups_service \<Rightarrow> Session \<Rightarrow> string \<Rightarrow> ('w, gerror, unit) io" where
  "RemoveAllChildrenGroups svc session i =
     trying (gs_DeletePolicyFilter svc (Policy0\<lparr>p_Domain := s_DomainID session, p_SubjectType := GroupType, p_Subject := i,
         p_Relation := ParentGroupRelation, p_ObjectType := GroupType\<rparr>)) (Wrap svcErrDeletePolicies) (\<lambda>_.
     trying (gr_UnassignAllChildrenGroups (gs_repo svc) i) (Wrap svcErrRemoveEntity) ret)"

definition DeleteGroup :: "'w groups_service \<Rightarrow> Session \<Rightarrow> string \<Rightarrow> ('w, gerror, unit) io" where
  "DeleteGroup svc session i =
     trying (gs_UnsetParentGroupFromChannels svc i) (Wrap svcErrRemoveEntity) (\<lambda>_.
     trying (gs_UnsetParentGroupFromClient svc i) (Wrap svcErrRemoveEntity) (\<lambda>_.
     trying (gr_ChangeStatus (gs_repo svc) (Group0\<lparr>g_ID := i, g_Status := DeletedStatus\<rparr>)) (Wrap svcErrRemoveEntity) (\<lambda>g.
     trying (RemoveEntitiesRoles (gs_roles svc) (s_DomainID session) (s_DomainUserID session) [i]
         [Policy0\<lparr>p_SubjectType := GroupType, p_Subject := i\<rparr>, Policy0\<lparr>p_ObjectType := GroupType, p_Object := i\<rparr>]
         (domain_policy (s_DomainID session) GroupType i #
          (if g_Parent g \<noteq> [] then [group_parent_policy (s_DomainID session) (g_Parent g) i] else [])))
       (Wrap svcErrDeletePolicies) (\<lambda>_.
     trying (gr_Delete (gs_repo svc) i) (Wrap svcErrRemoveEntity) ret))))"

text \<open>The private service.\<close>

definition grp_RetrieveById :: "'w groups_service \<Rightarrow> string \<Rightarrow> ('w, gerror, Group) io" where
  "grp_RetrieveById svc ids = gr_RetrieveByID (gs_repo svc) ids"

end
