(* ===== verification/Hierarchy.thy ===== *)
theory Hierarchy
  imports GroupsSvc
begin

text \<open>
  The hierarchy of groups as a forest: what the two columns \<open>parent_id\<close> and \<open>path\<close> have to do
  with each other, which operations of the repository keep them in step, and what follows for
  cycles. The identifiers are UUIDs: all of the same length, without dots.
\<close>

section \<open>Paths\<close>

lemma labels_append [simp]: "labels (a @ CHR ''.'' # b) = labels a @ labels b"
proof (induction a)
  case (Cons x a)
  then show ?case by (cases "labels a") auto
qed simp

lemma labels_inj: "labels a = labels b \<longleftrightarrow> a = b"
  by (metis join_split)

definition plain :: "nat \<Rightarrow> string \<Rightarrow> bool" where
  "plain n i \<longleftrightarrow> length i = n \<and> i \<noteq> [] \<and> CHR ''.'' \<notin> set i"

lemma labels_plain: "plain n i \<Longrightarrow> labels i = [i]"
  by (simp add: plain_def)

lemma join_with_append: "xs \<noteq> [] \<Longrightarrow> ys \<noteq> [] \<Longrightarrow> join_with c (xs @ ys) = join_with c xs @ c # join_with c ys"
  by (induction c xs rule: join_with.induct) (auto simp: neq_Nil_conv)

text \<open>Erasing a first piece that does not occur again leaves the rest.\<close>

lemma erase_none: "(\<And>i. i \<le> length s \<Longrightarrow> \<not> HasPrefix (drop i s) p) \<Longrightarrow> erase p s = s"
proof (induction p s rule: erase.induct)
  case (3 p ps c cs)
  have "\<not> HasPrefix (c # cs) (p # ps)" using "3.prems" [of 0] by simp
  moreover have "\<not> HasPrefix (drop i cs) (p # ps)" if "i \<le> length cs" for i using "3.prems" [of "Suc i"] that by simp
  ultimately show ?case using "3.IH"(2) by simp
qed auto

lemma erase_prefix: "p \<noteq> [] \<Longrightarrow> erase p (p @ s) = erase p s"
  by (cases p) (auto simp: HasPrefix_def)

lemma HasPrefix_dot:
  assumes "plain n x" "plain n l" "HasPrefix (drop i l @ CHR ''.'' # r) (x @ CHR ''.'' # q)" "i \<le> length l"
  shows "i = 0 \<and> l = x"
proof -
  from assms(3) obtain t where t: "drop i l @ CHR ''.'' # r = x @ CHR ''.'' # q @ t" by (auto simp: HasPrefix_iff)
  have tw: "takeWhile (\<lambda>c. c \<noteq> CHR ''.'') (xs @ CHR ''.'' # ys) = xs" if "CHR ''.'' \<notin> set xs" for xs ys
    using that by (induction xs) auto
  have "CHR ''.'' \<notin> set (drop i l)" "CHR ''.'' \<notin> set x" using assms(1,2) by (auto simp: plain_def dest: in_set_dropD)
  with t tw [of "drop i l" r] tw [of x "q @ t"] have d: "drop i l = x" by metis
  then have "length l - i = length x" by (metis length_drop)
  moreover have "length l = n" "length x = n" "0 < n" using assms(1,2) by (auto simp: plain_def)
  ultimately have "i = 0" using assms(4) by linarith
  with d show ?thesis by simp
qed

lemma no_occurrence:
  "list_all (plain n) ls \<Longrightarrow> plain n x \<Longrightarrow> x \<notin> set ls \<Longrightarrow> i \<le> length (join_with (CHR ''.'') ls) \<Longrightarrow>
   \<not> HasPrefix (drop i (join_with (CHR ''.'') ls)) (x @ CHR ''.'' # q)"
proof (induction ls arbitrary: i)
  case Nil
  then show ?case by (auto simp: HasPrefix_iff plain_def)
next
  case (Cons l ls)
  show ?case
  proof (cases ls)
    case Nil
    have "CHR ''.'' \<notin> set (drop i l)" using Cons.prems(1) by (auto simp: plain_def dest: in_set_dropD)
    then show ?thesis using Nil by (auto simp: HasPrefix_iff)
  next
    case (Cons l2 ls2)
    then have j: "join_with (CHR ''.'') (l # ls) = l @ CHR ''.'' # join_with (CHR ''.'') ls" by simp
    show ?thesis
    proof (cases "i \<le> length l")
      case True
      then show ?thesis unfolding j using HasPrefix_dot [of n x l i] Cons.prems by auto
    next
      case False
      then have "drop i (join_with (CHR ''.'') (l # ls)) = drop (i - Suc (length l)) (join_with (CHR ''.'') ls)"
        unfolding j by (cases "i - length l") (auto simp: Suc_diff_Suc [symmetric] not_le)
      moreover have "i - Suc (length l) \<le> length (join_with (CHR ''.'') ls)" using Cons.prems(4) unfolding j by auto
      ultimately show ?thesis using Cons.IH Cons.prems by simp
    qed
  qed
qed

lemma erase_path:
  assumes "labels a = labels p @ ls" "ls \<noteq> []" "list_all (plain n) (labels a)" "distinct (labels a)"
  shows "labels (erase (p @ ''.'') a) = ls"
proof -
  have p: "labels p \<noteq> []" by simp
  have "a = join_with (CHR ''.'') (labels p @ ls)" using assms(1) by (metis join_split)
  also have "\<dots> = (p @ ''.'') @ join_with (CHR ''.'') ls" using assms(2) by (simp add: join_with_append)
  finally have a: "a = (p @ ''.'') @ join_with (CHR ''.'') ls" .
  obtain x xs where x: "labels p = x # xs" using p by (cases "labels p") auto
  have "\<exists>q. p @ ''.'' = x @ CHR ''.'' # q"
  proof (cases xs)
    case Nil
    then have "p = x" using x join_split [of "CHR ''.''" p] by simp
    then show ?thesis by simp
  next
    case (Cons y ys)
    then have "p = x @ CHR ''.'' # join_with (CHR ''.'') xs" using x join_split [of "CHR ''.''" p] by simp
    then show ?thesis by simp
  qed
  then obtain q where q: "p @ ''.'' = x @ CHR ''.'' # q" by blast
  have "list_all (plain n) ls" "plain n x" "x \<notin> set ls" using assms(1,3,4) x by auto
  then have "erase (p @ ''.'') (join_with (CHR ''.'') ls) = join_with (CHR ''.'') ls"
    unfolding q by (intro erase_none no_occurrence)
  then have "erase (p @ ''.'') a = join_with (CHR ''.'') ls" unfolding a by (subst erase_prefix) auto
  moreover have "labels (join_with (CHR ''.'') ls) = ls" if "list_all (plain n) ls" "ls \<noteq> []" for ls
    using that
  proof (induction ls)
    case (Cons l ls)
    then show ?case by (cases ls) (auto simp: labels_plain)
  qed simp
  ultimately show ?thesis using \<open>list_all (plain n) ls\<close> assms(2) by simp
qed

section \<open>The forest\<close>

text \<open>
  Identifiers are unique and plain; the path of a root is its id, the path of any other group
  is the path of its parent and its id.
\<close>

definition tree_ok :: "nat \<Rightarrow> group_rows \<Rightarrow> bool" where
  "tree_ok n t \<longleftrightarrow> distinct (map dg_ID t) \<and>
     (\<forall>r \<in> set t. plain n (dg_ID r) \<and>
        (case dg_ParentID r of
           None \<Rightarrow> dg_Path r = dg_ID r
         | Some p \<Rightarrow> \<exists>q \<in> set t. dg_ID q = p \<and> dg_Path r = dg_Path q @ ''.'' @ dg_ID r))"

abbreviation lp :: "dbGroup \<Rightarrow> string list" where
  "lp r \<equiv> labels (dg_Path r)"

definition parent_rel :: "group_rows \<Rightarrow> (string \<times> string) set" where
  "parent_rel t = {(p, dg_ID r) | p r. r \<in> set t \<and> dg_ParentID r = Some p}"

lemma tree_okI:
  assumes "distinct (map dg_ID t)" "\<And>r. r \<in> set t \<Longrightarrow> plain n (dg_ID r)"
    and "\<And>r. r \<in> set t \<Longrightarrow> dg_ParentID r = None \<Longrightarrow> lp r = [dg_ID r]"
    and "\<And>r p. r \<in> set t \<Longrightarrow> dg_ParentID r = Some p \<Longrightarrow> \<exists>q \<in> set t. dg_ID q = p \<and> lp r = lp q @ [dg_ID r]"
  shows "tree_ok n t"
  unfolding tree_ok_def
proof (intro conjI ballI assms(1,2))
  fix r assume r: "r \<in> set t"
  have i: "labels (dg_ID r) = [dg_ID r]" using assms(2) [OF r] by (rule labels_plain)
  show "case dg_ParentID r of None \<Rightarrow> dg_Path r = dg_ID r
      | Some p \<Rightarrow> \<exists>q \<in> set t. dg_ID q = p \<and> dg_Path r = dg_Path q @ ''.'' @ dg_ID r"
  proof (cases "dg_ParentID r")
    case None
    with assms(3) [OF r] i show ?thesis by (simp add: labels_inj [symmetric])
  next
    case (Some p)
    from assms(4) [OF r Some] obtain q where "q \<in> set t" "dg_ID q = p" "lp r = lp q @ [dg_ID r]" by blast
    moreover from this(3) i have "lp r = labels (dg_Path q @ ''.'' @ dg_ID r)" by simp
    ultimately show ?thesis using Some labels_inj [of "dg_Path r" "dg_Path q @ ''.'' @ dg_ID r"] by auto
  qed
qed

lemma tree_plain: "tree_ok n t \<Longrightarrow> r \<in> set t \<Longrightarrow> plain n (dg_ID r)"
  by (simp add: tree_ok_def)

lemma tree_unique: "tree_ok n t \<Longrightarrow> r \<in> set t \<Longrightarrow> s \<in> set t \<Longrightarrow> dg_ID r = dg_ID s \<Longrightarrow> r = s"
  by (auto simp: tree_ok_def distinct_map dest: inj_onD)

lemma tree_root:
  assumes "tree_ok n t" "r \<in> set t" "dg_ParentID r = None"
  shows "lp r = [dg_ID r]"
proof -
  have "dg_Path r = dg_ID r" using assms by (auto simp: tree_ok_def split: option.splits)
  then show ?thesis using labels_plain [OF tree_plain [OF assms(1,2)]] by simp
qed

lemma tree_child:
  assumes "tree_ok n t" "r \<in> set t" "dg_ParentID r = Some p"
  obtains q where "q \<in> set t" "dg_ID q = p" "lp r = lp q @ [dg_ID r]"
proof -
  from assms obtain q where q: "q \<in> set t" "dg_ID q = p" "dg_Path r = dg_Path q @ ''.'' @ dg_ID r"
    unfolding tree_ok_def by (auto split: option.splits)
  with labels_plain [OF tree_plain [OF assms(1,2)]] have "lp r = lp q @ [dg_ID r]" by simp
  with q(1,2) show ?thesis by (rule that)
qed

lemma tree_last:
  assumes "tree_ok n t" "r \<in> set t"
  shows "\<exists>ls. lp r = ls @ [dg_ID r]"
proof (cases "dg_ParentID r")
  case None
  with tree_root [OF assms] show ?thesis by simp
next
  case (Some p)
  then obtain q where "lp r = lp q @ [dg_ID r]" using tree_child [OF assms] by blast
  then show ?thesis by blast
qed

text \<open>Every label on a path is a group, whose path is the part up to the label.\<close>

lemma tree_prefix:
  assumes "tree_ok n t" "r \<in> set t" "k < length (lp r)"
  shows "\<exists>q \<in> set t. dg_ID q = lp r ! k \<and> lp q = take (Suc k) (lp r)"
  using assms(2,3)
proof (induction "length (lp r)" arbitrary: r rule: less_induct)
  case less
  show ?case
  proof (cases "dg_ParentID r")
    case None
    with tree_root [OF assms(1) less.prems(1)] less.prems show ?thesis by (intro bexI [of _ r]) auto
  next
    case (Some p)
    then obtain q where q: "q \<in> set t" "dg_ID q = p" "lp r = lp q @ [dg_ID r]"
      using tree_child [OF assms(1) less.prems(1)] by blast
    show ?thesis
    proof (cases "k < length (lp q)")
      case True
      with less.hyps [of q] q show ?thesis by (auto simp: nth_append)
    next
      case False
      with q less.prems have "k = length (lp q)" by simp
      with q less.prems(1) show ?thesis by (intro bexI [of _ r]) auto
    qed
  qed
qed

lemma tree_labels_plain:
  assumes "tree_ok n t" "r \<in> set t"
  shows "list_all (plain n) (lp r)"
  unfolding list_all_length using tree_prefix [OF assms] tree_plain [OF assms(1)] by metis

lemma tree_distinct:
  assumes "tree_ok n t" "r \<in> set t"
  shows "distinct (lp r)"
  unfolding distinct_conv_nth
proof (intro allI impI)
  fix i j assume ij: "i < length (lp r)" "j < length (lp r)" "i \<noteq> j"
  from tree_prefix [OF assms ij(1)] obtain q where q: "q \<in> set t" "dg_ID q = lp r ! i" "lp q = take (Suc i) (lp r)" by blast
  from tree_prefix [OF assms ij(2)] obtain s where s: "s \<in> set t" "dg_ID s = lp r ! j" "lp s = take (Suc j) (lp r)" by blast
  have "length (lp q) = Suc i" "length (lp s) = Suc j" using q(3) s(3) ij(1,2) by simp_all
  with ij(3) have "q \<noteq> s" by auto
  with tree_unique [OF assms(1) q(1) s(1)] q(2) s(2) show "lp r ! i \<noteq> lp r ! j" by auto
qed

text \<open>So no group is among its own ancestors.\<close>

lemma tree_acyclic:
  assumes "tree_ok n t"
  shows "acyclic (parent_rel t)"
proof -
  define f where "f i = length (labels (dg_Path (THE r. r \<in> set t \<and> dg_ID r = i)))" for i
  have f: "f (dg_ID r) = length (lp r)" if "r \<in> set t" for r
  proof -
    have "(THE s. s \<in> set t \<and> dg_ID s = dg_ID r) = r" using that tree_unique [OF assms] by (intro the_equality) auto
    then show ?thesis by (simp add: f_def)
  qed
  have "(p, dg_ID r) \<in> measure f" if r: "r \<in> set t" and p: "dg_ParentID r = Some p" for p r
  proof -
    obtain q where "q \<in> set t" "dg_ID q = p" "lp r = lp q @ [dg_ID r]" using tree_child [OF assms r p] by blast
    with f [of q] f [OF r] show ?thesis by auto
  qed
  then have "parent_rel t \<subseteq> measure f" unfolding parent_rel_def by blast
  then show ?thesis by (rule acyclic_subset [OF wf_acyclic [OF wf_measure]])
qed

lemma tree_below_iff:
  assumes "tree_ok n t" "r \<in> set t" "c \<in> set t"
  shows "path_below (dg_Path r) (dg_Path c) \<longleftrightarrow> dg_ID c \<in> set (lp r)"
proof
  assume b: "path_below (dg_Path r) (dg_Path c)"
  obtain ls where ls: "lp c = ls @ [dg_ID c]" using tree_last [OF assms(1,3)] by blast
  have "dg_Path c \<noteq> []" using tree_labels_plain [OF assms(1,3)] by (auto simp: plain_def)
  with b have "set (lp c) \<subseteq> set (lp r)" unfolding path_below_def by (metis set_take_subset)
  with ls show "dg_ID c \<in> set (lp r)" by simp
next
  assume "dg_ID c \<in> set (lp r)"
  then obtain k where k: "k < length (lp r)" "lp r ! k = dg_ID c" by (auto simp: in_set_conv_nth)
  from tree_prefix [OF assms(1,2) k(1)] obtain q where q: "q \<in> set t" "dg_ID q = lp r ! k" "lp q = take (Suc k) (lp r)" by blast
  with tree_unique [OF assms(1) q(1) assms(3)] k(2) have "lp c = take (Suc k) (lp r)" by simp
  with k(1) show "path_below (dg_Path r) (dg_Path c)" by (simp add: path_below_def min_def)
qed

section \<open>Operations on the forest\<close>

lemma tree_root_row:
  assumes "tree_ok n t" "r \<in> set t"
  shows "\<exists>q \<in> set t. dg_ID q = hd (lp r) \<and> lp q = [dg_ID q]"
  using tree_prefix [OF assms, of 0] by (auto simp: hd_conv_nth take_Suc)

text \<open>The rows a change of parent moves: those whose root is one of the groups, which are roots.\<close>

lemma moved_iff:
  assumes "tree_ok n t" "\<And>c. c \<in> set t \<Longrightarrow> dg_ID c \<in> ids \<Longrightarrow> dg_ParentID c = None" "r \<in> set t"
  shows "(\<exists>c \<in> set t. dg_ID c \<in> ids \<and> path_below (dg_Path r) (dg_Path c)) \<longleftrightarrow> hd (lp r) \<in> ids"
proof
  assume "\<exists>c \<in> set t. dg_ID c \<in> ids \<and> path_below (dg_Path r) (dg_Path c)"
  then obtain c where c: "c \<in> set t" "dg_ID c \<in> ids" "path_below (dg_Path r) (dg_Path c)" by blast
  have "lp c = [dg_ID c]" using tree_root [OF assms(1) c(1)] assms(2) [OF c(1,2)] by simp
  moreover have "dg_Path c \<noteq> []" using tree_labels_plain [OF assms(1) c(1)] by (auto simp: plain_def)
  ultimately have "take 1 (lp r) = [dg_ID c]" using c(3) by (simp add: path_below_def)
  then have "hd (lp r) = dg_ID c" by (cases "lp r") auto
  with c(2) show "hd (lp r) \<in> ids" by simp
next
  assume h: "hd (lp r) \<in> ids"
  obtain q where q: "q \<in> set t" "dg_ID q = hd (lp r)" using tree_root_row [OF assms(1,3)] by blast
  have "hd (lp r) \<in> set (lp r)" by (rule hd_in_set) simp
  then have "path_below (dg_Path r) (dg_Path q)" using q(2) tree_below_iff [OF assms(1,3) q(1)] by simp
  with q h show "\<exists>c \<in> set t. dg_ID c \<in> ids \<and> path_below (dg_Path r) (dg_Path c)" by (intro bexI [of _ q]) simp_all
qed

definition assign_rows :: "dbGroup \<Rightarrow> string set \<Rightarrow> group_rows \<Rightarrow> group_rows" where
  "assign_rows P ids t =
     map (\<lambda>r. if \<exists>c \<in> set t. dg_ID c \<in> ids \<and> path_below (dg_Path r) (dg_Path c)
              then r\<lparr>dg_Path := dg_Path P @ ''.'' @ dg_Path r\<rparr> else r)
       (map (\<lambda>r. if dg_ID r \<in> ids then r\<lparr>dg_ParentID := Some (dg_ID P)\<rparr> else r) t)"

lemma assign_keeps_tree:
  assumes tree: "tree_ok n t" and P: "P \<in> set t" "set (lp P) \<inter> ids = {}"
    and roots: "\<And>c. c \<in> set t \<Longrightarrow> dg_ID c \<in> ids \<Longrightarrow> dg_ParentID c = None"
  shows "tree_ok n (assign_rows P ids t)"
proof -
  define F where "F r = (let r1 = (if dg_ID r \<in> ids then r\<lparr>dg_ParentID := Some (dg_ID P)\<rparr> else r) in
      if hd (lp r) \<in> ids then r1\<lparr>dg_Path := dg_Path P @ ''.'' @ dg_Path r1\<rparr> else r1)" for r
  have rows: "assign_rows P ids t = map F t"
    unfolding assign_rows_def map_map comp_def F_def Let_def
    by (rule map_cong [OF refl]) (auto simp: moved_iff [OF tree roots])
  have F: "dg_ID (F r) = dg_ID r" "dg_ParentID (F r) = (if dg_ID r \<in> ids then Some (dg_ID P) else dg_ParentID r)"
    "lp (F r) = (if hd (lp r) \<in> ids then lp P @ lp r else lp r)" for r
    by (auto simp: F_def Let_def)
  have "hd (lp P) \<notin> ids" using P(2) by (metis disjoint_iff hd_in_set split_on_not_Nil)
  then have FP: "lp (F P) = lp P" "F P \<in> set (map F t)" using P(1) by (auto simp: F)
  show ?thesis unfolding rows
  proof (rule tree_okI)
    show "distinct (map dg_ID (map F t))" using tree by (simp add: tree_ok_def comp_def F)
    show "plain n (dg_ID r)" if "r \<in> set (map F t)" for r using that tree_plain [OF tree] by (auto simp: F)
    fix x assume "x \<in> set (map F t)"
    then obtain r where r: "r \<in> set t" "x = F r" by auto
    show "lp x = [dg_ID x]" if "dg_ParentID x = None"
      using that r tree_root [OF tree r(1)] by (auto simp: F split: if_splits)
    show "\<exists>q \<in> set (map F t). dg_ID q = p \<and> lp x = lp q @ [dg_ID x]" if p: "dg_ParentID x = Some p" for p
    proof (cases "dg_ID r \<in> ids")
      case True
      with tree_root [OF tree r(1)] roots [OF r(1)] have "lp x = lp P @ [dg_ID x]" using r by (simp add: F)
      moreover have "p = dg_ID (F P)" using True p r by (simp add: F)
      ultimately show ?thesis using FP by (intro bexI [of _ "F P"]) auto
    next
      case False
      with p r have "dg_ParentID r = Some p" by (simp add: F)
      then obtain q where q: "q \<in> set t" "dg_ID q = p" "lp r = lp q @ [dg_ID r]" using tree_child [OF tree r(1)] by blast
      then have "lp x = lp (F q) @ [dg_ID x]" using r by (simp add: F)
      with q show ?thesis by (intro bexI [of _ "F q"]) (auto simp: F)
    qed
  qed
qed

definition unassign_rows :: "dbGroup \<Rightarrow> string set \<Rightarrow> group_rows \<Rightarrow> group_rows" where
  "unassign_rows P ids t =
     map (\<lambda>r. if \<exists>c \<in> set t. dg_ID c \<in> ids \<and> dg_ParentID c = Some (dg_ID P) \<and> path_below (dg_Path r) (dg_Path c)
              then r\<lparr>dg_Path := erase (dg_Path P @ ''.'') (dg_Path r)\<rparr> else r)
       (map (\<lambda>r. if dg_ID r \<in> ids \<and> dg_ParentID r = Some (dg_ID P) then r\<lparr>dg_ParentID := None\<rparr> else r) t)"

lemma unassign_keeps_tree:
  assumes tree: "tree_ok n t" and P: "P \<in> set t"
  shows "tree_ok n (unassign_rows P ids t)"
proof -
  define C where "C = {c \<in> set t. dg_ID c \<in> ids \<and> dg_ParentID c = Some (dg_ID P)}"
  define hit where "hit r \<longleftrightarrow> (\<exists>c \<in> C. dg_ID c \<in> set (lp r))" for r
  define F where "F r = (let r1 = (if r \<in> C then r\<lparr>dg_ParentID := None\<rparr> else r) in
      if hit r then r1\<lparr>dg_Path := erase (dg_Path P @ ''.'') (dg_Path r1)\<rparr> else r1)" for r
  have C_sub: "C \<subseteq> set t" by (auto simp: C_def)
  have rows: "unassign_rows P ids t = map F t"
    unfolding unassign_rows_def map_map comp_def F_def Let_def hit_def
    by (rule map_cong [OF refl]) (auto simp: C_def tree_below_iff [OF tree])
  have child: "lp c = lp P @ [dg_ID c]" if "c \<in> C" for c
  proof -
    from that have c: "c \<in> set t" "dg_ParentID c = Some (dg_ID P)" by (auto simp: C_def)
    obtain q where "q \<in> set t" "dg_ID q = dg_ID P" "lp c = lp q @ [dg_ID c]" using tree_child [OF tree c] by blast
    with tree_unique [OF tree _ P] show ?thesis by auto
  qed
  have below: "\<exists>ls. lp r = lp P @ ls \<and> ls \<noteq> []" if "r \<in> set t" "hit r" for r
  proof -
    from that(2) obtain c where c: "c \<in> C" "dg_ID c \<in> set (lp r)" by (auto simp: hit_def)
    then obtain k where k: "k < length (lp r)" "lp r ! k = dg_ID c" by (auto simp: in_set_conv_nth)
    from tree_prefix [OF tree that(1) k(1)] k(2) tree_unique [OF tree] c(1) C_sub have "lp c = take (Suc k) (lp r)" by (metis subsetD)
    then have "lp r = (lp P @ [dg_ID c]) @ drop (Suc k) (lp r)" using child [OF c(1)] by (metis append_take_drop_id)
    then show ?thesis by auto
  qed
  have F: "dg_ID (F r) = dg_ID r" "dg_ParentID (F r) = (if r \<in> C then None else dg_ParentID r)" for r
    by (auto simp: F_def Let_def)
  have lpF: "lp (F r) = (if hit r then drop (length (lp P)) (lp r) else lp r)" if "r \<in> set t" for r
  proof (cases "hit r")
    case True
    from below [OF that True] obtain ls where ls: "lp r = lp P @ ls" "ls \<noteq> []" by blast
    have "labels (erase (dg_Path P @ ''.'') (dg_Path r)) = ls"
      using ls tree_labels_plain [OF tree that] tree_distinct [OF tree that] by (rule erase_path)
    with True ls show ?thesis by (simp add: F_def Let_def)
  qed (simp add: F_def Let_def)
  show ?thesis unfolding rows
  proof (rule tree_okI)
    show "distinct (map dg_ID (map F t))" using tree by (simp add: tree_ok_def comp_def F)
    show "plain n (dg_ID r)" if "r \<in> set (map F t)" for r using that tree_plain [OF tree] by (auto simp: F)
    fix x assume "x \<in> set (map F t)"
    then obtain r where r: "r \<in> set t" "x = F r" by auto
    have own: "dg_ID r \<in> set (lp r)" using tree_last [OF tree r(1)] by auto
    show "lp x = [dg_ID x]" if "dg_ParentID x = None"
    proof (cases "r \<in> C")
      case True
      then have "hit r" using own by (auto simp: hit_def)
      with r True show ?thesis by (simp add: lpF child F)
    next
      case False
      with that r have n: "dg_ParentID r = None" by (simp add: F)
      have "\<not> hit r"
      proof
        assume "hit r"
        from below [OF r(1) this] obtain ls where "lp r = lp P @ ls" "ls \<noteq> []" by blast
        with tree_root [OF tree r(1) n] show False by (cases "lp P") auto
      qed
      with r tree_root [OF tree r(1) n] show ?thesis by (simp add: lpF F)
    qed
    show "\<exists>q \<in> set (map F t). dg_ID q = p \<and> lp x = lp q @ [dg_ID x]" if p: "dg_ParentID x = Some p" for p
    proof -
      from p r have nC: "r \<notin> C" and p': "dg_ParentID r = Some p" by (auto simp: F split: if_splits)
      obtain q where q: "q \<in> set t" "dg_ID q = p" "lp r = lp q @ [dg_ID r]" using tree_child [OF tree r(1) p'] by blast
      have "dg_ID c \<noteq> dg_ID r" if "c \<in> C" for c
        using that nC C_sub tree_unique [OF tree _ r(1)] by blast
      then have "hit r \<longleftrightarrow> hit q" unfolding hit_def q(3) by simp
      moreover have "length (lp P) \<le> length (lp q)" if "hit q" using below [OF q(1) that] by auto
      ultimately have "lp x = lp (F q) @ [dg_ID x]" using r q by (auto simp: lpF F)
      with q show ?thesis by (intro bexI [of _ "F q"]) (auto simp: F)
    qed
  qed
qed

lemma insert_keeps_tree:
  assumes "tree_ok n t" "plain n (dg_ID r)" "dg_ID r \<notin> set (map dg_ID t)"
    and "case dg_ParentID r of None \<Rightarrow> dg_Path r = dg_ID r
      | Some p \<Rightarrow> \<exists>q \<in> set t. dg_ID q = p \<and> dg_Path r = dg_Path q @ ''.'' @ dg_ID r"
  shows "tree_ok n (t @ [r])"
proof (rule tree_okI)
  show "distinct (map dg_ID (t @ [r]))" using assms(1,3) by (simp add: tree_ok_def)
  show "plain n (dg_ID s)" if "s \<in> set (t @ [r])" for s using that tree_plain [OF assms(1)] assms(2) by auto
  show "lp s = [dg_ID s]" if "s \<in> set (t @ [r])" "dg_ParentID s = None" for s
    using that tree_root [OF assms(1)] assms(2,4) labels_plain [OF assms(2)] by auto
  show "\<exists>q \<in> set (t @ [r]). dg_ID q = p \<and> lp s = lp q @ [dg_ID s]"
    if s: "s \<in> set (t @ [r])" "dg_ParentID s = Some p" for s p
  proof (cases "s = r")
    case True
    then obtain q where "q \<in> set t" "dg_ID q = p" "dg_Path r = dg_Path q @ ''.'' @ dg_ID r" using assms(4) s(2) by auto
    with True labels_plain [OF assms(2)] show ?thesis by (intro bexI [of _ q]) auto
  next
    case False
    with s obtain q where "q \<in> set t" "dg_ID q = p" "lp s = lp q @ [dg_ID s]" using tree_child [OF assms(1), of s] by auto
    then show ?thesis by (intro bexI [of _ q]) auto
  qed
qed

text \<open>Updates that touch neither column.\<close>

lemma touch_keeps_tree:
  assumes "tree_ok n t" "\<And>r. dg_ID (f r) = dg_ID r \<and> dg_ParentID (f r) = dg_ParentID r \<and> dg_Path (f r) = dg_Path r"
  shows "tree_ok n (map f t)"
proof (rule tree_okI)
  show "distinct (map dg_ID (map f t))" using assms by (simp add: tree_ok_def comp_def)
  show "plain n (dg_ID r)" if "r \<in> set (map f t)" for r using that tree_plain [OF assms(1)] assms(2) by auto
  show "lp r = [dg_ID r]" if "r \<in> set (map f t)" "dg_ParentID r = None" for r
    using that tree_root [OF assms(1)] assms(2) by auto
  show "\<exists>q \<in> set (map f t). dg_ID q = p \<and> lp r = lp q @ [dg_ID r]" if r: "r \<in> set (map f t)" "dg_ParentID r = Some p" for r p
  proof -
    from r(1) obtain s where s: "s \<in> set t" "r = f s" by auto
    obtain q where "q \<in> set t" "dg_ID q = p" "lp s = lp q @ [dg_ID s]"
      using tree_child [OF assms(1) s(1)] r(2) s(2) assms(2) by metis
    with s assms(2) show ?thesis by (intro bexI [of _ "f q"]) auto
  qed
qed

end
