(* ===== verification/Transactions.thy ===== *)
theory Transactions
  imports Database
begin

text \<open>
  Reasoning about the body of a transaction: how it relates the transaction's own copy of the
  tables before and after, step by step, and that a body between \<open>BeginTxx\<close> and the commit,
  guarded by a deferred roll back, is one atomic change of the committed tables.
\<close>

definition tx_rel :: "nat \<Rightarrow> ('t database, 'e, 'a) io \<Rightarrow> ('t \<Rightarrow> 'a \<Rightarrow> 't \<Rightarrow> bool) \<Rightarrow> bool" where
  "tx_rel h m R \<longleftrightarrow> (\<forall>d r d'. m d = (r, d') \<longrightarrow>
     committed d' = committed d \<and> next_tx d' = next_tx d \<and> others h d' = others h d \<and>
     (\<forall>x t. r = Inr x \<longrightarrow> map_of (open_txs d) h = Some t \<longrightarrow> (\<exists>t'. map_of (open_txs d') h = Some t' \<and> R t x t')))"

lemma tx_relI:
  assumes "\<And>d e d'. m d = (Inl e, d') \<Longrightarrow> committed d' = committed d \<and> next_tx d' = next_tx d \<and> others h d' = others h d"
    and "\<And>d x d'. m d = (Inr x, d') \<Longrightarrow> committed d' = committed d \<and> next_tx d' = next_tx d \<and> others h d' = others h d"
    and "\<And>d x d' t. m d = (Inr x, d') \<Longrightarrow> map_of (open_txs d) h = Some t \<Longrightarrow> \<exists>t'. map_of (open_txs d') h = Some t' \<and> R t x t'"
  shows "tx_rel h m R"
  unfolding tx_rel_def
proof (intro allI impI)
  fix d r d' assume m: "m d = (r, d')"
  show "committed d' = committed d \<and> next_tx d' = next_tx d \<and> others h d' = others h d \<and>
     (\<forall>x t. r = Inr x \<longrightarrow> map_of (open_txs d) h = Some t \<longrightarrow> (\<exists>t'. map_of (open_txs d') h = Some t' \<and> R t x t'))"
    using assms(1) [of d _ d'] assms(2) [of d _ d'] assms(3) [of d _ d'] m by (cases r) auto
qed

lemma tx_rel_same:
  "tx_rel h m R \<Longrightarrow> m d = (r, d') \<Longrightarrow> committed d' = committed d \<and> next_tx d' = next_tx d \<and> others h d' = others h d"
  unfolding tx_rel_def by blast

lemma tx_rel_InrD:
  "tx_rel h m R \<Longrightarrow> m d = (Inr x, d') \<Longrightarrow> map_of (open_txs d) h = Some t \<Longrightarrow> \<exists>t'. map_of (open_txs d') h = Some t' \<and> R t x t'"
  unfolding tx_rel_def by blast

lemma tx_rel_mono: "tx_rel h m R \<Longrightarrow> (\<And>t x t'. R t x t' \<Longrightarrow> S t x t') \<Longrightarrow> tx_rel h m S"
  unfolding tx_rel_def by blast

lemma tx_rel_exec: "tx_rel h (tx_exec h st) (\<lambda>t x t'. st t = Inr (t', x))"
  by (rule tx_relI) (auto dest: tx_exec_err tx_exec_ok)

lemma tx_rel_reads:
  assumes "reads m" "\<And>d x d'. m d = (Inr x, d') \<Longrightarrow> Q x"
  shows "tx_rel h m (\<lambda>t x t'. t' = t \<and> Q x)"
  by (rule tx_relI) (auto dest: readsD [OF assms(1)] assms(2))

lemma tx_rel_ret: "tx_rel h (ret x) (\<lambda>t y t'. t' = t \<and> y = x)"
  by (rule tx_relI) auto

lemma tx_rel_fail: "tx_rel h (fail e) R"
  by (rule tx_relI) auto

lemma tx_rel_trying:
  assumes "tx_rel h m R" "\<And>x. tx_rel h (k x) (S x)"
  shows "tx_rel h (trying m g k) (\<lambda>t y t'. \<exists>x t1. R t x t1 \<and> S x t1 y t')"
  unfolding tx_rel_def
proof (intro allI impI)
  fix d r d' assume m: "trying m g k d = (r, d')"
  obtain q d1 where q: "m d = (q, d1)" by fastforce
  show "committed d' = committed d \<and> next_tx d' = next_tx d \<and> others h d' = others h d \<and>
     (\<forall>y t. r = Inr y \<longrightarrow> map_of (open_txs d) h = Some t \<longrightarrow>
        (\<exists>t'. map_of (open_txs d') h = Some t' \<and> (\<exists>x t1. R t x t1 \<and> S x t1 y t')))"
  proof (cases q)
    case (Inl e)
    with q m tx_rel_same [OF assms(1) q] show ?thesis by (auto simp: trying_apply)
  next
    case (Inr x)
    with q m have k: "k x d1 = (r, d')" by (simp add: trying_apply)
    show ?thesis
      using tx_rel_same [OF assms(1) q] tx_rel_same [OF assms(2) k] tx_rel_InrD [OF assms(1) q [unfolded Inr]]
        tx_rel_InrD [OF assms(2), of x d1 _ d'] k by metis
  qed
qed

lemma tx_rel_pass:
  "tx_rel h m R \<Longrightarrow> (\<And>x. tx_rel h (k x) (S x)) \<Longrightarrow> tx_rel h (pass m k) (\<lambda>t y t'. \<exists>x t1. R t x t1 \<and> S x t1 y t')"
  unfolding pass_def by (rule tx_rel_trying)

lemma tx_rel_if:
  "(c \<Longrightarrow> tx_rel h a R) \<Longrightarrow> (\<not> c \<Longrightarrow> tx_rel h b R) \<Longrightarrow> tx_rel h (if c then a else b) R"
  by simp

text \<open>A guard of a body that goes on only if it does not hold.\<close>

lemma tx_rel_guard: "tx_rel h b R \<Longrightarrow> tx_rel h (if c then fail e else b) (\<lambda>t x t'. \<not> c \<and> R t x t')"
  by (cases c) (auto intro: tx_rel_fail)

lemma tx_rel_scan_rows: "tx_rel h (scan_rows rs) (\<lambda>t x t'. t' = t \<and> x = rs)"
  by (rule tx_rel_reads [OF reads_scan_rows scan_rows_ok])

section \<open>Atomicity\<close>

definition guarded_tx ::
  "(dberror \<Rightarrow> gerror) \<Rightarrow> (dberror \<Rightarrow> gerror \<Rightarrow> gerror) \<Rightarrow> (dberror \<Rightarrow> gerror) \<Rightarrow> (nat \<Rightarrow> ('t database, gerror, 'a) io) \<Rightarrow>
   ('t database, gerror, 'a) io" where
  "guarded_tx b j g body = trying BeginTxx b (\<lambda>h. rollback_with j h (pass (body h) (\<lambda>x. trying (tx_Commit h) g (\<lambda>_. ret x))))"

lemma guarded_tx_ok:
  assumes "\<And>h. tx_rel h (body h) R" "guarded_tx b j g body d = (Inr x, d')"
  shows "R (committed d) x (committed d') \<and> (tx_wf d \<longrightarrow> open_txs d' = open_txs d)"
proof -
  from assms(2) obtain h d1 d2 where s: "BeginTxx d = (Inr h, d1)" "body h d1 = (Inr x, d2)" "tx_Commit h d2 = (Inr (), d')"
    by (auto simp: guarded_tx_def rollback_with_def dest!: trying_InrD pass_InrD split: prod.splits sum.splits)
  note b = BeginTxx_ok [OF s(1)]
  obtain t where "map_of (open_txs d2) h = Some t" "R (committed d) x t"
    using tx_rel_InrD [OF assms(1) s(2)] b by auto
  with tx_Commit_ok [OF s(3)] tx_rel_same [OF assms(1) s(2)] b show ?thesis by (auto simp: others_next)
qed

lemma guarded_tx_err:
  assumes "\<And>h. tx_rel h (body h) R" "guarded_tx b j g body d = (Inl e, d')"
  shows "committed d' = committed d \<and> (tx_wf d \<longrightarrow> open_txs d' = open_txs d)"
proof (cases "BeginTxx d")
  case (Pair q d1)
  show ?thesis
  proof (cases q)
    case (Inl e1)
    with Pair assms(2) BeginTxx_err [of d e1 d1] show ?thesis by (auto simp: guarded_tx_def trying_apply)
  next
    case (Inr h)
    let ?m = "pass (body h) (\<lambda>x. trying (tx_Commit h) g (\<lambda>_. ret x))"
    from Pair Inr assms(2) obtain e2 d2 r where s: "?m d1 = (Inl e2, d2)" "tx_Rollback h d2 = (r, d')"
      by (auto simp: guarded_tx_def trying_apply rollback_with_def split: prod.splits sum.splits)
    have "committed d2 = committed d1 \<and> others h d2 = others h d1"
    proof (cases "body h d1")
      case (Pair q2 d3)
      show ?thesis
      proof (cases q2)
        case (Inl e3)
        with Pair s(1) tx_rel_same [OF assms(1) Pair] show ?thesis by (auto simp: pass_apply)
      next
        case (Inr x)
        with Pair s(1) obtain e4 where "tx_Commit h d3 = (Inl e4, d2)"
          by (auto simp: pass_apply trying_apply split: prod.splits sum.splits)
        from tx_Commit_err [OF this] tx_rel_same [OF assms(1) Pair] show ?thesis by auto
      qed
    qed
    with BeginTxx_ok [of d h d1] Pair Inr tx_Rollback_any [OF s(2)] show ?thesis by (auto simp: others_next)
  qed
qed

lemma guarded_tx_effect:
  assumes "\<And>h. tx_rel h (body h) R"
  shows "effect committed (guarded_tx b j g body) R"
proof (rule effectI)
  fix d e d' assume "guarded_tx b j g body d = (Inl e, d')"
  from guarded_tx_err [OF assms this] show "committed d' = committed d" by simp
next
  fix d x d' assume "guarded_tx b j g body d = (Inr x, d')"
  from guarded_tx_ok [OF assms this] show "R (committed d) x (committed d')" by simp
qed

end
