(* ===== verification/GroupRepo.thy ===== *)
theory GroupRepo
  imports Hierarchy Transactions Access
begin

text \<open>
  What the calls of the groups repository do to the table of groups, whatever fails: the two
  operations on the hierarchy are atomic and act as \<open>assign_rows\<close> and \<open>unassign_rows\<close>; the
  others insert, touch or delete a row and may report an error after they did.
\<close>

section \<open>Single statements\<close>

lemma first_group_reads [io_intros]: "reads (first_group g rows)"
  unfolding first_group_def by (intro io_intros reads_driver)

lemma grr_RetrieveByID_reads: "reads (grr_RetrieveByID i)"
  unfolding grr_RetrieveByID_def by (intro io_intros)

lemma grr_RetrieveByID_ok:
  assumes "grr_RetrieveByID i d = (Inr g, d')"
  shows "\<exists>r \<in> set (committed d). dg_ID r = i \<and> g = toGroup r"
proof -
  from assms obtain rows d1 where q: "db_query (filter (\<lambda>r. dg_ID r = i)) d = (Inr rows, d1)"
    "first_group (groups_eh repoErrViewEntity) rows d1 = (Inr g, d')"
    by (auto simp: grr_RetrieveByID_def dest!: trying_InrD)
  have rows: "rows = filter (\<lambda>r. dg_ID r = i) (committed d)" using db_query_ok [OF q(1)] by simp
  from q(2) obtain r rs where "rows = r # rs" "g = toGroup r"
    by (cases rows) (auto simp: first_group_def dest!: trying_InrD driver_ret)
  then have "r \<in> set (filter (\<lambda>r. dg_ID r = i) (committed d))" "g = toGroup r" using rows by simp_all
  then show ?thesis by auto
qed

lemma grr_RetrieveByIDs_reads: "reads (grr_RetrieveByIDs st ids)"
  unfolding grr_RetrieveByIDs_def Let_def by (intro io_intros)

lemma grr_RetrieveByIDs_ok:
  assumes "grr_RetrieveByIDs EnabledStatus ids d = (Inr gs, d')" "gs \<noteq> []"
  shows "set gs = (\<lambda>r. toGroup (r\<lparr>dg_Path := []\<rparr>)) ` {r \<in> set (committed d). dg_ID r \<in> set ids \<and> dg_Status r = EnabledStatus}"
proof -
  from assms show ?thesis
    by (auto simp: grr_RetrieveByIDs_def Let_def statuses dest!: trying_InrD db_query_ok scan_rows_ok split: if_splits)
qed

text \<open>Rows that keep their place in the hierarchy.\<close>

definition same_place :: "group_rows \<Rightarrow> group_rows \<Rightarrow> bool" where
  "same_place t t' \<longleftrightarrow> (\<exists>f. (\<forall>r. dg_ID (f r) = dg_ID r \<and> dg_ParentID (f r) = dg_ParentID r \<and> dg_Path (f r) = dg_Path r) \<and> t' = map f t)"

lemma same_place_refl: "same_place t t"
  unfolding same_place_def by (rule exI [of _ "\<lambda>r. r"]) simp

lemma same_place_tree: "same_place t t' \<Longrightarrow> tree_ok n t \<Longrightarrow> tree_ok n t'"
  unfolding same_place_def using touch_keeps_tree by blast

lemma update_groups_ok:
  "update_groups p f t = Inr (t', rows) \<Longrightarrow> t' = map (\<lambda>r. if p r then f r else r) t \<and> rows = map f (filter p t)"
  by (auto simp: update_groups_def Let_def split: option.splits)

lemma grr_update_place:
  assumes "grr_update p f g d = (r, d')" "\<And>r. dg_ID (f r) = dg_ID r \<and> dg_ParentID (f r) = dg_ParentID r \<and> dg_Path (f r) = dg_Path r"
  shows "same_place (committed d) (committed d')"
proof -
  obtain q d1 where q: "db_exec (update_groups p f) d = (q, d1)" by fastforce
  show ?thesis
  proof (cases q)
    case (Inl e)
    with q assms(1) db_exec_err [of "update_groups p f" d e d1] show ?thesis
      by (auto simp: grr_update_def trying_apply same_place_refl)
  next
    case (Inr rows)
    obtain t where t: "update_groups p f (committed d) = Inr (t, rows)" "committed d1 = t"
      using db_exec_ok [OF q [unfolded Inr]] by auto
    have "first_group (groups_eh repoErrUpdateEntity) (map g rows) d1 = (r, d')"
      using assms(1) q Inr by (simp add: grr_update_def trying_apply)
    from readsD [OF first_group_reads this] t(2) update_groups_ok [OF t(1)]
    have "committed d' = map (\<lambda>r. if p r then f r else r) (committed d)" by metis
    then show ?thesis unfolding same_place_def
      by (intro exI [of _ "\<lambda>r. if p r then f r else r"] conjI allI) (simp_all add: assms(2))
  qed
qed

lemma grr_touch_place:
  "grr_Update g d = (r, d') \<Longrightarrow> same_place (committed d) (committed d')"
  "grr_UpdateTags g d = (r, d') \<Longrightarrow> same_place (committed d) (committed d')"
  "grr_ChangeStatus g d = (r, d') \<Longrightarrow> same_place (committed d) (committed d')"
  unfolding grr_Update_def grr_UpdateTags_def grr_ChangeStatus_def Let_def
  by (erule grr_update_place, simp)+

text \<open>A row that an insert may append: with a new identifier, as a root or below an existing group.\<close>

definition new_row :: "group_rows \<Rightarrow> string \<Rightarrow> dbGroup \<Rightarrow> bool" where
  "new_row t i row \<longleftrightarrow> dg_ID row = i \<and> i \<notin> set (map dg_ID t) \<and>
     (case dg_ParentID row of None \<Rightarrow> dg_Path row = i
      | Some p \<Rightarrow> \<exists>q \<in> set t. dg_ID q = p \<and> dg_Path row = dg_Path q @ ''.'' @ i)"

lemma new_row_tree: "tree_ok n t \<Longrightarrow> plain n i \<Longrightarrow> new_row t i row \<Longrightarrow> tree_ok n (t @ [row])"
  unfolding new_row_def by (rule insert_keeps_tree) (auto split: option.splits)

lemma getInsertQuery_ok:
  assumes "getInsertQuery g d = (Inr path, d')"
  shows "committed d' = committed d \<and>
    (if g_Parent g = [] then path = []
     else \<exists>q \<in> set (committed d). dg_ID q = g_Parent g \<and> path = dg_Path q @ ''.'' @ g_ID g)"
proof (cases "g_Parent g = []")
  case True
  with assms show ?thesis by (simp add: getInsertQuery_def)
next
  case False
  with assms obtain p d1 where p: "grr_RetrieveByID (g_Parent g) d = (Inr p, d1)" "path = g_Path p @ ''.'' @ g_ID g" "d' = d1"
    by (auto simp: getInsertQuery_def Let_def dest!: pass_InrD split: if_splits)
  obtain q where "q \<in> set (committed d)" "dg_ID q = g_Parent g" "p = toGroup q" using grr_RetrieveByID_ok [OF p(1)] by blast
  with False p readsD [OF grr_RetrieveByID_reads p(1)] show ?thesis by (auto simp: toGroup_def)
qed

lemma getInsertQuery_err: "getInsertQuery g d = (Inl e, d') \<Longrightarrow> committed d' = committed d"
  by (auto simp: getInsertQuery_def Let_def pass_apply split: if_splits prod.splits sum.splits
      dest: readsD [OF grr_RetrieveByID_reads])

lemma insert_group_ok:
  assumes "insert_group g t = Inr (t', r)"
  shows "\<exists>row. t' = t @ [row] \<and> dg_ID row = dg_ID g \<and> dg_ParentID row = dg_ParentID g \<and> dg_Path row = dg_Path g \<and>
    r = row\<lparr>dg_Level := nlevel (dg_Path row)\<rparr> \<and> distinct (map dg_ID t')"
  using assms by (auto simp: insert_group_def check_groups_def Let_def split: option.splits if_splits)

lemma grr_Save_cases:
  assumes "grr_Save g d = (r, d')"
  shows "(\<exists>e. r = Inl e \<and> committed d' = committed d) \<or>
    (\<exists>row. new_row (committed d) (g_ID g) row \<and> committed d' = committed d @ [row] \<and>
       (\<forall>s. r = Inr s \<longrightarrow> g_ID s = g_ID g \<and> g_Parent s = g_Parent g))"
proof (cases "getInsertQuery g d")
  case (Pair q d1)
  show ?thesis
  proof (cases q)
    case (Inl e)
    with Pair assms getInsertQuery_err [of g d e d1] show ?thesis by (auto simp: grr_Save_def trying_apply)
  next
    case (Inr path)
    note gi = getInsertQuery_ok [OF Pair [unfolded Inr]]
    define row where "row = (if g_Parent g \<noteq> [] then (toDBGroup g)\<lparr>dg_Path := (if path \<noteq> [] then path else dg_Path (toDBGroup g))\<rparr>
        else (toDBGroup g)\<lparr>dg_ParentID := None, dg_Path := g_ID g\<rparr>)"
    have row: "dg_ID row = g_ID g" "dg_ParentID row = (if g_Parent g = [] then None else Some (g_Parent g))"
      "dg_Path row = (if g_Parent g = [] then g_ID g else path)"
      using gi by (auto simp: row_def toDBGroup_def toNullString_def)
    obtain q2 d2 where q2: "db_exec (insert_group row) d1 = (q2, d2)" by fastforce
    show ?thesis
    proof (cases q2)
      case (Inl e)
      with Pair Inr q2 assms gi db_exec_err [of "insert_group row" d1 e d2] show ?thesis
        by (auto simp: grr_Save_def trying_apply Let_def row_def [symmetric])
    next
      case (Inr r2)
      obtain t where t: "insert_group row (committed d1) = Inr (t, r2)" "committed d2 = t"
        using db_exec_ok [OF q2 [unfolded Inr]] by auto
      from insert_group_ok [OF t(1)] obtain row' where row': "t = committed d1 @ [row']" "dg_ID row' = dg_ID row"
        "dg_ParentID row' = dg_ParentID row" "dg_Path row' = dg_Path row" "r2 = row'\<lparr>dg_Level := nlevel (dg_Path row')\<rparr>"
        "distinct (map dg_ID t)" by blast
      have n: "new_row (committed d) (g_ID g) row'"
        using gi row row' by (auto simp: new_row_def)
      have rest: "trying (driver (ret r2)) (groups_eh repoErrCreateEntity) (\<lambda>x. ret (toGroup x)) d2 = (r, d')"
        using assms Pair \<open>q = Inr path\<close> q2 Inr by (simp add: grr_Save_def trying_apply Let_def row_def)
      then have c: "committed d' = committed d2" "\<forall>s. r = Inr s \<longrightarrow> s = toGroup r2"
        by (auto simp: trying_apply split: prod.splits sum.splits dest!: driver_ret)
      have "\<forall>s. r = Inr s \<longrightarrow> g_ID s = g_ID g \<and> g_Parent s = g_Parent g"
        using c(2) row row' by (auto simp: toGroup_def nullString_def)
      moreover have "committed d' = committed d @ [row']" using c(1) t(2) row'(1) gi by metis
      ultimately show ?thesis using n by blast
    qed
  qed
qed

definition without_group :: "string \<Rightarrow> group_rows \<Rightarrow> group_rows" where
  "without_group i t = map (\<lambda>r. if dg_ParentID r = Some i then r\<lparr>dg_ParentID := None\<rparr> else r) (filter (\<lambda>r. dg_ID r \<noteq> i) t)"

lemma grr_Delete_cases:
  assumes "grr_Delete i d = (r, d')"
  shows "committed d' = committed d \<or> committed d' = without_group i (committed d)"
proof (cases "db_exec (delete_group i) d")
  case (Pair q d1)
  then have d': "d' = d1" using assms by (cases q) (auto simp: grr_Delete_def trying_apply split: if_splits)
  show ?thesis
  proof (cases q)
    case (Inl e)
    with Pair d' db_exec_err show ?thesis by blast
  next
    case (Inr n)
    obtain t where "delete_group i (committed d) = Inr (t, n)" "committed d1 = t" using db_exec_ok [OF Pair [unfolded Inr]] by auto
    with d' show ?thesis by (simp add: delete_group_def without_group_def)
  qed
qed

section \<open>The hierarchy\<close>

lemma tx_rel_rows: "tx_rel h (tx_rows h st) (\<lambda>t gs t'. \<exists>rows. st t = Inr (t', rows) \<and> gs = map toGroup rows)"
  unfolding tx_rows_def
  by (rule tx_rel_mono [OF tx_rel_trying [OF tx_rel_exec tx_rel_trying [OF tx_rel_scan_rows tx_rel_ret]]]) auto

lemma tx_rel_parent:
  "tx_rel h (tx_parent h p) (\<lambda>t g t'. t' = t \<and> (\<exists>P \<in> set t. dg_ID P = p \<and> g_ID g = p \<and> g_Path g = dg_Path P))"
  (is "tx_rel h _ ?R")
proof -
  let ?st = "\<lambda>t. Inr (t, map id_and_path (take 1 (filter (\<lambda>r. dg_ID r = p) t)))"
  let ?k = "\<lambda>gs. case gs of [] \<Rightarrow> fail repoErrUpdateEntity
     | g # _ \<Rightarrow> if g_ID g = [] then fail (Wrap repoErrViewEntity errParentGroupID)
         else if g_Path g = [] then fail (Wrap repoErrViewEntity errParentGroupPath) else ret g"
  have k: "tx_rel h (?k gs) (\<lambda>t g t'. t' = t \<and> (\<exists>gs'. gs = g # gs'))" for gs
    by (cases gs) (auto intro: tx_rel_fail tx_rel_mono [OF tx_rel_ret])
  have "?R t g t'" if "\<exists>gs t1. (\<exists>rows. ?st t = Inr (t1, rows) \<and> gs = map toGroup rows) \<and> t' = t1 \<and> (\<exists>gs'. gs = g # gs')" for t g t'
  proof -
    from that have "\<exists>gs'. map toGroup (map id_and_path (take 1 (filter (\<lambda>r. dg_ID r = p) t))) = g # gs'" "t' = t" by auto
    then obtain P where P: "P \<in> set (filter (\<lambda>r. dg_ID r = p) t)" "g = toGroup (id_and_path P)"
      by (cases "filter (\<lambda>r. dg_ID r = p) t") auto
    then show ?thesis using \<open>t' = t\<close> by (auto simp: toGroup_def id_and_path_def)
  qed
  from tx_rel_mono [OF tx_rel_pass [OF tx_rel_rows [of h ?st] k] this] show ?thesis unfolding tx_parent_def .
qed

text \<open>The two updates of a change of parent, as one function of the rows.\<close>

lemma two_updates:
  assumes "returning_paths (update_groups p f) t = Inr (t1, rows)" "\<And>r. dg_Path (f r) = dg_Path r"
    and "no_result (update_groups (\<lambda>r. list_ex (path_below (dg_Path r)) (map g_Path (map toGroup rows))) f2) t1 = Inr (t2, u)"
  shows "t2 = map (\<lambda>r. if \<exists>c \<in> set t. p c \<and> path_below (dg_Path r) (dg_Path c) then f2 r else r)
    (map (\<lambda>r. if p r then f r else r) t)"
proof -
  from assms(1) have t1: "t1 = map (\<lambda>r. if p r then f r else r) t" "rows = map id_and_path (map f (filter p t))"
    by (auto simp: returning_paths_def split: sum.splits prod.splits dest!: update_groups_ok)
  have paths: "map g_Path (map toGroup rows) = map dg_Path (filter p t)"
    by (simp add: t1(2) assms(2) toGroup_def id_and_path_def comp_def)
  have "t2 = map (\<lambda>r. if list_ex (path_below (dg_Path r)) (map dg_Path (filter p t)) then f2 r else r) t1"
    using assms(3) unfolding paths by (auto simp: no_result_def split: sum.splits prod.splits dest!: update_groups_ok)
  then show ?thesis unfolding t1(1) by (auto simp: list_ex_iff)
qed

definition assigned :: "string \<Rightarrow> string list \<Rightarrow> group_rows \<Rightarrow> group_rows \<Rightarrow> bool" where
  "assigned p ids t t' \<longleftrightarrow> (\<exists>P \<in> set t. dg_ID P = p \<and> set (lp P) \<inter> set ids = {} \<and> t' = assign_rows P (set ids) t)"

definition unassigned :: "string \<Rightarrow> string list \<Rightarrow> group_rows \<Rightarrow> group_rows \<Rightarrow> bool" where
  "unassigned p ids t t' \<longleftrightarrow> (\<exists>P \<in> set t. dg_ID P = p \<and> t' = unassign_rows P (set ids) t)"

lemma assigned_step:
  assumes "P \<in> set t" "dg_ID P = p" "g_ID g = p" "g_Path g = dg_Path P"
    and "\<not> list_ex (\<lambda>sPath. list_ex (\<lambda>cgid. sPath = cgid) ids) (labels (g_Path g))" "gs = map toGroup rows"
    and "returning_paths (update_groups (\<lambda>r. dg_ID r \<in> set ids) (\<lambda>r. r\<lparr>dg_ParentID := Some (g_ID g)\<rparr>)) t = Inr (t1, rows)"
    and "no_result (update_groups (\<lambda>r. list_ex (path_below (dg_Path r)) (map g_Path gs))
      (\<lambda>r. r\<lparr>dg_Path := g_Path g @ ''.'' @ dg_Path r\<rparr>)) t1 = Inr (t2, u)"
  shows "assigned p ids t t2"
  unfolding assigned_def assign_rows_def
proof (intro bexI [of _ P] conjI assms(1,2))
  show "set (lp P) \<inter> set ids = {}" using assms(4,5) by (auto simp: list_ex_iff)
  show "t2 = map (\<lambda>r. if \<exists>c \<in> set t. dg_ID c \<in> set ids \<and> path_below (dg_Path r) (dg_Path c)
        then r\<lparr>dg_Path := dg_Path P @ ''.'' @ dg_Path r\<rparr> else r)
      (map (\<lambda>r. if dg_ID r \<in> set ids then r\<lparr>dg_ParentID := Some (dg_ID P)\<rparr> else r) t)"
    using two_updates [OF assms(7) _ assms(8) [unfolded assms(6)]] assms(2-4) by simp
qed

lemma unassigned_step:
  assumes "P \<in> set t" "dg_ID P = p" "g_ID g = p" "g_Path g = dg_Path P" "gs = map toGroup rows"
    and "returning_paths (update_groups (\<lambda>r. dg_ID r \<in> set ids \<and> dg_ParentID r = Some (g_ID g)) (\<lambda>r. r\<lparr>dg_ParentID := None\<rparr>)) t = Inr (t1, rows)"
    and "no_result (update_groups (\<lambda>r. list_ex (path_below (dg_Path r)) (map g_Path gs))
      (\<lambda>r. r\<lparr>dg_Path := erase (g_Path g @ ''.'') (dg_Path r)\<rparr>)) t1 = Inr (t2, u)"
  shows "unassigned p ids t t2"
  unfolding unassigned_def unassign_rows_def
proof (intro bexI [of _ P] conjI assms(1,2))
  show "t2 = map (\<lambda>r. if \<exists>c \<in> set t. dg_ID c \<in> set ids \<and> dg_ParentID c = Some (dg_ID P) \<and> path_below (dg_Path r) (dg_Path c)
        then r\<lparr>dg_Path := erase (dg_Path P @ ''.'') (dg_Path r)\<rparr> else r)
      (map (\<lambda>r. if dg_ID r \<in> set ids \<and> dg_ParentID r = Some (dg_ID P) then r\<lparr>dg_ParentID := None\<rparr> else r) t)"
    by (rule two_updates [OF assms(6) _ assms(7) [unfolded assms(5)], unfolded assms(3,4) assms(2) [symmetric] conj_assoc]) simp
qed

lemma tx_rel_assign: "tx_rel h (assign_body h p ids) (\<lambda>t _ t'. assigned p ids t t')"
  unfolding assign_body_def Let_def
  by (rule tx_rel_mono [OF tx_rel_pass [OF tx_rel_parent tx_rel_guard [OF tx_rel_guard [OF
        tx_rel_pass [OF tx_rel_rows tx_rel_trying [OF tx_rel_exec tx_rel_ret]]]]]])
    (elim exE conjE bexE, hypsubst, rule assigned_step, (assumption | rule refl)+)

lemma tx_rel_unassign: "tx_rel h (unassign_body h p ids) (\<lambda>t _ t'. unassigned p ids t t')"
  unfolding unassign_body_def Let_def
  by (rule tx_rel_mono [OF tx_rel_pass [OF tx_rel_parent
        tx_rel_pass [OF tx_rel_rows tx_rel_trying [OF tx_rel_exec tx_rel_ret]]]])
    (elim exE conjE bexE, hypsubst, rule unassigned_step, (assumption | rule refl)+)

lemma assign_guarded:
  "grr_AssignParentGroup p ids =
     (if ids = [] then ret () else guarded_tx (groups_eh repoErrUpdateEntity) (\<lambda>errRollback err. Wrap err (dberror_go errRollback))
        (groups_eh repoErrUpdateEntity) (\<lambda>h. assign_body h p ids))"
  "grr_UnassignParentGroup p ids =
     (if ids = [] then ret () else guarded_tx (groups_eh repoErrUpdateEntity) (\<lambda>errRollback err. Wrap err (dberror_go errRollback))
        (groups_eh repoErrUpdateEntity) (\<lambda>h. unassign_body h p ids))"
proof -
  have u: "(\<lambda>_ :: unit. ret x) = ret" for x :: unit by (rule ext) simp
  show "grr_AssignParentGroup p ids =
     (if ids = [] then ret () else guarded_tx (groups_eh repoErrUpdateEntity) (\<lambda>errRollback err. Wrap err (dberror_go errRollback))
        (groups_eh repoErrUpdateEntity) (\<lambda>h. assign_body h p ids))"
    unfolding grr_AssignParentGroup_def guarded_tx_def rollback_plain_def u ..
  show "grr_UnassignParentGroup p ids =
     (if ids = [] then ret () else guarded_tx (groups_eh repoErrUpdateEntity) (\<lambda>errRollback err. Wrap err (dberror_go errRollback))
        (groups_eh repoErrUpdateEntity) (\<lambda>h. unassign_body h p ids))"
    unfolding grr_UnassignParentGroup_def guarded_tx_def rollback_plain_def u ..
qed

lemma assign_effect:
  "effect committed (grr_AssignParentGroup p ids) (\<lambda>t _ t'. if ids = [] then t' = t else assigned p ids t t')"
  unfolding assign_guarded by (cases "ids = []") (auto intro: effectI guarded_tx_effect tx_rel_assign)

lemma unassign_effect:
  "effect committed (grr_UnassignParentGroup p ids) (\<lambda>t _ t'. if ids = [] then t' = t else unassigned p ids t t')"
  unfolding assign_guarded by (cases "ids = []") (auto intro: effectI guarded_tx_effect tx_rel_unassign)

end
