(* ===== verification/GroupTree.thy ===== *)
theory GroupTree
  imports GroupRepo
begin

text \<open>
  The groups service over any store of groups with the effects of the repository: which of its
  operations keep the stored hierarchy a forest, and the service deployed beside the clients
  and channels services, on the same SpiceDB.
\<close>

section \<open>Rows that go away\<close>

lemma leaf_delete_tree:
  assumes "tree_ok n t" "\<And>r. r \<in> set t \<Longrightarrow> dg_ParentID r \<noteq> Some i"
  shows "tree_ok n (without_group i t)"
proof -
  have t: "without_group i t = filter (\<lambda>r. dg_ID r \<noteq> i) t"
    unfolding without_group_def by (rule map_idI) (use assms(2) in auto)
  show ?thesis unfolding t
  proof (rule tree_okI)
    show "distinct (map dg_ID (filter (\<lambda>r. dg_ID r \<noteq> i) t))" using assms(1) by (auto simp: tree_ok_def intro: distinct_map_filter)
    show "plain n (dg_ID r)" if "r \<in> set (filter (\<lambda>r. dg_ID r \<noteq> i) t)" for r using that tree_plain [OF assms(1)] by auto
    show "lp r = [dg_ID r]" if "r \<in> set (filter (\<lambda>r. dg_ID r \<noteq> i) t)" "dg_ParentID r = None" for r
      using that tree_root [OF assms(1)] by auto
    show "\<exists>q \<in> set (filter (\<lambda>r. dg_ID r \<noteq> i) t). dg_ID q = p \<and> lp r = lp q @ [dg_ID r]"
      if "r \<in> set (filter (\<lambda>r. dg_ID r \<noteq> i) t)" "dg_ParentID r = Some p" for r p
      using that tree_child [OF assms(1), of r p] assms(2) [of r] by auto
  qed
qed

lemma new_row_no_child:
  assumes "tree_ok n t" "new_row t i row" "r \<in> set (t @ [row])"
  shows "dg_ParentID r \<noteq> Some i"
proof (cases "r = row")
  case True
  have "i \<notin> set (map dg_ID t)" using assms(2) by (simp add: new_row_def)
  with True assms(2) show ?thesis by (auto simp: new_row_def image_iff split: option.splits)
next
  case False
  have "i \<notin> set (map dg_ID t)" using assms(2) by (simp add: new_row_def)
  moreover have "r \<in> set t" using False assms(3) by simp
  ultimately show ?thesis using tree_child [OF assms(1), of r i] by (metis image_eqI list.set_map)
qed

section \<open>The service over a store of groups\<close>

lemma effect_deferring: "effect v m P \<Longrightarrow> frames v rb \<Longrightarrow> effect v (deferring rb g m) P"
  by (rule effectI) (force simp: deferring_apply split: prod.splits sum.splits dest: effect_InlD effect_InrD framesD)+

lemma effect_reading:
  assumes "frames v m" "\<And>w x w'. m w = (Inr x, w') \<Longrightarrow> Q (v w) x" "\<And>x. effect v (k x) (P x)"
  shows "effect v (trying m g k) (\<lambda>t y t'. \<exists>x. Q t x \<and> P x t y t')"
proof (rule effectI)
  fix w e w' assume t: "trying m g k w = (Inl e, w')"
  obtain q w1 where q: "m w = (q, w1)" by fastforce
  with t framesD [OF assms(1) q] effect_InlD [OF assms(3), of _ w1 e w'] show "v w' = v w"
    by (cases q) (auto simp: trying_apply)
next
  fix w y w' assume "trying m g k w = (Inr y, w')"
  then obtain x w1 where x: "m w = (Inr x, w1)" "k x w1 = (Inr y, w')" by (auto dest: trying_InrD)
  with assms(2) [OF x(1)] framesD [OF assms(1) x(1)] effect_InrD [OF assms(3) x(2)]
  show "\<exists>x. Q (v w) x \<and> P x (v w) y (v w')" by auto
qed

abbreviation chosen :: "string list \<Rightarrow> group_rows \<Rightarrow> dbGroup set" where
  "chosen ids t \<equiv> {c \<in> set t. dg_ID c \<in> set ids \<and> dg_Status c = EnabledStatus}"

locale group_store =
  fixes svc :: "'w groups_service" and rows :: "'w \<Rightarrow> group_rows"
  assumes Save_rows: "gr_Save (gs_repo svc) g w = (r, w') \<Longrightarrow> (\<exists>e. r = Inl e \<and> rows w' = rows w) \<or>
      (\<exists>row. new_row (rows w) (g_ID g) row \<and> rows w' = rows w @ [row] \<and> (\<forall>s. r = Inr s \<longrightarrow> g_ID s = g_ID g \<and> g_Parent s = g_Parent g))"
    and touch_rows: "gr_Update (gs_repo svc) g w = (r, w') \<Longrightarrow> same_place (rows w) (rows w')"
      "gr_UpdateTags (gs_repo svc) g w = (r, w') \<Longrightarrow> same_place (rows w) (rows w')"
      "gr_ChangeStatus (gs_repo svc) g w = (r, w') \<Longrightarrow> same_place (rows w) (rows w')"
    and Delete_rows: "gr_Delete (gs_repo svc) i w = (ru, w') \<Longrightarrow> rows w' = rows w \<or> rows w' = without_group i (rows w)"
    and RetrieveByID_ok: "gr_RetrieveByID (gs_repo svc) i w = (Inr g, w') \<Longrightarrow> \<exists>c \<in> set (rows w). dg_ID c = i \<and> g = toGroup c"
    and RetrieveByIDs_ok: "gr_RetrieveByIDs (gs_repo svc) EnabledStatus ids w = (Inr gs, w') \<Longrightarrow> gs \<noteq> [] \<Longrightarrow>
      set gs = (\<lambda>c. toGroup (c\<lparr>dg_Path := []\<rparr>)) ` {c \<in> set (rows w). dg_ID c \<in> set ids \<and> dg_Status c = EnabledStatus}"
    and Assign_effect: "effect rows (gr_AssignParentGroup (gs_repo svc) p ids)
      (\<lambda>t _ t'. if ids = [] then t' = t else assigned p ids t t')"
    and Unassign_effect: "effect rows (gr_UnassignParentGroup (gs_repo svc) p ids)
      (\<lambda>t _ t'. if ids = [] then t' = t else unassigned p ids t t')"
    and call_frames: "frames rows (gs_AddPolicies svc ps)" "frames rows (gs_DeletePolicies svc ps)"
      "frames rows (gs_DeletePolicyFilter svc pf)" "frames rows (gs_idProvider svc)" "frames rows (gs_now svc)"
      "frames rows (gs_UnsetParentGroupFromChannels svc i)" "frames rows (gs_UnsetParentGroupFromClient svc i)"
      "frames rows (gr_RetrieveByID (gs_repo svc) i)" "frames rows (gr_RetrieveByIDs (gs_repo svc) st ids)"
      "frames rows (AddNewEntitiesRoles (gs_roles svc) d u es ps new)"
      "frames rows (RemoveEntitiesRoles (gs_roles svc) d u es ps fs)"
begin

lemma reading_group:
  assumes "\<And>grp. effect rows (k grp) (P grp)"
  shows "effect rows (trying (gr_RetrieveByID (gs_repo svc) i) g k) (\<lambda>t y t'. \<exists>c \<in> set t. dg_ID c = i \<and> P (toGroup c) t y t')"
  by (rule effect_mono [OF effect_reading [where Q = "\<lambda>t grp. \<exists>c \<in> set t. dg_ID c = i \<and> grp = toGroup c", OF call_frames(8) _ assms]])
    (auto dest: RetrieveByID_ok)

lemma reading_page:
  assumes "\<And>page. effect rows (k page) (P page)"
  shows "effect rows (trying (gr_RetrieveByIDs (gs_repo svc) EnabledStatus ids) g (\<lambda>page. if page = [] then fail e else k page))
    (\<lambda>t y t'. \<exists>page. page \<noteq> [] \<and> set page = (\<lambda>c. toGroup (c\<lparr>dg_Path := []\<rparr>)) ` chosen ids t \<and> P page t y t')"
proof (rule effect_mono [OF effect_reading [where P = "\<lambda>page t y t'. page \<noteq> [] \<and> P page t y t'" and
      Q = "\<lambda>t page. page \<noteq> [] \<longrightarrow> set page = (\<lambda>c. toGroup (c\<lparr>dg_Path := []\<rparr>)) ` chosen ids t", OF call_frames(9)]])
  show "effect rows (if page = [] then fail e else k page) (\<lambda>t y t'. page \<noteq> [] \<and> P page t y t')" for page
    using assms [of page] by (cases "page = []") (auto intro: effectI)
qed (use RetrieveByIDs_ok in blast)+

lemma AddParentGroup_effect:
  "effect rows (AddParentGroup svc ses i p)
     (\<lambda>t _ t'. (\<exists>c \<in> set t. dg_ID c = i \<and> nullString (dg_ParentID c) = []) \<and> assigned p [i] t t')"
  unfolding AddParentGroup_def Let_def
proof (rule effect_mono [OF reading_group [where P = "\<lambda>grp t _ t'. g_Parent grp = [] \<and> assigned p [g_ID grp] t t'"]], goal_cases)
  case (1 grp)
  show ?case by (cases "g_Parent grp = []") (auto intro!: effectI [where m = "fail _"] effect_trying effect_deferring call_frames
        intro: effect_mono [OF Assign_effect])
qed (auto simp: toGroup_def)

lemma RemoveParentGroup_effect:
  "effect rows (RemoveParentGroup svc ses i)
     (\<lambda>t _ t'. \<exists>c \<in> set t. dg_ID c = i \<and>
        (let p = nullString (dg_ParentID c) in if p = [] then t' = t else unassigned p [i] t t'))"
  unfolding RemoveParentGroup_def Let_def
proof (rule effect_mono [OF reading_group [where P = "\<lambda>grp t _ t'. if g_Parent grp = [] then t' = t
      else unassigned (g_Parent grp) [g_ID grp] t t'"]], goal_cases)
  case (1 grp)
  show ?case
    by (cases "g_Parent grp = []") (auto intro!: effectI [where m = "ret _"] effect_trying effect_deferring call_frames effect_trying_ret
        intro: effect_mono [OF Unassign_effect])
qed (auto simp: toGroup_def)

text \<open>Only the enabled groups among the named ones are looked at; all the named ones are assigned.\<close>

lemma AddChildrenGroups_effect:
  "effect rows (AddChildrenGroups svc ses p ids)
     (\<lambda>t _ t'. (\<forall>c \<in> chosen ids t. nullString (dg_ParentID c) = []) \<and> chosen ids t \<noteq> {} \<and> assigned p ids t t')"
  unfolding AddChildrenGroups_def Let_def
proof (rule effect_mono [OF reading_page [where P = "\<lambda>page t _ t'. (\<forall>g \<in> set page. g_Parent g = []) \<and>
      (if ids = [] then t' = t else assigned p ids t t')"]], goal_cases)
  case (1 page)
  show ?case by (auto simp: list_ex_iff intro!: effectI [where m = "fail _"] effect_trying effect_deferring call_frames effect_trying_ret
        intro: effect_mono [OF Assign_effect])
next
  case (2 t u t')
  then obtain page where page: "page \<noteq> []" "set page = (\<lambda>c. toGroup (c\<lparr>dg_Path := []\<rparr>)) ` chosen ids t"
    "\<forall>g \<in> set page. g_Parent g = []" "if ids = [] then t' = t else assigned p ids t t'" by blast
  from page(1,2) have "chosen ids t \<noteq> {}" by (metis image_is_empty set_empty)
  moreover from page(3) have "\<forall>c \<in> chosen ids t. nullString (dg_ParentID c) = []" unfolding page(2) by (simp add: toGroup_def)
  ultimately show ?case using page(4) by (auto split: if_splits)
qed

lemma RemoveChildrenGroups_effect:
  "effect rows (RemoveChildrenGroups svc ses p ids) (\<lambda>t _ t'. if ids = [] then t' = t else unassigned p ids t t')"
  unfolding RemoveChildrenGroups_def Let_def
  by (rule effect_trying [OF call_frames(9)])
    (auto intro!: effectI [where m = "fail _"] effect_trying effect_deferring call_frames effect_trying_ret
      intro: effect_mono [OF Unassign_effect])

text \<open>Which operations keep the forest.\<close>

abbreviation tree :: "nat \<Rightarrow> 'w \<Rightarrow> bool" where
  "tree n w \<equiv> tree_ok n (rows w)"

lemma touch_keeps:
  "keeps (tree n) (gr_Update (gs_repo svc) g)" "keeps (tree n) (gr_UpdateTags (gs_repo svc) g)"
  "keeps (tree n) (gr_ChangeStatus (gs_repo svc) g)"
  unfolding keeps_def using touch_rows same_place_tree by (metis prod.collapse)+

lemma frames_keep: "frames rows m \<Longrightarrow> keeps (tree n) m"
  unfolding keeps_def frames_def by (metis prod.collapse)

lemma updates_keep:
  "keeps (tree n) (UpdateGroup svc ses g)" "keeps (tree n) (UpdateGroupTags svc ses g)"
  "keeps (tree n) (EnableGroup svc ses i)" "keeps (tree n) (DisableGroup svc ses i)"
  unfolding UpdateGroup_def UpdateGroupTags_def EnableGroup_def DisableGroup_def changeGroupStatus_def
  by (intro io_intros touch_keeps frames_keep [OF call_frames(5)] frames_keep [OF call_frames(8)])+

lemma no_parent_None:
  assumes "tree_ok n t" "c \<in> set t" "nullString (dg_ParentID c) = []"
  shows "dg_ParentID c = None"
proof (cases "dg_ParentID c")
  case (Some p)
  with tree_child [OF assms(1,2)] obtain q where "q \<in> set t" "dg_ID q = p" by blast
  with tree_plain [OF assms(1)] assms(3) Some show ?thesis by (force simp: plain_def nullString_def)
qed

lemma assigned_tree:
  assumes "tree_ok n t" "assigned p ids t t'" "\<And>c. c \<in> set t \<Longrightarrow> dg_ID c \<in> set ids \<Longrightarrow> nullString (dg_ParentID c) = []"
  shows "tree_ok n t'"
  using assms no_parent_None [OF assms(1)] by (auto simp: assigned_def intro!: assign_keeps_tree)

lemma unassigned_tree: "tree_ok n t \<Longrightarrow> unassigned p ids t t' \<Longrightarrow> tree_ok n t'"
  by (auto simp: unassigned_def intro: unassign_keeps_tree)

lemma effect_keeps:
  assumes "effect rows m P" "m w = (r, w')" "tree n w" "\<And>x. P (rows w) x (rows w') \<Longrightarrow> tree n w'"
  shows "tree n w'"
proof (cases r)
  case (Inl e)
  with effect_InlD [OF assms(1)] assms(2,3) show ?thesis by metis
next
  case (Inr x)
  with effect_InrD [OF assms(1)] assms(2,4) show ?thesis by metis
qed

lemma AddParentGroup_keeps:
  assumes "AddParentGroup svc ses i p w = (r, w')" "tree n w"
  shows "tree n w'"
proof (rule effect_keeps [OF AddParentGroup_effect assms], elim conjE bexE)
  fix c assume c: "c \<in> set (rows w)" "dg_ID c = i" "nullString (dg_ParentID c) = []" "assigned p [i] (rows w) (rows w')"
  show "tree n w'"
    by (rule assigned_tree [OF assms(2) c(4)]) (use tree_unique [OF assms(2) _ c(1)] c(2,3) in auto)
qed

lemma RemoveParentGroup_keeps:
  "RemoveParentGroup svc ses i w = (r, w') \<Longrightarrow> tree n w \<Longrightarrow> tree n w'"
  by (erule effect_keeps [OF RemoveParentGroup_effect]) (auto simp: Let_def split: if_splits dest: unassigned_tree)

lemma AddChildrenGroups_keeps:
  assumes "AddChildrenGroups svc ses p ids w = (r, w')" "tree n w" "chosen ids (rows w) = {c \<in> set (rows w). dg_ID c \<in> set ids}"
  shows "tree n w'"
proof (rule effect_keeps [OF AddChildrenGroups_effect assms(1,2)], elim conjE)
  assume a: "\<forall>c \<in> chosen ids (rows w). nullString (dg_ParentID c) = []" "assigned p ids (rows w) (rows w')"
  show "tree n w'" by (rule assigned_tree [OF assms(2) a(2)]) (use a(1) in \<open>auto simp: assms(3)\<close>)
qed

lemma RemoveChildrenGroups_keeps:
  "RemoveChildrenGroups svc ses p ids w = (r, w') \<Longrightarrow> tree n w \<Longrightarrow> tree n w'"
  by (erule effect_keeps [OF RemoveChildrenGroups_effect]) (auto split: if_splits dest: unassigned_tree)

lemma Delete_keeps:
  assumes "gr_Delete (gs_repo svc) i w = (r, w')" "tree n w" "\<And>c. c \<in> set (rows w) \<Longrightarrow> dg_ParentID c \<noteq> Some i"
  shows "tree n w'"
  using Delete_rows [OF assms(1)] leaf_delete_tree [OF assms(2,3)] assms(2) by auto

lemma CreateGroup_keeps:
  assumes "CreateGroup svc ses g w = (r, w')" "tree n w" "\<And>i w1. gs_idProvider svc w = (Inr i, w1) \<Longrightarrow> plain n i"
  shows "tree n w'"
proof (cases "gs_idProvider svc w")
  case (Pair q w1)
  have w1: "rows w1 = rows w" using framesD [OF call_frames(4) Pair] .
  show ?thesis
  proof (cases "\<exists>i. q = Inr i \<and> (g_Status g = EnabledStatus \<or> g_Status g = DisabledStatus)")
    case False
    with Pair assms(1) w1 have "rows w' = rows w" by (cases q) (auto simp: CreateGroup_def trying_apply)
    with assms(2) show ?thesis by simp
  next
    case True
    then obtain i where i: "q = Inr i" "g_Status g = EnabledStatus \<or> g_Status g = DisabledStatus" by blast
    have p: "plain n i" using assms(3) Pair i(1) by simp
    obtain now w2 where n: "gs_now svc w1 = (now, w2)" by fastforce
    let ?g = "g\<lparr>g_ID := i, g_CreatedAt := now, g_Domain := s_DomainID ses\<rparr>"
    obtain q3 w3 where s: "gr_Save (gs_repo svc) ?g w2 = (q3, w3)" by fastforce
    have w2: "rows w2 = rows w" using framesD [OF call_frames(5) n] w1 by simp
    show ?thesis
    proof (cases q3)
      case (Inl e)
      have "w' = w3" using assms(1) Pair i n s Inl by (auto simp: CreateGroup_def trying_apply observe_apply)
      moreover have "tree n w3" using Save_rows [OF s] w2 assms(2) new_row_tree [OF assms(2) p] by auto
      ultimately show ?thesis by simp
    next
      case (Inr saved)
      from Save_rows [OF s] Inr w2 obtain row where row: "new_row (rows w) i row" "rows w3 = rows w @ [row]" "g_ID saved = i" by auto
      have t3: "tree n w3" using new_row_tree [OF assms(2) p row(1)] row(2) by simp
      obtain rb jn m where w': "deferring (gr_Delete (gs_repo svc) i) jn m w3 = (r, w')" "frames rows m"
        using assms(1) Pair i n s Inr row(3)
        by (force simp: CreateGroup_def trying_apply observe_apply Let_def intro!: frames_trying call_frames frames_basic split: if_splits)
      obtain q4 w4 where m: "m w3 = (q4, w4)" by fastforce
      have w4: "rows w4 = rows w @ [row]" using framesD [OF w'(2) m] row(2) by simp
      consider "w' = w4" | r5 where "gr_Delete (gs_repo svc) i w4 = (r5, w')"
        using w'(1) m by (cases q4) (auto simp: deferring_apply split: prod.splits sum.splits)
      then show ?thesis
      proof cases
        case 1
        with t3 w4 row(2) show ?thesis by simp
      next
        case 2
        show ?thesis by (rule Delete_keeps [OF 2]) (use t3 w4 row new_row_no_child [OF assms(2) row(1)] in auto)
      qed
    qed
  qed
qed

lemma DeleteGroup_keeps:
  assumes "DeleteGroup svc ses i w = (r, w')" "tree n w" "\<And>c. c \<in> set (rows w) \<Longrightarrow> dg_ParentID c \<noteq> Some i"
  shows "tree n w'"
proof -
  define J where "J w \<longleftrightarrow> tree n w \<and> (\<forall>c \<in> set (rows w). dg_ParentID c \<noteq> Some i)" for w
  have fr: "keeps J m" if "frames rows m" for m :: "'w \<Rightarrow> 'x \<times> 'w"
    unfolding keeps_def J_def using framesD [OF that] by (metis prod.collapse)
  have ch: "keeps J (gr_ChangeStatus (gs_repo svc) g)" for g
  proof (rule keepsI)
    fix v assume J: "J v"
    obtain q v' where d: "gr_ChangeStatus (gs_repo svc) g v = (q, v')" by fastforce
    note sp = touch_rows(3) [OF d]
    from sp J have "\<forall>c \<in> set (rows v'). dg_ParentID c \<noteq> Some i" by (auto simp: same_place_def J_def)
    with same_place_tree [OF sp] J d show "J (snd (gr_ChangeStatus (gs_repo svc) g v))" by (simp add: J_def)
  qed
  have de: "keeps J (gr_Delete (gs_repo svc) i)"
  proof (rule keepsI)
    fix v assume J: "J v"
    obtain q v' where d: "gr_Delete (gs_repo svc) i v = (q, v')" by fastforce
    with J have "tree n v'" using Delete_keeps [OF d] by (simp add: J_def)
    moreover have "\<forall>c \<in> set (rows v'). dg_ParentID c \<noteq> Some i"
      using Delete_rows [OF d] J by (auto simp: J_def without_group_def)
    ultimately show "J (snd (gr_Delete (gs_repo svc) i v))" using d by (simp add: J_def)
  qed
  have "keeps J (DeleteGroup svc ses i)" unfolding DeleteGroup_def
    by (intro io_intros ch de fr call_frames)
  from keepsD [OF this _ assms(1)] assms(2,3) show ?thesis by (simp add: J_def)
qed

end

section \<open>Steps of the service\<close>

text \<open>
  The operations of the service that keep the hierarchy. The new identifier is a UUID; all
  children that are added by name are enabled; a group that is deleted has no children.
\<close>

inductive group_step :: "'w groups_service \<Rightarrow> ('w \<Rightarrow> group_rows) \<Rightarrow> 'w \<Rightarrow> 'w \<Rightarrow> bool"
  for svc :: "'w groups_service" and rows :: "'w \<Rightarrow> group_rows" where
  gs_create: "CreateGroup svc ses g w = (r1, w') \<Longrightarrow> (\<And>i w1. gs_idProvider svc w = (Inr i, w1) \<Longrightarrow> plain 36 i) \<Longrightarrow>
     group_step svc rows w w'"
| gs_update: "UpdateGroup svc ses g w = (r2, w') \<Longrightarrow> group_step svc rows w w'"
| gs_tags: "UpdateGroupTags svc ses g w = (r2, w') \<Longrightarrow> group_step svc rows w w'"
| gs_enable: "EnableGroup svc ses i w = (r2, w') \<Longrightarrow> group_step svc rows w w'"
| gs_disable: "DisableGroup svc ses i w = (r2, w') \<Longrightarrow> group_step svc rows w w'"
| gs_add_parent: "AddParentGroup svc ses i p w = (ru, w') \<Longrightarrow> group_step svc rows w w'"
| gs_remove_parent: "RemoveParentGroup svc ses i w = (ru, w') \<Longrightarrow> group_step svc rows w w'"
| gs_add_children: "AddChildrenGroups svc ses p ids w = (ru, w') \<Longrightarrow>
     chosen ids (rows w) = {c \<in> set (rows w). dg_ID c \<in> set ids} \<Longrightarrow> group_step svc rows w w'"
| gs_remove_children: "RemoveChildrenGroups svc ses p ids w = (ru, w') \<Longrightarrow> group_step svc rows w w'"
| gs_delete: "DeleteGroup svc ses i w = (ru, w') \<Longrightarrow> (\<And>c. c \<in> set (rows w) \<Longrightarrow> dg_ParentID c \<noteq> Some i) \<Longrightarrow>
     group_step svc rows w w'"

context group_store
begin

lemma step_keeps: "group_step svc rows w w' \<Longrightarrow> tree 36 w \<Longrightarrow> tree 36 w'"
proof (induction rule: group_step.induct)
  case gs_create
  then show ?case by (blast intro: CreateGroup_keeps)
next
  case gs_add_children
  then show ?case by (blast intro: AddChildrenGroups_keeps)
next
  case gs_delete
  then show ?case by (blast intro: DeleteGroup_keeps)
qed (blast intro: keepsD [OF updates_keep(1)] keepsD [OF updates_keep(2)] keepsD [OF updates_keep(3)] keepsD [OF updates_keep(4)]
    AddParentGroup_keeps RemoveParentGroup_keeps RemoveChildrenGroups_keeps)+

lemma steps_keep: "(group_step svc rows)\<^sup>*\<^sup>* w w' \<Longrightarrow> tree 36 w \<Longrightarrow> tree 36 w'"
  by (induction rule: rtranclp_induct) (auto intro: step_keeps)

end

section \<open>The service deployed\<close>

text \<open>Beside the clients and channels services, whose world it shares: the store, the clock, the gRPC calls.\<close>

record groups_world =
  gw_groups :: groups_db
  gw_grdb :: roles_db
  gw_things :: things_world

abbreviation on_groups :: "(groups_db, 'e, 'a) io \<Rightarrow> (groups_world, 'e, 'a) io" where
  "on_groups m \<equiv> lifted gw_groups (\<lambda>d w. w\<lparr>gw_groups := d\<rparr>) m"

abbreviation on_things :: "(things_world, 'e, 'a) io \<Rightarrow> (groups_world, 'e, 'a) io" where
  "on_things m \<equiv> lifted gw_things (\<lambda>d w. w\<lparr>gw_things := d\<rparr>) m"

abbreviation get_groles :: "groups_world \<Rightarrow> roles_world" where
  "get_groles w \<equiv> \<lparr>rw_store = tw_store (gw_things w), rw_db = gw_grdb w, rw_now = tw_now (gw_things w)\<rparr>"

abbreviation put_groles :: "roles_world \<Rightarrow> groups_world \<Rightarrow> groups_world" where
  "put_groles s w \<equiv> w\<lparr>gw_things := (gw_things w)\<lparr>tw_store := rw_store s, tw_now := rw_now s\<rparr>, gw_grdb := rw_db s\<rparr>"

definition with_group_roles :: "(groups_world, gerror, 'a) io \<Rightarrow> (groups_world, gerror, 'a) io" where
  "with_group_roles m w = (case m w of (r, w') \<Rightarrow> (r, w'\<lparr>gw_grdb := (gw_grdb w')\<lparr>committed :=
     entities_are (map dg_ID (committed (gw_groups w'))) (committed (gw_grdb w'))\<rparr>\<rparr>))"

definition groups_repo :: "groups_world GroupsRepository" where
  "groups_repo = \<lparr>gr_Save = (\<lambda>g. with_group_roles (on_groups (grr_Save g))), gr_Update = (\<lambda>g. on_groups (grr_Update g)),
     gr_UpdateTags = (\<lambda>g. on_groups (grr_UpdateTags g)), gr_RetrieveByID = (\<lambda>i. on_groups (grr_RetrieveByID i)),
     gr_RetrieveByIDs = (\<lambda>st ids. on_groups (grr_RetrieveByIDs st ids)), gr_ChangeStatus = (\<lambda>g. on_groups (grr_ChangeStatus g)),
     gr_AssignParentGroup = (\<lambda>p ids. on_groups (grr_AssignParentGroup p ids)),
     gr_UnassignParentGroup = (\<lambda>p ids. on_groups (grr_UnassignParentGroup p ids)),
     gr_UnassignAllChildrenGroups = (\<lambda>i. on_groups (grr_UnassignAllChildrenGroups i)),
     gr_Delete = (\<lambda>i. with_group_roles (on_groups (grr_Delete i)))\<rparr>"

definition group_roles :: "roles_world ProvisionManageService" where
  "group_roles = deployed_roles clock_sid GroupType [''read'', ''update'', ''delete''] [(''admin'', [''read'', ''update'', ''delete''])]"

definition deployed_groups :: "groups_world groups_service" where
  "deployed_groups = \<lparr>gs_repo = groups_repo,
     gs_AddPolicies = (\<lambda>ps. on_things (on_store (AddPolicies ref_client ps))),
     gs_DeletePolicies = (\<lambda>ps. on_things (on_store (DeletePolicies ref_client ps))),
     gs_DeletePolicyFilter = (\<lambda>p. on_things (on_store (DeletePolicyFilter ref_client p))),
     gs_idProvider = on_things tw_ID,
     gs_UnsetParentGroupFromChannels = (\<lambda>i. on_things (rpc (channel_UnsetParentGroup deployed_channels i))),
     gs_UnsetParentGroupFromClient = (\<lambda>i. on_things (rpc (client_UnsetParentGroup deployed_clients i))),
     gs_now = (\<lambda>w. case tw_Now (gw_things w) of (t, s) \<Rightarrow> (t, w\<lparr>gw_things := s\<rparr>)),
     gs_roles = lift_roles get_groles put_groles group_roles\<rparr>"

definition group_table :: "groups_world \<Rightarrow> group_rows" where
  "group_table w = committed (gw_groups w)"

lemma group_table_views [simp]:
  "group_table (w\<lparr>gw_things := s\<rparr>) = group_table w" "group_table (w\<lparr>gw_grdb := d\<rparr>) = group_table w"
  "group_table (w\<lparr>gw_groups := g\<rparr>) = committed g"
  by (simp_all add: group_table_def)

lemma with_group_roles_eq: "with_group_roles m w = (r, w') \<Longrightarrow> \<exists>w1. m w = (r, w1) \<and> group_table w' = group_table w1"
  by (auto simp: with_group_roles_def split: prod.splits)

lemma frames_guarded: "frames v k \<Longrightarrow> frames v (guarded oe k)"
  by (cases oe) (auto simp: frames_def)

lemma frames_deferring: "frames v m \<Longrightarrow> frames v rb \<Longrightarrow> frames v (deferring rb g m)"
  unfolding frames_def by (auto simp: deferring_apply split: prod.splits sum.splits)

lemma frames_AddNewEntitiesRoles:
  assumes "\<And>s w. v (put s w) = v w"
  shows "frames v (AddNewEntitiesRoles (lift_roles get put R) d u es ps new)"
proof -
  have now: "frames v (pm_now (lift_roles get put R))"
    by (auto simp: frames_def lift_roles_def assms split: prod.splits)
  have calls: "frames v (pm_sidProvider (lift_roles get put R))" "frames v (pm_AddPolicies (lift_roles get put R) prs)"
    "frames v (pm_DeletePolicies (lift_roles get put R) prs)" "frames v (AddRoles (pm_repo (lift_roles get put R)) rps)" for prs rps
    by (auto simp: lift_roles_def lift_repo_def intro!: frames_lifted assms)
  have one: "frames v (provision_roles (lift_roles get put R) d u e new rps p)" for e rps p
  proof (induction new arbitrary: rps p)
    case (Cons x new)
    then show ?case
      by (cases x) (auto simp: Let_def split: option.splits intro!: frames_rules frames_observe frames_guarded now calls)
  qed (simp add: frames_basic)
  have "frames v (provision_entities (lift_roles get put R) d u es new rps p)" for rps p
    by (induction es arbitrary: rps p) (auto intro!: frames_rules one split: prod.splits)
  then show ?thesis unfolding AddNewEntitiesRoles_def Let_def add_with_policies_def rollback_policies_def
    by (auto intro!: frames_rules frames_deferring frames_trying_ret calls split: prod.splits)
qed

lemma on_groups_table: "on_groups m w = (r, w') \<Longrightarrow> \<exists>d. m (gw_groups w) = (r, d) \<and> group_table w' = committed d \<and> committed (gw_groups w) = group_table w"
  by (auto simp: lifted_eq group_table_def)

lemma frames_on_groups: "reads m \<Longrightarrow> frames group_table (on_groups m)"
  unfolding frames_def by (auto dest!: on_groups_table readsD)

lemma same_place_on_groups:
  assumes "on_groups m w = (r, w')" "\<And>d d' r. m d = (r, d') \<Longrightarrow> same_place (committed d) (committed d')"
  shows "same_place (group_table w) (group_table w')"
  using on_groups_table [OF assms(1)] assms(2) by metis

lemma effect_on_groups: "effect committed m P \<Longrightarrow> effect group_table (on_groups m) P"
  using effect_lifted [of committed m P gw_groups "\<lambda>d w. w\<lparr>gw_groups := d\<rparr>"] by (simp add: group_table_def [abs_def] comp_def)

interpretation hierarchy: group_store deployed_groups group_table
proof unfold_locales
  fix g w r w' assume "gr_Save (gs_repo deployed_groups) g w = (r, w')"
  then obtain d where "grr_Save g (gw_groups w) = (r, d)" "group_table w' = committed d" "committed (gw_groups w) = group_table w"
    by (auto simp: deployed_groups_def groups_repo_def dest!: with_group_roles_eq on_groups_table)
  with grr_Save_cases [OF this(1)] show "(\<exists>e. r = Inl e \<and> group_table w' = group_table w) \<or>
      (\<exists>row. new_row (group_table w) (g_ID g) row \<and> group_table w' = group_table w @ [row] \<and>
         (\<forall>s. r = Inr s \<longrightarrow> g_ID s = g_ID g \<and> g_Parent s = g_Parent g))" by metis
next
  fix i w r w' assume "gr_Delete (gs_repo deployed_groups) i w = (r, w')"
  then obtain d where "grr_Delete i (gw_groups w) = (r, d)" "group_table w' = committed d" "committed (gw_groups w) = group_table w"
    by (auto simp: deployed_groups_def groups_repo_def dest!: with_group_roles_eq on_groups_table)
  with grr_Delete_cases [OF this(1)] show "group_table w' = group_table w \<or> group_table w' = without_group i (group_table w)" by metis
next
  fix i w g w' assume "gr_RetrieveByID (gs_repo deployed_groups) i w = (Inr g, w')"
  then show "\<exists>c \<in> set (group_table w). dg_ID c = i \<and> g = toGroup c"
    by (auto simp: deployed_groups_def groups_repo_def dest!: on_groups_table grr_RetrieveByID_ok)
next
  fix ids w gs w' assume "gr_RetrieveByIDs (gs_repo deployed_groups) EnabledStatus ids w = (Inr gs, w')" "gs \<noteq> []"
  then obtain d where "grr_RetrieveByIDs EnabledStatus ids (gw_groups w) = (Inr gs, d)" "committed (gw_groups w) = group_table w"
    by (auto simp: deployed_groups_def groups_repo_def dest!: on_groups_table)
  with grr_RetrieveByIDs_ok [OF this(1) \<open>gs \<noteq> []\<close>]
  show "set gs = (\<lambda>c. toGroup (c\<lparr>dg_Path := []\<rparr>)) ` chosen ids (group_table w)" by simp
next
  show "frames group_table (gs_now deployed_groups)"
    by (auto simp: frames_def deployed_groups_def split: prod.splits)
next
  show "effect group_table (gr_AssignParentGroup (gs_repo deployed_groups) p ids)
      (\<lambda>t _ t'. if ids = [] then t' = t else assigned p ids t t')" for p ids
    using effect_on_groups [OF assign_effect] by (simp add: deployed_groups_def groups_repo_def)
  show "effect group_table (gr_UnassignParentGroup (gs_repo deployed_groups) p ids)
      (\<lambda>t _ t'. if ids = [] then t' = t else unassigned p ids t t')" for p ids
    using effect_on_groups [OF unassign_effect] by (simp add: deployed_groups_def groups_repo_def)
qed (auto simp: deployed_groups_def groups_repo_def dest: same_place_on_groups [OF _ grr_touch_place(1)]
    same_place_on_groups [OF _ grr_touch_place(2)] same_place_on_groups [OF _ grr_touch_place(3)]
    intro!: frames_lifted frames_on_groups grr_RetrieveByID_reads grr_RetrieveByIDs_reads
      frames_AddNewEntitiesRoles frames_RemoveEntitiesRoles)

section \<open>Ancestors\<close>

lemma below_ancestor:
  assumes "tree_ok n t" "r \<in> set t" "i \<in> set (lp r)"
  shows "(i, dg_ID r) \<in> (parent_rel t)\<^sup>*"
  using assms(2,3)
proof (induction "length (lp r)" arbitrary: r rule: less_induct)
  case less
  show ?case
  proof (cases "dg_ParentID r")
    case None
    with tree_root [OF assms(1) less.prems(1)] less.prems(2) show ?thesis by simp
  next
    case (Some p)
    then obtain q where q: "q \<in> set t" "dg_ID q = p" "lp r = lp q @ [dg_ID r]" using tree_child [OF assms(1) less.prems(1)] by blast
    have e: "(dg_ID q, dg_ID r) \<in> parent_rel t" using Some q less.prems(1) by (auto simp: parent_rel_def)
    show ?thesis
    proof (cases "i = dg_ID r")
      case False
      with q(3) less.prems(2) have "i \<in> set (lp q)" by simp
      with less.hyps [of q] q(1,3) e show ?thesis by (simp add: rtrancl_into_rtrancl)
    qed simp
  qed
qed

lemma ancestor_below:
  assumes "tree_ok n t" "(i, j) \<in> (parent_rel t)\<^sup>*" "r \<in> set t" "dg_ID r = j"
  shows "i \<in> set (lp r)"
  using assms(2-4)
proof (induction arbitrary: r rule: rtrancl_induct)
  case base
  obtain ls where "lp r = ls @ [dg_ID r]" using tree_last [OF assms(1) base.prems(1)] by blast
  with base.prems(2) show ?case by simp
next
  case (step j k)
  then obtain r' where "r' \<in> set t" "dg_ParentID r' = Some j" "dg_ID r' = k" by (auto simp: parent_rel_def)
  with step.prems tree_unique [OF assms(1)] have "dg_ParentID r = Some j" by blast
  then obtain q where "q \<in> set t" "dg_ID q = j" "lp r = lp q @ [dg_ID r]" using tree_child [OF assms(1) step.prems(1)] by blast
  with step.IH [of q] show ?case by simp
qed

section \<open>A sample deployment\<close>

definition uuid :: "nat \<Rightarrow> string" where
  "uuid n = replicate 36 (''abcdef'' ! n)"

definition sample_groups :: groups_world where
  "sample_groups = \<lparr>gw_groups = db_of [] [], gw_grdb = db_of \<lparr>t_entities = [], t_roles = [], t_actions = [], t_members = []\<rparr> [],
     gw_things = sample_things\<lparr>tw_ids := uuid, tw_nid := 0\<rparr>\<rparr>"

text \<open>A group of the domain without a parent, recorded in the policy store.\<close>

definition root_group :: dbGroup where
  "root_group = (toDBGroup Group0)\<lparr>dg_ID := uuid 0, dg_DomainID := ''u1'', dg_Path := uuid 0\<rparr>"

definition rooted_groups :: groups_world where
  "rooted_groups = sample_groups\<lparr>gw_groups := db_of [root_group] [], gw_things := (gw_things sample_groups)\<lparr>tw_nid := 1,
     tw_store := \<lparr>rs_tuples = [\<lparr>rel_ResourceType = GroupType, rel_ResourceId = uuid 0, rel_Relation = DomainRelation,
       rel_SubjectType = DomainType, rel_SubjectId = ''u1'', rel_SubjectRelation = []\<rparr>], rs_faults = []\<rparr>\<rparr>\<rparr>"

definition new_group :: "string \<Rightarrow> groups_world \<Rightarrow> groups_world" where
  "new_group p w = snd (CreateGroup deployed_groups owner_session (Group0\<lparr>g_Parent := p\<rparr>) w)"

abbreviation next_uuid :: "groups_world \<Rightarrow> string" where
  "next_uuid w \<equiv> tw_ids (gw_things w) (tw_nid (gw_things w))"

lemma id_provided: "gs_idProvider deployed_groups w = (Inr i, w') \<Longrightarrow> i = next_uuid w"
  by (auto simp: deployed_groups_def lifted_eq tw_ID_def)

lemma parent_rel_columns: "parent_rel t = {(p, i). (i, Some p) \<in> set (map (\<lambda>r. (dg_ID r, dg_ParentID r)) t)}"
  by (force simp: parent_rel_def)

text \<open>C6: Whatever fails on the way, the operations of the service keep the stored hierarchy a forest,
  in which the column with the path and the column with the parent agree: no group is its own
  ancestor, and the operator that PostgreSQL answers from the paths says of two groups whether one is
  an ancestor of the other. The deletion of a group that has children is not among the operations,
  nor the removal of all children, nor the adoption of disabled groups.\<close>

theorem hierarchy_stays_a_forest:
  assumes "(group_step deployed_groups group_table)\<^sup>*\<^sup>* w w'" "tree_ok 36 (group_table w)"
  shows "acyclic (parent_rel (group_table w')) \<and>
    (\<forall>r \<in> set (group_table w'). \<forall>c \<in> set (group_table w').
       path_below (dg_Path r) (dg_Path c) \<longleftrightarrow> (dg_ID c, dg_ID r) \<in> (parent_rel (group_table w'))\<^sup>*)"
proof -
  have t: "tree_ok 36 (group_table w')" by (rule hierarchy.steps_keep [OF assms])
  show ?thesis
  proof (intro conjI ballI tree_acyclic [OF t])
    fix r c assume r: "r \<in> set (group_table w')" "c \<in> set (group_table w')"
    show "path_below (dg_Path r) (dg_Path c) \<longleftrightarrow> (dg_ID c, dg_ID r) \<in> (parent_rel (group_table w'))\<^sup>*"
      using tree_below_iff [OF t r] below_ancestor [OF t r(1)] ancestor_below [OF t _ r(1) refl] by blast
  qed
qed

theorem hierarchy_stays_a_forest_witness:
  "acyclic (parent_rel (group_table (new_group (uuid 0) rooted_groups))) \<and>
   parent_rel (group_table (new_group (uuid 0) rooted_groups)) = {(uuid 0, uuid 1)}"
proof -
  have ids: "next_uuid rooted_groups = uuid 1" "plain 36 (uuid 1)" by code_simp+
  have "group_step deployed_groups group_table w (new_group p w)" if "plain 36 (next_uuid w)" for p w
    unfolding new_group_def by (rule group_step.gs_create [OF prod.collapse [symmetric]]) (use that id_provided in auto)
  from this [of rooted_groups "uuid 0"] ids
  have steps: "(group_step deployed_groups group_table)\<^sup>*\<^sup>* rooted_groups (new_group (uuid 0) rooted_groups)" by auto
  have root: "tree_ok 36 (group_table rooted_groups)" by code_simp
  have cols: "map (\<lambda>r. (dg_ID r, dg_ParentID r)) (group_table (new_group (uuid 0) rooted_groups)) =
      [(uuid 0, None), (uuid 1, Some (uuid 0))]" by code_simp
  have "parent_rel (group_table (new_group (uuid 0) rooted_groups)) = {(uuid 0, uuid 1)}"
    unfolding parent_rel_columns cols by auto
  with hierarchy_stays_a_forest [OF steps root] show ?thesis by (elim conjE) (rule conjI)
qed

end
