(* ===== verification/GroupCycle.thy ===== *)
theory GroupCycle
  imports GroupTree
begin

text \<open>
  What a change of parent does to the table of groups in the deployed service, and how a cycle
  of parents comes about.
\<close>

section \<open>A change of parent\<close>

text \<open>Two tables that have the same groups, but for the columns with the parent and the path.\<close>

definition same_groups :: "group_rows \<Rightarrow> group_rows \<Rightarrow> bool" where
  "same_groups t t' \<longleftrightarrow> map (\<lambda>r. r\<lparr>dg_ParentID := None, dg_Path := []\<rparr>) t' = map (\<lambda>r. r\<lparr>dg_ParentID := None, dg_Path := []\<rparr>) t"

lemma moved_columns:
  "map (\<lambda>r. (dg_ID r, dg_ParentID r)) (assign_rows P ids t) =
     map (\<lambda>r. (dg_ID r, if dg_ID r \<in> ids then Some (dg_ID P) else dg_ParentID r)) t"
  "map (\<lambda>r. (dg_ID r, dg_ParentID r)) (unassign_rows P ids t) =
     map (\<lambda>r. (dg_ID r, if dg_ID r \<in> ids \<and> dg_ParentID r = Some (dg_ID P) then None else dg_ParentID r)) t"
  by (simp_all add: assign_rows_def unassign_rows_def comp_def)

lemma moved_same_groups: "same_groups t (assign_rows P ids t)" "same_groups t (unassign_rows P ids t)"
  by (auto simp: same_groups_def assign_rows_def unassign_rows_def)

lemma root_no_parent: "tree_ok n t \<Longrightarrow> c \<in> set t \<Longrightarrow> dg_ParentID c = None \<Longrightarrow> (q, dg_ID c) \<notin> parent_rel t"
  using tree_unique by (fastforce simp: parent_rel_def)

lemma parent_rel_map:
  "map (\<lambda>r. (dg_ID r, dg_ParentID r)) t' = map (\<lambda>r. (dg_ID r, f r)) t \<Longrightarrow> (q, j) \<in> parent_rel t' \<longleftrightarrow> (\<exists>r \<in> set t. dg_ID r = j \<and> f r = Some q)"
  unfolding parent_rel_columns by auto

lemma assign_parent_rel:
  assumes "tree_ok n t" "c \<in> set t" "dg_ID c = i" "dg_ParentID c = None"
  shows "parent_rel (assign_rows P {i} t) = insert (dg_ID P, i) (parent_rel t)"
proof -
  have "dg_ParentID r = None" if "r \<in> set t" "dg_ID r = i" for r
    using tree_unique [OF assms(1) that(1) assms(2)] that(2) assms(3,4) by simp
  then have "(q, j) \<in> parent_rel (assign_rows P {i} t) \<longleftrightarrow> (q, j) = (dg_ID P, i) \<or> (q, j) \<in> parent_rel t" for q j
    using assms(2,3) unfolding parent_rel_map [OF moved_columns(1)] unfolding parent_rel_map [OF refl] by (cases "j = i") auto
  then show ?thesis by auto
qed

lemma unassign_parent_rel:
  assumes "tree_ok n t" "c \<in> set t" "dg_ID c = i" "dg_ParentID c = Some (dg_ID P)"
  shows "parent_rel (unassign_rows P {i} t) = {x \<in> parent_rel t. snd x \<noteq> i}"
proof -
  have "dg_ParentID r = Some (dg_ID P)" if "r \<in> set t" "dg_ID r = i" for r
    using tree_unique [OF assms(1) that(1) assms(2)] that(2) assms(3,4) by simp
  then have "(q, j) \<in> parent_rel (unassign_rows P {i} t) \<longleftrightarrow> (q, j) \<in> parent_rel t \<and> j \<noteq> i" for q j
    unfolding parent_rel_map [OF moved_columns(2)] unfolding parent_rel_map [OF refl] by (cases "j = i") auto
  then show ?thesis by auto
qed

lemma parent_added:
  assumes "tree_ok n (group_table w)" "AddParentGroup deployed_groups ses i p w = (Inr u, w')"
  shows "{i, p} \<subseteq> dg_ID ` set (group_table w) \<and> (\<forall>q. (q, i) \<notin> parent_rel (group_table w)) \<and>
    (i, p) \<notin> (parent_rel (group_table w))\<^sup>* \<and> parent_rel (group_table w') = insert (p, i) (parent_rel (group_table w)) \<and>
    tree_ok n (group_table w') \<and> same_groups (group_table w) (group_table w')"
proof -
  from effect_InrD [OF hierarchy.AddParentGroup_effect assms(2)] obtain c P where c: "c \<in> set (group_table w)" "dg_ID c = i" "nullString (dg_ParentID c) = []"
    and P: "P \<in> set (group_table w)" "dg_ID P = p" "i \<notin> set (lp P)" and w': "group_table w' = assign_rows P {i} (group_table w)"
    by (auto simp: assigned_def)
  have root: "dg_ParentID c = None" by (rule hierarchy.no_parent_None [OF assms(1) c(1,3)])
  have "(i, p) \<notin> (parent_rel (group_table w))\<^sup>*" using ancestor_below [OF assms(1) _ P(1,2)] P(3) by blast
  moreover have "tree_ok n (group_table w')" by (rule hierarchy.AddParentGroup_keeps [OF assms(2,1)])
  ultimately show ?thesis
    using root_no_parent [OF assms(1) c(1) root] assign_parent_rel [OF assms(1) c(1,2) root, of P] c P w' moved_same_groups(1) by auto
qed

lemma parent_removed:
  assumes "tree_ok n (group_table w)" "RemoveParentGroup deployed_groups ses i w = (Inr u, w')"
  shows "i \<in> dg_ID ` set (group_table w) \<and> parent_rel (group_table w') = {x \<in> parent_rel (group_table w). snd x \<noteq> i} \<and>
    tree_ok n (group_table w') \<and> same_groups (group_table w) (group_table w')"
proof -
  let ?t = "group_table w"
  from effect_InrD [OF hierarchy.RemoveParentGroup_effect assms(2)] obtain c where c: "c \<in> set ?t" "dg_ID c = i"
    "let p = nullString (dg_ParentID c) in if p = [] then group_table w' = ?t else unassigned p [i] ?t (group_table w')" by blast
  have ok: "tree_ok n (group_table w')" by (rule hierarchy.RemoveParentGroup_keeps [OF assms(2,1)])
  show ?thesis
  proof (cases "nullString (dg_ParentID c) = []")
    case True
    with c root_no_parent [OF assms(1) c(1) hierarchy.no_parent_None [OF assms(1) c(1) True]] ok show ?thesis by (auto simp: same_groups_def)
  next
    case False
    with c(3) obtain P where P: "dg_ID P = nullString (dg_ParentID c)" "group_table w' = unassign_rows P {i} ?t" by (auto simp: unassigned_def Let_def)
    with False have "dg_ParentID c = Some (dg_ID P)" by (cases "dg_ParentID c") (auto simp: nullString_def)
    from unassign_parent_rel [OF assms(1) c(1,2) this] P(2) c ok moved_same_groups(2) show ?thesis by auto
  qed
qed

definition short_group :: "string \<Rightarrow> string option \<Rightarrow> string \<Rightarrow> dbGroup" where
  "short_group i p path = (toDBGroup Group0)\<lparr>dg_ID := i, dg_ParentID := p, dg_DomainID := ''u1'', dg_Path := path\<rparr>"

definition short_groups :: groups_world where
  "short_groups = sample_groups\<lparr>gw_groups :=
     db_of [short_group ''p'' None ''p'', short_group ''c'' None ''c'', short_group ''d'' (Some ''c'') ''c.d''] [],
     gw_things := sample_things\<lparr>tw_store := snd (AddPolicies ref_client [group_parent_policy ''u1'' ''c'' ''d''] (snd (AddPolicies ref_client
       (map (\<lambda>i. (domain_policy ''u1'' GroupType i)\<lparr>p_Domain := ''u1''\<rparr>) [''p'', ''c'', ''d'']) sample_store)))\<rparr>\<rparr>"

lemma short_groups_tree: "tree_ok 1 (group_table short_groups)"
  by (simp add: tree_ok_def short_groups_def short_group_def group_table_def plain_def)

text \<open>C21: A change of parent of a group in a forest is all or nothing for the table of groups, whatever fails: when
  \<open>AddParentGroup\<close> returns, both groups are there, the group had no parent and is no ancestor of its new one (nor
  that one itself), and exactly the new edge from parent to child is added; when \<open>RemoveParentGroup\<close> returns, exactly the edge
  from the parent of the group is gone. The table is again a forest whose paths agree with the parents, and
  no other column of any group has changed. When they report an error, the table is as before.\<close>

theorem change_of_parent_is_atomic:
  assumes "tree_ok n (group_table w)" "AddParentGroup deployed_groups ses i p w = (r, w1)" "RemoveParentGroup deployed_groups ses j w = (s, w2)"
  shows "(case r of
      Inl e \<Rightarrow> group_table w1 = group_table w
    | Inr u \<Rightarrow> {i, p} \<subseteq> dg_ID ` set (group_table w) \<and> (\<forall>q. (q, i) \<notin> parent_rel (group_table w)) \<and>
        (i, p) \<notin> (parent_rel (group_table w))\<^sup>* \<and> parent_rel (group_table w1) = insert (p, i) (parent_rel (group_table w)) \<and>
        tree_ok n (group_table w1) \<and> same_groups (group_table w) (group_table w1)) \<and>
   (case s of
      Inl e \<Rightarrow> group_table w2 = group_table w
    | Inr u \<Rightarrow> j \<in> dg_ID ` set (group_table w) \<and> parent_rel (group_table w2) = {x \<in> parent_rel (group_table w). snd x \<noteq> j} \<and>
        tree_ok n (group_table w2) \<and> same_groups (group_table w) (group_table w2))"
proof (intro conjI)
  show "case r of
      Inl e \<Rightarrow> group_table w1 = group_table w
    | Inr u \<Rightarrow> {i, p} \<subseteq> dg_ID ` set (group_table w) \<and> (\<forall>q. (q, i) \<notin> parent_rel (group_table w)) \<and>
        (i, p) \<notin> (parent_rel (group_table w))\<^sup>* \<and> parent_rel (group_table w1) = insert (p, i) (parent_rel (group_table w)) \<and>
        tree_ok n (group_table w1) \<and> same_groups (group_table w) (group_table w1)"
  proof (cases r)
    case (Inl e)
    with effect_InlD [OF hierarchy.AddParentGroup_effect assms(2) [unfolded Inl]] show ?thesis by simp
  next
    case (Inr u)
    from parent_added [OF assms(1) assms(2) [unfolded Inr]] show ?thesis unfolding Inr sum.case .
  qed
  show "case s of
      Inl e \<Rightarrow> group_table w2 = group_table w
    | Inr u \<Rightarrow> j \<in> dg_ID ` set (group_table w) \<and> parent_rel (group_table w2) = {x \<in> parent_rel (group_table w). snd x \<noteq> j} \<and>
        tree_ok n (group_table w2) \<and> same_groups (group_table w) (group_table w2)"
  proof (cases s)
    case (Inl e)
    with effect_InlD [OF hierarchy.RemoveParentGroup_effect assms(3) [unfolded Inl]] show ?thesis by simp
  next
    case (Inr u)
    from parent_removed [OF assms(1) assms(3) [unfolded Inr]] show ?thesis unfolding Inr sum.case .
  qed
qed

definition joined_group :: "(gerror + unit) \<times> groups_world" where
  "joined_group = AddParentGroup deployed_groups owner_session ''c'' ''p'' short_groups"

definition parted_group :: "(gerror + unit) \<times> groups_world" where
  "parted_group = RemoveParentGroup deployed_groups owner_session ''d'' short_groups"

theorem change_of_parent_is_atomic_witness:
  "parent_rel (group_table (snd joined_group)) = {(''p'', ''c''), (''c'', ''d'')} \<and> parent_rel (group_table (snd parted_group)) = {}"
proof -
  have "fst joined_group = Inr ()" "fst parted_group = Inr ()" by code_simp+
  then have "joined_group = (Inr (), snd joined_group)" "parted_group = (Inr (), snd parted_group)" by (metis prod.collapse)+
  note change_of_parent_is_atomic [OF short_groups_tree this [unfolded joined_group_def parted_group_def], folded joined_group_def parted_group_def]
  moreover have "parent_rel (group_table short_groups) = {(''c'', ''d'')}"
    by (auto simp: parent_rel_columns short_groups_def short_group_def group_table_def)
  ultimately show ?thesis by auto
qed

section \<open>Stale paths\<close>

text \<open>
  The removal of all children leaves the paths of the children as they were, so that later
  operations judge by paths that name a parent that is none.
\<close>

lemma children_removed:
  assumes "RemoveAllChildrenGroups deployed_groups ses c w = (Inr u, w')"
  shows "group_table w' = map (\<lambda>r. if dg_ParentID r = Some c then r\<lparr>dg_ParentID := None\<rparr> else r) (group_table w)"
proof -
  from assms obtain x w1 where w1: "gs_DeletePolicyFilter deployed_groups (Policy0\<lparr>p_Domain := s_DomainID ses, p_SubjectType := GroupType, p_Subject := c,
         p_Relation := ParentGroupRelation, p_ObjectType := GroupType\<rparr>) w = (Inr x, w1)"
    and u: "on_groups (grr_UnassignAllChildrenGroups c) w1 = (Inr u, w')"
    unfolding RemoveAllChildrenGroups_def by (auto simp: deployed_groups_def groups_repo_def dest!: trying_InrD)
  have "group_table w1 = group_table w" using w1 by (auto simp: deployed_groups_def lifted_eq)
  moreover from on_groups_table [OF u] have "group_table w' = map (\<lambda>r. if dg_ParentID r = Some c then r\<lparr>dg_ParentID := None\<rparr> else r) (group_table w1)"
    by (auto simp: grr_UnassignAllChildrenGroups_def dest!: trying_InrD db_exec_ok update_groups_ok split: if_splits)
  ultimately show ?thesis by simp
qed

text \<open>C38: Removing all children of a group leaves stale paths: after a \<open>RemoveAllChildrenGroups\<close> that succeeds on a
  forest, each former child has no parent, but its path still names the group, so that PostgreSQL takes the
  former child for a descendant, and the paths no longer agree with the parents. From then on
  \<open>AddParentGroup\<close> refuses to put the group below its former child, as if that made a cycle.\<close>

theorem removed_children_keep_their_paths:
  assumes "tree_ok n (group_table w)" "RemoveAllChildrenGroups deployed_groups ses c w = (Inr u, w')"
    "d \<in> set (group_table w)" "dg_ParentID d = Some c"
  shows "(\<exists>d' \<in> set (group_table w'). \<exists>c' \<in> set (group_table w'). dg_ID d' = dg_ID d \<and> dg_ParentID d' = None \<and> dg_ID c' = c \<and>
      path_below (dg_Path d') (dg_Path c')) \<and>
    (c, dg_ID d) \<notin> (parent_rel (group_table w'))\<^sup>* \<and> \<not> tree_ok m (group_table w') \<and>
    isl (fst (AddParentGroup deployed_groups ses' c (dg_ID d) w'))"
proof -
  let ?t = "group_table w" and ?d = "d\<lparr>dg_ParentID := None\<rparr>"
  note t' = children_removed [OF assms(2)]
  from tree_child [OF assms(1,3,4)] obtain q where q: "q \<in> set ?t" "dg_ID q = c" "lp d = lp q @ [dg_ID d]" by blast
  let ?c = "if dg_ParentID q = Some c then q\<lparr>dg_ParentID := None\<rparr> else q"
  have cl: "c \<in> set (lp d)" using tree_last [OF assms(1) q(1)] q(2,3) by auto
  have d': "?d \<in> set (group_table w')" and c': "?c \<in> set (group_table w')" using assms(3,4) q(1) unfolding t' by force+
  have below: "path_below (dg_Path ?d) (dg_Path ?c)" using tree_below_iff [OF assms(1,3) q(1)] cl q(2) by simp
  have ne: "c \<noteq> dg_ID d" using tree_distinct [OF assms(1,3)] tree_last [OF assms(1) q(1)] q(2,3) by auto
  have uniq: "r = ?d" if "r \<in> set (group_table w')" "dg_ID r = dg_ID d" for r
    using that tree_unique [OF assms(1) _ assms(3)] assms(4) unfolding t' by (force split: if_splits)
  have "(x, dg_ID d) \<notin> parent_rel (group_table w')" for x using uniq by (force simp: parent_rel_def)
  then have anc: "(c, dg_ID d) \<notin> (parent_rel (group_table w'))\<^sup>*" using ne by (metis rtranclE)
  have stale: "\<not> tree_ok m (group_table w')"
  proof
    assume "tree_ok m (group_table w')"
    from tree_root [OF this d'] q(3) show False by simp
  qed
  have "isl r" if "AddParentGroup deployed_groups ses' c (dg_ID d) w' = (r, w2)" for r w2
  proof (rule ccontr)
    assume "\<not> isl r"
    with that obtain y where "AddParentGroup deployed_groups ses' c (dg_ID d) w' = (Inr y, w2)" by (cases r) auto
    from effect_InrD [OF hierarchy.AddParentGroup_effect this] obtain P where "P \<in> set (group_table w')" "dg_ID P = dg_ID d" "c \<notin> set (lp P)"
      by (auto simp: assigned_def)
    with uniq cl show False by force
  qed
  then have "isl (fst (AddParentGroup deployed_groups ses' c (dg_ID d) w'))" by (metis prod.collapse)
  moreover have "dg_ID ?c = c" "dg_ID ?d = dg_ID d" "dg_ParentID ?d = None" using q(2) by simp_all
  ultimately show ?thesis using below d' c' anc stale by blast
qed

definition childless_group :: "(gerror + unit) \<times> groups_world" where
  "childless_group = RemoveAllChildrenGroups deployed_groups owner_session ''c'' short_groups"

theorem removed_children_keep_their_paths_witness:
  "fst childless_group = Inr () \<and> parent_rel (group_table (snd childless_group)) = {} \<and> \<not> tree_ok 1 (group_table (snd childless_group)) \<and>
   isl (fst (AddParentGroup deployed_groups owner_session ''c'' ''d'' (snd childless_group)))"
proof -
  have e: "fst childless_group = Inr ()" by code_simp
  then have r: "RemoveAllChildrenGroups deployed_groups owner_session ''c'' short_groups = (Inr (), snd childless_group)"
    unfolding childless_group_def by (metis prod.collapse)
  have d: "short_group ''d'' (Some ''c'') ''c.d'' \<in> set (group_table short_groups)" "dg_ParentID (short_group ''d'' (Some ''c'') ''c.d'') = Some ''c''"
    "dg_ID (short_group ''d'' (Some ''c'') ''c.d'') = ''d''"
    by (simp_all add: short_groups_def group_table_def short_group_def)
  have "parent_rel (group_table (snd childless_group)) = {}" unfolding children_removed [OF r]
    by (auto simp: parent_rel_columns short_groups_def short_group_def group_table_def)
  with removed_children_keep_their_paths [OF short_groups_tree r d(1,2), of 1 owner_session] e d(3) show ?thesis by simp
qed

definition cycle_session :: "(groups_world, gerror, unit) io" where
  "cycle_session =
     pass (RemoveAllChildrenGroups deployed_groups owner_session ''c'') (\<lambda>_.
     pass (AddChildrenGroups deployed_groups owner_session ''p'' [''c'', ''d'']) (\<lambda>_.
     pass (RemoveParentGroup deployed_groups owner_session ''c'') (\<lambda>_.
     AddParentGroup deployed_groups owner_session ''p'' ''d'')))"

text \<open>The stale paths also let a cycle in: starting with a forest of three groups, four operations that all succeed
  make two of the groups the parents of each other.\<close>

lemma stale_paths_let_a_cycle_in:
  "tree_ok 1 (group_table short_groups) \<and>
   (\<exists>w. cycle_session short_groups = (Inr (), w) \<and>
     (''p'', ''d'') \<in> parent_rel (group_table w) \<and> (''d'', ''p'') \<in> parent_rel (group_table w))"
proof -
  have "(case cycle_session short_groups of (r, w) \<Rightarrow> (r, map (\<lambda>r. (dg_ID r, dg_ParentID r)) (group_table w))) =
        (Inr (), [(''p'', Some ''d''), (''c'', None), (''d'', Some ''p'')])" by code_simp
  then obtain w where "cycle_session short_groups = (Inr (), w)"
    "map (\<lambda>r. (dg_ID r, dg_ParentID r)) (group_table w) = [(''p'', Some ''d''), (''c'', None), (''d'', Some ''p'')]"
    by (auto split: prod.splits)
  with short_groups_tree show ?thesis unfolding parent_rel_columns by (intro conjI exI [of _ w]) simp_all
qed

end
