(* ===== verification/DomainsSvc.thy ===== *)
theory DomainsSvc
  imports Auth Transport
begin

text \<open>
  The domains service: \<open>domains/domains.go\<close>, \<open>invitations.go\<close> and \<open>state.go\<close>, the repository
  \<open>domains/postgres\<close> with the schema of \<open>init.go\<close>, the cache \<open>domains/cache\<close>, the service
  \<open>domains/service.go\<close> with the invitations of users to domains, the service other services
  call, \<open>domains/private/service.go\<close>, and its gRPC transport \<open>domains/api/grpc\<close>. The listings of
  domains and the query of a domain with its roles are left out.
\<close>

section \<open>Domains\<close>

text \<open>The numbers of the states of a domain differ from those of other entities after the first two.\<close>

definition FreezeStatus :: Status where "FreezeStatus = 2"
definition domDeletedStatus :: Status where "domDeletedStatus = 3"
definition domAllStatus :: Status where "domAllStatus = 4"

definition domStatus_String :: "Status \<Rightarrow> string" where
  "domStatus_String s =
     (if s = DisabledStatus then ''disabled'' else if s = EnabledStatus then ''enabled''
      else if s = domAllStatus then ''all'' else if s = FreezeStatus then ''freezed''
      else if s = domDeletedStatus then ''deleted'' else ''unknown'')"

definition domains_ToStatus :: "string \<Rightarrow> gerror + Status" where
  "domains_ToStatus s =
     (if s = [] \<or> s = ''enabled'' then Inr EnabledStatus else if s = ''disabled'' then Inr DisabledStatus
      else if s = ''freezed'' then Inr FreezeStatus else if s = ''deleted'' then Inr domDeletedStatus
      else if s = ''all'' then Inr domAllStatus else Inl svcErrInvalidStatus)"

text \<open>A request of changes: a field that is nil is left as it is.\<close>

record DomainReq =
  dq_Name :: "string option"
  dq_Metadata :: "Metadata option"
  dq_Tags :: "string list option"
  dq_Status :: "Status option"
  dq_UpdatedBy :: "string option"
  dq_UpdatedAt :: "int option"

definition DomainReq0 :: DomainReq where
  "DomainReq0 = \<lparr>dq_Name = None, dq_Metadata = None, dq_Tags = None, dq_Status = None, dq_UpdatedBy = None, dq_UpdatedAt = None\<rparr>"

text \<open>The fields that only the queries with roles fill in are left out.\<close>

record Domain =
  dm_ID :: string
  dm_Name :: string
  dm_Metadata :: Metadata
  dm_Tags :: "string list"
  dm_Route :: string
  dm_Status :: Status
  dm_CreatedBy :: string
  dm_CreatedAt :: int
  dm_UpdatedBy :: string
  dm_UpdatedAt :: int

definition Domain0 :: Domain where
  "Domain0 = \<lparr>dm_ID = [], dm_Name = [], dm_Metadata = None, dm_Tags = [], dm_Route = [], dm_Status = EnabledStatus,
     dm_CreatedBy = [], dm_CreatedAt = 0, dm_UpdatedBy = [], dm_UpdatedAt = 0\<rparr>"

record dbDomain =
  dd_ID :: string
  dd_Name :: string
  dd_Metadata :: Metadata
  dd_Tags :: "string list"
  dd_Route :: "string option"
  dd_Status :: Status
  dd_CreatedBy :: string
  dd_CreatedAt :: int
  dd_UpdatedBy :: "string option"
  dd_UpdatedAt :: "int option"

definition toDBDomain :: "Domain \<Rightarrow> dbDomain" where
  "toDBDomain d = \<lparr>dd_ID = dm_ID d, dd_Name = dm_Name d, dd_Metadata = metadata_column (dm_Metadata d), dd_Tags = dm_Tags d,
     dd_Route = toNullString (dm_Route d), dd_Status = dm_Status d, dd_CreatedBy = dm_CreatedBy d, dd_CreatedAt = dm_CreatedAt d,
     dd_UpdatedBy = toNullString (dm_UpdatedBy d), dd_UpdatedAt = null_at (dm_UpdatedAt d)\<rparr>"

definition toDomain :: "dbDomain \<Rightarrow> Domain" where
  "toDomain d = \<lparr>dm_ID = dd_ID d, dm_Name = dd_Name d, dm_Metadata = dd_Metadata d, dm_Tags = dd_Tags d,
     dm_Route = nullString (dd_Route d), dm_Status = dd_Status d, dm_CreatedBy = dd_CreatedBy d, dm_CreatedAt = dd_CreatedAt d,
     dm_UpdatedBy = nullString (dd_UpdatedBy d), dm_UpdatedAt = at_null (dd_UpdatedAt d)\<rparr>"

section \<open>Invitations\<close>

type_synonym State = "8 word"

definition AllState :: State where "AllState = 0"
definition Pending :: State where "Pending = 1"
definition Accepted :: State where "Accepted = 2"
definition Rejected :: State where "Rejected = 3"

definition State_String :: "State \<Rightarrow> string" where
  "State_String s =
     (if s = AllState then ''all'' else if s = Pending then ''pending'' else if s = Accepted then ''accepted''
      else if s = Rejected then ''rejected'' else ''unknown'')"

definition ErrInvitationState :: gerror where "ErrInvitationState = NewRequestError ''invalid invitation state''"

definition ToState :: "string \<Rightarrow> gerror + State" where
  "ToState status =
     (if status = ''all'' then Inr AllState else if status = ''pending'' then Inr Pending
      else if status = ''accepted'' then Inr Accepted else if status = ''rejected'' then Inr Rejected
      else Inl ErrInvitationState)"

record Invitation =
  iv_InvitedBy :: string
  iv_InviteeUserID :: string
  iv_DomainID :: string
  iv_DomainName :: string
  iv_RoleID :: string
  iv_RoleName :: string
  iv_CreatedAt :: int
  iv_UpdatedAt :: int
  iv_ConfirmedAt :: int
  iv_RejectedAt :: int
  iv_Resend :: bool

record dbInvitation =
  di_InvitedBy :: string
  di_InviteeUserID :: string
  di_DomainID :: string
  di_DomainName :: "string option"
  di_RoleID :: string
  di_RoleName :: "string option"
  di_CreatedAt :: int
  di_UpdatedAt :: "int option"
  di_ConfirmedAt :: "int option"
  di_RejectedAt :: "int option"

definition toDBInvitation :: "Invitation \<Rightarrow> dbInvitation" where
  "toDBInvitation invt = \<lparr>di_InvitedBy = iv_InvitedBy invt, di_InviteeUserID = iv_InviteeUserID invt, di_DomainID = iv_DomainID invt,
     di_DomainName = None, di_RoleID = iv_RoleID invt, di_RoleName = None, di_CreatedAt = iv_CreatedAt invt,
     di_UpdatedAt = null_at (iv_UpdatedAt invt), di_ConfirmedAt = null_at (iv_ConfirmedAt invt),
     di_RejectedAt = null_at (iv_RejectedAt invt)\<rparr>"

definition toInvitation :: "dbInvitation \<Rightarrow> Invitation" where
  "toInvitation dbinv = \<lparr>iv_InvitedBy = di_InvitedBy dbinv, iv_InviteeUserID = di_InviteeUserID dbinv, iv_DomainID = di_DomainID dbinv,
     iv_DomainName = nullString (di_DomainName dbinv), iv_RoleID = di_RoleID dbinv, iv_RoleName = nullString (di_RoleName dbinv),
     iv_CreatedAt = di_CreatedAt dbinv, iv_UpdatedAt = at_null (di_UpdatedAt dbinv), iv_ConfirmedAt = at_null (di_ConfirmedAt dbinv),
     iv_RejectedAt = at_null (di_RejectedAt dbinv), iv_Resend = False\<rparr>"

record InvitationPageMeta =
  ipm_Offset :: nat
  ipm_Limit :: nat
  ipm_OnlyTotal :: bool
  ipm_InvitedBy :: string
  ipm_InviteeUserID :: string
  ipm_DomainID :: string
  ipm_RoleID :: string
  ipm_InvitedByOrUserID :: string
  ipm_State :: State

record InvitationPage =
  ip_Total :: nat
  ip_Offset :: nat
  ip_Limit :: nat
  ip_Invitations :: "Invitation list"

section \<open>The database\<close>

record domain_tables =
  dt_domains :: "dbDomain list"
  dt_invitations :: "dbInvitation list"

type_synonym domains_db = "domain_tables database"

definition domains_GetError :: "string \<Rightarrow> gerror option" where
  "domains_GetError cname =
     (if cname = ''domains_route_key'' then Some errRouteNotAvailable
      else if cname = ''domains_pkey'' then Some (NewRequestError ''domain already exists'') else None)"

abbreviation domains_eh :: "gerror \<Rightarrow> dberror \<Rightarrow> gerror" where
  "domains_eh \<equiv> eh_HandleError domains_GetError"

definition domain_fits :: "dbDomain \<Rightarrow> bool" where
  "domain_fits r \<longleftrightarrow> length (dd_ID r) \<le> 36 \<and> length (dd_Name r) \<le> 254 \<and> fits_opt 254 (dd_Route r) \<and>
     fits_opt 254 (dd_UpdatedBy r) \<and> length (dd_CreatedBy r) \<le> 254"

definition pg_not_null :: "string \<Rightarrow> dberror" where
  "pg_not_null column = PgError ''23502'' (''null value in column '' @ column @ '' violates not-null constraint'') []"

definition pg_syntax :: dberror where "pg_syntax = PgError ''42601'' ''syntax error at or near WHERE'' []"

definition insert_domain :: "dbDomain \<Rightarrow> (domain_tables, dbDomain) stmt" where
  "insert_domain r t =
     (let all_rows = dt_domains t @ [r] in
      if \<not> domain_fits r then Inl pg_truncated
      else if dd_Route r = None then Inl (pg_not_null ''route'')
      else if \<not> distinct (map dd_ID all_rows) then Inl (pg_unique ''domains_pkey'')
      else if \<not> distinct (map dd_Route all_rows) then Inl (pg_unique ''domains_route_key'')
      else Inr (t\<lparr>dt_domains := all_rows\<rparr>, r))"

definition update_domains :: "(dbDomain \<Rightarrow> bool) \<Rightarrow> (dbDomain \<Rightarrow> dbDomain) \<Rightarrow> (domain_tables, dbDomain list) stmt" where
  "update_domains p f t =
     (let changed = map f (filter p (dt_domains t)) in
      if \<not> list_all domain_fits changed then Inl pg_truncated
      else Inr (t\<lparr>dt_domains := map (\<lambda>r. if p r then f r else r) (dt_domains t)\<rparr>, changed))"

text \<open>The invitations of a deleted domain go with it.\<close>

definition delete_domain :: "string \<Rightarrow> (domain_tables, nat) stmt" where
  "delete_domain i t =
     Inr (t\<lparr>dt_domains := filter (\<lambda>r. dd_ID r \<noteq> i) (dt_domains t),
            dt_invitations := filter (\<lambda>r. di_DomainID r \<noteq> i) (dt_invitations t)\<rparr>,
          length (filter (\<lambda>r. dd_ID r = i) (dt_domains t)))"

text \<open>One invitation per user and domain.\<close>

definition insert_invitation :: "dbInvitation \<Rightarrow> (domain_tables, unit) stmt" where
  "insert_invitation invt t =
     (let row = invt\<lparr>di_UpdatedAt := None, di_ConfirmedAt := None, di_RejectedAt := None\<rparr>; all_rows = dt_invitations t @ [row] in
      if \<not> (length (di_InvitedBy row) \<le> 36 \<and> length (di_InviteeUserID row) \<le> 36 \<and> length (di_DomainID row) \<le> 36 \<and>
          length (di_RoleID row) \<le> 36) then Inl pg_truncated
      else if \<not> distinct (map (\<lambda>r. (di_InviteeUserID r, di_DomainID r)) all_rows) then Inl (pg_unique ''invitations_pkey'')
      else if di_DomainID row \<notin> set (map dd_ID (dt_domains t)) then Inl pg_foreign
      else Inr (t\<lparr>dt_invitations := all_rows\<rparr>, ()))"

definition update_invitations ::
  "(dbInvitation \<Rightarrow> bool) \<Rightarrow> (dbInvitation \<Rightarrow> dbInvitation) \<Rightarrow> (domain_tables, nat) stmt" where
  "update_invitations p f t =
     Inr (t\<lparr>dt_invitations := map (\<lambda>r. if p r then f r else r) (dt_invitations t)\<rparr>, length (filter p (dt_invitations t)))"

definition delete_invitations :: "(dbInvitation \<Rightarrow> bool) \<Rightarrow> (domain_tables, nat) stmt" where
  "delete_invitations p t =
     Inr (t\<lparr>dt_invitations := filter (\<lambda>r. \<not> p r) (dt_invitations t)\<rparr>, length (filter p (dt_invitations t)))"

section \<open>The repository\<close>

definition first_domain :: "(dberror \<Rightarrow> gerror) \<Rightarrow> dbDomain list \<Rightarrow> (domains_db, gerror, Domain) io" where
  "first_domain g rs = (case rs of
      [] \<Rightarrow> fail repoErrNotFound
    | r # _ \<Rightarrow> trying (driver (ret r)) g (\<lambda>dbd. ret (toDomain dbd)))"

definition dmr_SaveDomain :: "Domain \<Rightarrow> (domains_db, gerror, Domain) io" where
  "dmr_SaveDomain d =
     trying (db_exec (insert_domain (toDBDomain d))) (domains_eh repoErrCreateEntity) (\<lambda>r.
     first_domain (domains_eh repoErrFailedOpDB) [r])"

definition dmr_RetrieveDomainByID :: "string \<Rightarrow> (domains_db, gerror, Domain) io" where
  "dmr_RetrieveDomainByID i =
     trying (db_query (\<lambda>t. filter (\<lambda>r. dd_ID r = i) (dt_domains t))) (domains_eh repoErrViewEntity)
       (first_domain (domains_eh repoErrViewEntity))"

definition dmr_RetrieveDomainByRoute :: "string \<Rightarrow> (domains_db, gerror, Domain) io" where
  "dmr_RetrieveDomainByRoute route =
     trying (db_query (\<lambda>t. filter (\<lambda>r. dd_Route r = Some route) (dt_domains t))) (domains_eh repoErrViewEntity)
       (first_domain (domains_eh repoErrViewEntity))"

text \<open>
  The request names the columns to set. With a name for \<open>updated_by\<close> the code sets the column,
  but copies the time a second time instead of the name, so that the column becomes null.
\<close>

definition set_columns :: "DomainReq \<Rightarrow> dbDomain \<Rightarrow> dbDomain" where
  "set_columns dr r =
     (let r1 = (case dq_Name dr of Some n \<Rightarrow> if n \<noteq> [] then r\<lparr>dd_Name := n\<rparr> else r | None \<Rightarrow> r);
          r2 = (case dq_Metadata dr of Some m \<Rightarrow> r1\<lparr>dd_Metadata := metadata_column m\<rparr> | None \<Rightarrow> r1);
          r3 = (case dq_Tags dr of Some ts \<Rightarrow> r2\<lparr>dd_Tags := ts\<rparr> | None \<Rightarrow> r2);
          r4 = (case dq_Status dr of Some s \<Rightarrow> r3\<lparr>dd_Status := s\<rparr> | None \<Rightarrow> r3);
          r5 = (case dq_UpdatedAt dr of Some at \<Rightarrow> r4\<lparr>dd_UpdatedAt := null_at at\<rparr> | None \<Rightarrow> r4)
      in (case dq_UpdatedBy dr of Some _ \<Rightarrow> r5\<lparr>dd_UpdatedBy := None\<rparr> | None \<Rightarrow> r5))"

definition sets_nothing :: "DomainReq \<Rightarrow> bool" where
  "sets_nothing dr \<longleftrightarrow> (dq_Name dr = None \<or> dq_Name dr = Some []) \<and> dq_Metadata dr = None \<and> dq_Tags dr = None \<and>
     dq_Status dr = None \<and> dq_UpdatedAt dr = None \<and> dq_UpdatedBy dr = None"

definition nil_dereference :: gerror where
  "nil_dereference = Foreign ''runtime error: invalid memory address or nil pointer dereference''"

definition dmr_UpdateDomain :: "string \<Rightarrow> DomainReq \<Rightarrow> (domains_db, gerror, Domain) io" where
  "dmr_UpdateDomain i dr =
     (if dq_UpdatedBy dr \<noteq> None \<and> dq_UpdatedAt dr = None then fail nil_dereference
      else
        trying (db_exec (if sets_nothing dr then (\<lambda>t. Inl pg_syntax) else update_domains (\<lambda>r. dd_ID r = i) (set_columns dr)))
          (domains_eh repoErrUpdateEntity) (first_domain (domains_eh repoErrFailedOpDB)))"

definition dmr_DeleteDomain :: "string \<Rightarrow> (domains_db, gerror, unit) io" where
  "dmr_DeleteDomain i =
     trying (db_exec (delete_domain i)) (domains_eh repoErrRemoveEntity) (\<lambda>rows.
     if rows = 0 then fail repoErrNotFound else ret ())"

definition dmr_SaveInvitation :: "Invitation \<Rightarrow> (domains_db, gerror, unit) io" where
  "dmr_SaveInvitation invitation =
     trying (db_exec (insert_invitation (toDBInvitation invitation))) (HandleError repoErrCreateEntity) ret"

definition invitation_of :: "string \<Rightarrow> string \<Rightarrow> dbInvitation \<Rightarrow> bool" where
  "invitation_of inviteeUserID domainID r \<longleftrightarrow> di_InviteeUserID r = inviteeUserID \<and> di_DomainID r = domainID"

definition dmr_RetrieveInvitation :: "string \<Rightarrow> string \<Rightarrow> (domains_db, gerror, Invitation) io" where
  "dmr_RetrieveInvitation inviteeUserID domainID =
     trying (db_query (\<lambda>t. filter (invitation_of inviteeUserID domainID) (dt_invitations t))) (HandleError repoErrViewEntity) (\<lambda>rows.
     case rows of
       [] \<Rightarrow> fail repoErrNotFound
     | r # _ \<Rightarrow> trying (driver (ret r)) (HandleError repoErrViewEntity) (\<lambda>dbinv. ret (toInvitation dbinv)))"

definition touch_invitation ::
  "Invitation \<Rightarrow> (dbInvitation \<Rightarrow> dbInvitation \<Rightarrow> dbInvitation) \<Rightarrow> (domains_db, gerror, unit) io" where
  "touch_invitation invitation f =
     (let dbinv = toDBInvitation invitation in
      trying (db_exec (update_invitations (invitation_of (di_InviteeUserID dbinv) (di_DomainID dbinv)) (f dbinv)))
        (HandleError repoErrUpdateEntity) (\<lambda>rows. if rows = 0 then fail repoErrNotFound else ret ()))"

definition dmr_UpdateConfirmation :: "Invitation \<Rightarrow> (domains_db, gerror, unit) io" where
  "dmr_UpdateConfirmation invitation =
     touch_invitation invitation (\<lambda>dbinv r. r\<lparr>di_ConfirmedAt := di_ConfirmedAt dbinv, di_UpdatedAt := di_UpdatedAt dbinv\<rparr>)"

definition dmr_UpdateRejection :: "Invitation \<Rightarrow> (domains_db, gerror, unit) io" where
  "dmr_UpdateRejection invitation =
     touch_invitation invitation (\<lambda>dbinv r. r\<lparr>di_RejectedAt := di_RejectedAt dbinv, di_UpdatedAt := di_UpdatedAt dbinv\<rparr>)"

definition dmr_DeleteUsersInvitations :: "string \<Rightarrow> string list \<Rightarrow> (domains_db, gerror, unit) io" where
  "dmr_DeleteUsersInvitations domain inviteeUserIDs =
     (if length inviteeUserIDs = 0 then fail repoErrNotFound
      else trying (db_exec (delete_invitations (\<lambda>r. di_DomainID r = domain \<and> di_InviteeUserID r \<in> set inviteeUserIDs)))
        (HandleError repoErrRemoveEntity) (\<lambda>rows. if rows = 0 then fail repoErrNotFound else ret ()))"

definition pageQuery :: "InvitationPageMeta \<Rightarrow> dbInvitation \<Rightarrow> bool" where
  "pageQuery pm i \<longleftrightarrow>
     (ipm_DomainID pm \<noteq> [] \<longrightarrow> di_DomainID i = ipm_DomainID pm) \<and>
     (ipm_InviteeUserID pm \<noteq> [] \<longrightarrow> di_InviteeUserID i = ipm_InviteeUserID pm) \<and>
     (ipm_InvitedBy pm \<noteq> [] \<longrightarrow> di_InvitedBy i = ipm_InvitedBy pm) \<and>
     (ipm_RoleID pm \<noteq> [] \<longrightarrow> di_RoleID i = ipm_RoleID pm) \<and>
     (ipm_InvitedByOrUserID pm \<noteq> [] \<longrightarrow>
        di_InvitedBy i = ipm_InvitedByOrUserID pm \<or> di_InviteeUserID i = ipm_InvitedByOrUserID pm) \<and>
     (ipm_State pm = Accepted \<longrightarrow> di_ConfirmedAt i \<noteq> None) \<and>
     (ipm_State pm = Pending \<longrightarrow> di_ConfirmedAt i = None \<and> di_RejectedAt i = None) \<and>
     (ipm_State pm = Rejected \<longrightarrow> di_RejectedAt i \<noteq> None)"

text \<open>The names come from the tables of domains and roles; there is no order.\<close>

definition with_names :: "(string \<Rightarrow> string option) \<Rightarrow> domain_tables \<Rightarrow> dbInvitation \<Rightarrow> dbInvitation" where
  "with_names roleName t i = i\<lparr>di_DomainName := map_option dd_Name (List.find (\<lambda>d. dd_ID d = di_DomainID i) (dt_domains t)),
     di_RoleName := roleName (di_RoleID i)\<rparr>"

definition dmr_RetrieveAllInvitations ::
  "(string \<Rightarrow> string option) \<Rightarrow> InvitationPageMeta \<Rightarrow> (domains_db, gerror, InvitationPage) io" where
  "dmr_RetrieveAllInvitations roleName pm =
     pass (if ipm_OnlyTotal pm then ret []
           else
             trying (db_query (\<lambda>t. map (with_names roleName t) (take (ipm_Limit pm) (drop (ipm_Offset pm) (filter (pageQuery pm) (dt_invitations t))))))
               (HandleError repoErrViewEntity) (\<lambda>rows. trying (scan_rows rows) (HandleError repoErrViewEntity) ret)) (\<lambda>items.
     trying (Total (\<lambda>t. length (filter (pageQuery pm) (dt_invitations t)))) (HandleError repoErrViewEntity) (\<lambda>total.
     ret \<lparr>ip_Total = total, ip_Offset = ipm_Offset pm, ip_Limit = ipm_Limit pm, ip_Invitations = map toInvitation items\<rparr>))"

section \<open>The cache\<close>

text \<open>
  Status by domain and domain by route, in one Redis database and without a prefix to tell
  the two apart.
\<close>

record 'c domainsCache =
  dmc_client :: "'c redis"
  dmc_duration :: int

definition ErrEmptyRoute :: gerror where "ErrEmptyRoute = New ''route is empty''"

definition dmc_SaveStatus :: "'c domainsCache \<Rightarrow> string \<Rightarrow> Status \<Rightarrow> ('c, gerror, unit) io" where
  "dmc_SaveStatus dc domainID status =
     (if domainID = [] then fail (Wrap repoErrCreateEntity ErrEmptyDomainID)
      else if domStatus_String status = ''unknown'' then fail (Wrap repoErrCreateEntity svcErrInvalidStatus)
      else trying (r_Set (dmc_client dc) domainID (domStatus_String status) (dmc_duration dc)) (Wrap repoErrCreateEntity) ret)"

definition dmc_SaveID :: "'c domainsCache \<Rightarrow> string \<Rightarrow> string \<Rightarrow> ('c, gerror, unit) io" where
  "dmc_SaveID dc route domainID =
     (if route = [] then fail (Wrap repoErrCreateEntity ErrEmptyRoute)
      else if domainID = [] then fail (Wrap repoErrCreateEntity ErrEmptyDomainID)
      else trying (r_Set (dmc_client dc) route domainID (dmc_duration dc)) (Wrap repoErrCreateEntity) ret)"

definition dmc_Status :: "'c domainsCache \<Rightarrow> string \<Rightarrow> ('c, gerror, Status) io" where
  "dmc_Status dc domainID =
     trying (r_Get (dmc_client dc) domainID) (Wrap repoErrNotFound \<circ> redis_go) (\<lambda>st.
     case domains_ToStatus st of Inl err \<Rightarrow> fail (Wrap repoErrNotFound err) | Inr status \<Rightarrow> ret status)"

definition dmc_ID :: "'c domainsCache \<Rightarrow> string \<Rightarrow> ('c, gerror, string) io" where
  "dmc_ID dc route =
     (if route = [] then fail (Wrap repoErrNotFound ErrEmptyRoute)
      else trying (r_Get (dmc_client dc) route) (Wrap repoErrNotFound \<circ> redis_go) ret)"

definition dmc_RemoveStatus :: "'c domainsCache \<Rightarrow> string \<Rightarrow> ('c, gerror, unit) io" where
  "dmc_RemoveStatus dc domainID =
     (if domainID = [] then fail (Wrap repoErrRemoveEntity ErrEmptyDomainID)
      else trying (r_Del (dmc_client dc) domainID) (Wrap repoErrRemoveEntity) ret)"

definition dmc_RemoveID :: "'c domainsCache \<Rightarrow> string \<Rightarrow> ('c, gerror, unit) io" where
  "dmc_RemoveID dc route =
     (if route = [] then fail (Wrap repoErrRemoveEntity ErrEmptyRoute)
      else trying (r_Del (dmc_client dc) route) (Wrap repoErrRemoveEntity) ret)"

section \<open>The service\<close>

record 'w DomainsRepository =
  dr_SaveDomain :: "Domain \<Rightarrow> ('w, gerror, Domain) io"
  dr_RetrieveDomainByID :: "string \<Rightarrow> ('w, gerror, Domain) io"
  dr_RetrieveDomainByRoute :: "string \<Rightarrow> ('w, gerror, Domain) io"
  dr_UpdateDomain :: "string \<Rightarrow> DomainReq \<Rightarrow> ('w, gerror, Domain) io"
  dr_DeleteDomain :: "string \<Rightarrow> ('w, gerror, unit) io"
  dr_SaveInvitation :: "Invitation \<Rightarrow> ('w, gerror, unit) io"
  dr_RetrieveInvitation :: "string \<Rightarrow> string \<Rightarrow> ('w, gerror, Invitation) io"
  dr_RetrieveAllInvitations :: "InvitationPageMeta \<Rightarrow> ('w, gerror, InvitationPage) io"
  dr_UpdateConfirmation :: "Invitation \<Rightarrow> ('w, gerror, unit) io"
  dr_UpdateRejection :: "Invitation \<Rightarrow> ('w, gerror, unit) io"
  dr_DeleteUsersInvitations :: "string \<Rightarrow> string list \<Rightarrow> ('w, gerror, unit) io"

text \<open>The repository of roles, which the repository of domains embeds, is the one of the role service.\<close>

record 'w domains_service =
  ds_repo :: "'w DomainsRepository"
  ds_cache_SaveStatus :: "string \<Rightarrow> Status \<Rightarrow> ('w, gerror, unit) io"
  ds_cache_SaveID :: "string \<Rightarrow> string \<Rightarrow> ('w, gerror, unit) io"
  ds_cache_Status :: "string \<Rightarrow> ('w, gerror, Status) io"
  ds_cache_ID :: "string \<Rightarrow> ('w, gerror, string) io"
  ds_cache_RemoveStatus :: "string \<Rightarrow> ('w, gerror, unit) io"
  ds_idProvider :: "('w, gerror, string) io"
  ds_now :: "'w \<Rightarrow> int \<times> 'w"
  ds_roles :: "'w ProvisionManageService"

definition errCreateDomainPolicy :: gerror where "errCreateDomainPolicy = New ''failed to create domain policy''"
definition svcErrInvalidRole :: gerror where "svcErrInvalidRole = NewRequestError ''invalid client role''"
definition svcErrInvitationAlreadyRejected :: gerror where
  "svcErrInvitationAlreadyRejected = NewRequestError ''invitation already rejected''"
definition svcErrInvitationAlreadyAccepted :: gerror where
  "svcErrInvitationAlreadyAccepted = NewRequestError ''invitation already accepted''"

definition domain_platform_policy :: "string \<Rightarrow> Policy" where
  "domain_platform_policy domainID = Policy0\<lparr>p_Subject := MagistralaObject, p_SubjectType := PlatformType, p_Relation := ''organization'',
     p_Object := domainID, p_ObjectType := DomainType\<rparr>"

definition CreateDomain :: "'w domains_service \<Rightarrow> Session \<Rightarrow> Domain \<Rightarrow> ('w, gerror, Domain \<times> RoleProvision list) io" where
  "CreateDomain svc session d0 =
     pass (if dm_ID d0 = [] then trying (ds_idProvider svc) (Wrap svcErrCreateEntity) ret else ret (dm_ID d0)) (\<lambda>domainID.
     if dm_Status d0 \<noteq> DisabledStatus \<and> dm_Status d0 \<noteq> EnabledStatus then fail svcErrInvalidStatus
     else observe (ds_now svc) (\<lambda>now.
       trying (dr_SaveDomain (ds_repo svc) (d0\<lparr>dm_ID := domainID, dm_CreatedBy := s_UserID session, dm_CreatedAt := now\<rparr>))
         (\<lambda>err. if Contains err errRouteNotAvailable then errRouteNotAvailable else Wrap svcErrCreateEntity err) (\<lambda>dom.
       deferring (dr_DeleteDomain (ds_repo svc) domainID) (\<lambda>retErr errRollBack. Wrap retErr (Wrap errRollbackRepo errRollBack))
         (trying (AddNewEntitiesRoles (ds_roles svc) domainID (s_UserID session) [domainID] [domain_platform_policy domainID]
              [(BuiltInRoleAdmin, [s_UserID session])])
            (Wrap errCreateDomainPolicy) (\<lambda>rps. ret (dom, rps))))))"

definition RetrieveDomain ::
  "'w domains_service \<Rightarrow> (string \<Rightarrow> string \<Rightarrow> ('w, gerror, Domain) io) \<Rightarrow> Session \<Rightarrow> string \<Rightarrow> bool \<Rightarrow> ('w, gerror, Domain) io" where
  "RetrieveDomain svc retrieveByIDWithRoles session i withRoles =
     trying (if s_SuperAdmin session then dr_RetrieveDomainByID (ds_repo svc) i
             else if withRoles then retrieveByIDWithRoles i (s_UserID session) else dr_RetrieveDomainByID (ds_repo svc) i)
       (Wrap svcErrViewEntity) ret"

definition UpdateDomain :: "'w domains_service \<Rightarrow> Session \<Rightarrow> string \<Rightarrow> DomainReq \<Rightarrow> ('w, gerror, Domain) io" where
  "UpdateDomain svc session i d =
     observe (ds_now svc) (\<lambda>updatedAt.
     trying (dr_UpdateDomain (ds_repo svc) i (d\<lparr>dq_UpdatedAt := Some updatedAt, dq_UpdatedBy := Some (s_UserID session)\<rparr>))
       (Wrap svcErrUpdateEntity) ret)"

definition change_domain_status :: "'w domains_service \<Rightarrow> Status \<Rightarrow> Session \<Rightarrow> string \<Rightarrow> ('w, gerror, Domain) io" where
  "change_domain_status svc status session i =
     observe (ds_now svc) (\<lambda>updatedAt.
     trying (dr_UpdateDomain (ds_repo svc) i
         (DomainReq0\<lparr>dq_Status := Some status, dq_UpdatedBy := Some (s_UserID session), dq_UpdatedAt := Some updatedAt\<rparr>))
       (Wrap svcErrUpdateEntity) (\<lambda>dom.
     trying (ds_cache_RemoveStatus svc i) (Wrap svcErrRemoveEntity) (\<lambda>_. ret dom)))"

definition EnableDomain :: "'w domains_service \<Rightarrow> Session \<Rightarrow> string \<Rightarrow> ('w, gerror, Domain) io" where
  "EnableDomain svc = change_domain_status svc EnabledStatus"

definition DisableDomain :: "'w domains_service \<Rightarrow> Session \<Rightarrow> string \<Rightarrow> ('w, gerror, Domain) io" where
  "DisableDomain svc = change_domain_status svc DisabledStatus"

definition FreezeDomain :: "'w domains_service \<Rightarrow> Session \<Rightarrow> string \<Rightarrow> ('w, gerror, Domain) io" where
  "FreezeDomain svc = change_domain_status svc FreezeStatus"

subsection \<open>Invitations\<close>

definition resendInvitation :: "'w domains_service \<Rightarrow> Invitation \<Rightarrow> ('w, gerror, unit) io" where
  "resendInvitation svc invitation =
     trying (dr_RetrieveInvitation (ds_repo svc) (iv_InviteeUserID invitation) (iv_DomainID invitation)) (Wrap svcErrViewEntity) (\<lambda>invt.
     if iv_ConfirmedAt invt \<noteq> 0 then fail svcErrInvitationAlreadyAccepted
     else if iv_RejectedAt invt \<noteq> 0 then
       observe (ds_now svc) (\<lambda>now.
       trying (dr_UpdateRejection (ds_repo svc) (invitation\<lparr>iv_RejectedAt := 0, iv_UpdatedAt := now\<rparr>)) (Wrap svcErrUpdateEntity) ret)
     else ret ())"

definition SendInvitation :: "'w domains_service \<Rightarrow> Session \<Rightarrow> Invitation \<Rightarrow> ('w, gerror, Invitation) io" where
  "SendInvitation svc session invitation =
     trying (RetrieveRole (pm_repo (ds_roles svc)) (iv_RoleID invitation)) (Wrap svcErrInvalidRole) (\<lambda>role.
     trying (dr_RetrieveDomainByID (ds_repo svc) (iv_DomainID invitation)) (Wrap svcErrViewEntity) (\<lambda>domain.
     observe (ds_now svc) (\<lambda>now.
     let invitation' = invitation\<lparr>iv_RoleName := ro_Name role, iv_DomainName := dm_Name domain, iv_InvitedBy := s_UserID session,
           iv_CreatedAt := now\<rparr> in
     if iv_Resend invitation' then pass (resendInvitation svc invitation') (\<lambda>_. ret invitation')
     else trying (dr_SaveInvitation (ds_repo svc) invitation') (Wrap svcErrCreateEntity) (\<lambda>_. ret invitation'))))"

definition populateDetails :: "'w domains_service \<Rightarrow> Invitation \<Rightarrow> string \<Rightarrow> ('w, gerror, Invitation) io" where
  "populateDetails svc invt domainID =
     pass (if iv_DomainName invt = [] then
             trying (dr_RetrieveDomainByID (ds_repo svc) domainID) (Wrap svcErrViewEntity) (\<lambda>domain.
             ret (invt\<lparr>iv_DomainName := dm_Name domain\<rparr>))
           else ret invt) (\<lambda>invt'.
     if iv_RoleName invt' = [] then
       trying (RetrieveRole (pm_repo (ds_roles svc)) (iv_RoleID invt')) (Wrap svcErrViewEntity) (\<lambda>role.
       ret (invt'\<lparr>iv_RoleName := ro_Name role\<rparr>))
     else ret invt')"

text \<open>The beginning of the two answers to an invitation.\<close>

definition open_invitation :: "'w domains_service \<Rightarrow> Session \<Rightarrow> string \<Rightarrow> ('w, gerror, Invitation) io" where
  "open_invitation svc session domainID =
     trying (dr_RetrieveInvitation (ds_repo svc) (s_UserID session) domainID) (Wrap svcErrViewEntity) (\<lambda>invt.
     if iv_InviteeUserID invt \<noteq> s_UserID session then fail svcErrAuthorization
     else if iv_ConfirmedAt invt \<noteq> 0 then fail svcErrInvitationAlreadyAccepted
     else if iv_RejectedAt invt \<noteq> 0 then fail svcErrInvitationAlreadyRejected
     else populateDetails svc invt domainID)"

definition AcceptInvitation :: "'w domains_service \<Rightarrow> Session \<Rightarrow> string \<Rightarrow> ('w, gerror, Invitation) io" where
  "AcceptInvitation svc session domainID =
     pass (open_invitation svc session domainID) (\<lambda>invt.
     trying (svc_RoleAddMembers (ds_roles svc) (session\<lparr>s_DomainID := domainID\<rparr>) domainID (iv_RoleID invt) [s_UserID session])
       (Wrap svcErrUpdateEntity) (\<lambda>_.
     observe (ds_now svc) (\<lambda>now.
     let invt' = invt\<lparr>iv_ConfirmedAt := now, iv_UpdatedAt := now\<rparr> in
     trying (dr_UpdateConfirmation (ds_repo svc) invt') (Wrap svcErrUpdateEntity) (\<lambda>_. ret invt'))))"

definition RejectInvitation :: "'w domains_service \<Rightarrow> Session \<Rightarrow> string \<Rightarrow> ('w, gerror, Invitation) io" where
  "RejectInvitation svc session domainID =
     pass (open_invitation svc session domainID) (\<lambda>invt.
     observe (ds_now svc) (\<lambda>now.
     let invt' = invt\<lparr>iv_RejectedAt := now, iv_UpdatedAt := now\<rparr> in
     trying (dr_UpdateRejection (ds_repo svc) invt') (Wrap svcErrUpdateEntity) (\<lambda>_. ret invt')))"

definition DeleteInvitation :: "'w domains_service \<Rightarrow> Session \<Rightarrow> string \<Rightarrow> string \<Rightarrow> ('w, gerror, unit) io" where
  "DeleteInvitation svc session inviteeUserID domainID =
     (if s_UserID session = inviteeUserID then
        trying (dr_DeleteUsersInvitations (ds_repo svc) domainID [inviteeUserID]) (Wrap svcErrRemoveEntity) ret
      else
        trying (dr_RetrieveInvitation (ds_repo svc) inviteeUserID domainID) (Wrap svcErrRemoveEntity) (\<lambda>invt.
        if iv_ConfirmedAt invt \<noteq> 0 then fail (Wrap svcErrRemoveEntity svcErrInvitationAlreadyAccepted)
        else if iv_RejectedAt invt \<noteq> 0 then fail (Wrap svcErrRemoveEntity svcErrInvitationAlreadyRejected)
        else trying (dr_DeleteUsersInvitations (ds_repo svc) domainID [inviteeUserID]) (Wrap svcErrRemoveEntity) ret))"

definition ListInvitations :: "'w domains_service \<Rightarrow> Session \<Rightarrow> InvitationPageMeta \<Rightarrow> ('w, gerror, InvitationPage) io" where
  "ListInvitations svc session page =
     trying (dr_RetrieveAllInvitations (ds_repo svc) (page\<lparr>ipm_InviteeUserID := s_UserID session\<rparr>)) (Wrap svcErrViewEntity) ret"

definition ListDomainInvitations :: "'w domains_service \<Rightarrow> Session \<Rightarrow> InvitationPageMeta \<Rightarrow> ('w, gerror, InvitationPage) io" where
  "ListDomainInvitations svc session page =
     trying (dr_RetrieveAllInvitations (ds_repo svc) (page\<lparr>ipm_DomainID := s_DomainID session\<rparr>)) (Wrap svcErrViewEntity) ret"

text \<open>The role operations that the service overrides: the invitations of removed members go as well.\<close>

definition drop_invitations :: "'w domains_service \<Rightarrow> string \<Rightarrow> string list \<Rightarrow> ('w, gerror, unit) io" where
  "drop_invitations svc entityID members w =
     (case dr_DeleteUsersInvitations (ds_repo svc) entityID members w of
        (Inl err, w') \<Rightarrow> if err \<noteq> repoErrNotFound then (Inl err, w') else (Inr (), w')
      | (Inr u, w') \<Rightarrow> (Inr u, w'))"

definition dom_RemoveEntityMembers :: "'w domains_service \<Rightarrow> Session \<Rightarrow> string \<Rightarrow> string list \<Rightarrow> ('w, gerror, unit) io" where
  "dom_RemoveEntityMembers svc session entityID members =
     pass (drop_invitations svc entityID members) (\<lambda>_. svc_RemoveEntityMembers (ds_roles svc) session entityID members)"

definition dom_RoleRemoveMembers ::
  "'w domains_service \<Rightarrow> Session \<Rightarrow> string \<Rightarrow> string \<Rightarrow> string list \<Rightarrow> ('w, gerror, unit) io" where
  "dom_RoleRemoveMembers svc session entityID roleID members =
     trying (RetrieveEntityRole (pm_repo (ds_roles svc)) entityID roleID) (Wrap svcErrViewEntity) (\<lambda>ro.
     pass (case BuiltInRoleActions (ds_roles svc) (ro_Name ro) of
             Inl _ \<Rightarrow> ret ()
           | Inr _ \<Rightarrow> trying (RoleListMembers (pm_repo (ds_roles svc)) (ro_ID ro) 0 0) (Wrap svcErrViewEntity) (\<lambda>membersPage.
               if mp_Total membersPage \<le> length members then fail svcErrRetainOneMember else ret ())) (\<lambda>_.
     pass (drop_invitations svc entityID members) (\<lambda>_.
     svc_RoleRemoveMembers (ds_roles svc) session entityID roleID members)))"

definition dom_RoleRemoveAllMembers ::
  "'w domains_service \<Rightarrow> Session \<Rightarrow> string \<Rightarrow> string \<Rightarrow> ('w, gerror, unit) io" where
  "dom_RoleRemoveAllMembers svc session entityID roleID =
     trying (RetrieveEntityRole (pm_repo (ds_roles svc)) entityID roleID) (Wrap svcErrViewEntity) (\<lambda>ro.
     case BuiltInRoleActions (ds_roles svc) (ro_Name ro) of
       Inr _ \<Rightarrow> fail svcErrRetainOneMember
     | Inl _ \<Rightarrow> svc_RoleRemoveAllMembers (ds_roles svc) session entityID roleID)"

section \<open>The private service\<close>

definition dmp_RetrieveStatus :: "'w domains_service \<Rightarrow> string \<Rightarrow> ('w, gerror, Status) io" where
  "dmp_RetrieveStatus svc i w =
     (case ds_cache_Status svc i w of
        (Inr status, w') \<Rightarrow> (Inr status, w')
      | (Inl _, w') \<Rightarrow>
          trying (dr_RetrieveDomainByID (ds_repo svc) i) (Wrap svcErrViewEntity) (\<lambda>dom.
          trying (ds_cache_SaveStatus svc i (dm_Status dom)) (Wrap svcErrUpdateEntity) (\<lambda>_. ret (dm_Status dom))) w')"

definition dmp_RetrieveIDByRoute :: "'w domains_service \<Rightarrow> string \<Rightarrow> ('w, gerror, string) io" where
  "dmp_RetrieveIDByRoute svc route w =
     (case ds_cache_ID svc route w of
        (Inr i, w') \<Rightarrow> (Inr i, w')
      | (Inl _, w') \<Rightarrow>
          trying (dr_RetrieveDomainByRoute (ds_repo svc) route) (Wrap svcErrViewEntity) (\<lambda>dom.
          trying (ds_cache_SaveID svc route (dm_ID dom)) (Wrap svcErrUpdateEntity) (\<lambda>_. ret (dm_ID dom))) w')"

text \<open>
  The listing of a user's domains, from an offset, gives the total and a page. The pages are
  collected and not used.
\<close>

definition defLimit :: nat where "defLimit = 100"

fun collect_domains ::
  "(nat \<Rightarrow> ('w, gerror, nat \<times> Domain list) io) \<Rightarrow> nat list \<Rightarrow> Domain list \<Rightarrow> ('w, gerror, Domain list) io" where
  "collect_domains listDomains [] ds = ret ds"
| "collect_domains listDomains (offset # offsets) ds =
     pass (listDomains offset) (\<lambda>(_, page). collect_domains listDomains offsets (ds @ page))"

definition dmp_DeleteUserFromDomains ::
  "(string \<Rightarrow> nat \<Rightarrow> nat \<Rightarrow> ('w, gerror, nat \<times> Domain list) io) \<Rightarrow> string \<Rightarrow> ('w, gerror, unit) io" where
  "dmp_DeleteUserFromDomains listDomains i =
     pass (listDomains i 0 defLimit) (\<lambda>(total, ds).
     pass (if total > defLimit
           then collect_domains (\<lambda>offset. listDomains i offset defLimit) (map (\<lambda>k. Suc k * defLimit) [0..<(total - 1) div defLimit]) ds
           else ret ds) (\<lambda>_. ret ()))"

section \<open>Transport\<close>

definition ErrMissingUserID :: gerror where "ErrMissingUserID = NewRequestError ''missing user id''"
definition ErrMissingPATID :: gerror where "ErrMissingPATID = NewRequestError ''missing pat id''"

definition auth_EncodeError :: "gerror \<Rightarrow> grpc_status" where
  "auth_EncodeError err =
     (if Contains err errMalformedEntity \<or> Contains err svcErrInvalidPolicy \<or>
         err \<in> {ErrInvalidAuthKey, ErrMissingID, ErrMissingMemberType, ErrMissingPolicySub, ErrMissingPolicyObj,
           ErrMalformedPolicyAct, ErrMissingUserID, ErrMissingPATID}
      then (InvalidArgument, ErrorStr err)
      else if Contains err svcErrAuthentication \<or> Contains err ErrKeyExpired \<or> Contains err ErrRevokedToken \<or>
         err \<in> {ErrMissingEmail, ErrBearerToken}
      then (Unauthenticated, ErrorStr err)
      else if Contains err svcErrAuthorization \<or> Contains err svcErrDomainAuthorization then (PermissionDenied, ErrorStr err)
      else if Contains err svcErrNotFound then (NotFound, ErrorStr err)
      else if Contains err svcErrConflict then (AlreadyExists, ErrorStr err)
      else (Internal, ErrorStr err))"

definition auth_DecodeError :: "grpc_status \<Rightarrow> gerror option" where
  "auth_DecodeError st = (case st of (code, msg) \<Rightarrow>
     (case code of
        NotFound \<Rightarrow> Some (Wrap svcErrNotFound (New msg))
      | InvalidArgument \<Rightarrow> Some (Wrap errMalformedEntity (New msg))
      | AlreadyExists \<Rightarrow> Some (Wrap svcErrConflict (New msg))
      | Unauthenticated \<Rightarrow> Some (Wrap svcErrAuthentication (New msg))
      | OK \<Rightarrow> if msg \<noteq> [] then Some (Wrap ErrUnidentified (New msg)) else None
      | FailedPrecondition \<Rightarrow> Some (Wrap errMalformedEntity (New msg))
      | PermissionDenied \<Rightarrow> Some (Wrap svcErrAuthorization (New msg))
      | _ \<Rightarrow> Some (Wrap (Foreign (''unexpected gRPC status: '' @ code_String code @ '' (status code:'' @ code_String code @ '')''))
               (New msg))))"

definition over_auth_wire :: "gerror \<Rightarrow> gerror" where
  "over_auth_wire err = (case auth_DecodeError (auth_EncodeError err) of Some err' \<Rightarrow> err' | None \<Rightarrow> err)"

definition retrieveStatusEndpoint :: "'w domains_service \<Rightarrow> string \<Rightarrow> ('w, gerror, Status) io" where
  "retrieveStatusEndpoint svc i = (if i = [] then fail ErrMissingID else dmp_RetrieveStatus svc i)"

definition dom_retrieveIDByRouteEndpoint :: "'w domains_service \<Rightarrow> string \<Rightarrow> ('w, gerror, string) io" where
  "dom_retrieveIDByRouteEndpoint svc route = (if route = [] then fail ErrMissingRoute else dmp_RetrieveIDByRoute svc route)"

text \<open>The status crosses the wire as a 32-bit number.\<close>

definition domain_RetrieveStatus :: "'w domains_service \<Rightarrow> string \<Rightarrow> ('w, gerror, Status) io" where
  "domain_RetrieveStatus svc i =
     trying (retrieveStatusEndpoint svc i) over_auth_wire (\<lambda>status. ret (ucast (ucast status :: 32 word)))"

definition domain_RetrieveIDByRoute :: "'w domains_service \<Rightarrow> string \<Rightarrow> ('w, gerror, string) io" where
  "domain_RetrieveIDByRoute svc route = trying (dom_retrieveIDByRouteEndpoint svc route) over_auth_wire ret"

end
