(* ===== verification/DomainAccess.thy ===== *)
theory DomainAccess
  imports DomainsSvc GroupTree
begin

text \<open>
  The domains service deployed on its database, cache and role service: the status of a
  domain as other services see it, and the life of an invitation.
\<close>

section \<open>The status of a domain\<close>

text \<open>
  The contract the status relies on: the stored status and the cached text of each domain, what
  a change of status does to them, and that the other calls leave them alone.
\<close>

locale domain_status =
  fixes svc :: "'w domains_service" and stored :: "'w \<Rightarrow> string \<Rightarrow> Status option" and cached :: "'w \<Rightarrow> string \<Rightarrow> string option"
  assumes Update_ok: "dr_UpdateDomain (ds_repo svc) i q w = (Inr d, w') \<Longrightarrow> dq_Status q = Some s \<Longrightarrow>
      stored w' i = Some s \<and> cached w' = cached w"
    and RemoveStatus_ok: "ds_cache_RemoveStatus svc i w = (Inr u, w') \<Longrightarrow> stored w' = stored w \<and> cached w' = (cached w)(i := None)"
    and Status_same: "ds_cache_Status svc i w = (r, w') \<Longrightarrow> stored w' = stored w \<and> cached w' = cached w"
    and Status_ok: "ds_cache_Status svc i w = (Inr s, w') \<Longrightarrow> \<exists>t. cached w i = Some t \<and> domains_ToStatus t = Inr s"
    and SaveStatus_any: "ds_cache_SaveStatus svc i s w = (ru, w') \<Longrightarrow>
      stored w' = stored w \<and> (cached w' = cached w \<or> cached w' = (cached w)(i \<mapsto> domStatus_String s))"
    and Retrieve_same: "dr_RetrieveDomainByID (ds_repo svc) i w = (rd, w') \<Longrightarrow> stored w' = stored w \<and> cached w' = cached w"
    and Retrieve_ok: "dr_RetrieveDomainByID (ds_repo svc) i w = (Inr d, w') \<Longrightarrow> stored w i = Some (dm_Status d)"
begin

text \<open>The domain has status \<open>s\<close> and the cache does not say otherwise.\<close>

definition settled :: "string \<Rightarrow> Status \<Rightarrow> 'w \<Rightarrow> bool" where
  "settled i s w \<longleftrightarrow> stored w i = Some s \<and> (\<forall>t s'. cached w i = Some t \<longrightarrow> domains_ToStatus t = Inr s' \<longrightarrow> s' = s)"

lemma change_settles:
  assumes "change_domain_status svc s ses i w = (Inr d, w')"
  shows "settled i s w'"
proof -
  from assms obtain now w1 d1 w2 where u: "dr_UpdateDomain (ds_repo svc) i
      (DomainReq0\<lparr>dq_Status := Some s, dq_UpdatedBy := Some (s_UserID ses), dq_UpdatedAt := Some now\<rparr>) w1 = (Inr d1, w2)"
    "\<exists>v. ds_cache_RemoveStatus svc i w2 = (Inr v, w')"
    by (auto simp: change_domain_status_def observe_apply dest!: trying_InrD split: prod.splits)
  then obtain v where v: "ds_cache_RemoveStatus svc i w2 = (Inr v, w')" by blast
  from Update_ok [OF u(1), of s] RemoveStatus_ok [OF v] show ?thesis by (simp add: settled_def)
qed

lemma ToStatus_String: "domains_ToStatus (domStatus_String s) = Inr s' \<Longrightarrow> s' = s"
  by (auto simp: domStatus_String_def domains_ToStatus_def statuses FreezeStatus_def domDeletedStatus_def domAllStatus_def
      split: if_splits)

lemma RetrieveStatus_settled:
  assumes "dmp_RetrieveStatus svc j w = (r, w')" "settled i s w"
  shows "settled i s w' \<and> (j = i \<longrightarrow> (\<forall>s'. r = Inr s' \<longrightarrow> s' = s))"
proof -
  obtain q w1 where q: "ds_cache_Status svc j w = (q, w1)" by fastforce
  have w1: "settled i s w1" using Status_same [OF q] assms(2) by (simp add: settled_def)
  show ?thesis
  proof (cases q)
    case (Inr s1)
    with assms(1) q have "r = Inr s1" "w' = w1" by (auto simp: dmp_RetrieveStatus_def)
    moreover have "s1 = s" if "j = i" using Status_ok [of j w s1 w1] q Inr that assms(2) by (auto simp: settled_def)
    ultimately show ?thesis using w1 by auto
  next
    case (Inl e)
    obtain q2 w2 where q2: "dr_RetrieveDomainByID (ds_repo svc) j w1 = (q2, w2)" by fastforce
    have w2: "settled i s w2" using Retrieve_same [OF q2] w1 by (simp add: settled_def)
    show ?thesis
    proof (cases q2)
      case (Inl e2)
      with assms(1) q \<open>q = Inl e\<close> q2 w2 show ?thesis by (auto simp: dmp_RetrieveStatus_def trying_apply)
    next
      case (Inr d)
      obtain q3 w3 where q3: "ds_cache_SaveStatus svc j (dm_Status d) w2 = (q3, w3)" by fastforce
      have d: "dm_Status d = s" if "j = i" using Retrieve_ok [of j w1 d w2] q2 Inr that w1 by (simp add: settled_def)
      have "w' = w3" "\<forall>s'. r = Inr s' \<longrightarrow> s' = dm_Status d"
        using assms(1) q \<open>q = Inl e\<close> q2 Inr q3 by (auto simp: dmp_RetrieveStatus_def trying_apply split: sum.splits)
      moreover have "settled i s w3"
        using SaveStatus_any [OF q3] w2 d ToStatus_String by (auto simp: settled_def split: if_splits)
      ultimately show ?thesis using d by auto
    qed
  qed
qed

end

text \<open>Other services ask for the status of domains, as often as they like.\<close>

inductive status_queries :: "'w domains_service \<Rightarrow> 'w \<Rightarrow> 'w \<Rightarrow> bool" for svc :: "'w domains_service" where
  sq_none: "status_queries svc w w"
| sq_query: "status_queries svc w w1 \<Longrightarrow> dmp_RetrieveStatus svc j w1 = (r, w2) \<Longrightarrow> status_queries svc w w2"

context domain_status
begin

lemma queries_settled: "status_queries svc w w' \<Longrightarrow> settled i s w \<Longrightarrow> settled i s w'"
  by (induction rule: status_queries.induct) (auto dest: RetrieveStatus_settled)

lemma status_after_change:
  assumes "change_domain_status svc s ses i w = (Inr d, w1)" "status_queries svc w1 w2" "dmp_RetrieveStatus svc i w2 = (Inr s', w3)"
  shows "s' = s"
  using RetrieveStatus_settled [OF assms(3) queries_settled [OF assms(2) change_settles [OF assms(1)]]] by simp

end

section \<open>The service deployed\<close>

record domains_world =
  dw_domains :: domains_db
  dw_cache :: redis_server
  dw_store :: ref_store
  dw_rdb :: roles_db
  dw_now :: int
  dw_ids :: "nat \<Rightarrow> string"
  dw_nid :: nat

abbreviation on_domains :: "(domains_db, 'e, 'a) io \<Rightarrow> (domains_world, 'e, 'a) io" where
  "on_domains m \<equiv> lifted dw_domains (\<lambda>d w. w\<lparr>dw_domains := d\<rparr>) m"

abbreviation on_dcache :: "(redis_server, 'e, 'a) io \<Rightarrow> (domains_world, 'e, 'a) io" where
  "on_dcache m \<equiv> lifted dw_cache (\<lambda>d w. w\<lparr>dw_cache := d\<rparr>) m"

abbreviation get_droles :: "domains_world \<Rightarrow> roles_world" where
  "get_droles w \<equiv> \<lparr>rw_store = dw_store w, rw_db = dw_rdb w, rw_now = dw_now w\<rparr>"

abbreviation put_droles :: "roles_world \<Rightarrow> domains_world \<Rightarrow> domains_world" where
  "put_droles s w \<equiv> w\<lparr>dw_store := rw_store s, dw_rdb := rw_db s, dw_now := rw_now s\<rparr>"

definition with_domain_roles :: "(domains_world, gerror, 'a) io \<Rightarrow> (domains_world, gerror, 'a) io" where
  "with_domain_roles m w = (case m w of (r, w') \<Rightarrow> (r, w'\<lparr>dw_rdb := (dw_rdb w')\<lparr>committed :=
     entities_are (map dd_ID (dt_domains (committed (dw_domains w')))) (committed (dw_rdb w'))\<rparr>\<rparr>))"

definition dw_Now :: "domains_world \<Rightarrow> int \<times> domains_world" where
  "dw_Now w = (dw_now w, w\<lparr>dw_now := dw_now w + 1\<rparr>)"

definition dw_ID :: "(domains_world, gerror, string) io" where
  "dw_ID w = (Inr (dw_ids w (dw_nid w)), w\<lparr>dw_nid := Suc (dw_nid w)\<rparr>)"

definition role_name_of :: "roles_db \<Rightarrow> string \<Rightarrow> string option" where
  "role_name_of d i = map_option dr_Name (List.find (\<lambda>r. dr_ID r = i) (t_roles (committed d)))"

definition domains_repo :: "domains_world DomainsRepository" where
  "domains_repo = \<lparr>dr_SaveDomain = (\<lambda>d. with_domain_roles (on_domains (dmr_SaveDomain d))),
     dr_RetrieveDomainByID = (\<lambda>i. on_domains (dmr_RetrieveDomainByID i)),
     dr_RetrieveDomainByRoute = (\<lambda>r. on_domains (dmr_RetrieveDomainByRoute r)),
     dr_UpdateDomain = (\<lambda>i q. on_domains (dmr_UpdateDomain i q)),
     dr_DeleteDomain = (\<lambda>i. with_domain_roles (on_domains (dmr_DeleteDomain i))),
     dr_SaveInvitation = (\<lambda>i. on_domains (dmr_SaveInvitation i)),
     dr_RetrieveInvitation = (\<lambda>u d. on_domains (dmr_RetrieveInvitation u d)),
     dr_RetrieveAllInvitations = (\<lambda>pm w. on_domains (dmr_RetrieveAllInvitations (role_name_of (dw_rdb w)) pm) w),
     dr_UpdateConfirmation = (\<lambda>i. on_domains (dmr_UpdateConfirmation i)),
     dr_UpdateRejection = (\<lambda>i. on_domains (dmr_UpdateRejection i)),
     dr_DeleteUsersInvitations = (\<lambda>d us. on_domains (dmr_DeleteUsersInvitations d us))\<rparr>"

definition domain_cache :: "redis_server domainsCache" where
  "domain_cache = \<lparr>dmc_client = ref_redis, dmc_duration = 600\<rparr>"

definition domain_roles :: "roles_world ProvisionManageService" where
  "domain_roles = deployed_roles clock_sid DomainType [''read'', ''update''] [(''admin'', [''read'', ''update''])]"

definition deployed_domains :: "domains_world domains_service" where
  "deployed_domains = \<lparr>ds_repo = domains_repo,
     ds_cache_SaveStatus = (\<lambda>i s. on_dcache (dmc_SaveStatus domain_cache i s)),
     ds_cache_SaveID = (\<lambda>r i. on_dcache (dmc_SaveID domain_cache r i)),
     ds_cache_Status = (\<lambda>i. on_dcache (dmc_Status domain_cache i)),
     ds_cache_ID = (\<lambda>r. on_dcache (dmc_ID domain_cache r)),
     ds_cache_RemoveStatus = (\<lambda>i. on_dcache (dmc_RemoveStatus domain_cache i)),
     ds_idProvider = dw_ID, ds_now = dw_Now, ds_roles = lift_roles get_droles put_droles domain_roles\<rparr>"

definition stored_status :: "domains_world \<Rightarrow> string \<Rightarrow> Status option" where
  "stored_status w i = map_option dd_Status (List.find (\<lambda>r. dd_ID r = i) (dt_domains (committed (dw_domains w))))"

definition cached_status :: "domains_world \<Rightarrow> string \<Rightarrow> string option" where
  "cached_status w = live (rsv_state (dw_cache w))"

lemma status_views [simp]:
  "stored_status (w\<lparr>dw_cache := c\<rparr>) = stored_status w" "cached_status (w\<lparr>dw_domains := d\<rparr>) = cached_status w"
  "cached_status (w\<lparr>dw_cache := c\<rparr>) = live (rsv_state c)"
  by (simp_all add: stored_status_def cached_status_def fun_eq_iff)

lemma first_domain_reads [io_intros]: "reads (first_domain g rs)"
  unfolding first_domain_def by (intro io_intros reads_driver)

lemma first_domain_ok: "first_domain g rs d = (Inr x, d') \<Longrightarrow> \<exists>r. rs \<noteq> [] \<and> r = hd rs \<and> x = toDomain r"
  by (cases rs) (auto simp: first_domain_def dest!: trying_InrD driver_ret)

lemma stored_status_committed:
  "committed (dw_domains w') = committed (dw_domains w) \<Longrightarrow> stored_status w' = stored_status w"
  by (simp add: stored_status_def fun_eq_iff)

lemma find_filter: "filter P xs \<noteq> [] \<Longrightarrow> List.find P xs = Some (hd (filter P xs))"
  by (induction xs) auto

lemma dmr_RetrieveDomainByID_reads: "reads (dmr_RetrieveDomainByID i)"
  unfolding dmr_RetrieveDomainByID_def by (intro io_intros)

lemma dmr_RetrieveDomainByID_ok:
  assumes "dmr_RetrieveDomainByID i d = (Inr x, d')"
  shows "\<exists>r. List.find (\<lambda>r. dd_ID r = i) (dt_domains (committed d)) = Some r \<and> x = toDomain r"
proof -
  from assms obtain rs d1 where q: "db_query (\<lambda>t. filter (\<lambda>r. dd_ID r = i) (dt_domains t)) d = (Inr rs, d1)"
    "first_domain (domains_eh repoErrViewEntity) rs d1 = (Inr x, d')"
    by (auto simp: dmr_RetrieveDomainByID_def dest!: trying_InrD)
  from db_query_ok [OF q(1)] have rs: "rs = filter (\<lambda>r. dd_ID r = i) (dt_domains (committed d))" by simp
  from first_domain_ok [OF q(2)] find_filter [of "\<lambda>r. dd_ID r = i" "dt_domains (committed d)"] show ?thesis unfolding rs by blast
qed

lemma set_columns_ID [simp]: "dd_ID (set_columns q r) = dd_ID r"
  by (simp add: set_columns_def Let_def split: option.splits)

lemma set_columns_Status: "dq_Status q = Some s \<Longrightarrow> dd_Status (set_columns q r) = s"
  by (simp add: set_columns_def Let_def split: option.splits)

lemma find_map_upd:
  assumes "\<And>r. dd_ID (f r) = dd_ID r" "filter (\<lambda>r. dd_ID r = i) rs \<noteq> []"
  shows "\<exists>r. List.find (\<lambda>r. dd_ID r = i) (map (\<lambda>r. if dd_ID r = i then f r else r) rs) = Some (f r)"
  using assms(2) by (induction rs) (auto simp: assms(1) split: if_splits)

lemma dmr_UpdateDomain_ok:
  assumes "dmr_UpdateDomain i q d = (Inr x, d')" "dq_Status q = Some s"
  shows "map_option dd_Status (List.find (\<lambda>r. dd_ID r = i) (dt_domains (committed d'))) = Some s"
proof -
  have n: "\<not> sets_nothing q" using assms(2) by (simp add: sets_nothing_def)
  from assms(1) n obtain rs d1 where e: "db_exec (update_domains (\<lambda>r. dd_ID r = i) (set_columns q)) d = (Inr rs, d1)"
    "first_domain (domains_eh repoErrFailedOpDB) rs d1 = (Inr x, d')"
    by (auto simp: dmr_UpdateDomain_def dest!: trying_InrD split: if_splits)
  from db_exec_ok [OF e(1)] obtain t where t: "update_domains (\<lambda>r. dd_ID r = i) (set_columns q) (committed d) = Inr (t, rs)"
    "committed d1 = t" by auto
  from t(1) have u: "dt_domains t = map (\<lambda>r. if dd_ID r = i then set_columns q r else r) (dt_domains (committed d))"
    "rs = map (set_columns q) (filter (\<lambda>r. dd_ID r = i) (dt_domains (committed d)))"
    by (auto simp: update_domains_def Let_def split: if_splits)
  have "filter (\<lambda>r. dd_ID r = i) (dt_domains (committed d)) \<noteq> []" using first_domain_ok [OF e(2)] u(2) by auto
  from find_map_upd [of "set_columns q" i, OF set_columns_ID this] obtain r where
    "List.find (\<lambda>r. dd_ID r = i) (dt_domains t) = Some (set_columns q r)" unfolding u(1) by blast
  moreover have "committed d' = t" using readsD [OF first_domain_reads e(2)] t(2) by simp
  ultimately show ?thesis by (simp add: set_columns_Status [OF assms(2)])
qed

interpretation dom: domain_status deployed_domains stored_status cached_status
proof
  note deployed = deployed_domains_def domains_repo_def lifted_eq domain_cache_def
  fix i q w d w' s u r ru rd
  show "stored_status w' i = Some s \<and> cached_status w' = cached_status w"
    if "dr_UpdateDomain (ds_repo deployed_domains) i q w = (Inr d, w')" "dq_Status q = Some s"
    using that by (auto simp: deployed stored_status_def dest: dmr_UpdateDomain_ok)
  show "stored_status w' = stored_status w \<and> cached_status w' = (cached_status w)(i := None)"
    if "ds_cache_RemoveStatus deployed_domains i w = (Inr u, w')"
    using that by (auto simp: deployed dmc_RemoveStatus_def cached_status_def simp del: run_cmd.simps
        dest!: trying_InrD ref_rd.Del_ok split: if_splits)
  show "stored_status w' = stored_status w \<and> cached_status w' = cached_status w"
    if "ds_cache_Status deployed_domains i w = (r, w')" for r :: "gerror + Status"
    using that by (auto simp: deployed dmc_Status_def cached_status_def trying_apply
        dest!: ref_rd.Get_same split: prod.splits sum.splits)
  show "\<exists>t. cached_status w i = Some t \<and> domains_ToStatus t = Inr s" if "ds_cache_Status deployed_domains i w = (Inr s, w')"
    using that by (auto simp: deployed dmc_Status_def cached_status_def trying_apply
        dest!: ref_rd.Get_ok split: prod.splits sum.splits)
  show "stored_status w' = stored_status w \<and>
      (cached_status w' = cached_status w \<or> cached_status w' = (cached_status w)(i \<mapsto> domStatus_String s))"
    if "ds_cache_SaveStatus deployed_domains i s w = (ru, w')" for ru :: "gerror + unit"
    using that by (auto simp: deployed dmc_SaveStatus_def cached_status_def trying_apply simp del: run_cmd.simps
        dest!: ref_rd.Set_ok ref_rd.Set_err split: prod.splits sum.splits if_splits)
  show "stored_status w' = stored_status w \<and> cached_status w' = cached_status w"
    if "dr_RetrieveDomainByID (ds_repo deployed_domains) i w = (rd, w')" for rd :: "gerror + Domain"
    using that by (auto simp: deployed intro!: stored_status_committed dest!: readsD [OF dmr_RetrieveDomainByID_reads])
  show "stored_status w i = Some (dm_Status d)" if "dr_RetrieveDomainByID (ds_repo deployed_domains) i w = (Inr d, w')"
    using that by (auto simp: deployed stored_status_def toDomain_def dest!: dmr_RetrieveDomainByID_ok)
qed

section \<open>Closed domains\<close>

lemma change_of_status:
  "EnableDomain svc = change_domain_status svc EnabledStatus" "DisableDomain svc = change_domain_status svc DisabledStatus"
  "FreezeDomain svc = change_domain_status svc FreezeStatus"
  by (simp_all add: EnableDomain_def DisableDomain_def FreezeDomain_def)

lemma status_over_wire: "(ucast (ucast (s :: Status) :: 32 word) :: Status) = s"
  by transfer (simp add: take_bit_take_bit)

lemma authorize_needs_enabled:
  assumes "channel_Authorize deployed_channels req w = (Inr True, w')"
  shows "tw_domain w (a_DomainId req) = Inr EnabledStatus"
proof -
  from wired_InrD [OF assms [unfolded channel_Authorize_def]] obtain areq where a: "decodeAuthorizeRequest req = Inr areq"
    "\<exists>w1. chp_Authorize deployed_channels areq w = (Inr (), w1)"
    by (auto simp: authorizeEndpoint_def split: sum.splits dest!: guarded_InrD pass_InrD)
  have d: "ar_DomainID areq = a_DomainId req" using a(1) by (auto simp: decodeAuthorizeRequest_def Let_def split: option.splits)
  from a(2) obtain w1 w2 where s: "hs_domain_RetrieveStatus deployed_channels (ar_DomainID areq) w = (Inr EnabledStatus, w2)"
    by (auto simp: chp_Authorize_def dest!: trying_InrD split: if_splits)
  then have "rpc (\<lambda>w. (tw_domain w (ar_DomainID areq), w)) w = (Inr EnabledStatus, w2)" by (simp add: deployed_channels_def)
  from rpc_InrD [OF this] d show ?thesis by simp
qed

text \<open>C8: Once a domain was disabled or frozen, and however often other services have asked for its
  status since then, with whatever failures of the cache and the database, the channels service,
  asking the domains service over gRPC, authorizes nobody in the domain: no client and no user, for
  no channel.\<close>

theorem closed_domain_admits_nobody:
  assumes "DisableDomain deployed_domains ses (a_DomainId req) w = (Inr d, w1) \<or> FreezeDomain deployed_domains ses (a_DomainId req) w = (Inr d, w1)"
    and "status_queries deployed_domains w1 w2"
    and "tw_domain tw (a_DomainId req) = fst (domain_RetrieveStatus deployed_domains (a_DomainId req) w2)"
  shows "fst (channel_Authorize deployed_channels req tw) \<noteq> Inr True"
proof
  assume "fst (channel_Authorize deployed_channels req tw) = Inr True"
  then obtain tw' where "channel_Authorize deployed_channels req tw = (Inr True, tw')" by (metis prod.collapse)
  from authorize_needs_enabled [OF this] assms(3) have "fst (domain_RetrieveStatus deployed_domains (a_DomainId req) w2) = Inr EnabledStatus" by simp
  then obtain w3 where r: "dmp_RetrieveStatus deployed_domains (a_DomainId req) w2 = (Inr EnabledStatus, w3)"
    by (cases "retrieveStatusEndpoint deployed_domains (a_DomainId req) w2"; cases "fst (retrieveStatusEndpoint deployed_domains (a_DomainId req) w2)")
      (auto simp: domain_RetrieveStatus_def trying_apply status_over_wire retrieveStatusEndpoint_def split: if_splits)
  have "EnabledStatus = DisabledStatus \<or> EnabledStatus = FreezeStatus"
    using assms(1) dom.status_after_change [OF _ assms(2) r] unfolding change_of_status by blast
  then show False by (simp add: statuses FreezeStatus_def)
qed

section \<open>A sample deployment\<close>

definition sample_domain :: dbDomain where
  "sample_domain = (toDBDomain Domain0)\<lparr>dd_ID := ''u1'', dd_Name := ''home'', dd_Route := Some ''home''\<rparr>"

definition sample_role :: dbRole where
  "sample_role = \<lparr>dr_ID = ''r1'', dr_Name = ''staff'', dr_EntityID = ''u1'', dr_CreatedBy = None, dr_CreatedAt = Some 1,
     dr_UpdatedBy = None, dr_UpdatedAt = None\<rparr>"

definition sample_domains :: domains_world where
  "sample_domains = \<lparr>dw_domains = db_of \<lparr>dt_domains = [sample_domain], dt_invitations = []\<rparr> [], dw_cache = empty_cache,
     dw_store = sample_store, dw_rdb = db_of \<lparr>t_entities = [''u1''], t_roles = [sample_role], t_actions = [], t_members = []\<rparr> [],
     dw_now = 1, dw_ids = (\<lambda>n. replicate n (CHR ''i'')), dw_nid = 3\<rparr>"

definition asked_domains :: domains_world where
  "asked_domains = snd (dmp_RetrieveStatus deployed_domains ''u1'' sample_domains)"

definition disabled_domains :: domains_world where
  "disabled_domains = snd (DisableDomain deployed_domains owner_session ''u1'' asked_domains)"

theorem closed_domain_admits_nobody_witness:
  "cached_status asked_domains ''u1'' = Some ''enabled'' \<and>
   fst (channel_Authorize deployed_channels (channel_request Publish ''c1'' ''u2'' ''u1'')
     (connected_things\<lparr>tw_domain := \<lambda>d. fst (domain_RetrieveStatus deployed_domains d disabled_domains)\<rparr>)) \<noteq> Inr True"
proof -
  let ?req = "channel_request Publish ''c1'' ''u2'' ''u1''"
  have r: "a_DomainId ?req = ''u1''" by (simp add: channel_request_def)
  have c: "cached_status asked_domains ''u1'' = Some ''enabled''" by code_simp
  have "\<exists>d. fst (DisableDomain deployed_domains owner_session ''u1'' asked_domains) = Inr d"
    by (rule exI [of _ "toDomain (sample_domain\<lparr>dd_Status := DisabledStatus, dd_UpdatedAt := Some 1\<rparr>)"]) code_simp
  then obtain d where "DisableDomain deployed_domains owner_session (a_DomainId ?req) asked_domains = (Inr d, disabled_domains)"
    unfolding r disabled_domains_def by (metis prod.collapse)
  from closed_domain_admits_nobody [OF disjI1 [OF this] sq_none] r c show ?thesis by simp
qed

end
