(* ===== verification/Invitations.thy ===== *)
theory Invitations
  imports DomainAccess
begin

text \<open>
  The life of an invitation to a domain: which changes of its state the operations of the
  service make, and who makes them.
\<close>

section \<open>States\<close>

text \<open>The times of confirmation and rejection, zero when there is none, and the state they stand for.\<close>

type_synonym times = "string \<Rightarrow> string \<Rightarrow> (int \<times> int) option"

definition state_of :: "int \<times> int \<Rightarrow> State" where
  "state_of ct = (if fst ct \<noteq> 0 then Accepted else if snd ct \<noteq> 0 then Rejected else Pending)"

definition invitation_moves :: "State option \<Rightarrow> State option \<Rightarrow> bool" where
  "invitation_moves a b \<longleftrightarrow> b = a \<or> b = None \<or> (a, b) \<in> {(None, Some Pending), (Some Pending, Some Accepted),
     (Some Pending, Some Rejected), (Some Rejected, Some Pending)}"

lemmas states = AllState_def Pending_def Accepted_def Rejected_def

lemma states_distinct [simp]:
  "Pending \<noteq> Accepted" "Pending \<noteq> Rejected" "Accepted \<noteq> Rejected" "Accepted \<noteq> Pending" "Rejected \<noteq> Pending" "Rejected \<noteq> Accepted"
  by (simp_all add: states)

text \<open>The moves a user \<open>a\<close> may make with an invitation of user \<open>u\<close>: only the invited user answers it.\<close>

definition fair_move :: "string \<Rightarrow> string \<Rightarrow> State option \<Rightarrow> State option \<Rightarrow> bool" where
  "fair_move a u x y \<longleftrightarrow> invitation_moves x y \<and> (x = Some Pending \<longrightarrow> y \<in> {Some Accepted, Some Rejected} \<longrightarrow> u = a)"

lemma fair_move_basic [simp]: "fair_move a u x x" "fair_move a u x None"
  by (auto simp: fair_move_def invitation_moves_def)

section \<open>The contract of the store\<close>

definition set_confirmed :: "string \<Rightarrow> string \<Rightarrow> int \<Rightarrow> times \<Rightarrow> times" where
  "set_confirmed u d n s = s(u := (s u)(d := map_option (\<lambda>x. (n, snd x)) (s u d)))"

definition set_rejected :: "string \<Rightarrow> string \<Rightarrow> int \<Rightarrow> times \<Rightarrow> times" where
  "set_rejected u d n s = s(u := (s u)(d := map_option (\<lambda>x. (fst x, n)) (s u d)))"

locale invitation_store =
  fixes svc :: "'w domains_service" and times :: "'w \<Rightarrow> times"
  assumes Save_any: "dr_SaveInvitation (ds_repo svc) iv w = (r, w') \<Longrightarrow> times w' = times w \<or>
      (times w (iv_InviteeUserID iv) (iv_DomainID iv) = None \<and>
       times w' = (times w)(iv_InviteeUserID iv := (times w (iv_InviteeUserID iv))(iv_DomainID iv \<mapsto> (0, 0))))"
    and Retrieve_ok: "dr_RetrieveInvitation (ds_repo svc) u d w = (Inr iv, w') \<Longrightarrow>
      iv_InviteeUserID iv = u \<and> iv_DomainID iv = d \<and> times w u d = Some (iv_ConfirmedAt iv, iv_RejectedAt iv)"
    and Confirm_any: "dr_UpdateConfirmation (ds_repo svc) iv w = (r, w') \<Longrightarrow> times w' = times w \<or>
      times w' = set_confirmed (iv_InviteeUserID iv) (iv_DomainID iv) (iv_ConfirmedAt iv) (times w)"
    and Reject_any: "dr_UpdateRejection (ds_repo svc) iv w = (r, w') \<Longrightarrow> times w' = times w \<or>
      times w' = set_rejected (iv_InviteeUserID iv) (iv_DomainID iv) (iv_RejectedAt iv) (times w)"
    and Delete_any: "dr_DeleteUsersInvitations (ds_repo svc) d us w = (r, w') \<Longrightarrow> times w' = times w \<or>
      times w' = (\<lambda>u d'. if d' = d \<and> u \<in> set us then None else times w u d')"
    and call_frames: "frames times (dr_RetrieveInvitation (ds_repo svc) u d)" "frames times (dr_RetrieveDomainByID (ds_repo svc) d)"
      "frames times (RetrieveRole (pm_repo (ds_roles svc)) i)" "frames times (RetrieveEntityRole (pm_repo (ds_roles svc)) d i)"
      "frames times (RoleListMembers (pm_repo (ds_roles svc)) i l n)" "frames times (ds_now svc)"
      "frames times (svc_RoleAddMembers (ds_roles svc) ses d i us)" "frames times (svc_RoleRemoveMembers (ds_roles svc) ses d i us)"
      "frames times (svc_RemoveEntityMembers (ds_roles svc) ses d us)"

text \<open>The operations on invitations and members, by a user.\<close>

inductive invitation_step :: "'w domains_service \<Rightarrow> string \<Rightarrow> 'w \<Rightarrow> 'w \<Rightarrow> bool" for svc :: "'w domains_service" and a :: string where
  is_send: "SendInvitation svc ses iv w = (r, w') \<Longrightarrow> s_UserID ses = a \<Longrightarrow> invitation_step svc a w w'"
| is_accept: "AcceptInvitation svc ses d w = (r, w') \<Longrightarrow> s_UserID ses = a \<Longrightarrow> invitation_step svc a w w'"
| is_reject: "RejectInvitation svc ses d w = (r, w') \<Longrightarrow> s_UserID ses = a \<Longrightarrow> invitation_step svc a w w'"
| is_delete: "DeleteInvitation svc ses u d w = (ru, w') \<Longrightarrow> s_UserID ses = a \<Longrightarrow> invitation_step svc a w w'"
| is_remove: "dom_RoleRemoveMembers svc ses d i us w = (ru, w') \<Longrightarrow> s_UserID ses = a \<Longrightarrow> invitation_step svc a w w'"
| is_remove_entity: "dom_RemoveEntityMembers svc ses d us w = (ru, w') \<Longrightarrow> s_UserID ses = a \<Longrightarrow> invitation_step svc a w w'"

context invitation_store
begin

definition state :: "'w \<Rightarrow> string \<Rightarrow> string \<Rightarrow> State option" where
  "state w u d = map_option state_of (times w u d)"

text \<open>What a step by \<open>a\<close> may do.\<close>

definition fair :: "string \<Rightarrow> 'w \<Rightarrow> 'w \<Rightarrow> bool" where
  "fair a w w' \<longleftrightarrow> (\<forall>u d. fair_move a u (state w u d) (state w' u d))"

lemma fair_same: "times w' = times w \<Longrightarrow> fair a w w'"
  by (simp add: fair_def state_def)

lemma fair_frame: "frames times m \<Longrightarrow> m w = (r, w1) \<Longrightarrow> fair a w1 w' \<Longrightarrow> fair a w w'"
  using framesD [of times m w r w1] by (simp add: fair_def state_def)

lemma fair_frame_after: "frames times m \<Longrightarrow> m w' = (r, w2) \<Longrightarrow> fair a w w' \<Longrightarrow> fair a w w2"
  using framesD [of times m w' r w2] by (simp add: fair_def state_def)

text \<open>A change of one entry.\<close>

lemma fair_one:
  assumes "\<And>u' d'. (u', d') \<noteq> (u, d) \<Longrightarrow> times w' u' d' = times w u' d'" "fair_move a u (state w u d) (state w' u d)"
  shows "fair a w w'"
  unfolding fair_def
proof (intro allI)
  fix u' d'
  show "fair_move a u' (state w u' d') (state w' u' d')"
    using assms(1) [of u' d'] assms(2) by (cases "(u', d') = (u, d)") (auto simp: state_def)
qed

lemma fair_Save:
  assumes "dr_SaveInvitation (ds_repo svc) iv w = (r, w')"
  shows "fair a w w'"
  using Save_any [OF assms]
proof
  assume s: "times w (iv_InviteeUserID iv) (iv_DomainID iv) = None \<and>
    times w' = (times w)(iv_InviteeUserID iv := (times w (iv_InviteeUserID iv))(iv_DomainID iv \<mapsto> (0, 0)))"
  show ?thesis by (rule fair_one [where u = "iv_InviteeUserID iv" and d = "iv_DomainID iv"])
      (use s in \<open>auto simp: state_def state_of_def fair_move_def invitation_moves_def\<close>)
qed (rule fair_same)

lemma fair_Delete:
  assumes "dr_DeleteUsersInvitations (ds_repo svc) d us w = (r, w')"
  shows "fair a w w'"
  using Delete_any [OF assms] by (auto simp: fair_def state_def)

lemma fair_Confirm:
  assumes "dr_UpdateConfirmation (ds_repo svc) iv w = (r, w')" "times w (iv_InviteeUserID iv) (iv_DomainID iv) = Some (0, 0)" "iv_InviteeUserID iv = a"
  shows "fair a w w'"
  using Confirm_any [OF assms(1)]
proof
  assume s: "times w' = set_confirmed (iv_InviteeUserID iv) (iv_DomainID iv) (iv_ConfirmedAt iv) (times w)"
  show ?thesis by (rule fair_one [where u = "iv_InviteeUserID iv" and d = "iv_DomainID iv"])
      (use s assms(2,3) in \<open>auto simp: state_def state_of_def fair_move_def invitation_moves_def set_confirmed_def\<close>)
qed (rule fair_same)

lemma fair_Reject:
  assumes "dr_UpdateRejection (ds_repo svc) iv w = (r, w')"
    and "(times w (iv_InviteeUserID iv) (iv_DomainID iv) = Some (0, 0) \<and> iv_InviteeUserID iv = a) \<or>
      (\<exists>n. times w (iv_InviteeUserID iv) (iv_DomainID iv) = Some (0, n) \<and> n \<noteq> 0 \<and> iv_RejectedAt iv = 0)"
  shows "fair a w w'"
  using Reject_any [OF assms(1)]
proof
  assume s: "times w' = set_rejected (iv_InviteeUserID iv) (iv_DomainID iv) (iv_RejectedAt iv) (times w)"
  show ?thesis by (rule fair_one [where u = "iv_InviteeUserID iv" and d = "iv_DomainID iv"])
      (use s assms(2) in \<open>auto simp: state_def state_of_def fair_move_def invitation_moves_def set_rejected_def states\<close>)
qed (rule fair_same)

lemma open_invitation_ok:
  assumes "open_invitation svc ses d w = (Inr iv, w1)"
  shows "times w1 = times w \<and> times w (s_UserID ses) d = Some (0, 0) \<and> iv_InviteeUserID iv = s_UserID ses \<and> iv_DomainID iv = d"
proof -
  from assms obtain iv0 w0 where r: "dr_RetrieveInvitation (ds_repo svc) (s_UserID ses) d w = (Inr iv0, w0)"
    "iv_ConfirmedAt iv0 = 0" "iv_RejectedAt iv0 = 0" "populateDetails svc iv0 d w0 = (Inr iv, w1)"
    by (auto simp: open_invitation_def dest!: trying_InrD split: if_splits)
  have "frames times (populateDetails svc iv0 d)" unfolding populateDetails_def
    by (auto intro!: frames_rules call_frames)
  moreover have "iv_InviteeUserID iv = iv_InviteeUserID iv0 \<and> iv_DomainID iv = iv_DomainID iv0"
    using r(4) by (auto simp: populateDetails_def dest!: pass_InrD trying_InrD split: if_splits)
  ultimately show ?thesis using framesD [OF call_frames(1) r(1)] framesD r(4) Retrieve_ok [OF r(1)] r(2,3) by metis
qed

lemma open_invitation_frames: "frames times (open_invitation svc ses d)"
  unfolding open_invitation_def populateDetails_def by (auto intro!: frames_rules call_frames)

lemma fair_Accept:
  assumes "AcceptInvitation svc ses d w = (r, w')"
  shows "fair (s_UserID ses) w w'"
proof -
  obtain q w1 where q: "open_invitation svc ses d w = (q, w1)" by fastforce
  have w1: "times w1 = times w" using framesD [OF open_invitation_frames q] .
  show ?thesis
  proof (cases q)
    case (Inl e)
    with q assms w1 show ?thesis by (auto simp: AcceptInvitation_def pass_apply intro: fair_same)
  next
    case (Inr iv)
    note o = open_invitation_ok [OF q [unfolded Inr]]
    obtain q2 w2 where m: "svc_RoleAddMembers (ds_roles svc) (ses\<lparr>s_DomainID := d\<rparr>) d (iv_RoleID iv) [s_UserID ses] w1 = (q2, w2)" by fastforce
    have w2: "times w2 = times w" using framesD [OF call_frames(7) m] w1 by simp
    obtain now w3 where n: "ds_now svc w2 = (now, w3)" by fastforce
    have w3: "times w3 = times w" using framesD [OF call_frames(6) n] w2 by simp
    let ?iv = "iv\<lparr>iv_ConfirmedAt := now, iv_UpdatedAt := now\<rparr>"
    obtain q4 w4 where c: "dr_UpdateConfirmation (ds_repo svc) ?iv w3 = (q4, w4)" by fastforce
    have "w' = w2 \<or> w' = w4" using assms q Inr m n c
      by (auto simp: AcceptInvitation_def pass_apply trying_apply observe_apply Let_def split: sum.splits)
    moreover have "fair (s_UserID ses) w3 w4"
      by (rule fair_Confirm [OF c]) (use o w3 in auto)
    ultimately show ?thesis using w2 w3 by (auto simp: fair_def state_def)
  qed
qed

lemma fair_RejectInvitation:
  assumes "RejectInvitation svc ses d w = (r, w')"
  shows "fair (s_UserID ses) w w'"
proof -
  obtain q w1 where q: "open_invitation svc ses d w = (q, w1)" by fastforce
  have w1: "times w1 = times w" using framesD [OF open_invitation_frames q] .
  show ?thesis
  proof (cases q)
    case (Inl e)
    with q assms w1 show ?thesis by (auto simp: RejectInvitation_def pass_apply intro: fair_same)
  next
    case (Inr iv)
    note o = open_invitation_ok [OF q [unfolded Inr]]
    obtain now w3 where n: "ds_now svc w1 = (now, w3)" by fastforce
    have w3: "times w3 = times w" using framesD [OF call_frames(6) n] w1 by simp
    let ?iv = "iv\<lparr>iv_RejectedAt := now, iv_UpdatedAt := now\<rparr>"
    obtain q4 where c: "dr_UpdateRejection (ds_repo svc) ?iv w3 = (q4, w')" using assms q Inr n
      by (auto simp: RejectInvitation_def pass_apply trying_apply observe_apply Let_def split: prod.splits sum.splits)
    have "fair (s_UserID ses) w3 w'"
      by (rule fair_Reject [OF c]) (use o w3 in auto)
    then show ?thesis using w3 by (auto simp: fair_def state_def)
  qed
qed

lemma fair_resend:
  assumes "resendInvitation svc iv w = (r, w')"
  shows "fair a w w'"
proof -
  obtain q w1 where q: "dr_RetrieveInvitation (ds_repo svc) (iv_InviteeUserID iv) (iv_DomainID iv) w = (q, w1)" by fastforce
  have w1: "times w1 = times w" using framesD [OF call_frames(1) q] .
  show ?thesis
  proof (cases "\<exists>old. q = Inr old \<and> iv_ConfirmedAt old = 0 \<and> iv_RejectedAt old \<noteq> 0")
    case False
    then have "w' = w1" using assms q by (cases q) (auto simp: resendInvitation_def trying_apply split: if_splits)
    with w1 show ?thesis by (simp add: fair_same)
  next
    case True
    then obtain old where old: "q = Inr old" "iv_ConfirmedAt old = 0" "iv_RejectedAt old \<noteq> 0" by blast
    obtain now w2 where n: "ds_now svc w1 = (now, w2)" by fastforce
    have w2: "times w2 = times w" using framesD [OF call_frames(6) n] w1 by simp
    obtain q3 where c: "dr_UpdateRejection (ds_repo svc) (iv\<lparr>iv_RejectedAt := 0, iv_UpdatedAt := now\<rparr>) w2 = (q3, w')"
      using assms q old n by (auto simp: resendInvitation_def trying_apply observe_apply split: prod.splits sum.splits)
    have "fair a w2 w'" by (rule fair_Reject [OF c]) (use Retrieve_ok [OF q [unfolded old(1)]] old w2 in auto)
    then show ?thesis using w2 by (auto simp: fair_def state_def)
  qed
qed

text \<open>A call that is fair from every world, and what goes before it without touching invitations.\<close>

definition plays_fair :: "string \<Rightarrow> ('w \<Rightarrow> 'r \<times> 'w) \<Rightarrow> bool" where
  "plays_fair a m \<longleftrightarrow> (\<forall>w. fair a w (snd (m w)))"

lemma plays_fairI: "(\<And>w r w'. m w = (r, w') \<Longrightarrow> fair a w w') \<Longrightarrow> plays_fair a m"
  unfolding plays_fair_def by (metis prod.collapse)

lemma plays_fairD: "plays_fair a m \<Longrightarrow> m w = (r, w') \<Longrightarrow> fair a w w'"
  unfolding plays_fair_def by (metis snd_conv)

lemma plays_fair_frames: "frames times m \<Longrightarrow> plays_fair a m"
  by (rule plays_fairI) (auto dest: framesD intro: fair_same)

lemma plays_fair_basic: "plays_fair a (ret x)" "plays_fair a (fail e)"
  by (auto intro: plays_fair_frames frames_basic)

lemma plays_fair_trying:
  assumes "frames times m" "\<And>x. plays_fair a (k x)"
  shows "plays_fair a (trying m g k)"
proof (rule plays_fairI)
  fix w r w' assume t: "trying m g k w = (r, w')"
  obtain q w1 where q: "m w = (q, w1)" by fastforce
  show "fair a w w'"
  proof (cases q)
    case (Inl e)
    with t q framesD [OF assms(1) q] show ?thesis by (auto simp: trying_apply intro: fair_same)
  next
    case (Inr x)
    with t q have "k x w1 = (r, w')" by (simp add: trying_apply)
    from fair_frame [OF assms(1) q plays_fairD [OF assms(2) this]] show ?thesis .
  qed
qed

lemma plays_fair_pass: "frames times m \<Longrightarrow> (\<And>x. plays_fair a (k x)) \<Longrightarrow> plays_fair a (pass m k)"
  unfolding pass_def by (rule plays_fair_trying)

lemma plays_fair_then:
  assumes "plays_fair a m" "\<And>x. frames times (k x)"
  shows "plays_fair a (trying m g k)"
proof (rule plays_fairI)
  fix w r w' assume t: "trying m g k w = (r, w')"
  obtain q w1 where q: "m w = (q, w1)" by fastforce
  show "fair a w w'"
  proof (cases q)
    case (Inl e)
    with t q plays_fairD [OF assms(1) q] show ?thesis by (auto simp: trying_apply)
  next
    case (Inr x)
    with t q have "k x w1 = (r, w')" by (simp add: trying_apply)
    from fair_frame_after [OF assms(2) this plays_fairD [OF assms(1) q]] show ?thesis .
  qed
qed

lemma plays_fair_pass_then: "plays_fair a m \<Longrightarrow> (\<And>x. frames times (k x)) \<Longrightarrow> plays_fair a (pass m k)"
  unfolding pass_def by (rule plays_fair_then)

lemma plays_fair_observe:
  assumes "frames times m" "\<And>x. plays_fair a (k x)"
  shows "plays_fair a (observe m k)"
proof (rule plays_fairI)
  fix w r w' assume t: "observe m k w = (r, w')"
  obtain x w1 where q: "m w = (x, w1)" by fastforce
  with t have "k x w1 = (r, w')" by (simp add: observe_apply)
  from fair_frame [OF assms(1) q plays_fairD [OF assms(2) this]] show "fair a w w'" .
qed

lemma plays_fair_if: "plays_fair a m \<Longrightarrow> plays_fair a n \<Longrightarrow> plays_fair a (if c then m else n)"
  by simp

lemma calls_fair:
  "plays_fair a (dr_SaveInvitation (ds_repo svc) iv)" "plays_fair a (dr_DeleteUsersInvitations (ds_repo svc) d us)"
  "plays_fair a (resendInvitation svc iv)" "plays_fair a (drop_invitations svc d us)"
proof -
  show "plays_fair a (drop_invitations svc d us)"
    by (rule plays_fairI) (auto simp: drop_invitations_def split: prod.splits sum.splits if_splits dest: fair_Delete)
qed (auto intro: plays_fairI fair_Save fair_Delete fair_resend)

lemma SendInvitation_fair: "plays_fair a (SendInvitation svc ses iv)"
  unfolding SendInvitation_def Let_def
  by (intro plays_fair_trying plays_fair_observe plays_fair_if plays_fair_pass_then plays_fair_then calls_fair call_frames frames_basic)

lemma DeleteInvitation_fair: "plays_fair a (DeleteInvitation svc ses u d)"
proof -
  have "plays_fair a (trying (dr_DeleteUsersInvitations (ds_repo svc) d [u]) (Wrap svcErrRemoveEntity) ret)"
    by (intro plays_fair_then calls_fair frames_basic)
  then show ?thesis unfolding DeleteInvitation_def
    by (intro plays_fair_if plays_fair_trying [OF call_frames(1)] plays_fair_basic)
qed

lemma RoleRemoveMembers_fair: "plays_fair a (dom_RoleRemoveMembers svc ses d i us)"
proof -
  have "frames times (case BuiltInRoleActions (ds_roles svc) (ro_Name ro) of Inl _ \<Rightarrow> ret ()
      | Inr _ \<Rightarrow> trying (RoleListMembers (pm_repo (ds_roles svc)) (ro_ID ro) 0 0) (Wrap svcErrViewEntity)
          (\<lambda>membersPage. if mp_Total membersPage \<le> length us then fail svcErrRetainOneMember else ret ()))" for ro
    by (auto split: sum.splits intro!: frames_rules call_frames)
  then show ?thesis unfolding dom_RoleRemoveMembers_def
    by (intro plays_fair_trying plays_fair_pass plays_fair_pass_then calls_fair call_frames)
qed

lemma RemoveEntityMembers_fair: "plays_fair a (dom_RemoveEntityMembers svc ses d us)"
  unfolding dom_RemoveEntityMembers_def by (intro plays_fair_pass_then calls_fair call_frames)

lemma step_fair: "invitation_step svc a w w' \<Longrightarrow> fair a w w'"
  by (induction rule: invitation_step.induct)
    (auto dest: plays_fairD [OF SendInvitation_fair] plays_fairD [OF DeleteInvitation_fair] plays_fairD [OF RoleRemoveMembers_fair]
      plays_fairD [OF RemoveEntityMembers_fair] fair_Accept fair_RejectInvitation)

end

section \<open>The store of the deployed service\<close>

definition invitation_times :: "domains_world \<Rightarrow> times" where
  "invitation_times w u d = map_option (\<lambda>r. (at_null (di_ConfirmedAt r), at_null (di_RejectedAt r)))
     (List.find (invitation_of u d) (dt_invitations (committed (dw_domains w))))"

lemma find_map_same:
  assumes "\<And>r. invitation_of u d (f r) = invitation_of u d r"
  shows "List.find (invitation_of u d) (map f rs) = map_option f (List.find (invitation_of u d) rs)"
  by (induction rs) (auto simp: assms)

lemma touch_invitation_any:
  assumes "touch_invitation iv f d = (r, d')"
  shows "committed d' = committed d \<or> dt_invitations (committed d') =
    map (\<lambda>r. if invitation_of (iv_InviteeUserID iv) (iv_DomainID iv) r then f (toDBInvitation iv) r else r) (dt_invitations (committed d))"
proof -
  let ?st = "update_invitations (invitation_of (di_InviteeUserID (toDBInvitation iv)) (di_DomainID (toDBInvitation iv))) (f (toDBInvitation iv))"
  obtain q d1 where q: "db_exec ?st d = (q, d1)" by fastforce
  have d': "d' = d1" using assms q by (cases q) (auto simp: touch_invitation_def Let_def trying_apply split: if_splits)
  show ?thesis
  proof (cases q)
    case (Inl e)
    from db_exec_err [OF q [unfolded Inl]] d' show ?thesis by simp
  next
    case (Inr n)
    from db_exec_ok [OF q [unfolded Inr]] d' show ?thesis by (auto simp: update_invitations_def toDBInvitation_def)
  qed
qed

lemma dmr_SaveInvitation_any:
  assumes "dmr_SaveInvitation iv d = (r, d')"
  shows "committed d' = committed d \<or> (\<exists>row. dt_invitations (committed d') = dt_invitations (committed d) @ [row] \<and>
    invitation_of (iv_InviteeUserID iv) (iv_DomainID iv) row \<and> at_null (di_ConfirmedAt row) = 0 \<and> at_null (di_RejectedAt row) = 0 \<and>
    List.find (invitation_of (iv_InviteeUserID iv) (iv_DomainID iv)) (dt_invitations (committed d)) = None)"
proof -
  obtain q d1 where q: "db_exec (insert_invitation (toDBInvitation iv)) d = (q, d1)" by fastforce
  have d': "d' = d1" using assms q by (cases q) (auto simp: dmr_SaveInvitation_def trying_apply)
  show ?thesis
  proof (cases q)
    case (Inl e)
    from db_exec_err [OF q [unfolded Inl]] d' show ?thesis by simp
  next
    case (Inr n)
    let ?row = "(toDBInvitation iv)\<lparr>di_UpdatedAt := None, di_ConfirmedAt := None, di_RejectedAt := None\<rparr>"
    from db_exec_ok [OF q [unfolded Inr]] obtain t where t: "insert_invitation (toDBInvitation iv) (committed d) = Inr (t, n)" "committed d1 = t" by auto
    from t(1) have rs: "dt_invitations t = dt_invitations (committed d) @ [?row]"
      "distinct (map (\<lambda>r. (di_InviteeUserID r, di_DomainID r)) (dt_invitations (committed d) @ [?row]))"
      by (auto simp: insert_invitation_def Let_def split: if_splits)
    have "List.find (invitation_of (iv_InviteeUserID iv) (iv_DomainID iv)) (dt_invitations (committed d)) = None"
      using rs(2) by (force simp: find_None_iff invitation_of_def toDBInvitation_def)
    with rs(1) t(2) d' show ?thesis
      by (intro disjI2 exI [of _ ?row]) (simp add: invitation_of_def toDBInvitation_def at_null_def)
  qed
qed

lemma dmr_DeleteUsersInvitations_any:
  assumes "dmr_DeleteUsersInvitations e us d = (r, d')"
  shows "committed d' = committed d \<or> dt_invitations (committed d') =
    filter (\<lambda>r. \<not> (di_DomainID r = e \<and> di_InviteeUserID r \<in> set us)) (dt_invitations (committed d))"
proof (cases "us = []")
  case True
  with assms show ?thesis by (auto simp: dmr_DeleteUsersInvitations_def)
next
  case False
  let ?st = "delete_invitations (\<lambda>r. di_DomainID r = e \<and> di_InviteeUserID r \<in> set us)"
  obtain q d1 where q: "db_exec ?st d = (q, d1)" by fastforce
  have d': "d' = d1" using assms q False by (cases q) (auto simp: dmr_DeleteUsersInvitations_def trying_apply split: if_splits)
  show ?thesis
  proof (cases q)
    case (Inl e)
    from db_exec_err [OF q [unfolded Inl]] d' show ?thesis by simp
  next
    case (Inr n)
    from db_exec_ok [OF q [unfolded Inr]] d' show ?thesis by (auto simp: delete_invitations_def)
  qed
qed

lemma dmr_RetrieveInvitation_ok:
  assumes "dmr_RetrieveInvitation u d db = (Inr iv, db')"
  shows "\<exists>r. List.find (invitation_of u d) (dt_invitations (committed db)) = Some r \<and> invitation_of u d r \<and> iv = toInvitation r"
proof -
  let ?rs = "filter (invitation_of u d) (dt_invitations (committed db))"
  from assms obtain r rs where r: "?rs = r # rs" "iv = toInvitation r"
    by (auto simp: dmr_RetrieveInvitation_def dest!: trying_InrD db_query_ok driver_ret split: list.splits)
  then have "List.find (invitation_of u d) (dt_invitations (committed db)) = Some r" using find_filter [of "invitation_of u d"] by simp
  moreover have "invitation_of u d r" using r(1) by (metis filter_eq_ConsD)
  ultimately show ?thesis using r(2) by blast
qed

lemma dmr_RetrieveInvitation_reads: "reads (dmr_RetrieveInvitation u d)"
  unfolding dmr_RetrieveInvitation_def by (intro io_intros reads_driver)

lemma frames_members:
  assumes "\<And>s w. v (put s w) = v w"
  shows "frames v (svc_RoleAddMembers (lift_roles get put R) ses e i us)" "frames v (svc_RoleRemoveMembers (lift_roles get put R) ses e i us)"
    "frames v (svc_RemoveEntityMembers (lift_roles get put R) ses e us)" "frames v (RetrieveRole (pm_repo (lift_roles get put R)) i)"
    "frames v (RetrieveEntityRole (pm_repo (lift_roles get put R)) e i)" "frames v (RoleListMembers (pm_repo (lift_roles get put R)) i l n)"
proof -
  have now: "frames v (pm_now (lift_roles get put R))"
    by (auto simp: frames_def lift_roles_def assms split: prod.splits)
  note calls = frames_rules frames_observe frames_deferring now
  show "frames v (svc_RoleAddMembers (lift_roles get put R) ses e i us)" "frames v (svc_RoleRemoveMembers (lift_roles get put R) ses e i us)"
    "frames v (svc_RemoveEntityMembers (lift_roles get put R) ses e us)" "frames v (RetrieveRole (pm_repo (lift_roles get put R)) i)"
    "frames v (RetrieveEntityRole (pm_repo (lift_roles get put R)) e i)" "frames v (RoleListMembers (pm_repo (lift_roles get put R)) i l n)"
    unfolding svc_RoleAddMembers_def svc_RoleRemoveMembers_def svc_RemoveEntityMembers_def add_with_policies_def rollback_policies_def
    by (auto intro!: calls) (auto simp: lift_roles_def lift_repo_def intro!: frames_lifted assms)
qed

lemma invitation_times_views [simp]:
  "invitation_times (put_droles s w) = invitation_times w" "invitation_times (w\<lparr>dw_now := n\<rparr>) = invitation_times w"
  "invitation_times (w\<lparr>dw_store := st, dw_rdb := rd\<rparr>) = invitation_times w"
  by (simp_all add: invitation_times_def fun_eq_iff)

lemma invitation_times_committed: "committed (dw_domains w') = committed (dw_domains w) \<Longrightarrow> invitation_times w' = invitation_times w"
  by (simp add: invitation_times_def fun_eq_iff)

lemma find_filter_out: "List.find P (filter (\<lambda>r. \<not> Q r) rs) = None" if "\<And>r. P r \<Longrightarrow> Q r"
  using that by (induction rs) auto

lemma find_filter_keep: "List.find P (filter Q rs) = List.find P rs" if "\<And>r. P r \<Longrightarrow> Q r"
  using that by (induction rs) auto

lemma find_snoc: "List.find P (xs @ [x]) = (case List.find P xs of Some y \<Rightarrow> Some y | None \<Rightarrow> if P x then Some x else None)"
  by (induction xs) auto

lemma times_touched:
  assumes "dt_invitations (committed (dw_domains w')) = map (\<lambda>r. if invitation_of u d r then f r else r) (dt_invitations (committed (dw_domains w)))"
    and "\<And>r x y. invitation_of x y (f r) = invitation_of x y r"
  shows "invitation_times w' x y = (if x = u \<and> y = d then
     map_option (\<lambda>r. (at_null (di_ConfirmedAt (f r)), at_null (di_RejectedAt (f r)))) (List.find (invitation_of u d) (dt_invitations (committed (dw_domains w))))
     else invitation_times w x y)"
proof -
  let ?rs = "dt_invitations (committed (dw_domains w))" and ?F = "\<lambda>r. if invitation_of u d r then f r else r"
  have F: "List.find (invitation_of x y) (map ?F ?rs) = map_option ?F (List.find (invitation_of x y) ?rs)"
    by (rule find_map_same) (simp add: assms(2))
  have P: "invitation_of x y r" if "List.find (invitation_of x y) ?rs = Some r" for r using that by (auto simp: find_Some_iff)
  show ?thesis
  proof (cases "List.find (invitation_of x y) ?rs")
    case None
    then show ?thesis unfolding invitation_times_def assms(1) F by auto
  next
    case (Some r)
    have "invitation_of u d r \<longleftrightarrow> x = u \<and> y = d" using P [OF Some] by (auto simp: invitation_of_def)
    with Some show ?thesis unfolding invitation_times_def assms(1) F by auto
  qed
qed

interpretation invites: invitation_store deployed_domains invitation_times
proof
  note deployed = deployed_domains_def domains_repo_def lifted_eq
  fix iv w w' u d us i l n ses
  show "invitation_times w' = invitation_times w \<or>
      (invitation_times w (iv_InviteeUserID iv) (iv_DomainID iv) = None \<and>
       invitation_times w' = (invitation_times w)(iv_InviteeUserID iv := (invitation_times w (iv_InviteeUserID iv))(iv_DomainID iv \<mapsto> (0, 0))))"
    if "dr_SaveInvitation (ds_repo deployed_domains) iv w = (r, w')" for r
  proof -
    from that obtain db where db: "dmr_SaveInvitation iv (dw_domains w) = (r, db)" "dw_domains w' = db" by (auto simp: deployed)
    from dmr_SaveInvitation_any [OF db(1)] db(2) show ?thesis
      by (auto simp: invitation_times_def fun_eq_iff find_snoc invitation_of_def at_null_def split: option.splits)
  qed
  show "iv_InviteeUserID iv = u \<and> iv_DomainID iv = d \<and> invitation_times w u d = Some (iv_ConfirmedAt iv, iv_RejectedAt iv)"
    if "dr_RetrieveInvitation (ds_repo deployed_domains) u d w = (Inr iv, w')"
    using that by (auto simp: deployed invitation_times_def toInvitation_def invitation_of_def dest!: dmr_RetrieveInvitation_ok)
  show "invitation_times w' = invitation_times w \<or>
      invitation_times w' = set_confirmed (iv_InviteeUserID iv) (iv_DomainID iv) (iv_ConfirmedAt iv) (invitation_times w)"
    if "dr_UpdateConfirmation (ds_repo deployed_domains) iv w = (r, w')" for r
  proof -
    from that obtain db where db: "dmr_UpdateConfirmation iv (dw_domains w) = (r, db)" "dw_domains w' = db" by (auto simp: deployed)
    from touch_invitation_any [OF db(1) [unfolded dmr_UpdateConfirmation_def]] show ?thesis
    proof
      assume "committed db = committed (dw_domains w)"
      with db(2) invitation_times_committed [of w' w] show ?thesis by simp
    next
      assume t: "dt_invitations (committed db) = map (\<lambda>r. if invitation_of (iv_InviteeUserID iv) (iv_DomainID iv) r
        then r\<lparr>di_ConfirmedAt := di_ConfirmedAt (toDBInvitation iv), di_UpdatedAt := di_UpdatedAt (toDBInvitation iv)\<rparr> else r)
        (dt_invitations (committed (dw_domains w)))"
      have "invitation_times w' = set_confirmed (iv_InviteeUserID iv) (iv_DomainID iv) (iv_ConfirmedAt iv) (invitation_times w)"
        by (intro ext, subst times_touched [OF t [folded db(2)]])
          (auto simp: invitation_of_def set_confirmed_def invitation_times_def toDBInvitation_def null_at_def at_null_def option.map_comp comp_def)
      then show ?thesis ..
    qed
  qed
  show "invitation_times w' = invitation_times w \<or>
      invitation_times w' = set_rejected (iv_InviteeUserID iv) (iv_DomainID iv) (iv_RejectedAt iv) (invitation_times w)"
    if "dr_UpdateRejection (ds_repo deployed_domains) iv w = (r, w')" for r
  proof -
    from that obtain db where db: "dmr_UpdateRejection iv (dw_domains w) = (r, db)" "dw_domains w' = db" by (auto simp: deployed)
    from touch_invitation_any [OF db(1) [unfolded dmr_UpdateRejection_def]] show ?thesis
    proof
      assume "committed db = committed (dw_domains w)"
      with db(2) invitation_times_committed [of w' w] show ?thesis by simp
    next
      assume t: "dt_invitations (committed db) = map (\<lambda>r. if invitation_of (iv_InviteeUserID iv) (iv_DomainID iv) r
        then r\<lparr>di_RejectedAt := di_RejectedAt (toDBInvitation iv), di_UpdatedAt := di_UpdatedAt (toDBInvitation iv)\<rparr> else r)
        (dt_invitations (committed (dw_domains w)))"
      have "invitation_times w' = set_rejected (iv_InviteeUserID iv) (iv_DomainID iv) (iv_RejectedAt iv) (invitation_times w)"
        by (intro ext, subst times_touched [OF t [folded db(2)]])
          (auto simp: invitation_of_def set_rejected_def invitation_times_def toDBInvitation_def null_at_def at_null_def option.map_comp comp_def)
      then show ?thesis ..
    qed
  qed
  show "invitation_times w' = invitation_times w \<or>
      invitation_times w' = (\<lambda>u d'. if d' = d \<and> u \<in> set us then None else invitation_times w u d')"
    if "dr_DeleteUsersInvitations (ds_repo deployed_domains) d us w = (r, w')" for r
  proof -
    from that obtain db where db: "dmr_DeleteUsersInvitations d us (dw_domains w) = (r, db)" "dw_domains w' = db" by (auto simp: deployed)
    from dmr_DeleteUsersInvitations_any [OF db(1)] show ?thesis
    proof
      assume "committed db = committed (dw_domains w)"
      with db(2) invitation_times_committed [of w' w] show ?thesis by simp
    next
      assume t: "dt_invitations (committed db) = filter (\<lambda>r. \<not> (di_DomainID r = d \<and> di_InviteeUserID r \<in> set us)) (dt_invitations (committed (dw_domains w)))"
      have "List.find (invitation_of x y) (dt_invitations (committed db)) =
          (if y = d \<and> x \<in> set us then None else List.find (invitation_of x y) (dt_invitations (committed (dw_domains w))))" for x y
      proof (cases "y = d \<and> x \<in> set us")
        case True
        then show ?thesis unfolding t if_P [OF True]
          by (intro find_filter_out [where Q = "\<lambda>r. di_DomainID r = d \<and> di_InviteeUserID r \<in> set us"])
            (auto simp: invitation_of_def)
      next
        case False
        then show ?thesis unfolding t if_not_P [OF False]
          by (intro find_filter_keep) (auto simp: invitation_of_def)
      qed
      with db(2) have "invitation_times w' = (\<lambda>u d'. if d' = d \<and> u \<in> set us then None else invitation_times w u d')"
        by (auto simp: invitation_times_def fun_eq_iff)
      then show ?thesis ..
    qed
  qed
  show "frames invitation_times (dr_RetrieveInvitation (ds_repo deployed_domains) u d)"
    by (auto simp: frames_def deployed intro!: invitation_times_committed dest!: readsD [OF dmr_RetrieveInvitation_reads])
  show "frames invitation_times (dr_RetrieveDomainByID (ds_repo deployed_domains) d)"
    by (auto simp: frames_def deployed intro!: invitation_times_committed dest!: readsD [OF dmr_RetrieveDomainByID_reads])
  show "frames invitation_times (ds_now deployed_domains)" by (auto simp: frames_def deployed_domains_def dw_Now_def)
qed (auto simp: deployed_domains_def intro!: frames_members)

section \<open>The life of an invitation\<close>

text \<open>C11: An invitation is created pending; it is accepted or rejected only while it is pending, and only
  by the invited user; an accepted one never becomes pending or rejected again; only a rejected one is
  sent again; any other change of it is its removal. So it is after any call of the operations on
  invitations and members, with whatever failures of the databases and of the policy service, by any
  user, for the invitations of all users to all domains.\<close>

theorem invitation_life:
  assumes "invitation_step deployed_domains a w w'"
  shows "invitation_moves (map_option state_of (invitation_times w u d)) (map_option state_of (invitation_times w' u d)) \<and>
    (map_option state_of (invitation_times w u d) = Some Pending \<longrightarrow>
     map_option state_of (invitation_times w' u d) \<in> {Some Accepted, Some Rejected} \<longrightarrow> u = a)"
  using invites.step_fair [OF assms] unfolding invites.fair_def invites.state_def fair_move_def by blast

definition guest_session :: Session where
  "guest_session = owner_session\<lparr>s_UserID := ''u7''\<rparr>"

definition sample_invitation :: Invitation where
  "sample_invitation = \<lparr>iv_InvitedBy = [], iv_InviteeUserID = ''u7'', iv_DomainID = ''u1'', iv_DomainName = [], iv_RoleID = ''r1'',
     iv_RoleName = [], iv_CreatedAt = 0, iv_UpdatedAt = 0, iv_ConfirmedAt = 0, iv_RejectedAt = 0, iv_Resend = False\<rparr>"

definition invited_domains :: domains_world where
  "invited_domains = snd (SendInvitation deployed_domains owner_session sample_invitation sample_domains)"

definition members_of :: "domains_world \<Rightarrow> (string \<times> string) list" where
  "members_of w = map (\<lambda>m. (dm_RoleID m, dm_MemberID m)) (t_members (committed (dw_rdb w)))"

theorem invitation_life_witness:
  "case AcceptInvitation deployed_domains guest_session ''u1'' invited_domains of (r, w') \<Rightarrow>
     map_option state_of (invitation_times invited_domains ''u7'' ''u1'') = Some Pending \<and>
     map_option state_of (invitation_times w' ''u7'' ''u1'') = Some Accepted \<and> members_of w' = [(''r1'', ''u7'')] \<and>
     invitation_moves (map_option state_of (invitation_times invited_domains ''u7'' ''u1'')) (map_option state_of (invitation_times w' ''u7'' ''u1''))"
proof (cases "AcceptInvitation deployed_domains guest_session ''u1'' invited_domains")
  case (Pair r w')
  have "s_UserID guest_session = ''u7''" by (simp add: guest_session_def)
  from invitation_life [OF is_accept [OF Pair this]] 
  have m: "invitation_moves (map_option state_of (invitation_times invited_domains ''u7'' ''u1'')) (map_option state_of (invitation_times w' ''u7'' ''u1''))"
    by blast
  have "(\<lambda>(r, w'). map_option state_of (invitation_times invited_domains ''u7'' ''u1'') = Some Pending \<and>
     map_option state_of (invitation_times w' ''u7'' ''u1'') = Some Accepted \<and> members_of w' = [(''r1'', ''u7'')])
     (AcceptInvitation deployed_domains guest_session ''u1'' invited_domains)" by code_simp
  with m show ?thesis unfolding Pair by simp
qed

section \<open>Half an acceptance\<close>

text \<open>The database is lost when the service stores the confirmation.\<close>

definition failing_confirmation :: domains_world where
  "failing_confirmation = invited_domains\<lparr>dw_domains := (dw_domains invited_domains)
     \<lparr>faults := [None, None, None, None, Some (DriverError ''connection reset'')]\<rparr>\<rparr>"

definition half_accepted :: domains_world where
  "half_accepted = snd (AcceptInvitation deployed_domains guest_session ''u1'' failing_confirmation)"

text \<open>Accepting an invitation is not atomic: the user is added to the role before the confirmation is
  stored, and nothing undoes it when that fails. The call reports an error, the user is a member, the
  invitation is still pending; accepting it again fails for ever, because the user is already a member
  of the role, and rejecting it succeeds, which leaves a member whose invitation is rejected.\<close>

lemma acceptance_is_not_undone:
  "isl (fst (AcceptInvitation deployed_domains guest_session ''u1'' failing_confirmation)) \<and>
   members_of half_accepted = [(''r1'', ''u7'')] \<and>
   map_option state_of (invitation_times half_accepted ''u7'' ''u1'') = Some Pending \<and>
   isl (fst (AcceptInvitation deployed_domains guest_session ''u1'' half_accepted)) \<and>
   (case RejectInvitation deployed_domains guest_session ''u1'' half_accepted of
      (r, w') \<Rightarrow> \<not> isl r \<and> members_of w' = [(''r1'', ''u7'')] \<and> map_option state_of (invitation_times w' ''u7'' ''u1'') = Some Rejected)"
  by code_simp

end
