(* ===== verification/UsersSvc.thy ===== *)
theory UsersSvc
  imports DomainsSvc
begin

text \<open>
  The users service: users with their roles and credentials (\<open>users/users.go\<close>, \<open>users/roles.go\<close>),
  email verifications (\<open>users/verification.go\<close>), their tables and repository
  (\<open>users/postgres\<close>), and the service (\<open>users/service.go\<close>) over the token service, the policy
  service, a password hasher and a mailer.
\<close>

section \<open>Users\<close>

type_synonym usr_Role = "8 word"

definition usrUserRole :: usr_Role where "usrUserRole = 0"
definition usrAdminRole :: usr_Role where "usrAdminRole = 1"
definition usrAllRole :: usr_Role where "usrAllRole = 2"

definition Role_String :: "usr_Role \<Rightarrow> string" where
  "Role_String r = (if r = usrAdminRole then ''admin'' else if r = usrUserRole then ''user'' else if r = usrAllRole then ''all'' else ''unknown'')"

definition apiErrInvalidRole :: gerror where "apiErrInvalidRole = NewRequestError ''invalid client role''"

definition ToRole :: "string \<Rightarrow> gerror + usr_Role" where
  "ToRole s = (if s = [] \<or> s = ''user'' then Inr usrUserRole else if s = ''admin'' then Inr usrAdminRole
     else if s = ''all'' then Inr usrAllRole else Inl apiErrInvalidRole)"

record UserCredentials =
  uc_Username :: string
  uc_Secret :: string

record User =
  u_ID :: string
  u_FirstName :: string
  u_LastName :: string
  u_Tags :: "string list"
  u_Metadata :: Metadata
  u_PrivateMetadata :: Metadata
  u_Status :: Status
  u_Role :: usr_Role
  u_ProfilePicture :: string
  u_Credentials :: UserCredentials
  u_Email :: string
  u_CreatedAt :: int
  u_UpdatedAt :: int
  u_UpdatedBy :: string
  u_VerifiedAt :: int
  u_AuthProvider :: string

definition User0 :: User where
  "User0 = \<lparr>u_ID = [], u_FirstName = [], u_LastName = [], u_Tags = [], u_Metadata = None, u_PrivateMetadata = None,
     u_Status = EnabledStatus, u_Role = usrUserRole, u_ProfilePicture = [], u_Credentials = \<lparr>uc_Username = [], uc_Secret = []\<rparr>,
     u_Email = [], u_CreatedAt = 0, u_UpdatedAt = 0, u_UpdatedBy = [], u_VerifiedAt = 0, u_AuthProvider = []\<rparr>"

record UserReq =
  rq_FirstName :: "string option"
  rq_LastName :: "string option"
  rq_Metadata :: "Metadata option"
  rq_PrivateMetadata :: "Metadata option"
  rq_Tags :: "string list option"
  rq_ProfilePicture :: "string option"
  rq_UpdatedBy :: "string option"
  rq_UpdatedAt :: "int option"

datatype Operator = OrOp | AndOp

record UserPage =
  up_Total :: nat
  up_Offset :: nat
  up_Limit :: nat
  up_OnlyTotal :: bool
  up_Id :: string
  up_Order :: string
  up_Dir :: string
  up_Metadata :: Metadata
  up_Tags :: "string list \<times> Operator"
  up_Status :: Status
  up_IDs :: "string list"
  up_Domain :: string
  up_Role :: usr_Role
  up_Username :: string
  up_FirstName :: string
  up_LastName :: string
  up_Email :: string
  up_CreatedFrom :: int
  up_CreatedTo :: int

definition UserPage0 :: UserPage where
  "UserPage0 = \<lparr>up_Total = 0, up_Offset = 0, up_Limit = 0, up_OnlyTotal = False, up_Id = [], up_Order = [], up_Dir = [], up_Metadata = None,
     up_Tags = ([], OrOp), up_Status = EnabledStatus, up_IDs = [], up_Domain = [], up_Role = usrUserRole, up_Username = [],
     up_FirstName = [], up_LastName = [], up_Email = [], up_CreatedFrom = 0, up_CreatedTo = 0\<rparr>"

definition ToTagsQuery :: "string \<Rightarrow> string list \<times> Operator" where
  "ToTagsQuery s =
     (if ContainsStr s ''+'' then (map TrimSpace (split_on (CHR ''+'') s), AndOp)
      else if ContainsStr s '','' then (map TrimSpace (split_on (CHR '','') s), OrOp)
      else ([s], OrOp))"

record UsersPage =
  ug_Total :: nat
  ug_Offset :: nat
  ug_Limit :: nat
  ug_Users :: "User list"

section \<open>Verifications\<close>

text \<open>\<open>24 * time.Hour\<close> in nanoseconds.\<close>

definition VerificationExpiryDuration :: int where "VerificationExpiryDuration = 24 * 3600 * 1000000000"

definition errFailedToCreateUserVerification :: gerror where
  "errFailedToCreateUserVerification = New ''failed to create new user verification''"
definition errFailedToEncodeUserVerification :: gerror where
  "errFailedToEncodeUserVerification = New ''failed to encode user verification''"
definition errFailedToDecodeUserVerification :: gerror where
  "errFailedToDecodeUserVerification = New ''failed to decode user verification''"
definition svcErrInvalidUserVerification :: gerror where
  "svcErrInvalidUserVerification = NewServiceError ''invalid verification''"
definition svcErrUserVerificationExpired :: gerror where
  "svcErrUserVerificationExpired = New ''verification expired, please generate new verification''"

record UserVerification =
  uv_UserID :: string
  uv_Email :: string
  uv_OTP :: string
  uv_CreatedAt :: int
  uv_ExpiresAt :: int
  uv_UsedAt :: int

definition UserVerification0 :: UserVerification where
  "UserVerification0 = \<lparr>uv_UserID = [], uv_Email = [], uv_OTP = [], uv_CreatedAt = 0, uv_ExpiresAt = 0, uv_UsedAt = 0\<rparr>"

text \<open>
  The text of a verification in a mail. \<open>base64.URLEncoding\<close> is the standard alphabet with two
  letters replaced; the JSON codec of the three texts stays an argument.
\<close>

record json_codec =
  Marshal :: "string \<times> string \<times> string \<Rightarrow> gerror + string"
  Unmarshal :: "string \<Rightarrow> gerror + string \<times> string \<times> string"

definition url_letter :: "char \<Rightarrow> char" where
  "url_letter c = (if c = CHR ''+'' then CHR ''-'' else if c = CHR ''/'' then CHR ''_'' else c)"

definition std_letter :: "char \<Rightarrow> char option" where
  "std_letter c = (if c = CHR ''-'' then Some (CHR ''+'') else if c = CHR ''_'' then Some (CHR ''/'')
     else if c = CHR ''+'' \<or> c = CHR ''/'' then None else Some c)"

definition URLEncode :: "string \<Rightarrow> string" where
  "URLEncode s = map url_letter (EncodeToString s)"

definition URLDecode :: "string \<Rightarrow> gerror + string" where
  "URLDecode s = (if list_all (\<lambda>c. std_letter c \<noteq> None) s then DecodeString (map (\<lambda>c. the (std_letter c)) s)
     else Inl (Foreign ''illegal base64 data''))"

definition uv_Encode :: "json_codec \<Rightarrow> UserVerification \<Rightarrow> gerror + string" where
  "uv_Encode js u =
     (case Marshal js (uv_UserID u, uv_Email u, uv_OTP u) of
        Inl err \<Rightarrow> Inl (Wrap errFailedToEncodeUserVerification err)
      | Inr jsonBytes \<Rightarrow> Inr (URLEncode jsonBytes))"

definition uv_Decode :: "json_codec \<Rightarrow> string \<Rightarrow> gerror + UserVerification" where
  "uv_Decode js data =
     (case URLDecode data of
        Inl err \<Rightarrow> Inl (Wrap errFailedToDecodeUserVerification err)
      | Inr decodedPayload \<Rightarrow>
          (case Unmarshal js decodedPayload of
             Inl err \<Rightarrow> Inl (Wrap errFailedToDecodeUserVerification err)
           | Inr (i, e, p) \<Rightarrow>
               if i = [] \<or> e = [] \<or> p = [] then Inl svcErrInvalidUserVerification
               else Inr (UserVerification0\<lparr>uv_UserID := i, uv_Email := e, uv_OTP := p\<rparr>)))"

definition uv_Valid :: "int \<Rightarrow> UserVerification \<Rightarrow> gerror option" where
  "uv_Valid now u =
     (if uv_UserID u = [] \<or> uv_Email u = [] \<or> uv_OTP u = [] then Some svcErrInvalidUserVerification
      else if uv_CreatedAt u = 0 then Some svcErrInvalidUserVerification
      else if uv_ExpiresAt u = 0 then Some svcErrInvalidUserVerification
      else if uv_ExpiresAt u < uv_CreatedAt u then Some svcErrInvalidUserVerification
      else if uv_ExpiresAt u < now then Some svcErrUserVerificationExpired
      else if uv_UsedAt u \<noteq> 0 then Some svcErrUserVerificationExpired
      else None)"

definition uv_Match :: "UserVerification \<Rightarrow> UserVerification \<Rightarrow> gerror option" where
  "uv_Match u ruv =
     (if uv_UserID u \<noteq> uv_UserID ruv then Some svcErrInvalidUserVerification
      else if uv_Email u \<noteq> uv_Email ruv then Some svcErrInvalidUserVerification
      else if uv_OTP u \<noteq> uv_OTP ruv then Some svcErrInvalidUserVerification
      else None)"

section \<open>The tables\<close>

record DBUser =
  du_ID :: string
  du_Secret :: string
  du_Metadata :: Metadata
  du_PrivateMetadata :: Metadata
  du_Tags :: "string list"
  du_CreatedAt :: int
  du_UpdatedAt :: "int option"
  du_UpdatedBy :: "string option"
  du_Status :: Status
  du_Role :: "usr_Role option"
  du_Username :: "string option"
  du_FirstName :: "string option"
  du_LastName :: "string option"
  du_ProfilePicture :: "string option"
  du_Email :: string
  du_VerifiedAt :: "int option"
  du_AuthProvider :: "string option"

definition toDBUser :: "User \<Rightarrow> DBUser" where
  "toDBUser u = \<lparr>du_ID = u_ID u, du_Secret = uc_Secret (u_Credentials u), du_Metadata = metadata_column (u_Metadata u),
     du_PrivateMetadata = metadata_column (u_PrivateMetadata u), du_Tags = u_Tags u, du_CreatedAt = u_CreatedAt u,
     du_UpdatedAt = null_at (u_UpdatedAt u), du_UpdatedBy = toNullString (u_UpdatedBy u), du_Status = u_Status u,
     du_Role = Some (u_Role u), du_Username = toNullString (uc_Username (u_Credentials u)),
     du_FirstName = toNullString (u_FirstName u), du_LastName = toNullString (u_LastName u),
     du_ProfilePicture = toNullString (u_ProfilePicture u), du_Email = u_Email u, du_VerifiedAt = null_at (u_VerifiedAt u),
     du_AuthProvider = toNullString (u_AuthProvider u)\<rparr>"

definition ToUser :: "DBUser \<Rightarrow> User" where
  "ToUser dbu = \<lparr>u_ID = du_ID dbu, u_FirstName = nullString (du_FirstName dbu), u_LastName = nullString (du_LastName dbu),
     u_Tags = du_Tags dbu, u_Metadata = du_Metadata dbu, u_PrivateMetadata = du_PrivateMetadata dbu, u_Status = du_Status dbu,
     u_Role = (case du_Role dbu of Some r \<Rightarrow> r | None \<Rightarrow> usrUserRole), u_ProfilePicture = nullString (du_ProfilePicture dbu),
     u_Credentials = \<lparr>uc_Username = nullString (du_Username dbu), uc_Secret = du_Secret dbu\<rparr>, u_Email = du_Email dbu,
     u_CreatedAt = du_CreatedAt dbu, u_UpdatedAt = at_null (du_UpdatedAt dbu), u_UpdatedBy = nullString (du_UpdatedBy dbu),
     u_VerifiedAt = at_null (du_VerifiedAt dbu), u_AuthProvider = nullString (du_AuthProvider dbu)\<rparr>"

record dbUserVerification =
  dv_UserID :: string
  dv_Email :: string
  dv_OTP :: "string option"
  dv_CreatedAt :: "int option"
  dv_ExpiresAt :: "int option"
  dv_UsedAt :: "int option"

definition toDBUserVerification :: "UserVerification \<Rightarrow> dbUserVerification" where
  "toDBUserVerification uv = \<lparr>dv_UserID = uv_UserID uv, dv_Email = uv_Email uv, dv_OTP = toNullString (uv_OTP uv),
     dv_CreatedAt = null_at (uv_CreatedAt uv), dv_ExpiresAt = null_at (uv_ExpiresAt uv), dv_UsedAt = null_at (uv_UsedAt uv)\<rparr>"

definition toUserVerification :: "dbUserVerification \<Rightarrow> UserVerification" where
  "toUserVerification dbuv = \<lparr>uv_UserID = dv_UserID dbuv, uv_Email = dv_Email dbuv, uv_OTP = nullString (dv_OTP dbuv),
     uv_CreatedAt = at_null (dv_CreatedAt dbuv), uv_ExpiresAt = at_null (dv_ExpiresAt dbuv), uv_UsedAt = at_null (dv_UsedAt dbuv)\<rparr>"

record user_tables =
  ut_users :: "DBUser list"
  ut_verifications :: "dbUserVerification list"

type_synonym users_db = "user_tables database"

definition errEmailRegistered :: gerror where "errEmailRegistered = NewRequestError ''email id already registered''"
definition errUsernameTaken :: gerror where "errUsernameTaken = NewRequestError ''username not available''"
definition ErrUsernameNotAvailable :: gerror where "ErrUsernameNotAvailable = New ''username not available''"
definition ErrTryAgain :: gerror where "ErrTryAgain = New ''Something went wrong, please try again''"
definition repoErrMarshalBDEntity :: gerror where "repoErrMarshalBDEntity = New ''failed to marshal db entity''"
definition repoErrUnmarshalBDEntity :: gerror where "repoErrUnmarshalBDEntity = New ''failed to unmarshal db entity''"
definition repoErrRetrieveAllUsers :: gerror where "repoErrRetrieveAllUsers = New ''failed to retrieve all users''"

definition users_GetError :: "string \<Rightarrow> gerror option" where
  "users_GetError cname =
     (if cname = ''clients_email_key'' then Some errEmailRegistered
      else if cname = ''clients_username_key'' then Some errUsernameTaken else None)"

abbreviation users_eh :: "gerror \<Rightarrow> dberror \<Rightarrow> gerror" where
  "users_eh \<equiv> eh_HandleError users_GetError"

definition user_fits :: "DBUser \<Rightarrow> bool" where
  "user_fits r \<longleftrightarrow> length (du_ID r) \<le> 36 \<and> length (du_Email r) \<le> 254 \<and> fits_opt 254 (du_Username r) \<and> fits_opt 254 (du_FirstName r) \<and>
     fits_opt 254 (du_LastName r) \<and> fits_opt 254 (du_UpdatedBy r) \<and> fits_opt 254 (du_AuthProvider r)"

text \<open>The constraints: names are there, ids, emails and the usernames that are there are unique.\<close>

definition check_users :: "DBUser list \<Rightarrow> dberror option" where
  "check_users rs =
     (if \<not> list_all (\<lambda>r. du_FirstName r \<noteq> None) rs then Some (pg_not_null ''first_name'')
      else if \<not> list_all (\<lambda>r. du_LastName r \<noteq> None) rs then Some (pg_not_null ''last_name'')
      else if \<not> distinct (map du_ID rs) then Some (pg_unique ''clients_pkey'')
      else if \<not> distinct (map du_Email rs) then Some (pg_unique ''clients_email_key'')
      else if \<not> distinct (filter (\<lambda>x. x \<noteq> None) (map du_Username rs)) then Some (pg_unique ''clients_username_key'')
      else None)"

text \<open>A new row has the columns of the insert; the others are null.\<close>

definition insert_user :: "DBUser \<Rightarrow> (user_tables, DBUser) stmt" where
  "insert_user dbu t =
     (let row = dbu\<lparr>du_UpdatedAt := None, du_UpdatedBy := None, du_VerifiedAt := None\<rparr> in
      if \<not> user_fits row then Inl pg_truncated
      else (case check_users (ut_users t @ [row]) of
              Some e \<Rightarrow> Inl e
            | None \<Rightarrow> Inr (t\<lparr>ut_users := ut_users t @ [row]\<rparr>, row)))"

definition update_users :: "(DBUser \<Rightarrow> bool) \<Rightarrow> (DBUser \<Rightarrow> DBUser) \<Rightarrow> (user_tables, DBUser list) stmt" where
  "update_users p f t =
     (let changed = map f (filter p (ut_users t)); all_rows = map (\<lambda>r. if p r then f r else r) (ut_users t) in
      if \<not> list_all user_fits changed then Inl pg_truncated
      else (case check_users all_rows of
              Some e \<Rightarrow> Inl e
            | None \<Rightarrow> Inr (t\<lparr>ut_users := all_rows\<rparr>, changed)))"

text \<open>The verifications of a deleted user go with the row.\<close>

definition delete_user :: "string \<Rightarrow> (user_tables, nat) stmt" where
  "delete_user i t =
     Inr (t\<lparr>ut_users := filter (\<lambda>r. du_ID r \<noteq> i) (ut_users t),
            ut_verifications := filter (\<lambda>v. dv_UserID v \<noteq> i) (ut_verifications t)\<rparr>,
          length (filter (\<lambda>r. du_ID r = i) (ut_users t)))"

definition insert_verification :: "dbUserVerification \<Rightarrow> (user_tables, unit) stmt" where
  "insert_verification dbuv t =
     (let row = dbuv\<lparr>dv_UsedAt := None\<rparr> in
      if \<not> (length (dv_UserID row) \<le> 36 \<and> length (dv_Email row) \<le> 254 \<and> fits_opt 255 (dv_OTP row)) then Inl pg_truncated
      else if dv_UserID row \<notin> set (map du_ID (ut_users t)) then Inl pg_foreign
      else Inr (t\<lparr>ut_verifications := ut_verifications t @ [row]\<rparr>, ()))"

definition verification_of :: "string \<Rightarrow> string \<Rightarrow> dbUserVerification \<Rightarrow> bool" where
  "verification_of userID email v \<longleftrightarrow> dv_UserID v = userID \<and> dv_Email v = email"

text \<open>The latest first: null times come before all others in a descending order.\<close>

definition later :: "int option \<Rightarrow> int option \<Rightarrow> bool" where
  "later a b \<longleftrightarrow> (case b of None \<Rightarrow> False | Some y \<Rightarrow> (case a of None \<Rightarrow> True | Some x \<Rightarrow> y < x))"

fun latest :: "dbUserVerification list \<Rightarrow> dbUserVerification option" where
  "latest [] = None"
| "latest (v # vs) = (case latest vs of
     None \<Rightarrow> Some v
   | Some x \<Rightarrow> if later (dv_CreatedAt x) (dv_CreatedAt v) then Some x else Some v)"

definition update_verifications ::
  "(dbUserVerification \<Rightarrow> bool) \<Rightarrow> (dbUserVerification \<Rightarrow> dbUserVerification) \<Rightarrow> (user_tables, nat) stmt" where
  "update_verifications p f t =
     (if \<not> list_all (\<lambda>v. fits_opt 255 (dv_OTP (f v))) (filter p (ut_verifications t)) then Inl pg_truncated
      else Inr (t\<lparr>ut_verifications := map (\<lambda>v. if p v then f v else v) (ut_verifications t)\<rparr>, length (filter p (ut_verifications t))))"

section \<open>The repository\<close>

text \<open>The columns a query does not name have their zero value in the result.\<close>

definition without_account :: "DBUser \<Rightarrow> DBUser" where
  "without_account r = r\<lparr>du_Secret := [], du_ProfilePicture := None, du_AuthProvider := None\<rparr>"

definition first_user :: "gerror \<Rightarrow> DBUser list \<Rightarrow> (users_db, gerror, User) io" where
  "first_user wrapper rs = (case rs of
      [] \<Rightarrow> fail repoErrNotFound
    | r # _ \<Rightarrow> trying (driver (ret r)) (users_eh wrapper) (\<lambda>dbu. ret (ToUser dbu)))"

definition urr_Save :: "User \<Rightarrow> (users_db, gerror, User) io" where
  "urr_Save c =
     trying (db_exec (insert_user (toDBUser c))) (users_eh repoErrCreateEntity) (\<lambda>r.
     trying (driver (ret (r\<lparr>du_Secret := []\<rparr>))) (users_eh repoErrFailedOpDB) (\<lambda>dbu. ret (ToUser dbu)))"

definition urr_CheckSuperAdmin :: "string \<Rightarrow> (users_db, gerror, unit) io" where
  "urr_CheckSuperAdmin adminID =
     trying (db_query (\<lambda>t. filter (\<lambda>r. du_ID r = adminID \<and> du_Role r = Some usrAdminRole) (ut_users t))) (users_eh repoErrViewEntity) (\<lambda>rows.
     case rows of
       [] \<Rightarrow> fail repoErrNotFound
     | _ # _ \<Rightarrow> trying (driver (ret ())) (users_eh repoErrViewEntity) ret)"

definition urr_RetrieveByID :: "string \<Rightarrow> (users_db, gerror, User) io" where
  "urr_RetrieveByID i =
     trying (db_query (\<lambda>t. filter (\<lambda>r. du_ID r = i) (ut_users t))) (users_eh repoErrViewEntity) (first_user repoErrViewEntity)"

text \<open>Only enabled users are found by their email or username; an empty username is null and equals none.\<close>

definition urr_RetrieveByEmail :: "string \<Rightarrow> (users_db, gerror, User) io" where
  "urr_RetrieveByEmail email =
     trying (db_query (\<lambda>t. map (\<lambda>r. r\<lparr>du_ProfilePicture := None\<rparr>)
         (filter (\<lambda>r. du_Email r = email \<and> du_Status r = EnabledStatus) (ut_users t)))) (users_eh repoErrViewEntity)
       (first_user repoErrViewEntity)"

definition urr_RetrieveByUsername :: "string \<Rightarrow> (users_db, gerror, User) io" where
  "urr_RetrieveByUsername username =
     trying (db_query (\<lambda>t. map (\<lambda>r. r\<lparr>du_ProfilePicture := None\<rparr>)
         (filter (\<lambda>r. username \<noteq> [] \<and> du_Username r = Some username \<and> du_Status r = EnabledStatus) (ut_users t)))) (users_eh repoErrViewEntity)
       (first_user repoErrViewEntity)"

definition urr_update :: "(user_tables, DBUser list) stmt \<Rightarrow> (DBUser \<Rightarrow> DBUser) \<Rightarrow> (users_db, gerror, User) io" where
  "urr_update st returning =
     trying (db_exec st) (users_eh repoErrUpdateEntity) (\<lambda>rs. first_user repoErrUnmarshalBDEntity (map returning rs))"

abbreviation user_with :: "string \<Rightarrow> Status \<Rightarrow> DBUser \<Rightarrow> bool" where
  "user_with i s r \<equiv> du_ID r = i \<and> du_Status r = s"

definition touch_user :: "DBUser \<Rightarrow> DBUser \<Rightarrow> DBUser" where
  "touch_user dbu r = r\<lparr>du_UpdatedAt := du_UpdatedAt dbu, du_UpdatedBy := du_UpdatedBy dbu\<rparr>"

definition urr_UpdateUsername :: "User \<Rightarrow> (users_db, gerror, User) io" where
  "urr_UpdateUsername user =
     (let dbu = toDBUser user in
      urr_update (update_users (user_with (du_ID dbu) (du_Status dbu)) (\<lambda>r. touch_user dbu (r\<lparr>du_Username := du_Username dbu\<rparr>))) without_account)"

definition set_user_columns :: "UserReq \<Rightarrow> DBUser \<Rightarrow> DBUser" where
  "set_user_columns ur r =
     (let r1 = (case rq_FirstName ur of Some n \<Rightarrow> if n \<noteq> [] then r\<lparr>du_FirstName := Some n\<rparr> else r | None \<Rightarrow> r);
          r2 = (case rq_LastName ur of Some n \<Rightarrow> if n \<noteq> [] then r1\<lparr>du_LastName := Some n\<rparr> else r1 | None \<Rightarrow> r1);
          r3 = (case rq_Metadata ur of Some m \<Rightarrow> r2\<lparr>du_Metadata := metadata_column m\<rparr> | None \<Rightarrow> r2);
          r4 = (case rq_PrivateMetadata ur of Some m \<Rightarrow> r3\<lparr>du_PrivateMetadata := metadata_column m\<rparr> | None \<Rightarrow> r3);
          r5 = (case rq_Tags ur of Some ts \<Rightarrow> r4\<lparr>du_Tags := ts\<rparr> | None \<Rightarrow> r4);
          r6 = (case rq_ProfilePicture ur of Some p \<Rightarrow> r5\<lparr>du_ProfilePicture := toNullString p\<rparr> | None \<Rightarrow> r5);
          r7 = (case rq_UpdatedAt ur of Some n \<Rightarrow> r6\<lparr>du_UpdatedAt := null_at n\<rparr> | None \<Rightarrow> r6)
      in case rq_UpdatedBy ur of Some b \<Rightarrow> r7\<lparr>du_UpdatedBy := toNullString b\<rparr> | None \<Rightarrow> r7)"

definition sets_no_user_column :: "UserReq \<Rightarrow> bool" where
  "sets_no_user_column ur \<longleftrightarrow> (rq_FirstName ur = None \<or> rq_FirstName ur = Some []) \<and> (rq_LastName ur = None \<or> rq_LastName ur = Some []) \<and>
     rq_Metadata ur = None \<and> rq_PrivateMetadata ur = None \<and> rq_Tags ur = None \<and> rq_ProfilePicture ur = None \<and>
     rq_UpdatedAt ur = None \<and> rq_UpdatedBy ur = None"

definition urr_Update :: "string \<Rightarrow> UserReq \<Rightarrow> (users_db, gerror, User) io" where
  "urr_Update i ur =
     urr_update (if sets_no_user_column ur then (\<lambda>t. Inl pg_syntax) else update_users (user_with i EnabledStatus) (set_user_columns ur))
       (\<lambda>r. r\<lparr>du_Secret := [], du_AuthProvider := None\<rparr>)"

definition urr_UpdateEmail :: "User \<Rightarrow> (users_db, gerror, User) io" where
  "urr_UpdateEmail user =
     (let dbu = toDBUser user in
      urr_update (update_users (user_with (du_ID dbu) EnabledStatus)
        (\<lambda>r. touch_user dbu (r\<lparr>du_Email := du_Email dbu, du_VerifiedAt := None\<rparr>))) without_account)"

definition urr_UpdateRole :: "User \<Rightarrow> (users_db, gerror, User) io" where
  "urr_UpdateRole user =
     (let dbu = toDBUser user in
      urr_update (update_users (user_with (du_ID dbu) EnabledStatus) (\<lambda>r. touch_user dbu (r\<lparr>du_Role := du_Role dbu\<rparr>))) without_account)"

definition urr_UpdateSecret :: "User \<Rightarrow> (users_db, gerror, User) io" where
  "urr_UpdateSecret user =
     (let dbu = toDBUser user in
      urr_update (update_users (user_with (du_ID dbu) EnabledStatus) (\<lambda>r. touch_user dbu (r\<lparr>du_Secret := du_Secret dbu\<rparr>))) without_account)"

definition urr_ChangeStatus :: "User \<Rightarrow> (users_db, gerror, User) io" where
  "urr_ChangeStatus user =
     (let dbu = toDBUser user in
      urr_update (update_users (\<lambda>r. du_ID r = du_ID dbu) (\<lambda>r. touch_user dbu (r\<lparr>du_Status := du_Status dbu\<rparr>))) without_account)"

definition urr_UpdateVerifiedAt :: "User \<Rightarrow> (users_db, gerror, User) io" where
  "urr_UpdateVerifiedAt user =
     (let dbu = toDBUser user in
      urr_update (update_users (\<lambda>r. du_ID r = du_ID dbu \<and> du_Email r = du_Email dbu) (\<lambda>r. r\<lparr>du_VerifiedAt := du_VerifiedAt dbu\<rparr>)) without_account)"

definition urr_Delete :: "string \<Rightarrow> (users_db, gerror, unit) io" where
  "urr_Delete i = trying (db_exec (delete_user i)) (users_eh repoErrRemoveEntity) (\<lambda>rows. if rows = 0 then fail repoErrNotFound else ret ())"

definition urr_AddUserVerification :: "UserVerification \<Rightarrow> (users_db, gerror, unit) io" where
  "urr_AddUserVerification uv =
     trying (db_exec (insert_verification (toDBUserVerification uv))) (WrapDB repoErrCreateEntity) ret"

definition urr_RetrieveUserVerification :: "string \<Rightarrow> string \<Rightarrow> (users_db, gerror, UserVerification) io" where
  "urr_RetrieveUserVerification userID email =
     trying (db_query (\<lambda>t. latest (filter (verification_of userID email) (ut_verifications t)))) (WrapDB repoErrViewEntity) (\<lambda>row.
     case row of
       None \<Rightarrow> fail repoErrNotFound
     | Some v \<Rightarrow> trying (driver (ret v)) (WrapDB repoErrViewEntity) (\<lambda>dbuv. ret (toUserVerification dbuv)))"

definition urr_UpdateUserVerification :: "UserVerification \<Rightarrow> (users_db, gerror, unit) io" where
  "urr_UpdateUserVerification uv =
     (let dbuv = toDBUserVerification uv in
      trying (db_exec (update_verifications (verification_of (dv_UserID dbuv) (dv_Email dbuv))
          (\<lambda>v. v\<lparr>dv_OTP := dv_OTP dbuv, dv_UsedAt := dv_UsedAt dbuv\<rparr>))) (WrapDB repoErrUpdateEntity) (\<lambda>n.
      trying (driver (ret n)) (WrapDB repoErrUpdateEntity) (\<lambda>rows. if rows = 0 then fail repoErrNotFound else ret ())))"

subsection \<open>Listings\<close>

text \<open>
  Pattern matching (\<open>v ILIKE '%' || pattern || '%'\<close>), containment of JSON and the order of rows are
  those of the database, and arguments here.
\<close>

record pg_engine =
  pg_ilike :: "string \<Rightarrow> string \<Rightarrow> bool"
  pg_contains :: "Metadata \<Rightarrow> Metadata \<Rightarrow> bool"
  pg_sort :: "string \<Rightarrow> string \<Rightarrow> DBUser list \<Rightarrow> DBUser list"

definition like_opt :: "pg_engine \<Rightarrow> string \<Rightarrow> string option \<Rightarrow> bool" where
  "like_opt pg pattern x \<longleftrightarrow> pattern = [] \<or> (case x of None \<Rightarrow> False | Some v \<Rightarrow> pg_ilike pg pattern v)"

definition PageQuery :: "pg_engine \<Rightarrow> UserPage \<Rightarrow> DBUser \<Rightarrow> bool" where
  "PageQuery pg pm r \<longleftrightarrow>
     like_opt pg (up_FirstName pm) (du_FirstName r) \<and> like_opt pg (up_LastName pm) (du_LastName r) \<and>
     like_opt pg (up_Username pm) (du_Username r) \<and> like_opt pg (up_Email pm) (Some (du_Email r)) \<and> like_opt pg (up_Id pm) (Some (du_ID r)) \<and>
     (fst (up_Tags pm) = [] \<or> (case snd (up_Tags pm) of
        AndOp \<Rightarrow> set (fst (up_Tags pm)) \<subseteq> set (du_Tags r)
      | OrOp \<Rightarrow> set (fst (up_Tags pm)) \<inter> set (du_Tags r) \<noteq> {})) \<and>
     (up_Role pm = usrAllRole \<or> du_Role r = Some (up_Role pm)) \<and>
     (up_Metadata pm = None \<or> up_Metadata pm = Some [] \<or> pg_contains pg (du_Metadata r) (up_Metadata pm)) \<and>
     (up_IDs pm = [] \<or> du_ID r \<in> set (up_IDs pm)) \<and>
     (up_Status pm = AllStatuses \<or> du_Status r = up_Status pm) \<and>
     (up_CreatedFrom pm = 0 \<or> up_CreatedFrom pm \<le> du_CreatedAt r) \<and>
     (up_CreatedTo pm = 0 \<or> du_CreatedAt r \<le> up_CreatedTo pm)"

definition usr_applyOrdering :: "pg_engine \<Rightarrow> UserPage \<Rightarrow> DBUser list \<Rightarrow> DBUser list" where
  "usr_applyOrdering pg pm =
     (let col = (if up_Order pm \<in> {''username'', ''first_name'', ''last_name'', ''email'', ''created_at''} then up_Order pm
                 else ''COALESCE(updated_at, created_at)'');
          dir = (if up_Dir pm \<noteq> ''asc'' \<and> up_Dir pm \<noteq> ''desc'' then ''desc'' else up_Dir pm)
      in pg_sort pg col dir)"

text \<open>A page of the selected rows; the total comes with the rows, or from a query of its own when there is none.\<close>

definition select_users ::
  "pg_engine \<Rightarrow> UserPage \<Rightarrow> (DBUser \<Rightarrow> DBUser) \<Rightarrow> gerror \<Rightarrow> (users_db, gerror, UsersPage) io" where
  "select_users pg pm columns wrapper =
     trying (db_query (\<lambda>t. let sel = filter (PageQuery pg pm) (ut_users t) in
         (length sel, map columns (take (up_Limit pm) (drop (up_Offset pm) (usr_applyOrdering pg pm sel)))))) (users_eh wrapper) (\<lambda>(n, rs).
     trying (scan_rows rs) (users_eh repoErrViewEntity) (\<lambda>items.
     pass (if items = [] then trying (Total (\<lambda>t. length (filter (PageQuery pg pm) (ut_users t)))) (users_eh repoErrViewEntity) ret else ret n) (\<lambda>total.
     ret \<lparr>ug_Total = total, ug_Offset = up_Offset pm, ug_Limit = up_Limit pm, ug_Users = map ToUser items\<rparr>)))"

definition urr_RetrieveAll :: "pg_engine \<Rightarrow> UserPage \<Rightarrow> (users_db, gerror, UsersPage) io" where
  "urr_RetrieveAll pg pm =
     (if up_OnlyTotal pm then
        trying (Total (\<lambda>t. length (filter (PageQuery pg pm) (ut_users t)))) (users_eh repoErrViewEntity) (\<lambda>total.
        ret \<lparr>ug_Total = total, ug_Offset = up_Offset pm, ug_Limit = up_Limit pm, ug_Users = []\<rparr>)
      else select_users pg pm (\<lambda>r. r\<lparr>du_Secret := [], du_PrivateMetadata := None, du_AuthProvider := None\<rparr>) repoErrRetrieveAllUsers)"

definition urr_SearchUsers :: "pg_engine \<Rightarrow> UserPage \<Rightarrow> (users_db, gerror, UsersPage) io" where
  "urr_SearchUsers pg pm =
     select_users pg pm (\<lambda>r. (toDBUser User0)\<lparr>du_ID := du_ID r, du_Username := du_Username r, du_Metadata := du_Metadata r, du_PrivateMetadata := None,
       du_FirstName := du_FirstName r, du_LastName := du_LastName r, du_CreatedAt := du_CreatedAt r, du_UpdatedAt := du_UpdatedAt r\<rparr>) repoErrViewEntity"

definition urr_RetrieveAllByIDs :: "pg_engine \<Rightarrow> UserPage \<Rightarrow> (users_db, gerror, UsersPage) io" where
  "urr_RetrieveAllByIDs pg pm =
     (if up_IDs pm = [] \<and> up_Domain pm = []
      then ret \<lparr>ug_Total = up_Total pm, ug_Offset = up_Offset pm, ug_Limit = up_Limit pm, ug_Users = []\<rparr>
      else select_users pg pm (\<lambda>r. r\<lparr>du_Secret := [], du_PrivateMetadata := None, du_AuthProvider := None, du_ProfilePicture := None,
        du_VerifiedAt := None\<rparr>) repoErrViewEntity)"

section \<open>Names for users of an identity provider\<close>

definition is_lower :: "char \<Rightarrow> bool" where "is_lower c \<longleftrightarrow> 97 \<le> (of_char c :: nat) \<and> (of_char c :: nat) \<le> 122"
definition is_digit :: "char \<Rightarrow> bool" where "is_digit c \<longleftrightarrow> 48 \<le> (of_char c :: nat) \<and> (of_char c :: nat) \<le> 57"

definition name_mark :: "char \<Rightarrow> bool" where "name_mark c \<longleftrightarrow> c = CHR ''-'' \<or> c = CHR ''_''"

text \<open>The loop over the bytes: \<open>lastChar\<close> is the byte that was kept last, or zero after a byte that was not.\<close>

fun keep_name_chars :: "char \<Rightarrow> string \<Rightarrow> string" where
  "keep_name_chars lastChar [] = []"
| "keep_name_chars lastChar (c # s) =
     (if is_lower c \<or> is_digit c \<or> name_mark c
      then (if name_mark c \<and> c = lastChar then keep_name_chars lastChar s else c # keep_name_chars c s)
      else keep_name_chars (CHR 0x00) s)"

definition TrimRight_marks :: "string \<Rightarrow> string" where
  "TrimRight_marks s = rev (dropWhile name_mark (rev s))"

text \<open>\<open>strings.ToLower\<close> works on letters, by the tables of Unicode, and is an argument.\<close>

definition sanitizeForUsername :: "(string \<Rightarrow> string) \<Rightarrow> string \<Rightarrow> nat \<Rightarrow> string" where
  "sanitizeForUsername lower s maxLen =
     (if s = [] then []
      else let cleaned = TrimRight_marks (dropWhile name_mark (keep_name_chars (CHR 0x00) (lower s)))
           in if maxLen < length cleaned then TrimRight_marks (take maxLen cleaned) else cleaned)"

definition defaultUsernamePrefix :: string where "defaultUsernamePrefix = ''user''"

text \<open>The pattern \<open>^[a-z0-9][a-z0-9_-]{34}[a-z0-9]$\<close> is anchored: it matches all of a text or nothing.\<close>

definition usernameRegExp :: "string \<Rightarrow> bool" where
  "usernameRegExp s \<longleftrightarrow> length s = 36 \<and> list_all (\<lambda>c. is_lower c \<or> is_digit c \<or> name_mark c) s \<and> \<not> name_mark (hd s) \<and> \<not> name_mark (last s)"

definition extractEmailPrefix :: "(string \<Rightarrow> string) \<Rightarrow> string \<Rightarrow> string" where
  "extractEmailPrefix lower email =
     (let prefix = hd (split_on (CHR ''@'') email);
          cleaned = sanitizeForUsername lower (if usernameRegExp prefix then [] else prefix) 15
      in if cleaned = [] then defaultUsernamePrefix else cleaned)"

definition hex_digit :: "nat \<Rightarrow> char" where
  "hex_digit n = char_of (if n < 10 then 48 + n else 87 + n)"

definition hex_text :: "string \<Rightarrow> string" where
  "hex_text bs = concat (map (\<lambda>c. [hex_digit (of_char c div 16), hex_digit (of_char c mod 16)]) bs)"

section \<open>The service\<close>

record 'w UsersRepository =
  ur_RetrieveByID :: "string \<Rightarrow> ('w, gerror, User) io"
  ur_RetrieveAll :: "UserPage \<Rightarrow> ('w, gerror, UsersPage) io"
  ur_RetrieveByEmail :: "string \<Rightarrow> ('w, gerror, User) io"
  ur_RetrieveByUsername :: "string \<Rightarrow> ('w, gerror, User) io"
  ur_Update :: "string \<Rightarrow> UserReq \<Rightarrow> ('w, gerror, User) io"
  ur_UpdateUsername :: "User \<Rightarrow> ('w, gerror, User) io"
  ur_UpdateSecret :: "User \<Rightarrow> ('w, gerror, User) io"
  ur_UpdateEmail :: "User \<Rightarrow> ('w, gerror, User) io"
  ur_UpdateRole :: "User \<Rightarrow> ('w, gerror, User) io"
  ur_UpdateVerifiedAt :: "User \<Rightarrow> ('w, gerror, User) io"
  ur_ChangeStatus :: "User \<Rightarrow> ('w, gerror, User) io"
  ur_Delete :: "string \<Rightarrow> ('w, gerror, unit) io"
  ur_SearchUsers :: "UserPage \<Rightarrow> ('w, gerror, UsersPage) io"
  ur_CheckSuperAdmin :: "string \<Rightarrow> ('w, gerror, unit) io"
  ur_Save :: "User \<Rightarrow> ('w, gerror, User) io"
  ur_AddUserVerification :: "UserVerification \<Rightarrow> ('w, gerror, unit) io"
  ur_RetrieveUserVerification :: "string \<Rightarrow> string \<Rightarrow> ('w, gerror, UserVerification) io"
  ur_UpdateUserVerification :: "UserVerification \<Rightarrow> ('w, gerror, unit) io"

record IssueReq =
  ir_UserId :: string
  ir_UserRole :: "32 word"
  ir_Type :: "32 word"
  ir_Verified :: bool
  ir_Description :: string

record 'w users_service =
  us_repo :: "'w UsersRepository"
  us_Issue :: "IssueReq \<Rightarrow> ('w, gerror, Token) io"
  us_Refresh :: "string \<Rightarrow> bool \<Rightarrow> ('w, gerror, Token) io"
  us_Revoke :: "string \<Rightarrow> string \<Rightarrow> ('w, gerror, unit) io"
  us_ListUserRefreshTokens :: "string \<Rightarrow> ('w, gerror, TokenInfo list) io"
  us_idProvider :: "('w, gerror, string) io"
  us_AddPolicy :: "Policy \<Rightarrow> ('w, gerror, unit) io"
  us_AddPolicies :: "Policy list \<Rightarrow> ('w, gerror, unit) io"
  us_DeletePolicies :: "Policy list \<Rightarrow> ('w, gerror, unit) io"
  us_DeletePolicyFilter :: "Policy \<Rightarrow> ('w, gerror, unit) io"
  us_Hash :: "string \<Rightarrow> ('w, gerror, string) io"
  us_Compare :: "string \<Rightarrow> string \<Rightarrow> gerror option"
  us_mailVerification :: "string list \<Rightarrow> string \<Rightarrow> string \<Rightarrow> ('w, gerror, unit) io"
  us_mailPasswordReset :: "string list \<Rightarrow> string \<Rightarrow> string \<Rightarrow> ('w, gerror, unit) io"
  us_now :: "'w \<Rightarrow> int \<times> 'w"
  us_randRead :: "nat \<Rightarrow> ('w, gerror, string) io"
  us_uuid :: "('w, gerror, string) io"
  us_json :: json_codec
  us_isAddress :: "string \<Rightarrow> bool"
  us_ToLower :: "string \<Rightarrow> string"

definition errRecoveryToken :: gerror where "errRecoveryToken = NewServiceError ''failed to generate password recovery token''"
definition errLoginDisableUser :: gerror where "errLoginDisableUser = NewAuthNError ''failed to login in disabled user''"
definition errMatchUserVerification :: gerror where
  "errMatchUserVerification = NewRequestError ''user verification does not match with stored verification''"
definition errSimilarUpdateEmail :: gerror where "errSimilarUpdateEmail = NewRequestError ''new email is similar to the current email''"
definition svcErrHashPassword :: gerror where "svcErrHashPassword = NewServiceError ''failed to hash password''"
definition svcErrUserAlreadyVerified :: gerror where "svcErrUserAlreadyVerified = NewServiceError ''user already verified''"
definition svcErrEnableUser :: gerror where "svcErrEnableUser = NewServiceError ''failed to enable user''"
definition svcErrDisableUser :: gerror where "svcErrDisableUser = NewServiceError ''failed to disable user''"
definition svcErrExternalAuthProviderCouldNotUpdate :: gerror where
  "svcErrExternalAuthProviderCouldNotUpdate = New ''account details can only be updated through your authentication provider's settings''"

definition NewInternalErrorWithErr :: "gerror \<Rightarrow> gerror" where
  "NewInternalErrorWithErr err = GErr InternalErr ''internal server error'' (Some err)"

definition usr_checkSuperAdmin :: "'w users_service \<Rightarrow> Session \<Rightarrow> ('w, gerror, unit) io" where
  "usr_checkSuperAdmin svc session =
     (if \<not> s_SuperAdmin session then trying (ur_CheckSuperAdmin (us_repo svc) (s_UserID session)) (Wrap svcErrAuthorization) ret else ret ())"

text \<open>The test at the beginning of the operations on one user.\<close>

definition self_or_super :: "'w users_service \<Rightarrow> Session \<Rightarrow> string \<Rightarrow> ('w, gerror, unit) io" where
  "self_or_super svc session i = (if s_UserID session \<noteq> i then usr_checkSuperAdmin svc session else ret ())"

definition user_policy :: "string \<Rightarrow> string \<Rightarrow> Policy" where
  "user_policy userID relation = Policy0\<lparr>p_SubjectType := UserType, p_Subject := userID, p_Relation := relation,
     p_ObjectType := PlatformType, p_Object := MagistralaObject\<rparr>"

definition user_policies :: "string \<Rightarrow> usr_Role \<Rightarrow> Policy list" where
  "user_policies userID role = user_policy userID MemberRelation # (if role = usrAdminRole then [user_policy userID AdministratorRelation] else [])"

definition addUserPolicy :: "'w users_service \<Rightarrow> string \<Rightarrow> usr_Role \<Rightarrow> ('w, gerror, unit) io" where
  "addUserPolicy svc userID role = trying (us_AddPolicies svc (user_policies userID role)) (Wrap svcErrAddPolicies) ret"

definition addUserPolicyRollback :: "'w users_service \<Rightarrow> string \<Rightarrow> usr_Role \<Rightarrow> ('w, gerror, unit) io" where
  "addUserPolicyRollback svc userID role = trying (us_DeletePolicies svc (user_policies userID role)) (Wrap svcErrDeletePolicies) ret"

definition updateUserPolicy :: "'w users_service \<Rightarrow> string \<Rightarrow> usr_Role \<Rightarrow> ('w, gerror, unit) io" where
  "updateUserPolicy svc userID role =
     (if role = usrAdminRole then trying (us_AddPolicy svc (user_policy userID AdministratorRelation)) (Wrap svcErrAddPolicies) ret
      else trying (us_DeletePolicyFilter svc (user_policy userID AdministratorRelation)) (Wrap svcErrDeletePolicies) ret)"

definition usr_Register :: "'w users_service \<Rightarrow> Session \<Rightarrow> User \<Rightarrow> bool \<Rightarrow> ('w, gerror, User) io" where
  "usr_Register svc session u selfRegister =
     pass (if \<not> selfRegister then usr_checkSuperAdmin svc session else ret ()) (\<lambda>_.
     trying (us_idProvider svc) (Wrap svcErrIssueProviderID) (\<lambda>userID.
     pass (if uc_Secret (u_Credentials u) \<noteq> [] then
             trying (us_Hash svc (uc_Secret (u_Credentials u))) (Wrap svcErrHashPassword) (\<lambda>hash. ret (u\<lparr>u_Credentials := (u_Credentials u)\<lparr>uc_Secret := hash\<rparr>\<rparr>))
           else ret u) (\<lambda>u1.
     if u_Status u1 \<noteq> DisabledStatus \<and> u_Status u1 \<noteq> EnabledStatus then fail svcErrInvalidStatus
     else if u_Role u1 \<noteq> usrUserRole \<and> u_Role u1 \<noteq> usrAdminRole then fail svcErrInvalidRole
     else observe (us_now svc) (\<lambda>now.
       let u2 = u1\<lparr>u_ID := userID, u_CreatedAt := now\<rparr> in
       trying (addUserPolicy svc (u_ID u2) (u_Role u2)) (Wrap svcErrAddPolicies) (\<lambda>_.
       deferring (addUserPolicyRollback svc (u_ID u2) (u_Role u2)) (\<lambda>err errRollback. Wrap (Wrap errRollbackTx errRollback) err)
         (trying (ur_Save (us_repo svc) u2) (Wrap svcErrCreateEntity) ret))))))"

subsection \<open>Verification of emails\<close>

definition NewUserVerification :: "'w users_service \<Rightarrow> string \<Rightarrow> string \<Rightarrow> ('w, gerror, UserVerification) io" where
  "NewUserVerification svc userID email =
     trying (us_randRead svc 32) (Wrap errFailedToCreateUserVerification) (\<lambda>randomBytes.
     observe (us_now svc) (\<lambda>created. observe (us_now svc) (\<lambda>now.
     ret \<lparr>uv_UserID = userID, uv_Email = email, uv_OTP = URLEncode randomBytes, uv_CreatedAt = created,
       uv_ExpiresAt = now + VerificationExpiryDuration, uv_UsedAt = 0\<rparr>)))"

definition mail_verification :: "'w users_service \<Rightarrow> User \<Rightarrow> UserVerification \<Rightarrow> ('w, gerror, unit) io" where
  "mail_verification svc dbUser uv =
     (case uv_Encode (us_json svc) uv of
        Inl err \<Rightarrow> fail (Wrap svcErrCreateEntity err)
      | Inr uvs \<Rightarrow> trying (us_mailVerification svc [u_Email dbUser] (uc_Username (u_Credentials dbUser)) uvs) (Wrap svcErrCreateEntity) ret)"

definition usr_SendVerification :: "'w users_service \<Rightarrow> Session \<Rightarrow> ('w, gerror, unit) io" where
  "usr_SendVerification svc session =
     trying (ur_RetrieveByID (us_repo svc) (s_UserID session)) (Wrap svcErrViewEntity) (\<lambda>dbUser.
     if u_VerifiedAt dbUser \<noteq> 0 then fail svcErrUserAlreadyVerified
     else observe (ur_RetrieveUserVerification (us_repo svc) (u_ID dbUser) (u_Email dbUser)) (\<lambda>found.
       case (case found of Inr uv \<Rightarrow> Inr uv | Inl err \<Rightarrow> if err \<noteq> repoErrNotFound then Inl err else Inr UserVerification0) of
         Inl err \<Rightarrow> fail (Wrap svcErrCreateEntity err)
       | Inr uv \<Rightarrow>
           observe (us_now svc) (\<lambda>now.
           if uv_Valid now uv = None then mail_verification svc dbUser uv
           else trying (NewUserVerification svc (u_ID dbUser) (u_Email dbUser)) (Wrap svcErrCreateEntity) (\<lambda>uv'.
             trying (ur_AddUserVerification (us_repo svc) uv') (Wrap svcErrCreateEntity) (\<lambda>_. mail_verification svc dbUser uv')))))"

definition usr_VerifyEmail :: "'w users_service \<Rightarrow> string \<Rightarrow> ('w, gerror, User) io" where
  "usr_VerifyEmail svc token =
     (case uv_Decode (us_json svc) token of
        Inl err \<Rightarrow> fail (Wrap svcErrInvalidUserVerification err)
      | Inr received \<Rightarrow>
          trying (ur_RetrieveUserVerification (us_repo svc) (uv_UserID received) (uv_Email received)) (Wrap svcErrViewEntity) (\<lambda>stored.
          guarded (map_option (Wrap errMatchUserVerification) (uv_Match stored received))
          (observe (us_now svc) (\<lambda>now.
           guarded (map_option (\<lambda>err. if err = svcErrUserVerificationExpired then err else Wrap svcErrMalformedEntity err) (uv_Valid now stored))
           (observe (us_now svc) (\<lambda>used.
            trying (ur_UpdateUserVerification (us_repo svc) (stored\<lparr>uv_UsedAt := used\<rparr>)) (Wrap svcErrUpdateEntity) (\<lambda>_.
            observe (us_now svc) (\<lambda>verified.
            trying (ur_UpdateVerifiedAt (us_repo svc) (User0\<lparr>u_ID := uv_UserID stored, u_Email := uv_Email stored, u_VerifiedAt := verified\<rparr>))
              (\<lambda>err. if err = repoErrNotFound then svcErrInvalidUserVerification else Wrap svcErrUpdateEntity err) ret))))))))"

subsection \<open>Tokens\<close>

definition usr_IssueToken :: "'w users_service \<Rightarrow> string \<Rightarrow> string \<Rightarrow> string \<Rightarrow> ('w, gerror, Token) io" where
  "usr_IssueToken svc identity secret description =
     trying (if us_isAddress svc identity then ur_RetrieveByEmail (us_repo svc) identity else ur_RetrieveByUsername (us_repo svc) identity)
       (\<lambda>err. if err = repoErrNotFound then Wrap svcErrLogin err else Wrap svcErrAuthentication err) (\<lambda>dbUser.
     guarded (map_option (Wrap svcErrLogin) (us_Compare svc secret (uc_Secret (u_Credentials dbUser))))
       (us_Issue svc \<lparr>ir_UserId = u_ID dbUser, ir_UserRole = ucast (u_Role dbUser + 1), ir_Type = AccessKey,
          ir_Verified = (u_VerifiedAt dbUser \<noteq> 0), ir_Description = description\<rparr>))"

text \<open>The test before the operations on refresh tokens: only the disabled status is refused.\<close>

definition not_disabled :: "'w users_service \<Rightarrow> Session \<Rightarrow> (User \<Rightarrow> ('w, gerror, 'a) io) \<Rightarrow> ('w, gerror, 'a) io" where
  "not_disabled svc session k =
     trying (ur_RetrieveByID (us_repo svc) (s_UserID session)) (Wrap svcErrAuthentication) (\<lambda>dbUser.
     if u_Status dbUser = DisabledStatus then fail (Wrap svcErrAuthentication errLoginDisableUser) else k dbUser)"

definition usr_RefreshToken :: "'w users_service \<Rightarrow> Session \<Rightarrow> string \<Rightarrow> ('w, gerror, Token) io" where
  "usr_RefreshToken svc session refreshToken = not_disabled svc session (\<lambda>dbUser. us_Refresh svc refreshToken (u_VerifiedAt dbUser \<noteq> 0))"

definition usr_RevokeRefreshToken :: "'w users_service \<Rightarrow> Session \<Rightarrow> string \<Rightarrow> ('w, gerror, unit) io" where
  "usr_RevokeRefreshToken svc session tokenID =
     not_disabled svc session (\<lambda>_.
     trying (us_Revoke svc (s_UserID session) tokenID)
       (\<lambda>err. if Contains err svcErrNotFound then Wrap svcErrNotFound err else Wrap svcErrRemoveEntity err) ret)"

definition usr_ListActiveRefreshTokens :: "'w users_service \<Rightarrow> Session \<Rightarrow> ('w, gerror, TokenInfo list) io" where
  "usr_ListActiveRefreshTokens svc session =
     not_disabled svc session (\<lambda>_. trying (us_ListUserRefreshTokens svc (s_UserID session)) (Wrap svcErrAuthentication) ret)"

subsection \<open>Views and updates\<close>

definition usr_View :: "'w users_service \<Rightarrow> Session \<Rightarrow> string \<Rightarrow> ('w, gerror, User) io" where
  "usr_View svc session i =
     trying (ur_RetrieveByID (us_repo svc) i) (Wrap svcErrViewEntity) (\<lambda>user.
     observe (self_or_super svc session i) (\<lambda>r.
     case r of
       Inl err \<Rightarrow> ret (User0\<lparr>u_FirstName := u_FirstName user, u_LastName := u_LastName user, u_ID := u_ID user, u_Metadata := u_Metadata user,
         u_Credentials := \<lparr>uc_Username = uc_Username (u_Credentials user), uc_Secret = []\<rparr>\<rparr>)
     | Inr _ \<Rightarrow> ret (user\<lparr>u_Credentials := (u_Credentials user)\<lparr>uc_Secret := []\<rparr>\<rparr>)))"

definition usr_ViewProfile :: "'w users_service \<Rightarrow> Session \<Rightarrow> ('w, gerror, User) io" where
  "usr_ViewProfile svc session =
     trying (ur_RetrieveByID (us_repo svc) (s_UserID session)) (Wrap svcErrViewEntity) (\<lambda>user.
     ret (user\<lparr>u_Credentials := (u_Credentials user)\<lparr>uc_Secret := []\<rparr>\<rparr>))"

definition usr_ListUsers :: "'w users_service \<Rightarrow> Session \<Rightarrow> UserPage \<Rightarrow> ('w, gerror, UsersPage) io" where
  "usr_ListUsers svc session pm =
     pass (usr_checkSuperAdmin svc session) (\<lambda>_.
     trying (ur_RetrieveAll (us_repo svc) (pm\<lparr>up_Role := usrAllRole\<rparr>)) (Wrap svcErrViewEntity) ret)"

definition usr_SearchUsers :: "'w users_service \<Rightarrow> UserPage \<Rightarrow> ('w, gerror, UsersPage) io" where
  "usr_SearchUsers svc pm =
     trying (ur_SearchUsers (us_repo svc) (UserPage0\<lparr>up_Offset := up_Offset pm, up_Limit := up_Limit pm, up_FirstName := up_FirstName pm,
       up_LastName := up_LastName pm, up_Username := up_Username pm, up_Id := up_Id pm, up_Role := usrUserRole\<rparr>)) (Wrap svcErrViewEntity) ret"

definition changed :: "string option \<Rightarrow> string \<Rightarrow> bool" where
  "changed updated old = (case updated of None \<Rightarrow> False | Some x \<Rightarrow> x \<noteq> old)"

text \<open>The end of three operations: the request with the time and the user, sent to the repository.\<close>

definition update_by :: "'w users_service \<Rightarrow> Session \<Rightarrow> string \<Rightarrow> UserReq \<Rightarrow> ('w, gerror, User) io" where
  "update_by svc session i usr =
     observe (us_now svc) (\<lambda>updatedAt.
     trying (ur_Update (us_repo svc) i (usr\<lparr>rq_UpdatedAt := Some updatedAt, rq_UpdatedBy := Some (s_UserID session)\<rparr>)) (Wrap svcErrUpdateEntity) ret)"

definition usr_Update :: "'w users_service \<Rightarrow> Session \<Rightarrow> string \<Rightarrow> UserReq \<Rightarrow> ('w, gerror, User) io" where
  "usr_Update svc session i usr =
     pass (self_or_super svc session i) (\<lambda>_.
     trying (ur_RetrieveByID (us_repo svc) i) (Wrap svcErrUpdateEntity) (\<lambda>u.
     if u_AuthProvider u \<noteq> [] \<and> (changed (rq_FirstName usr) (u_FirstName u) \<or> changed (rq_LastName usr) (u_LastName u) \<or>
         changed (rq_ProfilePicture usr) (u_ProfilePicture u))
     then fail svcErrExternalAuthProviderCouldNotUpdate
     else update_by svc session i usr))"

definition usr_UpdateTags :: "'w users_service \<Rightarrow> Session \<Rightarrow> string \<Rightarrow> UserReq \<Rightarrow> ('w, gerror, User) io" where
  "usr_UpdateTags svc session i usr = pass (self_or_super svc session i) (\<lambda>_. update_by svc session i usr)"

definition usr_UpdateProfilePicture :: "'w users_service \<Rightarrow> Session \<Rightarrow> string \<Rightarrow> UserReq \<Rightarrow> ('w, gerror, User) io" where
  "usr_UpdateProfilePicture svc session i usr =
     pass (self_or_super svc session i) (\<lambda>_.
     trying (ur_RetrieveByID (us_repo svc) i) (Wrap svcErrUpdateEntity) (\<lambda>u.
     if u_AuthProvider u \<noteq> [] then fail svcErrExternalAuthProviderCouldNotUpdate else update_by svc session i usr))"

definition usr_UpdateEmail :: "'w users_service \<Rightarrow> Session \<Rightarrow> string \<Rightarrow> string \<Rightarrow> ('w, gerror, User) io" where
  "usr_UpdateEmail svc session userID email =
     pass (self_or_super svc session userID) (\<lambda>_.
     trying (ur_RetrieveByID (us_repo svc) userID) (Wrap svcErrUpdateEntity) (\<lambda>oldUsr.
     if u_AuthProvider oldUsr \<noteq> [] then fail svcErrExternalAuthProviderCouldNotUpdate
     else if u_Email oldUsr = email then fail errSimilarUpdateEmail
     else observe (us_now svc) (\<lambda>now.
       trying (ur_UpdateEmail (us_repo svc) (User0\<lparr>u_ID := userID, u_Email := email, u_UpdatedAt := now, u_UpdatedBy := s_UserID session, u_VerifiedAt := 0\<rparr>))
         (Wrap svcErrUpdateEntity) ret)))"

definition usr_SendPasswordReset :: "'w users_service \<Rightarrow> string \<Rightarrow> ('w, gerror, unit) io" where
  "usr_SendPasswordReset svc email =
     trying (ur_RetrieveByEmail (us_repo svc) email) (Wrap svcErrViewEntity) (\<lambda>user.
     trying (us_Issue svc \<lparr>ir_UserId = u_ID user, ir_UserRole = ucast (u_Role user + 1), ir_Type = RecoveryKey, ir_Verified = False, ir_Description = []\<rparr>)
       (Wrap errRecoveryToken) (\<lambda>token.
     trying (us_mailPasswordReset svc [email] (uc_Username (u_Credentials user)) (AccessTok token)) NewInternalErrorWithErr ret))"

definition usr_ResetSecret :: "'w users_service \<Rightarrow> Session \<Rightarrow> string \<Rightarrow> ('w, gerror, unit) io" where
  "usr_ResetSecret svc session secret =
     trying (ur_RetrieveByID (us_repo svc) (s_UserID session)) (Wrap svcErrViewEntity) (\<lambda>u.
     trying (us_Hash svc secret) (Wrap svcErrMalformedEntity) (\<lambda>hash.
     observe (us_now svc) (\<lambda>now.
     trying (ur_UpdateSecret (us_repo svc) (User0\<lparr>u_ID := u_ID u, u_Email := u_Email u, u_Credentials := \<lparr>uc_Username = [], uc_Secret = hash\<rparr>,
         u_UpdatedAt := now, u_UpdatedBy := s_UserID session\<rparr>)) (Wrap svcErrAuthorization) (\<lambda>_. ret ()))))"

definition usr_UpdateSecret :: "'w users_service \<Rightarrow> Session \<Rightarrow> string \<Rightarrow> string \<Rightarrow> ('w, gerror, User) io" where
  "usr_UpdateSecret svc session oldSecret newSecret =
     trying (ur_RetrieveByID (us_repo svc) (s_UserID session)) (Wrap svcErrViewEntity) (\<lambda>dbUser.
     pass (usr_IssueToken svc (uc_Username (u_Credentials dbUser)) oldSecret []) (\<lambda>_.
     trying (us_Hash svc newSecret) (Wrap svcErrMalformedEntity) (\<lambda>hash.
     observe (us_now svc) (\<lambda>now.
     trying (ur_UpdateSecret (us_repo svc) (dbUser\<lparr>u_Credentials := (u_Credentials dbUser)\<lparr>uc_Secret := hash\<rparr>, u_UpdatedAt := now, u_UpdatedBy := s_UserID session\<rparr>))
       (Wrap svcErrUpdateEntity) ret))))"

definition usr_UpdateUsername :: "'w users_service \<Rightarrow> Session \<Rightarrow> string \<Rightarrow> string \<Rightarrow> ('w, gerror, User) io" where
  "usr_UpdateUsername svc session i username =
     pass (self_or_super svc session i) (\<lambda>_.
     observe (us_now svc) (\<lambda>now.
     trying (ur_UpdateUsername (us_repo svc) (User0\<lparr>u_ID := i, u_Credentials := \<lparr>uc_Username = username, uc_Secret = []\<rparr>, u_UpdatedAt := now, u_UpdatedBy := s_UserID session\<rparr>))
       (Wrap svcErrUpdateEntity) ret))"

text \<open>When the role cannot be stored, the policies are set back to those of a plain user, whatever the user was before.\<close>

definition usr_UpdateRole :: "'w users_service \<Rightarrow> Session \<Rightarrow> User \<Rightarrow> ('w, gerror, User) io" where
  "usr_UpdateRole svc session usr0 =
     pass (usr_checkSuperAdmin svc session) (\<lambda>_.
     observe (us_now svc) (\<lambda>now.
     let usr = User0\<lparr>u_ID := u_ID usr0, u_Role := u_Role usr0, u_UpdatedAt := now, u_UpdatedBy := s_UserID session\<rparr> in
     pass (updateUserPolicy svc (u_ID usr) (u_Role usr)) (\<lambda>_.
     observe (ur_UpdateRole (us_repo svc) usr) (\<lambda>r.
     case r of
       Inr u \<Rightarrow> ret u
     | Inl err \<Rightarrow> trying (updateUserPolicy svc (u_ID usr) usrUserRole) (\<lambda>errRollback. Wrap errRollback err) (\<lambda>_. fail (Wrap svcErrUpdateEntity err))))))"

definition changeUserStatus :: "'w users_service \<Rightarrow> Session \<Rightarrow> User \<Rightarrow> ('w, gerror, User) io" where
  "changeUserStatus svc session user =
     pass (self_or_super svc session (u_ID user)) (\<lambda>_.
     trying (ur_RetrieveByID (us_repo svc) (u_ID user)) (Wrap svcErrViewEntity) (\<lambda>dbu.
     if u_Status dbu = u_Status user then fail svcErrStatusAlreadyAssigned
     else trying (ur_ChangeStatus (us_repo svc) (user\<lparr>u_UpdatedBy := s_UserID session\<rparr>)) (Wrap svcErrUpdateEntity) ret))"

definition usr_Enable :: "'w users_service \<Rightarrow> Session \<Rightarrow> string \<Rightarrow> ('w, gerror, User) io" where
  "usr_Enable svc session i =
     observe (us_now svc) (\<lambda>now.
     trying (changeUserStatus svc session (User0\<lparr>u_ID := i, u_UpdatedAt := now, u_Status := EnabledStatus\<rparr>)) (Wrap svcErrEnableUser) ret)"

definition usr_Disable :: "'w users_service \<Rightarrow> Session \<Rightarrow> string \<Rightarrow> ('w, gerror, User) io" where
  "usr_Disable svc session i =
     observe (us_now svc) (\<lambda>now.
     trying (changeUserStatus svc session (User0\<lparr>u_ID := i, u_UpdatedAt := now, u_Status := DisabledStatus\<rparr>)) (Wrap svcErrDisableUser) ret)"

definition usr_Delete :: "'w users_service \<Rightarrow> Session \<Rightarrow> string \<Rightarrow> ('w, gerror, unit) io" where
  "usr_Delete svc session i =
     observe (us_now svc) (\<lambda>now.
     pass (changeUserStatus svc session (User0\<lparr>u_ID := i, u_UpdatedAt := now, u_Status := DeletedStatus\<rparr>)) (\<lambda>_. ret ()))"

subsection \<open>Identity providers\<close>

text \<open>The fall back of the fall back prints the time in nanoseconds.\<close>

fun hex_nat :: "nat \<Rightarrow> string" where
  "hex_nat n = (if n < 16 then [hex_digit n] else hex_nat (n div 16) @ [hex_digit (n mod 16)])"

declare hex_nat.simps [simp del]

definition generateRandomID :: "'w users_service \<Rightarrow> 'w \<Rightarrow> string \<times> 'w" where
  "generateRandomID svc w =
     (case us_randRead svc 8 w of
        (Inr randomBytes, w1) \<Rightarrow> (take 10 (hex_text randomBytes), w1)
      | (Inl err, w1) \<Rightarrow>
          (case us_uuid svc w1 of
             (Inr b, w2) \<Rightarrow> (take 10 (hex_text b), w2)
           | (Inl uuidErr, w2) \<Rightarrow> (case us_now svc w2 of (now, w3) \<Rightarrow> (take 10 (hex_nat (nat now)), w3))))"

definition generateUsername :: "'w users_service \<Rightarrow> string \<Rightarrow> 'w \<Rightarrow> string \<times> 'w" where
  "generateUsername svc email w =
     (case generateRandomID svc w of (uniqueSuffix, w') \<Rightarrow> (extractEmailPrefix (us_ToLower svc) email @ ''_'' @ uniqueSuffix, w'))"

definition Session0 :: Session where
  "Session0 = \<lparr>s_Type = AccessToken, s_PatID = [], s_UserID = [], s_DomainID = [], s_DomainUserID = [], s_SuperAdmin = False,
     s_Verified = False, s_Role = SessionNoRole\<rparr>"

definition usr_OAuthCallback :: "'w users_service \<Rightarrow> User \<Rightarrow> ('w, gerror, User) io" where
  "usr_OAuthCallback svc user =
     observe (ur_RetrieveByEmail (us_repo svc) (u_Email user)) (\<lambda>found.
     pass (case found of
             Inr u \<Rightarrow> ret u
           | Inl err \<Rightarrow>
               if Contains err repoErrNotFound then
                 observe (generateUsername svc (u_Email user)) (\<lambda>name.
                 trying (usr_Register svc Session0 (user\<lparr>u_Credentials := (u_Credentials user)\<lparr>uc_Username := name\<rparr>\<rparr>) True)
                   (\<lambda>err. if Contains err ErrUsernameNotAvailable then ErrTryAgain else err) ret)
               else fail err) (\<lambda>u.
     pass (if u_VerifiedAt u = 0 then
             observe (us_now svc) (\<lambda>now. ur_UpdateVerifiedAt (us_repo svc) (user\<lparr>u_ID := u_ID u, u_VerifiedAt := now\<rparr>))
           else ret u) (\<lambda>u'.
     ret (User0\<lparr>u_ID := u_ID u', u_Role := u_Role u', u_VerifiedAt := u_VerifiedAt u'\<rparr>))))"

definition usr_OAuthAddUserPolicy :: "'w users_service \<Rightarrow> User \<Rightarrow> ('w, gerror, unit) io" where
  "usr_OAuthAddUserPolicy svc user = addUserPolicy svc (u_ID user) (u_Role user)"

definition usr_Identify :: "'w users_service \<Rightarrow> Session \<Rightarrow> ('w, gerror, string) io" where
  "usr_Identify svc session = ret (s_UserID session)"

end
