(* ===== verification/AuthGrpc.thy ===== *)
theory AuthGrpc
  imports UsersSvc
begin

text \<open>
  How other services reach the auth service: its gRPC transports (\<open>auth/api/grpc/token\<close>,
  \<open>auth/api/grpc/auth\<close>), the clients that turn a bearer token into a session
  (\<open>pkg/authn/authsvc\<close>, \<open>pkg/authn/middleware.go\<close>) and a session into a decision
  (\<open>pkg/authz/authsvc\<close>).
\<close>

section \<open>Tokens\<close>

definition ErrMissingSecret :: gerror where "ErrMissingSecret = NewRequestError ''missing secret''"

definition issueReq_validate :: "IssueReq \<Rightarrow> gerror option" where
  "issueReq_validate req =
     (if ir_Type req \<noteq> AccessKey \<and> ir_Type req \<noteq> APIKey \<and> ir_Type req \<noteq> RecoveryKey \<and> ir_Type req \<noteq> InvitationKey
      then Some ErrInvalidAuthKey else None)"

definition issueEndpoint :: "'w auth_service \<Rightarrow> IssueReq \<Rightarrow> ('w, gerror, Token) io" where
  "issueEndpoint svc req =
     guarded (issueReq_validate req)
       (auth_Issue svc [] (Key0\<lparr>k_Type := ir_Type req, k_Subject := ir_UserId req, k_Role := ir_UserRole req,
          k_Verified := ir_Verified req, k_Description := ir_Description req\<rparr>))"

definition refreshEndpoint :: "'w auth_service \<Rightarrow> string \<Rightarrow> bool \<Rightarrow> ('w, gerror, Token) io" where
  "refreshEndpoint svc refreshToken verified =
     (if refreshToken = [] then fail ErrMissingSecret
      else auth_Issue svc refreshToken (Key0\<lparr>k_Type := RefreshKey, k_Verified := verified\<rparr>))"

definition revokeEndpoint :: "'w auth_service \<Rightarrow> string \<Rightarrow> string \<Rightarrow> ('w, gerror, unit) io" where
  "revokeEndpoint svc userID tokenID = (if tokenID = [] then fail ErrMissingID else RevokeToken svc userID tokenID)"

definition listUserRefreshTokensEndpoint :: "'w auth_service \<Rightarrow> string \<Rightarrow> ('w, gerror, TokenInfo list) io" where
  "listUserRefreshTokensEndpoint svc userID = (if userID = [] then fail ErrMissingID else ListUserRefreshTokens svc userID)"

text \<open>The client: the error of the server crosses the wire as a status.\<close>

definition token_Issue :: "'w auth_service \<Rightarrow> IssueReq \<Rightarrow> ('w, gerror, Token) io" where
  "token_Issue svc req = trying (issueEndpoint svc req) over_auth_wire ret"

definition token_Refresh :: "'w auth_service \<Rightarrow> string \<Rightarrow> bool \<Rightarrow> ('w, gerror, Token) io" where
  "token_Refresh svc refreshToken verified = trying (refreshEndpoint svc refreshToken verified) over_auth_wire ret"

definition token_Revoke :: "'w auth_service \<Rightarrow> string \<Rightarrow> string \<Rightarrow> ('w, gerror, unit) io" where
  "token_Revoke svc userID tokenID = trying (revokeEndpoint svc userID tokenID) over_auth_wire ret"

definition token_ListUserRefreshTokens :: "'w auth_service \<Rightarrow> string \<Rightarrow> ('w, gerror, TokenInfo list) io" where
  "token_ListUserRefreshTokens svc userID = trying (listUserRefreshTokensEndpoint svc userID) over_auth_wire ret"

section \<open>Authentication\<close>

record authenticateRes =
  ar_id :: string
  ar_userID :: string
  ar_userRole :: KeyRole
  ar_verified :: bool

definition auth_authenticateEndpoint :: "'w auth_service \<Rightarrow> string \<Rightarrow> ('w, fault, authenticateRes) io" where
  "auth_authenticateEndpoint svc token =
     (if token = [] then fail (Err ErrBearerToken)
      else pass (Identify svc token) (\<lambda>key.
        ret \<lparr>ar_id = k_ID key, ar_userID = k_Subject key, ar_userRole = k_Role key, ar_verified = k_Verified key\<rparr>))"

fun on_error :: "(gerror \<Rightarrow> gerror) \<Rightarrow> fault \<Rightarrow> fault" where
  "on_error f (Err e) = Err (f e)"
| "on_error f (Panic s) = Panic s"

definition auth_Authenticate :: "'w auth_service \<Rightarrow> string \<Rightarrow> ('w, fault, authenticateRes) io" where
  "auth_Authenticate svc token = trying (auth_authenticateEndpoint svc token) (on_error over_auth_wire) ret"

definition pkgErrAuthentication :: gerror where "pkgErrAuthentication = New ''failed to perform authentication over the entity''"
definition pkgErrAuthorization :: gerror where "pkgErrAuthorization = New ''failed to perform authorization over the entity''"

text \<open>The role of a session is the number of the role in the key.\<close>

definition session_role :: "KeyRole \<Rightarrow> SessionRole" where
  "session_role r = (if r = 1 then SessionUserRole else if r = 2 then SessionSuperAdminRole else SessionNoRole)"

text \<open>A key with an id counts as a personal access token.\<close>

definition authsvc_Authenticate :: "'w auth_service \<Rightarrow> string \<Rightarrow> ('w, fault, Session) io" where
  "authsvc_Authenticate svc token =
     trying (auth_Authenticate svc token) (on_error (Wrap pkgErrAuthentication)) (\<lambda>res.
     if ar_id res \<noteq> [] then
       ret (Session0\<lparr>s_Type := PersonalAccessTokenType, s_PatID := ar_id res, s_UserID := ar_userID res, s_Role := session_role (ar_userRole res)\<rparr>)
     else
       ret (Session0\<lparr>s_Type := AccessToken, s_UserID := ar_userID res, s_Role := session_role (ar_userRole res), s_Verified := ar_verified res\<rparr>))"

subsection \<open>The HTTP middleware\<close>

record middlewareOptions =
  mo_domainCheck :: bool
  mo_allowUnverifiedUser :: bool

definition defaultMiddlewareOptions :: middlewareOptions where
  "defaultMiddlewareOptions = \<lparr>mo_domainCheck = True, mo_allowUnverifiedUser = False\<rparr>"

datatype MiddlewareOption = WithDomainCheck bool | WithAllowUnverifiedUser bool | WithDefaultMiddlewareOptions

fun apply_option :: "MiddlewareOption \<Rightarrow> middlewareOptions \<Rightarrow> middlewareOptions" where
  "apply_option (WithDomainCheck b) opts = opts\<lparr>mo_domainCheck := b\<rparr>"
| "apply_option (WithAllowUnverifiedUser b) opts = opts\<lparr>mo_allowUnverifiedUser := b\<rparr>"
| "apply_option WithDefaultMiddlewareOptions opts = opts\<lparr>mo_domainCheck := True, mo_allowUnverifiedUser := False\<rparr>"

text \<open>The options of a new middleware: the defaults, the variable \<open>MG_ALLOW_UNVERIFIED_USER\<close> when it parses as true, the arguments.\<close>

definition NewAuthNMiddleware :: "bool option \<Rightarrow> MiddlewareOption list \<Rightarrow> MiddlewareOption list" where
  "NewAuthNMiddleware env options =
     WithDefaultMiddlewareOptions # (if env = Some True then [WithAllowUnverifiedUser True] else []) @ options"

definition getMiddlewareOptions :: "MiddlewareOption list \<Rightarrow> middlewareOptions" where
  "getMiddlewareOptions options = foldl (\<lambda>opts option. apply_option option opts) defaultMiddlewareOptions options"

definition BearerPrefix :: string where "BearerPrefix = ''Bearer ''"

definition ExtractBearerToken :: "string \<Rightarrow> string" where
  "ExtractBearerToken header = (if \<not> HasPrefix header BearerPrefix then [] else TrimPrefix header BearerPrefix)"

definition ErrEmailNotVerified :: gerror where "ErrEmailNotVerified = NewRequestError ''email not verified''"

text \<open>The session a request is served with, or the error that answers it.\<close>

definition authn_Middleware ::
  "'w auth_service \<Rightarrow> MiddlewareOption list \<Rightarrow> string \<Rightarrow> string \<Rightarrow> ('w, fault, Session) io" where
  "authn_Middleware svc options authorization domainID =
     (let opts = getMiddlewareOptions options; token = ExtractBearerToken authorization in
      if token = [] then fail (Err ErrBearerToken)
      else pass (authsvc_Authenticate svc token) (\<lambda>resp.
        if s_Type resp = AccessToken \<and> \<not> mo_allowUnverifiedUser opts \<and> s_Role resp \<noteq> SessionSuperAdminRole \<and> \<not> s_Verified resp
        then fail (Err ErrEmailNotVerified)
        else if mo_domainCheck opts
        then (if domainID = [] then fail (Err ErrMissingDomainID)
              else ret (resp\<lparr>s_DomainID := domainID, s_DomainUserID :=
                (case s_Role resp of
                   SessionSuperAdminRole \<Rightarrow> s_UserID resp
                 | SessionUserRole \<Rightarrow> EncodeDomainUserID domainID (s_UserID resp)
                 | SessionNoRole \<Rightarrow> s_DomainUserID resp)\<rparr>))
        else ret resp))"

section \<open>Authorization\<close>

record PATReq =
  pq_PatID :: string
  pq_Domain :: string
  pq_Operation :: string
  pq_UserID :: string
  pq_EntityID :: string
  pq_EntityType :: string

definition ErrMalformedPolicyPer :: gerror where "ErrMalformedPolicyPer = NewRequestError ''malformed policy permission''"

definition authReq_validate :: "Policy \<Rightarrow> PATReq option \<Rightarrow> gerror option" where
  "authReq_validate pr pat =
     (case (case pat of
              Some p \<Rightarrow> if pq_PatID p \<noteq> [] then
                  (if pq_UserID p = [] then Some ErrMissingUserID else if pq_EntityID p = [] then Some ErrMissingID
                   else if pq_EntityType p = [] then Some ErrMissingPolicyObj else None)
                else None
            | None \<Rightarrow> None) of
        Some e \<Rightarrow> Some e
      | None \<Rightarrow>
          if p_Subject pr = [] \<or> p_SubjectType pr = [] then Some ErrMissingPolicySub
          else if p_Object pr = [] \<or> p_ObjectType pr = [] then Some ErrMissingPolicyObj
          else if p_Permission pr = [] then Some ErrMalformedPolicyPer
          else None)"

text \<open>
  The request of the wire has one domain, that of the policy: it is also the domain in which
  the scopes of a personal access token are looked up.
\<close>

definition auth_authorizeEndpoint :: "'w auth_service \<Rightarrow> Policy \<Rightarrow> PATReq option \<Rightarrow> ('w, gerror, bool) io" where
  "auth_authorizeEndpoint svc pr pat =
     guarded (authReq_validate pr pat)
       (let policy = Policy0\<lparr>p_Domain := p_Domain pr, p_SubjectType := p_SubjectType pr, p_SubjectKind := p_SubjectKind pr, p_Subject := p_Subject pr,
              p_Relation := p_Relation pr, p_Permission := p_Permission pr, p_ObjectType := p_ObjectType pr, p_Object := p_Object pr\<rparr> in
        case (case pat of
                Some p \<Rightarrow> if pq_PatID p \<noteq> [] then
                    (case ParseEntityType (pq_EntityType p) of
                       Inl err \<Rightarrow> Inl err
                     | Inr et \<Rightarrow> Inr (Some \<lparr>pa_PatID = pq_PatID p, pa_UserID = pq_UserID p, pa_EntityType = et, pa_EntityID = pq_EntityID p,
                         pa_Operation = pq_Operation p, pa_Domain = p_Domain pr\<rparr>))
                  else Inr None
              | None \<Rightarrow> Inr None) of
          Inl err \<Rightarrow> fail err
        | Inr patAuthz \<Rightarrow> pass (auth_Authorize svc policy patAuthz) (\<lambda>_. ret True))"

definition auth_client_Authorize :: "'w auth_service \<Rightarrow> Policy \<Rightarrow> PATReq option \<Rightarrow> ('w, gerror, bool) io" where
  "auth_client_Authorize svc pr pat = trying (auth_authorizeEndpoint svc pr pat) over_auth_wire ret"

record 'w authorization =
  az_Authorize :: "Policy \<Rightarrow> PATReq option \<Rightarrow> ('w, gerror, bool) io"
  az_RetrieveStatus :: "string \<Rightarrow> ('w, gerror, Status) io"

definition domain_permission :: "string \<Rightarrow> string \<Rightarrow> string \<Rightarrow> string \<Rightarrow> string \<Rightarrow> Policy" where
  "domain_permission subjectType subject permission obj objectType =
     Policy0\<lparr>p_Subject := subject, p_SubjectType := subjectType, p_Permission := permission, p_Object := obj, p_ObjectType := objectType\<rparr>"

definition checkDomain :: "'w authorization \<Rightarrow> string \<Rightarrow> string \<Rightarrow> string \<Rightarrow> ('w, gerror, unit) io" where
  "checkDomain a subjectType subject domainID =
     trying (az_RetrieveStatus a domainID) (Wrap svcErrViewEntity) (\<lambda>status.
     if status = FreezeStatus then
       pass (az_Authorize a (domain_permission subjectType subject AdminPermission MagistralaObject PlatformType) None) (\<lambda>_. ret ())
     else if status = DisabledStatus then
       pass (az_Authorize a (domain_permission subjectType subject AdminPermission domainID DomainType) None) (\<lambda>_. ret ())
     else if status = EnabledStatus then
       pass (az_Authorize a (domain_permission subjectType subject MembershipPermission domainID DomainType) None) (\<lambda>_. ret ())
     else fail svcErrInvalidStatus)"

definition authz_Authorize :: "'w authorization \<Rightarrow> Policy \<Rightarrow> PATReq option \<Rightarrow> ('w, gerror, unit) io" where
  "authz_Authorize a pr pat =
     pass (if p_SubjectType pr = UserType \<and> (p_ObjectType pr = GroupType \<or> p_ObjectType pr = ClientType \<or> p_ObjectType pr = DomainType) then
             (if p_Domain pr = [] \<and> p_ObjectType pr \<noteq> DomainType then fail svcErrDomainAuthorization
              else trying (checkDomain a (p_SubjectType pr) (p_Subject pr) (if p_Domain pr = [] then p_Object pr else p_Domain pr))
                (Wrap svcErrDomainAuthorization) ret)
           else ret ()) (\<lambda>_.
     trying (az_Authorize a (Policy0\<lparr>p_Domain := p_Domain pr, p_SubjectType := p_SubjectType pr, p_SubjectKind := p_SubjectKind pr,
         p_SubjectRelation := p_SubjectRelation pr, p_Subject := p_Subject pr, p_Relation := p_Relation pr, p_Permission := p_Permission pr,
         p_Object := p_Object pr, p_ObjectType := p_ObjectType pr\<rparr>) pat) (Wrap pkgErrAuthorization) (\<lambda>authorized.
     if \<not> authorized then fail pkgErrAuthorization else ret ()))"

end
