(* ===== verification/UsersEdge.thy ===== *)
theory UsersEdge
  imports AuthGrpc
begin

text \<open>
  The users service at its edges: the middleware that tells super administrators from
  others before the service is called (\<open>users/middleware/authorization.go\<close>), the endpoint of
  registrations (\<open>users/api/endpoints.go\<close>), the password hasher (\<open>users/hasher\<close>) and the periodic
  removal of deleted users (\<open>users/delete_handler.go\<close>).
\<close>

section \<open>The authorization middleware\<close>

definition UsersKind :: string where "UsersKind = ''users''"

record 'w users_authz =
  ua_svc :: "'w users_service"
  ua_Authorize :: "Policy \<Rightarrow> PATReq option \<Rightarrow> ('w, gerror, unit) io"

definition uam_checkSuperAdmin :: "'w users_authz \<Rightarrow> Session \<Rightarrow> ('w, gerror, unit) io" where
  "uam_checkSuperAdmin am session =
     (if s_Role session \<noteq> SessionSuperAdminRole then fail svcErrSuperAdminAction
      else ua_Authorize am (Policy0\<lparr>p_SubjectType := UserType, p_Subject := s_UserID session, p_Permission := AdminPermission,
        p_ObjectType := PlatformType, p_Object := MagistralaObject\<rparr>) None)"

definition uam_authorize ::
  "'w users_authz \<Rightarrow> Session \<Rightarrow> string \<Rightarrow> string \<Rightarrow> string \<Rightarrow> string \<Rightarrow> string \<Rightarrow> string \<Rightarrow> string \<Rightarrow> ('w, gerror, unit) io" where
  "uam_authorize am session domain subjType subjKind subj perm objType obj =
     ua_Authorize am (Policy0\<lparr>p_Domain := domain, p_SubjectType := subjType, p_SubjectKind := subjKind, p_Subject := subj, p_Permission := perm,
         p_ObjectType := objType, p_Object := obj\<rparr>)
       (if s_PatID session \<noteq> [] then Some \<lparr>pq_PatID = s_PatID session, pq_Domain = domain, pq_Operation = perm, pq_UserID = s_UserID session,
          pq_EntityID = subj, pq_EntityType = EntityType_String UsersType\<rparr> else None)"

text \<open>\<open>if err := am.checkSuperAdmin(ctx, session); err == nil { session.SuperAdmin = true }\<close>\<close>

definition marking_super :: "'w users_authz \<Rightarrow> Session \<Rightarrow> (Session \<Rightarrow> ('w, gerror, 'a) io) \<Rightarrow> ('w, gerror, 'a) io" where
  "marking_super am session k =
     observe (uam_checkSuperAdmin am session) (\<lambda>r. case r of Inr _ \<Rightarrow> k (session\<lparr>s_SuperAdmin := True\<rparr>) | Inl err \<Rightarrow> k session)"

definition uam_Register :: "'w users_authz \<Rightarrow> Session \<Rightarrow> User \<Rightarrow> bool \<Rightarrow> ('w, gerror, User) io" where
  "uam_Register am session user selfRegister =
     (if selfRegister then marking_super am session (\<lambda>ses. usr_Register (ua_svc am) ses user selfRegister)
      else usr_Register (ua_svc am) session user selfRegister)"

definition uam_View :: "'w users_authz \<Rightarrow> Session \<Rightarrow> string \<Rightarrow> ('w, gerror, User) io" where
  "uam_View am session i = marking_super am session (\<lambda>ses. usr_View (ua_svc am) ses i)"

definition uam_ListUsers :: "'w users_authz \<Rightarrow> Session \<Rightarrow> UserPage \<Rightarrow> ('w, gerror, UsersPage) io" where
  "uam_ListUsers am session pm = marking_super am session (\<lambda>ses. usr_ListUsers (ua_svc am) ses pm)"

definition uam_Update :: "'w users_authz \<Rightarrow> Session \<Rightarrow> string \<Rightarrow> UserReq \<Rightarrow> ('w, gerror, User) io" where
  "uam_Update am session i user = marking_super am session (\<lambda>ses. usr_Update (ua_svc am) ses i user)"

definition uam_UpdateTags :: "'w users_authz \<Rightarrow> Session \<Rightarrow> string \<Rightarrow> UserReq \<Rightarrow> ('w, gerror, User) io" where
  "uam_UpdateTags am session i user = marking_super am session (\<lambda>ses. usr_UpdateTags (ua_svc am) ses i user)"

definition uam_UpdateEmail :: "'w users_authz \<Rightarrow> Session \<Rightarrow> string \<Rightarrow> string \<Rightarrow> ('w, gerror, User) io" where
  "uam_UpdateEmail am session i email = marking_super am session (\<lambda>ses. usr_UpdateEmail (ua_svc am) ses i email)"

definition uam_UpdateUsername :: "'w users_authz \<Rightarrow> Session \<Rightarrow> string \<Rightarrow> string \<Rightarrow> ('w, gerror, User) io" where
  "uam_UpdateUsername am session i username = marking_super am session (\<lambda>ses. usr_UpdateUsername (ua_svc am) ses i username)"

definition uam_UpdateProfilePicture :: "'w users_authz \<Rightarrow> Session \<Rightarrow> string \<Rightarrow> UserReq \<Rightarrow> ('w, gerror, User) io" where
  "uam_UpdateProfilePicture am session i usr = marking_super am session (\<lambda>ses. usr_UpdateProfilePicture (ua_svc am) ses i usr)"

definition uam_UpdateRole :: "'w users_authz \<Rightarrow> Session \<Rightarrow> User \<Rightarrow> ('w, gerror, User) io" where
  "uam_UpdateRole am session user =
     pass (uam_checkSuperAdmin am session) (\<lambda>_.
     let ses = session\<lparr>s_SuperAdmin := True\<rparr> in
     pass (uam_authorize am ses [] UserType UsersKind (u_ID user) MembershipPermission PlatformType MagistralaObject) (\<lambda>_.
     usr_UpdateRole (ua_svc am) ses user))"

definition uam_Enable :: "'w users_authz \<Rightarrow> Session \<Rightarrow> string \<Rightarrow> ('w, gerror, User) io" where
  "uam_Enable am session i = marking_super am session (\<lambda>ses. usr_Enable (ua_svc am) ses i)"

definition uam_Disable :: "'w users_authz \<Rightarrow> Session \<Rightarrow> string \<Rightarrow> ('w, gerror, User) io" where
  "uam_Disable am session i = marking_super am session (\<lambda>ses. usr_Disable (ua_svc am) ses i)"

definition uam_Delete :: "'w users_authz \<Rightarrow> Session \<Rightarrow> string \<Rightarrow> ('w, gerror, unit) io" where
  "uam_Delete am session i = marking_super am session (\<lambda>ses. usr_Delete (ua_svc am) ses i)"

definition uam_OAuthAddUserPolicy :: "'w users_authz \<Rightarrow> User \<Rightarrow> ('w, gerror, unit) io" where
  "uam_OAuthAddUserPolicy am user =
     observe (uam_authorize am Session0 [] UserType UsersKind (u_ID user) MembershipPermission PlatformType MagistralaObject) (\<lambda>r.
     case r of Inr _ \<Rightarrow> ret () | Inl err \<Rightarrow> usr_OAuthAddUserPolicy (ua_svc am) user)"

text \<open>
  The registration of a user by the HTTP interface, after the request was decoded and
  validated: with self registration there is no session.
\<close>

definition registrationEndpoint :: "'w users_authz \<Rightarrow> bool \<Rightarrow> Session option \<Rightarrow> User \<Rightarrow> ('w, gerror, User) io" where
  "registrationEndpoint am selfRegister session user =
     (if \<not> selfRegister then (case session of None \<Rightarrow> fail svcErrAuthentication | Some ses \<Rightarrow> uam_Register am ses user selfRegister)
      else uam_Register am Session0 user selfRegister)"

section \<open>Names in requests\<close>

definition ErrInvalidUsername :: gerror where "ErrInvalidUsername = NewRequestError ''invalid username''"
definition ErrInvalidNameFormat :: gerror where "ErrInvalidNameFormat = NewRequestError ''invalid name format''"
definition ErrInvalidRouteFormat :: gerror where "ErrInvalidRouteFormat = NewRequestError ''invalid route format''"
definition ErrInvalidEmail :: gerror where "ErrInvalidEmail = NewRequestError ''invalid email''"
definition errUnreadableName :: gerror where "errUnreadableName = New ''name containing double underscores or double dashes not allowed''"

definition is_upper :: "char \<Rightarrow> bool" where "is_upper c \<longleftrightarrow> 65 \<le> (of_char c :: nat) \<and> (of_char c :: nat) \<le> 90"

definition word_char :: "char \<Rightarrow> bool" where "word_char c \<longleftrightarrow> is_lower c \<or> is_upper c \<or> is_digit c \<or> name_mark c"

text \<open>\<open>^[a-z0-9][a-z0-9_-]{34}[a-z0-9]$\<close>, \<open>^[a-zA-Z][a-zA-Z0-9_-]{0,35}$\<close> and \<open>^[a-zA-Z0-9][a-zA-Z0-9_-]{0,31}$\<close>\<close>

definition nameRegExp :: "string \<Rightarrow> bool" where
  "nameRegExp s \<longleftrightarrow> length s = 36 \<and> list_all (\<lambda>c. is_lower c \<or> is_digit c \<or> name_mark c) s \<and> \<not> name_mark (hd s) \<and> \<not> name_mark (last s)"

definition routeRegExp :: "string \<Rightarrow> bool" where
  "routeRegExp s \<longleftrightarrow> s \<noteq> [] \<and> length s \<le> 36 \<and> list_all word_char s \<and> (is_lower (hd s) \<or> is_upper (hd s))"

definition userNameRegExp :: "string \<Rightarrow> bool" where
  "userNameRegExp s \<longleftrightarrow> s \<noteq> [] \<and> length s \<le> 32 \<and> list_all word_char s \<and> \<not> name_mark (hd s)"

definition unreadable :: "string \<Rightarrow> bool" where
  "unreadable s \<longleftrightarrow> ContainsStr s ''__'' \<or> ContainsStr s ''--''"

definition ValidateEmail :: "(string \<Rightarrow> bool) \<Rightarrow> string \<Rightarrow> gerror option" where
  "ValidateEmail isAddress email = (if \<not> isAddress email then Some ErrInvalidEmail else None)"

definition ValidateName :: "string \<Rightarrow> gerror option" where
  "ValidateName i = (if \<not> nameRegExp i then Some ErrInvalidNameFormat
     else if unreadable i then Some (Wrap ErrInvalidNameFormat errUnreadableName) else None)"

definition ValidateRoute :: "string \<Rightarrow> gerror option" where
  "ValidateRoute route = (if \<not> routeRegExp route then Some ErrInvalidRouteFormat
     else if unreadable route then Some (Wrap ErrInvalidRouteFormat errUnreadableName) else None)"

definition ValidateUserName :: "string \<Rightarrow> gerror option" where
  "ValidateUserName name = (if \<not> userNameRegExp name then Some ErrInvalidUsername
     else if unreadable name then Some (Wrap ErrInvalidUsername errUnreadableName) else None)"

section \<open>Passwords\<close>

record bcrypt =
  bc_Generate :: "string \<Rightarrow> gerror + string"
  bc_Compare :: "string \<Rightarrow> string \<Rightarrow> gerror option"

definition usrErrHashPassword :: gerror where "usrErrHashPassword = NewServiceError ''generate hash from password failed''"
definition usrErrComparePassword :: gerror where "usrErrComparePassword = NewServiceError ''compare hash and password failed''"

definition bcryptHasher_Hash :: "bcrypt \<Rightarrow> string \<Rightarrow> gerror + string" where
  "bcryptHasher_Hash lib pwd = (case bc_Generate lib pwd of Inl err \<Rightarrow> Inl (Wrap usrErrHashPassword err) | Inr hash \<Rightarrow> Inr hash)"

definition bcryptHasher_Compare :: "bcrypt \<Rightarrow> string \<Rightarrow> string \<Rightarrow> gerror option" where
  "bcryptHasher_Compare lib plain hashed = map_option (Wrap usrErrComparePassword) (bc_Compare lib hashed plain)"

section \<open>The removal of deleted users\<close>

record 'w delete_handler =
  dh_users :: "'w UsersRepository"
  dh_DeleteUserFromDomains :: "string \<Rightarrow> ('w, gerror, bool) io"
  dh_DeletePolicyFilter :: "Policy \<Rightarrow> ('w, gerror, unit) io"
  dh_deleteAfter :: int
  dh_now :: "'w \<Rightarrow> int \<times> 'w"

definition usrdefLimit :: nat where "usrdefLimit = 100"

text \<open>One user of the page; every failure is logged and the next user is taken.\<close>

definition handle_user :: "'w delete_handler \<Rightarrow> User \<Rightarrow> 'w \<Rightarrow> 'w" where
  "handle_user h u w =
     (case dh_now h w of (now, w1) \<Rightarrow>
      if now - u_UpdatedAt u < dh_deleteAfter h then w1
      else (case dh_DeleteUserFromDomains h (u_ID u) w1 of
          (Inl err, w2) \<Rightarrow> w2
        | (Inr deletedRes, w2) \<Rightarrow>
            if \<not> deletedRes then w2
            else (case dh_DeletePolicyFilter h (Policy0\<lparr>p_Subject := u_ID u, p_SubjectType := UserType\<rparr>) w2 of
                (Inl err, w3) \<Rightarrow> w3
              | (Inr _, w3) \<Rightarrow> snd (ur_Delete (dh_users h) (u_ID u) w3))))"

text \<open>
  The loop of \<open>handle\<close>, which ends when the query fails or there are no deleted users left, with
  a bound on the number of pages it takes: none stands for a loop that is still running.
\<close>

definition deleted_page :: UserPage where
  "deleted_page = UserPage0\<lparr>up_Limit := usrdefLimit, up_Offset := 0, up_Status := DeletedStatus\<rparr>"

fun handle_deleted :: "nat \<Rightarrow> 'w delete_handler \<Rightarrow> 'w \<Rightarrow> 'w option" where
  "handle_deleted 0 h w = None"
| "handle_deleted (Suc n) h w =
     (case ur_RetrieveAll (dh_users h) deleted_page w of
        (Inl err, w') \<Rightarrow> Some w'
      | (Inr page, w') \<Rightarrow>
          if ug_Total page = 0 then Some w'
          else handle_deleted n h (fold (handle_user h) (ug_Users page) w'))"

end
