(* ===== verification/UserAccounts.thy ===== *)
theory UserAccounts
  imports UsersEdge
begin

text \<open>
  Who changes which accounts: the contract of the store of users, and what it gives for the
  operations of the service behind its authorization middleware.
\<close>

section \<open>The contract of the store\<close>

text \<open>The rows of a user, by the id; the primary key of the table allows one.\<close>

type_synonym accounts = "string \<Rightarrow> DBUser list"

text \<open>A change of the row of one user, if the condition of the statement holds for it.\<close>

definition row_change :: "string \<Rightarrow> (DBUser \<Rightarrow> DBUser) \<Rightarrow> accounts \<Rightarrow> accounts \<Rightarrow> bool" where
  "row_change i f a a' \<longleftrightarrow> (\<exists>p. a' = a(i := map (\<lambda>r. if p r then f r else r) (a i)))"

definition same_role :: "(DBUser \<Rightarrow> DBUser) \<Rightarrow> bool" where
  "same_role f \<longleftrightarrow> (\<forall>r. du_Role (f r) = du_Role r)"

definition same_email :: "(DBUser \<Rightarrow> DBUser) \<Rightarrow> bool" where
  "same_email f \<longleftrightarrow> (\<forall>r. du_Email (f r) = du_Email r \<and> du_VerifiedAt (f r) = du_VerifiedAt r)"

lemma keeps_trying_if:
  assumes "keeps I m" "\<And>w x w'. I w \<Longrightarrow> m w = (Inr x, w') \<Longrightarrow> C x" "\<And>x. C x \<Longrightarrow> keeps I (k x)"
  shows "keeps I (trying m g k)"
proof (rule keepsI)
  fix w assume I: "I w"
  obtain r w1 where m: "m w = (r, w1)" by fastforce
  have w1: "I w1" by (rule keepsD [OF assms(1) I m])
  show "I (snd (trying m g k w))"
  proof (cases r)
    case (Inl e)
    then show ?thesis using m w1 by (simp add: trying_apply)
  next
    case (Inr x)
    with assms(2) [OF I] m have "C x" by blast
    from keepsD [OF assms(3) [OF this] w1 prod.collapse [symmetric]] m Inr show ?thesis by (simp add: trying_apply)
  qed
qed

lemmas keeps_pass_if = keeps_trying_if [where g = "\<lambda>e. e", folded pass_def]

text \<open>
  The accounts of a state, as a user without the rights of a super administrator may leave
  them: all as they were but the own one, and that one with its role.
\<close>

definition leaves_others :: "string \<Rightarrow> accounts \<Rightarrow> accounts \<Rightarrow> bool" where
  "leaves_others me a b \<longleftrightarrow> (\<forall>j. a j \<noteq> [] \<longrightarrow> (if j = me then map du_Role (b j) = map du_Role (a j) else b j = a j))"

definition plain_user :: "string \<Rightarrow> accounts \<Rightarrow> bool" where
  "plain_user me a \<longleftrightarrow> (\<forall>r \<in> set (a me). du_Role r \<noteq> Some usrAdminRole)"

locale user_store =
  fixes svc :: "'w users_service" and acct :: "'w \<Rightarrow> accounts" and confirmed :: "'w \<Rightarrow> (string \<times> string) set"
  assumes Check_ok: "ur_CheckSuperAdmin (us_repo svc) i w = (Inr chk, w') \<Longrightarrow> \<exists>r \<in> set (acct w i). du_Role r = Some usrAdminRole"
    and Update_any: "ur_Update (us_repo svc) i q w = (r, w') \<Longrightarrow> confirmed w' = confirmed w \<and> (\<exists>f. same_role f \<and> same_email f \<and> row_change i f (acct w) (acct w'))"
    and Username_any: "ur_UpdateUsername (us_repo svc) u w = (r, w') \<Longrightarrow> confirmed w' = confirmed w \<and> (\<exists>f. same_role f \<and> same_email f \<and> row_change (u_ID u) f (acct w) (acct w'))"
    and Secret_any: "ur_UpdateSecret (us_repo svc) u w = (r, w') \<Longrightarrow> confirmed w' = confirmed w \<and> (\<exists>f. same_role f \<and> same_email f \<and> row_change (u_ID u) f (acct w) (acct w'))"
    and Status_any: "ur_ChangeStatus (us_repo svc) u w = (r, w') \<Longrightarrow> confirmed w' = confirmed w \<and> (\<exists>f. same_role f \<and> same_email f \<and> row_change (u_ID u) f (acct w) (acct w'))"
    and Role_any: "ur_UpdateRole (us_repo svc) u w = (r, w') \<Longrightarrow> confirmed w' = confirmed w \<and> (\<exists>f. same_email f \<and> row_change (u_ID u) f (acct w) (acct w'))"
    and Email_any: "ur_UpdateEmail (us_repo svc) u w = (r, w') \<Longrightarrow> confirmed w' = confirmed w \<and>
      (\<exists>f. same_role f \<and> (\<forall>x. du_VerifiedAt (f x) = None) \<and> row_change (u_ID u) f (acct w) (acct w'))"
    and Verified_any: "ur_UpdateVerifiedAt (us_repo svc) u w = (r, w') \<Longrightarrow> confirmed w' = confirmed w \<and>
      (\<exists>f. same_role f \<and> (\<forall>x. du_Email (f x) = u_Email u) \<and> row_change (u_ID u) f (acct w) (acct w'))"
    and Save_any: "ur_Save (us_repo svc) u w = (r, w') \<Longrightarrow> confirmed w' = confirmed w \<and>
      (acct w' = acct w \<or> (\<exists>x. acct w (u_ID u) = [] \<and> du_VerifiedAt x = None \<and> acct w' = (acct w)(u_ID u := [x])))"
    and Used_any: "ur_UpdateUserVerification (us_repo svc) uv w = (ru, w') \<Longrightarrow> uv_UsedAt uv \<noteq> 0 \<Longrightarrow> acct w' = acct w \<and> confirmed w \<subseteq> confirmed w' \<and>
      (\<not> isl ru \<longrightarrow> (uv_UserID uv, uv_Email uv) \<in> confirmed w')"
    and Found_ok: "ur_RetrieveUserVerification (us_repo svc) i e w = (Inr uv, w') \<Longrightarrow> uv_UserID uv = i \<and> uv_Email uv = e"
    and Retrieve_ok: "ur_RetrieveByID (us_repo svc) i w = (Inr u, w') \<Longrightarrow> u_ID u = i"
    and clock: "us_now svc w = (t, w') \<Longrightarrow> t \<noteq> 0"
    and call_frames: "frames (\<lambda>w. (acct w, confirmed w)) (ur_CheckSuperAdmin (us_repo svc) i)"
      "frames (\<lambda>w. (acct w, confirmed w)) (ur_RetrieveByID (us_repo svc) i)"
      "frames (\<lambda>w. (acct w, confirmed w)) (ur_RetrieveByEmail (us_repo svc) e)"
      "frames (\<lambda>w. (acct w, confirmed w)) (ur_RetrieveByUsername (us_repo svc) e)"
      "frames (\<lambda>w. (acct w, confirmed w)) (ur_RetrieveUserVerification (us_repo svc) i e)"
      "frames (\<lambda>w. (acct w, confirmed w)) (ur_AddUserVerification (us_repo svc) uv)"
      "frames (\<lambda>w. (acct w, confirmed w)) (us_Issue svc iq)" "frames (\<lambda>w. (acct w, confirmed w)) (us_Refresh svc tok b)"
      "frames (\<lambda>w. (acct w, confirmed w)) (us_Revoke svc i tok)" "frames (\<lambda>w. (acct w, confirmed w)) (us_idProvider svc)"
      "frames (\<lambda>w. (acct w, confirmed w)) (us_AddPolicy svc p)" "frames (\<lambda>w. (acct w, confirmed w)) (us_AddPolicies svc ps)"
      "frames (\<lambda>w. (acct w, confirmed w)) (us_DeletePolicies svc ps)" "frames (\<lambda>w. (acct w, confirmed w)) (us_DeletePolicyFilter svc p)"
      "frames (\<lambda>w. (acct w, confirmed w)) (us_Hash svc s)" "frames (\<lambda>w. (acct w, confirmed w)) (us_mailVerification svc to un tx)"
      "frames (\<lambda>w. (acct w, confirmed w)) (us_mailPasswordReset svc to un tx)" "frames (\<lambda>w. (acct w, confirmed w)) (us_now svc)"
      "frames (\<lambda>w. (acct w, confirmed w)) (us_randRead svc n)" "frames (\<lambda>w. (acct w, confirmed w)) (us_uuid svc)"
begin

abbreviation seen :: "'w \<Rightarrow> accounts \<times> (string \<times> string) set" where
  "seen w \<equiv> (acct w, confirmed w)"

text \<open>An invariant of what is seen is kept by every call that leaves it alone.\<close>

lemma keeps_frames:
  assumes "frames seen m"
  shows "keeps (\<lambda>w. J (acct w) (confirmed w)) m"
proof (rule keepsI)
  fix w assume J: "J (acct w) (confirmed w)"
  obtain r w' where m: "m w = (r, w')" by fastforce
  from framesD [OF assms m] J show "J (acct (snd (m w))) (confirmed (snd (m w)))" by (simp add: m)
qed

lemmas quiet = call_frames [THEN keeps_frames]

section \<open>Accounts of others\<close>

abbreviation still :: "string \<Rightarrow> accounts \<Rightarrow> 'w \<Rightarrow> bool" where
  "still me a w \<equiv> leaves_others me a (acct w) \<and> (a me = [] \<longrightarrow> acct w me = [])"

lemma leaves_add: "leaves_others me a b \<Longrightarrow> b i = [] \<Longrightarrow> leaves_others me a (b(i := [x]))"
  unfolding leaves_others_def by (metis fun_upd_other list.map_disc_iff)

lemma leaves_refl [simp]: "leaves_others me a a"
  by (simp add: leaves_others_def)

lemma still_change:
  assumes "row_change me f (acct w) (acct w')" "same_role f" "still me a w"
  shows "still me a w'"
proof -
  from assms(1) obtain p where a': "acct w' = (acct w)(me := map (\<lambda>r. if p r then f r else r) (acct w me))" by (auto simp: row_change_def)
  have r: "map du_Role (map (\<lambda>r. if p r then f r else r) xs) = map du_Role xs" for xs
    using assms(2) by (auto simp: same_role_def)
  show ?thesis using assms(3) unfolding a' leaves_others_def by (auto simp del: map_map simp add: r)
qed

lemma still_plain: "still me a w \<Longrightarrow> plain_user me a \<Longrightarrow> plain_user me (acct w)"
proof (cases "a me = []")
  case False
  assume h: "still me a w" "plain_user me a"
  with False have "du_Role ` set (acct w me) = du_Role ` set (a me)" unfolding leaves_others_def by (metis list.set_map)
  with h(2) show ?thesis unfolding plain_user_def by (metis image_iff)
qed (simp add: plain_user_def)

lemma keeps_quiet: "frames seen m \<Longrightarrow> keeps (still me a) m"
  by (rule keeps_frames [where J = "\<lambda>b c. leaves_others me a b \<and> (a me = [] \<longrightarrow> b me = [])"])

lemmas calm = call_frames [THEN keeps_quiet]

lemma keeps_own:
  assumes "\<And>w r w'. m w = (r, w') \<Longrightarrow> \<exists>f. same_role f \<and> row_change me f (acct w) (acct w')"
  shows "keeps (still me a) m"
proof (rule keepsI)
  fix w assume J: "still me a w"
  obtain r w' where m: "m w = (r, w')" by fastforce
  from assms [OF m] obtain f where "same_role f" "row_change me f (acct w) (acct w')" by blast
  from still_change [OF this(2,1) J] show "still me a (snd (m w))" by (simp add: m)
qed

lemma own_update: "keeps (still me a) (ur_Update (us_repo svc) me q)"
  by (rule keeps_own) (use Update_any in blast)

lemma own_calls:
  assumes "u_ID u = me"
  shows "keeps (still me a) (ur_UpdateUsername (us_repo svc) u)"
    "keeps (still me a) (ur_UpdateSecret (us_repo svc) u)" "keeps (still me a) (ur_ChangeStatus (us_repo svc) u)"
    "keeps (still me a) (ur_UpdateEmail (us_repo svc) u)"
  subgoal by (rule keeps_own) (use Username_any assms in blast)
  subgoal by (rule keeps_own) (use Secret_any assms in blast)
  subgoal by (rule keeps_own) (use Status_any assms in blast)
  subgoal by (rule keeps_own) (use Email_any assms in blast)
  done

lemma super_fails:
  assumes "usr_checkSuperAdmin svc ses w = (Inr x, w')" "still (s_UserID ses) a w" "plain_user (s_UserID ses) a" "\<not> s_SuperAdmin ses"
  shows False
proof -
  from assms(1,4) obtain y v where "ur_CheckSuperAdmin (us_repo svc) (s_UserID ses) w = (Inr y, v)"
    unfolding usr_checkSuperAdmin_def by (auto dest!: trying_InrD)
  from Check_ok [OF this] still_plain [OF assms(2,3)] show False by (auto simp: plain_user_def)
qed

lemma super_quiet: "frames seen (usr_checkSuperAdmin svc ses)" "frames seen (self_or_super svc ses i)"
  unfolding self_or_super_def usr_checkSuperAdmin_def by (auto intro!: frames_rules call_frames)

lemmas super_calm = super_quiet [THEN keeps_quiet]

lemma keeps_self:
  assumes "plain_user (s_UserID ses) a" "\<not> s_SuperAdmin ses" "\<And>x. i = s_UserID ses \<Longrightarrow> keeps (still (s_UserID ses) a) (k x)"
  shows "keeps (still (s_UserID ses) a) (pass (self_or_super svc ses i) k)"
proof (rule keeps_pass_if [OF super_calm(2), where C = "\<lambda>_. i = s_UserID ses"])
  fix w x w' assume "still (s_UserID ses) a w" "self_or_super svc ses i w = (Inr x, w')"
  with super_fails [OF _ _ assms(1,2), of w] show "i = s_UserID ses" by (auto simp: self_or_super_def split: if_splits)
qed (rule assms(3))

lemma keeps_super:
  assumes "plain_user (s_UserID ses) a" "\<not> s_SuperAdmin ses"
  shows "keeps (still (s_UserID ses) a) (pass (usr_checkSuperAdmin svc ses) k)"
proof (rule keeps_pass_if [OF super_calm(1), where C = "\<lambda>_. False"])
  fix w x w' assume h: "still (s_UserID ses) a w" "usr_checkSuperAdmin svc ses w = (Inr x, w')"
  show False by (rule super_fails [OF h(2,1) assms])
qed simp

lemmas own_rules = calm super_calm own_update own_calls keeps_trying keeps_pass keeps_observe keeps_guarded keeps_if keeps_ret keeps_fail

lemma IssueToken_calm: "frames seen (usr_IssueToken svc idt sec d)"
  unfolding usr_IssueToken_def guarded_def by (auto intro!: frames_rules call_frames split: option.splits)


text \<open>The operations a user calls on an account, without the rights of a super administrator.\<close>

lemma own_operations:
  assumes "plain_user (s_UserID ses) a" "\<not> s_SuperAdmin ses"
  shows "keeps (still (s_UserID ses) a) (usr_View svc ses i)"
    and "keeps (still (s_UserID ses) a) (usr_Update svc ses i q)"
    and "keeps (still (s_UserID ses) a) (usr_UpdateTags svc ses i q)"
    and "keeps (still (s_UserID ses) a) (usr_UpdateProfilePicture svc ses i q)"
    and "keeps (still (s_UserID ses) a) (usr_UpdateEmail svc ses i e)"
    and "keeps (still (s_UserID ses) a) (usr_UpdateUsername svc ses i e)"
    and "keeps (still (s_UserID ses) a) (usr_UpdateRole svc ses u)"
    and "keeps (still (s_UserID ses) a) (usr_Enable svc ses i)"
    and "keeps (still (s_UserID ses) a) (usr_Disable svc ses i)"
    and "keeps (still (s_UserID ses) a) (usr_Delete svc ses i)"
proof -
  have up: "keeps (still (s_UserID ses) a) (update_by svc ses (s_UserID ses) q)" for q
    unfolding update_by_def by (intro own_rules)
  have ch: "keeps (still (s_UserID ses) a) (changeUserStatus svc ses u)" for u
    unfolding changeUserStatus_def by (intro keeps_self [OF assms] own_rules) simp
  show "keeps (still (s_UserID ses) a) (usr_View svc ses i)"
    unfolding usr_View_def by (intro own_rules keeps_case_sum)
  show "keeps (still (s_UserID ses) a) (usr_Update svc ses i q)"
    unfolding usr_Update_def by (intro keeps_self [OF assms] own_rules) (simp_all add: up)
  show "keeps (still (s_UserID ses) a) (usr_UpdateTags svc ses i q)"
    unfolding usr_UpdateTags_def by (intro keeps_self [OF assms] own_rules) (simp_all add: up)
  show "keeps (still (s_UserID ses) a) (usr_UpdateProfilePicture svc ses i q)"
    unfolding usr_UpdateProfilePicture_def by (intro keeps_self [OF assms] own_rules) (simp_all add: up)
  show "keeps (still (s_UserID ses) a) (usr_UpdateEmail svc ses i e)"
    unfolding usr_UpdateEmail_def by (intro keeps_self [OF assms] own_rules) simp
  show "keeps (still (s_UserID ses) a) (usr_UpdateUsername svc ses i e)"
    unfolding usr_UpdateUsername_def by (intro keeps_self [OF assms] own_rules) simp
  show "keeps (still (s_UserID ses) a) (usr_UpdateRole svc ses u)"
    unfolding usr_UpdateRole_def by (rule keeps_super [OF assms])
  show "keeps (still (s_UserID ses) a) (usr_Enable svc ses i)" "keeps (still (s_UserID ses) a) (usr_Disable svc ses i)"
    "keeps (still (s_UserID ses) a) (usr_Delete svc ses i)"
    unfolding usr_Enable_def usr_Disable_def usr_Delete_def by (intro own_rules ch)+
qed

lemma session_operations:
  "keeps (still (s_UserID ses) a) (usr_SendVerification svc ses)"
  "keeps (still (s_UserID ses) a) (usr_RefreshToken svc ses tok)"
  "keeps (still (s_UserID ses) a) (usr_RevokeRefreshToken svc ses tok)"
  unfolding usr_SendVerification_def mail_verification_def NewUserVerification_def usr_RefreshToken_def usr_RevokeRefreshToken_def not_disabled_def
  by (intro own_rules keeps_case_sum)+

lemma own_user:
  assumes "\<And>u. u_ID u = me \<Longrightarrow> keeps (still me a) (k u)"
  shows "keeps (still me a) (trying (ur_RetrieveByID (us_repo svc) me) g k)"
proof (rule keeps_trying_if [OF calm(2), where C = "\<lambda>u. u_ID u = me"])
  show "u_ID x = me" if "ur_RetrieveByID (us_repo svc) me w = (Inr x, w')" for w x w' using that by (rule Retrieve_ok)
qed (rule assms)

lemma secret_operations:
  "keeps (still (s_UserID ses) a) (usr_ResetSecret svc ses sec)"
  "keeps (still (s_UserID ses) a) (usr_UpdateSecret svc ses sec sec')"
  unfolding usr_ResetSecret_def usr_UpdateSecret_def
  by (intro own_user own_rules keeps_quiet [OF IssueToken_calm], simp)+

text \<open>A registration adds an account.\<close>

lemma Register_leaves:
  "keeps (\<lambda>w. leaves_others me a (acct w)) (usr_Register svc ses u b)"
proof -
  have s: "keeps (\<lambda>w. leaves_others me a (acct w)) (ur_Save (us_repo svc) v)" for v
  proof (rule keepsI)
    fix w assume J: "leaves_others me a (acct w)"
    obtain r w' where m: "ur_Save (us_repo svc) v w = (r, w')" by fastforce
    from Save_any [OF m] J leaves_add [OF J] show "leaves_others me a (acct (snd (ur_Save (us_repo svc) v w)))"
      by (auto simp: m)
  qed
  note calls = call_frames super_quiet
  note calls = calls [THEN keeps_frames, where J = "\<lambda>b c. leaves_others me a b"]
  show ?thesis unfolding usr_Register_def addUserPolicy_def addUserPolicyRollback_def Let_def
    by (intro s calls keeps_trying keeps_pass keeps_observe keeps_deferring keeps_if keeps_ret keeps_fail)
qed

end

section \<open>Behind the middleware\<close>

definition super_check :: "string \<Rightarrow> Policy" where
  "super_check i = Policy0\<lparr>p_SubjectType := UserType, p_Subject := i, p_Permission := AdminPermission, p_ObjectType := PlatformType,
     p_Object := MagistralaObject\<rparr>"

text \<open>The calls of a user with a session. Verifications by mail and sign ups through an identity provider have none.\<close>

inductive account_step :: "'w users_authz \<Rightarrow> Session \<Rightarrow> 'w \<Rightarrow> 'w \<Rightarrow> bool" for am :: "'w users_authz" and ses :: Session where
  ac_register: "uam_Register am ses u b w = (r, w') \<Longrightarrow> account_step am ses w w'"
| ac_view: "uam_View am ses i w = (r, w') \<Longrightarrow> account_step am ses w w'"
| ac_update: "uam_Update am ses i q w = (r, w') \<Longrightarrow> account_step am ses w w'"
| ac_tags: "uam_UpdateTags am ses i q w = (r, w') \<Longrightarrow> account_step am ses w w'"
| ac_picture: "uam_UpdateProfilePicture am ses i q w = (r, w') \<Longrightarrow> account_step am ses w w'"
| ac_email: "uam_UpdateEmail am ses i e w = (r, w') \<Longrightarrow> account_step am ses w w'"
| ac_username: "uam_UpdateUsername am ses i e w = (r, w') \<Longrightarrow> account_step am ses w w'"
| ac_role: "uam_UpdateRole am ses u w = (r, w') \<Longrightarrow> account_step am ses w w'"
| ac_enable: "uam_Enable am ses i w = (r, w') \<Longrightarrow> account_step am ses w w'"
| ac_disable: "uam_Disable am ses i w = (r, w') \<Longrightarrow> account_step am ses w w'"
| ac_delete: "uam_Delete am ses i w = (ru, w') \<Longrightarrow> account_step am ses w w'"
| ac_send: "usr_SendVerification (ua_svc am) ses w = (ru, w') \<Longrightarrow> account_step am ses w w'"
| ac_reset: "usr_ResetSecret (ua_svc am) ses e w = (ru, w') \<Longrightarrow> account_step am ses w w'"
| ac_secret: "usr_UpdateSecret (ua_svc am) ses e e' w = (r, w') \<Longrightarrow> account_step am ses w w'"
| ac_issue: "usr_IssueToken (ua_svc am) e e' e'' w = (rt, w') \<Longrightarrow> account_step am ses w w'"
| ac_refresh: "usr_RefreshToken (ua_svc am) ses e w = (rt, w') \<Longrightarrow> account_step am ses w w'"
| ac_revoke: "usr_RevokeRefreshToken (ua_svc am) ses e w = (ru, w') \<Longrightarrow> account_step am ses w w'"

locale user_gate = user_store "ua_svc am" acct confirmed
  for am :: "'w users_authz" and acct :: "'w \<Rightarrow> accounts" and confirmed :: "'w \<Rightarrow> (string \<times> string) set" +
  fixes platform_admin :: "'w \<Rightarrow> string \<Rightarrow> bool"
  assumes Gate_ok: "ua_Authorize am (super_check i) None w = (Inr x, w') \<Longrightarrow> platform_admin w i"
    and gate_frames: "frames (\<lambda>w. (acct w, confirmed w)) (ua_Authorize am p pat)"
begin

lemma check_quiet: "frames seen (uam_checkSuperAdmin am ses)"
  unfolding uam_checkSuperAdmin_def by (auto intro!: frames_rules gate_frames)

text \<open>Who is no platform administrator goes on with the own session.\<close>

lemma marking_plain:
  assumes "marking_super am ses k w = (r, w')" "\<not> (s_Role ses = SessionSuperAdminRole \<and> platform_admin w (s_UserID ses))"
  shows "\<exists>w1. seen w1 = seen w \<and> k ses w1 = (r, w')"
proof -
  obtain q w1 where q: "uam_checkSuperAdmin am ses w = (q, w1)" by fastforce
  have "isl q" using assms(2) q Gate_ok [unfolded super_check_def, of "s_UserID ses" w]
    by (cases q) (auto simp: uam_checkSuperAdmin_def split: if_splits)
  with assms(1) q framesD [OF check_quiet q] show ?thesis by (auto simp: marking_super_def observe_def split: sum.splits)
qed

text \<open>A call that keeps the accounts of others, after the check.\<close>

lemma marked_leaves:
  assumes "marking_super am ses k w = (r, w')" "\<not> (s_Role ses = SessionSuperAdminRole \<and> platform_admin w (s_UserID ses))"
    and "\<And>a. a = acct w \<Longrightarrow> keeps (still (s_UserID ses) a) (k ses)"
  shows "leaves_others (s_UserID ses) (acct w) (acct w')"
proof -
  from marking_plain [OF assms(1,2)] obtain w1 where w1: "seen w1 = seen w" "k ses w1 = (r, w')" by blast
  have "still (s_UserID ses) (acct w) w1" using w1(1) by simp
  from keepsD [OF assms(3) [OF refl] this w1(2)] show ?thesis by blast
qed

lemma kept_leaves:
  assumes "m w = (r, w')" "\<And>a. keeps (still i a) m"
  shows "leaves_others i (acct w) (acct w')"
  using keepsD [OF assms(2) [of "acct w"] _ assms(1)] by simp

lemma step_leaves_others:
  assumes "account_step am ses w w'" "plain_user (s_UserID ses) (acct w)" "\<not> s_SuperAdmin ses"
    "\<not> (s_Role ses = SessionSuperAdminRole \<and> platform_admin w (s_UserID ses))"
  shows "leaves_others (s_UserID ses) (acct w) (acct w')"
  using assms(1)
proof cases
  case (ac_register u b r)
  show ?thesis
  proof (cases b)
    case True
    with ac_register have "marking_super am ses (\<lambda>ses. usr_Register (ua_svc am) ses u b) w = (r, w')" by (simp add: uam_Register_def)
    from marking_plain [OF this assms(4)] obtain w1 where w1: "seen w1 = seen w" "usr_Register (ua_svc am) ses u b w1 = (r, w')" by blast
    have "leaves_others (s_UserID ses) (acct w) (acct w1)" using w1(1) by simp
    from keepsD [OF Register_leaves this w1(2)] show ?thesis .
  next
    case False
    with ac_register have "usr_Register (ua_svc am) ses u b w = (r, w')" by (simp add: uam_Register_def)
    from keepsD [OF Register_leaves leaves_refl this] show ?thesis .
  qed
next
  case (ac_role u r)
  then obtain q w1 where q: "uam_checkSuperAdmin am ses w = (q, w1)" "isl q \<Longrightarrow> w' = w1"
    by (cases "uam_checkSuperAdmin am ses w"; cases "fst (uam_checkSuperAdmin am ses w)") (auto simp: uam_UpdateRole_def pass_def trying_apply)
  have "isl q" using assms(4) q(1) Gate_ok [unfolded super_check_def, of "s_UserID ses" w]
    by (cases q) (auto simp: uam_checkSuperAdmin_def split: if_splits)
  with q framesD [OF check_quiet q(1)] show ?thesis by simp
qed (use assms(2,3) own_operations session_operations secret_operations keeps_quiet [OF IssueToken_calm] in
    \<open>auto simp: uam_View_def uam_Update_def uam_UpdateTags_def uam_UpdateProfilePicture_def uam_UpdateEmail_def uam_UpdateUsername_def
       uam_Enable_def uam_Disable_def uam_Delete_def intro: marked_leaves [OF _ assms(4)] kept_leaves\<close>)

end

section \<open>Verified emails\<close>

text \<open>The email of a verified account was confirmed: a verification for it was used.\<close>

definition verified_ok :: "accounts \<Rightarrow> (string \<times> string) set \<Rightarrow> bool" where
  "verified_ok a c \<longleftrightarrow> (\<forall>i. \<forall>r \<in> set (a i). du_VerifiedAt r \<noteq> None \<longrightarrow> (i, du_Email r) \<in> c)"

lemma verified_change:
  assumes "verified_ok a c" "row_change i f a a'" "\<And>r. r \<in> set (a i) \<Longrightarrow> du_VerifiedAt (f r) \<noteq> None \<Longrightarrow> (i, du_Email (f r)) \<in> c"
  shows "verified_ok a' c"
  using assms unfolding verified_ok_def row_change_def by (auto split: if_splits)

lemma verified_same: "verified_ok a c \<Longrightarrow> row_change i f a a' \<Longrightarrow> same_email f \<Longrightarrow> verified_ok a' c"
  by (rule verified_change [of a c i f]) (auto simp: verified_ok_def same_email_def)

lemma verified_more: "verified_ok a c \<Longrightarrow> c \<subseteq> c' \<Longrightarrow> verified_ok a c'"
  unfolding verified_ok_def by blast

context user_store
begin

abbreviation vouched :: "'w \<Rightarrow> bool" where
  "vouched w \<equiv> verified_ok (acct w) (confirmed w)"

lemmas vouched_calls = call_frames super_quiet IssueToken_calm
lemmas vouched_quiet = vouched_calls [THEN keeps_frames, where J = verified_ok]

lemma keeps_vouched: "(\<And>w r w'. m w = (r, w') \<Longrightarrow> vouched w \<Longrightarrow> vouched w') \<Longrightarrow> keeps vouched m"
  by (rule keepsI) (metis prod.collapse)

lemma vouched_updates:
  "keeps vouched (ur_Update (us_repo svc) i q)" "keeps vouched (ur_UpdateUsername (us_repo svc) u)"
  "keeps vouched (ur_UpdateSecret (us_repo svc) u)" "keeps vouched (ur_ChangeStatus (us_repo svc) u)"
  "keeps vouched (ur_UpdateRole (us_repo svc) u)" "keeps vouched (ur_UpdateEmail (us_repo svc) u)" "keeps vouched (ur_Save (us_repo svc) u)"
  subgoal by (rule keeps_vouched) (drule Update_any, metis verified_same)
  subgoal by (rule keeps_vouched) (drule Username_any, metis verified_same)
  subgoal by (rule keeps_vouched) (drule Secret_any, metis verified_same)
  subgoal by (rule keeps_vouched) (drule Status_any, metis verified_same)
  subgoal by (rule keeps_vouched) (drule Role_any, metis verified_same)
  subgoal by (rule keeps_vouched) (drule Email_any, metis verified_change)
  subgoal by (rule keeps_vouched) (drule Save_any, auto simp: verified_ok_def split: if_splits)
  done

lemmas vouched_rules = vouched_quiet vouched_updates keeps_trying keeps_pass keeps_observe keeps_guarded keeps_deferring keeps_if keeps_ret keeps_fail
  keeps_case_sum

lemma service_vouched:
  "keeps vouched (usr_Register svc ses u b)" "keeps vouched (usr_View svc ses i)" "keeps vouched (usr_Update svc ses i q)"
  "keeps vouched (usr_UpdateTags svc ses i q)" "keeps vouched (usr_UpdateProfilePicture svc ses i q)" "keeps vouched (usr_UpdateEmail svc ses i e)"
  "keeps vouched (usr_UpdateUsername svc ses i e)" "keeps vouched (usr_UpdateRole svc ses u)"
  "keeps vouched (usr_Enable svc ses i)" "keeps vouched (usr_Disable svc ses i)" "keeps vouched (usr_Delete svc ses i)"
  "keeps vouched (usr_SendVerification svc ses)" "keeps vouched (usr_ResetSecret svc ses e)" "keeps vouched (usr_UpdateSecret svc ses e e')"
  "keeps vouched (usr_RefreshToken svc ses e)" "keeps vouched (usr_RevokeRefreshToken svc ses e)"
  unfolding usr_Register_def addUserPolicy_def addUserPolicyRollback_def usr_View_def usr_Update_def usr_UpdateTags_def usr_UpdateProfilePicture_def
    update_by_def usr_UpdateEmail_def usr_UpdateUsername_def usr_UpdateRole_def updateUserPolicy_def usr_Enable_def usr_Disable_def usr_Delete_def
    changeUserStatus_def usr_SendVerification_def mail_verification_def NewUserVerification_def usr_ResetSecret_def usr_UpdateSecret_def
    usr_RefreshToken_def usr_RevokeRefreshToken_def not_disabled_def Let_def
  by (intro vouched_rules)+

text \<open>The last two steps of a verification: first the verification is marked as used, then the account as verified.\<close>

lemma Verified_vouched:
  assumes "ur_UpdateVerifiedAt (us_repo svc) u w = (r, w')" "vouched w" "(u_ID u, u_Email u) \<in> confirmed w"
  shows "vouched w'"
proof -
  from Verified_any [OF assms(1)] obtain f where f: "confirmed w' = confirmed w" "\<forall>x. du_Email (f x) = u_Email u"
    "row_change (u_ID u) f (acct w) (acct w')" by blast
  from verified_change [OF assms(2) f(3)] f(1,2) assms(3) show ?thesis by simp
qed

lemma use_and_verify:
  assumes "uv_UsedAt uv \<noteq> 0"
  shows "keeps vouched (trying (ur_UpdateUserVerification (us_repo svc) uv) g (\<lambda>_. observe (us_now svc) (\<lambda>t.
    trying (ur_UpdateVerifiedAt (us_repo svc) (User0\<lparr>u_ID := uv_UserID uv, u_Email := uv_Email uv, u_VerifiedAt := t\<rparr>)) g' ret)))"
proof (rule keepsI)
  fix w assume v: "vouched w"
  obtain r w1 where m: "ur_UpdateUserVerification (us_repo svc) uv w = (r, w1)" by fastforce
  obtain t w2 where t: "us_now svc w1 = (t, w2)" by fastforce
  let ?u = "User0\<lparr>u_ID := uv_UserID uv, u_Email := uv_Email uv, u_VerifiedAt := t\<rparr>"
  obtain q w3 where q: "ur_UpdateVerifiedAt (us_repo svc) ?u w2 = (q, w3)" by fastforce
  note used = Used_any [OF m assms]
  have w1: "vouched w1" using used verified_more v by simp
  have w2: "seen w2 = seen w1" by (rule framesD [OF call_frames(18) t])
  have w3: "vouched w3" if "\<not> isl r" by (rule Verified_vouched [OF q]) (use w2 w1 used that in auto)
  show "vouched (snd (trying (ur_UpdateUserVerification (us_repo svc) uv) g (\<lambda>_. observe (us_now svc) (\<lambda>t.
    trying (ur_UpdateVerifiedAt (us_repo svc) (User0\<lparr>u_ID := uv_UserID uv, u_Email := uv_Email uv, u_VerifiedAt := t\<rparr>)) g' ret)) w))"
    using w1 w3 by (cases r; cases q) (simp_all add: trying_apply observe_def m t q)
qed

lemma VerifyEmail_vouched: "keeps vouched (usr_VerifyEmail svc tok)"
proof (cases "uv_Decode (us_json svc) tok")
  case (Inl e)
  then show ?thesis by (simp add: usr_VerifyEmail_def keeps_fail)
next
  case (Inr received)
  have now: "keeps vouched (observe (us_now svc) (\<lambda>used. k used))" if "\<And>used. used \<noteq> 0 \<Longrightarrow> keeps vouched (k used)" for k :: "int \<Rightarrow> ('w, gerror, User) io"
  proof (rule keepsI)
    fix w assume v: "vouched w"
    obtain t w1 where t: "us_now svc w = (t, w1)" by fastforce
    have "vouched w1" using framesD [OF call_frames(18) t] v by simp
    from keepsD [OF that [OF clock [OF t]] this prod.collapse [symmetric]] t show "vouched (snd (observe (us_now svc) k w))"
      by (simp add: observe_def)
  qed
  have uv: "uv_UserID (stored\<lparr>uv_UsedAt := t\<rparr>) = uv_UserID stored" "uv_Email (stored\<lparr>uv_UsedAt := t\<rparr>) = uv_Email stored"
    "uv_UsedAt (stored\<lparr>uv_UsedAt := t\<rparr>) = t" for stored :: UserVerification and t by simp_all
  show ?thesis unfolding usr_VerifyEmail_def Inr sum.case
    by (intro keeps_trying keeps_guarded vouched_quiet keeps_observe now use_and_verify [where uv = "stored\<lparr>uv_UsedAt := t\<rparr>" for stored t, unfolded uv])
qed

end

context user_store
begin

text \<open>Calls without a session: a mail to reset a secret, and the sign up through an identity provider, which vouches for the email.\<close>

lemma generateUsername_quiet: "frames seen (generateUsername svc e)"
  by (auto simp: frames_def generateUsername_def generateRandomID_def split: prod.splits sum.splits
      dest!: framesD [OF call_frames(18)] framesD [OF call_frames(19)] framesD [OF call_frames(20)])

lemma open_vouched: "keeps vouched (usr_SendPasswordReset svc e)" "keeps vouched (usr_OAuthAddUserPolicy svc u)"
  unfolding usr_SendPasswordReset_def usr_OAuthAddUserPolicy_def addUserPolicy_def by (intro vouched_rules)+

lemma OAuthCallback_vouched:
  assumes "\<And>w i. (i, u_Email user) \<in> confirmed w"
  shows "keeps vouched (usr_OAuthCallback svc user)"
proof -
  have "keeps vouched (ur_UpdateVerifiedAt (us_repo svc) (user\<lparr>u_ID := i, u_VerifiedAt := t\<rparr>))" for i t
    by (rule keeps_vouched, erule Verified_vouched) (simp_all add: assms)
  then show ?thesis unfolding usr_OAuthCallback_def
    by (intro vouched_rules service_vouched(1) generateUsername_quiet [THEN keeps_frames])
qed

end

context user_gate
begin

text \<open>The contract holds as well with the emails of a set counted as confirmed for everybody.\<close>

lemma widened: "user_gate am acct (\<lambda>w. confirmed w \<union> UNIV \<times> V) platform_admin"
proof -
  have more: "frames (\<lambda>w. (acct w, confirmed w \<union> UNIV \<times> V)) m" if "frames seen m" for m :: "'w \<Rightarrow> 'a \<times> 'w"
    using that by (simp add: frames_def)
  show ?thesis
    by unfold_locales
      (rule more call_frames gate_frames | erule Check_ok Found_ok Retrieve_ok clock Gate_ok |
        (drule Update_any Username_any Secret_any Status_any Role_any Email_any Verified_any Save_any Used_any; force))+
qed

lemma marked_vouched: "(\<And>s. keeps vouched (k s)) \<Longrightarrow> keeps vouched (marking_super am ses k)"
  unfolding marking_super_def by (intro keeps_observe keeps_case_sum check_quiet [THEN keeps_frames])

lemma gate_vouched:
  "keeps vouched (uam_Register am ses u b)" "keeps vouched (uam_View am ses i)" "keeps vouched (uam_Update am ses i q)"
  "keeps vouched (uam_UpdateTags am ses i q)" "keeps vouched (uam_UpdateProfilePicture am ses i q)" "keeps vouched (uam_UpdateEmail am ses i e)"
  "keeps vouched (uam_UpdateUsername am ses i e)" "keeps vouched (uam_UpdateRole am ses u)"
  "keeps vouched (uam_Enable am ses i)" "keeps vouched (uam_Disable am ses i)" "keeps vouched (uam_Delete am ses i)"
  unfolding uam_Register_def uam_View_def uam_Update_def uam_UpdateTags_def uam_UpdateProfilePicture_def uam_UpdateEmail_def
    uam_UpdateUsername_def uam_UpdateRole_def uam_Enable_def uam_Disable_def uam_Delete_def uam_authorize_def Let_def
  by (intro marked_vouched service_vouched keeps_if keeps_pass check_quiet [THEN keeps_frames] gate_frames [THEN keeps_frames])+

lemma step_vouched:
  assumes "account_step am ses w w'" "vouched w"
  shows "vouched w'"
  using assms(1) by cases (erule keepsD [rotated 2], rule gate_vouched service_vouched vouched_quiet, rule assms(2))+

lemma OAuthAddUserPolicy_vouched: "keeps vouched (uam_OAuthAddUserPolicy am u)"
  unfolding uam_OAuthAddUserPolicy_def uam_authorize_def Let_def
  by (intro keeps_observe keeps_case_sum keeps_ret open_vouched gate_frames [THEN keeps_frames])

end

end
