(* ===== verification/UsersWorld.thy ===== *)
theory UsersWorld
  imports UserAccounts Invitations
begin

text \<open>
  The users service deployed: on its PostgreSQL tables, with the auth service behind gRPC
  for tokens and decisions, the policy service, a mailer and a clock. The contracts of
  \<open>UserAccounts\<close> are shown for it here.
\<close>

section \<open>The deployment\<close>

record users_world =
  uw_users :: users_db
  uw_auth :: auth_world
  uw_domains :: domains_world
  uw_clock :: "nat \<Rightarrow> nat"
  uw_ticks :: nat
  uw_ids :: "nat \<Rightarrow> gerror + string"
  uw_nid :: nat
  uw_rand :: "nat \<Rightarrow> char"
  uw_nrand :: nat
  uw_rand_faults :: "nat \<Rightarrow> gerror option"
  uw_mails :: "(string list \<times> string \<times> string) list"
  uw_mail_faults :: "gerror option list"

abbreviation on_users :: "(users_db, 'e, 'a) io \<Rightarrow> (users_world, 'e, 'a) io" where
  "on_users m \<equiv> lifted uw_users (\<lambda>d w. w\<lparr>uw_users := d\<rparr>) m"

abbreviation on_auth :: "(auth_world, 'e, 'a) io \<Rightarrow> (users_world, 'e, 'a) io" where
  "on_auth m \<equiv> lifted uw_auth (\<lambda>a w. w\<lparr>uw_auth := a\<rparr>) m"

abbreviation on_policies :: "(ref_store, 'e, 'a) io \<Rightarrow> (users_world, 'e, 'a) io" where
  "on_policies m \<equiv> on_auth (lifted aw_store (\<lambda>s a. a\<lparr>aw_store := s\<rparr>) m)"

text \<open>The domains service has its own tables and the same policy store.\<close>

definition get_domains :: "users_world \<Rightarrow> domains_world" where
  "get_domains w = (uw_domains w)\<lparr>dw_store := aw_store (uw_auth w)\<rparr>"

definition put_domains :: "domains_world \<Rightarrow> users_world \<Rightarrow> users_world" where
  "put_domains d w = w\<lparr>uw_domains := d, uw_auth := (uw_auth w)\<lparr>aw_store := dw_store d\<rparr>\<rparr>"

text \<open>The time is after the epoch.\<close>

definition uw_Now :: "users_world \<Rightarrow> int \<times> users_world" where
  "uw_Now w = (int (Suc (uw_clock w (uw_ticks w))), w\<lparr>uw_ticks := Suc (uw_ticks w)\<rparr>)"

definition uw_ID :: "(users_world, gerror, string) io" where
  "uw_ID w = (uw_ids w (uw_nid w), w\<lparr>uw_nid := Suc (uw_nid w)\<rparr>)"

definition uw_draw :: "nat \<Rightarrow> (users_world, gerror, string) io" where
  "uw_draw n w = (case uw_rand_faults w (uw_nrand w) of
      Some e \<Rightarrow> (Inl e, w\<lparr>uw_nrand := Suc (uw_nrand w)\<rparr>)
    | None \<Rightarrow> (Inr (map (uw_rand w) [uw_nrand w..<uw_nrand w + n]), w\<lparr>uw_nrand := uw_nrand w + n\<rparr>))"

definition uw_send :: "string list \<Rightarrow> string \<Rightarrow> string \<Rightarrow> (users_world, gerror, unit) io" where
  "uw_send to user body w = (case uw_mail_faults w of
      Some e # fs \<Rightarrow> (Inl e, w\<lparr>uw_mail_faults := fs\<rparr>)
    | fs \<Rightarrow> (Inr (), w\<lparr>uw_mail_faults := tl fs, uw_mails := (to, user, body) # uw_mails w\<rparr>))"

record user_libraries =
  ul_auth :: libraries
  ul_bcrypt :: bcrypt
  ul_json :: json_codec
  ul_isAddress :: "string \<Rightarrow> bool"
  ul_ToLower :: "string \<Rightarrow> string"
  ul_pg :: pg_engine

definition users_repo :: "pg_engine \<Rightarrow> users_world UsersRepository" where
  "users_repo pg = \<lparr>ur_RetrieveByID = (\<lambda>i. on_users (urr_RetrieveByID i)), ur_RetrieveAll = (\<lambda>pm. on_users (urr_RetrieveAll pg pm)),
     ur_RetrieveByEmail = (\<lambda>e. on_users (urr_RetrieveByEmail e)), ur_RetrieveByUsername = (\<lambda>n. on_users (urr_RetrieveByUsername n)),
     ur_Update = (\<lambda>i q. on_users (urr_Update i q)), ur_UpdateUsername = (\<lambda>u. on_users (urr_UpdateUsername u)),
     ur_UpdateSecret = (\<lambda>u. on_users (urr_UpdateSecret u)), ur_UpdateEmail = (\<lambda>u. on_users (urr_UpdateEmail u)),
     ur_UpdateRole = (\<lambda>u. on_users (urr_UpdateRole u)), ur_UpdateVerifiedAt = (\<lambda>u. on_users (urr_UpdateVerifiedAt u)),
     ur_ChangeStatus = (\<lambda>u. on_users (urr_ChangeStatus u)), ur_Delete = (\<lambda>i. on_users (urr_Delete i)),
     ur_SearchUsers = (\<lambda>pm. on_users (urr_SearchUsers pg pm)), ur_CheckSuperAdmin = (\<lambda>i. on_users (urr_CheckSuperAdmin i)),
     ur_Save = (\<lambda>u. on_users (urr_Save u)), ur_AddUserVerification = (\<lambda>v. on_users (urr_AddUserVerification v)),
     ur_RetrieveUserVerification = (\<lambda>i e. on_users (urr_RetrieveUserVerification i e)),
     ur_UpdateUserVerification = (\<lambda>v. on_users (urr_UpdateUserVerification v))\<rparr>"

definition deployed_users :: "user_libraries \<Rightarrow> users_world users_service" where
  "deployed_users U = (let auth = deployed_auth (ul_auth U) in
     \<lparr>us_repo = users_repo (ul_pg U), us_Issue = (\<lambda>q. on_auth (token_Issue auth q)), us_Refresh = (\<lambda>t v. on_auth (token_Refresh auth t v)),
      us_Revoke = (\<lambda>i t. on_auth (token_Revoke auth i t)), us_ListUserRefreshTokens = (\<lambda>i. on_auth (token_ListUserRefreshTokens auth i)),
      us_idProvider = uw_ID, us_AddPolicy = (\<lambda>p. on_policies (AddPolicy ref_client p)), us_AddPolicies = (\<lambda>ps. on_policies (AddPolicies ref_client ps)),
      us_DeletePolicies = (\<lambda>ps. on_policies (DeletePolicies ref_client ps)), us_DeletePolicyFilter = (\<lambda>p. on_policies (DeletePolicyFilter ref_client p)),
      us_Hash = (\<lambda>s w. (bcryptHasher_Hash (ul_bcrypt U) s, w)), us_Compare = bcryptHasher_Compare (ul_bcrypt U),
      us_mailVerification = uw_send, us_mailPasswordReset = uw_send, us_now = uw_Now, us_randRead = uw_draw, us_uuid = uw_draw 16,
      us_json = ul_json U, us_isAddress = ul_isAddress U, us_ToLower = ul_ToLower U\<rparr>)"

definition deployed_authorization :: "libraries \<Rightarrow> users_world authorization" where
  "deployed_authorization L = \<lparr>az_Authorize = (\<lambda>pr pat. on_auth (auth_client_Authorize (deployed_auth L) pr pat)),
     az_RetrieveStatus = (\<lambda>d. lifted get_domains put_domains (domain_RetrieveStatus deployed_domains d))\<rparr>"

definition deployed_gate :: "user_libraries \<Rightarrow> users_world users_authz" where
  "deployed_gate U = \<lparr>ua_svc = deployed_users U, ua_Authorize = authz_Authorize (deployed_authorization (ul_auth U))\<rparr>"

lemma deployed_repo [simp]:
  "ur_RetrieveByID (users_repo pg) i = on_users (urr_RetrieveByID i)"
  "ur_RetrieveAll (users_repo pg) pm = on_users (urr_RetrieveAll pg pm)"
  "ur_RetrieveByEmail (users_repo pg) e = on_users (urr_RetrieveByEmail e)"
  "ur_RetrieveByUsername (users_repo pg) n = on_users (urr_RetrieveByUsername n)"
  "ur_Update (users_repo pg) i q = on_users (urr_Update i q)"
  "ur_UpdateUsername (users_repo pg) u = on_users (urr_UpdateUsername u)"
  "ur_UpdateSecret (users_repo pg) u = on_users (urr_UpdateSecret u)"
  "ur_UpdateEmail (users_repo pg) u = on_users (urr_UpdateEmail u)"
  "ur_UpdateRole (users_repo pg) u = on_users (urr_UpdateRole u)"
  "ur_UpdateVerifiedAt (users_repo pg) u = on_users (urr_UpdateVerifiedAt u)"
  "ur_ChangeStatus (users_repo pg) u = on_users (urr_ChangeStatus u)"
  "ur_Delete (users_repo pg) i = on_users (urr_Delete i)"
  "ur_SearchUsers (users_repo pg) pm = on_users (urr_SearchUsers pg pm)"
  "ur_CheckSuperAdmin (users_repo pg) i = on_users (urr_CheckSuperAdmin i)"
  "ur_Save (users_repo pg) u = on_users (urr_Save u)"
  "ur_AddUserVerification (users_repo pg) v = on_users (urr_AddUserVerification v)"
  "ur_RetrieveUserVerification (users_repo pg) i e = on_users (urr_RetrieveUserVerification i e)"
  "ur_UpdateUserVerification (users_repo pg) v = on_users (urr_UpdateUserVerification v)"
  by (simp_all add: users_repo_def)

lemma deployed_users_calls [simp]:
  "us_repo (deployed_users U) = users_repo (ul_pg U)"
  "us_Issue (deployed_users U) = (\<lambda>q. on_auth (token_Issue (deployed_auth (ul_auth U)) q))"
  "us_Refresh (deployed_users U) = (\<lambda>t v. on_auth (token_Refresh (deployed_auth (ul_auth U)) t v))"
  "us_Revoke (deployed_users U) = (\<lambda>i t. on_auth (token_Revoke (deployed_auth (ul_auth U)) i t))"
  "us_ListUserRefreshTokens (deployed_users U) = (\<lambda>i. on_auth (token_ListUserRefreshTokens (deployed_auth (ul_auth U)) i))"
  "us_idProvider (deployed_users U) = uw_ID"
  "us_AddPolicy (deployed_users U) = (\<lambda>p. on_policies (AddPolicy ref_client p))"
  "us_AddPolicies (deployed_users U) = (\<lambda>ps. on_policies (AddPolicies ref_client ps))"
  "us_DeletePolicies (deployed_users U) = (\<lambda>ps. on_policies (DeletePolicies ref_client ps))"
  "us_DeletePolicyFilter (deployed_users U) = (\<lambda>p. on_policies (DeletePolicyFilter ref_client p))"
  "us_Hash (deployed_users U) = (\<lambda>s w. (bcryptHasher_Hash (ul_bcrypt U) s, w))"
  "us_Compare (deployed_users U) = bcryptHasher_Compare (ul_bcrypt U)"
  "us_mailVerification (deployed_users U) = uw_send"
  "us_mailPasswordReset (deployed_users U) = uw_send"
  "us_now (deployed_users U) = uw_Now"
  "us_randRead (deployed_users U) = uw_draw"
  "us_uuid (deployed_users U) = uw_draw 16"
  "us_json (deployed_users U) = ul_json U"
  "us_isAddress (deployed_users U) = ul_isAddress U"
  "us_ToLower (deployed_users U) = ul_ToLower U"
  by (simp_all add: deployed_users_def Let_def)

lemma deployed_gate_calls [simp]:
  "ua_svc (deployed_gate U) = deployed_users U" "ua_Authorize (deployed_gate U) = authz_Authorize (deployed_authorization (ul_auth U))"
  by (simp_all add: deployed_gate_def)

lemmas deployed_calls = deployed_repo deployed_users_calls deployed_gate_calls

definition account :: "users_world \<Rightarrow> accounts" where
  "account w i = filter (\<lambda>r. du_ID r = i) (ut_users (committed (uw_users w)))"

definition used_verifications :: "users_world \<Rightarrow> (string \<times> string) set" where
  "used_verifications w = (\<lambda>v. (dv_UserID v, dv_Email v)) ` set (filter (\<lambda>v. dv_UsedAt v \<noteq> None) (ut_verifications (committed (uw_users w))))"

text \<open>Would the policy service, asked now, grant a user the administration of the platform?\<close>

definition platform_admin :: "users_world \<Rightarrow> string \<Rightarrow> bool" where
  "platform_admin w i \<longleftrightarrow> fst (CheckPolicy ref_client (super_check i) (aw_store (uw_auth w))) = None"

section \<open>The statements\<close>

lemma account_views [simp]:
  "account (w\<lparr>uw_auth := a\<rparr>) = account w" "account (w\<lparr>uw_ticks := n\<rparr>) = account w" "account (w\<lparr>uw_nid := n\<rparr>) = account w"
  "account (w\<lparr>uw_nrand := n\<rparr>) = account w" "account (w\<lparr>uw_mail_faults := fs\<rparr>) = account w" "account (w\<lparr>uw_mails := ms\<rparr>) = account w"
  "account (put_domains d w) = account w"
  by (simp_all add: account_def put_domains_def fun_eq_iff)

lemma used_views [simp]:
  "used_verifications (w\<lparr>uw_auth := a\<rparr>) = used_verifications w" "used_verifications (w\<lparr>uw_ticks := n\<rparr>) = used_verifications w"
  "used_verifications (w\<lparr>uw_nid := n\<rparr>) = used_verifications w" "used_verifications (w\<lparr>uw_nrand := n\<rparr>) = used_verifications w"
  "used_verifications (w\<lparr>uw_mail_faults := fs\<rparr>) = used_verifications w" "used_verifications (w\<lparr>uw_mails := ms\<rparr>) = used_verifications w"
  "used_verifications (put_domains d w) = used_verifications w"
  by (simp_all add: used_verifications_def put_domains_def)

lemma same_tables: "committed (uw_users w') = committed (uw_users w) \<Longrightarrow> account w' = account w \<and> used_verifications w' = used_verifications w"
  by (simp add: account_def used_verifications_def fun_eq_iff)

lemma first_user_reads [io_intros]: "reads (first_user g rs)"
  unfolding first_user_def by (intro io_intros reads_driver)

lemma urr_reads:
  "reads (urr_RetrieveByID i)" "reads (urr_RetrieveByEmail e)" "reads (urr_RetrieveByUsername n)" "reads (urr_CheckSuperAdmin i)"
  unfolding urr_RetrieveByID_def urr_RetrieveByEmail_def urr_RetrieveByUsername_def urr_CheckSuperAdmin_def by (intro io_intros reads_driver)+

lemma urr_RetrieveUserVerification_reads: "reads (urr_RetrieveUserVerification i e)"
  unfolding urr_RetrieveUserVerification_def by (auto intro!: io_intros reads_driver split: option.splits)

lemma on_users_reads: "reads m \<Longrightarrow> frames (\<lambda>w. (account w, used_verifications w)) (on_users m)"
  unfolding frames_def by (auto simp: lifted_eq dest!: readsD intro!: same_tables [THEN conjunct1] same_tables [THEN conjunct2])

text \<open>A statement on the rows of users does what it says or nothing, whatever the result is.\<close>

lemma urr_update_any:
  assumes "urr_update (update_users p f) g d = (r, d')"
  shows "committed d' = committed d \<or>
    committed d' = (committed d)\<lparr>ut_users := map (\<lambda>x. if p x then f x else x) (ut_users (committed d))\<rparr>"
proof -
  obtain q d1 where q: "db_exec (update_users p f) d = (q, d1)" by fastforce
  show ?thesis
  proof (cases q)
    case (Inl e)
    with assms q db_exec_err [OF q [unfolded Inl]] show ?thesis by (simp add: urr_update_def trying_apply)
  next
    case (Inr rs)
    with assms q have "first_user repoErrUnmarshalBDEntity (map g rs) d1 = (r, d')" by (simp add: urr_update_def trying_apply)
    from readsD [OF first_user_reads this] db_exec_ok [OF q [unfolded Inr]] show ?thesis
      by (auto simp: update_users_def Let_def split: if_splits option.splits)
  qed
qed

lemma urr_update_refused:
  assumes "urr_update (\<lambda>t. Inl e) g d = (r, d')"
  shows "committed d' = committed d"
proof -
  obtain q :: "dberror + DBUser list" and d1 where q: "db_exec (\<lambda>t. Inl e) d = (q, d1)" by fastforce
  then obtain x where x: "q = Inl x" by (cases q) (auto dest: db_exec_ok)
  with assms q db_exec_err [OF q [unfolded x]] show ?thesis by (simp add: urr_update_def trying_apply)
qed

lemma filter_map_ID: "(\<And>r. du_ID (f r) = du_ID r) \<Longrightarrow> filter (\<lambda>r. du_ID r = i) (map f rs) = map f (filter (\<lambda>r. du_ID r = i) rs)"
  by (induction rs) auto

lemma update_row:
  assumes "on_users (urr_update (update_users p f) g) w = (r, w')" "\<And>x. p x \<Longrightarrow> du_ID x = i" "\<And>x. du_ID (f x) = du_ID x"
  shows "used_verifications w' = used_verifications w \<and> row_change i f (account w) (account w')"
proof -
  from assms(1) obtain d where d: "urr_update (update_users p f) g (uw_users w) = (r, d)" "w' = w\<lparr>uw_users := d\<rparr>" by (auto simp: lifted_eq)
  let ?F = "\<lambda>x. if p x then f x else x" and ?t = "committed (uw_users w)"
  from urr_update_any [OF d(1)] show ?thesis
  proof
    assume "committed d = ?t"
    with same_tables [of w' w] d(2) show ?thesis by (auto simp: row_change_def intro!: exI [of _ "\<lambda>_. False"])
  next
    assume t: "committed d = ?t\<lparr>ut_users := map ?F (ut_users ?t)\<rparr>"
    have a: "account w' j = map ?F (account w j)" for j
      using filter_map_ID [of ?F j "ut_users ?t"] assms(3) d(2) t by (simp add: account_def)
    have "map ?F (account w j) = account w j" if "j \<noteq> i" for j
      using assms(2) that by (intro map_idI) (auto simp: account_def)
    then have "account w' = (account w)(i := map ?F (account w i))" using a by (auto simp: fun_eq_iff)
    then have "row_change i f (account w) (account w')" by (auto simp: row_change_def)
    moreover have "used_verifications w' = used_verifications w" using d(2) t by (simp add: used_verifications_def)
    ultimately show ?thesis by simp
  qed
qed

lemma update_row_ex:
  assumes "on_users (urr_update (update_users p f) g) w = (r, w')" "P f" "\<And>x. p x \<Longrightarrow> du_ID x = i" "\<And>x. du_ID (f x) = du_ID x"
  shows "used_verifications w' = used_verifications w \<and> (\<exists>f. P f \<and> row_change i f (account w) (account w'))"
  using update_row [OF assms(1,3,4)] assms(2) by blast

lemma set_user_columns_keep [simp]:
  "du_ID (set_user_columns q r) = du_ID r" "du_Role (set_user_columns q r) = du_Role r"
  "du_Email (set_user_columns q r) = du_Email r" "du_VerifiedAt (set_user_columns q r) = du_VerifiedAt r"
  by (simp_all add: set_user_columns_def Let_def split: option.splits)

lemma user_updates:
  "on_users (urr_Update i q) w = (r, w') \<Longrightarrow> used_verifications w' = used_verifications w \<and> (\<exists>f. same_role f \<and> same_email f \<and> row_change i f (account w) (account w'))"
  "on_users (urr_UpdateUsername u) w = (r, w') \<Longrightarrow> used_verifications w' = used_verifications w \<and> (\<exists>f. same_role f \<and> same_email f \<and> row_change (u_ID u) f (account w) (account w'))"
  "on_users (urr_UpdateSecret u) w = (r, w') \<Longrightarrow> used_verifications w' = used_verifications w \<and> (\<exists>f. same_role f \<and> same_email f \<and> row_change (u_ID u) f (account w) (account w'))"
  "on_users (urr_ChangeStatus u) w = (r, w') \<Longrightarrow> used_verifications w' = used_verifications w \<and> (\<exists>f. same_role f \<and> same_email f \<and> row_change (u_ID u) f (account w) (account w'))"
  "on_users (urr_UpdateRole u) w = (r, w') \<Longrightarrow> used_verifications w' = used_verifications w \<and> (\<exists>f. same_email f \<and> row_change (u_ID u) f (account w) (account w'))"
  "on_users (urr_UpdateEmail u) w = (r, w') \<Longrightarrow> used_verifications w' = used_verifications w \<and>
     (\<exists>f. same_role f \<and> (\<forall>x. du_VerifiedAt (f x) = None) \<and> row_change (u_ID u) f (account w) (account w'))"
  subgoal premises h
  proof (cases "sets_no_user_column q")
    case True
    with h have "committed (uw_users w') = committed (uw_users w)" by (auto simp: urr_Update_def lifted_eq dest!: urr_update_refused)
    from same_tables [OF this] show ?thesis by (auto simp: row_change_def same_role_def same_email_def intro!: exI [of _ "\<lambda>x. x"] exI [of _ "\<lambda>_. False"])
  next
    case False
    with h have "on_users (urr_update (update_users (user_with i EnabledStatus) (set_user_columns q)) (\<lambda>r. r\<lparr>du_Secret := [], du_AuthProvider := None\<rparr>)) w = (r, w')"
      by (simp add: urr_Update_def)
    from update_row [OF this, of i] show ?thesis by (intro conjI exI [of _ "set_user_columns q"]) (auto simp: same_role_def same_email_def)
  qed
  subgoal
    unfolding urr_UpdateUsername_def Let_def
    by (drule update_row_ex [where i = "u_ID u" and P = "\<lambda>f. same_role f \<and> same_email f"])
      (auto simp: toDBUser_def touch_user_def same_role_def same_email_def)
  subgoal
    unfolding urr_UpdateSecret_def Let_def
    by (drule update_row_ex [where i = "u_ID u" and P = "\<lambda>f. same_role f \<and> same_email f"])
      (auto simp: toDBUser_def touch_user_def same_role_def same_email_def)
  subgoal
    unfolding urr_ChangeStatus_def Let_def
    by (drule update_row_ex [where i = "u_ID u" and P = "\<lambda>f. same_role f \<and> same_email f"])
      (auto simp: toDBUser_def touch_user_def same_role_def same_email_def)
  subgoal
    unfolding urr_UpdateRole_def Let_def
    by (drule update_row_ex [where i = "u_ID u" and P = "same_email"])
      (auto simp: toDBUser_def touch_user_def same_role_def same_email_def)
  subgoal
    unfolding urr_UpdateEmail_def Let_def
    by (drule update_row_ex [where i = "u_ID u" and P = "\<lambda>f. same_role f \<and> (\<forall>x. du_VerifiedAt (f x) = None)"])
      (auto simp: toDBUser_def touch_user_def same_role_def same_email_def)
  done

lemma update_users_cong: "(\<And>x. p x \<Longrightarrow> f x = f' x) \<Longrightarrow> update_users p f = update_users p f'"
proof (rule ext)
  fix t :: user_tables assume h: "\<And>x. p x \<Longrightarrow> f x = f' x"
  have "map f (filter p (ut_users t)) = map f' (filter p (ut_users t))"
    "map (\<lambda>r. if p r then f r else r) (ut_users t) = map (\<lambda>r. if p r then f' r else r) (ut_users t)" using h by auto
  then show "update_users p f t = update_users p f' t" unfolding update_users_def by (simp only:)
qed

lemma user_verified:
  assumes "on_users (urr_UpdateVerifiedAt u) w = (r, w')"
  shows "used_verifications w' = used_verifications w \<and>
    (\<exists>f. same_role f \<and> (\<forall>x. du_Email (f x) = u_Email u) \<and> row_change (u_ID u) f (account w) (account w'))"
proof -
  let ?p = "\<lambda>r. du_ID r = du_ID (toDBUser u) \<and> du_Email r = du_Email (toDBUser u)"
  let ?f = "\<lambda>r. r\<lparr>du_VerifiedAt := du_VerifiedAt (toDBUser u), du_Email := u_Email u\<rparr>"
  have "update_users ?p (\<lambda>r. r\<lparr>du_VerifiedAt := du_VerifiedAt (toDBUser u)\<rparr>) = update_users ?p ?f"
    by (rule update_users_cong) (auto simp: toDBUser_def)
  with assms have "on_users (urr_update (update_users ?p ?f) without_account) w = (r, w')" by (simp add: urr_UpdateVerifiedAt_def Let_def)
  from update_row [OF this, of "u_ID u"] have "used_verifications w' = used_verifications w \<and> row_change (u_ID u) ?f (account w) (account w')"
    by (simp add: toDBUser_def)
  then show ?thesis by (intro conjI exI [of _ ?f]) (auto simp: same_role_def)
qed

lemma user_saved:
  assumes "on_users (urr_Save u) w = (r, w')"
  shows "used_verifications w' = used_verifications w \<and>
    (account w' = account w \<or> (\<exists>x. account w (u_ID u) = [] \<and> du_VerifiedAt x = None \<and> account w' = (account w)(u_ID u := [x])))"
proof -
  from assms obtain d where d: "urr_Save u (uw_users w) = (r, d)" "w' = w\<lparr>uw_users := d\<rparr>" by (auto simp: lifted_eq)
  let ?row = "(toDBUser u)\<lparr>du_UpdatedAt := None, du_UpdatedBy := None, du_VerifiedAt := None\<rparr>" and ?t = "committed (uw_users w)"
  obtain q d1 where q: "db_exec (insert_user (toDBUser u)) (uw_users w) = (q, d1)" by fastforce
  show ?thesis
  proof (cases q)
    case (Inl e)
    with d q db_exec_err [OF q [unfolded Inl]] same_tables [of w' w] show ?thesis by (simp add: urr_Save_def trying_apply)
  next
    case (Inr x)
    with d(1) q have "committed d = committed d1"
      by (auto simp: urr_Save_def trying_apply dest!: driver_ret split: prod.splits sum.splits)
    with db_exec_ok [OF q [unfolded Inr]] have t: "committed d = ?t\<lparr>ut_users := ut_users ?t @ [?row]\<rparr>" "check_users (ut_users ?t @ [?row]) = None"
      by (auto simp: insert_user_def Let_def split: if_splits option.splits)
    from t(2) have "du_ID ?row \<notin> du_ID ` set (ut_users ?t)" by (simp add: check_users_def split: if_splits)
    then have n: "account w (u_ID u) = []" by (force simp: account_def filter_empty_conv toDBUser_def)
    have "account w' j = ((account w)(u_ID u := [?row])) j" for j
      using t(1) d(2) n by (auto simp: account_def toDBUser_def)
    then have "account w' = (account w)(u_ID u := [?row])" by (rule ext)
    moreover have "used_verifications w' = used_verifications w" using t(1) d(2) by (simp add: used_verifications_def)
    moreover have "du_VerifiedAt ?row = None" by simp
    ultimately show ?thesis using n by blast
  qed
qed

lemma verification_used:
  assumes "on_users (urr_UpdateUserVerification v) w = (r, w')" "uv_UsedAt v \<noteq> 0"
  shows "account w' = account w \<and> used_verifications w \<subseteq> used_verifications w' \<and>
    (\<not> isl r \<longrightarrow> (uv_UserID v, uv_Email v) \<in> used_verifications w')"
proof -
  from assms obtain d where d: "urr_UpdateUserVerification v (uw_users w) = (r, d)" "w' = w\<lparr>uw_users := d\<rparr>" by (auto simp: lifted_eq)
  let ?p = "verification_of (uv_UserID v) (uv_Email v)" and ?t = "committed (uw_users w)"
  let ?f = "\<lambda>x. x\<lparr>dv_OTP := dv_OTP (toDBUserVerification v), dv_UsedAt := dv_UsedAt (toDBUserVerification v)\<rparr>"
  let ?F = "\<lambda>x. if ?p x then ?f x else x"
  have toDB: "dv_UserID (toDBUserVerification v) = uv_UserID v" "dv_Email (toDBUserVerification v) = uv_Email v" "dv_UsedAt (toDBUserVerification v) \<noteq> None"
    using assms(2) by (auto simp: toDBUserVerification_def null_at_def)
  obtain q d1 where q: "db_exec (update_verifications ?p ?f) (uw_users w) = (q, d1)" by fastforce
  show ?thesis
  proof (cases q)
    case (Inl e)
    with d(1) q toDB have "d1 = d" "isl r" by (auto simp: urr_UpdateUserVerification_def Let_def trying_apply)
    with db_exec_err [OF q [unfolded Inl]] same_tables [of w' w] d(2) show ?thesis by simp
  next
    case (Inr n)
    with d(1) q toDB have c: "committed d = committed d1" "\<not> isl r \<Longrightarrow> n \<noteq> 0"
      by (auto simp: urr_UpdateUserVerification_def Let_def trying_apply dest!: driver_ret split: prod.splits sum.splits if_splits)
    with db_exec_ok [OF q [unfolded Inr]] have t: "committed d = ?t\<lparr>ut_verifications := map ?F (ut_verifications ?t)\<rparr>"
      "n = length (filter ?p (ut_verifications ?t))"
      by (auto simp: update_verifications_def split: if_splits)
    have "account w' = account w" using t(1) d(2) by (simp add: account_def fun_eq_iff)
    moreover have used: "(dv_UserID x, dv_Email x) \<in> used_verifications w'"
      if "x \<in> set (ut_verifications ?t)" "?p x \<or> dv_UsedAt x \<noteq> None" for x
    proof -
      have "?F x \<in> set (ut_verifications (committed d))" "dv_UsedAt (?F x) \<noteq> None" "dv_UserID (?F x) = dv_UserID x" "dv_Email (?F x) = dv_Email x"
        using that t(1) toDB(3) by auto
      then show ?thesis using d(2) unfolding used_verifications_def by (intro image_eqI [of _ _ "?F x"]) auto
    qed
    moreover have "used_verifications w \<subseteq> used_verifications w'" using used by (auto simp: used_verifications_def)
    moreover have "(uv_UserID v, uv_Email v) \<in> used_verifications w'" if r: "\<not> isl r"
    proof -
      from c(2) [OF r] t(2) obtain x where x: "x \<in> set (ut_verifications ?t)" "?p x" by (auto simp: filter_empty_conv)
      with used [of x] show ?thesis by (simp add: verification_of_def)
    qed
    ultimately show ?thesis by blast
  qed
qed

lemma verification_added:
  "frames (\<lambda>w. (account w, used_verifications w)) (on_users (urr_AddUserVerification v))"
proof -
  have "account (w\<lparr>uw_users := d\<rparr>) = account w \<and> used_verifications (w\<lparr>uw_users := d\<rparr>) = used_verifications w"
    if h: "urr_AddUserVerification v (uw_users w) = (r, d)" for w r d
  proof -
    obtain q d1 where q: "db_exec (insert_verification (toDBUserVerification v)) (uw_users w) = (q, d1)" by fastforce
    have d: "d = d1" using h q by (cases q) (auto simp: urr_AddUserVerification_def trying_apply)
    show ?thesis
    proof (cases q)
      case (Inl e)
      from db_exec_err [OF q [unfolded Inl]] d show ?thesis by (simp add: account_def used_verifications_def fun_eq_iff)
    next
      case (Inr x)
      from db_exec_ok [OF q [unfolded Inr]] d have "committed d = (committed (uw_users w))\<lparr>ut_verifications :=
          ut_verifications (committed (uw_users w)) @ [(toDBUserVerification v)\<lparr>dv_UsedAt := None\<rparr>]\<rparr>"
        by (auto simp: insert_verification_def Let_def split: if_splits)
      then show ?thesis by (simp add: account_def used_verifications_def fun_eq_iff)
    qed
  qed
  then show ?thesis by (auto simp: frames_def lifted_eq)
qed

section \<open>The contracts hold\<close>

lemma Gate_grants:
  assumes "authz_Authorize (deployed_authorization L) (super_check i) None w = (Inr x, w')"
  shows "platform_admin w i"
proof -
  have p: "Policy0\<lparr>p_Domain := p_Domain (super_check i), p_SubjectType := p_SubjectType (super_check i), p_SubjectKind := p_SubjectKind (super_check i),
     p_SubjectRelation := p_SubjectRelation (super_check i), p_Subject := p_Subject (super_check i), p_Relation := p_Relation (super_check i),
     p_Permission := p_Permission (super_check i), p_Object := p_Object (super_check i), p_ObjectType := p_ObjectType (super_check i)\<rparr> = super_check i"
    by (simp add: super_check_def Policy0_def)
  have t: "\<not> (p_ObjectType (super_check i) = GroupType \<or> p_ObjectType (super_check i) = ClientType \<or> p_ObjectType (super_check i) = DomainType)"
    by (simp add: super_check_def PlatformType_def GroupType_def ClientType_def DomainType_def)
  from assms obtain b w1 where "auth_client_Authorize (deployed_auth L) (super_check i) None (uw_auth w) = (Inr b, w1)"
    by (auto simp: authz_Authorize_def t p deployed_authorization_def lifted_eq dest!: pass_InrD trying_InrD)
  then obtain c w2 where "auth_Authorize (deployed_auth L) (super_check i) None (uw_auth w) = (Inr c, w2)"
    by (auto simp: auth_client_Authorize_def auth_authorizeEndpoint_def super_check_def Policy0_def Let_def dest!: pass_InrD trying_InrD guarded_InrD)
  then show ?thesis
    by (auto simp: auth_Authorize_def auth_checkPolicy_def platform_admin_def deployed_auth_def observe_apply dest!: pass_InrD guarded_InrD
      split: prod.splits option.splits)
qed

lemma Retrieved_ID:
  assumes "urr_RetrieveByID i d = (Inr u, d')"
  shows "u_ID u = i \<and> (\<exists>r \<in> set (filter (\<lambda>r. du_ID r = i) (ut_users (committed d))). u = ToUser r)"
proof -
  let ?rs = "filter (\<lambda>r. du_ID r = i) (ut_users (committed d))"
  from assms obtain d1 where "first_user repoErrViewEntity ?rs d1 = (Inr u, d')"
    by (auto simp: urr_RetrieveByID_def dest!: trying_InrD db_query_ok)
  then obtain r rs where r: "?rs = r # rs" "u = ToUser r" by (auto simp: first_user_def dest!: trying_InrD driver_ret split: list.splits)
  moreover have m: "r \<in> set ?rs" using r(1) by simp
  moreover have "u_ID u = i" using m r(2) by (simp add: ToUser_def)
  ultimately show ?thesis by blast
qed

lemma Checked_admin:
  assumes "urr_CheckSuperAdmin i d = (Inr u, d')"
  shows "\<exists>r \<in> set (filter (\<lambda>r. du_ID r = i) (ut_users (committed d))). du_Role r = Some usrAdminRole"
proof -
  from assms(1) have "filter (\<lambda>r. du_ID r = i \<and> du_Role r = Some usrAdminRole) (ut_users (committed d)) \<noteq> []"
    by (auto simp: urr_CheckSuperAdmin_def dest!: trying_InrD db_query_ok split: list.splits)
  then show ?thesis by (auto simp: filter_empty_conv)
qed

lemma latest_in: "latest vs = Some v \<Longrightarrow> v \<in> set vs"
  by (induction vs arbitrary: v) (auto split: option.splits if_splits)

lemma Found_verification:
  assumes "urr_RetrieveUserVerification i e d = (Inr v, d')"
  shows "uv_UserID v = i \<and> uv_Email v = e"
proof -
  from assms obtain x where "latest (filter (verification_of i e) (ut_verifications (committed d))) = Some x" "v = toUserVerification x"
    by (auto simp: urr_RetrieveUserVerification_def dest!: trying_InrD db_query_ok driver_ret split: option.splits)
  with latest_in [of _ x] show ?thesis by (force simp: verification_of_def toUserVerification_def)
qed

interpretation users: user_gate "deployed_gate U" account used_verifications platform_admin
proof
  fix i q u v tok b p pat e iq ps s to un tx n w w'
  let ?svc = "ua_svc (deployed_gate U)"
  show "\<exists>r \<in> set (account w i). du_Role r = Some usrAdminRole" if "ur_CheckSuperAdmin (us_repo ?svc) i w = (Inr chk, w')" for chk
    using that by (auto simp: lifted_eq account_def dest!: Checked_admin)
  show "used_verifications w' = used_verifications w \<and> (\<exists>f. same_role f \<and> same_email f \<and> row_change i f (account w) (account w'))"
    if "ur_Update (us_repo ?svc) i q w = (r, w')" for r using that user_updates(1) [of i q w r w'] by simp
  show "used_verifications w' = used_verifications w \<and> (\<exists>f. same_role f \<and> same_email f \<and> row_change (u_ID u) f (account w) (account w'))"
    if "ur_UpdateUsername (us_repo ?svc) u w = (r, w')" for r using that user_updates(2) [of u w r w'] by simp
  show "used_verifications w' = used_verifications w \<and> (\<exists>f. same_role f \<and> same_email f \<and> row_change (u_ID u) f (account w) (account w'))"
    if "ur_UpdateSecret (us_repo ?svc) u w = (r, w')" for r using that user_updates(3) [of u w r w'] by simp
  show "used_verifications w' = used_verifications w \<and> (\<exists>f. same_role f \<and> same_email f \<and> row_change (u_ID u) f (account w) (account w'))"
    if "ur_ChangeStatus (us_repo ?svc) u w = (r, w')" for r using that user_updates(4) [of u w r w'] by simp
  show "used_verifications w' = used_verifications w \<and> (\<exists>f. same_email f \<and> row_change (u_ID u) f (account w) (account w'))"
    if "ur_UpdateRole (us_repo ?svc) u w = (r, w')" for r using that user_updates(5) [of u w r w'] by simp
  show "used_verifications w' = used_verifications w \<and>
      (\<exists>f. same_role f \<and> (\<forall>x. du_VerifiedAt (f x) = None) \<and> row_change (u_ID u) f (account w) (account w'))"
    if "ur_UpdateEmail (us_repo ?svc) u w = (r, w')" for r using that user_updates(6) [of u w r w'] by simp
  show "used_verifications w' = used_verifications w \<and>
      (\<exists>f. same_role f \<and> (\<forall>x. du_Email (f x) = u_Email u) \<and> row_change (u_ID u) f (account w) (account w'))"
    if "ur_UpdateVerifiedAt (us_repo ?svc) u w = (r, w')" for r using that user_verified [of u w r w'] by simp
  show "used_verifications w' = used_verifications w \<and>
      (account w' = account w \<or> (\<exists>x. account w (u_ID u) = [] \<and> du_VerifiedAt x = None \<and> account w' = (account w)(u_ID u := [x])))"
    if "ur_Save (us_repo ?svc) u w = (r, w')" for r using that user_saved [of u w r w'] by simp
  show "account w' = account w \<and> used_verifications w \<subseteq> used_verifications w' \<and> (\<not> isl ru \<longrightarrow> (uv_UserID v, uv_Email v) \<in> used_verifications w')"
    if "ur_UpdateUserVerification (us_repo ?svc) v w = (ru, w')" "uv_UsedAt v \<noteq> 0" for ru
    using that verification_used [of v w ru w'] by simp
  show "uv_UserID v = i \<and> uv_Email v = e" if "ur_RetrieveUserVerification (us_repo ?svc) i e w = (Inr v, w')"
    using that by (auto simp: lifted_eq dest!: Found_verification)
  show "u_ID u = i" if "ur_RetrieveByID (us_repo ?svc) i w = (Inr u, w')"
    using that by (auto simp: lifted_eq dest!: Retrieved_ID)
  show "t \<noteq> 0" if "us_now ?svc w = (t, w')" for t using that by (auto simp: uw_Now_def)
  let ?seen = "\<lambda>w. (account w, used_verifications w)"
  show "frames ?seen (ur_CheckSuperAdmin (us_repo ?svc) i)" "frames ?seen (ur_RetrieveByID (us_repo ?svc) i)"
    "frames ?seen (ur_RetrieveByEmail (us_repo ?svc) e)" "frames ?seen (ur_RetrieveByUsername (us_repo ?svc) e)"
    "frames ?seen (ur_RetrieveUserVerification (us_repo ?svc) i e)" "frames ?seen (ur_AddUserVerification (us_repo ?svc) v)"
    by (auto intro!: on_users_reads urr_reads urr_RetrieveUserVerification_reads verification_added)
  show "frames ?seen (us_Issue ?svc iq)" "frames ?seen (us_Refresh ?svc tok b)" "frames ?seen (us_Revoke ?svc i tok)"
    "frames ?seen (us_AddPolicy ?svc p)" "frames ?seen (us_AddPolicies ?svc ps)" "frames ?seen (us_DeletePolicies ?svc ps)"
    "frames ?seen (us_DeletePolicyFilter ?svc p)"
    by (auto intro!: frames_lifted)
  show "frames ?seen (us_idProvider ?svc)" "frames ?seen (us_Hash ?svc s)" "frames ?seen (us_now ?svc)" "frames ?seen (us_randRead ?svc n)"
    "frames ?seen (us_uuid ?svc)" "frames ?seen (us_mailVerification ?svc to un tx)" "frames ?seen (us_mailPasswordReset ?svc to un tx)"
    by (auto simp: frames_def uw_ID_def uw_Now_def uw_draw_def uw_send_def split: list.splits option.splits)
  show "platform_admin w i" if "ua_Authorize (deployed_gate U) (super_check i) None w = (Inr x, w')" for x
    using that by (auto intro: Gate_grants)
  show "frames ?seen (ua_Authorize (deployed_gate U) p pat)"
    by (auto simp: authz_Authorize_def checkDomain_def deployed_authorization_def intro!: frames_rules frames_trying_ret frames_lifted)
qed

end
