(* ===== verification/UsersSample.thy ===== *)
theory UsersSample
  imports UsersWorld
begin

text \<open>
  The link of a verification mail, and a sample deployment of the users service with three
  accounts to evaluate it on.
\<close>

section \<open>The text of a verification\<close>

lemma EncodeToString_no_dash: "CHR ''-'' \<notin> set (EncodeToString s)"
proof
  assume "CHR ''-'' \<in> set (EncodeToString s)"
  from subsetD [OF EncodeToString_alphabet this] obtain n where n: "n < 64" "CHR ''-'' = b64char n" by auto
  from arg_cong [OF n(2), of "of_char :: char \<Rightarrow> nat"] n(1) show False by (auto simp: b64char_code split: if_splits)
qed

lemma URLDecode_URLEncode [simp]: "URLDecode (URLEncode s) = Inr s"
proof -
  have std: "std_letter (url_letter c) = Some c" if "c \<in> set (EncodeToString s)" for c
    using that EncodeToString_no_dash [of s] EncodeToString_separators(2) [of s] by (auto simp: std_letter_def url_letter_def)
  then have "list_all (\<lambda>c. std_letter c \<noteq> None) (URLEncode s)" by (auto simp: URLEncode_def list_all_iff)
  moreover have "map (\<lambda>c. the (std_letter c)) (URLEncode s) = EncodeToString s"
    unfolding URLEncode_def map_map using std by (intro map_idI) auto
  ultimately show ?thesis by (simp add: URLDecode_def)
qed

text \<open>The link of a verification mail gives back the user, the email and the code it was made of, for a
  JSON codec that reads what it wrote, when none of the three is empty; the times are not in it.\<close>

lemma verification_link_roundtrip:
  assumes "uv_Encode js u = Inr s" "\<And>x t. Marshal js x = Inr t \<Longrightarrow> Unmarshal js t = Inr x"
    "uv_UserID u \<noteq> []" "uv_Email u \<noteq> []" "uv_OTP u \<noteq> []"
  shows "uv_Decode js s = Inr (UserVerification0\<lparr>uv_UserID := uv_UserID u, uv_Email := uv_Email u, uv_OTP := uv_OTP u\<rparr>)"
proof -
  from assms(1) obtain t where t: "Marshal js (uv_UserID u, uv_Email u, uv_OTP u) = Inr t" "s = URLEncode t"
    by (auto simp: uv_Encode_def split: sum.splits)
  from assms(2) [OF t(1)] assms(3-5) t(2) show ?thesis by (simp add: uv_Decode_def)
qed

definition sample_json :: json_codec where
  "sample_json = \<lparr>Marshal = (\<lambda>(a, b, c). if CHR '';'' \<in> set (a @ b @ c) then Inl (Foreign ''unsupported value'') else Inr (a @ '';'' @ b @ '';'' @ c)),
     Unmarshal = (\<lambda>s. case split_on (CHR '';'') s of [a, b, c] \<Rightarrow> Inr (a, b, c) | _ \<Rightarrow> Inl (Foreign ''invalid character''))\<rparr>"

lemma sample_json_reads: "Marshal sample_json x = Inr t \<Longrightarrow> Unmarshal sample_json t = Inr x"
  by (auto simp: sample_json_def split: if_splits prod.splits)

definition sample_verification :: UserVerification where
  "sample_verification = \<lparr>uv_UserID = ''u1'', uv_Email = ''ann@x'', uv_OTP = ''otp'', uv_CreatedAt = 1, uv_ExpiresAt = 1000, uv_UsedAt = 0\<rparr>"

definition sample_link :: string where
  "sample_link = URLEncode ''u1;ann@x;otp''"

lemma verification_link_roundtrip_witness:
  "uv_Decode sample_json sample_link = Inr (UserVerification0\<lparr>uv_UserID := ''u1'', uv_Email := ''ann@x'', uv_OTP := ''otp''\<rparr>)"
proof -
  have "uv_Encode sample_json sample_verification = Inr sample_link" by (simp add: uv_Encode_def sample_json_def sample_verification_def sample_link_def)
  from verification_link_roundtrip [OF this sample_json_reads] show ?thesis by (simp add: sample_verification_def)
qed

section \<open>A sample deployment\<close>

definition sample_bcrypt :: bcrypt where
  "sample_bcrypt = \<lparr>bc_Generate = (\<lambda>p. Inr (''h:'' @ p)), bc_Compare = (\<lambda>h p. if h = ''h:'' @ p then None else Some (Foreign ''mismatch''))\<rparr>"

definition sample_pg :: pg_engine where
  "sample_pg = \<lparr>pg_ilike = (\<lambda>p v. ContainsStr v p), pg_contains = (\<lambda>a b. a = b), pg_sort = (\<lambda>c d rs. rs)\<rparr>"

definition sample_user_libs :: user_libraries where
  "sample_user_libs = \<lparr>ul_auth = sample_libs, ul_bcrypt = sample_bcrypt, ul_json = sample_json, ul_isAddress = (\<lambda>s. ContainsStr s ''@''),
     ul_ToLower = (\<lambda>s. s), ul_pg = sample_pg\<rparr>"

definition sample_user :: "string \<Rightarrow> string \<Rightarrow> usr_Role \<Rightarrow> DBUser" where
  "sample_user i n role = (toDBUser User0)\<lparr>du_ID := i, du_Username := Some n, du_Email := n @ ''@x'', du_FirstName := Some n, du_LastName := Some n,
     du_Secret := ''h:'' @ n, du_Role := Some role, du_CreatedAt := 1\<rparr>"

definition platform_rel :: "string \<Rightarrow> string \<Rightarrow> Relationship" where
  "platform_rel i rel = relationship_of (user_policy i rel)"

definition sample_users :: users_world where
  "sample_users = \<lparr>uw_users = db_of \<lparr>ut_users = [sample_user ''u1'' ''ann'' usrUserRole, sample_user ''u2'' ''bob'' usrUserRole,
       sample_user ''u3'' ''eve'' usrAdminRole], ut_verifications = []\<rparr> [],
     uw_auth = Auth.sample_world\<lparr>aw_store := \<lparr>rs_tuples = [platform_rel ''u1'' ''membership'', platform_rel ''u2'' ''membership'',
       platform_rel ''u3'' ''administrator'', platform_rel ''u3'' ''admin''], rs_faults = []\<rparr>\<rparr>,
     uw_domains = sample_domains, uw_clock = (\<lambda>n. n), uw_ticks = 6, uw_ids = (\<lambda>n. Inr (replicate n (CHR ''i''))), uw_nid = 4,
     uw_rand = (\<lambda>n. char_of (n mod 256)), uw_nrand = 0, uw_rand_faults = (\<lambda>n. None), uw_mails = [], uw_mail_faults = []\<rparr>"

definition session_of :: "string \<Rightarrow> SessionRole \<Rightarrow> Session" where
  "session_of i r = Session0\<lparr>s_UserID := i, s_Role := r\<rparr>"

abbreviation sample_gate :: "users_world users_authz" where
  "sample_gate \<equiv> deployed_gate sample_user_libs"

end
