(* ===== verification/UserRights.thy ===== *)
theory UserRights
  imports UsersSample
begin

text \<open>
  What the deployed users service shows: who changes which account, which emails count as
  verified, whom a token is issued for; and where its code does not do what it means to.
\<close>

section \<open>Properties\<close>

text \<open>C7: A user without the rights of an administrator changes no account but the own one, and not its role:
  after any call of the users service by such a session (registrations, views, updates of names, tags,
  pictures, emails, usernames, secrets and roles, enabling, disabling, deleting, issuing, refreshing and
  revoking tokens), with whatever failures, every account there was before is the same, but the own one,
  which still has its role. A user has these rights whose row has the administrator role, or whose
  session has it and whom the policy service grants the administration of the platform.\<close>

theorem only_administrators_change_others:
  assumes "account_step (deployed_gate U) ses w w'" "plain_user (s_UserID ses) (account w)" "\<not> s_SuperAdmin ses"
    "\<not> (s_Role ses = SessionSuperAdminRole \<and> platform_admin w (s_UserID ses))"
  shows "leaves_others (s_UserID ses) (account w) (account w')"
  by (rule users.step_leaves_others [OF assms])

definition renamed_self :: users_world where
  "renamed_self = snd (uam_UpdateEmail sample_gate (session_of ''u1'' SessionUserRole) ''u1'' ''new@x'' sample_users)"

definition renamed_other :: users_world where
  "renamed_other = snd (uam_UpdateEmail sample_gate (session_of ''u1'' SessionUserRole) ''u2'' ''new@x'' sample_users)"

theorem only_administrators_change_others_witness:
  "map du_Email (account renamed_self ''u1'') = [''new@x''] \<and> account renamed_self ''u2'' = account sample_users ''u2'' \<and>
   account renamed_other ''u2'' = account sample_users ''u2'' \<and>
   map du_Email (account (snd (uam_UpdateEmail sample_gate (session_of ''u3'' SessionUserRole) ''u2'' ''new@x'' sample_users)) ''u2'') = [''new@x'']"
proof -
  let ?ses = "session_of ''u1'' SessionUserRole"
  have p: "plain_user (s_UserID ?ses) (account sample_users)" by code_simp
  have q: "\<not> s_SuperAdmin ?ses" "s_Role ?ses \<noteq> SessionSuperAdminRole" "s_UserID ?ses = ''u1''" by (simp_all add: session_of_def Session0_def)
  then have r: "\<not> (s_Role ?ses = SessionSuperAdminRole \<and> platform_admin sample_users (s_UserID ?ses))" by blast
  have self: "account_step sample_gate ?ses sample_users renamed_self" unfolding renamed_self_def by (rule ac_email [OF prod.collapse [symmetric]])
  have other: "account_step sample_gate ?ses sample_users renamed_other" unfolding renamed_other_def by (rule ac_email [OF prod.collapse [symmetric]])
  have u2: "account sample_users ''u2'' \<noteq> []" by (simp add: account_def sample_users_def sample_user_def)
  from only_administrators_change_others [OF self p q(1) r] only_administrators_change_others [OF other p q(1) r] u2 q(3)
  have "account renamed_self ''u2'' = account sample_users ''u2''" "account renamed_other ''u2'' = account sample_users ''u2''"
    by (simp_all add: leaves_others_def)
  moreover have "map du_Email (account renamed_self ''u1'') = [''new@x''] \<and>
      map du_Email (account (snd (uam_UpdateEmail sample_gate (session_of ''u3'' SessionUserRole) ''u2'' ''new@x'' sample_users)) ''u2'') = [''new@x'']"
    unfolding renamed_self_def uam_UpdateEmail_def marking_super_def uam_checkSuperAdmin_def usr_UpdateEmail_def self_or_super_def usr_checkSuperAdmin_def unfolding deployed_calls
    by code_simp
  ultimately show ?thesis by blast
qed

text \<open>The calls of users with a session, and those anybody makes: links of verification mails, requests for a mail
  to reset a secret, and the sign ups through an identity provider, which vouches for the emails of a set.\<close>

inductive users_step :: "user_libraries \<Rightarrow> string set \<Rightarrow> users_world \<Rightarrow> users_world \<Rightarrow> bool"
  for U :: user_libraries and V :: "string set" where
  us_session: "account_step (deployed_gate U) ses w w' \<Longrightarrow> users_step U V w w'"
| us_verify: "usr_VerifyEmail (deployed_users U) tok w = (r, w') \<Longrightarrow> users_step U V w w'"
| us_reset: "usr_SendPasswordReset (deployed_users U) e w = (ru, w') \<Longrightarrow> users_step U V w w'"
| us_oauth: "usr_OAuthCallback (deployed_users U) user w = (r, w') \<Longrightarrow> u_Email user \<in> V \<Longrightarrow> users_step U V w w'"
| us_oauth_policy: "uam_OAuthAddUserPolicy (deployed_gate U) user w = (ru, w') \<Longrightarrow> users_step U V w w'"

lemma users_step_vouched:
  assumes "users_step U V w w'" "verified_ok (account w) (used_verifications w \<union> UNIV \<times> V)"
  shows "verified_ok (account w') (used_verifications w' \<union> UNIV \<times> V)"
proof -
  note gate = users.widened [of U V]
  have "ua_svc (deployed_gate U) = deployed_users U" by simp
  note store = user_gate.axioms(1) [OF gate, unfolded this]
  from assms(1) show ?thesis
  proof cases
    case (us_session ses)
    from user_gate.step_vouched [OF gate this assms(2)] show ?thesis .
  next
    case (us_verify tok r)
    from keepsD [OF user_store.VerifyEmail_vouched [OF store] assms(2) this] show ?thesis .
  next
    case (us_reset e r)
    from keepsD [OF user_store.open_vouched(1) [OF store] assms(2) this] show ?thesis .
  next
    case (us_oauth user r)
    then have "(i, u_Email user) \<in> used_verifications w \<union> UNIV \<times> V" for w i by simp
    from keepsD [OF user_store.OAuthCallback_vouched [OF store this] assms(2) us_oauth(1)] show ?thesis .
  next
    case (us_oauth_policy user r)
    from keepsD [OF user_gate.OAuthAddUserPolicy_vouched [OF gate] assms(2) this] show ?thesis .
  qed
qed

text \<open>C13: An account counts as verified only with an email that was confirmed: as long as it was so at the beginning,
  after any sequence of calls with whatever failures, for every account with a time of verification there is a
  used verification of this user for this very email, or the email is one an identity provider vouched for in a
  sign up. A changed email has to be confirmed again.\<close>

theorem verified_emails_were_confirmed:
  assumes "(users_step U V)\<^sup>*\<^sup>* w w'" "verified_ok (account w) (used_verifications w \<union> UNIV \<times> V)"
  shows "verified_ok (account w') (used_verifications w' \<union> UNIV \<times> V)"
  using assms by (induction rule: rtranclp_induct) (auto intro: users_step_vouched)

definition invited_users :: users_world where
  "invited_users = sample_users\<lparr>uw_users := db_of \<lparr>ut_users = [sample_user ''u1'' ''ann'' usrUserRole],
     ut_verifications = [toDBUserVerification sample_verification]\<rparr> []\<rparr>"

definition confirmed_users :: users_world where
  "confirmed_users = snd (usr_VerifyEmail (deployed_users sample_user_libs) sample_link invited_users)"

lemma sample_link_decoded: "uv_Decode (us_json (deployed_users sample_user_libs)) sample_link = Inr (UserVerification0\<lparr>uv_UserID := ''u1'', uv_Email := ''ann@x'', uv_OTP := ''otp''\<rparr>)"
proof -
  have "us_json (deployed_users sample_user_libs) = sample_json" by (simp add: deployed_users_def sample_user_libs_def Let_def)
  then show ?thesis by (simp add: uv_Decode_def sample_link_def sample_json_def)
qed

theorem verified_emails_were_confirmed_witness:
  "map du_VerifiedAt (account confirmed_users ''u1'') = [Some 9] \<and> (''u1'', ''ann@x'') \<in> used_verifications confirmed_users"
proof -
  have s: "users_step sample_user_libs {} invited_users confirmed_users"
    unfolding confirmed_users_def by (rule us_verify [OF prod.collapse [symmetric]])
  have i: "verified_ok (account invited_users) (used_verifications invited_users \<union> UNIV \<times> {})"
  proof -
    have "list_all (\<lambda>r. du_VerifiedAt r = None) (ut_users (committed (uw_users invited_users)))" by code_simp
    then show ?thesis by (auto simp: verified_ok_def account_def list_all_iff)
  qed
  have a: "map (\<lambda>r. (du_VerifiedAt r, du_Email r)) (account confirmed_users ''u1'') = [(Some 9, ''ann@x'')]"
    unfolding confirmed_users_def usr_VerifyEmail_def sample_link_decoded sum.case unfolding deployed_calls by code_simp
  then obtain r where r: "account confirmed_users ''u1'' = [r]" "du_VerifiedAt r = Some 9" "du_Email r = ''ann@x''" by auto
  have "verified_ok (account confirmed_users) (used_verifications confirmed_users \<union> UNIV \<times> {})"
    by (rule verified_emails_were_confirmed [OF r_into_rtranclp, OF s i])
  with r have "(''u1'', ''ann@x'') \<in> used_verifications confirmed_users" unfolding verified_ok_def by fastforce
  with a r show ?thesis by simp
qed

end
