(* ===== verification/UserTokens.thy ===== *)
theory UserTokens
  imports UsersSample
begin

text \<open>
  Tokens of users: whom a login issues a token for, what a session made of a refreshed token is,
  and which users may refresh.
\<close>

section \<open>Logging in\<close>

lemma filter_Cons_hd: "filter P xs = z # zs \<Longrightarrow> z \<in> set xs \<and> P z"
  by (auto dest!: filter_eq_ConsD)

lemma found_enabled:
  assumes "(if us_isAddress (deployed_users U) idt then ur_RetrieveByEmail (us_repo (deployed_users U)) idt
     else ur_RetrieveByUsername (us_repo (deployed_users U)) idt) w = (Inr u, w1)"
  shows "uw_auth w1 = uw_auth w \<and> (\<exists>r \<in> set (ut_users (committed (uw_users w))). u = ToUser (r\<lparr>du_ProfilePicture := None\<rparr>) \<and>
    du_Status r = EnabledStatus \<and> (if ul_isAddress U idt then du_Email r = idt else du_Username r = Some idt))"
  using assms
  by (auto simp: lifted_eq urr_RetrieveByEmail_def urr_RetrieveByUsername_def first_user_def split: if_splits list.splits
      dest!: trying_InrD db_query_ok driver_ret filter_Cons_hd) blast+

lemma deployed_tokens [simp]:
  "a_TokIssue (deployed_auth L) = tok_Issue (lib_jwt L)"
  "a_TokParse (deployed_auth L) tok w = (case aw_Now w of (t, w') \<Rightarrow>
     (case tok_Parse (lib_jwt L) t tok of Inl e \<Rightarrow> (Key0, Some e) | Inr k \<Rightarrow> (k, None), w'))"
  by (simp_all add: deployed_auth_def)

lemma accessKey_issues:
  assumes "accessKey svc key a = (Inr tok, a')"
  shows "\<exists>e. a_TokIssue svc (key\<lparr>k_Type := AccessKey, k_ExpiresAt := e\<rparr>) = Inr (AccessTok tok)"
  using assms
  by (auto simp: accessKey_def Let_def observe_apply dest!: trying_InrD pass_InrD split: prod.splits sum.splits) blast

lemma issued_access:
  assumes "token_Issue (deployed_auth L) q a = (Inr tok, a')" "ir_Type q = AccessKey"
  shows "\<exists>k. tok_Issue (lib_jwt L) k = Inr (AccessTok tok) \<and> k_Type k = AccessKey \<and> k_Subject k = ir_UserId q \<and> k_Role k = ir_UserRole q \<and> k_Verified k = ir_Verified q"
proof -
  let ?k = "\<lambda>t. Key0\<lparr>k_Type := ir_Type q, k_Subject := ir_UserId q, k_Role := ir_UserRole q, k_Verified := ir_Verified q, k_Description := ir_Description q, k_IssuedAt := t\<rparr>"
  from assms(1) obtain a1 where "auth_Issue (deployed_auth L) [] (?k 0\<lparr>k_IssuedAt := k_IssuedAt Key0\<rparr>) a = (Inr tok, a1)"
    by (auto simp: token_Issue_def issueEndpoint_def dest!: trying_InrD guarded_InrD)
  then obtain t a2 where "accessKey (deployed_auth L) (?k t) a2 = (Inr tok, a1)"
    using assms(2) by (auto simp: auth_Issue_def observe_apply key_types split: prod.splits)
  from accessKey_issues [OF this] obtain e where "tok_Issue (lib_jwt L) (?k t\<lparr>k_Type := AccessKey, k_ExpiresAt := e\<rparr>) = Inr (AccessTok tok)" by auto
  then show ?thesis by (intro exI [of _ "?k t\<lparr>k_Type := AccessKey, k_ExpiresAt := e\<rparr>"]) simp
qed

text \<open>C14: A login with an identity and a password succeeds only for an enabled account with this email or
  username (the identity is one or the other, never both) whose stored hash the password matches; the access token is
  then issued for this account's id, with its role, and says that the email is verified exactly when
  the account has a time of verification.\<close>

theorem login_needs_the_password:
  assumes "usr_IssueToken (deployed_users U) idt sec d w = (Inr tok, w')"
  shows "\<exists>r \<in> set (ut_users (committed (uw_users w))). du_Status r = EnabledStatus \<and>
    (if ul_isAddress U idt then du_Email r = idt else du_Username r = Some idt) \<and> bc_Compare (ul_bcrypt U) (du_Secret r) sec = None \<and>
    (\<exists>k. tok_Issue (lib_jwt (ul_auth U)) k = Inr (AccessTok tok) \<and> k_Type k = AccessKey \<and> k_Subject k = du_ID r \<and>
       k_Role k = ucast (u_Role (ToUser r) + 1) \<and> k_Verified k = (at_null (du_VerifiedAt r) \<noteq> 0))"
proof -
  from assms obtain u w1 where u: "(if us_isAddress (deployed_users U) idt then ur_RetrieveByEmail (us_repo (deployed_users U)) idt
      else ur_RetrieveByUsername (us_repo (deployed_users U)) idt) w = (Inr u, w1)"
    and g: "guarded (map_option (Wrap svcErrLogin) (us_Compare (deployed_users U) sec (uc_Secret (u_Credentials u))))
       (us_Issue (deployed_users U) \<lparr>ir_UserId = u_ID u, ir_UserRole = ucast (u_Role u + 1), ir_Type = AccessKey,
          ir_Verified = (u_VerifiedAt u \<noteq> 0), ir_Description = d\<rparr>) w1 = (Inr tok, w')"
    unfolding usr_IssueToken_def by (blast dest: trying_InrD)
  from found_enabled [OF u] obtain r where r: "r \<in> set (ut_users (committed (uw_users w)))" "u = ToUser (r\<lparr>du_ProfilePicture := None\<rparr>)"
    "du_Status r = EnabledStatus" "if ul_isAddress U idt then du_Email r = idt else du_Username r = Some idt" by blast
  from guarded_InrD [OF g] have c: "bc_Compare (ul_bcrypt U) (du_Secret r) sec = None"
    by (auto simp: bcryptHasher_Compare_def r(2) ToUser_def)
  from guarded_InrD [OF g] obtain a' where "token_Issue (deployed_auth (ul_auth U)) \<lparr>ir_UserId = u_ID u, ir_UserRole = ucast (u_Role u + 1), ir_Type = AccessKey,
      ir_Verified = (u_VerifiedAt u \<noteq> 0), ir_Description = d\<rparr> (uw_auth w1) = (Inr tok, a')" by (auto simp: lifted_eq)
  from issued_access [OF this] obtain k where "tok_Issue (lib_jwt (ul_auth U)) k = Inr (AccessTok tok)" "k_Type k = AccessKey" "k_Subject k = du_ID r"
    "k_Role k = ucast (u_Role (ToUser r) + 1)" "k_Verified k = (at_null (du_VerifiedAt r) \<noteq> 0)"
    by (auto simp: r(2) ToUser_def)
  with r c show ?thesis by blast
qed

theorem login_needs_the_password_witness:
  "\<not> isl (fst (usr_IssueToken (deployed_users sample_user_libs) ''ann'' ''ann'' [] sample_users)) \<and>
   isl (fst (usr_IssueToken (deployed_users sample_user_libs) ''ann'' ''bob'' [] sample_users)) \<and>
   (\<exists>r \<in> set (ut_users (committed (uw_users sample_users))). du_Username r = Some ''ann'' \<and> bc_Compare sample_bcrypt (du_Secret r) ''ann'' = None)"
proof -
  have e: "\<not> isl (fst (usr_IssueToken (deployed_users sample_user_libs) ''ann'' ''ann'' [] sample_users)) \<and>
     isl (fst (usr_IssueToken (deployed_users sample_user_libs) ''ann'' ''bob'' [] sample_users))"
    unfolding usr_IssueToken_def unfolding deployed_calls by code_simp
  then obtain tok w' where "usr_IssueToken (deployed_users sample_user_libs) ''ann'' ''ann'' [] sample_users = (Inr tok, w')"
    by (metis isl_def prod.collapse sum.exhaust_sel)
  note p = login_needs_the_password [OF this]
  have "\<not> ul_isAddress sample_user_libs ''ann''" "ul_bcrypt sample_user_libs = sample_bcrypt" by (simp_all add: sample_user_libs_def HasPrefix_def)
  with p e show ?thesis by auto
qed

section \<open>Refreshed tokens\<close>

lemma refreshKey_issues:
  assumes "refreshKey (deployed_auth L) rtok key a = (Inr tok, a')"
  shows "\<exists>k now e. tok_Parse (lib_jwt L) now rtok = Inr k \<and>
    tok_Issue (lib_jwt L) (key\<lparr>k_ID := k_ID k, k_Type := AccessKey, k_Subject := k_Subject k, k_Role := k_Role k, k_ExpiresAt := e\<rparr>) = Inr (AccessTok tok)"
  using assms
  by (auto simp: refreshKey_def Let_def observe_apply dest!: trying_InrD pass_InrD guarded_InrD
      split: prod.splits sum.splits if_splits) blast

text \<open>C39: The access token that a refresh gives has the id of the refresh token, and whoever shows it is taken
  for the holder of a personal access token with that id: the session is of that type, and whether the
  email is verified is no longer looked at. The access token of a login has no id.\<close>

theorem refreshed_token_is_taken_for_a_pat:
  assumes "token_Refresh (deployed_auth L) rtok v a = (Inr tok, a')" "\<And>now k. tok_Parse (lib_jwt L) now rtok = Inr k \<Longrightarrow> k_ID k \<noteq> []"
    "\<And>now t t'. jwt_Sign (lib_jwt L) t = Inr (AccessTok tok) \<Longrightarrow> jwt_Parse (lib_jwt L) now (AccessTok tok) = Inr t' \<Longrightarrow> t' = carried t"
    "\<not> HasPrefix (AccessTok tok) ''pat''"
    "authsvc_Authenticate (deployed_auth L) (AccessTok tok) b = (Inr ses, b')"
  shows "s_Type ses = PersonalAccessTokenType \<and> (\<exists>now k. tok_Parse (lib_jwt L) now rtok = Inr k \<and> s_PatID ses = k_ID k) \<and> \<not> s_Verified ses"
proof -
  from assms(1) obtain a1 a2 t where "refreshKey (deployed_auth L) rtok (Key0\<lparr>k_Type := RefreshKey, k_Verified := v, k_IssuedAt := t\<rparr>) a1 = (Inr tok, a2)"
    by (auto simp: token_Refresh_def refreshEndpoint_def auth_Issue_def observe_apply key_types dest!: trying_InrD split: prod.splits if_splits)
  from refreshKey_issues [OF this] obtain k x now where x: "tok_Parse (lib_jwt L) now rtok = Inr k" "tok_Issue (lib_jwt L) x = Inr (AccessTok tok)" "k_ID x = k_ID k"
      "k_Type x = AccessKey"
    by fastforce
  then have i: "k_ID x \<noteq> []" using assms(2) by auto
  have parsed: "k_ID y = k_ID x \<and> k_Type y = AccessKey" if "tok_Parse (lib_jwt L) now (AccessTok tok) = Inr y" for now y
  proof -
    have "\<not> (3 \<le> length (AccessTok tok) \<and> take 3 (AccessTok tok) = ''pat'')" using assms(4) by (auto simp: HasPrefix_def numeral_3_eq_3)
    with that obtain t' where "jwt_Parse (lib_jwt L) now (AccessTok tok) = Inr t'" "ToKey t' = Inr y"
      by (auto simp: tok_Parse_def split: sum.splits if_splits)
    moreover from assms(3) [OF x(2) [unfolded tok_Issue_def] this(1)] have "t' = carried (BuildToken x)" .
    ultimately show ?thesis using x(4) by (auto simp: carried_BuildToken ToKey_BuildToken split: if_splits)
  qed
  from assms(5) obtain res b1 where "auth_authenticateEndpoint (deployed_auth L) (AccessTok tok) b = (Inr res, b1)"
    "ses = (if ar_id res \<noteq> [] then Session0\<lparr>s_Type := PersonalAccessTokenType, s_PatID := ar_id res, s_UserID := ar_userID res, s_Role := session_role (ar_userRole res)\<rparr>
      else Session0\<lparr>s_Type := AccessToken, s_UserID := ar_userID res, s_Role := session_role (ar_userRole res), s_Verified := ar_verified res\<rparr>)"
    by (auto simp: authsvc_Authenticate_def auth_Authenticate_def dest!: trying_InrD split: if_splits)
  moreover from this(1) obtain key b2 where "Identify (deployed_auth L) (AccessTok tok) b = (Inr key, b2)" "ar_id res = k_ID key"
    by (auto simp: auth_authenticateEndpoint_def dest!: pass_InrD split: if_splits)
  moreover from this(1) have "k_ID key = k_ID x"
    by (auto simp: Identify_def observe_apply key_types dest!: guarded_InrD parsed split: prod.splits if_splits sum.splits)
  ultimately have "s_Type ses = PersonalAccessTokenType \<and> s_PatID ses = k_ID k \<and> \<not> s_Verified ses" using i x(3) by (simp add: Session0_def)
  with x(1) show ?thesis by blast
qed

definition refreshed_token :: jwt_token where
  "refreshed_token = BuildToken (Key0\<lparr>k_ID := ''r1'', k_Subject := ''user-0123456789a'', k_Role := UserRole, k_Verified := True, k_IssuedAt := 5, k_ExpiresAt := 3600000000005\<rparr>)"

definition signing_libs :: libraries where
  "signing_libs = sample_libs\<lparr>lib_jwt := \<lparr>jwt_Sign = (\<lambda>t. Inr (if t = refreshed_token then ''access'' else ''r1'')),
     jwt_Parse = (\<lambda>now s. Inr (if s = ''access'' then carried refreshed_token else BuildToken (sample_key ''r1'')))\<rparr>\<rparr>"

theorem refreshed_token_is_taken_for_a_pat_witness:
  "\<exists>ses. fst (authsvc_Authenticate (deployed_auth signing_libs) ''access'' Auth.sample_world) = Inr ses \<and> s_Type ses = PersonalAccessTokenType \<and> s_PatID ses = ''r1''"
proof -
  have "fst (token_Refresh (deployed_auth signing_libs) ''r1'' True Auth.sample_world) = Inr \<lparr>AccessTok = ''access'', RefreshTok = ''r1''\<rparr> \<and>
    map_sum (\<lambda>_. ()) s_PatID (fst (authsvc_Authenticate (deployed_auth signing_libs) ''access'' Auth.sample_world)) = Inr ''r1''" by code_simp
  then obtain a' ses b' where r: "token_Refresh (deployed_auth signing_libs) ''r1'' True Auth.sample_world = (Inr \<lparr>AccessTok = ''access'', RefreshTok = ''r1''\<rparr>, a')"
    and s: "authsvc_Authenticate (deployed_auth signing_libs) ''access'' Auth.sample_world = (Inr ses, b')" "s_PatID ses = ''r1''"
    by (cases "token_Refresh (deployed_auth signing_libs) ''r1'' True Auth.sample_world"; cases "authsvc_Authenticate (deployed_auth signing_libs) ''access'' Auth.sample_world";
        cases "fst (authsvc_Authenticate (deployed_auth signing_libs) ''access'' Auth.sample_world)") auto
  have "s_Type ses = PersonalAccessTokenType \<and> (\<exists>now k. tok_Parse (lib_jwt signing_libs) now ''r1'' = Inr k \<and> s_PatID ses = k_ID k) \<and> \<not> s_Verified ses"
  proof (rule refreshed_token_is_taken_for_a_pat [OF r])
    show "k_ID k \<noteq> []" if "tok_Parse (lib_jwt signing_libs) now ''r1'' = Inr k" for now k
      using that by (auto simp: tok_Parse_def signing_libs_def ToKey_BuildToken sample_key_def split: if_splits)
    show "authsvc_Authenticate (deployed_auth signing_libs) (AccessTok \<lparr>AccessTok = ''access'', RefreshTok = ''r1''\<rparr>) Auth.sample_world = (Inr ses, b')"
      using s(1) by simp
  qed (auto simp: signing_libs_def HasPrefix_def split: if_splits)
  with s show ?thesis by simp
qed

definition users_with :: "Status \<Rightarrow> users_world" where
  "users_with st = sample_users\<lparr>uw_users := db_of \<lparr>ut_users = [(sample_user ''u1'' ''ann'' usrUserRole)\<lparr>du_Status := st\<rparr>], ut_verifications = []\<rparr> []\<rparr>"

text \<open>A refresh is refused to a disabled user, and granted to a deleted one: the check compares the status
  with the disabled status only.\<close>

lemma deleted_user_still_refreshes:
  "isl (fst (usr_RefreshToken (deployed_users sample_user_libs) (session_of ''u1'' SessionUserRole) ''r1'' (users_with DisabledStatus))) \<and>
   \<not> isl (fst (usr_RefreshToken (deployed_users sample_user_libs) (session_of ''u1'' SessionUserRole) ''r1'' (users_with DeletedStatus)))"
  unfolding usr_RefreshToken_def not_disabled_def unfolding deployed_calls by code_simp

end
