(* ===== verification/UserLimits.thy ===== *)
theory UserLimits
  imports UsersSample
begin

text \<open>
  Generated usernames; the constraints of the tables of users; and three places where the users
  service does not do what it means to: registrations, changes of roles that fail, and the loop that
  removes deleted users.
\<close>

section \<open>The constraints of the tables\<close>

definition user_tables_ok :: "user_tables \<Rightarrow> bool" where
  "user_tables_ok t \<longleftrightarrow> check_users (ut_users t) = None \<and> list_all user_fits (ut_users t) \<and>
     list_all (\<lambda>v. dv_UserID v \<in> du_ID ` set (ut_users t) \<and> length (dv_Email v) \<le> 254 \<and> fits_opt 255 (dv_OTP v)) (ut_verifications t)"

abbreviation users_db_ok :: "users_db \<Rightarrow> bool" where
  "users_db_ok d \<equiv> user_tables_ok (committed d)"

lemma keeps_exec:
  assumes "\<And>t t' x. st t = Inr (t', x) \<Longrightarrow> P t \<Longrightarrow> P t'"
  shows "keeps (\<lambda>d :: 'a database. P (committed d)) (db_exec st)"
proof (rule keepsI)
  fix d :: "'a database" assume p: "P (committed d)"
  obtain q d1 where q: "db_exec st d = (q, d1)" by fastforce
  show "P (committed (snd (db_exec st d)))"
    using q p assms db_exec_ok [of st d _ d1] db_exec_err [of st d _ d1] by (cases q) auto
qed

lemma keeps_reads: "reads m \<Longrightarrow> keeps (\<lambda>d. P (committed d)) m"
  by (rule keepsI) (metis prod.collapse readsD)

lemma keeps_driver_ret: "keeps (\<lambda>d. P (committed d)) (driver (ret x))"
  by (intro keeps_reads reads_driver io_intros)

lemma update_users_ok:
  assumes "update_users p f t = Inr (t', x)" "user_tables_ok t" "\<And>r. du_ID (f r) = du_ID r"
  shows "user_tables_ok t'"
proof -
  let ?F = "\<lambda>r. if p r then f r else r"
  from assms(1) have t': "t' = t\<lparr>ut_users := map ?F (ut_users t)\<rparr>" "list_all user_fits (map f (filter p (ut_users t)))" "check_users (map ?F (ut_users t)) = None"
    by (auto simp: update_users_def Let_def split: if_splits option.splits)
  have "list_all user_fits (map ?F (ut_users t))" using t'(2) assms(2) by (auto simp: user_tables_ok_def list_all_iff)
  moreover have "du_ID ` set (map ?F (ut_users t)) = du_ID ` set (ut_users t)"
    unfolding set_map image_image by (rule image_cong) (simp_all add: assms(3))
  ultimately show ?thesis using assms(2) t'(1,3) unfolding user_tables_ok_def by auto
qed

lemma keeps_update: "(\<And>r. du_ID (f r) = du_ID r) \<Longrightarrow> keeps users_db_ok (urr_update (update_users p f) g)"
  unfolding urr_update_def by (intro keeps_trying keeps_exec keeps_reads [OF first_user_reads]) (rule update_users_ok)

lemma insert_user_ok:
  assumes "insert_user u t = Inr (t', x)" "user_tables_ok t"
  shows "user_tables_ok t'"
proof -
  let ?row = "u\<lparr>du_UpdatedAt := None, du_UpdatedBy := None, du_VerifiedAt := None\<rparr>"
  from assms(1) have "t' = t\<lparr>ut_users := ut_users t @ [?row]\<rparr>" "user_fits ?row" "check_users (ut_users t @ [?row]) = None"
    by (auto simp: insert_user_def Let_def split: if_splits option.splits)
  then show ?thesis using assms(2) unfolding user_tables_ok_def by (auto simp: list_all_iff)
qed

lemma check_users_filter:
  assumes "check_users rs = None"
  shows "check_users (filter p rs) = None"
proof -
  have u: "filter (\<lambda>x. x \<noteq> None) (map du_Username xs) = map du_Username (filter (\<lambda>r. du_Username r \<noteq> None) xs)" for xs
    by (induction xs) auto
  have c: "filter (\<lambda>r. du_Username r \<noteq> None) (filter p rs) = filter p (filter (\<lambda>r. du_Username r \<noteq> None) rs)"
    by (simp add: conj_commute)
  show ?thesis using assms unfolding check_users_def u c
    by (auto simp: list_all_iff intro: distinct_map_filter simp del: filter_filter split: if_splits)
qed

lemma urr_ok:
  "keeps users_db_ok (urr_Save u)" "keeps users_db_ok (urr_Update i q)" "keeps users_db_ok (urr_UpdateUsername u)" "keeps users_db_ok (urr_UpdateEmail u)"
  "keeps users_db_ok (urr_UpdateRole u)" "keeps users_db_ok (urr_UpdateSecret u)" "keeps users_db_ok (urr_ChangeStatus u)" "keeps users_db_ok (urr_UpdateVerifiedAt u)"
  "keeps users_db_ok (urr_Delete i)" "keeps users_db_ok (urr_AddUserVerification v)" "keeps users_db_ok (urr_UpdateUserVerification v)"
proof -
  show "keeps users_db_ok (urr_Save u)"
    unfolding urr_Save_def by (intro keeps_trying keeps_exec keeps_driver_ret keeps_ret) (rule insert_user_ok)
  show "keeps users_db_ok (urr_Update i q)"
    unfolding urr_Update_def urr_update_def by (auto intro!: keeps_trying keeps_exec keeps_reads [OF first_user_reads] dest: update_users_ok)
  show "keeps users_db_ok (urr_UpdateUsername u)" "keeps users_db_ok (urr_UpdateEmail u)" "keeps users_db_ok (urr_UpdateRole u)"
    "keeps users_db_ok (urr_UpdateSecret u)" "keeps users_db_ok (urr_ChangeStatus u)" "keeps users_db_ok (urr_UpdateVerifiedAt u)"
    unfolding urr_UpdateUsername_def urr_UpdateEmail_def urr_UpdateRole_def urr_UpdateSecret_def urr_ChangeStatus_def urr_UpdateVerifiedAt_def Let_def touch_user_def
    by (auto intro!: keeps_update)
  have "user_tables_ok t'" if "delete_user i t = Inr (t', x)" "user_tables_ok t" for t t' x
    using that by (force simp: delete_user_def user_tables_ok_def list_all_iff image_iff intro!: check_users_filter)
  then show "keeps users_db_ok (urr_Delete i)"
    unfolding urr_Delete_def by (intro keeps_trying keeps_exec keeps_if keeps_ret keeps_fail)
  have "user_tables_ok t'" if "insert_verification v t = Inr (t', x)" "user_tables_ok t" for v t t' x
    using that by (auto simp: insert_verification_def user_tables_ok_def Let_def split: if_splits)
  then show "keeps users_db_ok (urr_AddUserVerification v)"
    unfolding urr_AddUserVerification_def by (intro keeps_trying keeps_exec keeps_ret)
  have "user_tables_ok t'" if "update_verifications p (\<lambda>v. v\<lparr>dv_OTP := a, dv_UsedAt := b\<rparr>) t = Inr (t', x)" "user_tables_ok t" for p a b t t' x
    using that by (auto simp: update_verifications_def user_tables_ok_def list_all_iff split: if_splits)
  then show "keeps users_db_ok (urr_UpdateUserVerification v)"
    unfolding urr_UpdateUserVerification_def Let_def by (intro keeps_trying keeps_exec keeps_driver_ret keeps_if keeps_ret keeps_fail)
qed

text \<open>Every operation on the tables of users and verifications keeps them well formed, whether it succeeds or fails: no
  two users have the same id, email or username, every user has a first and a last name, every text
  fits its column, and every verification is that of a user there is (those of a deleted user go with
  it).\<close>

lemma user_tables_stay_well_formed:
  "keeps users_db_ok (urr_Save u) \<and> keeps users_db_ok (urr_Update i q) \<and> keeps users_db_ok (urr_UpdateUsername u) \<and>
   keeps users_db_ok (urr_UpdateEmail u) \<and> keeps users_db_ok (urr_UpdateRole u) \<and> keeps users_db_ok (urr_UpdateSecret u) \<and>
   keeps users_db_ok (urr_ChangeStatus u) \<and> keeps users_db_ok (urr_UpdateVerifiedAt u) \<and> keeps users_db_ok (urr_Delete i) \<and>
   keeps users_db_ok (urr_AddUserVerification v) \<and> keeps users_db_ok (urr_UpdateUserVerification v)"
  by (intro conjI urr_ok)

section \<open>Usernames\<close>

definition name_char :: "char \<Rightarrow> bool" where
  "name_char c \<longleftrightarrow> is_lower c \<or> is_digit c \<or> name_mark c"

lemma keep_name_chars_chars: "c \<in> set (keep_name_chars l s) \<Longrightarrow> name_char c"
  by (induction l s rule: keep_name_chars.induct) (auto simp: name_char_def split: if_splits)

lemma TrimRight_marks_split: "\<exists>ms. s = TrimRight_marks s @ ms"
  unfolding TrimRight_marks_def by (metis rev_append rev_rev_ident takeWhile_dropWhile_id)

lemma TrimRight_marks_last: "TrimRight_marks s \<noteq> [] \<Longrightarrow> \<not> name_mark (last (TrimRight_marks s))"
  unfolding TrimRight_marks_def last_rev rev_is_Nil_conv by (rule hd_dropWhile)

lemma TrimRight_marks_set: "set (TrimRight_marks s) \<subseteq> set s"
  by (metis TrimRight_marks_split Un_iff set_append subsetI)

lemma TrimRight_marks_length: "length (TrimRight_marks s) \<le> length s"
  by (metis TrimRight_marks_split le_add1 length_append)

lemma TrimRight_marks_hd: "TrimRight_marks s \<noteq> [] \<Longrightarrow> hd (TrimRight_marks s) = hd s"
  by (metis TrimRight_marks_split hd_append2)

text \<open>Lower case letters, digits, dashes and underscores, with no dash or underscore at the ends.\<close>

definition clean_name :: "string \<Rightarrow> bool" where
  "clean_name s \<longleftrightarrow> list_all name_char s \<and> (s \<noteq> [] \<longrightarrow> \<not> name_mark (hd s) \<and> \<not> name_mark (last s))"

lemma clean_trimmed:
  assumes "list_all name_char s" "s \<noteq> [] \<longrightarrow> \<not> name_mark (hd s)"
  shows "clean_name (TrimRight_marks s)"
  using assms TrimRight_marks_set [of s] TrimRight_marks_last [of s] TrimRight_marks_hd [of s] unfolding clean_name_def list_all_iff
  by (metis TrimRight_marks_split append_is_Nil_conv subsetD)

lemma sanitized: "clean_name (sanitizeForUsername lower s n) \<and> length (sanitizeForUsername lower s n) \<le> n"
proof -
  let ?k = "dropWhile name_mark (keep_name_chars (CHR 0x00) (lower s))" and ?t = "TrimRight_marks (dropWhile name_mark (keep_name_chars (CHR 0x00) (lower s)))"
  have k: "list_all name_char ?k" unfolding list_all_iff using keep_name_chars_chars set_dropWhileD by metis
  have h: "?k \<noteq> [] \<longrightarrow> \<not> name_mark (hd ?k)" by (metis hd_dropWhile)
  have t: "clean_name ?t" by (rule clean_trimmed [OF k h])
  have c: "clean_name (TrimRight_marks (take n ?t))"
  proof (rule clean_trimmed)
    show "list_all name_char (take n ?t)" using t unfolding clean_name_def list_all_iff by (meson in_set_takeD)
    show "take n ?t \<noteq> [] \<longrightarrow> \<not> name_mark (hd (take n ?t))" using t unfolding clean_name_def by (cases n) auto
  qed
  have l: "length (TrimRight_marks (take n ?t)) \<le> n" using TrimRight_marks_length [of "take n ?t"] by simp
  show ?thesis using t c l by (auto simp: sanitizeForUsername_def Let_def clean_name_def)
qed

lemma hex_digit_char: "n < 16 \<Longrightarrow> is_lower (hex_digit n) \<or> is_digit (hex_digit n)"
  by (auto simp: hex_digit_def is_lower_def is_digit_def)

lemma hex_text_chars: "c \<in> set (hex_text bs) \<Longrightarrow> is_lower c \<or> is_digit c"
proof -
  assume "c \<in> set (hex_text bs)"
  then obtain b :: char where "c = hex_digit (of_char b div 16) \<or> c = hex_digit (of_char b mod 16)" by (auto simp: hex_text_def)
  moreover have "of_char b div 16 < (16 :: nat)" using nat_of_char_less_256 [of b] by linarith
  moreover have "of_char b mod 16 < (16 :: nat)" by simp
  ultimately show ?thesis using hex_digit_char by metis
qed

lemma hex_text_length: "length (hex_text bs) = 2 * length bs"
  by (induction bs) (auto simp: hex_text_def)

lemma plain_no_mark: "is_lower c \<or> is_digit c \<Longrightarrow> \<not> name_mark c"
  by (auto simp: is_lower_def is_digit_def name_mark_def)

lemma prefix_clean: "extractEmailPrefix lower e \<noteq> [] \<and> clean_name (extractEmailPrefix lower e) \<and> length (extractEmailPrefix lower e) \<le> 15"
proof -
  have "clean_name defaultUsernamePrefix" by (simp add: clean_name_def name_char_def defaultUsernamePrefix_def is_lower_def name_mark_def)
  then show ?thesis unfolding extractEmailPrefix_def Let_def using sanitized [of lower _ 15] by (auto simp: defaultUsernamePrefix_def)
qed

lemma hex_nat_length: "16 ^ n \<le> m \<Longrightarrow> n < length (hex_nat m)"
proof (induction n arbitrary: m)
  case 0
  show ?case using hex_nat.simps [of m] by simp
next
  case (Suc n)
  then have m: "16 * 16 ^ n \<le> m" by simp
  have "(1 :: nat) \<le> 16 ^ n" by simp
  with m have "\<not> m < 16" by linarith
  moreover have "16 ^ n \<le> m div 16" using div_le_mono [OF m, of 16] by simp
  ultimately show ?case using Suc.IH [of "m div 16"] hex_nat.simps [of m] by simp
qed

lemma hex_nat_chars: "c \<in> set (hex_nat m) \<Longrightarrow> is_lower c \<or> is_digit c"
proof (induction m rule: hex_nat.induct)
  case (1 m)
  from "1.prems" have "c = hex_digit (m mod 16) \<or> (\<not> m < 16 \<and> c \<in> set (hex_nat (m div 16)))"
    using hex_nat.simps [of m] by (auto split: if_splits)
  with "1.IH" hex_digit_char [of "m mod 16"] show ?case by auto
qed

lemma random_id:
  assumes "generateRandomID (deployed_users U) w = (s, w')"
    "\<forall>k. uw_rand_faults w k \<noteq> None \<longrightarrow> 16 ^ 9 \<le> uw_clock w (uw_ticks w)"
  shows "length s = 10 \<and> (\<forall>c \<in> set s. is_lower c \<or> is_digit c) \<and>
    (uw_rand_faults w (uw_nrand w) = None \<longrightarrow> s = take 10 (hex_text (map (uw_rand w) [uw_nrand w..<uw_nrand w + 8])))"
proof -
  have "s = take 10 (hex_text (map (uw_rand w) [uw_nrand w..<uw_nrand w + 8])) \<or>
    uw_rand_faults w (uw_nrand w) \<noteq> None \<and> 
      (s = take 10 (hex_text (map (uw_rand w) [Suc (uw_nrand w)..<Suc (uw_nrand w) + 16])) \<or> s = take 10 (hex_nat (Suc (uw_clock w (uw_ticks w)))))"
    using assms(1) by (auto simp: generateRandomID_def uw_draw_def uw_Now_def simp flip: of_nat_Suc split: option.splits)
  moreover have "9 < length (hex_nat (Suc (uw_clock w (uw_ticks w))))" if "uw_rand_faults w (uw_nrand w) \<noteq> None"
    by (rule hex_nat_length [OF le_SucI]) (use assms(2) that in blast)
  ultimately show ?thesis using hex_text_chars hex_nat_chars by (fastforce simp: hex_text_length dest: in_set_takeD)
qed

text \<open>C32: The username made up for a user of an identity provider has between 12 and 26 characters, lower case
  letters, digits, dashes and underscores only, neither a dash nor an underscore at its ends, and ten
  lower case letters or digits after the last underscore, whatever the email is: those of the hexadecimal text of eight random bytes,
  or, when these cannot be had, of an identifier or of the time (when it is later than the first two minutes
  of 1970, else the text is too short). The check that the interface makes of usernames refuses it in
  one case only, that of two consecutive dashes or underscores, which occurs: a character that is
  dropped between two dashes leaves both.\<close>

theorem generated_usernames_are_valid:
  assumes "generateUsername (deployed_users U) email w = (name, w')"
    "\<forall>k. uw_rand_faults w k \<noteq> None \<longrightarrow> 16 ^ 9 \<le> uw_clock w (uw_ticks w)"
  shows "clean_name name \<and> 12 \<le> length name \<and> length name \<le> 26 \<and>
    (\<exists>s. name = extractEmailPrefix (ul_ToLower U) email @ ''_'' @ s \<and> length s = 10 \<and> (\<forall>c \<in> set s. is_lower c \<or> is_digit c) \<and>
       (uw_rand_faults w (uw_nrand w) = None \<longrightarrow> s = take 10 (hex_text (map (uw_rand w) [uw_nrand w..<uw_nrand w + 8])))) \<and>
    ValidateUserName name = (if unreadable name then Some (Wrap ErrInvalidUsername errUnreadableName) else None)"
proof -
  let ?p = "extractEmailPrefix (ul_ToLower U) email"
  from assms(1) obtain s where s: "generateRandomID (deployed_users U) w = (s, w')" and n: "name = ?p @ ''_'' @ s"
    by (auto simp: generateUsername_def split: prod.splits)
  have r: "length s = 10" "\<forall>c \<in> set s. is_lower c \<or> is_digit c"
      "uw_rand_faults w (uw_nrand w) = None \<longrightarrow> s = take 10 (hex_text (map (uw_rand w) [uw_nrand w..<uw_nrand w + 8]))"
    using random_id [OF s assms(2)] by blast+
  then have ne: "s \<noteq> []" by auto
  have "list_all name_char name" using r(2) prefix_clean [of "ul_ToLower U" email] unfolding n
    by (auto simp: clean_name_def list_all_iff name_char_def name_mark_def)
  moreover have "\<not> name_mark (hd name)" using prefix_clean [of "ul_ToLower U" email] unfolding n by (simp add: clean_name_def)
  moreover have "last name = last s" unfolding n using ne by simp
  then have "\<not> name_mark (last name)" using plain_no_mark r(2) last_in_set [OF ne] by metis
  moreover have "1 \<le> length ?p \<and> length ?p \<le> 15" using prefix_clean [of "ul_ToLower U" email] by (simp add: Suc_leI)
  ultimately have c: "clean_name name" "12 \<le> length name" "length name \<le> 26" using r(1) unfolding clean_name_def n by auto
  then have "userNameRegExp name" unfolding userNameRegExp_def clean_name_def
    by (auto simp: list_all_iff name_char_def word_char_def)
  with c r n show ?thesis by (auto simp: ValidateUserName_def)
qed

text \<open>Random bytes cannot be had, and the identifier neither.\<close>

definition without_entropy :: users_world where
  "without_entropy = sample_users\<lparr>uw_rand_faults := (\<lambda>n. Some (Foreign ''no entropy'')), uw_clock := (\<lambda>n. 16 ^ 10)\<rparr>"

theorem generated_usernames_are_valid_witness:
  "fst (generateUsername (deployed_users sample_user_libs) ''.ann-.-b--@x'' sample_users) = ''ann--b_0001020304'' \<and> clean_name ''ann--b_0001020304'' \<and>
   ValidateUserName ''ann--b_0001020304'' = Some (Wrap ErrInvalidUsername errUnreadableName) \<and>
   clean_name (fst (generateUsername (deployed_users sample_user_libs) ''ann@x'' without_entropy))"
proof -
  have e: "fst (generateUsername (deployed_users sample_user_libs) ''.ann-.-b--@x'' sample_users) = ''ann--b_0001020304''"
    unfolding generateUsername_def generateRandomID_def unfolding deployed_calls by code_simp
  have u: "unreadable ''ann--b_0001020304''" by (simp add: unreadable_def HasPrefix_def)
  have f: "\<forall>k. uw_rand_faults sample_users k \<noteq> None \<longrightarrow> 16 ^ 9 \<le> uw_clock sample_users (uw_ticks sample_users)" by (simp add: sample_users_def)
  have f': "\<forall>k. uw_rand_faults without_entropy k \<noteq> None \<longrightarrow> 16 ^ 9 \<le> uw_clock without_entropy (uw_ticks without_entropy)"
    by (simp add: without_entropy_def)
  from generated_usernames_are_valid [OF prod.collapse [symmetric] f, of sample_user_libs "''.ann-.-b--@x''", unfolded e]
  have "clean_name ''ann--b_0001020304'' \<and> ValidateUserName ''ann--b_0001020304'' = Some (Wrap ErrInvalidUsername errUnreadableName)"
    unfolding if_P [OF u] by blast
  moreover from generated_usernames_are_valid [OF prod.collapse [symmetric] f', of sample_user_libs "''ann@x''"]
  have "clean_name (fst (generateUsername (deployed_users sample_user_libs) ''ann@x'' without_entropy))" by blast
  ultimately show ?thesis using e by blast
qed

section \<open>Registrations and roles\<close>






definition broken_users :: users_world where
  "broken_users = sample_users\<lparr>uw_users := (uw_users sample_users)\<lparr>faults := [Some (DriverError ''connection reset'')]\<rparr>\<rparr>"

definition demoted :: users_world where
  "demoted = snd (usr_UpdateRole (deployed_users sample_user_libs) ((session_of ''u2'' SessionSuperAdminRole)\<lparr>s_SuperAdmin := True\<rparr>)
     (User0\<lparr>u_ID := ''u3'', u_Role := usrUserRole\<rparr>) broken_users)"

text \<open>A change of a role that fails is not undone: when the role of an administrator cannot be stored, the
  call returns an error and the row keeps the administrator role, but the administrator relationship
  is gone. What undoes a change sets the relationships of a plain user, whatever the user was before.\<close>

lemma failed_demotion_takes_the_relationship:
  "isl (fst (usr_UpdateRole (deployed_users sample_user_libs) ((session_of ''u2'' SessionSuperAdminRole)\<lparr>s_SuperAdmin := True\<rparr>)
     (User0\<lparr>u_ID := ''u3'', u_Role := usrUserRole\<rparr>) broken_users)) \<and>
   map du_Role (account demoted ''u3'') = [Some usrAdminRole] \<and>
   platform_rel ''u3'' AdministratorRelation \<in> set (rs_tuples (aw_store (uw_auth broken_users))) \<and>
   platform_rel ''u3'' AdministratorRelation \<notin> set (rs_tuples (aw_store (uw_auth demoted)))"
  unfolding demoted_def usr_UpdateRole_def usr_checkSuperAdmin_def updateUserPolicy_def unfolding deployed_calls by code_simp

section \<open>The removal of deleted users\<close>

text \<open>A page of deleted users that are all too young leaves all as it is, but for the time.\<close>

lemma handle_young:
  assumes "dh_now h = uw_Now" "\<And>u k. u \<in> set us \<Longrightarrow> int (Suc (uw_clock w k)) - u_UpdatedAt u < dh_deleteAfter h"
  shows "\<exists>n. fold (handle_user h) us w = w\<lparr>uw_ticks := n\<rparr>"
  using assms(2)
proof (induction us arbitrary: w)
  case Nil
  show ?case by (rule exI [of _ "uw_ticks w"]) simp
next
  case (Cons u us)
  have y: "int (Suc (uw_clock w k)) - u_UpdatedAt u < dh_deleteAfter h" for k using Cons.prems by simp
  have "handle_user h u w = w\<lparr>uw_ticks := Suc (uw_ticks w)\<rparr>" using y by (simp add: handle_user_def assms(1) uw_Now_def)
  with Cons.IH [of "w\<lparr>uw_ticks := Suc (uw_ticks w)\<rparr>"] Cons.prems show ?case by auto
qed

lemma calm_rows: "faults d = [] \<Longrightarrow> scan_rows rs d = (Inr rs, d)"
  by (induction rs) (simp_all add: pass_apply driver_calm)

lemma deleted_page_calm:
  assumes "faults d = []"
  shows "urr_RetrieveAll pg deleted_page d = (Inr \<lparr>ug_Total = length (filter (PageQuery pg deleted_page) (ut_users (committed d))), ug_Offset = 0, ug_Limit = 100,
    ug_Users = map ToUser (map (\<lambda>r. r\<lparr>du_Secret := [], du_PrivateMetadata := None, du_AuthProvider := None\<rparr>)
      (take 100 (usr_applyOrdering pg deleted_page (filter (PageQuery pg deleted_page) (ut_users (committed d))))))\<rparr>, d)"
proof -
  have p: "\<not> up_OnlyTotal deleted_page" "up_Limit deleted_page = 100" "up_Offset deleted_page = 0"
    by (simp_all add: deleted_page_def UserPage0_def usrdefLimit_def)
  have t: "Total c d = (Inr (c (committed d)), d)" for c
    by (simp add: Total_def pass_apply db_query_calm assms driver_calm)
  show ?thesis
    by (simp add: urr_RetrieveAll_def p select_users_def trying_apply pass_apply db_query_calm assms calm_rows Let_def t)
qed

text \<open>C26: The loop that removes deleted users does not end while they are all too young to be removed: when the
  database answers, there is a deleted user (of the page the loop asks for), and at every reading of the clock
  the time since the last update of each of them is below the delay, the loop still runs after any number of
  rounds. It has no pause between its rounds.\<close>

theorem removal_of_young_users_spins:
  assumes "dh_users h = users_repo pg" "dh_now h = uw_Now" "faults (uw_users w) = []" "\<And>c d rs. set (pg_sort pg c d rs) = set rs"
    "\<exists>r \<in> set (ut_users (committed (uw_users w))). PageQuery pg deleted_page r"
    "\<And>r k. r \<in> set (ut_users (committed (uw_users w))) \<Longrightarrow> PageQuery pg deleted_page r \<Longrightarrow>
       int (Suc (uw_clock w k)) - at_null (du_UpdatedAt r) < dh_deleteAfter h"
  shows "handle_deleted n h w = None"
proof -
  have "handle_deleted n h (w\<lparr>uw_ticks := m\<rparr>) = None" for m
  proof (induction n arbitrary: m)
    case (Suc n)
    let ?w = "w\<lparr>uw_ticks := m\<rparr>"
    obtain p where p: "ur_RetrieveAll (dh_users h) deleted_page ?w = (Inr p, ?w)" "ug_Total p \<noteq> 0"
      "\<And>u k. u \<in> set (ug_Users p) \<Longrightarrow> int (Suc (uw_clock ?w k)) - u_UpdatedAt u < dh_deleteAfter h"
    proof (rule that)
      let ?sel = "filter (PageQuery pg deleted_page) (ut_users (committed (uw_users w)))"
      let ?p = "\<lparr>ug_Total = length ?sel, ug_Offset = 0, ug_Limit = 100, ug_Users = map ToUser (map (\<lambda>r. r\<lparr>du_Secret := [], du_PrivateMetadata := None, du_AuthProvider := None\<rparr>)
        (take 100 (usr_applyOrdering pg deleted_page ?sel)))\<rparr>"
      show "ur_RetrieveAll (dh_users h) deleted_page ?w = (Inr ?p, ?w)"
        using deleted_page_calm [OF assms(3), of pg] by (simp add: assms(1) lifted_def)
      show "ug_Total ?p \<noteq> 0" using assms(5) by (auto simp: filter_empty_conv)
      show "int (Suc (uw_clock ?w k)) - u_UpdatedAt u < dh_deleteAfter h" if "u \<in> set (ug_Users ?p)" for u k
      proof -
        from that obtain r where r: "r \<in> set (usr_applyOrdering pg deleted_page ?sel)" "u_UpdatedAt u = at_null (du_UpdatedAt r)"
          by (auto simp: ToUser_def dest: in_set_takeD)
        then have "r \<in> set ?sel" by (simp add: usr_applyOrdering_def Let_def assms(4))
        with assms(6) [of r k] r(2) show ?thesis by simp
      qed
    qed
    from handle_young [OF assms(2) p(3)] obtain m' where "fold (handle_user h) (ug_Users p) ?w = ?w\<lparr>uw_ticks := m'\<rparr>" by blast
    with p(1,2) Suc.IH [of m'] show ?case by simp
  qed simp
  from this [of "uw_ticks w"] show ?thesis by simp
qed

definition sample_handler :: "users_world delete_handler" where
  "sample_handler = \<lparr>dh_users = users_repo sample_pg, dh_DeleteUserFromDomains = (\<lambda>i. ret True), dh_DeletePolicyFilter = (\<lambda>p. on_policies (DeletePolicyFilter ref_client p)),
     dh_deleteAfter = 100, dh_now = uw_Now\<rparr>"

definition deleted_users :: users_world where
  "deleted_users = sample_users\<lparr>uw_users := db_of \<lparr>ut_users = [(sample_user ''u1'' ''ann'' usrUserRole)\<lparr>du_Status := DeletedStatus, du_UpdatedAt := Some 7\<rparr>],
     ut_verifications = []\<rparr> [], uw_clock := (\<lambda>k. 8)\<rparr>"

theorem removal_of_young_users_spins_witness:
  "handle_deleted 1000 sample_handler deleted_users = None"
proof (rule removal_of_young_users_spins)
  have q: "PageQuery sample_pg deleted_page ((sample_user ''u1'' ''ann'' usrUserRole)\<lparr>du_Status := DeletedStatus, du_UpdatedAt := Some 7\<rparr>)" by code_simp
  then show "\<exists>r \<in> set (ut_users (committed (uw_users deleted_users))). PageQuery sample_pg deleted_page r"
    by (simp add: deleted_users_def)
  show "int (Suc (uw_clock deleted_users k)) - at_null (du_UpdatedAt r) < dh_deleteAfter sample_handler"
    if "r \<in> set (ut_users (committed (uw_users deleted_users)))" for r k
    using that by (auto simp: deleted_users_def sample_handler_def at_null_def)
qed (simp_all add: sample_handler_def deleted_users_def sample_pg_def)

end
