(* ===== verification/DomainGate.thy ===== *)
theory DomainGate
  imports UsersSample
begin

text \<open>
  The decision about a user's request in a domain (\<open>pkg/authz/authsvc\<close>): the status of the domain
  comes first, then the permission that was asked for.
\<close>

definition grants :: "users_world \<Rightarrow> Policy \<Rightarrow> bool" where
  "grants w p \<longleftrightarrow> fst (CheckPolicy ref_client p (aw_store (uw_auth w))) = None"

lemma client_grants:
  assumes "auth_client_Authorize (deployed_auth L) (domain_permission t s perm ob obt) None a = (Inr b, a')"
  shows "fst (CheckPolicy ref_client (domain_permission t s perm ob obt) (aw_store a)) = None"
proof -
  from assms obtain c a2 where "auth_Authorize (deployed_auth L) (domain_permission t s perm ob obt) None a = (Inr c, a2)"
    by (auto simp: auth_client_Authorize_def auth_authorizeEndpoint_def domain_permission_def Policy0_def Let_def dest!: pass_InrD trying_InrD guarded_InrD)
  then show ?thesis
    by (auto simp: auth_Authorize_def auth_checkPolicy_def deployed_auth_def observe_apply dest!: pass_InrD guarded_InrD split: prod.splits option.splits)
qed

lemma status_store: "frames dw_store (domain_RetrieveStatus deployed_domains d)"
proof -
  have o: "dmp_RetrieveStatus deployed_domains d = observe (ds_cache_Status deployed_domains d) (\<lambda>r. case r of Inr st \<Rightarrow> ret st
      | Inl _ \<Rightarrow> trying (dr_RetrieveDomainByID (ds_repo deployed_domains) d) (Wrap svcErrViewEntity) (\<lambda>dom.
          trying (ds_cache_SaveStatus deployed_domains d (dm_Status dom)) (Wrap svcErrUpdateEntity) (\<lambda>_. ret (dm_Status dom))))"
    by (rule ext) (simp add: dmp_RetrieveStatus_def observe_apply split: prod.splits sum.splits)
  have "frames dw_store (ds_cache_Status deployed_domains d)" "frames dw_store (dr_RetrieveDomainByID (ds_repo deployed_domains) d)"
    "frames dw_store (ds_cache_SaveStatus deployed_domains d st)" for st
    by (auto simp: deployed_domains_def domains_repo_def intro!: frames_lifted)
  then show ?thesis unfolding domain_RetrieveStatus_def retrieveStatusEndpoint_def o
    by (auto intro!: frames_rules frames_observe split: sum.splits)
qed

lemma domain_checked:
  assumes "checkDomain (deployed_authorization L) UserType s d w = (Inr u, w')"
  shows "\<exists>st. fst (domain_RetrieveStatus deployed_domains d (get_domains w)) = Inr st \<and>
    (st = FreezeStatus \<and> grants w (domain_permission UserType s AdminPermission MagistralaObject PlatformType) \<or>
     st = DisabledStatus \<and> grants w (domain_permission UserType s AdminPermission d DomainType) \<or>
     st = EnabledStatus \<and> grants w (domain_permission UserType s MembershipPermission d DomainType))"
proof -
  from assms obtain st w1 where st: "lifted get_domains put_domains (domain_RetrieveStatus deployed_domains d) w = (Inr st, w1)"
    and k: "(if st = FreezeStatus then
       pass (az_Authorize (deployed_authorization L) (domain_permission UserType s AdminPermission MagistralaObject PlatformType) None) (\<lambda>_. ret ())
     else if st = DisabledStatus then
       pass (az_Authorize (deployed_authorization L) (domain_permission UserType s AdminPermission d DomainType) None) (\<lambda>_. ret ())
     else if st = EnabledStatus then
       pass (az_Authorize (deployed_authorization L) (domain_permission UserType s MembershipPermission d DomainType) None) (\<lambda>_. ret ())
     else fail svcErrInvalidStatus) w1 = (Inr u, w')"
    unfolding checkDomain_def by (auto simp: deployed_authorization_def dest!: trying_InrD)
  from st obtain d1 where d1: "domain_RetrieveStatus deployed_domains d (get_domains w) = (Inr st, d1)" "w1 = put_domains d1 w" by (auto simp: lifted_eq)
  have a: "aw_store (uw_auth w1) = aw_store (uw_auth w)" using framesD [OF status_store d1(1)] d1(2) by (simp add: get_domains_def put_domains_def)
  have g: "grants w (domain_permission UserType s perm ob obt)"
    if "pass (az_Authorize (deployed_authorization L) (domain_permission UserType s perm ob obt) None) (\<lambda>_. ret ()) w1 = (Inr u, w')" for perm ob obt
    using that a by (auto simp: grants_def deployed_authorization_def lifted_eq dest!: pass_InrD client_grants)
  show ?thesis using k g d1(1) by (auto split: if_splits)
qed

text \<open>C9: A user acts on a group, a client or a domain only if the status of the domain allows it: in a frozen
  domain only those the policy service grants the administration of the platform, in a disabled
  one only those it grants the administration of the domain, in an enabled one only its members,
  and nobody in any other.\<close>

theorem domain_status_gates_users:
  assumes "authz_Authorize (deployed_authorization L) pr pat w = (Inr u, w')" "p_SubjectType pr = UserType"
    "p_ObjectType pr = GroupType \<or> p_ObjectType pr = ClientType \<or> p_ObjectType pr = DomainType"
    "d = (if p_Domain pr = [] then p_Object pr else p_Domain pr)"
  shows "\<exists>st. fst (domain_RetrieveStatus deployed_domains d (get_domains w)) = Inr st \<and>
    (st = FreezeStatus \<and> grants w (domain_permission UserType (p_Subject pr) AdminPermission MagistralaObject PlatformType) \<or>
     st = DisabledStatus \<and> grants w (domain_permission UserType (p_Subject pr) AdminPermission d DomainType) \<or>
     st = EnabledStatus \<and> grants w (domain_permission UserType (p_Subject pr) MembershipPermission d DomainType))"
proof -
  from assms obtain x w1 where "checkDomain (deployed_authorization L) UserType (p_Subject pr) d w = (Inr x, w1)"
    by (auto simp: authz_Authorize_def dest!: pass_InrD trying_InrD split: if_splits)
  from domain_checked [OF this] show ?thesis .
qed

definition on_domain :: "string \<Rightarrow> string \<Rightarrow> string \<Rightarrow> Policy" where
  "on_domain i obt ob = Policy0\<lparr>p_Domain := ''u1'', p_SubjectType := UserType, p_Subject := i, p_Permission := ViewPermission, p_ObjectType := obt, p_Object := ob\<rparr>"

definition domain_world :: "Status \<Rightarrow> users_world" where
  "domain_world st = sample_users\<lparr>uw_domains := sample_domains\<lparr>dw_domains := db_of \<lparr>dt_domains = [sample_domain\<lparr>dd_Status := st\<rparr>], dt_invitations = []\<rparr> []\<rparr>,
     uw_auth := (uw_auth sample_users)\<lparr>aw_store := \<lparr>rs_tuples = [check_request (on_domain ''u2'' ClientType ''c1''), check_request (on_domain ''u2'' ChannelType ''ch1''),
       check_request (domain_permission UserType ''u2'' MembershipPermission ''u1'' DomainType)], rs_faults = []\<rparr>\<rparr>\<rparr>"

theorem domain_status_gates_users_witness:
  "fst (domain_RetrieveStatus deployed_domains ''u1'' (get_domains (domain_world EnabledStatus))) = Inr EnabledStatus \<and>
   grants (domain_world EnabledStatus) (domain_permission UserType ''u2'' MembershipPermission ''u1'' DomainType)"
proof -
  let ?p = "on_domain ''u2'' ClientType ''c1''"
  have e: "fst (authz_Authorize (deployed_authorization sample_libs) ?p None (domain_world EnabledStatus)) = Inr () \<and>
      fst (domain_RetrieveStatus deployed_domains ''u1'' (get_domains (domain_world EnabledStatus))) = Inr EnabledStatus" by code_simp
  then obtain w' where a: "authz_Authorize (deployed_authorization sample_libs) ?p None (domain_world EnabledStatus) = (Inr (), w')" by (metis prod.collapse)
  have p: "p_SubjectType ?p = UserType" "p_ObjectType ?p = GroupType \<or> p_ObjectType ?p = ClientType \<or> p_ObjectType ?p = DomainType"
    "''u1'' = (if p_Domain ?p = [] then p_Object ?p else p_Domain ?p)" "p_Subject ?p = ''u2''" by (simp_all add: on_domain_def)
  have s: "EnabledStatus \<noteq> FreezeStatus" "EnabledStatus \<noteq> DisabledStatus" by (simp_all add: statuses FreezeStatus_def)
  from domain_status_gates_users [OF a p(1-3)] e p(4) s show ?thesis by auto
qed

text \<open>The status of a domain does not bind channels: in a frozen domain a user with a permission on a client
  and the same permission on a channel is refused the client and granted the channel, since
  channels are missing among the objects whose domain is looked at.\<close>

lemma frozen_domain_leaves_channels_open:
  "isl (fst (authz_Authorize (deployed_authorization sample_libs) (on_domain ''u2'' ClientType ''c1'') None (domain_world FreezeStatus))) \<and>
   fst (authz_Authorize (deployed_authorization sample_libs) (on_domain ''u2'' ChannelType ''ch1'') None (domain_world FreezeStatus)) = Inr ()"
  by code_simp

end
