(* ===== verification/Permissions.thy ===== *)
theory Permissions
  imports Errors "HOL-Library.AList"
begin

text \<open>
  The operations of the services and the permissions they need (\<open>pkg/permissions\<close>): the
  permissions of an operation come from a configuration file by the name of the operation, and
  the tables are checked when a service starts. A Go map is an association list in the order in
  which it is ranged over; the order decides only which of several missing names is reported.
\<close>

section \<open>Operations of one entity type\<close>

type_synonym Permission = string
type_synonym opKey = int

record OperationDetails =
  od_Name :: string
  od_PermissionRequired :: bool

record operations =
  op_opPermission :: "(opKey \<times> Permission) list"
  op_opDetails :: "(opKey \<times> OperationDetails) list"

definition newEmptyOperations :: "(opKey \<times> OperationDetails) list \<Rightarrow> operations" where
  "newEmptyOperations opdetails = \<lparr>op_opPermission = [], op_opDetails = opdetails\<rparr>"

definition key_str :: "int \<Rightarrow> string" where
  "key_str i = (if i < 0 then CHR ''-'' # nat_str (nat (- i)) else nat_str (nat i))"

definition ops_OperationName :: "operations \<Rightarrow> opKey \<Rightarrow> string" where
  "ops_OperationName ops op =
     (case map_of (op_opDetails ops) op of
        None \<Rightarrow> ''UnknownOperation('' @ key_str op @ '')''
      | Some d \<Rightarrow> od_Name d)"

definition permission_missing :: "string \<Rightarrow> gerror" where
  "permission_missing n = Foreign (''permission related to operation name '' @ n @ '' not found'')"

fun add_permissions ::
  "(opKey \<times> OperationDetails) list \<Rightarrow> (string \<times> Permission) list \<Rightarrow> (opKey \<times> Permission) list \<Rightarrow> gerror + (opKey \<times> Permission) list" where
  "add_permissions [] opnamePerm ps = Inr ps"
| "add_permissions ((op, opd) # ds) opnamePerm ps =
     (if od_PermissionRequired opd then
        (case map_of opnamePerm (od_Name opd) of
           None \<Rightarrow> Inl (permission_missing (od_Name opd))
         | Some perm \<Rightarrow> add_permissions ds opnamePerm (AList.update op perm ps))
      else add_permissions ds opnamePerm ps)"

definition addOperationPermission :: "(string \<times> Permission) list \<Rightarrow> operations \<Rightarrow> gerror + operations" where
  "addOperationPermission opnamePerm ops =
     (case add_permissions (op_opDetails ops) opnamePerm (op_opPermission ops) of
        Inl err \<Rightarrow> Inl err
      | Inr ps \<Rightarrow> Inr (ops\<lparr>op_opPermission := ps\<rparr>))"

fun validate_ops :: "(opKey \<times> Permission) list \<Rightarrow> (opKey \<times> OperationDetails) list \<Rightarrow> gerror option" where
  "validate_ops ps [] = None"
| "validate_ops ps ((op, opd) # ds) =
     (if od_PermissionRequired opd \<and> map_of ps op = None then Some (permission_missing (od_Name opd))
      else validate_ops ps ds)"

definition ops_Validate :: "operations \<Rightarrow> gerror option" where
  "ops_Validate ops = validate_ops (op_opPermission ops) (op_opDetails ops)"

definition NewOperations :: "(opKey \<times> OperationDetails) list \<Rightarrow> (string \<times> Permission) list \<Rightarrow> gerror + operations" where
  "NewOperations opdetails opnamePerm =
     (case addOperationPermission opnamePerm (newEmptyOperations opdetails) of
        Inl err \<Rightarrow> Inl err
      | Inr ops \<Rightarrow> (case ops_Validate ops of Some err \<Rightarrow> Inl err | None \<Rightarrow> Inr ops))"

definition no_permissions :: "operations \<Rightarrow> opKey \<Rightarrow> gerror" where
  "no_permissions ops op = Foreign (''operation '' @ ops_OperationName ops op @ '' doesn't have any permissions'')"

definition ops_GetPermission :: "operations \<Rightarrow> opKey \<Rightarrow> gerror + Permission" where
  "ops_GetPermission ops op =
     (case map_of (op_opPermission ops) op of
        Some perm \<Rightarrow> Inr perm
      | None \<Rightarrow> Inl (no_permissions ops op))"

definition ops_GetPermissionAndRequired :: "operations \<Rightarrow> opKey \<Rightarrow> gerror + Permission \<times> bool" where
  "ops_GetPermissionAndRequired ops op =
     (case map_of (op_opDetails ops) op of
        None \<Rightarrow> Inl (Foreign (''operation not found '' @ ops_OperationName ops op))
      | Some opd \<Rightarrow>
          (case map_of (op_opPermission ops) op of
             None \<Rightarrow> if od_PermissionRequired opd then Inl (no_permissions ops op) else Inr ([], False)
           | Some perm \<Rightarrow> Inr (perm, od_PermissionRequired opd)))"

text \<open>
  A merge that fails has already changed the table. Go's \<open>delete\<close> of a map drops the key.
\<close>

fun merge_ops :: "(opKey \<times> OperationDetails) list \<Rightarrow> (opKey \<times> Permission) list \<Rightarrow> operations \<Rightarrow> gerror option \<times> operations" where
  "merge_ops [] newPerms ops = (None, ops)"
| "merge_ops ((op, opd) # ds) newPerms ops =
     (let ops1 = ops\<lparr>op_opDetails := AList.update op opd (op_opDetails ops)\<rparr> in
      if od_PermissionRequired opd then
        (case map_of newPerms op of
           None \<Rightarrow> (Some (Foreign (''missing permission for required operation '' @ od_Name opd)), ops1)
         | Some perm \<Rightarrow> merge_ops ds newPerms (ops1\<lparr>op_opPermission := AList.update op perm (op_opPermission ops1)\<rparr>))
      else merge_ops ds newPerms ops1)"

definition ops_Merge :: "operations \<Rightarrow> operations \<Rightarrow> gerror option \<times> operations" where
  "ops_Merge ops newOps = merge_ops (op_opDetails newOps) (op_opPermission newOps) ops"

definition ops_Remove :: "operations \<Rightarrow> operations \<Rightarrow> operations" where
  "ops_Remove ops remOps =
     foldl (\<lambda>o1 (op, opd). o1\<lparr>op_opDetails := AList.delete op (op_opDetails o1), op_opPermission := AList.delete op (op_opPermission o1)\<rparr>)
       ops (op_opDetails remOps)"

section \<open>Operations of all entity types\<close>

type_synonym entitiesOperations = "(string \<times> operations) list"

definition ErrEntityTypeNotFound :: gerror where "ErrEntityTypeNotFound = New ''entity type not found''"

fun newEntitiesOperations ::
  "(string \<times> (string \<times> Permission) list) list \<Rightarrow> (string \<times> (opKey \<times> OperationDetails) list) list \<Rightarrow> gerror + entitiesOperations" where
  "newEntitiesOperations entitiesPermission [] = Inr []"
| "newEntitiesOperations entitiesPermission ((entity, opDetails) # es) =
     (case map_of entitiesPermission entity of
        None \<Rightarrow> Inl (Foreign (entity @ '' entity permission not found ''))
      | Some opPerm \<Rightarrow>
          (case NewOperations opDetails opPerm of
             Inl err \<Rightarrow> Inl (Foreign (''failed to create new operations for '' @ entity @ '' entity: '' @ ErrorStr err))
           | Inr ops \<Rightarrow>
               (case newEntitiesOperations entitiesPermission es of
                  Inl err \<Rightarrow> Inl err
                | Inr eops \<Rightarrow> Inr (AList.update entity ops eops))))"

definition NewEntitiesOperations ::
  "(string \<times> (string \<times> Permission) list) list \<Rightarrow> (string \<times> (opKey \<times> OperationDetails) list) list \<Rightarrow> string list \<Rightarrow>
   gerror + entitiesOperations" where
  "NewEntitiesOperations entitiesPermission entitiesOperationDetails filterEntities =
     (if filterEntities = [] then newEntitiesOperations entitiesPermission entitiesOperationDetails
      else newEntitiesOperations (filter (\<lambda>(e, _). e \<in> set filterEntities) entitiesPermission)
             (filter (\<lambda>(e, _). e \<in> set filterEntities) entitiesOperationDetails))"

definition eo_GetPermission :: "entitiesOperations \<Rightarrow> string \<Rightarrow> opKey \<Rightarrow> gerror + Permission" where
  "eo_GetPermission eo et op = (case map_of eo et of Some ops \<Rightarrow> ops_GetPermission ops op | None \<Rightarrow> Inl ErrEntityTypeNotFound)"

definition eo_GetPermissionAndRequired :: "entitiesOperations \<Rightarrow> string \<Rightarrow> opKey \<Rightarrow> gerror + Permission \<times> bool" where
  "eo_GetPermissionAndRequired eo et op =
     (case map_of eo et of Some ops \<Rightarrow> ops_GetPermissionAndRequired ops op | None \<Rightarrow> Inl ErrEntityTypeNotFound)"

definition eo_OperationName :: "entitiesOperations \<Rightarrow> string \<Rightarrow> opKey \<Rightarrow> string" where
  "eo_OperationName eo et op = (case map_of eo et of Some ops \<Rightarrow> ops_OperationName ops op | None \<Rightarrow> [])"

fun eo_Validate :: "entitiesOperations \<Rightarrow> gerror option" where
  "eo_Validate [] = None"
| "eo_Validate ((et, ops) # eo) =
     (case ops_Validate ops of
        Some err \<Rightarrow> Some (Foreign (''entity type '' @ et @ '' failed to validate: '' @ ErrorStr err))
      | None \<Rightarrow> eo_Validate eo)"

definition AddEntityOperations :: "entitiesOperations \<Rightarrow> string \<Rightarrow> operations \<Rightarrow> gerror option \<times> entitiesOperations" where
  "AddEntityOperations eo et ops =
     (case map_of eo et of
        Some entityOperation \<Rightarrow> (case ops_Merge entityOperation ops of (err, merged) \<Rightarrow> (err, AList.update et merged eo))
      | None \<Rightarrow> (None, AList.update et ops eo))"

definition RemoveEntityOperations :: "entitiesOperations \<Rightarrow> string \<Rightarrow> operations \<Rightarrow> entitiesOperations" where
  "RemoveEntityOperations eo et ops =
     (case map_of eo et of
        Some entityOperation \<Rightarrow> AList.update et (ops_Remove entityOperation ops) eo
      | None \<Rightarrow> eo)"

section \<open>The configuration\<close>

record EntityPermissions =
  ep_Operations :: "(string \<times> string) list list"
  ep_RolesOperations :: "(string \<times> string) list list"

type_synonym PermissionConfig = "(string \<times> EntityPermissions) list"

text \<open>An entry with an empty permission is passed over, a later entry of a name replaces an earlier one.\<close>

definition named_permissions :: "(string \<times> string) list list \<Rightarrow> (string \<times> Permission) list" where
  "named_permissions ops = foldl (\<lambda>m (name, perm). if perm \<noteq> [] then AList.update name perm m else m) [] (concat ops)"

definition GetEntityPermissions :: "PermissionConfig \<Rightarrow> string \<Rightarrow> gerror + (string \<times> Permission) list \<times> (string \<times> Permission) list" where
  "GetEntityPermissions pc entityType =
     (case map_of pc entityType of
        None \<Rightarrow> Inl (Foreign (''entity type '' @ entityType @ '' not found in permissions file''))
      | Some e \<Rightarrow> Inr (named_permissions (ep_Operations e), named_permissions (ep_RolesOperations e)))"

section \<open>What a table answers\<close>

definition required :: "(opKey \<times> OperationDetails) list \<Rightarrow> opKey \<Rightarrow> string \<Rightarrow> bool" where
  "required ds op n \<longleftrightarrow> (\<exists>d. map_of ds op = Some d \<and> od_PermissionRequired d \<and> od_Name d = n)"

lemma add_permissions_lookup:
  assumes "add_permissions ds perms ps = Inr qs" "distinct (map fst ds)"
  shows "map_of qs op = (case map_of ds op of
      Some d \<Rightarrow> if od_PermissionRequired d then map_of perms (od_Name d) else map_of ps op
    | None \<Rightarrow> map_of ps op)"
  using assms by (induction ds perms ps rule: add_permissions.induct)
    (auto simp: update_conv' split: if_splits option.splits dest: map_of_SomeD image_eqI [of _ fst] simp: rev_image_eqI)

lemma add_permissions_total:
  "(\<exists>qs. add_permissions ds perms ps = Inr qs) \<longleftrightarrow>
   (\<forall>(op, d) \<in> set ds. od_PermissionRequired d \<longrightarrow> map_of perms (od_Name d) \<noteq> None)"
  by (induction ds perms ps rule: add_permissions.induct) (auto split: option.splits)

lemma add_permissions_found:
  assumes "add_permissions ds perms ps = Inr qs" "(op, d) \<in> set ds" "od_PermissionRequired d"
  shows "map_of perms (od_Name d) \<noteq> None"
  using assms add_permissions_total [of ds perms ps] by auto

lemma validate_ops_None:
  "validate_ops ps ds = None \<longleftrightarrow> (\<forall>(op, d) \<in> set ds. od_PermissionRequired d \<longrightarrow> map_of ps op \<noteq> None)"
  by (induction ps ds rule: validate_ops.induct) auto

lemma NewOperations_iff:
  assumes "distinct (map fst ds)"
  shows "NewOperations ds perms = Inr ops \<longleftrightarrow>
    op_opDetails ops = ds \<and> add_permissions ds perms [] = Inr (op_opPermission ops)"
proof -
  have "ops_Validate \<lparr>op_opPermission = qs, op_opDetails = ds\<rparr> = None" if "add_permissions ds perms [] = Inr qs" for qs
    using add_permissions_lookup [OF that assms] add_permissions_found [OF that] assms
    by (auto simp: ops_Validate_def validate_ops_None)
  then show ?thesis
    by (auto simp: NewOperations_def addOperationPermission_def newEmptyOperations_def split: sum.splits)
qed

text \<open>
  The table of a service: when it can be built, every operation that requires a permission
  has the one the configuration gives its name, every other operation has none, and building
  fails exactly when a name of a required permission is missing.
\<close>

lemma NewOperations_GetPermission:
  assumes "distinct (map fst ds)" "NewOperations ds perms = Inr ops"
  shows "ops_GetPermission ops op = Inr p \<longleftrightarrow> (\<exists>n. required ds op n \<and> map_of perms n = Some p)"
proof -
  note h = assms(2) [unfolded NewOperations_iff [OF assms(1)]]
  note l = add_permissions_lookup [OF conjunct2 [OF h] assms(1), of op]
  show ?thesis
    unfolding ops_GetPermission_def l required_def by (auto split: option.splits if_splits)
qed

lemma NewOperations_total:
  assumes "distinct (map fst ds)"
  shows "(\<exists>ops. NewOperations ds perms = Inr ops) \<longleftrightarrow> (\<forall>op n. required ds op n \<longrightarrow> map_of perms n \<noteq> None)"
proof -
  have "(\<exists>ops. NewOperations ds perms = Inr ops) \<longleftrightarrow> (\<exists>qs. add_permissions ds perms [] = Inr qs)"
    unfolding NewOperations_iff [OF assms] by (metis operations.select_convs)
  then show ?thesis
    using assms unfolding add_permissions_total required_def by (simp add: split_def) fastforce
qed

lemma GetPermissionAndRequired_agrees:
  assumes "distinct (map fst ds)" "NewOperations ds perms = Inr ops"
  shows "ops_GetPermissionAndRequired ops op = Inr (p, True) \<longleftrightarrow> ops_GetPermission ops op = Inr p"
proof -
  note h = assms(2) [unfolded NewOperations_iff [OF assms(1)]]
  note l = add_permissions_lookup [OF conjunct2 [OF h] assms(1), of op]
  show ?thesis
    using h l by (auto simp: ops_GetPermissionAndRequired_def ops_GetPermission_def split: option.splits if_splits)
qed

lemma ops_Remove_lookup:
  "map_of (op_opPermission (ops_Remove ops rem)) op =
     (if op \<in> set (map fst (op_opDetails rem)) then None else map_of (op_opPermission ops) op)"
proof -
  have "map_of (op_opPermission (foldl (\<lambda>o1 (op, opd). o1\<lparr>op_opDetails := AList.delete op (op_opDetails o1),
      op_opPermission := AList.delete op (op_opPermission o1)\<rparr>) ops ds)) op =
    (if op \<in> set (map fst ds) then None else map_of (op_opPermission ops) op)" for ds :: "(opKey \<times> OperationDetails) list"
    by (induction ds arbitrary: ops) (auto simp: delete_conv')
  then show ?thesis unfolding ops_Remove_def by simp
qed

end
