(* ===== verification/Alarms.thy ===== *)
theory Alarms
  imports UsersEdge Permissions
begin

text \<open>
  The alarms service: alarms with their status (\<open>alarms/alarms.go\<close>, \<open>status.go\<close>), the table and
  its repository (\<open>alarms/postgres\<close>), the service (\<open>alarms/service.go\<close>), the consumer of the messages
  that raise alarms (\<open>alarms/consumer\<close>), the middleware that asks for permissions
  (\<open>alarms/middleware/authorization.go\<close>) and the endpoints (\<open>alarms/api\<close>).

  Times are nanoseconds since the zero time of Go; a column of the database keeps microseconds.
\<close>

section \<open>Status\<close>

type_synonym alm_Status = "8 word"

definition AlarmActive :: alm_Status where "AlarmActive = 0"
definition AlarmCleared :: alm_Status where "AlarmCleared = 1"
definition AllAlarms :: alm_Status where "AllAlarms = 2"

definition almStatus_String :: "alm_Status \<Rightarrow> string" where
  "almStatus_String s = (if s = AlarmActive then ''active'' else if s = AlarmCleared then ''cleared'' else ''unknown'')"

definition alm_ToStatus :: "string \<Rightarrow> gerror + alm_Status" where
  "alm_ToStatus status =
     (if ToLowerName status = ''active'' then Inr AlarmActive
      else if ToLowerName status = ''cleared'' then Inr AlarmCleared
      else if ToLowerName status = ''all'' then Inr AllAlarms
      else Inl svcErrInvalidStatus)"

definition trim_quotes :: "string \<Rightarrow> string" where
  "trim_quotes s = rev (dropWhile (\<lambda>c. c = CHR 0x22) (rev (dropWhile (\<lambda>c. c = CHR 0x22) s)))"

definition almStatus_MarshalJSON :: "alm_Status \<Rightarrow> string" where
  "almStatus_MarshalJSON s = [CHR 0x22] @ almStatus_String s @ [CHR 0x22]"

definition almStatus_UnmarshalJSON :: "string \<Rightarrow> gerror + alm_Status" where
  "almStatus_UnmarshalJSON data = alm_ToStatus (trim_quotes data)"

section \<open>Alarms\<close>

definition SeverityMax :: "8 word" where "SeverityMax = 100"

definition ErrInvalidSeverity :: gerror where "ErrInvalidSeverity = Foreign ''invalid severity. Must be between 0 and 100''"

record Alarm =
  al_ID :: string
  al_RuleID :: string
  al_DomainID :: string
  al_ChannelID :: string
  al_ClientID :: string
  al_Subtopic :: string
  al_Status :: alm_Status
  al_Measurement :: string
  al_Value :: string
  al_Unit :: string
  al_Threshold :: string
  al_Cause :: string
  al_Severity :: "8 word"
  al_AssigneeID :: string
  al_CreatedAt :: int
  al_UpdatedAt :: int
  al_UpdatedBy :: string
  al_AssignedAt :: int
  al_AssignedBy :: string
  al_AcknowledgedAt :: int
  al_AcknowledgedBy :: string
  al_ResolvedAt :: int
  al_ResolvedBy :: string
  al_Metadata :: Metadata

definition Alarm0 :: Alarm where
  "Alarm0 = \<lparr>al_ID = [], al_RuleID = [], al_DomainID = [], al_ChannelID = [], al_ClientID = [], al_Subtopic = [], al_Status = AlarmActive,
     al_Measurement = [], al_Value = [], al_Unit = [], al_Threshold = [], al_Cause = [], al_Severity = 0, al_AssigneeID = [], al_CreatedAt = 0,
     al_UpdatedAt = 0, al_UpdatedBy = [], al_AssignedAt = 0, al_AssignedBy = [], al_AcknowledgedAt = 0, al_AcknowledgedBy = [],
     al_ResolvedAt = 0, al_ResolvedBy = [], al_Metadata = None\<rparr>"

record AlarmsPage =
  ag_Offset :: nat
  ag_Limit :: nat
  ag_Total :: nat
  ag_Alarms :: "Alarm list"

record AlarmPM =
  ap_Offset :: nat
  ap_Limit :: nat
  ap_DomainID :: string
  ap_RuleID :: string
  ap_ChannelID :: string
  ap_ClientID :: string
  ap_Subtopic :: string
  ap_Measurement :: string
  ap_Dir :: string
  ap_Order :: string
  ap_Status :: alm_Status
  ap_CreatedFrom :: int
  ap_CreatedTo :: int
  ap_AssigneeID :: string
  ap_Severity :: "8 word"
  ap_UpdatedBy :: string
  ap_AssignedBy :: string
  ap_AcknowledgedBy :: string
  ap_ResolvedBy :: string
  ap_UserID :: string

definition Alarm_Validate :: "Alarm \<Rightarrow> gerror option" where
  "Alarm_Validate a =
     (if al_RuleID a = [] then Some (Foreign ''rule_id is required'')
      else if al_DomainID a = [] then Some (Foreign ''domain_id is required'')
      else if al_ChannelID a = [] then Some (Foreign ''channel_id is required'')
      else if al_ClientID a = [] then Some (Foreign ''client_id is required'')
      else if al_Measurement a = [] then Some (Foreign ''measurement is required'')
      else if al_Value a = [] then Some (Foreign ''value is required'')
      else if al_Cause a = [] then Some (Foreign ''cause is required'')
      else if SeverityMax < al_Severity a then Some ErrInvalidSeverity
      else None)"

section \<open>The table\<close>

record dbAlarm =
  da_ID :: string
  da_RuleID :: string
  da_DomainID :: string
  da_ChannelID :: string
  da_ClientID :: string
  da_Subtopic :: string
  da_Measurement :: string
  da_Value :: string
  da_Unit :: string
  da_Cause :: string
  da_Threshold :: string
  da_Status :: alm_Status
  da_Severity :: "8 word"
  da_AssigneeID :: string
  da_CreatedAt :: int
  da_UpdatedAt :: "int option"
  da_UpdatedBy :: "string option"
  da_AssignedAt :: "int option"
  da_AssignedBy :: "string option"
  da_AcknowledgedAt :: "int option"
  da_AcknowledgedBy :: "string option"
  da_ResolvedAt :: "int option"
  da_ResolvedBy :: "string option"
  da_Metadata :: Metadata

text \<open>The time \<open>now\<close> is read for a missing time of creation only.\<close>

definition toDBAlarm :: "int \<Rightarrow> Alarm \<Rightarrow> dbAlarm" where
  "toDBAlarm now a = \<lparr>da_ID = al_ID a, da_RuleID = al_RuleID a, da_DomainID = al_DomainID a, da_ChannelID = al_ChannelID a,
     da_ClientID = al_ClientID a, da_Subtopic = al_Subtopic a, da_Measurement = al_Measurement a, da_Value = al_Value a,
     da_Unit = al_Unit a, da_Cause = al_Cause a, da_Threshold = al_Threshold a, da_Status = al_Status a, da_Severity = al_Severity a,
     da_AssigneeID = al_AssigneeID a, da_CreatedAt = (if al_CreatedAt a = 0 then now else al_CreatedAt a),
     da_UpdatedAt = null_at (al_UpdatedAt a), da_UpdatedBy = toNullString (al_UpdatedBy a),
     da_AssignedAt = null_at (al_AssignedAt a), da_AssignedBy = toNullString (al_AssignedBy a),
     da_AcknowledgedAt = null_at (al_AcknowledgedAt a), da_AcknowledgedBy = toNullString (al_AcknowledgedBy a),
     da_ResolvedAt = null_at (al_ResolvedAt a), da_ResolvedBy = toNullString (al_ResolvedBy a), da_Metadata = metadata_column (al_Metadata a)\<rparr>"

definition toAlarm :: "dbAlarm \<Rightarrow> Alarm" where
  "toAlarm r = \<lparr>al_ID = da_ID r, al_RuleID = da_RuleID r, al_DomainID = da_DomainID r, al_ChannelID = da_ChannelID r,
     al_ClientID = da_ClientID r, al_Subtopic = da_Subtopic r, al_Status = da_Status r, al_Measurement = da_Measurement r,
     al_Value = da_Value r, al_Unit = da_Unit r, al_Threshold = da_Threshold r, al_Cause = da_Cause r, al_Severity = da_Severity r,
     al_AssigneeID = da_AssigneeID r, al_CreatedAt = da_CreatedAt r, al_UpdatedAt = at_null (da_UpdatedAt r),
     al_UpdatedBy = nullString (da_UpdatedBy r), al_AssignedAt = at_null (da_AssignedAt r), al_AssignedBy = nullString (da_AssignedBy r),
     al_AcknowledgedAt = at_null (da_AcknowledgedAt r), al_AcknowledgedBy = nullString (da_AcknowledgedBy r),
     al_ResolvedAt = at_null (da_ResolvedAt r), al_ResolvedBy = nullString (da_ResolvedBy r), al_Metadata = da_Metadata r\<rparr>"

text \<open>The alarms, and the roles of rules and domains that a listing joins: role and entity, role and member, role and action.\<close>

record alarm_tables =
  at_alarms :: "dbAlarm list"
  at_rules_roles :: "(string \<times> string) list"
  at_rules_role_members :: "(string \<times> string) list"
  at_domains_roles :: "(string \<times> string) list"
  at_domains_role_members :: "(string \<times> string) list"
  at_domains_role_actions :: "(string \<times> string) list"

type_synonym alarms_db = "alarm_tables database"

definition at_micros :: "int \<Rightarrow> int" where "at_micros t = t div 1000 * 1000"

definition stored_alarm :: "dbAlarm \<Rightarrow> dbAlarm" where
  "stored_alarm r = r\<lparr>da_CreatedAt := at_micros (da_CreatedAt r), da_UpdatedAt := map_option at_micros (da_UpdatedAt r),
     da_AssignedAt := map_option at_micros (da_AssignedAt r), da_AcknowledgedAt := map_option at_micros (da_AcknowledgedAt r),
     da_ResolvedAt := map_option at_micros (da_ResolvedAt r)\<rparr>"

definition alarm_fits :: "dbAlarm \<Rightarrow> bool" where
  "alarm_fits r \<longleftrightarrow> length (da_ID r) \<le> 36 \<and> length (da_RuleID r) \<le> 36 \<and> length (da_DomainID r) \<le> 36 \<and> length (da_ChannelID r) \<le> 36 \<and>
     length (da_ClientID r) \<le> 36 \<and> length (da_AssigneeID r) \<le> 36 \<and> fits_opt 36 (da_UpdatedBy r) \<and> fits_opt 36 (da_AssignedBy r) \<and>
     fits_opt 36 (da_AcknowledgedBy r) \<and> fits_opt 36 (da_ResolvedBy r)"

definition same_source :: "dbAlarm \<Rightarrow> dbAlarm \<Rightarrow> bool" where
  "same_source a r \<longleftrightarrow> da_DomainID r = da_DomainID a \<and> da_RuleID r = da_RuleID a \<and> da_ChannelID r = da_ChannelID a \<and>
     da_ClientID r = da_ClientID a \<and> da_Subtopic r = da_Subtopic a \<and> da_Measurement r = da_Measurement a"

text \<open>\<open>ORDER BY created_at DESC LIMIT 1\<close>: the first of the rows with the greatest time, in the order the database reads them.\<close>

fun latest_alarm :: "dbAlarm list \<Rightarrow> dbAlarm option" where
  "latest_alarm [] = None"
| "latest_alarm (r # rs) = (case latest_alarm rs of
     None \<Rightarrow> Some r
   | Some x \<Rightarrow> if da_CreatedAt r < da_CreatedAt x then Some x else Some r)"

definition is_news :: "dbAlarm option \<Rightarrow> dbAlarm \<Rightarrow> bool" where
  "is_news existing a \<longleftrightarrow> (case existing of
      Some e \<Rightarrow> da_Status e \<noteq> da_Status a \<or> da_Status a = 0 \<and> da_Status e = 0 \<and> da_Severity e \<noteq> da_Severity a
    | None \<Rightarrow> da_Status a = 0)"

text \<open>
  What PostgreSQL decides: the order in which it reads rows of equal time, and the order of a
  page by a column and a direction.
\<close>

record alarm_engine =
  ae_scan :: "dbAlarm list \<Rightarrow> dbAlarm list"
  ae_sort :: "string \<Rightarrow> string \<Rightarrow> dbAlarm list \<Rightarrow> dbAlarm list"

definition existing_alarm :: "alarm_engine \<Rightarrow> dbAlarm \<Rightarrow> dbAlarm list \<Rightarrow> dbAlarm option" where
  "existing_alarm pg row rs = latest_alarm (ae_scan pg (filter (\<lambda>r. same_source row r \<and> da_CreatedAt r \<le> da_CreatedAt row) rs))"

definition insert_alarm :: "alarm_engine \<Rightarrow> dbAlarm \<Rightarrow> (alarm_tables, dbAlarm list) stmt" where
  "insert_alarm pg dba t =
     (let row = stored_alarm dba in
      if \<not> is_news (existing_alarm pg row (at_alarms t)) row then Inr (t, [])
      else if \<not> alarm_fits row then Inl pg_truncated
      else if da_RuleID row = [] then Inl (pg_check ''alarms_rule_id_check'')
      else if da_ID row \<in> set (map da_ID (at_alarms t)) then Inl (pg_unique ''alarms_pkey'')
      else Inr (t\<lparr>at_alarms := at_alarms t @ [row]\<rparr>, [row]))"

definition update_alarms :: "(dbAlarm \<Rightarrow> bool) \<Rightarrow> (dbAlarm \<Rightarrow> dbAlarm) \<Rightarrow> (alarm_tables, dbAlarm list) stmt" where
  "update_alarms p f t =
     (let changed = map f (filter p (at_alarms t)) in
      if \<not> list_all alarm_fits changed then Inl pg_truncated
      else Inr (t\<lparr>at_alarms := map (\<lambda>r. if p r then f r else r) (at_alarms t)\<rparr>, changed))"

definition delete_alarms :: "(dbAlarm \<Rightarrow> bool) \<Rightarrow> (alarm_tables, nat) stmt" where
  "delete_alarms p t =
     Inr (t\<lparr>at_alarms := filter (\<lambda>r. \<not> p r) (at_alarms t)\<rparr>, length (filter p (at_alarms t)))"

section \<open>The repository\<close>

definition first_alarm :: "gerror \<Rightarrow> dbAlarm list \<Rightarrow> (alarms_db, gerror, Alarm) io" where
  "first_alarm wrapper rs = (case rs of
      [] \<Rightarrow> fail repoErrNotFound
    | r # _ \<Rightarrow> trying (driver (ret r)) (WrapDB wrapper) (\<lambda>dba. ret (toAlarm dba)))"

definition arr_CreateAlarm :: "alarm_engine \<Rightarrow> int \<Rightarrow> Alarm \<Rightarrow> (alarms_db, gerror, Alarm) io" where
  "arr_CreateAlarm pg now alarm =
     trying (db_exec (insert_alarm pg (toDBAlarm now alarm))) (HandleError repoErrCreateEntity) (first_alarm repoErrCreateEntity)"

text \<open>The columns of the update: those the request has a value for.\<close>

definition set_alarm_columns :: "Alarm \<Rightarrow> dbAlarm \<Rightarrow> dbAlarm \<Rightarrow> dbAlarm" where
  "set_alarm_columns alarm dba r =
     (let r1 = (if al_Status alarm \<noteq> 0 then r\<lparr>da_Status := da_Status dba\<rparr> else r);
          r2 = (if al_AssigneeID alarm \<noteq> [] then r1\<lparr>da_AssigneeID := da_AssigneeID dba\<rparr> else r1);
          r3 = (if al_AssignedAt alarm \<noteq> 0 then r2\<lparr>da_AssignedAt := da_AssignedAt dba\<rparr> else r2);
          r4 = (if al_AssignedBy alarm \<noteq> [] then r3\<lparr>da_AssignedBy := da_AssignedBy dba\<rparr> else r3);
          r5 = (if al_AcknowledgedBy alarm \<noteq> [] then r4\<lparr>da_AcknowledgedBy := da_AcknowledgedBy dba\<rparr> else r4);
          r6 = (if al_AcknowledgedAt alarm \<noteq> 0 then r5\<lparr>da_AcknowledgedAt := da_AcknowledgedAt dba\<rparr> else r5);
          r7 = (if al_ResolvedBy alarm \<noteq> [] then r6\<lparr>da_ResolvedBy := da_ResolvedBy dba\<rparr> else r6);
          r8 = (if al_ResolvedAt alarm \<noteq> 0 then r7\<lparr>da_ResolvedAt := da_ResolvedAt dba\<rparr> else r7);
          r9 = (if al_Metadata alarm \<noteq> None then r8\<lparr>da_Metadata := da_Metadata dba\<rparr> else r8)
      in r9\<lparr>da_UpdatedBy := da_UpdatedBy dba, da_UpdatedAt := da_UpdatedAt dba\<rparr>)"

definition arr_UpdateAlarm :: "int \<Rightarrow> Alarm \<Rightarrow> (alarms_db, gerror, Alarm) io" where
  "arr_UpdateAlarm now alarm =
     (let dba = stored_alarm (toDBAlarm now alarm) in
      trying (db_exec (update_alarms (\<lambda>r. da_ID r = da_ID dba) (set_alarm_columns alarm dba))) (HandleError repoErrUpdateEntity)
        (first_alarm repoErrUpdateEntity))"

definition arr_ViewAlarm :: "string \<Rightarrow> string \<Rightarrow> (alarms_db, gerror, Alarm) io" where
  "arr_ViewAlarm alarmID domainID =
     trying (db_query (\<lambda>t. filter (\<lambda>r. da_ID r = alarmID \<and> da_DomainID r = domainID) (at_alarms t))) (HandleError repoErrViewEntity)
       (first_alarm repoErrViewEntity)"

definition pageQueryConditions :: "AlarmPM \<Rightarrow> dbAlarm \<Rightarrow> bool" where
  "pageQueryConditions pm r \<longleftrightarrow>
     (ap_DomainID pm = [] \<or> da_DomainID r = ap_DomainID pm) \<and> (ap_RuleID pm = [] \<or> da_RuleID r = ap_RuleID pm) \<and>
     (ap_ChannelID pm = [] \<or> da_ChannelID r = ap_ChannelID pm) \<and> (ap_Subtopic pm = [] \<or> da_Subtopic r = ap_Subtopic pm) \<and>
     (ap_ClientID pm = [] \<or> da_ClientID r = ap_ClientID pm) \<and> (ap_Measurement pm = [] \<or> da_Measurement r = ap_Measurement pm) \<and>
     (ap_Status pm = AllAlarms \<or> da_Status r = ap_Status pm) \<and> (ap_Severity pm = 255 \<or> da_Severity r = ap_Severity pm) \<and>
     (ap_AssigneeID pm = [] \<or> da_AssigneeID r = ap_AssigneeID pm) \<and> (ap_UpdatedBy pm = [] \<or> da_UpdatedBy r = Some (ap_UpdatedBy pm)) \<and>
     (ap_ResolvedBy pm = [] \<or> da_ResolvedBy r = Some (ap_ResolvedBy pm)) \<and>
     (ap_AcknowledgedBy pm = [] \<or> da_AcknowledgedBy r = Some (ap_AcknowledgedBy pm)) \<and>
     (ap_AssignedBy pm = [] \<or> da_AssignedBy r = Some (ap_AssignedBy pm)) \<and>
     (ap_CreatedFrom pm = 0 \<or> at_micros (ap_CreatedFrom pm) \<le> da_CreatedAt r) \<and>
     (ap_CreatedTo pm = 0 \<or> da_CreatedAt r \<le> at_micros (ap_CreatedTo pm))"

definition alarmsPage :: "alarm_engine \<Rightarrow> (alarm_tables \<Rightarrow> dbAlarm list) \<Rightarrow> AlarmPM \<Rightarrow> (alarms_db, gerror, AlarmsPage) io" where
  "alarmsPage pg sel pm =
     (let dir = (if ap_Dir pm = ''asc'' then ''asc'' else ''desc'');
          col = (if ap_Order pm = ''created_at'' then ''created_at'' else ''COALESCE(updated_at, created_at)'')
      in trying (db_query (\<lambda>t. take (ap_Limit pm) (drop (ap_Offset pm) (ae_sort pg col dir (sel t))))) (WrapDB repoErrViewEntity) (\<lambda>rs.
         trying (scan_rows rs) (WrapDB repoErrViewEntity) (\<lambda>items.
         trying (Total (\<lambda>t. length (sel t))) (WrapDB repoErrViewEntity) (\<lambda>total.
         ret \<lparr>ag_Offset = ap_Offset pm, ag_Limit = ap_Limit pm, ag_Total = total, ag_Alarms = map toAlarm items\<rparr>))))"

definition arr_ListAllAlarms :: "alarm_engine \<Rightarrow> AlarmPM \<Rightarrow> (alarms_db, gerror, AlarmsPage) io" where
  "arr_ListAllAlarms pg pm = alarmsPage pg (\<lambda>t. filter (pageQueryConditions pm) (at_alarms t)) pm"

text \<open>The two subqueries: a role of the rule, or a role of the domain with an action on alarms, that the user is a member of.\<close>

definition rule_member :: "alarm_tables \<Rightarrow> string \<Rightarrow> string \<Rightarrow> bool" where
  "rule_member t userID ruleID \<longleftrightarrow>
     list_ex (\<lambda>(role, entity). entity = ruleID \<and> (role, userID) \<in> set (at_rules_role_members t)) (at_rules_roles t)"

definition domain_alarm_member :: "alarm_tables \<Rightarrow> string \<Rightarrow> string \<Rightarrow> bool" where
  "domain_alarm_member t userID domainID \<longleftrightarrow>
     list_ex (\<lambda>(role, entity). entity = domainID \<and> (role, userID) \<in> set (at_domains_role_members t) \<and>
       list_ex (\<lambda>(r, action). r = role \<and> HasPrefix action ''alarm'') (at_domains_role_actions t)) (at_domains_roles t)"

definition user_sees :: "alarm_tables \<Rightarrow> string \<Rightarrow> dbAlarm \<Rightarrow> bool" where
  "user_sees t userID r \<longleftrightarrow> rule_member t userID (da_RuleID r) \<or> domain_alarm_member t userID (da_DomainID r)"

definition arr_ListUserAlarms :: "alarm_engine \<Rightarrow> string \<Rightarrow> AlarmPM \<Rightarrow> (alarms_db, gerror, AlarmsPage) io" where
  "arr_ListUserAlarms pg userID pm =
     alarmsPage pg (\<lambda>t. remdups (filter (\<lambda>r. user_sees t userID r \<and> pageQueryConditions pm r) (at_alarms t))) (pm\<lparr>ap_UserID := userID\<rparr>)"

definition arr_DeleteAlarm :: "string \<Rightarrow> (alarms_db, gerror, unit) io" where
  "arr_DeleteAlarm i =
     trying (db_exec (delete_alarms (\<lambda>r. da_ID r = i))) (WrapDB repoErrRemoveEntity) (\<lambda>n.
     trying (driver (ret n)) (WrapDB repoErrRemoveEntity) (\<lambda>rowsAffected.
     if rowsAffected = 0 then fail repoErrNotFound else ret ()))"

section \<open>The service\<close>

record 'w AlarmsRepository =
  ar_CreateAlarm :: "Alarm \<Rightarrow> ('w, gerror, Alarm) io"
  ar_UpdateAlarm :: "Alarm \<Rightarrow> ('w, gerror, Alarm) io"
  ar_ViewAlarm :: "string \<Rightarrow> string \<Rightarrow> ('w, gerror, Alarm) io"
  ar_ListAllAlarms :: "AlarmPM \<Rightarrow> ('w, gerror, AlarmsPage) io"
  ar_ListUserAlarms :: "string \<Rightarrow> AlarmPM \<Rightarrow> ('w, gerror, AlarmsPage) io"
  ar_DeleteAlarm :: "string \<Rightarrow> ('w, gerror, unit) io"

record 'w alarms_service =
  as_idp :: "('w, gerror, string) io"
  as_repo :: "'w AlarmsRepository"
  as_now :: "'w \<Rightarrow> int \<times> 'w"

text \<open>An alarm that is no news is not stored, and that is no error.\<close>

definition alm_CreateAlarm :: "'w alarms_service \<Rightarrow> Alarm \<Rightarrow> ('w, gerror, unit) io" where
  "alm_CreateAlarm svc alarm =
     pass (as_idp svc) (\<lambda>i.
     observe (if al_CreatedAt alarm = 0 then as_now svc else (\<lambda>w. (al_CreatedAt alarm, w))) (\<lambda>at.
     let a = alarm\<lparr>al_ID := i, al_CreatedAt := at\<rparr> in
     guarded (Alarm_Validate a)
       (observe (ar_CreateAlarm (as_repo svc) a) (\<lambda>r. case r of
          Inl err \<Rightarrow> if err \<noteq> repoErrNotFound then fail err else ret ()
        | Inr _ \<Rightarrow> ret ()))))"

definition alm_ViewAlarm :: "'w alarms_service \<Rightarrow> Session \<Rightarrow> string \<Rightarrow> ('w, gerror, Alarm) io" where
  "alm_ViewAlarm svc session alarmID = ar_ViewAlarm (as_repo svc) alarmID (s_DomainID session)"

definition alm_ListAlarms :: "'w alarms_service \<Rightarrow> Session \<Rightarrow> AlarmPM \<Rightarrow> ('w, gerror, AlarmsPage) io" where
  "alm_ListAlarms svc session pm =
     (if s_SuperAdmin session then ar_ListAllAlarms (as_repo svc) pm else ar_ListUserAlarms (as_repo svc) (s_UserID session) pm)"

definition alm_DeleteAlarm :: "'w alarms_service \<Rightarrow> Session \<Rightarrow> string \<Rightarrow> ('w, gerror, unit) io" where
  "alm_DeleteAlarm svc session alarmID = ar_DeleteAlarm (as_repo svc) alarmID"

definition alm_UpdateAlarm :: "'w alarms_service \<Rightarrow> Session \<Rightarrow> Alarm \<Rightarrow> ('w, gerror, Alarm) io" where
  "alm_UpdateAlarm svc session alarm =
     observe (as_now svc) (\<lambda>now. ar_UpdateAlarm (as_repo svc) (alarm\<lparr>al_UpdatedAt := now, al_UpdatedBy := s_UserID session\<rparr>))"

section \<open>The consumer\<close>

record BrokerMessage =
  bm_Channel :: string
  bm_Domain :: string
  bm_Subtopic :: string
  bm_Publisher :: string
  bm_Protocol :: string
  bm_Payload :: "string option"
  bm_Created :: "64 word"
  bm_ClientId :: string

definition ClientIdentity :: "BrokerMessage \<Rightarrow> string" where
  "ClientIdentity msg = (if bm_ClientId msg \<noteq> [] then bm_ClientId msg else bm_Publisher msg)"

text \<open>How a message is acknowledged to the broker after an error.\<close>

datatype AckType = Ack | DoubleAck | Nack | InProgress | Term | NoAck

datatype msg_error = PlainError gerror | AckError gerror AckType

text \<open>Unix times count from 1970, 62135596800 seconds after the zero time.\<close>

definition time_Unix_nanos :: "64 word \<Rightarrow> int" where
  "time_Unix_nanos n = 62135596800 * 1000000000 + sint n"

definition errFailedToDecode :: gerror where "errFailedToDecode = New ''failed to decode alarm''"

text \<open>The alarm of a message comes from its payload, its source and its time from the message; \<open>decode\<close> is \<open>gob\<close>.\<close>

definition message_alarm :: "BrokerMessage \<Rightarrow> Alarm \<Rightarrow> Alarm" where
  "message_alarm msg alarm =
     alarm\<lparr>al_DomainID := bm_Domain msg, al_ChannelID := bm_Channel msg, al_ClientID := ClientIdentity msg, al_Subtopic := bm_Subtopic msg,
       al_CreatedAt := time_Unix_nanos (bm_Created msg)\<rparr>"

definition alm_Handle ::
  "(string \<Rightarrow> gerror + Alarm) \<Rightarrow> 'w alarms_service \<Rightarrow> BrokerMessage option \<Rightarrow> ('w, msg_error, unit) io" where
  "alm_Handle decode svc m = (case m of
      None \<Rightarrow> fail (PlainError (New ''message is empty''))
    | Some msg \<Rightarrow> (case bm_Payload msg of
        None \<Rightarrow> fail (PlainError (New ''message payload is empty''))
      | Some payload \<Rightarrow> (case decode payload of
          Inl err \<Rightarrow> fail (AckError (Wrap errFailedToDecode err) Term)
        | Inr alarm \<Rightarrow>
            guarded (map_option PlainError (Alarm_Validate (message_alarm msg alarm)))
              (trying (alm_CreateAlarm svc (message_alarm msg alarm)) PlainError ret))))"

section \<open>The authorization middleware\<close>

definition alarm_EntityType :: string where "alarm_EntityType = ''alarm''"

definition OpViewAlarm :: opKey where "OpViewAlarm = 0"
definition OpDeleteAlarm :: opKey where "OpDeleteAlarm = 1"
definition OpListAlarms :: opKey where "OpListAlarms = 2"
definition OpAssignAlarm :: opKey where "OpAssignAlarm = 3"
definition OpAcknowledgeAlarm :: opKey where "OpAcknowledgeAlarm = 4"
definition OpResolveAlarm :: opKey where "OpResolveAlarm = 5"
definition OpUpdateAlarm :: opKey where "OpUpdateAlarm = 6"

definition alarm_OperationDetails :: "(opKey \<times> OperationDetails) list" where
  "alarm_OperationDetails =
     [(OpViewAlarm, \<lparr>od_Name = ''view'', od_PermissionRequired = True\<rparr>),
      (OpDeleteAlarm, \<lparr>od_Name = ''delete'', od_PermissionRequired = True\<rparr>),
      (OpListAlarms, \<lparr>od_Name = ''list'', od_PermissionRequired = True\<rparr>),
      (OpAssignAlarm, \<lparr>od_Name = ''assign'', od_PermissionRequired = True\<rparr>),
      (OpAcknowledgeAlarm, \<lparr>od_Name = ''acknowledge'', od_PermissionRequired = True\<rparr>),
      (OpResolveAlarm, \<lparr>od_Name = ''resolve'', od_PermissionRequired = True\<rparr>),
      (OpUpdateAlarm, \<lparr>od_Name = ''update'', od_PermissionRequired = True\<rparr>)]"

definition errDomainUpdateAlarms :: gerror where "errDomainUpdateAlarms = New ''not authorized to update alarms in domain''"
definition errDomainDeleteAlarms :: gerror where "errDomainDeleteAlarms = New ''not authorized to delete alarms in domain''"
definition errDomainViewAlarms :: gerror where "errDomainViewAlarms = New ''not authorized to view alarms in domain''"

record 'w alarms_authz =
  aa_svc :: "'w alarms_service"
  aa_Authorize :: "Policy \<Rightarrow> PATReq option \<Rightarrow> ('w, gerror, unit) io"
  aa_entitiesOps :: entitiesOperations

definition NewAlarmsAuthorizationMiddleware ::
  "'w alarms_service \<Rightarrow> (Policy \<Rightarrow> PATReq option \<Rightarrow> ('w, gerror, unit) io) \<Rightarrow> entitiesOperations \<Rightarrow> gerror + 'w alarms_authz" where
  "NewAlarmsAuthorizationMiddleware svc authz entitiesOps =
     (case eo_Validate entitiesOps of
        Some err \<Rightarrow> Inl err
      | None \<Rightarrow> Inr \<lparr>aa_svc = svc, aa_Authorize = authz, aa_entitiesOps = entitiesOps\<rparr>)"

definition aam_authorize :: "'w alarms_authz \<Rightarrow> opKey \<Rightarrow> Session \<Rightarrow> string \<Rightarrow> string \<Rightarrow> ('w, gerror, unit) io" where
  "aam_authorize am op session objType obj =
     (case eo_GetPermission (aa_entitiesOps am) alarm_EntityType op of
        Inl err \<Rightarrow> fail err
      | Inr perm \<Rightarrow>
          aa_Authorize am (Policy0\<lparr>p_Domain := s_DomainID session, p_SubjectType := UserType, p_SubjectKind := UsersKind,
              p_Subject := s_DomainUserID session, p_Object := obj, p_ObjectType := objType, p_Permission := perm\<rparr>)
            (if s_PatID session \<noteq> [] then
               Some \<lparr>pq_PatID = s_PatID session, pq_Domain = s_DomainID session,
                 pq_Operation = eo_OperationName (aa_entitiesOps am) alarm_EntityType op, pq_UserID = s_UserID session,
                 pq_EntityID = s_DomainID session, pq_EntityType = alarm_EntityType\<rparr>
             else None))"

definition aam_checkSuperAdmin :: "'w alarms_authz \<Rightarrow> Session \<Rightarrow> ('w, gerror, unit) io" where
  "aam_checkSuperAdmin am session =
     (if s_Role session \<noteq> SessionSuperAdminRole then fail svcErrSuperAdminAction
      else aa_Authorize am (Policy0\<lparr>p_SubjectType := UserType, p_Subject := s_UserID session, p_Permission := AdminPermission,
        p_ObjectType := PlatformType, p_Object := MagistralaObject\<rparr>) None)"

definition aam_CreateAlarm :: "'w alarms_authz \<Rightarrow> Alarm \<Rightarrow> ('w, gerror, unit) io" where
  "aam_CreateAlarm am alarm = alm_CreateAlarm (aa_svc am) alarm"

text \<open>A right that is asked for when a field is set.\<close>

definition asking :: "bool \<Rightarrow> 'w alarms_authz \<Rightarrow> opKey \<Rightarrow> Session \<Rightarrow> ('w, gerror, unit) io" where
  "asking b am op session =
     (if b then trying (aam_authorize am op session DomainType (s_DomainID session)) (Wrap errDomainUpdateAlarms) ret else ret ())"

definition has_metadata :: "Metadata \<Rightarrow> bool" where
  "has_metadata m \<longleftrightarrow> (case m of Some (_ # _) \<Rightarrow> True | _ \<Rightarrow> False)"

definition aam_UpdateAlarm :: "'w alarms_authz \<Rightarrow> Session \<Rightarrow> Alarm \<Rightarrow> ('w, gerror, Alarm) io" where
  "aam_UpdateAlarm am session alarm =
     pass (asking (has_metadata (al_Metadata alarm)) am OpUpdateAlarm session) (\<lambda>_.
     pass (asking (al_AssigneeID alarm \<noteq> []) am OpAssignAlarm session) (\<lambda>_.
     pass (if al_AssigneeID alarm \<noteq> [] then
             aa_Authorize am (Policy0\<lparr>p_Domain := s_DomainID session, p_SubjectType := UserType, p_SubjectKind := UsersKind,
               p_Subject := auth_EncodeDomainUserID (s_DomainID session) (al_AssigneeID alarm), p_Permission := MembershipPermission,
               p_ObjectType := DomainType, p_Object := s_DomainID session\<rparr>) None
           else ret ()) (\<lambda>_.
     pass (asking (al_AcknowledgedBy alarm \<noteq> []) am OpAcknowledgeAlarm session) (\<lambda>_.
     pass (asking (al_ResolvedBy alarm \<noteq> []) am OpResolveAlarm session) (\<lambda>_.
     alm_UpdateAlarm (aa_svc am) session alarm)))))"

definition aam_DeleteAlarm :: "'w alarms_authz \<Rightarrow> Session \<Rightarrow> string \<Rightarrow> ('w, gerror, unit) io" where
  "aam_DeleteAlarm am session i =
     trying (aam_authorize am OpDeleteAlarm session DomainType (s_DomainID session)) (Wrap errDomainDeleteAlarms) (\<lambda>_.
     alm_DeleteAlarm (aa_svc am) session i)"

definition aam_ListAlarms :: "'w alarms_authz \<Rightarrow> Session \<Rightarrow> AlarmPM \<Rightarrow> ('w, gerror, AlarmsPage) io" where
  "aam_ListAlarms am session pm0 =
     (let pm = (if ap_DomainID pm0 = [] then pm0\<lparr>ap_DomainID := s_DomainID session\<rparr> else pm0) in
      observe (aam_checkSuperAdmin am session) (\<lambda>r. case r of
        Inr _ \<Rightarrow> alm_ListAlarms (aa_svc am) (session\<lparr>s_SuperAdmin := True\<rparr>) pm
      | Inl err \<Rightarrow> if Contains err svcErrSuperAdminAction then alm_ListAlarms (aa_svc am) session pm else fail err))"

definition aam_ViewAlarm :: "'w alarms_authz \<Rightarrow> Session \<Rightarrow> string \<Rightarrow> ('w, gerror, Alarm) io" where
  "aam_ViewAlarm am session i =
     trying (aam_authorize am OpViewAlarm session DomainType (s_DomainID session)) (Wrap errDomainViewAlarms) (\<lambda>_.
     alm_ViewAlarm (aa_svc am) session i)"

section \<open>The endpoints\<close>

definition apiErrValidation :: gerror where "apiErrValidation = NewRequestError ''something went wrong with the request''"
definition apiErrLimitSize :: gerror where "apiErrLimitSize = NewRequestError ''invalid limit size''"
definition apiErrInvalidOrder :: gerror where "apiErrInvalidOrder = NewRequestError ''invalid list order provided''"
definition apiErrInvalidDirection :: gerror where "apiErrInvalidDirection = NewRequestError ''invalid list direction provided''"
definition apiErrUnsupportedContentType :: gerror where "apiErrUnsupportedContentType = NewMediaTypeError ''unsupported content type''"
definition apiErrMalformedRequestBody :: gerror where
  "apiErrMalformedRequestBody = NewRequestError ''request body is not a valid JSON, expecting a valid JSON''"

definition alarmReq_validate :: "Alarm \<Rightarrow> gerror option" where
  "alarmReq_validate a = (if al_ID a = [] then Some (Foreign ''missing alarm id'') else None)"

definition updateAlarmReq_validate :: "Alarm \<Rightarrow> gerror option" where
  "updateAlarmReq_validate a =
     (if al_ID a = [] then Some (Foreign ''missing alarm id'')
      else if al_AssigneeID a = [] \<and> al_AcknowledgedBy a = [] \<and> al_ResolvedBy a = [] \<and> \<not> has_metadata (al_Metadata a)
      then Some (Foreign ''at least one of assignee_id, acknowledged_by, resolved_by, or metadata must be set'')
      else None)"

definition listAlarmsReq_validate :: "AlarmPM \<Rightarrow> gerror option" where
  "listAlarmsReq_validate pm =
     (if 100 < ap_Limit pm \<or> ap_Limit pm < 1 then Some apiErrLimitSize
      else if ap_Order pm \<noteq> [] \<and> ap_Order pm \<noteq> ''updated_at'' \<and> ap_Order pm \<noteq> ''created_at'' then Some apiErrInvalidOrder
      else if ap_Dir pm \<noteq> ''asc'' \<and> ap_Dir pm \<noteq> ''desc'' then Some apiErrInvalidDirection
      else None)"

text \<open>A request is served with the session the HTTP middleware put in its context.\<close>

definition with_session :: "gerror option \<Rightarrow> Session option \<Rightarrow> (Session \<Rightarrow> ('w, gerror, 'a) io) \<Rightarrow> ('w, gerror, 'a) io" where
  "with_session invalid session k =
     guarded (map_option (Wrap apiErrValidation) invalid) (case session of None \<Rightarrow> fail svcErrAuthorization | Some s \<Rightarrow> k s)"

definition updateAlarmEndpoint :: "'w alarms_authz \<Rightarrow> Session option \<Rightarrow> Alarm \<Rightarrow> ('w, gerror, Alarm) io" where
  "updateAlarmEndpoint am session req = with_session (updateAlarmReq_validate req) session (\<lambda>s. aam_UpdateAlarm am s req)"

definition viewAlarmEndpoint :: "'w alarms_authz \<Rightarrow> Session option \<Rightarrow> Alarm \<Rightarrow> ('w, gerror, Alarm) io" where
  "viewAlarmEndpoint am session req = with_session (alarmReq_validate req) session (\<lambda>s. aam_ViewAlarm am s (al_ID req))"

definition listAlarmsEndpoint :: "'w alarms_authz \<Rightarrow> Session option \<Rightarrow> AlarmPM \<Rightarrow> ('w, gerror, AlarmsPage) io" where
  "listAlarmsEndpoint am session req = with_session (listAlarmsReq_validate req) session (\<lambda>s. aam_ListAlarms am s req)"

definition deleteAlarmEndpoint :: "'w alarms_authz \<Rightarrow> Session option \<Rightarrow> Alarm \<Rightarrow> ('w, gerror, unit) io" where
  "deleteAlarmEndpoint am session req = with_session (alarmReq_validate req) session (\<lambda>s. aam_DeleteAlarm am s (al_ID req))"

subsection \<open>Requests\<close>

text \<open>The parameters of a URL: the values of each key.\<close>

type_synonym url_query = "string \<Rightarrow> string list"

definition ReadStringQuery :: "url_query \<Rightarrow> string \<Rightarrow> string \<Rightarrow> gerror + string" where
  "ReadStringQuery q key def = (case q key of [] \<Rightarrow> Inr def | [v] \<Rightarrow> Inr v | _ \<Rightarrow> Inl apiErrInvalidQueryParams)"

definition digits_nat :: "string \<Rightarrow> nat" where
  "digits_nat s = foldl (\<lambda>n c. 10 * n + (of_char c - 48)) 0 s"

text \<open>\<open>strconv.ParseUint\<close> to the base 10; the text of the number is left out of the errors.\<close>

definition ParseUint :: "nat \<Rightarrow> string \<Rightarrow> gerror + nat" where
  "ParseUint bits s =
     (if s = [] \<or> \<not> list_all is_digit s then Inl (Foreign ''strconv.ParseUint: invalid syntax'')
      else if 2 ^ bits \<le> digits_nat s then Inl (Foreign ''strconv.ParseUint: value out of range'')
      else Inr (digits_nat s))"

definition ReadNumQuery_uint64 :: "url_query \<Rightarrow> string \<Rightarrow> nat \<Rightarrow> gerror + nat" where
  "ReadNumQuery_uint64 q key def = (case q key of
      [] \<Rightarrow> Inr def
    | [v] \<Rightarrow> (case ParseUint 64 v of Inl err \<Rightarrow> Inl (Wrap apiErrInvalidQueryParams err) | Inr n \<Rightarrow> Inr n)
    | _ \<Rightarrow> Inl apiErrInvalidQueryParams)"

definition reading :: "gerror + 'a \<Rightarrow> ('a \<Rightarrow> gerror + 'b) \<Rightarrow> gerror + 'b" where
  "reading r k = (case r of Inl err \<Rightarrow> Inl (Wrap apiErrValidation err) | Inr x \<Rightarrow> k x)"

definition optional_time :: "(string \<Rightarrow> gerror + int) \<Rightarrow> string \<Rightarrow> gerror + int" where
  "optional_time parse s = (if s \<noteq> [] then parse s else Inr 0)"

text \<open>\<open>parse\<close> is \<open>time.Parse\<close> with \<open>RFC3339\<close>. The severity is read as 64 bits and cut to 8.\<close>

definition decodeListAlarmsReq :: "(string \<Rightarrow> gerror + int) \<Rightarrow> url_query \<Rightarrow> gerror + AlarmPM" where
  "decodeListAlarmsReq parse q =
     reading (ReadNumQuery_uint64 q ''offset'' 0) (\<lambda>offset.
     reading (ReadNumQuery_uint64 q ''limit'' 10) (\<lambda>limit.
     reading (ReadStringQuery q ''domain_id'' []) (\<lambda>domainID.
     reading (ReadStringQuery q ''channel_id'' []) (\<lambda>channelID.
     reading (ReadStringQuery q ''client_id'' []) (\<lambda>clientID.
     reading (ReadStringQuery q ''subtopic'' []) (\<lambda>subtopic.
     reading (ReadStringQuery q ''rule_id'' []) (\<lambda>ruleID.
     reading (ReadStringQuery q ''status'' ''all'') (\<lambda>s.
     reading (alm_ToStatus s) (\<lambda>status.
     reading (ReadStringQuery q ''assignee_id'' []) (\<lambda>assigneeID.
     reading (ReadNumQuery_uint64 q ''severity'' 255) (\<lambda>severity.
     reading (ReadStringQuery q ''updated_by'' []) (\<lambda>updatedBy.
     reading (ReadStringQuery q ''assigned_by'' []) (\<lambda>assignedBy.
     reading (ReadStringQuery q ''acknowledged_by'' []) (\<lambda>acknowledgedBy.
     reading (ReadStringQuery q ''resolved_by'' []) (\<lambda>resolvedBy.
     reading (ReadStringQuery q ''created_from'' []) (\<lambda>cfrom.
     reading (ReadStringQuery q ''created_to'' []) (\<lambda>cto.
     reading (ReadStringQuery q ''order'' ''updated_at'') (\<lambda>order.
     reading (ReadStringQuery q ''dir'' ''desc'') (\<lambda>dir.
     reading (optional_time parse cfrom) (\<lambda>createdFrom.
     reading (optional_time parse cto) (\<lambda>createdTo.
       Inr \<lparr>ap_Offset = offset, ap_Limit = limit, ap_DomainID = domainID, ap_RuleID = ruleID, ap_ChannelID = channelID,
         ap_ClientID = clientID, ap_Subtopic = subtopic, ap_Measurement = [], ap_Dir = dir, ap_Order = order, ap_Status = status,
         ap_CreatedFrom = createdFrom, ap_CreatedTo = createdTo, ap_AssigneeID = assigneeID, ap_Severity = of_nat severity,
         ap_UpdatedBy = updatedBy, ap_AssignedBy = assignedBy, ap_AcknowledgedBy = acknowledgedBy, ap_ResolvedBy = resolvedBy,
         ap_UserID = []\<rparr>)))))))))))))))))))))"

definition decodeAlarmReq :: "string \<Rightarrow> Alarm" where
  "decodeAlarmReq alarmID = Alarm0\<lparr>al_ID := alarmID\<rparr>"

text \<open>\<open>json\<close> decodes the body of the request.\<close>

definition decodeUpdateAlarmReq :: "(string \<Rightarrow> gerror + Alarm) \<Rightarrow> string \<Rightarrow> string \<Rightarrow> string \<Rightarrow> gerror + Alarm" where
  "decodeUpdateAlarmReq json contentType alarmID body =
     (if \<not> ContainsStr contentType ''application/json'' then Inl apiErrUnsupportedContentType
      else (case json body of
              Inl err \<Rightarrow> Inl (Wrap apiErrMalformedRequestBody err)
            | Inr alarm \<Rightarrow> Inr (alarm\<lparr>al_ID := alarmID\<rparr>)))"

end
