(* ===== verification/AlarmState.thy ===== *)
theory AlarmState
  imports Alarms
begin

text \<open>
  What happens to the alarms of a deployment. The interface of the store is a locale:
  what the calls of the repository, of the id provider and of the authorization do to the rows.
  It is interpreted on the repository of \<open>alarms/postgres\<close>.
\<close>

section \<open>Histories of rows\<close>

text \<open>What no call changes in a row: its source, what was measured and when; and a row that is not active does not become active.\<close>

definition alarm_kept :: "dbAlarm \<Rightarrow> dbAlarm \<Rightarrow> bool" where
  "alarm_kept r r' \<longleftrightarrow> da_ID r' = da_ID r \<and> same_source r r' \<and> da_Value r' = da_Value r \<and> da_Unit r' = da_Unit r \<and>
     da_Threshold r' = da_Threshold r \<and> da_Cause r' = da_Cause r \<and> da_Severity r' = da_Severity r \<and> da_CreatedAt r' = da_CreatedAt r \<and>
     (da_Status r \<noteq> AlarmActive \<longrightarrow> da_Status r' \<noteq> AlarmActive)"

lemma alarm_kept_refl [simp]: "alarm_kept r r"
  by (simp add: alarm_kept_def same_source_def)

lemma alarm_kept_trans: "alarm_kept r s \<Longrightarrow> alarm_kept s t \<Longrightarrow> alarm_kept r t"
  by (auto simp: alarm_kept_def same_source_def)

definition alarm_row_ok :: "dbAlarm \<Rightarrow> bool" where
  "alarm_row_ok r \<longleftrightarrow> alarm_fits r \<and> da_RuleID r \<noteq> [] \<and> da_DomainID r \<noteq> [] \<and> da_ChannelID r \<noteq> [] \<and> da_ClientID r \<noteq> [] \<and>
     da_Measurement r \<noteq> [] \<and> da_Value r \<noteq> [] \<and> da_Cause r \<noteq> [] \<and> da_Severity r \<le> SeverityMax \<and> da_Metadata r \<noteq> None"

text \<open>Rows in which a valid alarm is stored.\<close>

definition stores :: "Alarm \<Rightarrow> dbAlarm \<Rightarrow> bool" where
  "stores a r \<longleftrightarrow> da_ID r = al_ID a \<and> alarm_fits r \<and> da_RuleID r = al_RuleID a \<and> da_DomainID r = al_DomainID a \<and>
     da_ChannelID r = al_ChannelID a \<and> da_ClientID r = al_ClientID a \<and> da_Measurement r = al_Measurement a \<and> da_Value r = al_Value a \<and>
     da_Cause r = al_Cause a \<and> da_Severity r = al_Severity a \<and> da_Metadata r \<noteq> None"

lemma stores_ok: "stores a r \<Longrightarrow> Alarm_Validate a = None \<Longrightarrow> alarm_row_ok r"
  by (auto simp: stores_def alarm_row_ok_def Alarm_Validate_def split: if_splits)

definition rows_ok :: "dbAlarm list \<Rightarrow> string list \<Rightarrow> bool" where
  "rows_ok rs ids \<longleftrightarrow> distinct (map da_ID rs @ ids) \<and> list_all alarm_row_ok rs"

definition evolves :: "dbAlarm list \<times> string list \<Rightarrow> dbAlarm list \<times> string list \<Rightarrow> bool" where
  "evolves s s' \<longleftrightarrow> (rows_ok (fst s) (snd s) \<longrightarrow> rows_ok (fst s') (snd s') \<and> set (snd s') \<subseteq> set (snd s) \<and>
     (\<forall>r' \<in> set (fst s'). (\<exists>r \<in> set (fst s). alarm_kept r r') \<or> da_ID r' \<in> set (snd s)))"

lemma evolves_refl [simp]: "evolves s s"
  by (force simp: evolves_def)

lemma evolves_trans:
  assumes "evolves s t" "evolves t u"
  shows "evolves s u"
  unfolding evolves_def
proof (intro impI conjI ballI)
  assume s: "rows_ok (fst s) (snd s)"
  from assms(1) s have t: "rows_ok (fst t) (snd t)" "set (snd t) \<subseteq> set (snd s)"
    "\<And>r. r \<in> set (fst t) \<Longrightarrow> (\<exists>q \<in> set (fst s). alarm_kept q r) \<or> da_ID r \<in> set (snd s)" by (auto simp: evolves_def)
  from assms(2) t(1) have u: "rows_ok (fst u) (snd u)" "set (snd u) \<subseteq> set (snd t)"
    "\<And>r. r \<in> set (fst u) \<Longrightarrow> (\<exists>q \<in> set (fst t). alarm_kept q r) \<or> da_ID r \<in> set (snd t)" by (auto simp: evolves_def)
  show "rows_ok (fst u) (snd u)" "set (snd u) \<subseteq> set (snd s)" using t u by auto
  fix r assume r: "r \<in> set (fst u)"
  show "(\<exists>q \<in> set (fst s). alarm_kept q r) \<or> da_ID r \<in> set (snd s)"
  proof (cases "da_ID r \<in> set (snd t)")
    case False
    with u(3) [OF r] obtain q where q: "q \<in> set (fst t)" "alarm_kept q r" by auto
    then have "da_ID r = da_ID q" by (simp add: alarm_kept_def)
    with q t(3) [OF q(1)] show ?thesis by (metis alarm_kept_trans)
  qed (use t(2) in auto)
qed

lemma evolves_taken: "evolves (rs, i # is) (rs, is)"
  by (auto simp: evolves_def rows_ok_def intro: exI [of _ "r" for r] bexI [of _ "r" for r] alarm_kept_refl)

lemma evolves_stored:
  assumes "stores a r" "Alarm_Validate a = None" "al_ID a = i"
  shows "evolves (rs, i # is) (rs @ [r], is)"
  using assms stores_ok [OF assms(1, 2)] by (fastforce simp: evolves_def rows_ok_def stores_def)

lemma evolves_updated:
  assumes "\<And>r. r \<in> set rs \<Longrightarrow> da_ID r = i \<Longrightarrow> alarm_row_ok r \<Longrightarrow> alarm_kept r (f r) \<and> alarm_row_ok (f r)"
  shows "evolves (rs, is) (map (\<lambda>r. if da_ID r = i then f r else r) rs, is)"
proof -
  have "map da_ID (map (\<lambda>r. if da_ID r = i then f r else r) rs) = map da_ID rs" if "list_all alarm_row_ok rs"
    using assms that by (auto simp: list_all_iff alarm_kept_def)
  then show ?thesis
    using assms by (force simp: evolves_def rows_ok_def list_all_iff simp del: map_map)
qed

lemma evolves_deleted: "evolves (rs, is) (filter P rs, is)"
  by (auto simp: evolves_def rows_ok_def list_all_iff distinct_map_filter intro: bexI [of _ "r" for r] alarm_kept_refl)

section \<open>The store as an interface\<close>

locale alarm_store =
  fixes rows :: "'w \<Rightarrow> dbAlarm list" and ids :: "'w \<Rightarrow> string list" and am :: "'w alarms_authz"
  assumes create: "ar_CreateAlarm (as_repo (aa_svc am)) a w = (r, w') \<Longrightarrow>
      ids w' = ids w \<and> (rows w' = rows w \<or> (\<exists>row. rows w' = rows w @ [row] \<and> stores a row))"
    and update: "ar_UpdateAlarm (as_repo (aa_svc am)) a w = (r, w') \<Longrightarrow>
      ids w' = ids w \<and> (rows w' = rows w \<or> (\<exists>f. rows w' = map (\<lambda>x. if da_ID x = al_ID a then f x else x) (rows w) \<and>
        (\<forall>x \<in> set (rows w). da_ID x = al_ID a \<longrightarrow> alarm_row_ok x \<longrightarrow> alarm_kept x (f x) \<and> alarm_row_ok (f x))))"
    and delete: "ar_DeleteAlarm (as_repo (aa_svc am)) i w = (q, w') \<Longrightarrow>
      ids w' = ids w \<and> (\<exists>P. rows w' = filter P (rows w))"
    and next_id: "as_idp (aa_svc am) w = (x, w') \<Longrightarrow> rows w' = rows w \<and> (case x of Inl e \<Rightarrow> ids w' = ids w | Inr i \<Rightarrow> ids w = i # ids w')"
    and quiet: "frames (\<lambda>w. (rows w, ids w)) (as_now (aa_svc am))"
      "frames (\<lambda>w. (rows w, ids w)) (ar_ViewAlarm (as_repo (aa_svc am)) j d)"
      "frames (\<lambda>w. (rows w, ids w)) (ar_ListAllAlarms (as_repo (aa_svc am)) pm)"
      "frames (\<lambda>w. (rows w, ids w)) (ar_ListUserAlarms (as_repo (aa_svc am)) u pm)"
      "frames (\<lambda>w. (rows w, ids w)) (aa_Authorize am pr pat)"
begin

definition evolving :: "('w \<Rightarrow> 'r \<times> 'w) \<Rightarrow> bool" where
  "evolving m \<longleftrightarrow> (\<forall>w r w'. m w = (r, w') \<longrightarrow> evolves (rows w, ids w) (rows w', ids w'))"

lemma evolvingD: "evolving m \<Longrightarrow> m w = (r, w') \<Longrightarrow> evolves (rows w, ids w) (rows w', ids w')"
  unfolding evolving_def by blast

lemma evolving_frames: "frames (\<lambda>w. (rows w, ids w)) m \<Longrightarrow> evolving m"
  unfolding evolving_def by (metis framesD evolves_refl)

lemma evolving_ret: "evolving (ret x)" "evolving (fail e)"
  by (simp_all add: evolving_def)

lemma evolving_trying:
  assumes "evolving m" "\<And>x. evolving (k x)"
  shows "evolving (trying m g k)"
  unfolding evolving_def
proof (intro allI impI)
  fix w r w' assume "trying m g k w = (r, w')"
  then consider e where "m w = (Inl e, w')" | x w1 where "m w = (Inr x, w1)" "k x w1 = (r, w')"
    by (auto simp: trying_apply split: prod.splits sum.splits)
  then show "evolves (rows w, ids w) (rows w', ids w')"
    using assms by cases (auto dest: evolvingD intro: evolves_trans)
qed

lemma evolving_pass: "evolving m \<Longrightarrow> (\<And>x. evolving (k x)) \<Longrightarrow> evolving (pass m k)"
  unfolding pass_def by (rule evolving_trying)

lemma evolving_observe:
  assumes "evolving m" "\<And>x. evolving (k x)"
  shows "evolving (observe m k)"
  unfolding evolving_def
proof (intro allI impI)
  fix w r w' assume "observe m k w = (r, w')"
  then obtain x w1 where "m w = (x, w1)" "k x w1 = (r, w')" by (auto simp: observe_apply split: prod.splits)
  then show "evolves (rows w, ids w) (rows w', ids w')"
    using assms by (auto dest: evolvingD intro: evolves_trans)
qed

lemma evolving_guarded: "evolving k \<Longrightarrow> evolving (guarded oe k)"
  by (cases oe) (simp_all add: guarded_def evolving_ret)

lemma evolving_if: "evolving a \<Longrightarrow> evolving b \<Longrightarrow> evolving (if c then a else b)"
  by simp

lemma evolving_option: "evolving a \<Longrightarrow> (\<And>x. evolving (b x)) \<Longrightarrow> evolving (case c of None \<Rightarrow> a | Some x \<Rightarrow> b x)"
  by (cases c) auto

lemma evolving_sum: "(\<And>x. evolving (a x)) \<Longrightarrow> (\<And>x. evolving (b x)) \<Longrightarrow> evolving (case c of Inl x \<Rightarrow> a x | Inr x \<Rightarrow> b x)"
  by (cases c) auto

lemmas evolving_rules = evolving_ret evolving_trying evolving_pass evolving_observe evolving_guarded evolving_if evolving_option evolving_sum

lemma CreateAlarm_evolving: "evolving (alm_CreateAlarm (aa_svc am) a)"
  unfolding evolving_def
proof (intro allI impI)
  let ?svc = "aa_svc am"
  fix w r w' assume h: "alm_CreateAlarm ?svc a w = (r, w')"
  obtain x w1 where x: "as_idp ?svc w = (x, w1)" by fastforce
  show "evolves (rows w, ids w) (rows w', ids w')"
  proof (cases x)
    case (Inl e)
    with h x next_id [OF x] show ?thesis by (auto simp: alm_CreateAlarm_def pass_apply)
  next
    case (Inr i)
    with next_id [OF x] have n: "rows w1 = rows w" "ids w = i # ids w1" by auto
    define clock where "clock = (if al_CreatedAt a = 0 then as_now ?svc else (\<lambda>w. (al_CreatedAt a, w)))"
    obtain t w2 where t: "clock w1 = (t, w2)" by fastforce
    have "frames (\<lambda>w. (rows w, ids w)) clock" using quiet(1) by (auto simp: clock_def frames_def)
    from framesD [OF this t] n have n2: "rows w2 = rows w" "ids w2 = ids w1" by auto
    define b where "b = a\<lparr>al_ID := i, al_CreatedAt := t\<rparr>"
    obtain y w3 where y: "ar_CreateAlarm (as_repo ?svc) b w2 = (y, w3)" by fastforce
    from h x Inr t y have w': "w' = (if Alarm_Validate b = None then w3 else w2)"
      by (auto simp: alm_CreateAlarm_def pass_apply observe_apply clock_def b_def Let_def guarded_def split: option.splits sum.splits if_splits)
    show ?thesis
    proof (cases "Alarm_Validate b = None")
      case True
      from create [OF y] consider "rows w3 = rows w2" "ids w3 = ids w2" | row where "rows w3 = rows w2 @ [row]" "ids w3 = ids w2" "stores b row" by auto
      then show ?thesis
        using n n2 w' True evolves_stored [of b _ i "rows w" "ids w1"] by cases (auto simp: b_def intro: evolves_taken)
    qed (use w' n n2 in \<open>auto intro: evolves_taken\<close>)
  qed
qed

lemma UpdateAlarm_evolving: "evolving (ar_UpdateAlarm (as_repo (aa_svc am)) a)"
  unfolding evolving_def by (auto dest!: update intro!: evolves_updated)

lemma DeleteAlarm_evolving: "evolving (ar_DeleteAlarm (as_repo (aa_svc am)) i)"
  unfolding evolving_def by (auto dest!: delete intro!: evolves_deleted)

lemma authorize_evolving: "evolving (aam_authorize am op session ty obj)" "evolving (aam_checkSuperAdmin am session)" "evolving (asking b am op session)"
  unfolding asking_def aam_authorize_def aam_checkSuperAdmin_def by (intro evolving_rules evolving_frames quiet)+

lemma endpoints_evolving:
  "evolving (alm_Handle decode (aa_svc am) m)" "evolving (updateAlarmEndpoint am ses a)" "evolving (viewAlarmEndpoint am ses a)"
  "evolving (listAlarmsEndpoint am ses pm)" "evolving (deleteAlarmEndpoint am ses a)"
  unfolding alm_Handle_def updateAlarmEndpoint_def viewAlarmEndpoint_def listAlarmsEndpoint_def deleteAlarmEndpoint_def with_session_def
    aam_UpdateAlarm_def aam_ViewAlarm_def aam_ListAlarms_def aam_DeleteAlarm_def alm_UpdateAlarm_def alm_ViewAlarm_def alm_ListAlarms_def
    alm_DeleteAlarm_def Let_def
  by (intro evolving_rules CreateAlarm_evolving UpdateAlarm_evolving DeleteAlarm_evolving authorize_evolving evolving_frames quiet)+

end

section \<open>Calls\<close>

text \<open>A message that is consumed, or a request that is served, whatever it returns.\<close>

inductive alarm_call :: "(string \<Rightarrow> gerror + Alarm) \<Rightarrow> 'w alarms_authz \<Rightarrow> 'w \<Rightarrow> 'w \<Rightarrow> bool" for decode am where
  consumed: "alm_Handle decode (aa_svc am) m w = (r, w') \<Longrightarrow> alarm_call decode am w w'"
| updated: "updateAlarmEndpoint am ses a w = (r, w') \<Longrightarrow> alarm_call decode am w w'"
| viewed: "viewAlarmEndpoint am ses a w = (r, w') \<Longrightarrow> alarm_call decode am w w'"
| listed: "listAlarmsEndpoint am ses pm w = (r, w') \<Longrightarrow> alarm_call decode am w w'"
| deleted: "deleteAlarmEndpoint am ses a w = (r, w') \<Longrightarrow> alarm_call decode am w w'"

context alarm_store
begin

lemma call_evolves: "alarm_call decode am w w' \<Longrightarrow> evolves (rows w, ids w) (rows w', ids w')"
  by (induction rule: alarm_call.induct) (auto dest: endpoints_evolving [THEN evolvingD])

lemma calls_evolve: "(alarm_call decode am)\<^sup>*\<^sup>* w w' \<Longrightarrow> evolves (rows w, ids w) (rows w', ids w')"
  by (induction rule: rtranclp_induct) (auto dest: call_evolves intro: evolves_trans)

end

section \<open>The deployment\<close>

text \<open>The database of the service, the ids its provider will give, and the clock.\<close>

record alarm_world =
  aw_db :: alarms_db
  aw_newIDs :: "(gerror + string) list"
  aw_clock :: int

definition aw_ID :: "(alarm_world, gerror, string) io" where
  "aw_ID w = (case aw_newIDs w of
      [] \<Rightarrow> (Inl (Foreign ''no entropy''), w)
    | x # xs \<Rightarrow> (x, w\<lparr>aw_newIDs := xs\<rparr>))"

abbreviation on_alarms :: "(alarms_db, gerror, 'a) io \<Rightarrow> (alarm_world, gerror, 'a) io" where
  "on_alarms m \<equiv> lifted aw_db (\<lambda>d w. w\<lparr>aw_db := d\<rparr>) m"

definition alarm_repo :: "alarm_engine \<Rightarrow> alarm_world AlarmsRepository" where
  "alarm_repo pg = \<lparr>ar_CreateAlarm = (\<lambda>a w. on_alarms (arr_CreateAlarm pg (aw_clock w) a) w),
     ar_UpdateAlarm = (\<lambda>a w. on_alarms (arr_UpdateAlarm (aw_clock w) a) w), ar_ViewAlarm = (\<lambda>i d. on_alarms (arr_ViewAlarm i d)),
     ar_ListAllAlarms = (\<lambda>pm. on_alarms (arr_ListAllAlarms pg pm)), ar_ListUserAlarms = (\<lambda>u pm. on_alarms (arr_ListUserAlarms pg u pm)),
     ar_DeleteAlarm = (\<lambda>i. on_alarms (arr_DeleteAlarm i))\<rparr>"

definition alarm_svc :: "alarm_engine \<Rightarrow> alarm_world alarms_service" where
  "alarm_svc pg = \<lparr>as_idp = aw_ID, as_repo = alarm_repo pg, as_now = (\<lambda>w. (aw_clock w, w\<lparr>aw_clock := aw_clock w + 1\<rparr>))\<rparr>"

text \<open>The authorization service answers; it has no part in the world of the alarms.\<close>

definition alarm_mw :: "alarm_engine \<Rightarrow> (Policy \<Rightarrow> PATReq option \<Rightarrow> gerror + unit) \<Rightarrow> entitiesOperations \<Rightarrow> alarm_world alarms_authz" where
  "alarm_mw pg grant eo = \<lparr>aa_svc = alarm_svc pg, aa_Authorize = (\<lambda>pr pat w. (grant pr pat, w)), aa_entitiesOps = eo\<rparr>"

definition alarm_rows :: "alarm_world \<Rightarrow> dbAlarm list" where
  "alarm_rows w = at_alarms (committed (aw_db w))"

definition alarm_ids :: "alarm_world \<Rightarrow> string list" where
  "alarm_ids w = concat (map (case_sum (\<lambda>_. []) (\<lambda>i. [i])) (aw_newIDs w))"

lemma alarm_views [simp]:
  "alarm_rows (w\<lparr>aw_db := d\<rparr>) = at_alarms (committed d)" "alarm_ids (w\<lparr>aw_db := d\<rparr>) = alarm_ids w"
  "alarm_rows (w\<lparr>aw_clock := t\<rparr>) = alarm_rows w" "alarm_ids (w\<lparr>aw_clock := t\<rparr>) = alarm_ids w"
  "alarm_rows (w\<lparr>aw_newIDs := is\<rparr>) = alarm_rows w"
  by (simp_all add: alarm_rows_def alarm_ids_def)

lemma stored_alarm_sel [simp]:
  "da_ID (stored_alarm r) = da_ID r" "da_RuleID (stored_alarm r) = da_RuleID r" "da_DomainID (stored_alarm r) = da_DomainID r"
  "da_ChannelID (stored_alarm r) = da_ChannelID r" "da_ClientID (stored_alarm r) = da_ClientID r" "da_Subtopic (stored_alarm r) = da_Subtopic r"
  "da_Measurement (stored_alarm r) = da_Measurement r" "da_Value (stored_alarm r) = da_Value r" "da_Cause (stored_alarm r) = da_Cause r"
  "da_Status (stored_alarm r) = da_Status r" "da_Severity (stored_alarm r) = da_Severity r" "da_Metadata (stored_alarm r) = da_Metadata r"
  "da_CreatedAt (stored_alarm r) = at_micros (da_CreatedAt r)" "alarm_fits (stored_alarm r) = alarm_fits r"
  by (simp_all add: stored_alarm_def alarm_fits_def)

lemma reads_first_alarm: "reads (first_alarm e rs)"
  unfolding first_alarm_def by (intro io_intros reads_driver)

lemma reads_alarms:
  "reads (arr_ViewAlarm i d)" "reads (arr_ListAllAlarms pg pm)" "reads (arr_ListUserAlarms pg u pm)"
  unfolding arr_ViewAlarm_def arr_ListAllAlarms_def arr_ListUserAlarms_def alarmsPage_def Let_def by (intro io_intros reads_first_alarm)+

text \<open>A statement, and then the scan of what it returned.\<close>

lemma then_reads:
  assumes "trying (db_exec st) g k d = (r, d')" "\<And>x. reads (k x)"
  shows "committed d' = committed d \<or> (\<exists>x. st (committed d) = Inr (committed d', x))"
proof -
  obtain y d1 where y: "db_exec st d = (y, d1)" by fastforce
  show ?thesis
  proof (cases y)
    case (Inl e)
    with y assms(1) show ?thesis by (auto simp: trying_apply dest: db_exec_err)
  next
    case (Inr x)
    with y assms have "committed d' = committed d1" by (auto simp: trying_apply reads_def)
    with y Inr show ?thesis by (auto dest!: db_exec_ok)
  qed
qed

lemma insert_alarm_rows:
  "insert_alarm pg (toDBAlarm now a) t = Inr (t', x) \<Longrightarrow>
     at_alarms t' = at_alarms t \<or> (\<exists>row. at_alarms t' = at_alarms t @ [row] \<and> stores a row)"
  by (auto simp: insert_alarm_def Let_def stores_def toDBAlarm_def metadata_column_def split: if_splits option.splits)

lemma set_alarm_columns_kept: "alarm_kept r (set_alarm_columns a (stored_alarm (toDBAlarm now a)) r)"
  by (simp add: alarm_kept_def same_source_def set_alarm_columns_def Let_def toDBAlarm_def AlarmActive_def)

lemma set_alarm_columns_metadata: "da_Metadata r \<noteq> None \<Longrightarrow> da_Metadata (set_alarm_columns a (stored_alarm (toDBAlarm now a)) r) \<noteq> None"
  by (auto simp: set_alarm_columns_def Let_def toDBAlarm_def metadata_column_def split: option.splits)

lemma update_alarm_rows:
  assumes "update_alarms (\<lambda>r. da_ID r = i) (set_alarm_columns a (stored_alarm (toDBAlarm now a))) t = Inr (t', x)"
  shows "at_alarms t' = map (\<lambda>r. if da_ID r = i then set_alarm_columns a (stored_alarm (toDBAlarm now a)) r else r) (at_alarms t)"
    "\<And>r. r \<in> set (at_alarms t) \<Longrightarrow> da_ID r = i \<Longrightarrow> alarm_row_ok r \<Longrightarrow> alarm_row_ok (set_alarm_columns a (stored_alarm (toDBAlarm now a)) r)"
proof -
  show "at_alarms t' = map (\<lambda>r. if da_ID r = i then set_alarm_columns a (stored_alarm (toDBAlarm now a)) r else r) (at_alarms t)"
    using assms by (auto simp: update_alarms_def Let_def split: if_splits)
  fix r assume r: "r \<in> set (at_alarms t)" "da_ID r = i" "alarm_row_ok r"
  then have "alarm_fits (set_alarm_columns a (stored_alarm (toDBAlarm now a)) r)"
    using assms by (auto simp: update_alarms_def Let_def list_all_iff split: if_splits)
  then show "alarm_row_ok (set_alarm_columns a (stored_alarm (toDBAlarm now a)) r)"
    using r(3) set_alarm_columns_kept [of r a now] set_alarm_columns_metadata [of r a now] by (auto simp: alarm_row_ok_def alarm_kept_def same_source_def)
qed

lemma quiet_alarms: "reads m \<Longrightarrow> frames (\<lambda>w. (alarm_rows w, alarm_ids w)) (on_alarms m)"
  unfolding frames_def by (auto simp: lifted_eq reads_def alarm_rows_def alarm_ids_def)

lemma quiet_clock:
  "frames (\<lambda>w. (alarm_rows w, alarm_ids w)) (\<lambda>w. (g w, w\<lparr>aw_clock := h w\<rparr>))" "frames (\<lambda>w. (alarm_rows w, alarm_ids w)) (\<lambda>w. (x, w))"
  by (simp_all add: frames_def)

interpretation alarms: alarm_store alarm_rows alarm_ids "alarm_mw pg grant eo"
proof (unfold_locales, goal_cases)
  case (1 a w r w')
  then show ?case
    by (auto simp: alarm_mw_def alarm_svc_def alarm_repo_def lifted_eq arr_CreateAlarm_def alarm_rows_def dest!: then_reads [OF _ reads_first_alarm] insert_alarm_rows)
next
  case (2 a w r w')
  then obtain d where d: "arr_UpdateAlarm (aw_clock w) a (aw_db w) = (r, d)" "w' = w\<lparr>aw_db := d\<rparr>"
    by (auto simp: alarm_mw_def alarm_svc_def alarm_repo_def lifted_eq)
  have "da_ID (stored_alarm (toDBAlarm (aw_clock w) a)) = al_ID a" by (simp add: toDBAlarm_def)
  with d have "committed d = committed (aw_db w) \<or>
      (\<exists>x. update_alarms (\<lambda>r. da_ID r = al_ID a) (set_alarm_columns a (stored_alarm (toDBAlarm (aw_clock w) a))) (committed (aw_db w)) = Inr (committed d, x))"
    by (auto simp: arr_UpdateAlarm_def Let_def dest!: then_reads [OF _ reads_first_alarm])
  then show ?case
    using d(2) update_alarm_rows [of "al_ID a" a "aw_clock w" "committed (aw_db w)" "committed d"] set_alarm_columns_kept [of _ a "aw_clock w"]
    by (fastforce simp: alarm_rows_def)
next
  case (3 i w q w')
  then obtain d where d: "arr_DeleteAlarm i (aw_db w) = (q, d)" "w' = w\<lparr>aw_db := d\<rparr>"
    by (auto simp: alarm_mw_def alarm_svc_def alarm_repo_def lifted_eq)
  have "reads (trying (driver (ret n)) g (\<lambda>m. if m = 0 then fail e else ret ()))" for n :: nat and g and e :: gerror
    by (intro io_intros reads_driver)
  with d(1) have "committed d = committed (aw_db w) \<or> (\<exists>x. delete_alarms (\<lambda>r. da_ID r = i) (committed (aw_db w)) = Inr (committed d, x))"
    unfolding arr_DeleteAlarm_def by (rule then_reads)
  then have "at_alarms (committed d) = filter (\<lambda>_. True) (at_alarms (committed (aw_db w))) \<or>
      at_alarms (committed d) = filter (\<lambda>r. da_ID r \<noteq> i) (at_alarms (committed (aw_db w)))"
    by (auto simp: delete_alarms_def dest!: sym [of _ "committed d"])
  then show ?case
    using d(2) by (auto simp: alarm_rows_def simp del: filter_True)
next
  case (4 w x w')
  then show ?case
    by (auto simp: alarm_mw_def alarm_svc_def aw_ID_def alarm_ids_def alarm_rows_def split: list.splits sum.splits)
qed (simp_all add: alarm_mw_def alarm_svc_def alarm_repo_def quiet_clock quiet_alarms reads_alarms)

section \<open>The log of changes\<close>

text \<open>
  The reference for what is stored: of the alarms a source raises, the first active one, and then
  each that differs from the one stored before it in its status or, both being active, in its severity.
\<close>

definition differs :: "(alm_Status \<times> 8 word) option \<Rightarrow> alm_Status \<times> 8 word \<Rightarrow> bool" where
  "differs st x \<longleftrightarrow> (case st of
      None \<Rightarrow> fst x = AlarmActive
    | Some (s, v) \<Rightarrow> s \<noteq> fst x \<or> fst x = AlarmActive \<and> v \<noteq> snd x)"

fun changes :: "('a \<Rightarrow> alm_Status \<times> 8 word) \<Rightarrow> (alm_Status \<times> 8 word) option \<Rightarrow> 'a list \<Rightarrow> 'a list" where
  "changes f st [] = []"
| "changes f st (x # xs) =
     (if differs st (f x) then x # changes f (Some (f x)) xs else changes f st xs)"

lemma changes_map: "changes f st (map g xs) = map g (changes (f \<circ> g) st xs)"
  by (induction xs arbitrary: st) auto

type_synonym alarm_key = "string \<times> string \<times> string \<times> string \<times> string \<times> string"

definition row_source :: "dbAlarm \<Rightarrow> alarm_key" where
  "row_source r = (da_DomainID r, da_RuleID r, da_ChannelID r, da_ClientID r, da_Subtopic r, da_Measurement r)"

definition alarm_source :: "Alarm \<Rightarrow> alarm_key" where
  "alarm_source a = (al_DomainID a, al_RuleID a, al_ChannelID a, al_ClientID a, al_Subtopic a, al_Measurement a)"

definition row_state :: "dbAlarm \<Rightarrow> alm_Status \<times> 8 word" where
  "row_state r = (da_Status r, da_Severity r)"

definition alarm_state :: "Alarm \<Rightarrow> alm_Status \<times> 8 word" where
  "alarm_state a = (al_Status a, al_Severity a)"

lemma same_source_iff: "same_source a r \<longleftrightarrow> row_source r = row_source a"
  by (auto simp: same_source_def row_source_def)

lemma latest_alarm_None: "latest_alarm rs = None \<longleftrightarrow> rs = []"
  by (cases rs) (auto split: option.splits)

lemma latest_alarm_Some:
  "latest_alarm rs = Some x \<Longrightarrow> x \<in> set rs \<and> (\<forall>r \<in> set rs. da_CreatedAt r \<le> da_CreatedAt x)"
  by (induction rs arbitrary: x) (fastforce simp: latest_alarm_None split: option.splits if_splits)+

lemma latest_of_ordered:
  assumes "sorted_wrt (<) (map da_CreatedAt rs)" "set ys = set rs"
  shows "latest_alarm ys = (if rs = [] then None else Some (last rs))"
proof (cases rs rule: rev_cases)
  case (snoc qs z)
  with assms(2) have "ys \<noteq> []" by auto
  then obtain x where x: "latest_alarm ys = Some x" using latest_alarm_None [of ys] by auto
  from latest_alarm_Some [OF x] assms(2) snoc have "x \<in> insert z (set qs)" "da_CreatedAt z \<le> da_CreatedAt x" by auto
  moreover have "\<forall>r \<in> set qs. da_CreatedAt r < da_CreatedAt z" using assms(1) snoc by (auto simp: sorted_wrt_append)
  ultimately have "x = z" by fastforce
  with x snoc show ?thesis by simp
qed (use assms(2) in simp)

definition store_alarm :: "alarm_engine \<Rightarrow> dbAlarm list \<Rightarrow> dbAlarm \<Rightarrow> dbAlarm list" where
  "store_alarm pg rs row = (if is_news (existing_alarm pg row rs) row then rs @ [row] else rs)"

definition last_state :: "dbAlarm list \<Rightarrow> (alm_Status \<times> 8 word) option" where
  "last_state rs = (if rs = [] then None else Some (row_state (last rs)))"

lemma existing_in_order:
  assumes "\<And>xs. set (ae_scan pg xs) = set xs" "sorted_wrt (<) (map da_CreatedAt (rs @ [row]))"
  shows "map_option row_state (existing_alarm pg row rs) = last_state (filter (\<lambda>r. row_source r = row_source row) rs)"
proof -
  let ?same = "filter (\<lambda>r. row_source r = row_source row) rs"
  from assms(2) have o: "sorted_wrt (<) (map da_CreatedAt rs)" and le: "\<forall>r \<in> set rs. da_CreatedAt r < da_CreatedAt row"
    by (auto simp: sorted_wrt_append)
  have "sorted_wrt (<) (map da_CreatedAt ?same)" using o by (simp add: sorted_wrt_map sorted_wrt_filter)
  moreover have "filter (\<lambda>r. same_source row r \<and> da_CreatedAt r \<le> da_CreatedAt row) rs = ?same"
    using le by (intro filter_cong) (auto simp: same_source_iff)
  ultimately show ?thesis
    unfolding existing_alarm_def last_state_def using latest_of_ordered [of ?same "ae_scan pg ?same"] assms(1) by auto
qed

lemma is_news_iff: "is_news e row \<longleftrightarrow> differs (map_option row_state e) (row_state row)"
  by (auto simp: is_news_def differs_def row_state_def AlarmActive_def split: option.splits)

lemma store_alarms:
  assumes "\<And>xs. set (ae_scan pg xs) = set xs" "sorted_wrt (<) (map da_CreatedAt (rs @ rws))"
  shows "filter (\<lambda>r. row_source r = k) (foldl (store_alarm pg) rs rws) =
    filter (\<lambda>r. row_source r = k) rs @
    changes row_state (last_state (filter (\<lambda>r. row_source r = k) rs)) (filter (\<lambda>r. row_source r = k) rws)"
  using assms(2)
proof (induction rws arbitrary: rs)
  case (Cons row rws)
  have o: "sorted_wrt (<) (map da_CreatedAt (rs @ [row]))" "sorted_wrt (<) (map da_CreatedAt (rs @ rws))"
    "sorted_wrt (<) (map da_CreatedAt ((rs @ [row]) @ rws))"
    using Cons.prems by (auto simp: sorted_wrt_append)
  note news = is_news_iff [of "existing_alarm pg row rs" row, unfolded existing_in_order [OF assms(1) o(1)]]
  show ?case
  proof (cases "is_news (existing_alarm pg row rs) row")
    case True
    then show ?thesis using Cons.IH [OF o(3)] news by (auto simp: store_alarm_def [of pg rs] last_state_def)
  next
    case False
    then show ?thesis using Cons.IH [OF o(2)] news by (auto simp: store_alarm_def [of pg rs])
  qed
qed simp

end
