(* ===== verification/AlarmLog.thy ===== *)
theory AlarmLog
  imports AlarmState
begin

text \<open>
  The properties of the alarms service on its deployment: which of the raised alarms are
  stored, what later calls can change in them, who sees them, and whose rights a deletion asks for.
\<close>

section \<open>Consuming messages\<close>

definition raised_alarm :: "(string \<Rightarrow> gerror + Alarm) \<Rightarrow> BrokerMessage \<Rightarrow> Alarm option" where
  "raised_alarm decode m = (case bm_Payload m of
      None \<Rightarrow> None
    | Some p \<Rightarrow> (case decode p of
        Inl _ \<Rightarrow> None
      | Inr a \<Rightarrow> if Alarm_Validate (message_alarm m a) = None then Some (message_alarm m a) else None))"

definition raised :: "(string \<Rightarrow> gerror + Alarm) \<Rightarrow> BrokerMessage list \<Rightarrow> Alarm list" where
  "raised decode ms = List.map_filter (raised_alarm decode) ms"

fun handle_messages :: "(string \<Rightarrow> gerror + Alarm) \<Rightarrow> 'w alarms_service \<Rightarrow> BrokerMessage list \<Rightarrow> 'w \<Rightarrow> 'w" where
  "handle_messages decode svc [] w = w"
| "handle_messages decode svc (m # ms) w = handle_messages decode svc ms (snd (alm_Handle decode svc (Some m) w))"

lemma raised_simps [simp]:
  "raised decode [] = []"
  "raised decode (m # ms) = (case raised_alarm decode m of None \<Rightarrow> raised decode ms | Some a \<Rightarrow> a # raised decode ms)"
  by (simp_all add: raised_def map_filter_simps split: option.splits)

lemma message_time: "time_Unix_nanos n \<noteq> 0"
proof -
  have "- (2 ^ 63) \<le> sint n" using sint_ge [of n] by simp
  then show ?thesis by (simp add: time_Unix_nanos_def)
qed

lemma handle_not_raised: "raised_alarm decode m = None \<Longrightarrow> snd (alm_Handle decode svc (Some m) w) = w"
  by (auto simp: raised_alarm_def alm_Handle_def guarded_def split: option.splits sum.splits if_splits)

definition row_for :: "string \<Rightarrow> Alarm \<Rightarrow> dbAlarm" where
  "row_for i a = stored_alarm (toDBAlarm 0 (a\<lparr>al_ID := i\<rparr>))"

lemma row_for_sel:
  "da_ID (row_for i a) = i" "row_source (row_for i a) = alarm_source a" "row_state (row_for i a) = alarm_state a"
  "da_Value (row_for i a) = al_Value a" "al_CreatedAt a \<noteq> 0 \<Longrightarrow> da_CreatedAt (row_for i a) = at_micros (al_CreatedAt a)"
  by (simp_all add: row_for_def toDBAlarm_def row_source_def alarm_source_def row_state_def alarm_state_def)

definition alarm_sizes :: "Alarm \<Rightarrow> bool" where
  "alarm_sizes a \<longleftrightarrow> alarm_fits (toDBAlarm 0 (a\<lparr>al_ID := []\<rparr>))"

lemma row_for_fits: "alarm_sizes a \<Longrightarrow> length i \<le> 36 \<Longrightarrow> alarm_fits (row_for i a)"
  unfolding alarm_sizes_def row_for_def stored_alarm_sel by (simp add: alarm_fits_def toDBAlarm_def)

lemma raised_alarmD: "raised_alarm decode m = Some a \<Longrightarrow> Alarm_Validate a = None \<and> al_CreatedAt a \<noteq> 0"
  by (auto simp: raised_alarm_def message_alarm_def message_time split: option.splits sum.splits if_splits)

lemma create_calm:
  assumes "faults (aw_db w) = []" "al_CreatedAt a \<noteq> 0" "alarm_fits (row_for i a)" "i \<notin> set (map da_ID (alarm_rows w))" "al_RuleID a \<noteq> []"
  shows "\<exists>r d. ar_CreateAlarm (alarm_repo pg) (a\<lparr>al_ID := i\<rparr>) w = (r, w\<lparr>aw_db := d\<rparr>) \<and> faults d = [] \<and>
    at_alarms (committed d) = store_alarm pg (alarm_rows w) (row_for i a)"
proof -
  let ?d = "aw_db w"
  have row: "stored_alarm (toDBAlarm (aw_clock w) (a\<lparr>al_ID := i\<rparr>)) = row_for i a"
    using assms(2) by (simp add: row_for_def toDBAlarm_def)
  have rid: "da_RuleID (row_for i a) \<noteq> []" using assms(5) by (simp add: row_for_def toDBAlarm_def)
  show ?thesis
  proof (cases "is_news (existing_alarm pg (row_for i a) (alarm_rows w)) (row_for i a)")
    case True
    then have "insert_alarm pg (toDBAlarm (aw_clock w) (a\<lparr>al_ID := i\<rparr>)) (committed ?d) =
        Inr ((committed ?d)\<lparr>at_alarms := alarm_rows w @ [row_for i a]\<rparr>, [row_for i a])"
      using assms(3,4) rid by (simp add: insert_alarm_def row alarm_rows_def row_for_sel Let_def)
    then show ?thesis
      using assms(1) True by (auto simp: alarm_repo_def lifted_def arr_CreateAlarm_def trying_apply db_exec_calm first_alarm_def driver_calm store_alarm_def)
  next
    case False
    then have "insert_alarm pg (toDBAlarm (aw_clock w) (a\<lparr>al_ID := i\<rparr>)) (committed ?d) = Inr (committed ?d, [])"
      by (simp add: insert_alarm_def row alarm_rows_def Let_def)
    then show ?thesis
      using assms(1) False
      by (auto simp: alarm_repo_def lifted_def arr_CreateAlarm_def trying_apply db_exec_calm first_alarm_def store_alarm_def alarm_rows_def intro!: exI [of _ ?d])
  qed
qed

lemma handle_raised:
  assumes "raised_alarm decode m = Some a" "faults (aw_db w) = []" "aw_newIDs w = Inr i # is" "alarm_sizes a" "length i \<le> 36"
    "i \<notin> set (map da_ID (alarm_rows w))" and w'_def: "w' = snd (alm_Handle decode (alarm_svc pg) (Some m) w)"
  shows "alarm_rows w' = store_alarm pg (alarm_rows w) (row_for i a) \<and> faults (aw_db w') = [] \<and> aw_newIDs w' = is"
proof -
  note v = raised_alarmD [OF assms(1)]
  then have "al_RuleID a \<noteq> []" by (cases "al_RuleID a") (simp_all add: Alarm_Validate_def)
  with create_calm [of "w\<lparr>aw_newIDs := is\<rparr>" a i pg] assms v row_for_fits [OF assms(4,5)]
  obtain r d where d: "ar_CreateAlarm (alarm_repo pg) (a\<lparr>al_ID := i\<rparr>) (w\<lparr>aw_newIDs := is\<rparr>) = (r, w\<lparr>aw_newIDs := is, aw_db := d\<rparr>)" "faults d = []"
    "at_alarms (committed d) = store_alarm pg (alarm_rows w) (row_for i a)" by auto
  have "Alarm_Validate (a\<lparr>al_ID := i\<rparr>) = Alarm_Validate a" by (simp add: Alarm_Validate_def)
  with v have vi: "Alarm_Validate (a\<lparr>al_ID := i\<rparr>) = None" by simp
  have "a\<lparr>al_ID := i, al_CreatedAt := al_CreatedAt a\<rparr> = a\<lparr>al_ID := i\<rparr>" by simp
  with v vi d(1) assms(3) have c: "snd (alm_CreateAlarm (alarm_svc pg) a w) = w\<lparr>aw_newIDs := is, aw_db := d\<rparr>"
    by (auto simp: alm_CreateAlarm_def alarm_svc_def pass_apply observe_apply aw_ID_def Let_def split: sum.splits)
  from assms(1) obtain p b where p: "bm_Payload m = Some p" "decode p = Inr b" "a = message_alarm m b"
    by (auto simp: raised_alarm_def split: option.splits sum.splits if_splits)
  with v have "w' = snd (alm_CreateAlarm (alarm_svc pg) a w)"
    by (auto simp: w'_def alm_Handle_def trying_apply split: prod.splits sum.splits)
  with c d show ?thesis by simp
qed

lemma store_alarm_ids: "set (map da_ID (store_alarm pg rs r)) \<subseteq> insert (da_ID r) (set (map da_ID rs))"
  by (auto simp: store_alarm_def)

lemma handle_messages_rows:
  assumes "faults (aw_db w) = []" "aw_newIDs w = map Inr is" "distinct is" "set is \<inter> set (map da_ID (alarm_rows w)) = {}"
    "length (raised decode ms) \<le> length is" "\<And>i. i \<in> set is \<Longrightarrow> length i \<le> 36" "\<And>a. a \<in> set (raised decode ms) \<Longrightarrow> alarm_sizes a"
  shows "alarm_rows (handle_messages decode (alarm_svc pg) ms w) = foldl (store_alarm pg) (alarm_rows w) (map2 row_for is (raised decode ms))"
  using assms
proof (induction ms arbitrary: w "is")
  case (Cons m ms)
  show ?case
  proof (cases "raised_alarm decode m")
    case None
    with Cons show ?thesis by (simp add: handle_not_raised)
  next
    case (Some a)
    with Cons.prems(5) obtain i js where i: "is = i # js" by (cases "is") auto
    let ?w = "snd (alm_Handle decode (alarm_svc pg) (Some m) w)"
    have h: "alarm_rows ?w = store_alarm pg (alarm_rows w) (row_for i a)" "faults (aw_db ?w) = []" "aw_newIDs ?w = map Inr js"
      using handle_raised [OF Some, of w i "map Inr js" ?w pg] Cons.prems i Some by auto
    have "set js \<inter> set (map da_ID (alarm_rows ?w)) = {}"
      using Cons.prems(3,4) i store_alarm_ids [of pg "alarm_rows w" "row_for i a"] unfolding h(1) row_for_sel(1) by auto
    then show ?thesis
      using Cons.IH [OF h(2,3)] Cons.prems i Some h(1) by simp
  qed
qed simp

lemma changes_subset: "set (changes f st xs) \<subseteq> set xs"
  by (induction f st xs rule: changes.induct) auto

lemma raised_sound: "a \<in> set (raised decode ms) \<Longrightarrow> Alarm_Validate a = None \<and> al_CreatedAt a \<noteq> 0"
  by (induction ms) (auto split: option.splits dest: raised_alarmD)

definition row_entry :: "dbAlarm \<Rightarrow> alm_Status \<times> 8 word \<times> string \<times> int" where
  "row_entry r = (da_Status r, da_Severity r, da_Value r, da_CreatedAt r)"

definition alarm_entry :: "Alarm \<Rightarrow> alm_Status \<times> 8 word \<times> string \<times> int" where
  "alarm_entry a = (al_Status a, al_Severity a, al_Value a, at_micros (al_CreatedAt a))"

lemma row_for_entry: "al_CreatedAt a \<noteq> 0 \<Longrightarrow> row_entry (row_for i a) = alarm_entry a"
  using row_for_sel(3) [of i a] by (simp add: row_entry_def alarm_entry_def row_for_sel row_state_def alarm_state_def)

lemma changes_of_rows:
  assumes "length as \<le> length is" "\<And>a. a \<in> set as \<Longrightarrow> al_CreatedAt a \<noteq> 0"
  shows "map row_entry (changes row_state st (filter (\<lambda>r. row_source r = k) (map2 row_for is as))) =
    map alarm_entry (changes alarm_state st (filter (\<lambda>a. alarm_source a = k) as))"
proof -
  let ?g = "\<lambda>(i, a). row_for i a" and ?zs = "filter (\<lambda>p. alarm_source (snd p) = k) (zip is as)"
  have f: "filter (\<lambda>r. row_source r = k) (map2 row_for is as) = map ?g ?zs"
    by (simp add: filter_map comp_def split_def row_for_sel)
  have g: "row_state \<circ> ?g = alarm_state \<circ> snd" by (auto simp: row_for_sel)
  have a: "filter (\<lambda>a. alarm_source a = k) as = map snd ?zs"
  proof -
    have "filter (\<lambda>a. alarm_source a = k) (map snd (zip is as)) = map snd ?zs" by (simp only: filter_map comp_def)
    moreover have "map snd (zip is as) = as" using assms(1) by (simp add: map_snd_zip_take)
    ultimately show ?thesis by simp
  qed
  have "map row_entry (map ?g (changes (alarm_state \<circ> snd) st ?zs)) = map alarm_entry (map snd (changes (alarm_state \<circ> snd) st ?zs))"
    using changes_subset [of "alarm_state \<circ> snd" st ?zs] assms(2) by (fastforce dest: set_zip_rightD simp: row_for_entry)
  then show ?thesis unfolding f a changes_map g .
qed

text \<open>C12: The table of the alarms service is a log of changes: when the messages of the broker are
  consumed in the order of their times, into an empty table and without errors of the database, then the rows of each source
  (domain, rule, channel, client, subtopic and measurement) are the valid alarms that
  changed the state of the source: the first active one, and each that differs from the one stored before in
  status, or as an active one in severity. Alarms that repeat the state, messages that do not
  decode and alarms that are not valid leave no row.
\<close>

theorem stored_alarms_are_the_changes:
  assumes "\<forall>rs. set (ae_scan pg rs) = set rs" "alarm_rows w = []" "faults (aw_db w) = []"
    and "aw_newIDs w = map Inr is" "distinct is" "length (raised decode ms) \<le> length is" "\<forall>i \<in> set is. length i \<le> 36"
    and "\<forall>a \<in> set (raised decode ms). alarm_sizes a"
    and "sorted_wrt (<) (map (\<lambda>a. at_micros (al_CreatedAt a)) (raised decode ms))"
  shows "map row_entry (filter (\<lambda>r. row_source r = k) (alarm_rows (handle_messages decode (alarm_svc pg) ms w))) =
    map alarm_entry (changes alarm_state None (filter (\<lambda>a. alarm_source a = k) (raised decode ms)))"
proof -
  let ?as = "raised decode ms"
  let ?rows = "map2 row_for is ?as"
  have c: "al_CreatedAt a \<noteq> 0" if "a \<in> set ?as" for a using raised_sound [OF that] by simp
  have "map da_CreatedAt ?rows = map (\<lambda>p. at_micros (al_CreatedAt (snd p))) (zip is ?as)"
    using c by (auto simp: row_for_sel dest: set_zip_rightD)
  also have "\<dots> = map (\<lambda>a. at_micros (al_CreatedAt a)) (map snd (zip is ?as))" by simp
  also have "map snd (zip is ?as) = ?as" using assms(6) by (simp add: map_snd_zip_take)
  finally have o: "sorted_wrt (<) (map da_CreatedAt ([] @ ?rows))" using assms(9) by simp
  have "alarm_rows (handle_messages decode (alarm_svc pg) ms w) = foldl (store_alarm pg) [] ?rows"
    using handle_messages_rows [OF assms(3-5), of decode ms pg] assms by auto
  then show ?thesis
    using store_alarms [OF _ o, of pg k] assms(1) changes_of_rows [OF assms(6), of None k] c by (simp add: last_state_def)
qed

text \<open>A deployment in which one sensor raises an alarm twice, makes it worse, and clears it twice.\<close>

definition sample_alarm_engine :: alarm_engine where
  "sample_alarm_engine = \<lparr>ae_scan = rev, ae_sort = (\<lambda>_ _ rs. rs)\<rparr>"

definition sample_decode :: "string \<Rightarrow> gerror + Alarm" where
  "sample_decode p =
     (let a = Alarm0\<lparr>al_RuleID := ''rule'', al_Measurement := ''temperature'', al_Value := p, al_Cause := ''limit''\<rparr> in
      if p = ''60'' then Inr (a\<lparr>al_Severity := 50\<rparr>) else if p = ''80'' then Inr (a\<lparr>al_Severity := 90\<rparr>)
      else if p = ''20'' then Inr (a\<lparr>al_Status := AlarmCleared\<rparr>) else Inl (Foreign ''EOF''))"

definition sample_alarm_message :: "string \<Rightarrow> 64 word \<Rightarrow> BrokerMessage" where
  "sample_alarm_message p n = \<lparr>bm_Channel = ''ch'', bm_Domain = ''dom'', bm_Subtopic = [], bm_Publisher = ''cl'', bm_Protocol = ''mqtt'',
     bm_Payload = Some p, bm_Created = n, bm_ClientId = []\<rparr>"

definition sample_alarm_messages :: "BrokerMessage list" where
  "sample_alarm_messages = [sample_alarm_message ''60'' 1000, sample_alarm_message ''60'' 2000, sample_alarm_message ''80'' 3000,
     sample_alarm_message ''?'' 3500, sample_alarm_message ''20'' 4000, sample_alarm_message ''20'' 5000]"

definition sample_alarm_world :: alarm_world where
  "sample_alarm_world = \<lparr>aw_db = \<lparr>committed = \<lparr>at_alarms = [], at_rules_roles = [], at_rules_role_members = [], at_domains_roles = [],
     at_domains_role_members = [], at_domains_role_actions = []\<rparr>, open_txs = [], next_tx = 0, faults = []\<rparr>,
     aw_newIDs = map Inr [''a1'', ''a2'', ''a3'', ''a4'', ''a5''], aw_clock = 1\<rparr>"

definition sample_alarm_key :: alarm_key where
  "sample_alarm_key = (''dom'', ''rule'', ''ch'', ''cl'', [], ''temperature'')"

lemma sample_raised: "raised sample_decode sample_alarm_messages =
   map (\<lambda>(p, n). message_alarm (sample_alarm_message p n) (projr (sample_decode p)))
     [(''60'', 1000), (''60'', 2000), (''80'', 3000), (''20'', 4000), (''20'', 5000)]"
  by (simp add: sample_alarm_messages_def sample_alarm_message_def raised_alarm_def sample_decode_def message_alarm_def ClientIdentity_def Alarm_Validate_def
      Alarm0_def SeverityMax_def)

theorem stored_alarms_are_the_changes_witness:
  "map row_entry (filter (\<lambda>r. row_source r = sample_alarm_key)
     (alarm_rows (handle_messages sample_decode (alarm_svc sample_alarm_engine) sample_alarm_messages sample_alarm_world))) =
   [(AlarmActive, 50, ''60'', 62135596800000001000), (AlarmActive, 90, ''80'', 62135596800000003000),
    (AlarmCleared, 0, ''20'', 62135596800000004000)]"
proof -
  have h: "\<forall>rs. set (ae_scan sample_alarm_engine rs) = set rs" "alarm_rows sample_alarm_world = []" "faults (aw_db sample_alarm_world) = []"
    "aw_newIDs sample_alarm_world = map Inr [''a1'', ''a2'', ''a3'', ''a4'', ''a5'']" "distinct [''a1'', ''a2'', ''a3'', ''a4'', ''a5'']"
    "\<forall>i \<in> set [''a1'', ''a2'', ''a3'', ''a4'', ''a5'']. length i \<le> 36"
    by (simp_all add: sample_alarm_engine_def sample_alarm_world_def alarm_rows_def)
  have r: "length (raised sample_decode sample_alarm_messages) \<le> length [''a1'', ''a2'', ''a3'', ''a4'', ''a5'']"
    "\<forall>a \<in> set (raised sample_decode sample_alarm_messages). alarm_sizes a"
    "sorted_wrt (<) (map (\<lambda>a. at_micros (al_CreatedAt a)) (raised sample_decode sample_alarm_messages))"
    unfolding sample_raised
    by (simp_all add: sample_decode_def Alarm0_def message_alarm_def sample_alarm_message_def ClientIdentity_def alarm_sizes_def alarm_fits_def toDBAlarm_def
        fits_opt_def toNullString_def at_micros_def time_Unix_nanos_def)
  show ?thesis
    unfolding stored_alarms_are_the_changes [OF h(1-5) r(1) h(6) r(2,3)] sample_raised
    by (simp add: sample_decode_def Alarm0_def message_alarm_def sample_alarm_message_def ClientIdentity_def alarm_source_def sample_alarm_key_def
        differs_def alarm_state_def alarm_entry_def at_micros_def time_Unix_nanos_def AlarmActive_def AlarmCleared_def)
qed

section \<open>What later calls change\<close>

text \<open>C15: Whatever messages are consumed and whatever requests are served, with whatever results and
  failures of the database: the ids of the alarms stay distinct, every row keeps to the sizes of its columns, has
  its rule, domain, channel, client, measurement, value and cause and a severity of at most 100; the
  source, the measured value, the cause, the severity and the time of an alarm never change; and
  an alarm that is not active does not become active again.
\<close>

theorem alarms_keep_what_they_report:
  assumes "(alarm_call decode (alarm_mw pg grant eo))\<^sup>*\<^sup>* w w'" "rows_ok (alarm_rows w) (alarm_ids w)"
  shows "rows_ok (alarm_rows w') (alarm_ids w') \<and>
    (\<forall>r \<in> set (alarm_rows w). \<forall>r' \<in> set (alarm_rows w'). da_ID r' = da_ID r \<longrightarrow> alarm_kept r r')"
proof -
  from alarms.calls_evolve [OF assms(1)] assms(2) have e: "rows_ok (alarm_rows w') (alarm_ids w')"
    "\<And>r'. r' \<in> set (alarm_rows w') \<Longrightarrow> (\<exists>q \<in> set (alarm_rows w). alarm_kept q r') \<or> da_ID r' \<in> set (alarm_ids w)"
    by (auto simp: evolves_def)
  have "alarm_kept r r'" if h: "r \<in> set (alarm_rows w)" "r' \<in> set (alarm_rows w')" "da_ID r' = da_ID r" for r r'
  proof -
    have i: "inj_on da_ID (set (alarm_rows w))" "da_ID r \<notin> set (alarm_ids w)" using assms(2) h(1) by (auto simp: rows_ok_def distinct_map)
    with e(2) [OF h(2)] h(3) obtain q where q: "q \<in> set (alarm_rows w)" "alarm_kept q r'" by auto
    with h i(1) have "q = r" by (auto simp: alarm_kept_def inj_on_def)
    with q(2) show ?thesis by simp
  qed
  with e(1) show ?thesis by blast
qed

text \<open>The permissions of \<open>docker/permission.yaml\<close>, a member of the domain \<open>dom2\<close> with all of them, and a cleared alarm of the domain \<open>dom\<close>.\<close>

definition sample_alarm_config :: PermissionConfig where
  "sample_alarm_config = [(alarm_EntityType, \<lparr>ep_Operations =
     [[(''list'', ''alarm_read_permission'')], [(''view'', ''alarm_read_permission'')], [(''update'', ''alarm_update_permission'')],
      [(''delete'', ''alarm_delete_permission'')], [(''assign'', ''alarm_assign_permission'')],
      [(''acknowledge'', ''alarm_acknowledge_permission'')], [(''resolve'', ''alarm_resolve_permission'')]], ep_RolesOperations = []\<rparr>)]"

definition sample_alarm_ops :: entitiesOperations where
  "sample_alarm_ops = projr (newEntitiesOperations [(alarm_EntityType, fst (projr (GetEntityPermissions sample_alarm_config alarm_EntityType)))]
     [(alarm_EntityType, alarm_OperationDetails)])"

definition sample_grant :: "Policy \<Rightarrow> PATReq option \<Rightarrow> gerror + unit" where
  "sample_grant pr pat = (if p_Domain pr = ''dom2'' \<and> p_Subject pr = ''dom2_u1'' then Inr () else Inl svcErrAuthorization)"

definition sample_alarm_session :: Session where
  "sample_alarm_session = Session0\<lparr>s_UserID := ''u1'', s_DomainID := ''dom2'', s_DomainUserID := ''dom2_u1'', s_Role := SessionUserRole\<rparr>"

definition sample_cleared :: dbAlarm where
  "sample_cleared = row_for ''a0'' (message_alarm (sample_alarm_message ''20'' 500) (projr (sample_decode ''20'')))"

definition sample_cleared_world :: alarm_world where
  "sample_cleared_world = sample_alarm_world\<lparr>aw_db := (aw_db sample_alarm_world)\<lparr>committed := (committed (aw_db sample_alarm_world))\<lparr>at_alarms := [sample_cleared]\<rparr>\<rparr>\<rparr>"

definition sample_reactivation :: Alarm where
  "sample_reactivation = Alarm0\<lparr>al_ID := ''a0'', al_Status := AlarmActive, al_ResolvedBy := ''u1''\<rparr>"

definition sample_alarm_mw :: "alarm_world alarms_authz" where
  "sample_alarm_mw = alarm_mw sample_alarm_engine sample_grant sample_alarm_ops"

lemma sample_cleared_row: "sample_cleared = \<lparr>da_ID = ''a0'', da_RuleID = ''rule'', da_DomainID = ''dom'', da_ChannelID = ''ch'', da_ClientID = ''cl'',
    da_Subtopic = [], da_Measurement = ''temperature'', da_Value = ''20'', da_Unit = [], da_Cause = ''limit'', da_Threshold = [],
    da_Status = AlarmCleared, da_Severity = 0, da_AssigneeID = [], da_CreatedAt = 62135596800000000000, da_UpdatedAt = None, da_UpdatedBy = None,
    da_AssignedAt = None, da_AssignedBy = None, da_AcknowledgedAt = None, da_AcknowledgedBy = None, da_ResolvedAt = None, da_ResolvedBy = None,
    da_Metadata = Some []\<rparr>"
  by (simp add: sample_cleared_def row_for_def stored_alarm_def toDBAlarm_def sample_decode_def Alarm0_def message_alarm_def sample_alarm_message_def
      ClientIdentity_def null_at_def toNullString_def metadata_column_def at_micros_def time_Unix_nanos_def)

lemma sample_cleared_rows: "alarm_rows sample_cleared_world = [sample_cleared]" "faults (aw_db sample_cleared_world) = []"
  "alarm_ids sample_cleared_world = [''a1'', ''a2'', ''a3'', ''a4'', ''a5'']"
  by (simp_all add: sample_cleared_world_def sample_alarm_world_def alarm_rows_def alarm_ids_def)

theorem alarms_keep_what_they_report_witness:
  "let w' = snd (updateAlarmEndpoint sample_alarm_mw (Some sample_alarm_session) sample_reactivation sample_cleared_world) in
   map da_ResolvedBy (alarm_rows w') = [Some ''u1''] \<and> map da_Status (alarm_rows w') = [AlarmCleared] \<and> rows_ok (alarm_rows w') (alarm_ids w') \<and>
   list_all (alarm_kept sample_cleared) (alarm_rows w')"
proof -
  obtain r w' where w': "updateAlarmEndpoint sample_alarm_mw (Some sample_alarm_session) sample_reactivation sample_cleared_world = (r, w')" by fastforce
  have c: "(alarm_call sample_decode (alarm_mw sample_alarm_engine sample_grant sample_alarm_ops))\<^sup>*\<^sup>* sample_cleared_world w'"
    using alarm_call.updated [OF w'] unfolding sample_alarm_mw_def by (rule r_into_rtranclp)
  have "rows_ok (alarm_rows sample_cleared_world) (alarm_ids sample_cleared_world)"
    unfolding sample_cleared_rows rows_ok_def by (simp add: sample_cleared_row alarm_row_ok_def alarm_fits_def fits_opt_def)
  note h = alarms_keep_what_they_report [OF c this]
  have "map (\<lambda>r. (da_ID r, da_ResolvedBy r, da_Status r))
      (alarm_rows (snd (updateAlarmEndpoint sample_alarm_mw (Some sample_alarm_session) sample_reactivation sample_cleared_world))) =
    [(''a0'', Some ''u1'', AlarmCleared)]" by code_simp
  then have "map da_ResolvedBy (alarm_rows w') = [Some ''u1''] \<and> map da_Status (alarm_rows w') = [AlarmCleared] \<and> map da_ID (alarm_rows w') = [''a0'']"
    unfolding w' by auto
  then show ?thesis
    using h unfolding w' sample_cleared_rows Let_def snd_conv by (auto simp: list_all_iff sample_cleared_row)
qed

section \<open>Rights\<close>

text \<open>C34: The rights to an alarm are asked for in the domain of the request, and only the view of an
  alarm compares that domain with the domain of the alarm. A session with the rights to view and delete alarms in
  its own domain is told that an alarm of another domain does not exist, and deletes it.
\<close>

theorem deletion_ignores_the_domain_of_the_alarm:
  assumes "aam_authorize am OpViewAlarm ses DomainType (s_DomainID ses) w = (Inr (), w)"
    and "aam_authorize am OpDeleteAlarm ses DomainType (s_DomainID ses) w = (Inr (), w)"
    and "am = alarm_mw pg grant eo" "faults (aw_db w) = []" "distinct (map da_ID (alarm_rows w))"
    and "r \<in> set (alarm_rows w)" "da_DomainID r \<noteq> s_DomainID ses"
  shows "aam_ViewAlarm am ses (da_ID r) w = (Inl repoErrNotFound, w) \<and>
    (\<exists>w'. aam_DeleteAlarm am ses (da_ID r) w = (Inr (), w') \<and> alarm_rows w' = filter (\<lambda>x. da_ID x \<noteq> da_ID r) (alarm_rows w))"
proof -
  have none: "filter (\<lambda>x. da_ID x = da_ID r \<and> da_DomainID x = s_DomainID ses) (alarm_rows w) = []"
    using assms(5-7) by (auto simp: filter_empty_conv distinct_map inj_on_def)
  have some: "filter (\<lambda>x. da_ID x = da_ID r) (alarm_rows w) \<noteq> []" using assms(6) by (auto simp: filter_empty_conv)
  have c: "lifted aw_db (\<lambda>d w. w\<lparr>aw_db := d\<rparr>) m w = (fst (m (aw_db w)), w\<lparr>aw_db := snd (m (aw_db w))\<rparr>)" for m :: "(alarms_db, gerror, 'a) io"
    by (simp add: lifted_def split_def)
  have "ar_ViewAlarm (alarm_repo pg) (da_ID r) (s_DomainID ses) w = (Inl repoErrNotFound, w)"
    using none assms(4) by (simp add: alarm_repo_def c arr_ViewAlarm_def trying_apply db_query_calm first_alarm_def alarm_rows_def)
  moreover have "ar_DeleteAlarm (alarm_repo pg) (da_ID r) w =
      (Inr (), w\<lparr>aw_db := (aw_db w)\<lparr>committed := (committed (aw_db w))\<lparr>at_alarms := filter (\<lambda>x. da_ID x \<noteq> da_ID r) (alarm_rows w)\<rparr>\<rparr>\<rparr>)"
    using some assms(4) by (simp add: alarm_repo_def c arr_DeleteAlarm_def trying_apply db_exec_calm driver_calm delete_alarms_def alarm_rows_def)
  ultimately show ?thesis
    using assms(1-3) by (simp add: aam_ViewAlarm_def aam_DeleteAlarm_def alm_ViewAlarm_def alm_DeleteAlarm_def trying_apply alarm_mw_def alarm_svc_def)
qed

theorem deletion_ignores_the_domain_of_the_alarm_witness:
  "da_DomainID sample_cleared = ''dom'' \<and> s_DomainID sample_alarm_session = ''dom2'' \<and>
   aam_ViewAlarm sample_alarm_mw sample_alarm_session ''a0'' sample_cleared_world = (Inl repoErrNotFound, sample_cleared_world) \<and>
   (\<exists>w'. aam_DeleteAlarm sample_alarm_mw sample_alarm_session ''a0'' sample_cleared_world = (Inr (), w') \<and> alarm_rows w' = [])"
proof -
  have p: "eo_GetPermission sample_alarm_ops alarm_EntityType OpViewAlarm = Inr ''alarm_read_permission''"
    "eo_GetPermission sample_alarm_ops alarm_EntityType OpDeleteAlarm = Inr ''alarm_delete_permission''" by code_simp+
  have a: "aam_authorize sample_alarm_mw op sample_alarm_session DomainType (s_DomainID sample_alarm_session) sample_cleared_world = (Inr (), sample_cleared_world)"
    if "op = OpViewAlarm \<or> op = OpDeleteAlarm" for op
    using that p by (auto simp: aam_authorize_def sample_alarm_mw_def alarm_mw_def sample_grant_def sample_alarm_session_def)
  have i: "da_ID sample_cleared = ''a0''" "da_DomainID sample_cleared = ''dom''" "s_DomainID sample_alarm_session = ''dom2''"
    by (simp_all add: sample_cleared_row sample_alarm_session_def)
  show ?thesis
    using deletion_ignores_the_domain_of_the_alarm [OF a [of OpViewAlarm] a [of OpDeleteAlarm] sample_alarm_mw_def sample_cleared_rows(2), of sample_cleared] i
    by (auto simp: sample_cleared_rows)
qed

lemma alarmsPage_ok:
  assumes "alarmsPage pg sel pm d = (Inr page, d')"
  shows "\<exists>c di. set (ag_Alarms page) \<subseteq> toAlarm ` set (ae_sort pg c di (sel (committed d)))"
proof -
  let ?c = "if ap_Order pm = ''created_at'' then ''created_at'' else ''COALESCE(updated_at, created_at)''" and ?di = "if ap_Dir pm = ''asc'' then ''asc'' else ''desc''"
  from assms obtain rs d1 items d2 total d3 where q: "db_query (\<lambda>t. take (ap_Limit pm) (drop (ap_Offset pm) (ae_sort pg ?c ?di (sel t)))) d = (Inr rs, d1)"
    "scan_rows rs d1 = (Inr items, d2)" "page = \<lparr>ag_Offset = ap_Offset pm, ag_Limit = ap_Limit pm, ag_Total = total, ag_Alarms = map toAlarm items\<rparr>"
    unfolding alarmsPage_def Let_def by (elim exE conjE trying_InrD [elim_format]) auto
  from scan_rows_ok [OF q(2)] db_query_ok [OF q(1)] q(3) show ?thesis by (auto dest!: in_set_takeD in_set_dropD)
qed

text \<open>C24: A user who is not an administrator of the platform is listed only alarms of the domain that was asked for, and among
  them only those of rules in which the user has a role, and of domains in which a role of the user has an action on alarms.
\<close>

theorem listed_alarms_are_shared_with_the_user:
  assumes "listAlarmsEndpoint (alarm_mw pg grant eo) (Some ses) pm w = (Inr page, w')" "a \<in> set (ag_Alarms page)"
    and "s_Role ses \<noteq> SessionSuperAdminRole" "\<not> s_SuperAdmin ses" "s_DomainID ses \<noteq> []" "\<forall>c d rs. set (ae_sort pg c d rs) \<subseteq> set rs"
  shows "\<exists>r \<in> set (alarm_rows w). a = toAlarm r \<and> da_DomainID r = (if ap_DomainID pm = [] then s_DomainID ses else ap_DomainID pm) \<and>
    (rule_member (committed (aw_db w)) (s_UserID ses) (da_RuleID r) \<or> domain_alarm_member (committed (aw_db w)) (s_UserID ses) (da_DomainID r))"
proof -
  let ?pm = "if ap_DomainID pm = [] then pm\<lparr>ap_DomainID := s_DomainID ses\<rparr> else pm"
  have "Contains svcErrSuperAdminAction svcErrSuperAdminAction" by code_simp
  then have "ar_ListUserAlarms (alarm_repo pg) (s_UserID ses) ?pm w = (Inr page, w')"
    using assms(1,3,4) by (auto simp: listAlarmsEndpoint_def with_session_def aam_ListAlarms_def aam_checkSuperAdmin_def alarm_mw_def alm_ListAlarms_def
        alarm_svc_def observe_apply Let_def dest!: guarded_InrD split: if_splits)
  then obtain d where d: "arr_ListUserAlarms pg (s_UserID ses) ?pm (aw_db w) = (Inr page, d)" by (auto simp: alarm_repo_def lifted_eq)
  define sel where "sel t = remdups (filter (\<lambda>r. user_sees t (s_UserID ses) r \<and> pageQueryConditions ?pm r) (at_alarms t))" for t
  from d have "alarmsPage pg sel (?pm\<lparr>ap_UserID := s_UserID ses\<rparr>) (aw_db w) = (Inr page, d)" unfolding arr_ListUserAlarms_def sel_def .
  from alarmsPage_ok [OF this] assms(2) obtain c di r where r: "r \<in> set (ae_sort pg c di (sel (committed (aw_db w))))" "a = toAlarm r"
    by auto
  have "r \<in> set (sel (committed (aw_db w)))" using r(1) assms(6) by blast
  then have "r \<in> set (alarm_rows w)" "user_sees (committed (aw_db w)) (s_UserID ses) r" "pageQueryConditions ?pm r"
    by (auto simp: sel_def alarm_rows_def)
  moreover from this(3) have "da_DomainID r = ap_DomainID ?pm" using assms(5) by (auto simp: pageQueryConditions_def split: if_splits)
  ultimately show ?thesis using r(2) by (auto simp: user_sees_def split: if_splits)
qed

definition sample_shared_world :: alarm_world where
  "sample_shared_world = sample_cleared_world\<lparr>aw_db := (aw_db sample_cleared_world)\<lparr>committed := (committed (aw_db sample_cleared_world))
     \<lparr>at_rules_roles := [(''role1'', ''rule'')], at_rules_role_members := [(''role1'', ''u1'')]\<rparr>\<rparr>\<rparr>"

definition sample_alarm_page :: AlarmPM where
  "sample_alarm_page = (projr (decodeListAlarmsReq (\<lambda>_. Inl (Foreign ''no time'')) (\<lambda>k. if k = ''domain_id'' then [''dom''] else [])))"

theorem listed_alarms_are_shared_with_the_user_witness:
  "\<exists>page w'. listAlarmsEndpoint (alarm_mw sample_alarm_engine sample_grant sample_alarm_ops) (Some sample_alarm_session) sample_alarm_page sample_shared_world
     = (Inr page, w') \<and> ag_Alarms page = [toAlarm sample_cleared] \<and>
     (\<exists>r \<in> set (alarm_rows sample_shared_world). toAlarm sample_cleared = toAlarm r \<and> da_DomainID r = ''dom'' \<and>
       (rule_member (committed (aw_db sample_shared_world)) ''u1'' (da_RuleID r) \<or> domain_alarm_member (committed (aw_db sample_shared_world)) ''u1'' (da_DomainID r)))"
proof -
  let ?call = "listAlarmsEndpoint (alarm_mw sample_alarm_engine sample_grant sample_alarm_ops) (Some sample_alarm_session) sample_alarm_page sample_shared_world"
  have p: "case ?call of (Inr page, w') \<Rightarrow> ag_Alarms page = [toAlarm sample_cleared] | _ \<Rightarrow> False"
    unfolding sample_cleared_row by code_simp
  then obtain page w' where c: "?call = (Inr page, w')" "ag_Alarms page = [toAlarm sample_cleared]" by (auto split: prod.splits sum.splits)
  have m: "ap_DomainID sample_alarm_page = ''dom''" by code_simp
  have h: "s_Role sample_alarm_session \<noteq> SessionSuperAdminRole" "\<not> s_SuperAdmin sample_alarm_session" "s_DomainID sample_alarm_session \<noteq> []"
    "s_UserID sample_alarm_session = ''u1''" "\<forall>c d rs. set (ae_sort sample_alarm_engine c d rs) \<subseteq> set rs"
    by (simp_all add: sample_alarm_session_def Session0_def sample_alarm_engine_def)
  show ?thesis
    using listed_alarms_are_shared_with_the_user [OF c(1) _ h(1-3,5), of "toAlarm sample_cleared"] c m h(4) by auto
qed

text \<open>
  A listing asks for no permission, neither of the user nor of a personal access token. For every
  other operation on alarms a token is refused, since the type of the entity in its request is
  not one of the types of scopes.
\<close>

lemma listing_ignores_tokens: "aam_ListAlarms am (ses\<lparr>s_PatID := p\<rparr>) pm = aam_ListAlarms am ses pm"
  unfolding aam_ListAlarms_def aam_checkSuperAdmin_def alm_ListAlarms_def by (simp cong: if_cong)

lemma no_scope_for_alarms:
  assumes "pq_EntityType pat = alarm_EntityType" "pq_PatID pat \<noteq> []"
  shows "\<exists>e. fst (auth_client_Authorize svc pr (Some pat) w) = Inl e"
proof -
  have "ParseEntityType alarm_EntityType = Inl (Foreign ''unknown domain entity type alarm'')" by code_simp
  with assms show ?thesis
    by (auto simp: auth_client_Authorize_def auth_authorizeEndpoint_def trying_apply guarded_def split: option.splits)
qed

end
