(* ===== verification/Schedule.thy ===== *)
theory Schedule
  imports Errors "HOL-Library.Word"
begin

text \<open>
  Schedules of rules and reports (\<open>pkg/schedule/schedule.go\<close>): recurrence, validation and the next
  time a schedule is due, with the calendar of Go's \<open>time\<close> package that it uses.
  Times are nanoseconds since January 1 of the year 1, in UTC.
\<close>

section \<open>The calendar\<close>

text \<open>
  Months are counted from January of the year 1. The first day of a month, as the number of days
  before it: the days of the years before, of the months before, and a leap day.
\<close>

definition leap_year :: "int \<Rightarrow> bool" where
  "leap_year y \<longleftrightarrow> 4 dvd y \<and> (\<not> 100 dvd y \<or> 400 dvd y)"

definition days_of_years :: "int \<Rightarrow> int" where
  "days_of_years y = 365 * y + y div 4 - y div 100 + y div 400"

fun days_before_month :: "int \<Rightarrow> int" where
  "days_before_month m =
     (if m = 0 then 0 else if m = 1 then 31 else if m = 2 then 59 else if m = 3 then 90 else if m = 4 then 120 else if m = 5 then 151
      else if m = 6 then 181 else if m = 7 then 212 else if m = 8 then 243 else if m = 9 then 273 else if m = 10 then 304 else 334)"

definition month_start :: "int \<Rightarrow> int" where
  "month_start M = days_of_years (M div 12) + days_before_month (M mod 12) + (if 2 \<le> M mod 12 \<and> leap_year (M div 12 + 1) then 1 else 0)"

lemma div_succ: "0 < k \<Longrightarrow> (y + 1) div k = y div k + (if k dvd y + 1 then 1 else 0)" for y k :: int
proof -
  assume k: "0 < k"
  define q r where "q = y div k" and "r = y mod k"
  have y: "y = k * q + r" "0 \<le> r" "r < k" using k by (simp_all add: q_def r_def)
  show ?thesis
  proof (cases "r = k - 1")
    case True
    with y have "y + 1 = k * (q + 1)" by (simp add: algebra_simps)
    with k show ?thesis by (simp add: q_def)
  next
    case False
    with y have r: "0 \<le> r + 1" "r + 1 < k" "y + 1 = k * q + (r + 1)" by auto
    then have "(y + 1) div k = q" "(y + 1) mod k = r + 1" by (auto intro: int_div_pos_eq int_mod_pos_eq)
    with r y(2) show ?thesis by (simp add: dvd_eq_mod_eq_0 q_def)
  qed
qed

lemma days_of_years_succ: "days_of_years (y + 1) = days_of_years y + 365 + (if leap_year (y + 1) then 1 else 0)"
proof -
  define a b c where "a = (4 dvd y + 1)" and "b = (100 dvd y + 1)" and "c = (400 dvd y + 1)"
  have "b \<Longrightarrow> a" "c \<Longrightarrow> b" unfolding a_def b_def c_def by (rule dvd_trans [rotated], assumption, simp)+
  moreover have "days_of_years (y + 1) = 365 * (y + 1) + (y div 4 + (if a then 1 else 0)) - (y div 100 + (if b then 1 else 0)) + (y div 400 + (if c then 1 else 0))"
    unfolding days_of_years_def a_def b_def c_def by (simp only: div_succ)
  ultimately show ?thesis
    unfolding leap_year_def a_def [symmetric] b_def [symmetric] c_def [symmetric] days_of_years_def [of y] by (cases a; cases b; cases c) simp_all
qed

text \<open>Every month has between 28 and 31 days.\<close>

lemma month_length: "month_start M + 28 \<le> month_start (M + 1)" "month_start (M + 1) \<le> month_start M + 31"
proof -
  define y m where "y = M div 12" and "m = M mod 12"
  have M: "M = 12 * y + m" "0 \<le> m" "m < 12" by (simp_all add: y_def m_def)
  have "month_start M + 28 \<le> month_start (M + 1) \<and> month_start (M + 1) \<le> month_start M + 31"
  proof (cases "m = 11")
    case True
    with M have "M + 1 = 12 * (y + 1)" by simp
    then have "(M + 1) div 12 = y + 1" "(M + 1) mod 12 = 0" by simp_all
    then show ?thesis
      unfolding month_start_def y_def [symmetric] m_def [symmetric] True by (simp add: days_of_years_succ)
  next
    case False
    with M have "M + 1 = 12 * y + (m + 1)" "0 \<le> m + 1" "m + 1 < 12" by auto
    then have s: "(M + 1) div 12 = y" "(M + 1) mod 12 = m + 1" by (auto intro: int_div_pos_eq int_mod_pos_eq)
    from M False have "m = 0 \<or> m = 1 \<or> m = 2 \<or> m = 3 \<or> m = 4 \<or> m = 5 \<or> m = 6 \<or> m = 7 \<or> m = 8 \<or> m = 9 \<or> m = 10" by presburger
    then show ?thesis
      unfolding month_start_def s y_def [symmetric] m_def [symmetric] by (elim disjE) simp_all
  qed
  then show "month_start M + 28 \<le> month_start (M + 1)" "month_start (M + 1) \<le> month_start M + 31" by auto
qed

lemma month_start_later: "month_start M + 28 * int n \<le> month_start (M + int n)"
proof (induction n)
  case (Suc n)
  have "month_start (M + int n) + 28 \<le> month_start (M + int n + 1)" by (rule month_length)
  with Suc show ?case by (simp add: algebra_simps)
qed simp

lemma month_start_strict: "0 < k \<Longrightarrow> month_start M < month_start (M + k)"
  using month_start_later [of M "nat k"] by simp

lemma month_start_upper: "month_start (int n) \<le> 31 * int n"
proof (induction n)
  case 0
  show ?case by (simp add: month_start_def days_of_years_def)
next
  case (Suc n)
  have "month_start (int n + 1) \<le> month_start (int n) + 31" by (rule month_length)
  with Suc show ?case by (simp add: algebra_simps)
qed

lemma month_start_negative: "month_start (- int n) \<le> - 28 * int n"
  using month_start_later [of "- int n" n] by (simp add: month_start_def days_of_years_def)

text \<open>The month of a day: from an early enough month on, the first one that has not ended.\<close>

function month_from :: "int \<Rightarrow> int \<Rightarrow> int" where
  "month_from d M = (if month_start (M + 1) \<le> d then month_from d (M + 1) else M)"
  by auto
termination
proof (relation "measure (\<lambda>(d, M). nat (d - month_start M))", goal_cases)
  case (2 d M)
  then show ?case using month_length(1) [of M] by auto
qed simp

declare month_from.simps [simp del]

definition month_of :: "int \<Rightarrow> int" where
  "month_of d = month_from d (if 0 \<le> d then d div 31 else d div 28)"

lemma month_from_spec: "month_start M \<le> d \<Longrightarrow> month_start (month_from d M) \<le> d \<and> d < month_start (month_from d M + 1)"
  by (induction d M rule: month_from.induct) (subst month_from.simps, auto simp: month_from.simps)

lemma month_of_spec: "month_start (month_of d) \<le> d \<and> d < month_start (month_of d + 1)"
proof -
  have "month_start (if 0 \<le> d then d div 31 else d div 28) \<le> d"
  proof (cases "0 \<le> d")
    case True
    have "31 * (d div 31) \<le> d" by simp
    moreover have "int (nat (d div 31)) = d div 31" using True by (simp add: pos_imp_zdiv_nonneg_iff)
    ultimately show ?thesis using True month_start_upper [of "nat (d div 31)"] by simp
  next
    case False
    then have n: "d div 28 < 0" by simp
    have "28 * (d div 28) \<le> d" by simp
    with n False month_start_negative [of "nat (- (d div 28))"] show ?thesis by simp
  qed
  then show ?thesis unfolding month_of_def by (rule month_from_spec)
qed

section \<open>Times\<close>

definition day_nanos :: int where "day_nanos = 24 * 3600 * 1000000000"

text \<open>
  \<open>AddDate(0, months, days)\<close>: the day of the month and the time of the day stay; a day past the end
  of the month goes on into the next one.
\<close>

definition AddDate :: "int \<Rightarrow> int \<Rightarrow> int \<Rightarrow> int" where
  "AddDate months days t =
     (let d = t div day_nanos; M = month_of d in
      (month_start (M + months) + (d - month_start M) + days) * day_nanos + t mod day_nanos)"

section \<open>Schedules\<close>

datatype Recurring = RecurringNone | Hourly | Daily | Weekly | Monthly

fun Recurring_String :: "Recurring \<Rightarrow> string" where
  "Recurring_String Hourly = ''hourly''"
| "Recurring_String Daily = ''daily''"
| "Recurring_String Weekly = ''weekly''"
| "Recurring_String Monthly = ''monthly''"
| "Recurring_String RecurringNone = ''none''"

definition ErrInvalidRecurringType :: gerror where "ErrInvalidRecurringType = NewRequestError ''invalid recurring type''"
definition ErrStartDateTimeInPast :: gerror where
  "ErrStartDateTimeInPast = NewRequestError ''start_datetime must be greater than or equal to current time''"

text \<open>The text in the JSON string.\<close>

definition Recurring_Unmarshal :: "string \<Rightarrow> gerror + Recurring" where
  "Recurring_Unmarshal s =
     (if s = ''hourly'' then Inr Hourly else if s = ''daily'' then Inr Daily else if s = ''weekly'' then Inr Weekly
      else if s = ''monthly'' then Inr Monthly else if s = ''none'' then Inr RecurringNone else Inl ErrInvalidRecurringType)"

record Schedule =
  sd_StartDateTime :: int
  sd_Time :: int
  sd_Recurring :: Recurring
  sd_RecurringPeriod :: "64 word"

definition Schedule0 :: Schedule where
  "Schedule0 = \<lparr>sd_StartDateTime = 0, sd_Time = 0, sd_Recurring = RecurringNone, sd_RecurringPeriod = 0\<rparr>"

definition Schedule_Validate :: "int \<Rightarrow> Schedule \<Rightarrow> gerror option" where
  "Schedule_Validate now s = (if sd_StartDateTime s \<noteq> 0 \<and> sd_StartDateTime s < now then Some ErrStartDateTimeInPast else None)"

text \<open>A duration is a signed 64 bit number: the product of an hour and the period wraps.\<close>

definition NextDue :: "Schedule \<Rightarrow> int" where
  "NextDue s = (case sd_Recurring s of
      Hourly \<Rightarrow> sd_Time s + sint (3600000000000 * sd_RecurringPeriod s)
    | Daily \<Rightarrow> AddDate 0 (sint (sd_RecurringPeriod s)) (sd_Time s)
    | Weekly \<Rightarrow> AddDate 0 (sint (sd_RecurringPeriod s * 7)) (sd_Time s)
    | Monthly \<Rightarrow> AddDate (sint (sd_RecurringPeriod s)) 0 (sd_Time s)
    | RecurringNone \<Rightarrow> 0)"

section \<open>When a schedule is due again\<close>

lemma AddDate_days: "AddDate 0 n t = t + n * day_nanos"
proof -
  have "t div day_nanos * day_nanos + t mod day_nanos = t" by (simp add: div_mult_mod_eq)
  then show ?thesis by (simp add: AddDate_def Let_def algebra_simps)
qed

lemma AddDate_months: "0 < k \<Longrightarrow> t < AddDate k 0 t"
proof -
  assume k: "0 < k"
  define d where "d = t div day_nanos"
  have p: "0 < day_nanos" by (simp add: day_nanos_def)
  have t: "t = d * day_nanos + t mod day_nanos" by (simp add: d_def div_mult_mod_eq)
  have "d < month_start (month_of d + k) + (d - month_start (month_of d))" using month_start_strict [OF k, of "month_of d"] by simp
  with p have "d * day_nanos < (month_start (month_of d + k) + (d - month_start (month_of d))) * day_nanos" by simp
  then have "d * day_nanos + t mod day_nanos < AddDate k 0 t" unfolding AddDate_def Let_def d_def [symmetric] by simp
  with t show ?thesis by linarith
qed

lemma small_word_sint: "unat p \<le> 32767 \<Longrightarrow> sint (of_nat c * p) = int c * int (unat p)" if "c \<le> 3600000000000" for p :: "64 word"
proof -
  assume p: "unat p \<le> 32767"
  have "c * unat p \<le> 3600000000000 * 32767" using that p by (rule mult_le_mono)
  then have b: "c * unat p < 2 ^ 63" by simp
  have w: "of_nat c * p = (of_nat (c * unat p) :: 64 word)" by simp
  have "sint (of_nat (c * unat p) :: 64 word) = int (c * unat p)"
    using b by (simp add: signed_of_nat signed_take_bit_int_eq_self_iff del: of_nat_mult)
  then show ?thesis unfolding w by simp
qed

lemma Recurring_roundtrip: "Recurring_Unmarshal (Recurring_String r) = Inr r"
  by (cases r) (simp_all add: Recurring_Unmarshal_def)

text \<open>C33: A recurring schedule with a period of at least one, of the size its column holds, is next due strictly
  later than before: by its period in hours, days or weeks, or in the month that is its period later. With a period of zero
  it is due at the same time again, and a schedule that does not recur is due at the zero time.\<close>

theorem next_due_is_later:
  "(sd_Recurring s \<noteq> RecurringNone \<and> 1 \<le> unat (sd_RecurringPeriod s) \<and> unat (sd_RecurringPeriod s) \<le> 32767 \<longrightarrow> sd_Time s < NextDue s) \<and>
   (sd_Recurring s = Hourly \<and> unat (sd_RecurringPeriod s) \<le> 32767 \<longrightarrow> NextDue s = sd_Time s + int (unat (sd_RecurringPeriod s)) * 3600000000000) \<and>
   (sd_Recurring s = Weekly \<and> unat (sd_RecurringPeriod s) \<le> 32767 \<longrightarrow> NextDue s = sd_Time s + 7 * int (unat (sd_RecurringPeriod s)) * day_nanos) \<and>
   (sd_Recurring s \<noteq> RecurringNone \<and> sd_RecurringPeriod s = 0 \<longrightarrow> NextDue s = sd_Time s) \<and>
   (sd_Recurring s = RecurringNone \<longrightarrow> NextDue s = 0)"
proof -
  let ?p = "sd_RecurringPeriod s" and ?n = "int (unat (sd_RecurringPeriod s))"
  have w: "sint (3600000000000 * ?p) = 3600000000000 * ?n" "sint ?p = ?n" "sint (?p * 7) = 7 * ?n" if "unat ?p \<le> 32767"
    using small_word_sint [OF _ that, of 3600000000000] small_word_sint [OF _ that, of 1] small_word_sint [OF _ that, of 7] by (simp_all add: mult.commute)
  have d: "0 < day_nanos" by (simp add: day_nanos_def)
  have z: "AddDate 0 0 (sd_Time s) = sd_Time s" by (simp add: AddDate_days)
  have "sd_Time s < NextDue s" if h: "sd_Recurring s \<noteq> RecurringNone" "1 \<le> unat ?p" "unat ?p \<le> 32767"
  proof -
    have "0 < ?n" using h(2) by linarith
    then have "0 < uint ?p" by simp
    then show ?thesis
      using w [OF h(3)] h(1) d AddDate_months [of ?n "sd_Time s"] by (cases "sd_Recurring s") (simp_all add: NextDue_def AddDate_days)
  qed
  moreover have "NextDue s = sd_Time s" if "sd_Recurring s \<noteq> RecurringNone" "?p = 0"
    using that z by (cases "sd_Recurring s") (simp_all add: NextDue_def)
  moreover have "sd_Recurring s = Hourly \<and> unat ?p \<le> 32767 \<longrightarrow> NextDue s = sd_Time s + ?n * 3600000000000"
    "sd_Recurring s = Weekly \<and> unat ?p \<le> 32767 \<longrightarrow> NextDue s = sd_Time s + 7 * ?n * day_nanos"
    using w by (simp_all add: NextDue_def AddDate_days)
  ultimately show ?thesis by (simp add: NextDue_def)
qed

text \<open>January 31 of 2023, a month later: March 3. The last months of a year go on into the next one.\<close>

definition january_31 :: Schedule where
  "january_31 = \<lparr>sd_StartDateTime = 0, sd_Time = 738550 * day_nanos, sd_Recurring = Monthly, sd_RecurringPeriod = 1\<rparr>"

theorem next_due_is_later_witness:
  "sd_Time january_31 < NextDue january_31 \<and> month_of (738550) = 24264 \<and> 738550 - month_start 24264 = 30 \<and>
   NextDue january_31 = (month_start 24266 + 2) * day_nanos"
proof -
  have "sd_Time january_31 < NextDue january_31" using next_due_is_later [of january_31] by (simp add: january_31_def)
  moreover have m: "month_of 738550 = 24264" by code_simp
  moreover have "NextDue january_31 = (month_start 24266 + 2) * day_nanos"
  proof -
    have "738550 * day_nanos div day_nanos = 738550" by (simp add: day_nanos_def)
    then show ?thesis by (simp add: NextDue_def january_31_def AddDate_def Let_def m month_start_def days_of_years_def leap_year_def)
  qed
  ultimately show ?thesis by (simp add: month_start_def days_of_years_def leap_year_def)
qed

end
