(* ===== verification/Rules.thy ===== *)
theory Rules
  imports Alarms Schedule
begin

text \<open>
  The rules engine (\<open>re\<close>): rules with their schedules, the table and its repository (\<open>re/postgres\<close>), the
  service (\<open>re/service.go\<close>), the authorization middleware, which rules a message or the
  scheduler starts (\<open>re/handlers.go\<close>), and the output that raises alarms (\<open>re/outputs/alarm.go\<close>).
  The scripts themselves run in third-party interpreters.
\<close>

section \<open>Rules\<close>

record Script =
  sp_Type :: nat
  sp_Value :: string

definition LuaType :: nat where "LuaType = 0"
definition GoType :: nat where "GoType = 1"

text \<open>An output is the one that raises alarms or another one, given by the text of its JSON.\<close>

datatype rule_output = AlarmOutput | OtherOutput string

record Rule =
  ru_ID :: string
  ru_Name :: string
  ru_DomainID :: string
  ru_Metadata :: Metadata
  ru_Tags :: "string list"
  ru_InputChannel :: string
  ru_InputTopic :: string
  ru_Logic :: Script
  ru_Outputs :: "rule_output list option"
  ru_Schedule :: Schedule
  ru_Status :: Status
  ru_CreatedAt :: int
  ru_CreatedBy :: string
  ru_UpdatedAt :: int
  ru_UpdatedBy :: string

definition Rule0 :: Rule where
  "Rule0 = \<lparr>ru_ID = [], ru_Name = [], ru_DomainID = [], ru_Metadata = None, ru_Tags = [], ru_InputChannel = [], ru_InputTopic = [],
     ru_Logic = \<lparr>sp_Type = 0, sp_Value = []\<rparr>, ru_Outputs = None, ru_Schedule = Schedule0, ru_Status = EnabledStatus, ru_CreatedAt = 0,
     ru_CreatedBy = [], ru_UpdatedAt = 0, ru_UpdatedBy = []\<rparr>"

definition re_ToStatus :: "string \<Rightarrow> gerror + Status" where
  "re_ToStatus s =
     (if s = [] \<or> s = ''enabled'' then Inr EnabledStatus else if s = ''disabled'' then Inr DisabledStatus
      else if s = ''deleted'' then Inr DeletedStatus else if s = ''all'' then Inr AllStatuses else Inl svcErrInvalidStatus)"

record RulePM =
  rq_Offset :: nat
  rq_Limit :: nat
  rq_Dir :: string
  rq_Order :: string
  rq_Name :: string
  rq_InputChannel :: string
  rq_Scheduled :: "bool option"
  rq_Status :: Status
  rq_Domain :: string
  rq_Tag :: string
  rq_ScheduledBefore :: "int option"
  rq_ScheduledAfter :: "int option"

definition RulePM0 :: RulePM where
  "RulePM0 = \<lparr>rq_Offset = 0, rq_Limit = 0, rq_Dir = [], rq_Order = [], rq_Name = [], rq_InputChannel = [], rq_Scheduled = None,
     rq_Status = EnabledStatus, rq_Domain = [], rq_Tag = [], rq_ScheduledBefore = None, rq_ScheduledAfter = None\<rparr>"

record RulesPage =
  rg_Offset :: nat
  rg_Limit :: nat
  rg_Total :: nat
  rg_Rules :: "Rule list"

section \<open>The table\<close>

record dbRule =
  rd_ID :: string
  rd_Name :: string
  rd_DomainID :: string
  rd_Tags :: "string list"
  rd_Metadata :: Metadata
  rd_InputChannel :: string
  rd_InputTopic :: "string option"
  rd_LogicType :: nat
  rd_LogicValue :: string
  rd_Outputs :: "rule_output list option"
  rd_StartDateTime :: "int option"
  rd_Time :: "int option"
  rd_Recurring :: Recurring
  rd_RecurringPeriod :: "64 word"
  rd_Status :: Status
  rd_CreatedAt :: int
  rd_CreatedBy :: string
  rd_UpdatedAt :: int
  rd_UpdatedBy :: string

definition ruleToDb :: "Rule \<Rightarrow> dbRule" where
  "ruleToDb r = \<lparr>rd_ID = ru_ID r, rd_Name = ru_Name r, rd_DomainID = ru_DomainID r, rd_Tags = ru_Tags r,
     rd_Metadata = metadata_column (ru_Metadata r), rd_InputChannel = ru_InputChannel r, rd_InputTopic = toNullString (ru_InputTopic r),
     rd_LogicType = sp_Type (ru_Logic r), rd_LogicValue = sp_Value (ru_Logic r), rd_Outputs = ru_Outputs r,
     rd_StartDateTime = null_at (sd_StartDateTime (ru_Schedule r)), rd_Time = null_at (sd_Time (ru_Schedule r)),
     rd_Recurring = sd_Recurring (ru_Schedule r), rd_RecurringPeriod = sd_RecurringPeriod (ru_Schedule r), rd_Status = ru_Status r,
     rd_CreatedAt = ru_CreatedAt r, rd_CreatedBy = ru_CreatedBy r, rd_UpdatedAt = ru_UpdatedAt r, rd_UpdatedBy = ru_UpdatedBy r\<rparr>"

text \<open>An empty list of outputs reads back as none.\<close>

definition dbToRule :: "dbRule \<Rightarrow> Rule" where
  "dbToRule r = \<lparr>ru_ID = rd_ID r, ru_Name = rd_Name r, ru_DomainID = rd_DomainID r, ru_Metadata = rd_Metadata r, ru_Tags = rd_Tags r,
     ru_InputChannel = rd_InputChannel r, ru_InputTopic = nullString (rd_InputTopic r),
     ru_Logic = \<lparr>sp_Type = rd_LogicType r, sp_Value = rd_LogicValue r\<rparr>, ru_Outputs = (if rd_Outputs r = Some [] then None else rd_Outputs r),
     ru_Schedule = \<lparr>sd_StartDateTime = at_null (rd_StartDateTime r), sd_Time = at_null (rd_Time r), sd_Recurring = rd_Recurring r,
       sd_RecurringPeriod = rd_RecurringPeriod r\<rparr>,
     ru_Status = rd_Status r, ru_CreatedAt = rd_CreatedAt r, ru_CreatedBy = rd_CreatedBy r, ru_UpdatedAt = rd_UpdatedAt r,
     ru_UpdatedBy = rd_UpdatedBy r\<rparr>"

record rule_tables =
  rt_rules :: "dbRule list"

type_synonym rules_db = "rule_tables database"

definition stored_rule :: "dbRule \<Rightarrow> dbRule" where
  "stored_rule r = r\<lparr>rd_StartDateTime := map_option at_micros (rd_StartDateTime r), rd_Time := map_option at_micros (rd_Time r),
     rd_CreatedAt := at_micros (rd_CreatedAt r), rd_UpdatedAt := at_micros (rd_UpdatedAt r)\<rparr>"

definition rule_fits :: "dbRule \<Rightarrow> bool" where
  "rule_fits r \<longleftrightarrow> length (rd_ID r) \<le> 36 \<and> length (rd_Name r) \<le> 1024 \<and> length (rd_DomainID r) \<le> 36 \<and> length (rd_CreatedBy r) \<le> 254 \<and>
     length (rd_UpdatedBy r) \<le> 254 \<and> length (rd_InputChannel r) \<le> 36"

text \<open>The numbers of a small integer column are checked by the driver.\<close>

definition rule_encodes :: "dbRule \<Rightarrow> bool" where
  "rule_encodes r \<longleftrightarrow> rd_LogicType r \<le> 32767 \<and> unat (rd_RecurringPeriod r) \<le> 32767"

definition encode_failure :: dberror where "encode_failure = DriverError ''failed to encode args: greater than maximum value for int2''"

definition insert_rule :: "dbRule \<Rightarrow> (rule_tables, dbRule list) stmt" where
  "insert_rule dbr t =
     (let row = stored_rule dbr in
      if \<not> rule_encodes row then Inl encode_failure
      else if \<not> rule_fits row then Inl pg_truncated
      else if rd_ID row \<in> set (map rd_ID (rt_rules t)) then Inl (pg_unique ''rules_pkey'')
      else Inr (t\<lparr>rt_rules := rt_rules t @ [row]\<rparr>, [row]))"

definition update_rules :: "(dbRule \<Rightarrow> bool) \<Rightarrow> (dbRule \<Rightarrow> dbRule) \<Rightarrow> (rule_tables, dbRule list) stmt" where
  "update_rules p f t =
     (let changed = map f (filter p (rt_rules t)) in
      if \<not> list_all rule_encodes changed then Inl encode_failure
      else if \<not> list_all rule_fits changed then Inl pg_truncated
      else Inr (t\<lparr>rt_rules := map (\<lambda>r. if p r then f r else r) (rt_rules t)\<rparr>, changed))"

definition delete_rule :: "string \<Rightarrow> (rule_tables, nat) stmt" where
  "delete_rule i t = Inr (t\<lparr>rt_rules := filter (\<lambda>r. rd_ID r \<noteq> i) (rt_rules t)\<rparr>, length (filter (\<lambda>r. rd_ID r = i) (rt_rules t)))"

section \<open>The repository\<close>

definition rur_AddRule :: "Rule \<Rightarrow> (rules_db, gerror, Rule) io" where
  "rur_AddRule r =
     trying (db_exec (insert_rule (ruleToDb r))) (HandleError repoErrCreateEntity) (\<lambda>rows. case rows of
       [] \<Rightarrow> ret Rule0
     | x # _ \<Rightarrow> trying (driver (ret x)) (WrapDB repoErrCreateEntity) (\<lambda>dbr. ret (dbToRule dbr)))"

definition rur_ViewRule :: "string \<Rightarrow> (rules_db, gerror, Rule) io" where
  "rur_ViewRule i =
     trying (db_query (\<lambda>t. filter (\<lambda>r. rd_ID r = i) (rt_rules t))) (HandleError repoErrViewEntity) (\<lambda>rows. case rows of
       [] \<Rightarrow> fail (Wrap repoErrViewEntity (Foreign ''sql: no rows in result set''))
     | x # _ \<Rightarrow> trying (driver (ret x)) (WrapDB repoErrViewEntity) (\<lambda>dbr. ret (dbToRule dbr)))"

definition rur_update :: "(rule_tables, dbRule list) stmt \<Rightarrow> (rules_db, gerror, Rule) io" where
  "rur_update st =
     trying (db_exec st) (HandleError repoErrUpdateEntity) (\<lambda>rows. case rows of
       [] \<Rightarrow> fail repoErrNotFound
     | x # _ \<Rightarrow> trying (driver (ret x)) (WrapDB repoErrUpdateEntity) (\<lambda>dbr. ret (dbToRule dbr)))"

definition touch_rule :: "dbRule \<Rightarrow> dbRule \<Rightarrow> dbRule" where
  "touch_rule dbr r = r\<lparr>rd_UpdatedAt := rd_UpdatedAt dbr, rd_UpdatedBy := rd_UpdatedBy dbr\<rparr>"

definition rur_UpdateRuleStatus :: "Rule \<Rightarrow> (rules_db, gerror, Rule) io" where
  "rur_UpdateRuleStatus rule =
     (let dbr = stored_rule (ruleToDb rule) in
      rur_update (update_rules (\<lambda>r. rd_ID r = rd_ID dbr) (\<lambda>r. touch_rule dbr (r\<lparr>rd_Status := rd_Status dbr\<rparr>))))"

text \<open>The input channel and topic are set whatever the request has; an empty one clears them.\<close>

definition set_rule_columns :: "Rule \<Rightarrow> dbRule \<Rightarrow> dbRule \<Rightarrow> dbRule" where
  "set_rule_columns rule dbr r =
     (let r1 = (if ru_Name rule \<noteq> [] then r\<lparr>rd_Name := rd_Name dbr\<rparr> else r);
          r2 = (if ru_Metadata rule \<noteq> None then r1\<lparr>rd_Metadata := rd_Metadata dbr\<rparr> else r1);
          r3 = r2\<lparr>rd_InputChannel := rd_InputChannel dbr, rd_InputTopic := rd_InputTopic dbr\<rparr>;
          r4 = (if ru_Outputs rule \<noteq> None then r3\<lparr>rd_Outputs := rd_Outputs dbr\<rparr> else r3);
          r5 = (if sp_Value (ru_Logic rule) \<noteq> [] then r4\<lparr>rd_LogicType := rd_LogicType dbr, rd_LogicValue := rd_LogicValue dbr\<rparr> else r4)
      in touch_rule dbr r5)"

definition rur_UpdateRule :: "Rule \<Rightarrow> (rules_db, gerror, Rule) io" where
  "rur_UpdateRule rule =
     (let dbr = stored_rule (ruleToDb rule) in rur_update (update_rules (\<lambda>r. rd_ID r = rd_ID dbr) (set_rule_columns rule dbr)))"

definition rur_UpdateRuleTags :: "Rule \<Rightarrow> (rules_db, gerror, Rule) io" where
  "rur_UpdateRuleTags rule =
     (let dbr = stored_rule (ruleToDb (rule\<lparr>ru_Status := EnabledStatus\<rparr>)) in
      rur_update (update_rules (\<lambda>r. rd_ID r = rd_ID dbr \<and> rd_Status r = rd_Status dbr) (\<lambda>r. touch_rule dbr (r\<lparr>rd_Tags := rd_Tags dbr\<rparr>))))"

definition rur_UpdateRuleSchedule :: "Rule \<Rightarrow> (rules_db, gerror, Rule) io" where
  "rur_UpdateRuleSchedule rule =
     (let dbr = stored_rule (ruleToDb rule) in
      rur_update (update_rules (\<lambda>r. rd_ID r = rd_ID dbr) (\<lambda>r. touch_rule dbr (r\<lparr>rd_StartDateTime := rd_StartDateTime dbr, rd_Time := rd_Time dbr,
        rd_Recurring := rd_Recurring dbr, rd_RecurringPeriod := rd_RecurringPeriod dbr\<rparr>))))"

definition rur_RemoveRule :: "string \<Rightarrow> (rules_db, gerror, unit) io" where
  "rur_RemoveRule i =
     trying (db_exec (delete_rule i)) (HandleError repoErrRemoveEntity) (\<lambda>n.
     trying (driver (ret n)) (WrapDB repoErrRemoveEntity) (\<lambda>rowsAffected.
     if rowsAffected = 0 then fail repoErrNotFound else ret ()))"

text \<open>A rule that is gone is updated without an error; a zero time is stored as null.\<close>

definition rur_UpdateRuleDue :: "int \<Rightarrow> string \<Rightarrow> int \<Rightarrow> (rules_db, gerror, Rule) io" where
  "rur_UpdateRuleDue now i due =
     trying (db_exec (update_rules (\<lambda>r. rd_ID r = i) (\<lambda>r. r\<lparr>rd_Time := map_option at_micros (null_at due), rd_UpdatedAt := at_micros now\<rparr>)))
       (HandleError repoErrUpdateEntity) (\<lambda>rows. case rows of
       [] \<Rightarrow> ret Rule0
     | x # _ \<Rightarrow> trying (driver (ret x)) (WrapDB repoErrUpdateEntity) (\<lambda>dbr. ret (dbToRule dbr)))"

text \<open>What PostgreSQL decides: \<open>ILIKE\<close> with a text in it, and which of two rows comes first by a column and a direction.\<close>

record rule_engine =
  re_ilike :: "string \<Rightarrow> string \<Rightarrow> bool"
  re_before :: "string \<Rightarrow> string \<Rightarrow> dbRule \<Rightarrow> dbRule \<Rightarrow> bool"

fun insert_by :: "('a \<Rightarrow> 'a \<Rightarrow> bool) \<Rightarrow> 'a \<Rightarrow> 'a list \<Rightarrow> 'a list" where
  "insert_by before x [] = [x]"
| "insert_by before x (y # ys) = (if before y x then y # insert_by before x ys else x # y # ys)"

definition sort_by :: "('a \<Rightarrow> 'a \<Rightarrow> bool) \<Rightarrow> 'a list \<Rightarrow> 'a list" where
  "sort_by before xs = foldr (insert_by before) xs []"

definition pageRulesQueryConditions :: "rule_engine \<Rightarrow> RulePM \<Rightarrow> dbRule \<Rightarrow> bool" where
  "pageRulesQueryConditions pg pm r \<longleftrightarrow>
     (rq_InputChannel pm = [] \<or> rd_InputChannel r = rq_InputChannel pm) \<and>
     (rq_Status pm = AllStatuses \<or> rd_Status r = rq_Status pm) \<and>
     (rq_Domain pm = [] \<or> rd_DomainID r = rq_Domain pm) \<and>
     (rq_Tag pm = [] \<or> list_ex (\<lambda>tag. re_ilike pg (rq_Tag pm) tag) (rd_Tags r)) \<and>
     (case rq_ScheduledBefore pm of None \<Rightarrow> True | Some b \<Rightarrow> (case rd_Time r of None \<Rightarrow> False | Some t \<Rightarrow> t < at_micros b)) \<and>
     (case rq_ScheduledAfter pm of None \<Rightarrow> True | Some a \<Rightarrow> (case rd_Time r of None \<Rightarrow> False | Some t \<Rightarrow> at_micros a < t)) \<and>
     (rq_Name pm = [] \<or> re_ilike pg (rq_Name pm) (rd_Name r)) \<and>
     (rq_Scheduled pm = Some False \<longrightarrow> rd_Time r = None)"

definition rulesOrderClause :: "rule_engine \<Rightarrow> RulePM \<Rightarrow> dbRule list \<Rightarrow> dbRule list" where
  "rulesOrderClause pg pm =
     (let dir = (if rq_Dir pm = ''asc'' then ''asc'' else ''desc'') in
      sort_by (re_before pg (if rq_Order pm = ''name'' then ''name'' else if rq_Order pm = ''created_at'' then ''created_at''
        else ''COALESCE(updated_at, created_at)'') dir))"

text \<open>A limit of zero is no limit.\<close>

definition rulesPageData :: "RulePM \<Rightarrow> dbRule list \<Rightarrow> dbRule list" where
  "rulesPageData pm rs = (let rest = drop (rq_Offset pm) rs in if rq_Limit pm \<noteq> 0 then take (rq_Limit pm) rest else rest)"

text \<open>The listing leaves out the metadata.\<close>

definition rur_ListAllRules :: "rule_engine \<Rightarrow> RulePM \<Rightarrow> (rules_db, gerror, RulesPage) io" where
  "rur_ListAllRules pg pm =
     (let sel = (\<lambda>t. filter (pageRulesQueryConditions pg pm) (rt_rules t)) in
      trying (db_query (\<lambda>t. map (\<lambda>r. r\<lparr>rd_Metadata := None\<rparr>) (rulesPageData pm (rulesOrderClause pg pm (sel t))))) dberror_go (\<lambda>rows.
      trying (scan_rows rows) (WrapDB repoErrViewEntity) (\<lambda>items.
      trying (Total (\<lambda>t. length (sel t))) (WrapDB repoErrViewEntity) (\<lambda>total.
      ret \<lparr>rg_Offset = rq_Offset pm, rg_Limit = rq_Limit pm, rg_Total = total, rg_Rules = map dbToRule items\<rparr>))))"

section \<open>The service\<close>

record 'w RulesRepository =
  rr_AddRule :: "Rule \<Rightarrow> ('w, gerror, Rule) io"
  rr_ViewRule :: "string \<Rightarrow> ('w, gerror, Rule) io"
  rr_RetrieveByIDWithRoles :: "string \<Rightarrow> string \<Rightarrow> ('w, gerror, Rule) io"
  rr_UpdateRule :: "Rule \<Rightarrow> ('w, gerror, Rule) io"
  rr_UpdateRuleTags :: "Rule \<Rightarrow> ('w, gerror, Rule) io"
  rr_UpdateRuleSchedule :: "Rule \<Rightarrow> ('w, gerror, Rule) io"
  rr_RemoveRule :: "string \<Rightarrow> ('w, gerror, unit) io"
  rr_UpdateRuleStatus :: "Rule \<Rightarrow> ('w, gerror, Rule) io"
  rr_ListAllRules :: "RulePM \<Rightarrow> ('w, gerror, RulesPage) io"
  rr_ListUserRules :: "string \<Rightarrow> RulePM \<Rightarrow> ('w, gerror, RulesPage) io"
  rr_UpdateRuleDue :: "string \<Rightarrow> int \<Rightarrow> ('w, gerror, Rule) io"

record 'w rules_service =
  rv_repo :: "'w RulesRepository"
  rv_idp :: "('w, gerror, string) io"
  rv_now :: "'w \<Rightarrow> int \<times> 'w"
  rv_roles :: "'w ProvisionManageService"
  rv_alarmsPub :: "string \<Rightarrow> BrokerMessage \<Rightarrow> ('w, gerror, unit) io"

subsection \<open>Scripts that are refused\<close>

definition ErrGoroutinesNotAllowed :: gerror where "ErrGoroutinesNotAllowed = New ''goroutines are not allowed in Go scripts''"
definition ErrPanicNotAllowed :: gerror where "ErrPanicNotAllowed = New ''panic is not allowed in Go scripts''"

text \<open>The classes \<open>\s\<close> and \<open>\w\<close> of regular expressions.\<close>

definition re_space :: "char \<Rightarrow> bool" where
  "re_space c \<longleftrightarrow> c = CHR '' '' \<or> c = CHR 0x09 \<or> c = CHR 0x0A \<or> c = CHR 0x0C \<or> c = CHR 0x0D"

definition re_word :: "char \<Rightarrow> bool" where
  "re_word c \<longleftrightarrow> is_lower c \<or> is_digit c \<or> (65 \<le> (of_char c :: nat) \<and> (of_char c :: nat) \<le> 90) \<or> c = CHR ''_''"

text \<open>After a keyword: \<open>go\s+\<close>, then \<open>func\s*\(\<close> or \<open>\w+\(\<close>; and \<open>panic\s*\(\<close>.\<close>

definition after_go :: "string \<Rightarrow> string option" where
  "after_go s = (if HasPrefix s ''go'' then
      (case drop 2 s of c # r \<Rightarrow> if re_space c then Some (dropWhile re_space r) else None | [] \<Rightarrow> None) else None)"

definition go_func :: "string \<Rightarrow> bool" where
  "go_func s = (case after_go s of None \<Rightarrow> False | Some t \<Rightarrow> HasPrefix t ''func'' \<and> HasPrefix (dropWhile re_space (drop 4 t)) ''('')"

definition go_call :: "string \<Rightarrow> bool" where
  "go_call s = (case after_go s of None \<Rightarrow> False | Some t \<Rightarrow> takeWhile re_word t \<noteq> [] \<and> HasPrefix (dropWhile re_word t) ''('')"

definition panic_call :: "string \<Rightarrow> bool" where
  "panic_call s \<longleftrightarrow> HasPrefix s ''panic'' \<and> HasPrefix (dropWhile re_space (drop 5 s)) ''(''"

text \<open>Is there a place in the text, with the character before it, from which a pattern matches?\<close>

fun somewhere :: "(char option \<Rightarrow> string \<Rightarrow> bool) \<Rightarrow> char option \<Rightarrow> string \<Rightarrow> bool" where
  "somewhere p before [] = p before []"
| "somewhere p before (c # s) = (p before (c # s) \<or> somewhere p (Some c) s)"

definition boundary :: "char option \<Rightarrow> bool" where
  "boundary before = (case before of None \<Rightarrow> True | Some c \<Rightarrow> \<not> re_word c)"

definition goKeywordRegex :: "string \<Rightarrow> bool" where
  "goKeywordRegex s \<longleftrightarrow> go_call (dropWhile re_space s) \<or>
     somewhere (\<lambda>before t. boundary before \<and> go_func t \<or>
       (case before of None \<Rightarrow> False | Some c \<Rightarrow> (c = CHR '';'' \<or> re_space c \<or> c = CHR ''{'') \<and> (go_func t \<or> go_call t))) None s"

definition panicRegex :: "string \<Rightarrow> bool" where
  "panicRegex s \<longleftrightarrow> somewhere (\<lambda>before t. boundary before \<and> panic_call t) None s"

definition refused_script :: "Script \<Rightarrow> gerror option" where
  "refused_script l =
     (if sp_Type l = GoType \<and> goKeywordRegex (sp_Value l) then Some (Wrap svcErrMalformedEntity ErrGoroutinesNotAllowed)
      else if sp_Type l = GoType \<and> panicRegex (sp_Value l) then Some (Wrap svcErrMalformedEntity ErrPanicNotAllowed)
      else None)"

subsection \<open>Operations\<close>

definition rule_EntityType :: string where "rule_EntityType = ''rule''"

text \<open>A rule is added with the time of its creation as its start, if it has one.\<close>

definition new_rule :: "Session \<Rightarrow> string \<Rightarrow> int \<Rightarrow> Rule \<Rightarrow> Rule" where
  "new_rule session i now r =
     (let start = (if sd_StartDateTime (ru_Schedule r) \<noteq> 0 then now else sd_StartDateTime (ru_Schedule r)) in
      r\<lparr>ru_CreatedAt := now, ru_ID := i, ru_CreatedBy := s_UserID session, ru_DomainID := s_DomainID session, ru_Status := EnabledStatus,
        ru_Schedule := (ru_Schedule r)\<lparr>sd_StartDateTime := start, sd_Time := start\<rparr>\<rparr>)"

definition re_AddRule :: "'w rules_service \<Rightarrow> Session \<Rightarrow> Rule \<Rightarrow> ('w, gerror, Rule \<times> RoleProvision list) io" where
  "re_AddRule svc session r =
     guarded (refused_script (ru_Logic r))
       (pass (rv_idp svc) (\<lambda>i.
        observe (rv_now svc) (\<lambda>now.
        trying (rr_AddRule (rv_repo svc) (new_rule session i now r)) (Wrap svcErrCreateEntity) (\<lambda>rule.
        deferring (rr_RemoveRule (rv_repo svc) (ru_ID rule)) (\<lambda>retErr errRollBack. Wrap retErr (Wrap svcErrRollbackRepo errRollBack))
          (trying (AddNewEntitiesRoles (rv_roles svc) (s_DomainID session) (s_UserID session) [ru_ID rule]
              [Policy0\<lparr>p_SubjectType := DomainType, p_Subject := s_DomainID session, p_Relation := DomainRelation, p_ObjectType := rule_EntityType,
                p_Object := ru_ID rule\<rparr>] [(BuiltInRoleAdmin, [s_UserID session])])
             (Wrap svcErrAddPolicies) (\<lambda>rps. ret (rule, rps)))))))"

definition re_ViewRule :: "'w rules_service \<Rightarrow> Session \<Rightarrow> string \<Rightarrow> bool \<Rightarrow> ('w, gerror, Rule) io" where
  "re_ViewRule svc session i withRoles =
     trying (if withRoles then rr_RetrieveByIDWithRoles (rv_repo svc) i (s_UserID session) else rr_ViewRule (rv_repo svc) i) (Wrap svcErrViewEntity) ret"

definition updated_rule :: "Session \<Rightarrow> int \<Rightarrow> Rule \<Rightarrow> Rule" where
  "updated_rule session now r = r\<lparr>ru_UpdatedAt := now, ru_UpdatedBy := s_UserID session\<rparr>"

definition re_UpdateRule :: "'w rules_service \<Rightarrow> Session \<Rightarrow> Rule \<Rightarrow> ('w, gerror, Rule) io" where
  "re_UpdateRule svc session r =
     guarded (refused_script (ru_Logic r))
       (observe (rv_now svc) (\<lambda>now. trying (rr_UpdateRule (rv_repo svc) (updated_rule session now r)) (Wrap svcErrUpdateEntity) ret))"

definition re_UpdateRuleTags :: "'w rules_service \<Rightarrow> Session \<Rightarrow> Rule \<Rightarrow> ('w, gerror, Rule) io" where
  "re_UpdateRuleTags svc session r =
     observe (rv_now svc) (\<lambda>now. trying (rr_UpdateRuleTags (rv_repo svc) (updated_rule session now r)) (Wrap svcErrUpdateEntity) ret)"

definition re_UpdateRuleSchedule :: "'w rules_service \<Rightarrow> Session \<Rightarrow> Rule \<Rightarrow> ('w, gerror, Rule) io" where
  "re_UpdateRuleSchedule svc session r =
     observe (rv_now svc) (\<lambda>now. trying (rr_UpdateRuleSchedule (rv_repo svc) (updated_rule session now r)) (Wrap svcErrUpdateEntity) ret)"

definition re_ListRules :: "'w rules_service \<Rightarrow> Session \<Rightarrow> RulePM \<Rightarrow> ('w, gerror, RulesPage) io" where
  "re_ListRules svc session pm0 =
     (let pm = pm0\<lparr>rq_Domain := s_DomainID session\<rparr> in
      trying (if s_SuperAdmin session then rr_ListAllRules (rv_repo svc) pm else rr_ListUserRules (rv_repo svc) (s_UserID session) pm)
        (Wrap svcErrViewEntity) ret)"

definition re_RemoveRule :: "'w rules_service \<Rightarrow> Session \<Rightarrow> string \<Rightarrow> ('w, gerror, unit) io" where
  "re_RemoveRule svc session i = trying (rr_RemoveRule (rv_repo svc) i) (Wrap svcErrRemoveEntity) ret"

definition change_rule_status :: "'w rules_service \<Rightarrow> Session \<Rightarrow> string \<Rightarrow> string \<Rightarrow> ('w, gerror, Rule) io" where
  "change_rule_status svc session i text = (case re_ToStatus text of
      Inl err \<Rightarrow> fail err
    | Inr status \<Rightarrow> observe (rv_now svc) (\<lambda>now.
        trying (rr_UpdateRuleStatus (rv_repo svc) (updated_rule session now (Rule0\<lparr>ru_ID := i, ru_Status := status\<rparr>))) (Wrap svcErrUpdateEntity) ret))"

definition re_EnableRule :: "'w rules_service \<Rightarrow> Session \<Rightarrow> string \<Rightarrow> ('w, gerror, Rule) io" where
  "re_EnableRule svc session i = change_rule_status svc session i ''enabled''"

definition re_DisableRule :: "'w rules_service \<Rightarrow> Session \<Rightarrow> string \<Rightarrow> ('w, gerror, Rule) io" where
  "re_DisableRule svc session i = change_rule_status svc session i ''disabled''"

section \<open>Which rules run\<close>

definition maxPayload :: nat where "maxPayload = 100 * 1024"

definition payload_bytes :: "BrokerMessage \<Rightarrow> string" where
  "payload_bytes msg = (case bm_Payload msg of None \<Rightarrow> [] | Some p \<Rightarrow> p)"

text \<open>The loop over the levels of the subscribed topic, with the rest of the published one.\<close>

fun match_levels :: "string list \<Rightarrow> string list \<Rightarrow> bool" where
  "match_levels p [] = (p = [])"
| "match_levels p (l # s) =
     (if l = ''#'' then True
      else (case p of
              [] \<Rightarrow> False
            | q # ps \<Rightarrow> if l \<noteq> ''+'' \<and> q \<noteq> l then False else match_levels ps s))"

definition matchTopic :: "string \<Rightarrow> string \<Rightarrow> bool" where
  "matchTopic published subscribed = match_levels (split_on (CHR ''/'') published) (split_on (CHR ''/'') subscribed)"

text \<open>The rules a message starts; each of them is processed on its own.\<close>

definition re_Handle :: "'w rules_service \<Rightarrow> BrokerMessage \<Rightarrow> ('w, gerror, Rule list) io" where
  "re_Handle svc msg =
     (let n = length (payload_bytes msg) in
      if maxPayload < n then fail (New (''max payload size of 100kB exceeded: '' @ nat_str n))
      else pass (rr_ListAllRules (rv_repo svc) (RulePM0\<lparr>rq_Domain := bm_Domain msg, rq_InputChannel := bm_Channel msg, rq_Status := EnabledStatus,
             rq_Scheduled := Some False\<rparr>)) (\<lambda>page.
           ret (filter (\<lambda>r. matchTopic (bm_Subtopic msg) (ru_InputTopic r)) (rg_Rules page))))"

text \<open>The message a scheduled rule is run with: it has no payload, publisher or client, and its time is in seconds.\<close>

definition due_message :: "Rule \<Rightarrow> int \<Rightarrow> BrokerMessage" where
  "due_message rule due = \<lparr>bm_Channel = ru_InputChannel rule, bm_Domain = ru_DomainID rule, bm_Subtopic = ru_InputTopic rule, bm_Publisher = [],
     bm_Protocol = ''nats'', bm_Payload = None, bm_Created = of_int ((due - 62135596800 * 1000000000) div 1000000000), bm_ClientId = []\<rparr>"

text \<open>A rule whose next time cannot be stored is not run.\<close>

fun run_due :: "'w rules_service \<Rightarrow> int \<Rightarrow> Rule list \<Rightarrow> ('w, gerror, (Rule \<times> BrokerMessage) list) io" where
  "run_due svc due [] = ret []"
| "run_due svc due (r # rs) =
     observe (rr_UpdateRuleDue (rv_repo svc) (ru_ID r) (NextDue (ru_Schedule r))) (\<lambda>x.
     pass (run_due svc due rs) (\<lambda>runs. case x of
       Inl err \<Rightarrow> ret runs
     | Inr _ \<Rightarrow> ret ((r, due_message r due) # runs)))"

text \<open>One tick of \<open>StartScheduler\<close>: the rules that are run; an error of the listing is logged.\<close>

definition re_tick :: "'w rules_service \<Rightarrow> ('w, gerror, (Rule \<times> BrokerMessage) list) io" where
  "re_tick svc =
     observe (rv_now svc) (\<lambda>due.
     observe (rr_ListAllRules (rv_repo svc) (RulePM0\<lparr>rq_Status := EnabledStatus, rq_Scheduled := Some True, rq_ScheduledBefore := Some due\<rparr>)) (\<lambda>x. case x of
       Inl err \<Rightarrow> ret []
     | Inr page \<Rightarrow> run_due svc due (rg_Rules page)))"

section \<open>The output that raises alarms\<close>

definition alarm_message :: "(Alarm \<Rightarrow> gerror + string) \<Rightarrow> string \<Rightarrow> BrokerMessage \<Rightarrow> Alarm \<Rightarrow> gerror + BrokerMessage" where
  "alarm_message encode ruleID msg alarm =
     (case encode (alarm\<lparr>al_RuleID := ruleID, al_DomainID := bm_Domain msg, al_ClientID := ClientIdentity msg, al_ChannelID := bm_Channel msg,
         al_Subtopic := bm_Subtopic msg\<rparr>) of
        Inl err \<Rightarrow> Inl err
      | Inr buf \<Rightarrow> Inr (msg\<lparr>bm_ClientId := ClientIdentity msg, bm_Payload := Some buf\<rparr>))"

definition processAlarm ::
  "(Alarm \<Rightarrow> gerror + string) \<Rightarrow> 'w rules_service \<Rightarrow> string \<Rightarrow> BrokerMessage \<Rightarrow> Alarm \<Rightarrow> ('w, gerror, unit) io" where
  "processAlarm encode svc ruleID msg alarm =
     (case alarm_message encode ruleID msg alarm of
        Inl err \<Rightarrow> fail err
      | Inr m \<Rightarrow> rv_alarmsPub svc (EncodeMessageTopic \<lparr>Channel = bm_Channel msg, Domain = bm_Domain msg, Subtopic = bm_Subtopic msg\<rparr>) m)"

fun process_alarms ::
  "(Alarm \<Rightarrow> gerror + string) \<Rightarrow> 'w rules_service \<Rightarrow> string \<Rightarrow> BrokerMessage \<Rightarrow> Alarm list \<Rightarrow> ('w, gerror, unit) io" where
  "process_alarms encode svc ruleID msg [] = ret ()"
| "process_alarms encode svc ruleID msg (a # as) = pass (processAlarm encode svc ruleID msg a) (\<lambda>_. process_alarms encode svc ruleID msg as)"

text \<open>\<open>alarms_of\<close> reads the value of the script as a list of alarms or as one alarm.\<close>

definition Alarm_Run ::
  "('v \<Rightarrow> gerror + Alarm list) \<Rightarrow> (Alarm \<Rightarrow> gerror + string) \<Rightarrow> 'w rules_service \<Rightarrow> string \<Rightarrow> BrokerMessage \<Rightarrow> 'v \<Rightarrow> ('w, gerror, unit) io" where
  "Alarm_Run alarms_of encode svc ruleID msg val =
     (case alarms_of val of Inl err \<Rightarrow> fail err | Inr as \<Rightarrow> process_alarms encode svc ruleID msg as)"

section \<open>The authorization middleware\<close>

definition OpAddRule :: opKey where "OpAddRule = 0"
definition OpViewRule :: opKey where "OpViewRule = 1"
definition OpUpdateRule :: opKey where "OpUpdateRule = 2"
definition OpUpdateRuleTags :: opKey where "OpUpdateRuleTags = 3"
definition OpUpdateRuleSchedule :: opKey where "OpUpdateRuleSchedule = 4"
definition OpRemoveRule :: opKey where "OpRemoveRule = 5"
definition OpListRules :: opKey where "OpListRules = 6"
definition OpEnableRule :: opKey where "OpEnableRule = 7"
definition OpDisableRule :: opKey where "OpDisableRule = 8"

definition rule_OperationDetails :: "(opKey \<times> OperationDetails) list" where
  "rule_OperationDetails = map (\<lambda>(op, n). (op, \<lparr>od_Name = n, od_PermissionRequired = True\<rparr>))
     [(OpAddRule, ''add''), (OpViewRule, ''view''), (OpUpdateRule, ''update''), (OpUpdateRuleTags, ''update_tags''),
      (OpUpdateRuleSchedule, ''update_schedule''), (OpRemoveRule, ''delete''), (OpListRules, ''list''), (OpEnableRule, ''enable''),
      (OpDisableRule, ''disable'')]"

definition errDomainCreateRules :: gerror where "errDomainCreateRules = New ''not authorized to create rules in domain''"
definition errDomainViewRules :: gerror where "errDomainViewRules = New ''not authorized to view rules in domain''"
definition errDomainUpdateRules :: gerror where "errDomainUpdateRules = New ''not authorized to update rules in domain''"
definition errDomainDeleteRules :: gerror where "errDomainDeleteRules = New ''not authorized to delete rules in domain''"

record 'w rules_authz =
  rm_svc :: "'w rules_service"
  rm_Authorize :: "Policy \<Rightarrow> PATReq option \<Rightarrow> ('w, gerror, unit) io"
  rm_entitiesOps :: entitiesOperations

definition ram_authorize :: "'w rules_authz \<Rightarrow> opKey \<Rightarrow> Session \<Rightarrow> string \<Rightarrow> string \<Rightarrow> ('w, gerror, unit) io" where
  "ram_authorize am op session objType obj =
     (case eo_GetPermission (rm_entitiesOps am) rule_EntityType op of
        Inl err \<Rightarrow> fail err
      | Inr perm \<Rightarrow>
          rm_Authorize am (Policy0\<lparr>p_Domain := s_DomainID session, p_SubjectType := UserType, p_SubjectKind := UsersKind,
              p_Subject := s_DomainUserID session, p_Object := obj, p_ObjectType := objType, p_Permission := perm\<rparr>)
            (if s_PatID session \<noteq> [] then
               Some \<lparr>pq_PatID = s_PatID session, pq_Domain = s_DomainID session,
                 pq_Operation = eo_OperationName (rm_entitiesOps am) rule_EntityType op, pq_UserID = s_UserID session,
                 pq_EntityID = s_DomainID session, pq_EntityType = rule_EntityType\<rparr>
             else None))"

definition ram_checkSuperAdmin :: "'w rules_authz \<Rightarrow> Session \<Rightarrow> ('w, gerror, unit) io" where
  "ram_checkSuperAdmin am session =
     (if s_Role session \<noteq> SessionSuperAdminRole then fail svcErrSuperAdminAction
      else rm_Authorize am (Policy0\<lparr>p_SubjectType := UserType, p_Subject := s_UserID session, p_Permission := AdminPermission,
        p_ObjectType := PlatformType, p_Object := MagistralaObject\<rparr>) None)"

definition ram_AddRule :: "'w rules_authz \<Rightarrow> Session \<Rightarrow> Rule \<Rightarrow> ('w, gerror, Rule \<times> RoleProvision list) io" where
  "ram_AddRule am session r =
     trying (ram_authorize am OpAddRule session DomainType (s_DomainID session)) (Wrap errDomainCreateRules) (\<lambda>_. re_AddRule (rm_svc am) session r)"

definition ram_ViewRule :: "'w rules_authz \<Rightarrow> Session \<Rightarrow> string \<Rightarrow> bool \<Rightarrow> ('w, gerror, Rule) io" where
  "ram_ViewRule am session i withRoles =
     trying (ram_authorize am OpViewRule session rule_EntityType i) (Wrap errDomainViewRules) (\<lambda>_. re_ViewRule (rm_svc am) session i withRoles)"

definition ram_UpdateRule :: "'w rules_authz \<Rightarrow> Session \<Rightarrow> Rule \<Rightarrow> ('w, gerror, Rule) io" where
  "ram_UpdateRule am session r =
     trying (ram_authorize am OpUpdateRule session rule_EntityType (ru_ID r)) (Wrap errDomainUpdateRules) (\<lambda>_. re_UpdateRule (rm_svc am) session r)"

definition ram_UpdateRuleTags :: "'w rules_authz \<Rightarrow> Session \<Rightarrow> Rule \<Rightarrow> ('w, gerror, Rule) io" where
  "ram_UpdateRuleTags am session r =
     trying (ram_authorize am OpUpdateRuleTags session rule_EntityType (ru_ID r)) (Wrap errDomainUpdateRules) (\<lambda>_. re_UpdateRuleTags (rm_svc am) session r)"

definition ram_UpdateRuleSchedule :: "'w rules_authz \<Rightarrow> Session \<Rightarrow> Rule \<Rightarrow> ('w, gerror, Rule) io" where
  "ram_UpdateRuleSchedule am session r =
     trying (ram_authorize am OpUpdateRuleSchedule session rule_EntityType (ru_ID r)) (Wrap errDomainUpdateRules)
       (\<lambda>_. re_UpdateRuleSchedule (rm_svc am) session r)"

definition ram_ListRules :: "'w rules_authz \<Rightarrow> Session \<Rightarrow> RulePM \<Rightarrow> ('w, gerror, RulesPage) io" where
  "ram_ListRules am session pm =
     observe (ram_checkSuperAdmin am session) (\<lambda>r. case r of
       Inr _ \<Rightarrow> re_ListRules (rm_svc am) (session\<lparr>s_SuperAdmin := True\<rparr>) pm
     | Inl err \<Rightarrow> if Contains err svcErrSuperAdminAction then re_ListRules (rm_svc am) session pm else fail err)"

definition ram_RemoveRule :: "'w rules_authz \<Rightarrow> Session \<Rightarrow> string \<Rightarrow> ('w, gerror, unit) io" where
  "ram_RemoveRule am session i =
     trying (ram_authorize am OpRemoveRule session rule_EntityType i) (Wrap errDomainDeleteRules) (\<lambda>_. re_RemoveRule (rm_svc am) session i)"

definition ram_EnableRule :: "'w rules_authz \<Rightarrow> Session \<Rightarrow> string \<Rightarrow> ('w, gerror, Rule) io" where
  "ram_EnableRule am session i =
     trying (ram_authorize am OpEnableRule session rule_EntityType i) (Wrap errDomainUpdateRules) (\<lambda>_. re_EnableRule (rm_svc am) session i)"

definition ram_DisableRule :: "'w rules_authz \<Rightarrow> Session \<Rightarrow> string \<Rightarrow> ('w, gerror, Rule) io" where
  "ram_DisableRule am session i =
     trying (ram_authorize am OpDisableRule session rule_EntityType i) (Wrap errDomainUpdateRules) (\<lambda>_. re_DisableRule (rm_svc am) session i)"

end
