(* ===== verification/RulesApi.thy ===== *)
theory RulesApi
  imports Rules
begin

text \<open>
  The requests to the rules engine over HTTP (\<open>re/api\<close>): their validation, the endpoints and the decoding of
  queries and bodies. The JSON decoders of bodies are arguments.
\<close>

section \<open>Validation\<close>

definition apiErrMissingID :: gerror where "apiErrMissingID = NewRequestError ''missing entity id''"
definition apiErrNameSize :: gerror where "apiErrNameSize = NewRequestError ''invalid name size''"

definition addRuleReq_validate :: "int \<Rightarrow> Rule \<Rightarrow> gerror option" where
  "addRuleReq_validate now rule =
     (if 1024 < length (ru_Name rule) \<or> ru_Name rule = [] then Some apiErrNameSize
      else map_option (\<lambda>err. Wrap err apiErrValidation) (Schedule_Validate now (ru_Schedule rule)))"

definition rule_id_validate :: "string \<Rightarrow> gerror option" where
  "rule_id_validate i = (if i = [] then Some apiErrMissingID else None)"

definition listRulesReq_validate :: "RulePM \<Rightarrow> gerror option" where
  "listRulesReq_validate pm =
     (if 1000 < rq_Limit pm then Some apiErrLimitSize
      else if rq_Order pm \<noteq> [] \<and> rq_Order pm \<noteq> ''name'' \<and> rq_Order pm \<noteq> ''created_at'' \<and> rq_Order pm \<noteq> ''updated_at''
      then Some (Wrap apiErrInvalidOrder apiErrValidation)
      else if rq_Dir pm \<noteq> ''asc'' \<and> rq_Dir pm \<noteq> ''desc'' then Some apiErrInvalidDirection
      else None)"

definition updateRuleReq_validate :: "Rule \<Rightarrow> gerror option" where
  "updateRuleReq_validate rule =
     (if ru_ID rule = [] then Some apiErrMissingID else if 1024 < length (ru_Name rule) then Some apiErrNameSize else None)"

definition updateRuleScheduleReq_validate :: "int \<Rightarrow> string \<Rightarrow> Schedule \<Rightarrow> gerror option" where
  "updateRuleScheduleReq_validate now i s =
     (if i = [] then Some apiErrMissingID else map_option (\<lambda>err. Wrap err apiErrValidation) (Schedule_Validate now s))"

section \<open>Endpoints\<close>

text \<open>The session comes first, and the errors of the validation are returned as they are.\<close>

definition in_session :: "Session option \<Rightarrow> gerror option \<Rightarrow> (Session \<Rightarrow> ('w, gerror, 'a) io) \<Rightarrow> ('w, gerror, 'a) io" where
  "in_session session invalid k = (case session of None \<Rightarrow> fail svcErrAuthorization | Some s \<Rightarrow> guarded invalid (k s))"

definition addRuleEndpoint :: "'w rules_authz \<Rightarrow> Session option \<Rightarrow> Rule \<Rightarrow> ('w, gerror, Rule) io" where
  "addRuleEndpoint am session req = (case session of
      None \<Rightarrow> fail svcErrAuthorization
    | Some s \<Rightarrow> observe (rv_now (rm_svc am)) (\<lambda>now.
        guarded (addRuleReq_validate now req) (pass (ram_AddRule am s req) (\<lambda>(rule, _). ret rule))))"

definition viewRuleEndpoint :: "'w rules_authz \<Rightarrow> Session option \<Rightarrow> string \<times> bool \<Rightarrow> ('w, gerror, Rule) io" where
  "viewRuleEndpoint am session req = (case req of (i, withRoles) \<Rightarrow>
     in_session session (rule_id_validate i) (\<lambda>s. ram_ViewRule am s i withRoles))"

definition updateRuleEndpoint :: "'w rules_authz \<Rightarrow> Session option \<Rightarrow> Rule \<Rightarrow> ('w, gerror, Rule) io" where
  "updateRuleEndpoint am session req = in_session session (updateRuleReq_validate req) (\<lambda>s. ram_UpdateRule am s req)"

text \<open>The endpoint of the tags validates before it looks for the session, and fails with another error without one.\<close>

definition updateRuleTagsEndpoint :: "'w rules_authz \<Rightarrow> Session option \<Rightarrow> string \<times> string list \<Rightarrow> ('w, gerror, Rule) io" where
  "updateRuleTagsEndpoint am session req = (case req of (i, tags) \<Rightarrow>
     guarded (map_option (Wrap apiErrValidation) (rule_id_validate i)) (case session of
       None \<Rightarrow> fail svcErrAuthentication
     | Some s \<Rightarrow> ram_UpdateRuleTags am s (Rule0\<lparr>ru_ID := i, ru_Tags := tags\<rparr>)))"

definition updateRuleScheduleEndpoint :: "'w rules_authz \<Rightarrow> Session option \<Rightarrow> string \<times> Schedule \<Rightarrow> ('w, gerror, Rule) io" where
  "updateRuleScheduleEndpoint am session req = (case req of (i, sched) \<Rightarrow> (case session of
      None \<Rightarrow> fail svcErrAuthorization
    | Some s \<Rightarrow> observe (rv_now (rm_svc am)) (\<lambda>now.
        guarded (updateRuleScheduleReq_validate now i sched) (ram_UpdateRuleSchedule am s (Rule0\<lparr>ru_ID := i, ru_Schedule := sched\<rparr>)))))"

definition listRulesEndpoint :: "'w rules_authz \<Rightarrow> Session option \<Rightarrow> RulePM \<Rightarrow> ('w, gerror, RulesPage) io" where
  "listRulesEndpoint am session req = in_session session (listRulesReq_validate req) (\<lambda>s. ram_ListRules am s req)"

definition deleteRuleEndpoint :: "'w rules_authz \<Rightarrow> Session option \<Rightarrow> string \<Rightarrow> ('w, gerror, unit) io" where
  "deleteRuleEndpoint am session i = in_session session (rule_id_validate i) (\<lambda>s. ram_RemoveRule am s i)"

definition enableRuleEndpoint :: "'w rules_authz \<Rightarrow> Session option \<Rightarrow> string \<Rightarrow> ('w, gerror, Rule) io" where
  "enableRuleEndpoint am session i = in_session session (rule_id_validate i) (\<lambda>s. ram_EnableRule am s i)"

definition disableRuleEndpoint :: "'w rules_authz \<Rightarrow> Session option \<Rightarrow> string \<Rightarrow> ('w, gerror, Rule) io" where
  "disableRuleEndpoint am session i = in_session session (rule_id_validate i) (\<lambda>s. ram_DisableRule am s i)"

section \<open>Requests\<close>

definition json_body :: "(string \<Rightarrow> gerror + 'a) \<Rightarrow> string \<Rightarrow> string \<Rightarrow> ('a \<Rightarrow> 'b) \<Rightarrow> gerror + 'b" where
  "json_body json contentType body k =
     (if \<not> ContainsStr contentType ''application/json'' then Inl apiErrUnsupportedContentType
      else (case json body of Inl err \<Rightarrow> Inl (Wrap apiErrMalformedRequestBody err) | Inr x \<Rightarrow> Inr (k x)))"

definition decodeAddRuleRequest :: "(string \<Rightarrow> gerror + Rule) \<Rightarrow> string \<Rightarrow> string \<Rightarrow> gerror + Rule" where
  "decodeAddRuleRequest json contentType body = json_body json contentType body (\<lambda>rule. rule)"

definition decodeUpdateRuleRequest :: "(string \<Rightarrow> gerror + Rule) \<Rightarrow> string \<Rightarrow> string \<Rightarrow> string \<Rightarrow> gerror + Rule" where
  "decodeUpdateRuleRequest json contentType ruleID body = json_body json contentType body (\<lambda>rule. rule\<lparr>ru_ID := ruleID\<rparr>)"

definition decodeUpdateRuleTags :: "(string \<Rightarrow> gerror + string list) \<Rightarrow> string \<Rightarrow> string \<Rightarrow> string \<Rightarrow> gerror + (string \<times> string list)" where
  "decodeUpdateRuleTags json contentType ruleID body = json_body json contentType body (\<lambda>tags. (ruleID, tags))"

definition decodeUpdateRuleScheduleRequest :: "(string \<Rightarrow> gerror + Schedule) \<Rightarrow> string \<Rightarrow> string \<Rightarrow> string \<Rightarrow> gerror + (string \<times> Schedule)" where
  "decodeUpdateRuleScheduleRequest json contentType ruleID body = json_body json contentType body (\<lambda>s. (ruleID, s))"

text \<open>\<open>strconv.ParseBool\<close>; the text of the value is left out of the error.\<close>

definition ParseBool :: "string \<Rightarrow> gerror + bool" where
  "ParseBool s =
     (if s \<in> set [''1'', ''t'', ''T'', ''true'', ''TRUE'', ''True''] then Inr True
      else if s \<in> set [''0'', ''f'', ''F'', ''false'', ''FALSE'', ''False''] then Inr False
      else Inl (Foreign ''strconv.ParseBool: invalid syntax''))"

definition ReadBoolQuery :: "url_query \<Rightarrow> string \<Rightarrow> bool \<Rightarrow> gerror + bool" where
  "ReadBoolQuery q key def = (case q key of
      [] \<Rightarrow> Inr def
    | [v] \<Rightarrow> (case ParseBool v of Inl err \<Rightarrow> Inl (Wrap apiErrInvalidQueryParams err) | Inr b \<Rightarrow> Inr b)
    | _ \<Rightarrow> Inl apiErrInvalidQueryParams)"

definition decodeViewRuleRequest :: "string \<Rightarrow> url_query \<Rightarrow> gerror + (string \<times> bool)" where
  "decodeViewRuleRequest ruleID q = reading (ReadBoolQuery q ''roles'' False) (\<lambda>withRoles. Inr (ruleID, withRoles))"

definition decodeListRulesRequest :: "url_query \<Rightarrow> gerror + RulePM" where
  "decodeListRulesRequest q =
     reading (ReadNumQuery_uint64 q ''offset'' 0) (\<lambda>offset.
     reading (ReadNumQuery_uint64 q ''limit'' 10) (\<lambda>limit.
     reading (ReadStringQuery q ''name'' []) (\<lambda>name.
     reading (ReadStringQuery q ''input_channel'' []) (\<lambda>ic.
     reading (ReadStringQuery q ''status'' ''enabled'') (\<lambda>s.
     reading (ReadStringQuery q ''dir'' ''desc'') (\<lambda>dir.
     reading (ReadStringQuery q ''order'' ''updated_at'') (\<lambda>order.
     reading (re_ToStatus s) (\<lambda>st.
     reading (ReadStringQuery q ''tag'' []) (\<lambda>tag.
       Inr (RulePM0\<lparr>rq_Offset := offset, rq_Limit := limit, rq_Name := name, rq_InputChannel := ic, rq_Status := st, rq_Dir := dir,
         rq_Order := order, rq_Tag := tag\<rparr>))))))))))"

section \<open>What a request may ask for\<close>

text \<open>An error of the endpoint before the service is called leaves the world as the clock left it.\<close>

lemma invalid_rule_is_not_added:
  "addRuleReq_validate (fst (rv_now (rm_svc am) w)) req = Some err \<Longrightarrow>
   addRuleEndpoint am (Some s) req w = (Inl err, snd (rv_now (rm_svc am) w))"
  by (cases "rv_now (rm_svc am) w") (simp add: addRuleEndpoint_def observe_apply guarded_def)

text \<open>A start is accepted only when it is not past; zero stands for none.\<close>

lemma accepted_start:
  "addRuleReq_validate now rule = None \<longleftrightarrow>
   ru_Name rule \<noteq> [] \<and> length (ru_Name rule) \<le> 1024 \<and> (sd_StartDateTime (ru_Schedule rule) = 0 \<or> now \<le> sd_StartDateTime (ru_Schedule rule))"
  by (auto simp: addRuleReq_validate_def Schedule_Validate_def)

text \<open>A page of a request is decoded without a time, so that a listing over HTTP is of scheduled and other rules alike.\<close>

lemma decoded_page:
  "decodeListRulesRequest q = Inr pm \<Longrightarrow>
   rq_Scheduled pm = None \<and> rq_ScheduledBefore pm = None \<and> rq_ScheduledAfter pm = None \<and> rq_Domain pm = []"
  by (auto simp: decodeListRulesRequest_def reading_def RulePM0_def split: sum.splits)

end
