(* ===== verification/RuleRuns.thy ===== *)
theory RuleRuns
  imports RulesApi AlarmState GroupTree
begin

text \<open>
  Which rules run and when: topics of rules as MQTT filters, what a tick of the scheduler runs, what
  becomes of a rule that was scheduled once, and of the alarms that scheduled rules raise.
\<close>

section \<open>Topics\<close>

text \<open>The filters of MQTT, level by level: a plus stands for one level, a final hash for any number of levels.\<close>

inductive mqtt_matches :: "string list \<Rightarrow> string list \<Rightarrow> bool" where
  both_end: "mqtt_matches [] []"
| rest: "mqtt_matches ps [''#'']"
| one_level: "mqtt_matches ps fs \<Longrightarrow> mqtt_matches (p # ps) (''+'' # fs)"
| same_level: "mqtt_matches ps fs \<Longrightarrow> mqtt_matches (l # ps) (l # fs)"

inductive_simps mqtt_matches_Nil: "mqtt_matches ps []"
inductive_simps mqtt_matches_Cons: "mqtt_matches ps (l # fs)"

fun up_to_hash :: "string list \<Rightarrow> string list" where
  "up_to_hash [] = []"
| "up_to_hash (l # fs) = (if l = ''#'' then [''#''] else l # up_to_hash fs)"

lemma match_levels_iff: "match_levels ps fs \<longleftrightarrow> mqtt_matches ps (up_to_hash fs)"
proof (induction ps fs rule: match_levels.induct)
  case (1 p)
  show ?case by (auto simp: mqtt_matches_Nil)
next
  case (2 p l s)
  show ?case
  proof (cases "l = ''#''")
    case True
    then show ?thesis by (auto intro: mqtt_matches.rest)
  next
    case False
    with 2 show ?thesis by (cases p) (auto simp: mqtt_matches_Cons)
  qed
qed

lemma up_to_hash_valid: "''#'' \<notin> set (butlast fs) \<Longrightarrow> up_to_hash fs = fs"
  by (induction fs) (auto split: if_splits)

text \<open>C30: A rule whose input topic is a filter of MQTT, with a hash at its end at most, is started by exactly the
  subtopics the filter matches; of any other input topic the levels after the first hash are ignored.\<close>

theorem matchTopic_is_the_filter:
  "(matchTopic published subscribed \<longleftrightarrow> mqtt_matches (split_on (CHR ''/'') published) (up_to_hash (split_on (CHR ''/'') subscribed))) \<and>
   (''#'' \<notin> set (butlast (split_on (CHR ''/'') subscribed)) \<longrightarrow>
     (matchTopic published subscribed \<longleftrightarrow> mqtt_matches (split_on (CHR ''/'') published) (split_on (CHR ''/'') subscribed)))"
  by (simp add: matchTopic_def match_levels_iff up_to_hash_valid)

theorem matchTopic_is_the_filter_witness:
  "matchTopic ''room/1/temp'' ''room/+/#'' \<and> mqtt_matches [''room'', ''1'', ''temp''] [''room'', ''+'', ''#''] \<and>
   \<not> mqtt_matches [''room''] [''room'', ''+'']"
proof -
  have s: "split_on (CHR ''/'') ''room/1/temp'' = [''room'', ''1'', ''temp'']" "split_on (CHR ''/'') ''room/+/#'' = [''room'', ''+'', ''#'']"
    "split_on (CHR ''/'') ''room'' = [''room'']" "split_on (CHR ''/'') ''room/+'' = [''room'', ''+'']" by code_simp+
  have "matchTopic ''room/1/temp'' ''room/+/#''" "\<not> matchTopic ''room'' ''room/+''" by code_simp+
  with matchTopic_is_the_filter [of "''room/1/temp''" "''room/+/#''"] matchTopic_is_the_filter [of "''room''" "''room/+''"] show ?thesis
    unfolding s by simp
qed

section \<open>The scheduler over a store of rules\<close>

definition due_row :: "int \<Rightarrow> dbRule \<Rightarrow> dbRule" where
  "due_row d r = r\<lparr>rd_Time := map_option at_micros (null_at d)\<rparr>"

text \<open>What the scheduler and the handler look at in a rule.\<close>

definition rule_view :: "Rule \<Rightarrow> string \<times> Schedule \<times> string \<times> string \<times> string" where
  "rule_view r = (ru_ID r, ru_Schedule r, ru_InputTopic r, ru_InputChannel r, ru_DomainID r)"

lemma rule_view_eq: "rule_view q = rule_view r \<longleftrightarrow> ru_ID q = ru_ID r \<and> ru_Schedule q = ru_Schedule r \<and> ru_InputTopic q = ru_InputTopic r \<and>
    ru_InputChannel q = ru_InputChannel r \<and> ru_DomainID q = ru_DomainID r"
  by (auto simp: rule_view_def)

text \<open>
  A store that does not fail: a listing without a limit has the chosen rows, a new time is stored. The rows are
  seen without the time of their last update.
\<close>

locale rule_store =
  fixes rules :: "'w \<Rightarrow> dbRule list" and calm :: "'w \<Rightarrow> bool" and chosen :: "RulePM \<Rightarrow> dbRule \<Rightarrow> bool" and now :: "'w \<Rightarrow> int" and svc :: "'w rules_service"
  assumes listed: "calm w \<Longrightarrow> rq_Limit pm = 0 \<Longrightarrow> rq_Offset pm = 0 \<Longrightarrow>
      \<exists>page. rr_ListAllRules (rv_repo svc) pm w = (Inr page, w) \<and> rule_view ` set (rg_Rules page) = (rule_view \<circ> dbToRule) ` {r \<in> set (rules w). chosen pm r}"
    and rescheduled: "calm w \<Longrightarrow>
      \<exists>x w'. rr_UpdateRuleDue (rv_repo svc) i d w = (Inr x, w') \<and> calm w' \<and> rules w' = map (\<lambda>r. if rd_ID r = i then due_row d r else r) (rules w)"
    and clock: "calm w \<Longrightarrow> \<exists>w'. rv_now svc w = (now w, w') \<and> calm w' \<and> rules w' = rules w"
begin

definition reschedule :: "Rule list \<Rightarrow> dbRule \<Rightarrow> dbRule" where
  "reschedule rs r = foldl (\<lambda>x q. if rd_ID x = ru_ID q then due_row (NextDue (ru_Schedule q)) x else x) r rs"

lemma run_due_calm:
  "calm w \<Longrightarrow> \<exists>w'. run_due svc due rs w = (Inr (map (\<lambda>r. (r, due_message r due)) rs), w') \<and> calm w' \<and> rules w' = map (reschedule rs) (rules w)"
proof (induction rs arbitrary: w)
  case Nil
  then show ?case by (auto simp: reschedule_def)
next
  case (Cons q rs)
  from rescheduled [OF Cons.prems, of "ru_ID q" "NextDue (ru_Schedule q)"] obtain x w1 where
    u: "rr_UpdateRuleDue (rv_repo svc) (ru_ID q) (NextDue (ru_Schedule q)) w = (Inr x, w1)" "calm w1"
      "rules w1 = map (\<lambda>r. if rd_ID r = ru_ID q then due_row (NextDue (ru_Schedule q)) r else r) (rules w)" by blast
  from Cons.IH [OF u(2)] obtain w' where
    w': "run_due svc due rs w1 = (Inr (map (\<lambda>r. (r, due_message r due)) rs), w')" "calm w'" "rules w' = map (reschedule rs) (rules w1)" by blast
  then show ?case
    using u(1,3) by (auto simp: observe_apply pass_apply reschedule_def)
qed

lemma due_row_sel: "rd_ID (due_row d r) = rd_ID r" "due_row d (due_row e r) = due_row d r"
  by (simp_all add: due_row_def)

lemma reschedule_other: "rd_ID r \<notin> ru_ID ` set rs \<Longrightarrow> reschedule rs r = r"
  by (induction rs arbitrary: r) (auto simp: reschedule_def)

lemma reschedule_once:
  assumes "\<And>q. q \<in> set rs \<Longrightarrow> ru_ID q = rd_ID r \<Longrightarrow> NextDue (ru_Schedule q) = d" "rd_ID r \<in> ru_ID ` set rs"
  shows "reschedule rs r = due_row d r"
proof -
  have "reschedule qs x = due_row d r" if "set qs \<subseteq> set rs" "rd_ID x = rd_ID r" "x = due_row d r \<or> x = r \<and> rd_ID r \<in> ru_ID ` set qs" for qs x
    using that assms(1)
  proof (induction qs arbitrary: x)
    case (Cons q qs)
    have "rd_ID r = ru_ID q \<Longrightarrow> NextDue (ru_Schedule q) = d" using Cons.prems(1,4) by auto
    with Cons show ?case by (auto simp: reschedule_def due_row_sel)
  qed (auto simp: reschedule_def)
  from this [of rs r] assms(2) show ?thesis by simp
qed

lemma tick_calm:
  assumes "calm w" "distinct (map rd_ID (rules w))"
  defines "pm \<equiv> RulePM0\<lparr>rq_Status := EnabledStatus, rq_Scheduled := Some True, rq_ScheduledBefore := Some (now w)\<rparr>"
  shows "\<exists>runs w'. re_tick svc w = (Inr runs, w') \<and> calm w' \<and> (\<forall>(q, m) \<in> set runs. m = due_message q (now w)) \<and>
    rule_view ` fst ` set runs = (rule_view \<circ> dbToRule) ` {r \<in> set (rules w). chosen pm r} \<and>
    rules w' = map (\<lambda>r. if chosen pm r then due_row (NextDue (ru_Schedule (dbToRule r))) r else r) (rules w)"
proof -
  from clock [OF assms(1)] obtain w1 where c: "rv_now svc w = (now w, w1)" "calm w1" "rules w1 = rules w" by blast
  have "rq_Limit pm = 0" "rq_Offset pm = 0" by (simp_all add: pm_def RulePM0_def)
  from listed [OF c(2) this] obtain page where
    l: "rr_ListAllRules (rv_repo svc) pm w1 = (Inr page, w1)" "rule_view ` set (rg_Rules page) = (rule_view \<circ> dbToRule) ` {r \<in> set (rules w). chosen pm r}"
    unfolding c(3) by blast
  from run_due_calm [OF c(2)] obtain w' where
    w': "run_due svc (now w) (rg_Rules page) w1 = (Inr (map (\<lambda>r. (r, due_message r (now w))) (rg_Rules page)), w')" "calm w'"
      "rules w' = map (reschedule (rg_Rules page)) (rules w)" unfolding c(3) by blast
  have view: "\<exists>r \<in> set (rules w). chosen pm r \<and> rule_view q = rule_view (dbToRule r)" if "q \<in> set (rg_Rules page)" for q
  proof -
    from that have "rule_view q \<in> (rule_view \<circ> dbToRule) ` {r \<in> set (rules w). chosen pm r}" unfolding l(2) [symmetric] by (rule imageI)
    then show ?thesis by auto
  qed
  have inj: "r = s" if "r \<in> set (rules w)" "s \<in> set (rules w)" "rd_ID r = rd_ID s" for r s
    using assms(2) that by (auto simp: distinct_map inj_on_def)
  have "reschedule (rg_Rules page) r = (if chosen pm r then due_row (NextDue (ru_Schedule (dbToRule r))) r else r)" if r: "r \<in> set (rules w)" for r
  proof -
    have only: "r = s \<and> chosen pm r" if "q \<in> set (rg_Rules page)" "ru_ID q = rd_ID r" "s \<in> set (rules w)" "chosen pm s" "rule_view q = rule_view (dbToRule s)" for q s
      using that inj [OF r that(3)] by (auto simp: rule_view_eq dbToRule_def)
    show ?thesis
    proof (cases "chosen pm r")
      case True
      with r l(2) have "rule_view (dbToRule r) \<in> rule_view ` set (rg_Rules page)" by auto
      then obtain q where "q \<in> set (rg_Rules page)" "rule_view (dbToRule r) = rule_view q" by blast
      then have "rd_ID r \<in> ru_ID ` set (rg_Rules page)" by (force simp: rule_view_eq dbToRule_def)
      moreover have "NextDue (ru_Schedule q) = NextDue (ru_Schedule (dbToRule r))" if q: "q \<in> set (rg_Rules page)" "ru_ID q = rd_ID r" for q
        using view [OF q(1)] only [OF q] by (auto simp: rule_view_eq)
      ultimately show ?thesis using True reschedule_once [of "rg_Rules page" r] by simp
    next
      case False
      have "rd_ID r \<notin> ru_ID ` set (rg_Rules page)" using view only False by (metis (no_types, lifting) imageE)
      with False show ?thesis by (simp add: reschedule_other)
    qed
  qed
  then have "rules w' = map (\<lambda>r. if chosen pm r then due_row (NextDue (ru_Schedule (dbToRule r))) r else r) (rules w)" unfolding w'(3) by simp
  moreover have "re_tick svc w = (Inr (map (\<lambda>r. (r, due_message r (now w))) (rg_Rules page)), w')"
    using c(1) l(1) w'(1) by (simp add: re_tick_def observe_apply pm_def)
  ultimately show ?thesis using w'(2) l(2) by (force simp: image_image)
qed

lemma handled_calm:
  assumes "calm w" "length (payload_bytes msg) \<le> maxPayload"
  defines "pm \<equiv> RulePM0\<lparr>rq_Domain := bm_Domain msg, rq_InputChannel := bm_Channel msg, rq_Status := EnabledStatus, rq_Scheduled := Some False\<rparr>"
  shows "\<exists>qs. re_Handle svc msg w = (Inr qs, w) \<and>
    rule_view ` set qs = (rule_view \<circ> dbToRule) ` {r \<in> set (rules w). chosen pm r \<and> matchTopic (bm_Subtopic msg) (nullString (rd_InputTopic r))}"
proof -
  have "rq_Limit pm = 0" "rq_Offset pm = 0" by (simp_all add: pm_def RulePM0_def)
  from listed [OF assms(1) this] obtain page where
    l: "rr_ListAllRules (rv_repo svc) pm w = (Inr page, w)" "rule_view ` set (rg_Rules page) = (rule_view \<circ> dbToRule) ` {r \<in> set (rules w). chosen pm r}" by blast
  let ?ok = "\<lambda>v. matchTopic (bm_Subtopic msg) (fst (snd (snd v)))"
  have "rule_view ` {q \<in> set (rg_Rules page). matchTopic (bm_Subtopic msg) (ru_InputTopic q)} = {v \<in> rule_view ` set (rg_Rules page). ?ok v}"
    by (auto simp: rule_view_def)
  also have "\<dots> = (rule_view \<circ> dbToRule) ` {r \<in> set (rules w). chosen pm r \<and> matchTopic (bm_Subtopic msg) (nullString (rd_InputTopic r))}"
    unfolding l(2) by (auto simp: rule_view_def dbToRule_def)
  finally show ?thesis
    using l(1) assms(2) by (simp add: re_Handle_def Let_def pass_apply pm_def)
qed

end

section \<open>The deployment\<close>

record rule_world =
  rlw_db :: rules_db
  rlw_roles :: roles_world
  rlw_clock :: int
  rlw_ids :: "nat \<Rightarrow> string"
  rlw_nid :: nat

abbreviation on_rules :: "(rules_db, gerror, 'a) io \<Rightarrow> (rule_world, gerror, 'a) io" where
  "on_rules m \<equiv> lifted rlw_db (\<lambda>d w. w\<lparr>rlw_db := d\<rparr>) m"

abbreviation get_rroles :: "rule_world \<Rightarrow> roles_world" where
  "get_rroles w \<equiv> (rlw_roles w)\<lparr>rw_now := rlw_clock w\<rparr>"

abbreviation put_rroles :: "roles_world \<Rightarrow> rule_world \<Rightarrow> rule_world" where
  "put_rroles s w \<equiv> w\<lparr>rlw_roles := s, rlw_clock := rw_now s\<rparr>"

text \<open>The role tables refer to the rows of the rules and are deleted with them.\<close>

definition with_rule_roles :: "(rule_world, gerror, 'a) io \<Rightarrow> (rule_world, gerror, 'a) io" where
  "with_rule_roles m w = (case m w of (r, w') \<Rightarrow> (r, w'\<lparr>rlw_roles := (rlw_roles w')\<lparr>rw_db := (rw_db (rlw_roles w'))\<lparr>committed :=
     entities_are (map rd_ID (rt_rules (committed (rlw_db w')))) (committed (rw_db (rlw_roles w')))\<rparr>\<rparr>\<rparr>))"

text \<open>The repository of the deployment; the two queries that join the roles are those of \<open>base\<close>.\<close>

definition rule_repo :: "rule_engine \<Rightarrow> rule_world RulesRepository \<Rightarrow> rule_world RulesRepository" where
  "rule_repo pg base = base\<lparr>rr_AddRule := (\<lambda>r. with_rule_roles (on_rules (rur_AddRule r))), rr_ViewRule := (\<lambda>i. on_rules (rur_ViewRule i)),
     rr_UpdateRule := (\<lambda>r. on_rules (rur_UpdateRule r)), rr_UpdateRuleTags := (\<lambda>r. on_rules (rur_UpdateRuleTags r)),
     rr_UpdateRuleSchedule := (\<lambda>r. on_rules (rur_UpdateRuleSchedule r)), rr_RemoveRule := (\<lambda>i. with_rule_roles (on_rules (rur_RemoveRule i))),
     rr_UpdateRuleStatus := (\<lambda>r. on_rules (rur_UpdateRuleStatus r)), rr_ListAllRules := (\<lambda>pm. on_rules (rur_ListAllRules pg pm)),
     rr_UpdateRuleDue := (\<lambda>i d w. on_rules (rur_UpdateRuleDue (rlw_clock w) i d) w)\<rparr>"

definition rule_roles :: "roles_world ProvisionManageService" where
  "rule_roles = deployed_roles clock_sid rule_EntityType [''read'', ''update'', ''delete''] [(''admin'', [''read'', ''update'', ''delete''])]"

definition rule_svc :: "rule_engine \<Rightarrow> rule_world rules_service \<Rightarrow> rule_world rules_service" where
  "rule_svc pg base = base\<lparr>rv_repo := rule_repo pg (rv_repo base), rv_now := (\<lambda>w. (rlw_clock w, w\<lparr>rlw_clock := rlw_clock w + 1\<rparr>)),
     rv_idp := (\<lambda>w. (Inr (rlw_ids w (rlw_nid w)), w\<lparr>rlw_nid := Suc (rlw_nid w)\<rparr>)), rv_roles := lift_roles get_rroles put_rroles rule_roles\<rparr>"

definition untouched :: "dbRule \<Rightarrow> dbRule" where
  "untouched r = r\<lparr>rd_UpdatedAt := 0\<rparr>"

definition rule_rows :: "rule_world \<Rightarrow> dbRule list" where
  "rule_rows w = map untouched (rt_rules (committed (rlw_db w)))"

definition rules_calm :: "rule_world \<Rightarrow> bool" where
  "rules_calm w \<longleftrightarrow> faults (rlw_db w) = [] \<and> list_all (\<lambda>r. rule_encodes r \<and> rule_fits r) (rt_rules (committed (rlw_db w)))"

lemma set_insert_by: "set (insert_by before x ys) = insert x (set ys)"
  by (induction before x ys rule: insert_by.induct) auto

lemma set_sort_by: "set (sort_by before xs) = set xs"
  unfolding sort_by_def by (induction xs) (auto simp: set_insert_by)

lemma scan_rows_calm: "faults d = [] \<Longrightarrow> scan_rows rs d = (Inr rs, d)"
  by (induction rs) (simp_all add: pass_apply driver_calm)

lemma chosen_untouched: "pageRulesQueryConditions pg pm (untouched r) = pageRulesQueryConditions pg pm r"
  by (simp add: pageRulesQueryConditions_def untouched_def cong: option.case_cong)

lemma listed_rules:
  assumes "faults d = []" "rq_Limit pm = 0" "rq_Offset pm = 0"
  shows "\<exists>page. rur_ListAllRules pg pm d = (Inr page, d) \<and>
    rule_view ` set (rg_Rules page) = (rule_view \<circ> dbToRule) ` {r \<in> set (map untouched (rt_rules (committed d))). pageRulesQueryConditions pg pm r}"
proof -
  let ?sel = "filter (pageRulesQueryConditions pg pm) (rt_rules (committed d))"
  let ?rows = "map (\<lambda>r. r\<lparr>rd_Metadata := None\<rparr>) (rulesPageData pm (rulesOrderClause pg pm ?sel))"
  have s: "set (rulesPageData pm (rulesOrderClause pg pm ?sel)) = set ?sel"
    using assms(2,3) by (simp add: rulesPageData_def rulesOrderClause_def Let_def set_sort_by)
  have v: "rule_view (dbToRule (r\<lparr>rd_Metadata := None\<rparr>)) = rule_view (dbToRule (untouched r))" for r
    by (simp add: rule_view_def dbToRule_def untouched_def)
  have "rule_view ` set (map dbToRule ?rows) = (\<lambda>r. rule_view (dbToRule (r\<lparr>rd_Metadata := None\<rparr>))) ` set ?sel"
    by (simp add: image_image s)
  also have "\<dots> = (rule_view \<circ> dbToRule) ` {r \<in> set (map untouched (rt_rules (committed d))). pageRulesQueryConditions pg pm r}"
    unfolding v by (auto simp: chosen_untouched)
  finally have e: "rule_view ` set (map dbToRule ?rows) = \<dots>" .
  have "rur_ListAllRules pg pm d =
      (Inr \<lparr>rg_Offset = rq_Offset pm, rg_Limit = rq_Limit pm, rg_Total = length ?sel, rg_Rules = map dbToRule ?rows\<rparr>, d)"
    using assms(1) by (simp add: rur_ListAllRules_def Let_def trying_apply db_query_calm scan_rows_calm Total_def pass_apply driver_calm)
  with e show ?thesis by auto
qed

lemma rescheduled_rules:
  assumes "faults d = []" "list_all (\<lambda>r. rule_encodes r \<and> rule_fits r) (rt_rules (committed d))"
  shows "\<exists>x d'. rur_UpdateRuleDue now i due d = (Inr x, d') \<and> faults d' = [] \<and>
    list_all (\<lambda>r. rule_encodes r \<and> rule_fits r) (rt_rules (committed d')) \<and>
    map untouched (rt_rules (committed d')) = map (\<lambda>r. if rd_ID r = i then due_row due r else r) (map untouched (rt_rules (committed d)))"
proof -
  let ?f = "\<lambda>r. r\<lparr>rd_Time := map_option at_micros (null_at due), rd_UpdatedAt := at_micros now\<rparr>"
  let ?t = "(committed d)\<lparr>rt_rules := map (\<lambda>r. if rd_ID r = i then ?f r else r) (rt_rules (committed d))\<rparr>"
  have f: "rule_encodes (?f r) = rule_encodes r" "rule_fits (?f r) = rule_fits r" for r by (simp_all add: rule_encodes_def rule_fits_def)
  have "update_rules (\<lambda>r. rd_ID r = i) ?f (committed d) = Inr (?t, map ?f (filter (\<lambda>r. rd_ID r = i) (rt_rules (committed d))))"
    using assms(2) f by (simp add: update_rules_def Let_def list_all_iff)
  then have "\<exists>x. rur_UpdateRuleDue now i due d = (Inr x, d\<lparr>committed := ?t\<rparr>)"
    using assms(1) by (cases "filter (\<lambda>r. rd_ID r = i) (rt_rules (committed d))") (simp_all add: rur_UpdateRuleDue_def trying_apply db_exec_calm driver_calm)
  then obtain x where "rur_UpdateRuleDue now i due d = (Inr x, d\<lparr>committed := ?t\<rparr>)" ..
  moreover have "list_all (\<lambda>r. rule_encodes r \<and> rule_fits r) (rt_rules ?t)" using assms(2) f by (auto simp: list_all_iff)
  moreover have "map untouched (rt_rules ?t) = map (\<lambda>r. if rd_ID r = i then due_row due r else r) (map untouched (rt_rules (committed d)))"
    by (simp add: untouched_def due_row_def)
  ultimately show ?thesis using assms(1) by (intro exI [of _ x] exI [of _ "d\<lparr>committed := ?t\<rparr>"]) simp
qed

interpretation rules: rule_store rule_rows rules_calm "pageRulesQueryConditions pg" rlw_clock "rule_svc pg base"
proof (unfold_locales, goal_cases)
  case (1 w pm)
  then obtain page where "rur_ListAllRules pg pm (rlw_db w) = (Inr page, rlw_db w)"
    "rule_view ` set (rg_Rules page) = (rule_view \<circ> dbToRule) ` {r \<in> set (rule_rows w). pageRulesQueryConditions pg pm r}"
    using listed_rules [of "rlw_db w" pm pg] by (auto simp: rules_calm_def rule_rows_def)
  then show ?case by (auto simp: rule_svc_def rule_repo_def lifted_def)
next
  case (2 w i d)
  then obtain x d' where "rur_UpdateRuleDue (rlw_clock w) i d (rlw_db w) = (Inr x, d')" "rules_calm (w\<lparr>rlw_db := d'\<rparr>)"
    "rule_rows (w\<lparr>rlw_db := d'\<rparr>) = map (\<lambda>r. if rd_ID r = i then due_row d r else r) (rule_rows w)"
    using rescheduled_rules [of "rlw_db w" "rlw_clock w" i d] by (auto simp: rules_calm_def rule_rows_def)
  then show ?case by (auto simp: rule_svc_def rule_repo_def lifted_def)
next
  case (3 w)
  then show ?case by (auto simp: rule_svc_def rules_calm_def rule_rows_def)
qed

section \<open>What a tick runs\<close>

definition is_due :: "int \<Rightarrow> dbRule \<Rightarrow> bool" where
  "is_due now r \<longleftrightarrow> rd_Status r = EnabledStatus \<and> (case rd_Time r of None \<Rightarrow> False | Some t \<Rightarrow> t < at_micros now)"

lemma is_due_chosen:
  "pageRulesQueryConditions pg (RulePM0\<lparr>rq_Status := EnabledStatus, rq_Scheduled := Some True, rq_ScheduledBefore := Some now\<rparr>) r \<longleftrightarrow> is_due now r"
  by (auto simp: pageRulesQueryConditions_def RulePM0_def is_due_def statuses)

text \<open>C16: A tick of the scheduler, when the database does not fail, runs exactly the enabled rules whose time is past, and gives
  each of them the next time of its schedule; all other rules stay as they are (the column with the time of the
  last update aside).\<close>

theorem tick_runs_what_is_due:
  assumes "rules_calm w" "distinct (map rd_ID (rule_rows w))"
  shows "\<exists>runs w'. re_tick (rule_svc pg base) w = (Inr runs, w') \<and> rules_calm w' \<and>
    ru_ID ` fst ` set runs = rd_ID ` {r \<in> set (rule_rows w). is_due (rlw_clock w) r} \<and>
    rule_rows w' = map (\<lambda>r. if is_due (rlw_clock w) r then due_row (NextDue (ru_Schedule (dbToRule r))) r else r) (rule_rows w)"
proof -
  from rules.tick_calm [OF assms, of pg base, unfolded is_due_chosen] obtain runs w' where
    t: "re_tick (rule_svc pg base) w = (Inr runs, w')" "rules_calm w'"
      "rule_view ` fst ` set runs = (rule_view \<circ> dbToRule) ` {r \<in> set (rule_rows w). is_due (rlw_clock w) r}"
      "rule_rows w' = map (\<lambda>r. if is_due (rlw_clock w) r then due_row (NextDue (ru_Schedule (dbToRule r))) r else r) (rule_rows w)" by blast
  have "fst ` rule_view ` fst ` set runs = fst ` (rule_view \<circ> dbToRule) ` {r \<in> set (rule_rows w). is_due (rlw_clock w) r}" unfolding t(3) ..
  then have "ru_ID ` fst ` set runs = rd_ID ` {r \<in> set (rule_rows w). is_due (rlw_clock w) r}"
    by (simp add: image_image rule_view_def dbToRule_def)
  with t show ?thesis by blast
qed

text \<open>A table with a rule of one time, a rule of every two hours and a rule of tomorrow.\<close>

definition sample_rule_row :: "string \<Rightarrow> int \<Rightarrow> Recurring \<Rightarrow> dbRule" where
  "sample_rule_row i t rc = stored_rule (ruleToDb (Rule0\<lparr>ru_ID := i, ru_Name := i, ru_DomainID := ''dom'', ru_InputChannel := ''ch'', ru_InputTopic := ''room/#'',
     ru_Schedule := \<lparr>sd_StartDateTime = t, sd_Time = t, sd_Recurring = rc, sd_RecurringPeriod = 2\<rparr>\<rparr>))"

definition sample_rule_world :: rule_world where
  "sample_rule_world = \<lparr>rlw_db = \<lparr>committed = \<lparr>rt_rules = [sample_rule_row ''r1'' 1000000 RecurringNone, sample_rule_row ''r2'' 2000000 Hourly,
     sample_rule_row ''r3'' 900000000000000 Daily]\<rparr>, open_txs = [], next_tx = 0, faults = []\<rparr>,
     rlw_roles = \<lparr>rw_store = sample_store, rw_db = db_of \<lparr>t_entities = [''r1'', ''r2'', ''r3''], t_roles = [], t_actions = [], t_members = []\<rparr> [], rw_now = 0\<rparr>,
     rlw_clock = 5000000, rlw_ids = (\<lambda>n. CHR ''n'' # nat_str n), rlw_nid = 0\<rparr>"

lemma sample_rules: "rules_calm sample_rule_world" "distinct (map rd_ID (rule_rows sample_rule_world))" "rlw_clock sample_rule_world = 5000000"
  "map rd_ID (rule_rows sample_rule_world) = [''r1'', ''r2'', ''r3'']"
  "filter (is_due 5000000) (rule_rows sample_rule_world) = [untouched (sample_rule_row ''r1'' 1000000 RecurringNone), untouched (sample_rule_row ''r2'' 2000000 Hourly)]"
  by (simp_all add: rules_calm_def sample_rule_world_def rule_rows_def sample_rule_row_def stored_rule_def ruleToDb_def Rule0_def rule_encodes_def rule_fits_def untouched_def
      is_due_def null_at_def at_micros_def)

theorem tick_runs_what_is_due_witness:
  "\<forall>pg base. \<exists>runs w'. re_tick (rule_svc pg base) sample_rule_world = (Inr runs, w') \<and> ru_ID ` fst ` set runs = {''r1'', ''r2''} \<and>
     map rd_Time (rule_rows w') = [None, Some 7200002000000, Some 900000000000000]"
proof (intro allI)
  fix pg and base :: "rule_world rules_service"
  from tick_runs_what_is_due [OF sample_rules(1,2), of pg base] obtain runs w' where
    t: "re_tick (rule_svc pg base) sample_rule_world = (Inr runs, w')"
      "ru_ID ` fst ` set runs = rd_ID ` set (filter (is_due 5000000) (rule_rows sample_rule_world))"
      "rule_rows w' = map (\<lambda>r. if is_due 5000000 r then due_row (NextDue (ru_Schedule (dbToRule r))) r else r) (rule_rows sample_rule_world)"
    unfolding sample_rules(3) by auto
  have "map rd_Time (rule_rows w') = [None, Some 7200002000000, Some 900000000000000]"
    unfolding t(3) by (simp add: sample_rule_world_def rule_rows_def sample_rule_row_def stored_rule_def ruleToDb_def Rule0_def untouched_def is_due_def null_at_def
        at_micros_def due_row_def NextDue_def dbToRule_def at_null_def)
  moreover have "ru_ID ` fst ` set runs = {''r1'', ''r2''}"
    unfolding t(2) sample_rules(5) by (simp add: untouched_def sample_rule_row_def stored_rule_def ruleToDb_def)
  ultimately show "\<exists>runs w'. re_tick (rule_svc pg base) sample_rule_world = (Inr runs, w') \<and> ru_ID ` fst ` set runs = {''r1'', ''r2''} \<and>
     map rd_Time (rule_rows w') = [None, Some 7200002000000, Some 900000000000000]"
    using t(1) by (intro exI [of _ runs] exI [of _ w'] conjI)
qed

section \<open>Rules that are scheduled once\<close>

text \<open>C36: A rule without recurrence whose time is past is run by the tick, which takes its time away: from then on
  it counts as a rule without a schedule, and every message on its channel that matches its topic starts it again.\<close>

theorem one_time_rule_becomes_a_message_rule:
  assumes "rules_calm w" "distinct (map rd_ID (rule_rows w))" "r \<in> set (rule_rows w)" "is_due (rlw_clock w) r" "rd_Recurring r = RecurringNone"
    and "bm_Domain msg = rd_DomainID r" "bm_Channel msg = rd_InputChannel r" "matchTopic (bm_Subtopic msg) (nullString (rd_InputTopic r))"
    and "length (payload_bytes msg) \<le> maxPayload"
  shows "\<exists>runs w' qs. re_tick (rule_svc pg base) w = (Inr runs, w') \<and> rd_ID r \<in> ru_ID ` fst ` set runs \<and>
    re_Handle (rule_svc pg base) msg w' = (Inr qs, w') \<and> rd_ID r \<in> ru_ID ` set qs"
proof -
  from rules.tick_calm [OF assms(1,2), of pg base, unfolded is_due_chosen] obtain runs w' where
    t: "re_tick (rule_svc pg base) w = (Inr runs, w')" "rules_calm w'"
      "rule_view ` fst ` set runs = (rule_view \<circ> dbToRule) ` {r \<in> set (rule_rows w). is_due (rlw_clock w) r}"
      "rule_rows w' = map (\<lambda>r. if is_due (rlw_clock w) r then due_row (NextDue (ru_Schedule (dbToRule r))) r else r) (rule_rows w)" by blast
  have "rule_view (dbToRule r) \<in> rule_view ` fst ` set runs" unfolding t(3) using assms(3,4) by auto
  then have ran: "rd_ID r \<in> ru_ID ` fst ` set runs" by (force simp: rule_view_eq dbToRule_def)
  have "NextDue (ru_Schedule (dbToRule r)) = 0" using assms(5) by (simp add: NextDue_def dbToRule_def)
  then have new: "due_row 0 r \<in> set (rule_rows w')" unfolding t(4) using assms(3,4) by (auto simp: image_iff intro!: bexI [of _ r])
  let ?pm = "RulePM0\<lparr>rq_Domain := bm_Domain msg, rq_InputChannel := bm_Channel msg, rq_Status := EnabledStatus, rq_Scheduled := Some False\<rparr>"
  have "pageRulesQueryConditions pg ?pm (due_row 0 r)"
    using assms(4,6,7) by (simp add: pageRulesQueryConditions_def RulePM0_def due_row_def null_at_def is_due_def)
  moreover have "matchTopic (bm_Subtopic msg) (nullString (rd_InputTopic (due_row 0 r)))" using assms(8) by (simp add: due_row_def)
  moreover from rules.handled_calm [OF t(2) assms(9), of pg base] obtain qs where
    q: "re_Handle (rule_svc pg base) msg w' = (Inr qs, w')"
      "rule_view ` set qs = (rule_view \<circ> dbToRule) ` {r \<in> set (rule_rows w'). pageRulesQueryConditions pg ?pm r \<and> matchTopic (bm_Subtopic msg) (nullString (rd_InputTopic r))}"
    by blast
  ultimately have "rule_view (dbToRule (due_row 0 r)) \<in> rule_view ` set qs" unfolding q(2) using new by auto
  then have "rd_ID r \<in> ru_ID ` set qs" by (force simp: rule_view_eq dbToRule_def due_row_def)
  with t(1) ran q(1) show ?thesis by blast
qed

definition sample_rule_message :: BrokerMessage where
  "sample_rule_message = \<lparr>bm_Channel = ''ch'', bm_Domain = ''dom'', bm_Subtopic = ''room/7'', bm_Publisher = ''cl'', bm_Protocol = ''mqtt'',
     bm_Payload = Some ''{}'', bm_Created = 6000000, bm_ClientId = []\<rparr>"

theorem one_time_rule_becomes_a_message_rule_witness:
  "\<forall>pg base. \<exists>runs w' qs. re_tick (rule_svc pg base) sample_rule_world = (Inr runs, w') \<and> ''r1'' \<in> ru_ID ` fst ` set runs \<and>
     re_Handle (rule_svc pg base) sample_rule_message w' = (Inr qs, w') \<and> ''r1'' \<in> ru_ID ` set qs"
proof (intro allI)
  fix pg and base :: "rule_world rules_service"
  let ?r = "untouched (sample_rule_row ''r1'' 1000000 RecurringNone)"
  have r: "?r \<in> set (filter (is_due 5000000) (rule_rows sample_rule_world))" unfolding sample_rules(5) by simp
  have e: "rd_Recurring ?r = RecurringNone" "rd_ID ?r = ''r1''" "bm_Domain sample_rule_message = rd_DomainID ?r" "bm_Channel sample_rule_message = rd_InputChannel ?r"
    "nullString (rd_InputTopic ?r) = ''room/#''" "bm_Subtopic sample_rule_message = ''room/7''" "length (payload_bytes sample_rule_message) \<le> maxPayload"
    by (simp_all add: untouched_def sample_rule_row_def stored_rule_def ruleToDb_def Rule0_def sample_rule_message_def payload_bytes_def maxPayload_def)
  have "matchTopic ''room/7'' ''room/#''" by code_simp
  with e have m: "matchTopic (bm_Subtopic sample_rule_message) (nullString (rd_InputTopic ?r))" by simp
  from r have d: "?r \<in> set (rule_rows sample_rule_world)" "is_due (rlw_clock sample_rule_world) ?r" unfolding sample_rules(3) by auto
  from one_time_rule_becomes_a_message_rule [OF sample_rules(1,2) d e(1,3,4) m e(7), of pg base]
  show "\<exists>runs w' qs. re_tick (rule_svc pg base) sample_rule_world = (Inr runs, w') \<and> ''r1'' \<in> ru_ID ` fst ` set runs \<and>
     re_Handle (rule_svc pg base) sample_rule_message w' = (Inr qs, w') \<and> ''r1'' \<in> ru_ID ` set qs" unfolding e(2) .
qed

section \<open>Alarms of scheduled rules\<close>

lemma run_due_messages: "run_due svc due rs w = (Inr runs, w') \<Longrightarrow> (q, m) \<in> set runs \<Longrightarrow> m = due_message q due"
proof (induction rs arbitrary: w runs)
  case (Cons r rs)
  then obtain x w1 runs1 where "run_due svc due rs w1 = (Inr runs1, w')" "runs = runs1 \<or> runs = (r, due_message r due) # runs1"
    by (auto simp: observe_apply pass_apply split: prod.splits sum.splits)
  with Cons show ?case by auto
qed simp

text \<open>C37: No alarm of a scheduled rule is stored. The message with which the scheduler runs a rule names no client, so whatever
  alarm the script returns, the message the output publishes for it is refused by the consumer of alarms.\<close>

theorem alarms_of_scheduled_rules_are_refused:
  assumes "re_tick svc w = (Inr runs, w')" "(r, msg) \<in> set runs" "alarm_message encode (ru_ID r) msg a = Inr m"
    and "\<forall>b buf. encode b = Inr buf \<longrightarrow> decode buf = Inr b" "ru_ID r \<noteq> []" "ru_DomainID r \<noteq> []" "ru_InputChannel r \<noteq> []"
  shows "alm_Handle decode alarms (Some m) v = (Inl (PlainError (Foreign ''client_id is required'')), v)"
proof -
  from assms(1,2) obtain due where "msg = due_message r due"
    by (auto simp: re_tick_def observe_apply split: prod.splits sum.splits dest: run_due_messages)
  with assms(3) obtain b buf where b: "encode b = Inr buf" "al_RuleID b = ru_ID r" "m = (due_message r due)\<lparr>bm_ClientId := [], bm_Payload := Some buf\<rparr>"
    by (auto simp: alarm_message_def due_message_def ClientIdentity_def split: sum.splits)
  with assms(4-7) show ?thesis
    by (simp add: alm_Handle_def message_alarm_def Alarm_Validate_def due_message_def ClientIdentity_def)
qed

definition scheduled_alarm :: Alarm where
  "scheduled_alarm = Alarm0\<lparr>al_RuleID := ''r1'', al_DomainID := ''dom'', al_ChannelID := ''ch'', al_Subtopic := ''room/#'', al_Measurement := ''temperature'',
     al_Value := ''60'', al_Cause := ''limit''\<rparr>"

theorem alarms_of_scheduled_rules_are_refused_witness:
  "\<forall>pg base alarms v. \<exists>runs w' r msg m. re_tick (rule_svc pg base) sample_rule_world = (Inr runs, w') \<and> (r, msg) \<in> set runs \<and> ru_ID r = ''r1'' \<and>
     alarm_message (\<lambda>b. if b = scheduled_alarm then Inr ''gob'' else Inl (Foreign ''no'')) (ru_ID r) msg scheduled_alarm = Inr m \<and>
     alm_Handle (\<lambda>_. Inr scheduled_alarm) (alarms :: alarm_world alarms_service) (Some m) v = (Inl (PlainError (Foreign ''client_id is required'')), v)"
proof (intro allI)
  fix pg and base :: "rule_world rules_service" and alarms :: "alarm_world alarms_service" and v
  let ?r = "untouched (sample_rule_row ''r1'' 1000000 RecurringNone)" and ?enc = "\<lambda>b. if b = scheduled_alarm then Inr ''gob'' else Inl (Foreign ''no'')"
  from rules.tick_calm [OF sample_rules(1,2), of pg base, unfolded is_due_chosen] obtain runs w' where
    t: "re_tick (rule_svc pg base) sample_rule_world = (Inr runs, w')" "\<forall>(q, m) \<in> set runs. m = due_message q (rlw_clock sample_rule_world)"
      "rule_view ` fst ` set runs = (rule_view \<circ> dbToRule) ` {r \<in> set (rule_rows sample_rule_world). is_due (rlw_clock sample_rule_world) r}" by blast
  have "?r \<in> set (filter (is_due 5000000) (rule_rows sample_rule_world))" unfolding sample_rules(5) by simp
  then have "rule_view (dbToRule ?r) \<in> rule_view ` fst ` set runs" unfolding t(3) sample_rules(3) by auto
  then obtain r msg where r: "(r, msg) \<in> set runs" "rule_view (dbToRule ?r) = rule_view r" by force
  then have e: "ru_ID r = ''r1''" "ru_DomainID r = ''dom''" "ru_InputChannel r = ''ch''" "ru_InputTopic r = ''room/#''"
    by (auto simp: rule_view_eq dbToRule_def untouched_def sample_rule_row_def stored_rule_def ruleToDb_def Rule0_def)
  from r(1) t(2) have "msg = due_message r (rlw_clock sample_rule_world)" by auto
  with e obtain m where m: "alarm_message ?enc (ru_ID r) msg scheduled_alarm = Inr m"
    by (simp add: alarm_message_def due_message_def ClientIdentity_def scheduled_alarm_def Alarm0_def)
  have "\<forall>b buf. ?enc b = Inr buf \<longrightarrow> (\<lambda>_. Inr scheduled_alarm) buf = (Inr b :: gerror + Alarm)" by simp
  from alarms_of_scheduled_rules_are_refused [OF t(1) r(1) m this, of alarms v] e
  have "alm_Handle (\<lambda>_. Inr scheduled_alarm) alarms (Some m) v = (Inl (PlainError (Foreign ''client_id is required'')), v)" by simp
  with t(1) r(1) e(1) m show "\<exists>runs w' r msg m. re_tick (rule_svc pg base) sample_rule_world = (Inr runs, w') \<and> (r, msg) \<in> set runs \<and> ru_ID r = ''r1'' \<and>
     alarm_message ?enc (ru_ID r) msg scheduled_alarm = Inr m \<and>
     alm_Handle (\<lambda>_. Inr scheduled_alarm) alarms (Some m) v = (Inl (PlainError (Foreign ''client_id is required'')), v)" by blast
qed

section \<open>The start of a rule\<close>

lemma added_rule_row:
  assumes "with_rule_roles (on_rules (rur_AddRule r)) w = (Inr rule, w')"
  shows "rule = dbToRule (stored_rule (ruleToDb r)) \<and> stored_rule (ruleToDb r) \<in> set (rt_rules (committed (rlw_db w')))"
proof -
  from assms obtain d where d: "rur_AddRule r (rlw_db w) = (Inr rule, d)" "rlw_db w' = d"
    by (auto simp: with_rule_roles_def lifted_def split: prod.splits)
  then obtain x rows d1 where x: "db_exec (insert_rule (ruleToDb r)) (rlw_db w) = (Inr rows, d1)"
    and rest: "(case rows of [] \<Rightarrow> ret Rule0 | x # _ \<Rightarrow> trying (driver (ret x)) (WrapDB repoErrCreateEntity) (\<lambda>dbr. ret (dbToRule dbr))) d1 = (Inr rule, d)"
    by (auto simp: rur_AddRule_def trying_apply split: prod.splits sum.splits)
  from db_exec_ok [OF x] have row: "rows = [stored_rule (ruleToDb r)]"
    "committed d1 = (committed (rlw_db w))\<lparr>rt_rules := rt_rules (committed (rlw_db w)) @ [stored_rule (ruleToDb r)]\<rparr>"
    by (auto simp: insert_rule_def Let_def split: if_splits)
  from rest have "rule = dbToRule (stored_rule (ruleToDb r))" "committed d = committed d1"
    unfolding row(1) by (auto simp: trying_apply dest!: driver_split split: prod.splits sum.splits)
  with row(2) d(2) show ?thesis by simp
qed

lemma frames_rule_roles: "frames rlw_db (AddNewEntitiesRoles (rv_roles (rule_svc pg base)) d u es ps new)"
  unfolding rule_svc_def by (simp, rule frames_AddNewEntitiesRoles, simp)

lemma added_rule:
  assumes "re_AddRule (rule_svc pg base) session r w = (Inr (rule, rps), w')"
  defines "row \<equiv> stored_rule (ruleToDb (new_rule session (rlw_ids w (rlw_nid w)) (rlw_clock w) r))"
  shows "rule = dbToRule row \<and> row \<in> set (rt_rules (committed (rlw_db w')))"
proof -
  let ?w = "w\<lparr>rlw_nid := Suc (rlw_nid w), rlw_clock := rlw_clock w + 1\<rparr>"
  from assms(1) obtain w1 where
    "with_rule_roles (on_rules (rur_AddRule (new_rule session (rlw_ids w (rlw_nid w)) (rlw_clock w) r))) ?w = (Inr rule, w1)"
    "AddNewEntitiesRoles (rv_roles (rule_svc pg base)) (s_DomainID session) (s_UserID session) [ru_ID rule]
       [Policy0\<lparr>p_SubjectType := DomainType, p_Subject := s_DomainID session, p_Relation := DomainRelation, p_ObjectType := rule_EntityType,
          p_Object := ru_ID rule\<rparr>] [(BuiltInRoleAdmin, [s_UserID session])] w1 = (Inr rps, w')"
    by (auto simp: re_AddRule_def rule_svc_def rule_repo_def guarded_def pass_apply observe_apply trying_apply deferring_apply
        split: prod.splits sum.splits option.splits)
  moreover from this(2) have "rlw_db w' = rlw_db w1" using frames_rule_roles by (auto simp: frames_def)
  ultimately show ?thesis using added_rule_row unfolding row_def by metis
qed

text \<open>C35: A rule that is added with a start, however far in the future, is stored to be due at the time
  at which it is added: any tick a microsecond later or more finds it due.\<close>

theorem requested_start_is_lost:
  assumes "re_AddRule (rule_svc pg base) session r w = (Inr (rule, rps), w')" "sd_StartDateTime (ru_Schedule r) \<noteq> 0" "rlw_clock w \<noteq> 0"
  shows "\<exists>row \<in> set (rule_rows w'). rd_ID row = ru_ID rule \<and> (\<forall>now. rlw_clock w + 1000 \<le> now \<longrightarrow> is_due now row)"
proof -
  let ?row = "stored_rule (ruleToDb (new_rule session (rlw_ids w (rlw_nid w)) (rlw_clock w) r))"
  from added_rule [OF assms(1)] have row: "rule = dbToRule ?row" "untouched ?row \<in> set (rule_rows w')" by (auto simp: rule_rows_def)
  have t: "rd_Time (untouched ?row) = Some (at_micros (rlw_clock w))" "rd_Status (untouched ?row) = EnabledStatus" "rd_ID (untouched ?row) = ru_ID rule"
    using assms(2,3) row(1) by (simp_all add: untouched_def stored_rule_def ruleToDb_def new_rule_def Let_def null_at_def dbToRule_def)
  have "at_micros (rlw_clock w) < at_micros now" if "rlw_clock w + 1000 \<le> now" for now
    using that by (simp add: at_micros_def)
  with t have "is_due now (untouched ?row)" if "rlw_clock w + 1000 \<le> now" for now using that by (simp add: is_due_def)
  with row(2) t(3) show ?thesis by blast
qed

text \<open>A rule that is to start at the end of the century.\<close>

definition later_rule :: Rule where
  "later_rule = Rule0\<lparr>ru_Name := ''later'', ru_Schedule := Schedule0\<lparr>sd_StartDateTime := 66238128000000000000\<rparr>\<rparr>"

definition later_row :: dbRule where
  "later_row = stored_rule (ruleToDb (new_rule owner_session ''n0'' 5000000 later_rule))"

definition later_world :: rule_world where
  "later_world = sample_rule_world\<lparr>rlw_nid := 1, rlw_clock := 5000001,
     rlw_db := (rlw_db sample_rule_world)\<lparr>committed := \<lparr>rt_rules = rt_rules (committed (rlw_db sample_rule_world)) @ [later_row]\<rparr>\<rparr>,
     rlw_roles := \<lparr>rw_store = sample_store,
       rw_db = db_of \<lparr>t_entities = [''r1'', ''r2'', ''r3'', ''n0''], t_roles = [], t_actions = [], t_members = []\<rparr> [], rw_now = 0\<rparr>\<rparr>"

definition later_provided :: "(gerror + RoleProvision list) \<times> rule_world" where
  "later_provided = AddNewEntitiesRoles (lift_roles get_rroles put_rroles rule_roles) (s_DomainID owner_session) (s_UserID owner_session) [''n0'']
     [Policy0\<lparr>p_SubjectType := DomainType, p_Subject := s_DomainID owner_session, p_Relation := DomainRelation, p_ObjectType := rule_EntityType,
        p_Object := ''n0''\<rparr>] [(BuiltInRoleAdmin, [s_UserID owner_session])] later_world"

lemma later_rule_is_inserted:
  "with_rule_roles (on_rules (rur_AddRule (new_rule owner_session ''n0'' 5000000 later_rule))) (sample_rule_world\<lparr>rlw_nid := 1, rlw_clock := 5000001\<rparr>) =
   (Inr (dbToRule later_row), later_world)"
proof -
  have row: "rule_encodes later_row" "rule_fits later_row" "rd_ID later_row = ''n0''"
    by (simp_all add: later_row_def later_rule_def new_rule_def stored_rule_def ruleToDb_def Rule0_def Schedule0_def rule_encodes_def rule_fits_def
        owner_session_def)
  have "faults (rlw_db sample_rule_world) = []" by (simp add: sample_rule_world_def)
  moreover have "insert_rule (ruleToDb (new_rule owner_session ''n0'' 5000000 later_rule)) (committed (rlw_db sample_rule_world)) =
      Inr (\<lparr>rt_rules = rt_rules (committed (rlw_db sample_rule_world)) @ [later_row]\<rparr>, [later_row])"
    unfolding insert_rule_def Let_def later_row_def [symmetric]
    using row sample_rules(4) by (simp add: rule_rows_def untouched_def comp_def)
  ultimately have "rur_AddRule (new_rule owner_session ''n0'' 5000000 later_rule) (rlw_db sample_rule_world) =
      (Inr (dbToRule later_row), (rlw_db sample_rule_world)\<lparr>committed := \<lparr>rt_rules = rt_rules (committed (rlw_db sample_rule_world)) @ [later_row]\<rparr>\<rparr>)"
    by (simp add: rur_AddRule_def trying_apply db_exec_calm driver_calm)
  then show ?thesis
    using row(3) sample_rules(4)
    by (simp add: with_rule_roles_def lifted_def later_world_def entities_are_def rule_rows_def untouched_def comp_def)
       (simp add: sample_rule_world_def)
qed

lemma later_rule_is_added:
  "\<exists>rule rps w'. re_AddRule (rule_svc pg base) owner_session later_rule sample_rule_world = (Inr (rule, rps), w') \<and> ru_ID rule = ''n0''"
proof -
  have i: "ru_ID (dbToRule later_row) = ''n0''" by (simp add: dbToRule_def later_row_def stored_rule_def ruleToDb_def new_rule_def Let_def)
  have "map_sum (\<lambda>_. ()) (\<lambda>_. ()) (fst later_provided) = Inr ()" by code_simp
  then obtain rps w' where p: "later_provided = (Inr rps, w')" by (cases later_provided) (metis Inr_Inl_False fst_conv map_sum.simps(1) sum.exhaust)
  have "refused_script (ru_Logic later_rule) = None" by (simp add: refused_script_def later_rule_def Rule0_def GoType_def)
  moreover have "rlw_ids sample_rule_world 0 = ''n0''" by code_simp
  moreover have "rlw_nid sample_rule_world = 0" by (simp add: sample_rule_world_def)
  ultimately have "re_AddRule (rule_svc pg base) owner_session later_rule sample_rule_world = (Inr (dbToRule later_row, rps), w')"
    using later_rule_is_inserted p i sample_rules(3) unfolding later_provided_def
    by (simp add: re_AddRule_def rule_svc_def rule_repo_def guarded_def pass_apply observe_apply trying_apply deferring_apply)
  with i show ?thesis by blast
qed

theorem requested_start_is_lost_witness:
  "\<forall>pg base. \<exists>rule rps w'. re_AddRule (rule_svc pg base) owner_session later_rule sample_rule_world = (Inr (rule, rps), w') \<and>
     (\<exists>row \<in> set (rule_rows w'). rd_ID row = ''n0'' \<and> is_due 5001000 row)"
proof (intro allI)
  fix pg and base :: "rule_world rules_service"
  from later_rule_is_added [of pg base] obtain rule rps w' where
    m: "re_AddRule (rule_svc pg base) owner_session later_rule sample_rule_world = (Inr (rule, rps), w')" "ru_ID rule = ''n0''" by blast
  from requested_start_is_lost [OF m(1)] m(2) have "\<exists>row \<in> set (rule_rows w'). rd_ID row = ''n0'' \<and> is_due 5001000 row"
    by (auto simp: later_rule_def sample_rules(3))
  with m(1) show "\<exists>rule rps w'. re_AddRule (rule_svc pg base) owner_session later_rule sample_rule_world = (Inr (rule, rps), w') \<and>
     (\<exists>row \<in> set (rule_rows w'). rd_ID row = ''n0'' \<and> is_due 5001000 row)" by blast
qed

section \<open>Other deviations\<close>

text \<open>The relationships of a rule that is removed, and of its roles, stay in the policy store.\<close>

lemma removed_rule_keeps_its_relationships:
  "re_RemoveRule (rule_svc pg base) session i w = (x, w') \<Longrightarrow> rw_store (rlw_roles w') = rw_store (rlw_roles w)"
  by (auto simp: re_RemoveRule_def rule_svc_def rule_repo_def trying_apply with_rule_roles_def lifted_def split: prod.splits sum.splits)

text \<open>Goroutines are refused when they call a function by its name, and accepted when they call a method or a function of a package.\<close>

lemma goroutines_of_methods_pass:
  "refused_script \<lparr>sp_Type = GoType, sp_Value = ''func f() { go work() }''\<rparr> = Some (Wrap svcErrMalformedEntity ErrGoroutinesNotAllowed)"
  "refused_script \<lparr>sp_Type = GoType, sp_Value = ''func f() { go time.Sleep(1) }''\<rparr> = None"
  by code_simp+

end
