(* ===== verification/Spec2Isabelle.thy ===== *)
theory Spec2Isabelle
  imports Errors Topics Base64 Authn Connections FluxMQ Policies Database RolesRepo Roles Redis Pats Tokens Auth
    Entities Clients Channels Transport Connected Access GroupsSvc Hierarchy Transactions GroupRepo GroupTree GroupCycle
    DomainsSvc DomainAccess Invitations UsersSvc AuthGrpc UsersEdge UserAccounts UsersWorld UsersSample UserRights UserTokens
    UserLimits DomainGate Permissions Alarms AlarmState AlarmLog
    Schedule Rules RulesApi RuleRuns
begin

text \<open>
  Magistrala is an IoT platform: devices (clients) exchange messages over channels through a
  broker, inside domains. Its services are separate processes that keep their entities in
  PostgreSQL, cache in Redis, keep the permissions of users as relationships in SpiceDB and
  call each other over gRPC. This development models the part of it that decides who may do
  what.

  \<^bold>\<open>Parts and theories\<close>

  \<^item> \<open>Prelude\<close>: strings, and the calls of a service as functions from a world to a result and a
    new world, with the Go idioms as combinators (\<open>trying\<close>: return a wrapped error or go on;
    \<open>deferring\<close>: a deferred roll back; \<open>observe\<close>, \<open>guarded\<close>), and the three ways properties
    of calls are stated: \<open>keeps\<close> (an invariant), \<open>effect\<close> (all or nothing on a view of the
    world) and \<open>frames\<close> (a part is left alone).
  \<^item> \<open>Errors\<close> (\<open>pkg/errors\<close>, \<open>api/http/common.go\<close>): typed errors, \<open>Wrap\<close>, \<open>Contains\<close>, the HTTP
    status of an error.
  \<^item> \<open>Topics\<close> (\<open>pkg/messaging\<close>): message topics, their grammar, wildcards, routes and the cached
    parser. \<open>Base64\<close> and \<open>Authn\<close> (\<open>pkg/authn\<close>): the packed credentials of clients.
    \<open>Connections\<close> (\<open>pkg/connections\<close>): publish and subscribe as connection types. \<open>FluxMQ\<close>
    (\<open>fluxmq/api/grpc\<close>, \<open>pkg/messaging/fluxmq\<close>): the broker's authentication and
    authorization callout.
  \<^item> \<open>Policies\<close> (\<open>pkg/policies\<close>, \<open>pkg/policies/spicedb\<close>): policies as SpiceDB relationships,
    preconditions, listings.
  \<^item> \<open>Database\<close> (\<open>pkg/postgres\<close>): transactions and statements over a record of tables, with a
    driver that may fail at every call. \<open>RolesRepo\<close> and \<open>Roles\<close> (\<open>pkg/roles\<close>): the tables of
    roles, their actions and members, and the service that keeps roles and relationships in
    step.
  \<^item> \<open>Redis\<close>: the commands the caches use. \<open>Pats\<close> and \<open>Tokens\<close> (\<open>auth\<close>): personal access
    tokens with their scopes, keys, JWT claims, hashing. \<open>Auth\<close> (\<open>auth/service.go\<close>): issuing,
    refreshing, revoking and identifying tokens, authorization, the operations on personal
    access tokens.
  \<^item> \<open>Entities\<close>, \<open>Clients\<close>, \<open>Channels\<close> (\<open>clients\<close>, \<open>channels\<close>): both services, with their
    repositories, caches and the private services other services call. \<open>Transport\<close>
    (\<open>clients/api/grpc\<close>, \<open>channels/api/grpc\<close>): endpoints, stubs and errors over gRPC.
    \<open>Connected\<close>: both services deployed together. \<open>Access\<close>: who gets in.
  \<^item> \<open>GroupsSvc\<close> (\<open>groups\<close>): the groups service and its repository, with the hierarchy of groups as
    parents and \<open>ltree\<close> paths. \<open>Hierarchy\<close>: forests, and the changes that keep one.
    \<open>Transactions\<close>: the body of a transaction as a relation on tables. \<open>GroupRepo\<close>: what the
    repository does to the rows. \<open>GroupTree\<close>: the service over any such store and deployed
    beside clients and channels. \<open>GroupCycle\<close>: changes of parent, stale paths, and how a cycle comes about.
  \<^item> \<open>DomainsSvc\<close> (\<open>domains\<close>, \<open>auth/api/grpc/utils.go\<close>): domains and invitations, the repository, the
    cache, the service, the private service and its transport. \<open>DomainAccess\<close>: the status of a
    domain as other services see it, through the cache. \<open>Invitations\<close>: the life of an invitation.
  \<^item> \<open>UsersSvc\<close> (\<open>users\<close>, \<open>users/postgres\<close>): users and email verifications, the tables, the repository and the
    service. \<open>AuthGrpc\<close> (\<open>auth/api/grpc\<close>, \<open>pkg/authn\<close>, \<open>pkg/authz\<close>): the auth service over gRPC, sessions made
    of bearer tokens, and decisions that look at the status of the domain first. \<open>UsersEdge\<close>
    (\<open>users/middleware\<close>, \<open>users/hasher\<close>, \<open>users/delete_handler.go\<close>, \<open>api/http/common.go\<close>): the authorization
    middleware, passwords, names, the removal of deleted users. \<open>UserAccounts\<close>: the contract of a store of
    users and what it gives for the service. \<open>UsersWorld\<close>: the service deployed with the auth and domains
    services and one policy store. \<open>UsersSample\<close>: a deployment to evaluate. \<open>UserRights\<close>,
    \<open>UserTokens\<close>, \<open>UserLimits\<close>, \<open>DomainGate\<close>: what is shown of it.
  \<^item> \<open>Permissions\<close> (\<open>pkg/permissions\<close>): the tables that give operations their permissions. \<open>Alarms\<close>
    (\<open>alarms\<close>): the alarms service with its table, repository, consumer, middleware, endpoints and
    requests. \<open>AlarmState\<close>: the contract of the store of alarms (\<open>alarm_store\<close>), the calls of the service, and the log of
    changes. \<open>AlarmLog\<close>: what is shown of the deployed service.
  \<^item> \<open>Schedule\<close> (\<open>pkg/schedule\<close>): recurrence and the next time of a schedule, with the calendar it needs.
    \<open>Rules\<close> (\<open>re\<close>, \<open>re/postgres\<close>, \<open>re/middleware\<close>, \<open>re/outputs/alarm.go\<close>): the rules engine with its table,
    repository, service, middleware, the choice of rules that run, and the alarms they raise. \<open>RulesApi\<close> (\<open>re/api\<close>): its
    requests and endpoints. \<open>RuleRuns\<close>: the contract of a store of rules (\<open>rule_store\<close>), the engine deployed
    with the roles of its rules, and what is shown of it.

  \<^bold>\<open>How code becomes definitions\<close>

  A service is a record of its dependencies over a world, as the Go structs are; an operation is
  one definition with every branch and early return of the source, in its order. A repository
  is a set of calls on a \<open>database\<close>: the committed tables, the open transactions and a script of
  faults that says which driver calls fail. SQL statements are functions on the tables, with
  the constraints of the schema as their errors. Every error is a value. Identifiers keep the
  names of the source; a prefix tells methods of different receivers apart (\<open>clr_\<close> and \<open>chr_\<close> the
  repositories, \<open>clc_\<close> and \<open>chc_\<close> the caches, \<open>clp_\<close> and \<open>chp_\<close> the private services of clients
  and channels). Loops are structural recursion, so that every definition is total and
  executable. Only the removal of deleted users, a loop without an end of its own, has fuel: the
  number of rounds, with none as the value of a loop that still runs. Times are integers, \<open>uint8\<close> and \<open>uint32\<close> values are words, and
  the conversions between them truncate as in Go.

  Code outside the repository is a parameter with its documented behaviour as a locale:
  SpiceDB (\<open>spicedb\<close>), Redis (\<open>redis_client\<close>), and as arguments the JWT library, scrypt,
  UUID parsing, the topic cache, and for users bcrypt, the JSON of a verification, mail addresses,
  lower case and the order of rows. Each locale is interpreted on a reference server that
  can fail; the contracts between the services (\<open>role_repository\<close>, \<open>policy_service\<close>,
  \<open>role_service\<close>, \<open>scope_cache\<close>, \<open>active_tokens\<close>, \<open>channel_lookups\<close>, \<open>connection_store\<close>, \<open>credential_store\<close>, \<open>group_store\<close>,
  \<open>domain_status\<close>, \<open>invitation_store\<close>, \<open>user_store\<close>, \<open>user_gate\<close>, \<open>alarm_store\<close>, \<open>rule_store\<close>) are interpreted on the definitions that model the code.
  The providers of ids and of random bytes may fail; the ids of roles are any texts that are new for
  the policy store. Statements that \<open>sqlx\<close> expands over a slice refuse an empty one, and the one of \<open>RoleAddMembers\<close> more than one member.

  \<^bold>\<open>What is proved\<close>

  \<^item> Access of clients (\<open>Access\<close>, \<open>FluxMQ\<close>): the broker admits a client to a topic only if it is
    connected to the topic's channel, whatever fails, and exactly then if nothing fails;
    connecting and disconnecting refine a set; disabling and deleting a client take its access
    away, each under a condition that is shown to be needed or follows from the order of the
    calls.
  \<^item> Permissions of users (\<open>Roles\<close>, \<open>RolesRepo\<close>, \<open>Policies\<close>): no sequence of role operations grants
    more than the role rows record, adding roles is all or nothing, the repository refines an
    abstract state of roles and keeps its constraints, policy changes are atomic, entities
    stay in one domain, listings are complete. (What is said of roles leaves out additions whose roll back of
    policies failed as well and said so.)
  \<^item> Groups (\<open>GroupTree\<close>, \<open>GroupCycle\<close>): the operations of the service keep the hierarchy a forest on
    which paths and parents agree, a change of parent adds or removes exactly one edge or does nothing, and three
    operations that are not among them break the agreement: the removal of all children leaves stale
    paths, by which later changes of parent are refused, or a cycle of parents gets in.
  \<^item> Domains (\<open>DomainAccess\<close>, \<open>Invitations\<close>): after a domain was disabled or frozen nobody is
    authorized in it, although its status is cached; invitations move only as a state machine
    allows and only their user answers them; users act in a domain only as its status lets them
    (\<open>DomainGate\<close>).
  \<^item> Users (\<open>UserRights\<close>, \<open>UserTokens\<close>, \<open>UserLimits\<close>): without the rights of an administrator nobody changes
    another account or the own role, verified emails were confirmed or vouched for by an identity provider, a login needs the password of
    an enabled account, the tables stay well formed, generated usernames have their shape.
  \<^item> Alarms (\<open>AlarmLog\<close>): messages consumed in order leave exactly the log of changes of each source;
    no call changes what an alarm reports or makes it active again; users are listed only the
    alarms of rules and domains they have a role in. Operations and permissions
    (\<open>Permissions\<close>): a table that was built has the configured permission of every operation.
  \<^item> Rules (\<open>RuleRuns\<close>, \<open>Schedule\<close>): a tick of the scheduler runs exactly the rules that are due and
    gives them their next time, which is later than the last for every period a column holds; topics
    of rules are filters of MQTT.
  \<^item> Tokens (\<open>Auth\<close>, \<open>Tokens\<close>, \<open>Pats\<close>): a revoked refresh token is refused, created personal
    access tokens identify their user, cached scopes are recorded, issued tokens read back.
  \<^item> Messages and errors (\<open>Topics\<close>, \<open>Authn\<close>, \<open>Connections\<close>, \<open>Errors\<close>): the grammar of topics, round
    trips of topics and credentials, transparency of the topic cache, and what wrapping does
    to the status and the sentinels of an error.
  \<^item> Deviations, proved as theorems of their own: healthcheck topics bypass the channel check, an
    unresolved cache entry reaches a resolving caller, half-made connections block connecting,
    a second cached credential survives disabling, a failed acceptance of an invitation is not
    undone, removed roles and members leave or lose
    relationships, removed scopes stay granted, anybody registers as an administrator, refreshed
    tokens are taken for personal access tokens, deleted users refresh, a failed demotion takes the
    relationship, the removal of deleted users spins, channels escape the status of their domain,
    alarms of other domains can be deleted, the start of a rule is lost, a rule that was scheduled once
    becomes one that messages start, alarms of scheduled rules are refused, and others.

  \<^bold>\<open>Not modelled\<close>

  Paged listings and searches (their SQL spans the tables of several services), the HTTP
  transports, events, metrics, tracing and logging; message transport itself; the services
  around the core: bootstrap, the scripts of rules (third-party interpreters), reports (rendering), certificates
  (calls of a PKI), SDK and command line. Concurrency of requests is not modelled: calls run one after the
  other, with failures and the expiry of cache entries between them, not during them. In particular the rules that one tick
  runs side by side run one after the other; a value set in the topic cache may be lost but does not
  become visible later; and a result that breaks off between two rows is modelled where rows are
  scanned into pages, not where only the first row is looked at.
\<close>

end
